(* ===== verification/Acs_Prelude.thy ===== *)
theory Acs_Prelude
  imports Main "HOL-Library.Word" "HOL-Library.Monad_Syntax" "HOL-Library.State_Monad"
begin

text \<open>
  Shared vocabulary of the development.  It names the machine integers of the C code, gives the
  bit-field macros of \<^verbatim>\<open>val/include/val_interface.h\<close> and
  \<^verbatim>\<open>val/sys_arch_src/smmu_v3/smmu_reg.h\<close>, collects the simplification rules that the component
  theories share (\<open>mask_lits\<close> for the literal masks of the code, \<open>acs_defs\<close> for unfolding the
  operations of a component) and proves the generic lemmas on words, lists and counted loops.
\<close>

unbundle bit_operations_syntax

type_synonym u8 = "8 word"
type_synonym u16 = "16 word"
type_synonym u32 = "32 word"
type_synonym u64 = "64 word"

named_theorems mask_lits \<open>literal masks of the code as \<open>mask n\<close>\<close>
named_theorems acs_defs \<open>definitions unfolded when a component's operation is evaluated\<close>

text \<open>
  C shifts.  \<open>x << n\<close> and \<open>x >> n\<close> on an unsigned type; every use in the code has a shift
  count below the width of the type unless the theory that uses it says otherwise.
\<close>

abbreviation shl :: "'a::len word \<Rightarrow> nat \<Rightarrow> 'a word" where
  "shl x n \<equiv> push_bit n x"

abbreviation shr :: "'a::len word \<Rightarrow> nat \<Rightarrow> 'a word" where
  "shr x n \<equiv> drop_bit n x"

text \<open>
  \<open>VAL_EXTRACT_BITS(data, start, end)\<close>: the bits \<open>start\<close> to \<open>end\<close> of \<open>data\<close>, both included.
\<close>

definition VAL_EXTRACT_BITS :: "'a::len word \<Rightarrow> nat \<Rightarrow> nat \<Rightarrow> 'a word" where
  "VAL_EXTRACT_BITS data start stop = shr data start AND (shl 1 (stop - start + 1) - 1)"

text \<open>
  \<open>BITFIELD_DECL(type, name, msb, lsb)\<close> declares a shift \<open>lsb\<close> and an \<^emph>\<open>unshifted\<close> mask of
  \<open>msb - lsb + 1\<close> ones; \<open>BITFIELD_GET\<close> and \<open>BITFIELD_SET\<close> read and build the field.
\<close>

definition BITFIELD_MASK :: "nat \<Rightarrow> nat \<Rightarrow> 'a::len word" where
  "BITFIELD_MASK msb lsb = shl 1 (msb - lsb + 1) - 1"

definition BITFIELD_GET :: "nat \<Rightarrow> nat \<Rightarrow> 'a::len word \<Rightarrow> 'a word" where
  "BITFIELD_GET msb lsb val = shr val lsb AND BITFIELD_MASK msb lsb"

definition BITFIELD_SET :: "nat \<Rightarrow> nat \<Rightarrow> 'a::len word \<Rightarrow> 'a word" where
  "BITFIELD_SET msb lsb val = shl (val AND BITFIELD_MASK msb lsb) lsb"

subsection \<open>Masks\<close>

lemma push_bit_1_minus_1: "push_bit n 1 - 1 = (mask n :: 'a::len word)"
  by (simp add: mask_eq_exp_minus_1 push_bit_eq_mult)

lemma VAL_EXTRACT_BITS_mask:
  "VAL_EXTRACT_BITS data start stop = take_bit (stop - start + 1) (drop_bit start data)"
  by (simp only: VAL_EXTRACT_BITS_def push_bit_1_minus_1 take_bit_eq_mask)

lemma BITFIELD_MASK_mask: "BITFIELD_MASK msb lsb = mask (msb - lsb + 1)"
  by (simp only: BITFIELD_MASK_def push_bit_1_minus_1)

lemma BITFIELD_GET_take_bit:
  "BITFIELD_GET msb lsb val = take_bit (msb - lsb + 1) (drop_bit lsb val)"
  by (simp add: BITFIELD_GET_def BITFIELD_MASK_mask take_bit_eq_mask)

lemma BITFIELD_SET_push_bit:
  "BITFIELD_SET msb lsb val = push_bit lsb (take_bit (msb - lsb + 1) val)"
  by (simp add: BITFIELD_SET_def BITFIELD_MASK_mask take_bit_eq_mask)

lemma lit_mask_3 [mask_lits]: "(0x3 :: 'a::len word) = mask 2"
  by (simp add: mask_eq_exp_minus_1)

lemma lit_mask_F [mask_lits]: "(0xF :: 'a::len word) = mask 4"
  by (simp add: mask_eq_exp_minus_1)

lemma lit_mask_7F [mask_lits]: "(0x7F :: 'a::len word) = mask 7"
  by (simp add: mask_eq_exp_minus_1)

lemma lit_mask_FF [mask_lits]: "(0xFF :: 'a::len word) = mask 8"
  by (simp add: mask_eq_exp_minus_1)

lemma lit_mask_FFF [mask_lits]: "(0xFFF :: 'a::len word) = mask 12"
  by (simp add: mask_eq_exp_minus_1)

lemma lit_mask_FFFF [mask_lits]: "(0xFFFF :: 'a::len word) = mask 16"
  by (simp add: mask_eq_exp_minus_1)

text \<open>A field written by \<open>BITFIELD_SET\<close> and read back by \<open>BITFIELD_GET\<close>.\<close>

lemma BITFIELD_GET_SET:
  fixes v :: "'a::len word"
  assumes "lsb \<le> msb" and "msb < LENGTH('a)"
  shows "BITFIELD_GET msb lsb (BITFIELD_SET msb lsb v) = take_bit (msb - lsb + 1) v"
  using assms
  by (intro bit_word_eqI) (auto simp: BITFIELD_GET_take_bit BITFIELD_SET_push_bit bit_simps)

lemma bit_VAL_EXTRACT_BITS:
  fixes data :: "'a::len word"
  shows "bit (VAL_EXTRACT_BITS data start stop) n \<longleftrightarrow> n < stop - start + 1 \<and> bit data (start + n)"
  by (auto simp: VAL_EXTRACT_BITS_mask bit_simps dest: bit_imp_le_length)

subsection \<open>Small facts on words\<close>

lemma word_le_of_nat_less:
  "n < 2 ^ LENGTH('a) \<Longrightarrow> unat (of_nat n :: 'a::len word) = n"
  by (simp add: unat_of_nat take_bit_nat_eq_self)

lemma unat_bound: "unat (w :: 'a::len word) < 2 ^ LENGTH('a)"
  by (rule unsigned_less)

lemma unat_Suc_of_nat:
  assumes "Suc n < 2 ^ LENGTH('a)"
  shows "unat (of_nat n + 1 :: 'a::len word) = Suc n"
  using word_le_of_nat_less [OF assms] by (simp add: add.commute)

lemma take_bit_word_less: "n < LENGTH('a) \<Longrightarrow> take_bit n (x :: 'a::len word) < 2 ^ n"
  by (simp add: take_bit_eq_mask and_mask_less')

lemma word_and_mask_le: "(x :: 'a::len word) AND mask n \<le> mask n"
  by (simp add: word_and_le1)

lemma unat_add_u64: "unat x + unat y < 2 ^ 64 \<Longrightarrow> unat (x + y :: u64) = unat x + unat y"
  by (simp add: unat_word_ariths)

lemma unat_shr: "unat (shr (x :: 'a::len word) n) = unat x div 2 ^ n"
  unfolding unat_drop_bit_eq by (simp add: drop_bit_eq_div)

lemma bit_less_exp: "bit (x :: 'a::len word) n \<Longrightarrow> unat x < 2 ^ k \<Longrightarrow> n < k"
proof -
  assume b: "bit x n" and less: "unat x < 2 ^ k"
  have "take_bit k x = x"
    using less by (simp add: word_unat_eq_iff unsigned_take_bit_eq take_bit_nat_eq_self)
  with b show "n < k" by (metis bit_take_bit_iff)
qed

lemma word_eq_zero_unat: "(x :: 'a::len word) = 0 \<longleftrightarrow> unat x = 0"
  by (simp add: unat_eq_0)

lemma unat_pre_decrement: "(w :: 'a::len word) \<noteq> 1 \<Longrightarrow> unat (w - 2) < unat (w - 1)"
  using measure_unat [of "w - 1"] by (simp add: diff_diff_eq)

text \<open>Widening conversions of C keep the value.\<close>

lemma unat_ucast_u32 [simp]: "unat (ucast (x :: u32) :: u64) = unat x"
  using unat_bound [of x] by (simp add: unsigned_ucast_eq take_bit_nat_eq_self)

lemma unat_ucast_u16 [simp]: "unat (ucast (x :: u16) :: u32) = unat x"
  using unat_bound [of x] by (simp add: unsigned_ucast_eq take_bit_nat_eq_self)

lemma unat_ucast_u8 [simp]: "unat (ucast (x :: u8) :: u32) = unat x"
  using unat_bound [of x] by (simp add: unsigned_ucast_eq take_bit_nat_eq_self)

subsection \<open>Indexed tables\<close>

text \<open>
  Reading a C array behind a bounds check of its own: \<open>None\<close> is a read past the end of the
  table.
\<close>

definition nth_opt :: "'a list \<Rightarrow> nat \<Rightarrow> 'a option" where
  "nth_opt xs i = (if i < length xs then Some (xs ! i) else None)"

lemma nth_opt_simps [simp]:
  "nth_opt [] i = None"
  "nth_opt (x # xs) 0 = Some x"
  "nth_opt (x # xs) (Suc i) = nth_opt xs i"
  by (simp_all add: nth_opt_def)

lemma nth_opt_Some_iff: "nth_opt xs i = Some x \<longleftrightarrow> i < length xs \<and> xs ! i = x"
  by (auto simp: nth_opt_def)

lemma nth_opt_None_iff [simp]: "nth_opt xs i = None \<longleftrightarrow> length xs \<le> i"
  by (auto simp: nth_opt_def)

end
