(* ===== verification/Acs_Status.thy ===== *)
theory Acs_Status
  imports Acs_Prelude
begin

text \<open>
  The result words of a test (\<^verbatim>\<open>val/include/bsa_acs_common.h\<close>), the globals of the suite, the
  PE information table and the console and status functions of \<^verbatim>\<open>val/src/acs_status.c\<close>.

  A result word holds the state of a test in bits 31:28, the test number from bit 12 upwards and
  an error value in bits 11:0.  The globals of the C files are the fields of the record \<open>acs\<close>,
  which every operation takes and returns.  The shared memory that the PEs use to report their
  results is raw memory indexed from its base address, as the pointer arithmetic
  \<open>mem + index\<close> of the code does; what lies behind its last entry is memory of somebody else,
  so a write at an index that is not a PE is visible in the model.
\<close>

subsection \<open>Result words\<close>

definition RESULT :: "u32 \<Rightarrow> u32 \<Rightarrow> u32 \<Rightarrow> u32" where
  "RESULT state test_num status = shl state 28 OR shl test_num 12 OR status"

definition BSA_ACS_START :: "u32 \<Rightarrow> u32" where
  "BSA_ACS_START test_num = shl 0x1 28 OR shl test_num 12"

definition BSA_ACS_END :: "u32 \<Rightarrow> u32" where
  "BSA_ACS_END test_num = shl 0x2 28 OR shl test_num 12"

definition RESULT_PASS :: "u32 \<Rightarrow> u32 \<Rightarrow> u32" where
  "RESULT_PASS test_num status = RESULT 0x4 test_num status"

definition RESULT_FAIL :: "u32 \<Rightarrow> u32 \<Rightarrow> u32" where
  "RESULT_FAIL test_num status = RESULT 0x8 test_num status"

definition RESULT_SKIP :: "u32 \<Rightarrow> u32 \<Rightarrow> u32" where
  "RESULT_SKIP test_num status = RESULT 0x9 test_num status"

definition RESULT_PENDING :: "u32 \<Rightarrow> u32" where
  "RESULT_PENDING test_num = shl 0xA 28 OR shl test_num 12"

text \<open>The state field, \<open>(value >> STATE_BIT) & STATE_MASK\<close>, and the tests on it.\<close>

definition STATE_OF :: "u32 \<Rightarrow> u32" where
  "STATE_OF v = shr v 28 AND 0xF"

definition IS_TEST_START :: "u32 \<Rightarrow> bool" where
  "IS_TEST_START v \<longleftrightarrow> STATE_OF v = 0x1"

definition IS_TEST_END :: "u32 \<Rightarrow> bool" where
  "IS_TEST_END v \<longleftrightarrow> STATE_OF v = 0x2"

definition IS_RESULT_PENDING :: "u32 \<Rightarrow> bool" where
  "IS_RESULT_PENDING v \<longleftrightarrow> STATE_OF v = 0xA"

definition IS_TEST_PASS :: "u32 \<Rightarrow> bool" where
  "IS_TEST_PASS v \<longleftrightarrow> STATE_OF v = 0x4"

definition IS_TEST_FAIL :: "u32 \<Rightarrow> bool" where
  "IS_TEST_FAIL v \<longleftrightarrow> STATE_OF v = 0x8"

definition IS_TEST_SKIP :: "u32 \<Rightarrow> bool" where
  "IS_TEST_SKIP v \<longleftrightarrow> STATE_OF v = 0x9"

definition IS_TEST_FAIL_SKIP :: "u32 \<Rightarrow> bool" where
  "IS_TEST_FAIL_SKIP v \<longleftrightarrow> IS_TEST_FAIL v \<or> IS_TEST_SKIP v"

lemmas result_word_defs =
  RESULT_def BSA_ACS_START_def BSA_ACS_END_def RESULT_PASS_def RESULT_FAIL_def RESULT_SKIP_def
  RESULT_PENDING_def

lemmas is_test_defs =
  IS_TEST_START_def IS_TEST_END_def IS_RESULT_PENDING_def IS_TEST_PASS_def IS_TEST_FAIL_def
  IS_TEST_SKIP_def IS_TEST_FAIL_SKIP_def

subsection \<open>Status values and print levels of \<^verbatim>\<open>val_interface.h\<close>\<close>

definition ACS_STATUS_FAIL :: u32 where "ACS_STATUS_FAIL = 0x90000000"
definition ACS_STATUS_ERR :: u32 where "ACS_STATUS_ERR = 0xEDCB1234"
definition ACS_STATUS_SKIP :: u32 where "ACS_STATUS_SKIP = 0x10000000"
definition ACS_STATUS_PASS :: u32 where "ACS_STATUS_PASS = 0x0"
definition ACS_INVALID_INDEX :: u32 where "ACS_INVALID_INDEX = 0xFFFFFFFF"

lemmas acs_status_defs [simp] =
  ACS_STATUS_FAIL_def ACS_STATUS_ERR_def ACS_STATUS_SKIP_def ACS_STATUS_PASS_def
  ACS_INVALID_INDEX_def

definition ACS_PRINT_ERR :: u32 where "ACS_PRINT_ERR = 5"
definition ACS_PRINT_WARN :: u32 where "ACS_PRINT_WARN = 4"
definition ACS_PRINT_TEST :: u32 where "ACS_PRINT_TEST = 3"
definition ACS_PRINT_DEBUG :: u32 where "ACS_PRINT_DEBUG = 2"
definition ACS_PRINT_INFO :: u32 where "ACS_PRINT_INFO = 1"

lemmas acs_print_defs =
  ACS_PRINT_ERR_def ACS_PRINT_WARN_def ACS_PRINT_TEST_def ACS_PRINT_DEBUG_def ACS_PRINT_INFO_def

subsection \<open>Globals\<close>

record VAL_SHARED_MEM_t =
  data0 :: u64
  data1 :: u64
  shm_status :: u32

record PE_INFO_ENTRY =
  pe_num :: u32
  pe_attr :: u32
  mpidr :: u64
  pmu_gsiv :: u32
  gmain_gsiv :: u32

record PE_INFO_TABLE =
  num_of_pe :: u32
  pe_info :: "PE_INFO_ENTRY list"

text \<open>
  \<open>MPIDR\<close> is the value that the running PE reads from its register \<open>MPIDR_EL1\<close>; \<open>console\<close> is
  what has reached \<open>pal_print\<close>, oldest first; \<open>smc_Arg0\<close> and \<open>smc_Arg1\<close> are the two arguments of
  \<open>g_smc_args\<close> that the code uses; \<open>bsa_gic_imp\<close> is the platform's answer to
  \<open>pal_bsa_gic_imp()\<close>; \<open>g_esr_handler\<close> holds the name of the handler installed for each exception
  type; \<open>ELR\<close> is the exception link register and \<open>stack_mem\<close> the stack of the application, one
  64-bit cell per address.  The record is extensible: code outside the suite (firmware,
  the other PEs) keeps its own state in the extension.
\<close>

record acs =
  g_print_level :: u32
  g_skip_test_num :: "u32 list"
  g_bsa_tests_total :: u32
  g_bsa_tests_pass :: u32
  g_bsa_tests_fail :: u32
  g_pe_info_table :: "PE_INFO_TABLE option"
  shared_mem :: "u32 \<Rightarrow> VAL_SHARED_MEM_t"
  MPIDR :: u64
  smc_Arg0 :: u64
  smc_Arg1 :: u64
  console :: "(string \<times> u64) list"
  bsa_gic_imp :: bool
  g_esr_handler :: "u32 \<Rightarrow> string option"
  ELR :: u64
  g_stack_pointer :: u64
  g_exception_ret_addr :: u64
  g_ret_addr :: u64
  stack_mem :: "u64 \<Rightarrow> u64"

subsection \<open>Console\<close>

definition val_print :: "u32 \<Rightarrow> string \<Rightarrow> u64 \<Rightarrow> 'x acs_scheme \<Rightarrow> 'x acs_scheme" where
  "val_print level str data s =
     (if level \<ge> g_print_level s then s\<lparr>console := console s @ [(str, data)]\<rparr> else s)"

subsection \<open>PE identification\<close>

text \<open>\<open>val_pe_get_num\<close> and the affinity bits of the running PE.\<close>

definition val_pe_get_num :: "'x acs_scheme \<Rightarrow> u32" where
  "val_pe_get_num s = (case g_pe_info_table s of None \<Rightarrow> 0 | Some t \<Rightarrow> num_of_pe t)"

definition MPIDR_AFF_MASK :: u64 where
  "MPIDR_AFF_MASK = 0xFF00FFFFFF"

definition val_pe_get_mpid :: "'x acs_scheme \<Rightarrow> u64" where
  "val_pe_get_mpid s = MPIDR s AND MPIDR_AFF_MASK"

text \<open>
  The search of \<open>val_pe_get_index_mpid\<close>: a counter \<open>i\<close> that starts at \<open>num_of_pe\<close> and a pointer
  into the entries.  \<open>None\<close> is a read past the entries of the table.
\<close>

fun pe_index_loop :: "u64 \<Rightarrow> nat \<Rightarrow> PE_INFO_ENTRY list \<Rightarrow> u32 option" where
  "pe_index_loop mpid 0 es = Some 0"
| "pe_index_loop mpid (Suc i) [] = None"
| "pe_index_loop mpid (Suc i) (e # es) =
     (if mpidr e = mpid then Some (pe_num e) else pe_index_loop mpid i es)"

definition val_pe_get_index_mpid :: "'x acs_scheme \<Rightarrow> u64 \<Rightarrow> u32 option" where
  "val_pe_get_index_mpid s mpid =
     (case g_pe_info_table s of
        None \<Rightarrow> None
      | Some t \<Rightarrow> pe_index_loop mpid (unat (num_of_pe t)) (pe_info t))"

text \<open>\<open>val_pe_get_index_mpid(val_pe_get_mpid())\<close>, the index of the running PE.\<close>

definition my_index :: "'x acs_scheme \<Rightarrow> u32 option" where
  "my_index s = val_pe_get_index_mpid s (val_pe_get_mpid s)"

subsection \<open>Status reporting, \<^verbatim>\<open>val/src/acs_status.c\<close>\<close>

definition STATUS_MASK :: u32 where
  "STATUS_MASK = 0xFFF"

definition nl :: string where
  "nl = [CHR 0x0A]"

definition val_report_status :: "u32 \<Rightarrow> u32 \<Rightarrow> 'x acs_scheme \<Rightarrow> 'x acs_scheme" where
  "val_report_status index status s =
     (let s1 = (if IS_TEST_FAIL status
                then val_print ACS_PRINT_ERR
                       (nl @ ''       Failed on PE - %4d                        '') (ucast index) s else s)
      in if IS_TEST_PASS status then val_print ACS_PRINT_TEST ('': Result:  PASS '' @ nl) (ucast status) s1
         else if IS_TEST_FAIL status then
           val_print ACS_PRINT_ERR ('': Result:  --FAIL-- %x '' @ nl) (ucast (status AND STATUS_MASK)) s1
         else if IS_TEST_SKIP status then
           val_print ACS_PRINT_WARN ('': Result:  -SKIPPED- %x '' @ nl) (ucast (status AND STATUS_MASK)) s1
         else if IS_TEST_START status then val_print ACS_PRINT_INFO ''         START  '' (ucast status) s1
         else if IS_TEST_END status then val_print ACS_PRINT_INFO (''         END  '' @ nl @ nl) (ucast status) s1
         else val_print ACS_PRINT_ERR ('': Result:  %8x  '' @ nl) (ucast status) s1)"

definition val_set_status :: "u32 \<Rightarrow> u32 \<Rightarrow> 'x acs_scheme \<Rightarrow> 'x acs_scheme" where
  "val_set_status index status s =
     s\<lparr>shared_mem := (shared_mem s)(index := (shared_mem s index)\<lparr>shm_status := status\<rparr>)\<rparr>"

definition val_get_status :: "u32 \<Rightarrow> 'x acs_scheme \<Rightarrow> u32" where
  "val_get_status index s = shm_status (shared_mem s index)"

subsection \<open>Lemmas on result words\<close>

text \<open>
  The state field of a word built by \<open>RESULT\<close>, when the test number has at most 16 bits and the
  error value at most 12 bits.
\<close>

lemma RESULT_PENDING_RESULT: "RESULT_PENDING test_num = RESULT 0xA test_num 0"
  by (simp add: RESULT_PENDING_def RESULT_def)

lemma STATE_OF_RESULT:
  assumes "test_num < 0x10000" and "status < 0x1000" and "st < 0x10"
  shows "STATE_OF (RESULT st test_num status) = st"
proof -
  have t: "unat test_num < 2 ^ 16" "unat status < 2 ^ 12" "unat st < 2 ^ 4"
    using assms by (simp_all add: word_less_nat_alt)
  show ?thesis
    by (rule bit_word_eqI)
       (use bit_less_exp [OF _ t(1)] bit_less_exp [OF _ t(2)] bit_less_exp [OF _ t(3)] in
        \<open>fastforce simp: STATE_OF_def RESULT_def mask_lits bit_simps\<close>)
qed

lemma RESULT_status_field:
  assumes "status < 0x1000"
  shows "RESULT st test_num status AND STATUS_MASK = status"
proof -
  have t: "unat status < 2 ^ 12"
    using assms by (simp add: word_less_nat_alt)
  show ?thesis
    by (rule bit_word_eqI)
       (use bit_less_exp [OF _ t] in \<open>fastforce simp: STATUS_MASK_def RESULT_def mask_lits bit_simps\<close>)
qed

lemma RESULT_test_num_field:
  assumes "test_num < 0x10000" and "status < 0x1000"
  shows "shr (RESULT st test_num status) 12 AND 0xFFFF = test_num"
proof -
  have t: "unat test_num < 2 ^ 16" "unat status < 2 ^ 12"
    using assms by (simp_all add: word_less_nat_alt)
  show ?thesis
    by (rule bit_word_eqI)
       (use bit_less_exp [OF _ t(1)] bit_less_exp [OF _ t(2)] in
        \<open>fastforce simp: RESULT_def mask_lits bit_simps\<close>)
qed

subsection \<open>Frame lemmas\<close>

lemma val_print_frame [simp]:
  "g_print_level (val_print l m d s) = g_print_level s"
  "g_skip_test_num (val_print l m d s) = g_skip_test_num s"
  "g_bsa_tests_total (val_print l m d s) = g_bsa_tests_total s"
  "g_bsa_tests_pass (val_print l m d s) = g_bsa_tests_pass s"
  "g_bsa_tests_fail (val_print l m d s) = g_bsa_tests_fail s"
  "g_pe_info_table (val_print l m d s) = g_pe_info_table s"
  "shared_mem (val_print l m d s) = shared_mem s"
  "MPIDR (val_print l m d s) = MPIDR s"
  "smc_Arg0 (val_print l m d s) = smc_Arg0 s"
  by (simp_all add: val_print_def)

lemma val_report_status_frame [simp]:
  "g_print_level (val_report_status i st s) = g_print_level s"
  "g_skip_test_num (val_report_status i st s) = g_skip_test_num s"
  "g_bsa_tests_total (val_report_status i st s) = g_bsa_tests_total s"
  "g_bsa_tests_pass (val_report_status i st s) = g_bsa_tests_pass s"
  "g_bsa_tests_fail (val_report_status i st s) = g_bsa_tests_fail s"
  "g_pe_info_table (val_report_status i st s) = g_pe_info_table s"
  "shared_mem (val_report_status i st s) = shared_mem s"
  "MPIDR (val_report_status i st s) = MPIDR s"
  "smc_Arg0 (val_report_status i st s) = smc_Arg0 s"
  by (simp_all add: val_report_status_def Let_def)

lemma val_set_status_frame [simp]:
  "g_print_level (val_set_status i st s) = g_print_level s"
  "g_skip_test_num (val_set_status i st s) = g_skip_test_num s"
  "g_bsa_tests_total (val_set_status i st s) = g_bsa_tests_total s"
  "g_bsa_tests_pass (val_set_status i st s) = g_bsa_tests_pass s"
  "g_bsa_tests_fail (val_set_status i st s) = g_bsa_tests_fail s"
  "g_pe_info_table (val_set_status i st s) = g_pe_info_table s"
  "MPIDR (val_set_status i st s) = MPIDR s"
  "smc_Arg0 (val_set_status i st s) = smc_Arg0 s"
  "console (val_set_status i st s) = console s"
  by (simp_all add: val_set_status_def)

lemma val_get_set_status [simp]:
  "val_get_status j (val_set_status i st s) = (if i = j then st else val_get_status j s)"
  by (simp add: val_get_status_def val_set_status_def)

lemma val_get_status_frame [simp]:
  "val_get_status j (val_print l m d s) = val_get_status j s"
  "val_get_status j (val_report_status i st s) = val_get_status j s"
  by (simp_all add: val_get_status_def)

lemma pe_index_loop_Some:
  "n \<le> length es \<Longrightarrow> \<exists>i. pe_index_loop mpid n es = Some i"
  by (induction mpid n es rule: pe_index_loop.induct) auto

end
