(* ===== verification/Acs_Infra.thy ===== *)
theory Acs_Infra
  imports Acs_Status
begin

text \<open>
  The test infrastructure: \<^verbatim>\<open>val/src/acs_test_infra.c\<close> (start of a test, shared test data, waiting
  for the PEs, running a payload, the verdict of a test) and \<^verbatim>\<open>val/src/acs_pe_infra.c\<close> (PE
  table, PSCI start of a secondary PE, exception handlers, cache maintenance by range).

  What the firmware and the other PEs do is a parameter: \<open>smc\<close> is the effect of the SMC that
  \<open>pal_pe_execute_payload\<close> makes (it leaves the return code in \<open>smc_Arg0\<close>), \<open>env\<close> is what the other
  PEs do to the shared memory between two reads of the waiting loop.  \<open>None\<close> as a result is an
  access outside the PE table or through a table pointer that is \<open>NULL\<close>.
\<close>

subsection \<open>PE table accessors\<close>

definition pe_entry_field :: "(PE_INFO_ENTRY \<Rightarrow> 'v) \<Rightarrow> 'v \<Rightarrow> u32 \<Rightarrow> 'x acs_scheme
    \<Rightarrow> ('v \<times> 'x acs_scheme) option" where
  "pe_entry_field fld bad index s =
     (case g_pe_info_table s of
        None \<Rightarrow> None
      | Some t \<Rightarrow>
          if index > num_of_pe t then Some (bad, val_report_status index (RESULT_FAIL 0 0xFF) s)
          else map_option (\<lambda>e. (fld e, s)) (nth_opt (pe_info t) (unat index)))"

definition val_pe_get_mpid_index :: "u32 \<Rightarrow> 'x acs_scheme \<Rightarrow> (u64 \<times> 'x acs_scheme) option" where
  "val_pe_get_mpid_index index s = pe_entry_field mpidr 0xFFFFFF index s"

definition val_pe_get_pmu_gsiv :: "u32 \<Rightarrow> 'x acs_scheme \<Rightarrow> (u32 \<times> 'x acs_scheme) option" where
  "val_pe_get_pmu_gsiv index s = pe_entry_field pmu_gsiv 0xFFFFFF index s"

definition val_pe_get_gmain_gsiv :: "u32 \<Rightarrow> 'x acs_scheme \<Rightarrow> (u32 \<times> 'x acs_scheme) option" where
  "val_pe_get_gmain_gsiv index s = pe_entry_field gmain_gsiv 0xFFFFFF index s"

text \<open>
  \<open>val_pe_create_info_table\<close>: \<open>tbl\<close> is the memory passed by the caller after
  \<open>pal_pe_create_info_table\<close> has filled it (\<open>None\<close> for a \<open>NULL\<close> pointer).
\<close>

definition val_pe_create_info_table :: "PE_INFO_TABLE option \<Rightarrow> 'x acs_scheme
    \<Rightarrow> u32 \<times> 'x acs_scheme" where
  "val_pe_create_info_table tbl s =
     (case tbl of
        None \<Rightarrow> (ACS_STATUS_ERR,
          val_print ACS_PRINT_ERR (''Input memory for PE Info table cannot be NULL '' @ nl) 0 s)
      | Some t \<Rightarrow>
          let s1 = s\<lparr>g_pe_info_table := Some t\<rparr>;
              s2 = val_print ACS_PRINT_TEST ('' PE_INFO: Number of PE detected       : %4d '' @ nl)
                     (ucast (val_pe_get_num s1)) s1
          in if val_pe_get_num s2 = 0
             then (ACS_STATUS_ERR, val_print ACS_PRINT_ERR
                    (nl @ '' *** CRITICAL ERROR: Num PE is 0x0 ***'' @ nl) 0 s2)
             else (ACS_STATUS_PASS, s2))"

subsection \<open>Exception handlers and context\<close>

definition val_gic_bsa_install_esr :: "u32 \<Rightarrow> string \<Rightarrow> 'x acs_scheme \<Rightarrow> 'x acs_scheme" where
  "val_gic_bsa_install_esr ty esr s = s\<lparr>g_esr_handler := (g_esr_handler s)(ty := Some esr)\<rparr>"

text \<open>\<open>pal_install\<close> stands for \<open>pal_pe_install_esr\<close>, which registers with the UEFI CPU driver.\<close>

definition val_pe_install_esr :: "(u32 \<Rightarrow> string \<Rightarrow> 'x acs_scheme \<Rightarrow> 'x acs_scheme) \<Rightarrow> u32 \<Rightarrow> string
    \<Rightarrow> 'x acs_scheme \<Rightarrow> u32 \<times> 'x acs_scheme" where
  "val_pe_install_esr pal_install ty esr s =
     (if ty > 3
      then (ACS_STATUS_ERR,
            val_print ACS_PRINT_ERR (''Invalid Exception type %x '' @ nl) (ucast ty) s)
      else (0, if bsa_gic_imp s then val_gic_bsa_install_esr ty esr s else pal_install ty esr s))"

definition val_pe_initialize_default_exception_handler ::
  "(u32 \<Rightarrow> string \<Rightarrow> 'x acs_scheme \<Rightarrow> 'x acs_scheme) \<Rightarrow> string \<Rightarrow> 'x acs_scheme \<Rightarrow> 'x acs_scheme" where
  "val_pe_initialize_default_exception_handler pal_install esr s =
     snd (val_pe_install_esr pal_install 0 esr s)"

definition val_pe_context_save :: "u64 \<Rightarrow> u64 \<Rightarrow> 'x acs_scheme \<Rightarrow> 'x acs_scheme" where
  "val_pe_context_save sp elr s =
     s\<lparr>g_stack_pointer := sp, g_exception_ret_addr := elr, g_ret_addr := stack_mem s (sp + 8)\<rparr>"

definition val_pe_context_restore :: "u64 \<Rightarrow> 'x acs_scheme \<Rightarrow> 'x acs_scheme" where
  "val_pe_context_restore sp s =
     s\<lparr>stack_mem := (stack_mem s)(g_stack_pointer s + 8 := g_ret_addr s)\<rparr>"

definition val_pe_update_elr :: "u64 \<Rightarrow> 'x acs_scheme \<Rightarrow> 'x acs_scheme" where
  "val_pe_update_elr offset s = s\<lparr>ELR := offset\<rparr>"

text \<open>\<open>far\<close> and \<open>esr\<close> are the fault address and syndrome of the exception that was taken.\<close>

definition val_pe_default_esr :: "u64 \<Rightarrow> u64 \<Rightarrow> 'x acs_scheme \<Rightarrow> 'x acs_scheme option" where
  "val_pe_default_esr far esr s = do {
     index \<leftarrow> my_index s;
     let s1 = val_print ACS_PRINT_WARN (nl @ ''        Unexpected exception occured'') 0 s;
     let s2 = val_print ACS_PRINT_WARN (nl @ ''        FAR reported = 0x%llx'') far s1;
     let s3 = val_print ACS_PRINT_WARN (nl @ ''        ESR reported = 0x%llx'') esr s2;
     let s4 = val_set_status index (RESULT_FAIL 0 1) s3;
     Some (val_pe_update_elr (g_exception_ret_addr s4) s4) }"

subsection \<open>Start of a test\<close>

definition set_pending :: "u32 \<Rightarrow> u32 \<Rightarrow> 'x acs_scheme \<Rightarrow> 'x acs_scheme" where
  "set_pending test_num num_pe s =
     fold (\<lambda>i. val_set_status (of_nat i) (RESULT_PENDING test_num)) [0..<unat num_pe] s"

definition val_initialize_test :: "(u32 \<Rightarrow> string \<Rightarrow> 'x acs_scheme \<Rightarrow> 'x acs_scheme) \<Rightarrow> u32 \<Rightarrow> string
    \<Rightarrow> u32 \<Rightarrow> 'x acs_scheme \<Rightarrow> (u32 \<times> 'x acs_scheme) option" where
  "val_initialize_test pal_install test_num desc num_pe s = do {
     index \<leftarrow> my_index s;
     let s1 = val_print ACS_PRINT_ERR ''%4d : '' (ucast test_num) s;
     let s2 = val_print ACS_PRINT_TEST desc 0 s1;
     let s3 = val_report_status 0 (BSA_ACS_START test_num) s2;
     let s4 = val_pe_initialize_default_exception_handler pal_install ''val_pe_default_esr'' s3;
     let s5 = s4\<lparr>g_bsa_tests_total := g_bsa_tests_total s4 + 1\<rparr>;
     let s6 = set_pending test_num num_pe s5;
     Some (if test_num \<in> set (g_skip_test_num s6)
           then (ACS_STATUS_SKIP, val_set_status index (RESULT_SKIP test_num 0)
                   (val_print ACS_PRINT_TEST (nl @ ''       USER OVERRIDE  - Skip Test        '') 0 s6))
           else (ACS_STATUS_PASS, s6)) }"

subsection \<open>Shared test data\<close>

definition bad_index :: "u32 \<Rightarrow> 'x acs_scheme \<Rightarrow> 'x acs_scheme" where
  "bad_index index s = val_print ACS_PRINT_ERR (nl @ '' Incorrect PE index = %d'') (ucast index) s"

definition val_set_test_data :: "u32 \<Rightarrow> u64 \<Rightarrow> u64 \<Rightarrow> 'x acs_scheme \<Rightarrow> 'x acs_scheme" where
  "val_set_test_data index addr test_data s =
     (if index > val_pe_get_num s then bad_index index s
      else s\<lparr>shared_mem := (shared_mem s)(index :=
             (shared_mem s index)\<lparr>data0 := addr, data1 := test_data\<rparr>)\<rparr>)"

text \<open>The two output parameters keep their old contents \<open>old\<close> when the index is refused.\<close>

definition val_get_test_data :: "u32 \<Rightarrow> u64 \<times> u64 \<Rightarrow> 'x acs_scheme \<Rightarrow> (u64 \<times> u64) \<times> 'x acs_scheme" where
  "val_get_test_data index old s =
     (if index > val_pe_get_num s then (old, bad_index index s)
      else ((data0 (shared_mem s index), data1 (shared_mem s index)), s))"

subsection \<open>Waiting for the PEs\<close>

definition scan_step :: "('x acs_scheme \<Rightarrow> 'x acs_scheme) \<Rightarrow> nat \<Rightarrow> u32 \<times> 'x acs_scheme
    \<Rightarrow> u32 \<times> 'x acs_scheme" where
  "scan_step env i jt =
     (let t' = env (snd jt)
      in (if IS_RESULT_PENDING (val_get_status (of_nat i) t') then of_nat i + 1 else fst jt, t'))"

definition wait_scan :: "('x acs_scheme \<Rightarrow> 'x acs_scheme) \<Rightarrow> u32 \<Rightarrow> 'x acs_scheme
    \<Rightarrow> u32 \<times> 'x acs_scheme" where
  "wait_scan env num_pe s = fold (scan_step env) [0..<unat num_pe] (0, s)"

text \<open>
  \<open>while(--timeout)\<close>: the result is the last value of \<open>j\<close> (0 when every PE has reported) with
  the state, and whether the loop was left because the timeout expired.
\<close>

function wait_loop :: "('x acs_scheme \<Rightarrow> 'x acs_scheme) \<Rightarrow> u32 \<Rightarrow> u32 \<Rightarrow> u32 \<Rightarrow> 'x acs_scheme
    \<Rightarrow> bool \<times> u32 \<times> 'x acs_scheme" where
  "wait_loop env num_pe timeout j s =
     (if timeout - 1 = 0 then (True, j, s)
      else case wait_scan env num_pe s of
             (j', s') \<Rightarrow> if j' = 0 then (False, j', s')
                         else wait_loop env num_pe (timeout - 1) j' s')"
  by pat_completeness auto
termination
  by (relation "measure (\<lambda>(env, num_pe, timeout, j, s). unat (timeout - 1))")
     (auto simp: unat_pre_decrement)

declare wait_loop.simps [simp del]

definition val_wait_for_test_completion :: "('x acs_scheme \<Rightarrow> 'x acs_scheme) \<Rightarrow> u32 \<Rightarrow> u32 \<Rightarrow> u32
    \<Rightarrow> 'x acs_scheme \<Rightarrow> 'x acs_scheme" where
  "val_wait_for_test_completion env test_num num_pe timeout s =
     (if num_pe = 1 then s
      else case wait_loop env num_pe timeout 0 s of
             (expired, j, s') \<Rightarrow>
               if expired then val_set_status (j - 1) (RESULT_FAIL test_num 0xF) s' else s')"

subsection \<open>Running a payload\<close>

definition PSCI_RET_ALREADY_ON :: u64 where
  "PSCI_RET_ALREADY_ON = - 4"

definition PSCI_CPU_ON_AARCH64 :: u64 where
  "PSCI_CPU_ON_AARCH64 = 0xc4000003"

text \<open>
  The \<open>do \<dots> while (\<dots> && timeout--)\<close> loop of \<open>val_execute_on_pe\<close>; \<open>timeout\<close> is an \<open>int\<close> that starts at
  \<open>TIMEOUT_LARGE\<close>, so it never goes below 0 here.
\<close>

fun cpu_on_loop :: "('x acs_scheme \<Rightarrow> 'x acs_scheme) \<Rightarrow> u32 \<Rightarrow> u64 \<Rightarrow> u64 \<Rightarrow> nat \<Rightarrow> 'x acs_scheme
    \<Rightarrow> 'x acs_scheme option" where
  "cpu_on_loop smc index payload test_input timeout s = do {
     (m, s1) \<leftarrow> val_pe_get_mpid_index index (s\<lparr>smc_Arg0 := PSCI_CPU_ON_AARCH64\<rparr>);
     let s2 = smc (val_set_test_data index payload test_input (s1\<lparr>smc_Arg1 := m\<rparr>));
     if smc_Arg0 s2 = PSCI_RET_ALREADY_ON \<and> timeout \<noteq> 0
     then cpu_on_loop smc index payload test_input (timeout - 1) s2
     else Some s2 }"

declare cpu_on_loop.simps [simp del]

definition TIMEOUT_LARGE :: nat where
  "TIMEOUT_LARGE = 0x1000000"

definition val_execute_on_pe :: "('x acs_scheme \<Rightarrow> 'x acs_scheme) \<Rightarrow> u32 \<Rightarrow> u64 \<Rightarrow> u64
    \<Rightarrow> 'x acs_scheme \<Rightarrow> 'x acs_scheme option" where
  "val_execute_on_pe smc index payload test_input s =
     (case g_pe_info_table s of
        None \<Rightarrow> None
      | Some t \<Rightarrow>
          if index > num_of_pe t
          then Some (val_report_status index (RESULT_FAIL 0 0xFF)
                 (val_print ACS_PRINT_ERR (''Input Index exceeds Num of PE %x '' @ nl) (ucast index) s))
          else do {
            s1 \<leftarrow> cpu_on_loop smc index payload test_input TIMEOUT_LARGE s;
            let fail = (\<lambda>u. val_set_status index (RESULT_FAIL 0 (0x120 - ucast (smc_Arg0 s1))) u);
            Some (if smc_Arg0 s1 = PSCI_RET_ALREADY_ON
                  then fail (val_print ACS_PRINT_ERR
                              (''       PSCI_CPU_ON: cpu already on  '' @ nl) 0 s1)
                  else if smc_Arg0 s1 = 0
                  then val_print ACS_PRINT_INFO (''       PSCI_CPU_ON: success  '' @ nl) 0 s1
                  else fail (val_print ACS_PRINT_ERR
                              (''       PSCI_CPU_ON: failure[%d]  '' @ nl) (smc_Arg0 s1) s1)) })"

text \<open>
  \<open>payload\<close> runs the test function on the PE that calls it; \<open>paddr\<close> is its address, which the
  other PEs get through the shared memory.
\<close>

fun run_on_others :: "('x acs_scheme \<Rightarrow> 'x acs_scheme) \<Rightarrow> u32 \<Rightarrow> u64 \<Rightarrow> u64 \<Rightarrow> nat list
    \<Rightarrow> 'x acs_scheme \<Rightarrow> 'x acs_scheme option" where
  "run_on_others smc my paddr test_input [] s = Some s"
| "run_on_others smc my paddr test_input (i # is) s =
     (if of_nat i \<noteq> my
      then Option.bind (val_execute_on_pe smc (of_nat i) paddr test_input s)
             (run_on_others smc my paddr test_input is)
      else run_on_others smc my paddr test_input is s)"

definition val_run_test_payload :: "('x acs_scheme \<Rightarrow> 'x acs_scheme) \<Rightarrow> ('x acs_scheme \<Rightarrow> 'x acs_scheme)
    \<Rightarrow> u32 \<Rightarrow> u32 \<Rightarrow> ('x acs_scheme \<Rightarrow> 'x acs_scheme) \<Rightarrow> u64 \<Rightarrow> u64 \<Rightarrow> 'x acs_scheme
    \<Rightarrow> 'x acs_scheme option" where
  "val_run_test_payload smc env test_num num_pe payload paddr test_input s = do {
     my \<leftarrow> my_index s;
     let s1 = payload s;
     if num_pe = 1 then Some s1
     else do {
       s2 \<leftarrow> run_on_others smc my paddr test_input [0..<unat num_pe] s1;
       Some (val_wait_for_test_completion env test_num num_pe (of_nat TIMEOUT_LARGE) s2) } }"

text \<open>
  \<open>val_test_entry\<close>, the code that the secondary PE runs: \<open>vector\<close> calls the function at the address
  it read, \<open>smc\<close> switches the PE off.
\<close>

definition PSCI_CPU_OFF :: u64 where
  "PSCI_CPU_OFF = 0x84000002"

definition val_test_entry :: "(u64 \<Rightarrow> u64 \<Rightarrow> 'x acs_scheme \<Rightarrow> 'x acs_scheme)
    \<Rightarrow> (u64 \<Rightarrow> u64 \<Rightarrow> 'x acs_scheme \<Rightarrow> 'x acs_scheme) \<Rightarrow> u64 \<times> u64 \<Rightarrow> 'x acs_scheme
    \<Rightarrow> 'x acs_scheme option" where
  "val_test_entry vector smc old s = do {
     index \<leftarrow> my_index s;
     let ((addr, test_arg), s1) = val_get_test_data index old s;
     let s2 = vector addr test_arg s1;
     Some (smc PSCI_CPU_OFF (val_pe_get_mpid s2) s2) }"

subsection \<open>The verdict of a test\<close>

definition verdict :: "u32 \<Rightarrow> 'x acs_scheme \<Rightarrow> u32 \<times> 'x acs_scheme" where
  "verdict status s =
     (if IS_TEST_PASS status
      then (ACS_STATUS_PASS, s\<lparr>g_bsa_tests_pass := g_bsa_tests_pass s + 1\<rparr>)
      else if IS_TEST_SKIP status then (ACS_STATUS_SKIP, s)
      else (ACS_STATUS_FAIL, s\<lparr>g_bsa_tests_fail := g_bsa_tests_fail s + 1\<rparr>))"

text \<open>
  The scan of \<open>val_check_for_error\<close>: it stops at the first PE that failed or skipped.  The result is
  the index at which it stopped, if it did, and the last status word read.
\<close>

fun error_scan :: "'x acs_scheme \<Rightarrow> nat list \<Rightarrow> u32 \<Rightarrow> u32 option \<times> u32" where
  "error_scan s [] status = (None, status)"
| "error_scan s (i # is) status =
     (let st = val_get_status (of_nat i) s
      in if IS_TEST_FAIL_SKIP st then (Some (of_nat i), st) else error_scan s is st)"

definition val_check_for_error :: "u32 \<Rightarrow> u32 \<Rightarrow> 'x acs_scheme \<Rightarrow> (u32 \<times> 'x acs_scheme) option" where
  "val_check_for_error test_num num_pe s = do {
     my \<leftarrow> my_index s;
     if num_pe = 1
     then let status = val_get_status my s in Some (verdict status (val_report_status my status s))
     else case error_scan s [0..<unat num_pe] 0 of
            (Some i, status) \<Rightarrow> Some (verdict status (val_report_status i status s))
          | (None, status) \<Rightarrow> Some (verdict status (val_report_status my status s)) }"

subsection \<open>Cache maintenance by range\<close>

text \<open>
  \<open>val_pe_cache_clean_range\<close> as the list of addresses it cleans; \<open>ctr\<close> is the value of \<open>CTR_EL0\<close>.
  \<open>None\<close> is a loop that does not end (the address wraps around before it reaches the end).
\<close>

definition clean_line_length :: "u64 \<Rightarrow> u64" where
  "clean_line_length ctr = shl 2 (unat (shr ctr 16 AND 0xF))"

partial_function (option) clean_loop :: "u64 \<Rightarrow> u64 \<Rightarrow> u64 \<Rightarrow> u64 list \<Rightarrow> u64 list option" where
  "clean_loop line end_addr addr acc =
     (if addr < end_addr then clean_loop line end_addr (addr + line) (addr # acc)
      else Some (rev acc))"

definition val_pe_cache_clean_range :: "u64 \<Rightarrow> u64 \<Rightarrow> u64 \<Rightarrow> u64 list option" where
  "val_pe_cache_clean_range ctr start_addr len =
     (let line = clean_line_length ctr;
          aligned = start_addr - (start_addr AND (line - 1))
      in clean_loop line (start_addr + len) aligned [])"


subsection \<open>Lemmas: start of a test\<close>

lemma set_pending_Suc_fold:
  "n < 2 ^ 32 \<Longrightarrow>
   val_get_status j (fold (\<lambda>i. val_set_status (of_nat i) w) [0..<n] s) =
     (if unat j < n then w else val_get_status j s)"
proof (induction n)
  case (Suc n)
  then have "(of_nat n = j) = (unat j = n)"
    by (auto simp: word_le_of_nat_less)
  with Suc show ?case by (auto simp: less_Suc_eq)
qed simp

lemma val_get_status_set_pending [simp]:
  "val_get_status j (set_pending test_num num_pe s) =
     (if j < num_pe then RESULT_PENDING test_num else val_get_status j s)"
  using unat_bound [of num_pe]
  by (simp add: set_pending_def set_pending_Suc_fold word_less_nat_alt)

lemma fold_frame:
  "(\<And>i t. f (g i t) = f t) \<Longrightarrow> f (fold g xs s) = f s"
  by (induction xs arbitrary: s) auto

lemma set_pending_frame [simp]:
  "g_skip_test_num (set_pending t n s) = g_skip_test_num s"
  "g_bsa_tests_total (set_pending t n s) = g_bsa_tests_total s"
  "g_bsa_tests_pass (set_pending t n s) = g_bsa_tests_pass s"
  "g_bsa_tests_fail (set_pending t n s) = g_bsa_tests_fail s"
  "g_pe_info_table (set_pending t n s) = g_pe_info_table s"
  "MPIDR (set_pending t n s) = MPIDR s"
  by (simp_all add: set_pending_def fold_frame)

text \<open>
  What the suite relies on when the platform installs an exception handler: the handler table is
  the firmware's, so the result words, the counters and the skip list stay as they are.
\<close>

definition handler_installer :: "(u32 \<Rightarrow> string \<Rightarrow> 'x acs_scheme \<Rightarrow> 'x acs_scheme) \<Rightarrow> bool" where
  "handler_installer pal_install \<longleftrightarrow>
     (\<forall>ty h u. shared_mem (pal_install ty h u) = shared_mem u \<and>
        g_bsa_tests_total (pal_install ty h u) = g_bsa_tests_total u \<and>
        g_skip_test_num (pal_install ty h u) = g_skip_test_num u)"

lemma default_handler_frame:
  assumes "handler_installer pal_install"
  shows "g_bsa_tests_total (val_pe_initialize_default_exception_handler pal_install h s) =
           g_bsa_tests_total s"
    and "g_skip_test_num (val_pe_initialize_default_exception_handler pal_install h s) =
           g_skip_test_num s"
    and "val_get_status i (val_pe_initialize_default_exception_handler pal_install h s) =
           val_get_status i s"
  using assms
  by (auto simp: val_pe_initialize_default_exception_handler_def val_pe_install_esr_def
      val_gic_bsa_install_esr_def handler_installer_def val_get_status_def)

lemma val_get_status_total [simp]:
  "val_get_status i (s\<lparr>g_bsa_tests_total := n\<rparr>) = val_get_status i s"
  by (simp add: val_get_status_def)

subsection \<open>Lemmas: waiting for the PEs\<close>

text \<open>
  \<open>env\<close> lets a PE report its result but never makes a PE that has reported pending again.
\<close>

definition reports_only :: "('x acs_scheme \<Rightarrow> 'x acs_scheme) \<Rightarrow> bool" where
  "reports_only env \<longleftrightarrow>
     (\<forall>i s. \<not> IS_RESULT_PENDING (val_get_status i s) \<longrightarrow> \<not> IS_RESULT_PENDING (val_get_status i (env s)))"

lemma reports_onlyD:
  "reports_only env \<Longrightarrow> \<not> IS_RESULT_PENDING (val_get_status i s) \<Longrightarrow>
   \<not> IS_RESULT_PENDING (val_get_status i (env s))"
  by (simp add: reports_only_def)

lemma scan_fold_inv:
  assumes env: "reports_only env" and "n < 2 ^ 32" and "fold (scan_step env) [0..<n] (0, s) = (j, t)"
  shows "(j = 0 \<longrightarrow> (\<forall>i<n. \<not> IS_RESULT_PENDING (val_get_status (of_nat i) t))) \<and> unat j \<le> n"
  using assms(2,3)
proof (induction n arbitrary: j t)
  case (Suc n)
  obtain j0 t0 where jt: "fold (scan_step env) [0..<n] (0, s) = (j0, t0)" by fastforce
  have u: "unat (of_nat n + 1 :: u32) = Suc n"
    using Suc.prems(1) by (intro unat_Suc_of_nat) simp
  then have ne: "(of_nat n + 1 :: u32) \<noteq> 0" by force
  from Suc.IH [OF _ jt] Suc.prems(1)
  have IH: "j0 = 0 \<longrightarrow> (\<forall>i<n. \<not> IS_RESULT_PENDING (val_get_status (of_nat i) t0))" "unat j0 \<le> n"
    by auto
  have st: "scan_step env n (j0, t0) = (j, t)"
    using Suc.prems(2) jt by simp
  then have t: "t = env t0"
    and j: "j = (if IS_RESULT_PENDING (val_get_status (of_nat n) t) then of_nat n + 1 else j0)"
    by (auto simp: scan_step_def Let_def)
  show ?case
  proof (cases "IS_RESULT_PENDING (val_get_status (of_nat n) t)")
    case True
    with j u ne show ?thesis by simp
  next
    case False
    with j IH reports_onlyD [OF env, of _ t0] t show ?thesis by (auto simp: less_Suc_eq)
  qed
qed simp

lemma wait_scan_done:
  assumes "reports_only env" and "wait_scan env num_pe s = (j, t)"
  shows "(j = 0 \<longrightarrow> (\<forall>i<num_pe. \<not> IS_RESULT_PENDING (val_get_status i t))) \<and>
         (j \<noteq> 0 \<longrightarrow> j - 1 < num_pe)"
proof -
  have inv: "j = 0 \<longrightarrow> (\<forall>i<unat num_pe. \<not> IS_RESULT_PENDING (val_get_status (of_nat i) t))"
      "unat j \<le> unat num_pe"
    using scan_fold_inv [OF assms(1) _ assms(2) [unfolded wait_scan_def]] unat_bound [of num_pe]
    by auto
  show ?thesis
    using inv measure_unat [of j]
    by (auto simp: word_less_nat_alt)
qed

lemma wait_loop_result:
  assumes "reports_only env" and "wait_loop env num_pe timeout j s = (expired, j', t)"
    and "j \<noteq> 0 \<longrightarrow> j - 1 < num_pe" and "timeout \<noteq> 1 \<or> j \<noteq> 0"
  shows "(\<not> expired \<longrightarrow> (\<forall>i<num_pe. \<not> IS_RESULT_PENDING (val_get_status i t))) \<and>
         (expired \<longrightarrow> j' - 1 < num_pe)"
  using assms
proof (induction env num_pe timeout j s rule: wait_loop.induct)
  case (1 env num_pe timeout j s)
  obtain j1 s1 where sc: "wait_scan env num_pe s = (j1, s1)" by fastforce
  note scan = wait_scan_done [OF "1.prems"(1) sc]
  show ?case
  proof (cases "timeout = 1 \<or> j1 = 0")
    case True
    with "1.prems" scan sc show ?thesis
      by (auto simp: wait_loop.simps [of env num_pe timeout] split: if_splits)
  next
    case False
    then have "wait_loop env num_pe (timeout - 1) j1 s1 = (expired, j', t)"
      using "1.prems"(2) sc by (simp add: wait_loop.simps [of env num_pe timeout])
    with "1.IH" False sc scan "1.prems"(1) show ?thesis by simp
  qed
qed


lemma wait_completion_cases:
  assumes "reports_only env" and "num_pe \<noteq> 1" and "timeout \<noteq> 1"
    and "t = val_wait_for_test_completion env test_num num_pe timeout s"
  shows "(\<forall>i<num_pe. \<not> IS_RESULT_PENDING (val_get_status i t)) \<or>
         (\<exists>i<num_pe. val_get_status i t = RESULT_FAIL test_num 0xF)"
proof -
  obtain expired j u where w: "wait_loop env num_pe timeout 0 s = (expired, j, u)"
    by (cases "wait_loop env num_pe timeout 0 s") auto
  from wait_loop_result [OF assms(1) w] assms(3)
  have "(\<not> expired \<longrightarrow> (\<forall>i<num_pe. \<not> IS_RESULT_PENDING (val_get_status i u))) \<and>
        (expired \<longrightarrow> j - 1 < num_pe)"
    by simp
  with assms(2,4) w show ?thesis
    by (cases expired) (auto simp: val_wait_for_test_completion_def)
qed

subsection \<open>Lemmas: the verdict\<close>

lemma error_scan_spec:
  "error_scan s is st0 = (None, st) \<Longrightarrow>
     (\<forall>i\<in>set is. \<not> IS_TEST_FAIL_SKIP (val_get_status (of_nat i) s)) \<and>
     st = (if is = [] then st0 else val_get_status (of_nat (last is)) s)"
  "error_scan s is st0 = (Some k, st) \<Longrightarrow>
     (\<exists>i\<in>set is. k = of_nat i \<and> st = val_get_status k s) \<and> IS_TEST_FAIL_SKIP st"
proof (induction s "is" st0 rule: error_scan.induct)
  case (2 s i "is" status)
  {
    case 1
    with "2.IH"(1) show ?case by (auto simp: Let_def split: if_splits)
  next
    case 2
    with "2.IH"(2) show ?case by (auto simp: Let_def split: if_splits)
  }
qed auto

lemma error_scan_all_PEs:
  assumes "error_scan s [0..<unat num_pe] 0 = (None, st)" and "i < num_pe"
  shows "\<not> IS_TEST_FAIL_SKIP (val_get_status i s)"
proof -
  have "unat i \<in> set [0..<unat num_pe]" using assms(2) by (simp add: word_less_nat_alt)
  with error_scan_spec(1) [OF assms(1)] have "\<not> IS_TEST_FAIL_SKIP (val_get_status (of_nat (unat i)) s)"
    by blast
  then show ?thesis by simp
qed

lemma state_excl:
  "IS_TEST_PASS st \<Longrightarrow> \<not> IS_TEST_FAIL_SKIP st"
  "IS_TEST_PASS st \<Longrightarrow> \<not> IS_RESULT_PENDING st"
  "IS_TEST_SKIP st \<Longrightarrow> \<not> IS_TEST_FAIL st"
  by (auto simp: is_test_defs)

lemma verdict_fst [simp]:
  "fst (verdict st s) = (if IS_TEST_PASS st then ACS_STATUS_PASS
     else if IS_TEST_SKIP st then ACS_STATUS_SKIP else ACS_STATUS_FAIL)"
  by (simp add: verdict_def)

lemma verdict_counters:
  "g_bsa_tests_total (snd (verdict st s)) = g_bsa_tests_total s"
  "g_bsa_tests_pass (snd (verdict st s)) = g_bsa_tests_pass s + (if IS_TEST_PASS st then 1 else 0)"
  "g_bsa_tests_fail (snd (verdict st s)) =
     g_bsa_tests_fail s + (if IS_TEST_PASS st \<or> IS_TEST_SKIP st then 0 else 1)"
  by (simp_all add: verdict_def)

lemma IS_TEST_FAIL_RESULT_FAIL:
  assumes "test_num < 0x10000" and "status < 0x1000"
  shows "IS_TEST_FAIL (RESULT_FAIL test_num status)"
  using STATE_OF_RESULT [OF assms, of 8] by (simp add: IS_TEST_FAIL_def RESULT_FAIL_def)

lemma check_for_error_multi:
  assumes "num_pe \<noteq> 1" and "my_index s = Some my"
  shows "val_check_for_error test_num num_pe s =
    (let (e, status) = error_scan s [0..<unat num_pe] 0
     in Some (verdict status (val_report_status (case e of Some i \<Rightarrow> i | None \<Rightarrow> my) status s)))"
  using assms by (auto simp: val_check_for_error_def split: option.splits prod.splits)

subsection \<open>Lemmas: cache maintenance\<close>

lemma clean_loop_result:
  assumes "line \<noteq> 0" and "unat end_addr + unat line \<le> 2 ^ 64"
  shows "\<exists>as. clean_loop line end_addr a acc = Some (rev acc @ as) \<and>
    (\<forall>x. a \<le> x \<longrightarrow> x < end_addr \<longrightarrow> (\<exists>c\<in>set as. c \<le> x \<and> unat x < unat c + unat line)) \<and>
    (\<forall>c\<in>set as. unat a \<le> unat c \<and> (unat c - unat a) mod unat line = 0 \<and> c < end_addr)"
proof (induction "unat end_addr - unat a" arbitrary: a acc rule: less_induct)
  case less
  show ?case
  proof (cases "a < end_addr")
    case False
    then show ?thesis by (auto simp: clean_loop.simps)
  next
    case True
    have ua: "unat (a + line) = unat a + unat line"
      using True assms(2) by (simp add: word_less_nat_alt unat_word_ariths)
    have pos: "0 < unat line" using assms(1) by (simp add: unat_gt_0)
    have dec: "unat end_addr - unat (a + line) < unat end_addr - unat a"
      using ua pos True by (simp add: word_less_nat_alt)
    obtain as where as: "clean_loop line end_addr (a + line) (a # acc) = Some (rev (a # acc) @ as)"
      "\<forall>x. a + line \<le> x \<longrightarrow> x < end_addr \<longrightarrow> (\<exists>c\<in>set as. c \<le> x \<and> unat x < unat c + unat line)"
      "\<forall>c\<in>set as. unat (a + line) \<le> unat c \<and> (unat c - unat (a + line)) mod unat line = 0 \<and> c < end_addr"
      using less.hyps [OF dec, of "a # acc"] by blast
    have "clean_loop line end_addr a acc = Some (rev acc @ (a # as))"
      using True as(1) by (simp add: clean_loop.simps [of line end_addr a])
    moreover have "\<forall>x. a \<le> x \<longrightarrow> x < end_addr \<longrightarrow> (\<exists>c\<in>set (a # as). c \<le> x \<and> unat x < unat c + unat line)"
      using as(2) ua by (auto simp: word_le_nat_alt not_le)
    moreover have "\<forall>c\<in>set (a # as). unat a \<le> unat c \<and> (unat c - unat a) mod unat line = 0 \<and> c < end_addr"
      using as(3) ua True by (auto simp: le_mod_geq)
    ultimately show ?thesis by blast
  qed
qed


subsection \<open>Properties\<close>

text \<open>
  A concrete system for the witnesses: two PEs, of which the first is running, and a shared memory
  in which both have passed test 1.
\<close>

definition two_pe_system :: acs where
  "two_pe_system =
     \<lparr>g_print_level = 3, g_skip_test_num = [10000, 10000], g_bsa_tests_total = 0,
      g_bsa_tests_pass = 0, g_bsa_tests_fail = 0,
      g_pe_info_table = Some \<lparr>num_of_pe = 2, pe_info =
        [\<lparr>pe_num = 0, pe_attr = 0, mpidr = 0x0, pmu_gsiv = 23, gmain_gsiv = 25\<rparr>,
         \<lparr>pe_num = 1, pe_attr = 0, mpidr = 0x100, pmu_gsiv = 23, gmain_gsiv = 25\<rparr>]\<rparr>,
      shared_mem = (\<lambda>_. \<lparr>data0 = 0, data1 = 0, shm_status = RESULT_PASS 1 0\<rparr>),
      MPIDR = 0x80000000, smc_Arg0 = 0, smc_Arg1 = 0, console = [], bsa_gic_imp = False,
      g_esr_handler = (\<lambda>_. None), ELR = 0, g_stack_pointer = 0, g_exception_ret_addr = 0,
      g_ret_addr = 0, stack_mem = (\<lambda>_. 0)\<rparr>"

lemma two_pe_system_my_index: "my_index two_pe_system = Some 0"
  by code_simp

lemma two_pe_system_status: "val_get_status i two_pe_system = RESULT_PASS 1 0"
  by (simp add: val_get_status_def two_pe_system_def)



text \<open>
  Property C2. A test on several PEs that passes has been finished by every PE: when
  \<open>val_wait_for_test_completion\<close> returns and \<open>val_check_for_error\<close> then says PASS, no PE is still
  pending, failed or skipped.  (The wait either saw every PE report or marked one PE as failed.)
\<close>

theorem passed_test_is_finished:
  assumes "reports_only env" and "num_pe \<noteq> 1" and "timeout \<noteq> 1" and "test_num < 0x10000"
    and "t = val_wait_for_test_completion env test_num num_pe timeout s"
    and "val_check_for_error test_num num_pe t = Some (ACS_STATUS_PASS, u)"
  shows "\<forall>i<num_pe. \<not> IS_RESULT_PENDING (val_get_status i t) \<and> \<not> IS_TEST_FAIL_SKIP (val_get_status i t)"
proof -
  obtain my where my: "my_index t = Some my"
    using assms(6) by (cases "my_index t") (simp_all add: val_check_for_error_def)
  obtain e st where sc: "error_scan t [0..<unat num_pe] 0 = (e, st)" by fastforce
  from assms(6) check_for_error_multi [OF assms(2) my, of test_num] sc
  have "fst (verdict st (val_report_status (case e of Some i \<Rightarrow> i | None \<Rightarrow> my) st t)) = ACS_STATUS_PASS"
    by simp
  then have pass: "IS_TEST_PASS st" by (simp split: if_splits)
  have "e = None"
    using error_scan_spec(2) [of t _ 0 _ st] sc pass state_excl(1) by (cases e) auto
  with sc have good: "\<forall>i<num_pe. \<not> IS_TEST_FAIL_SKIP (val_get_status i t)"
    by (simp add: error_scan_all_PEs)
  have "IS_TEST_FAIL (RESULT_FAIL test_num 0xF)"
    using assms(4) by (simp add: IS_TEST_FAIL_RESULT_FAIL)
  with wait_completion_cases [OF assms(1,2,3,5)] good show ?thesis
    by (auto simp: IS_TEST_FAIL_SKIP_def)
qed

theorem passed_test_is_finished_witness:
  "\<not> IS_RESULT_PENDING (val_get_status 0 two_pe_system) \<and>
   \<not> IS_RESULT_PENDING (val_get_status 1 two_pe_system) \<and>
   \<not> IS_TEST_FAIL_SKIP (val_get_status 1 two_pe_system)"
proof -
  have np: "\<not> IS_RESULT_PENDING (RESULT_PASS 1 0)" "IS_TEST_PASS (RESULT_PASS 1 0)"
      "\<not> IS_TEST_FAIL_SKIP (RESULT_PASS 1 0)"
    by (simp_all add: is_test_defs result_word_defs STATE_OF_def)
  have "wait_loop id 2 3 0 two_pe_system = (False, 0, two_pe_system)"
    using np by (simp add: wait_loop.simps wait_scan_def scan_step_def Let_def two_pe_system_status
        upt_rec)
  then have w: "two_pe_system = val_wait_for_test_completion id 1 2 3 two_pe_system"
    by (simp add: val_wait_for_test_completion_def)
  have "val_check_for_error 1 2 two_pe_system =
      Some (verdict (RESULT_PASS 1 0) (val_report_status 0 (RESULT_PASS 1 0) two_pe_system))"
    using np by (simp add: check_for_error_multi [OF _ two_pe_system_my_index] upt_rec Let_def
        two_pe_system_status)
  then obtain u where c: "val_check_for_error 1 2 two_pe_system = Some (ACS_STATUS_PASS, u)"
    using np(2) by (simp add: verdict_def)
  have "reports_only (id :: acs \<Rightarrow> acs)" by (simp add: reports_only_def)
  from passed_test_is_finished [OF this _ _ _ w c] show ?thesis by simp
qed

text \<open>
  Property C3. The verdict of a test that runs on one PE is the state of the result word of the
  running PE, and exactly one of the counters of passed and failed tests moves, by one, unless
  the test was skipped.
\<close>

theorem single_pe_verdict:
  assumes "my_index s = Some my" and "val_check_for_error test_num 1 s = Some (r, t)"
  shows "r = (if IS_TEST_PASS (val_get_status my s) then ACS_STATUS_PASS
              else if IS_TEST_SKIP (val_get_status my s) then ACS_STATUS_SKIP else ACS_STATUS_FAIL) \<and>
         g_bsa_tests_total t = g_bsa_tests_total s \<and>
         g_bsa_tests_pass t = g_bsa_tests_pass s + (if r = ACS_STATUS_PASS then 1 else 0) \<and>
         g_bsa_tests_fail t = g_bsa_tests_fail s + (if r = ACS_STATUS_FAIL then 1 else 0) \<and>
         shared_mem t = shared_mem s"
  using assms
  by (auto simp: val_check_for_error_def Let_def verdict_def split: if_splits)

theorem single_pe_verdict_witness:
  "fst (the (val_check_for_error 1 1 two_pe_system)) = ACS_STATUS_PASS"
proof -
  obtain r t where c: "val_check_for_error 1 1 two_pe_system = Some (r, t)"
    by (simp add: val_check_for_error_def two_pe_system_my_index Let_def)
      (metis surj_pair)
  have "IS_TEST_PASS (RESULT_PASS 1 0)"
    by (simp add: is_test_defs result_word_defs STATE_OF_def)
  with single_pe_verdict [OF two_pe_system_my_index c] c show ?thesis
    by (simp add: two_pe_system_status)
qed

text \<open>
  Property C4. \<open>val_initialize_test\<close> marks exactly the PEs below \<open>num_pe\<close> as pending, counts the
  test once, and answers SKIP exactly when the user listed the test, in which case the running PE
  gets a skip result.  Nothing else of the shared memory changes.
\<close>

theorem initialize_test_effect:
  assumes "val_initialize_test pal_install test_num desc num_pe s = Some (r, t)"
    and "handler_installer pal_install"
  shows "(r = ACS_STATUS_SKIP \<longleftrightarrow> test_num \<in> set (g_skip_test_num s)) \<and>
         g_bsa_tests_total t = g_bsa_tests_total s + 1 \<and>
         (\<forall>i. val_get_status i t =
            (if r = ACS_STATUS_SKIP \<and> my_index s = Some i then RESULT_SKIP test_num 0
             else if i < num_pe then RESULT_PENDING test_num else val_get_status i s))"
proof -
  obtain index where my: "my_index s = Some index"
    using assms(1) by (cases "my_index s") (simp_all add: val_initialize_test_def)
  show ?thesis
    using assms(1) default_handler_frame [OF assms(2)]
    by (auto simp: val_initialize_test_def my Let_def split: if_splits)
qed

theorem initialize_test_effect_witness:
  "val_get_status 1 (snd (the (val_initialize_test (\<lambda>ty h u. u) 801 [] 2 two_pe_system))) =
     RESULT_PENDING 801"
proof -
  obtain r t where i: "val_initialize_test (\<lambda>ty h u. u) 801 [] 2 two_pe_system = Some (r, t)"
    by (cases "val_initialize_test (\<lambda>ty h u. u) 801 [] 2 two_pe_system")
       (auto simp: val_initialize_test_def two_pe_system_my_index Let_def)
  have "801 \<notin> set (g_skip_test_num two_pe_system)" by (simp add: two_pe_system_def)
  have "handler_installer (\<lambda>ty h (u::acs). u)" by (simp add: handler_installer_def)
  from initialize_test_effect [OF i this] i \<open>801 \<notin> _\<close> show ?thesis by simp
qed

end
