(* ===== verification/Acs_Tables.thy ===== *)
theory Acs_Tables
  imports Acs_Prelude
begin

text \<open>
  The interface of the searches in information tables.  The memory table and the peripheral table
  are arrays that end with a sentinel entry; both are searched for the entry that is the
  \<open>instance\<close>-th match of a type.  The locale \<open>instance_search\<close> states the step laws of such a
  search and proves once what it returns; the component theories interpret it on their own loops.
\<close>

locale instance_search =
  fixes srch :: "u32 \<Rightarrow> u32 \<Rightarrow> u32 \<Rightarrow> 'e list \<Rightarrow> u32 option"
    and matches :: "u32 \<Rightarrow> 'e \<Rightarrow> bool"
    and is_last :: "'e \<Rightarrow> bool"
    and bad :: u32
  assumes past_end: "srch ty inst i [] = None"
    and stop: "is_last e \<Longrightarrow> srch ty inst i (e # es) = Some bad"
    and hit: "\<not> is_last e \<Longrightarrow> matches ty e \<Longrightarrow>
      srch ty inst i (e # es) = (if inst = 0 then Some i else srch ty (inst - 1) (i + 1) es)"
    and miss: "\<not> is_last e \<Longrightarrow> \<not> matches ty e \<Longrightarrow>
      srch ty inst i (e # es) = srch ty inst (i + 1) es"
begin

text \<open>The entries in front of the sentinel, and the positions of the matches among them.\<close>

definition live :: "'e list \<Rightarrow> 'e list" where
  "live es = takeWhile (\<lambda>e. \<not> is_last e) es"

definition positions :: "u32 \<Rightarrow> 'e list \<Rightarrow> nat list" where
  "positions ty es = filter (\<lambda>j. matches ty (live es ! j)) [0..<length (live es)]"

lemma live_Cons: "live (e # es) = (if is_last e then [] else e # live es)"
  by (simp add: live_def)

lemma positions_Cons:
  "\<not> is_last e \<Longrightarrow> positions ty (e # es) =
     (if matches ty e then [0] else []) @ map Suc (positions ty es)"
  by (simp add: positions_def live_Cons upt_conv_Cons map_Suc_upt [symmetric] filter_map
      comp_def del: upt_Suc)

lemma search_spec:
  "(\<exists>e\<in>set es. is_last e) \<Longrightarrow>
   srch ty inst i es =
     Some (if unat inst < length (positions ty es)
           then i + of_nat (positions ty es ! unat inst) else bad)"
proof (induction es arbitrary: inst i)
  case (Cons e es)
  show ?case
  proof (cases "is_last e")
    case True
    then show ?thesis by (simp add: stop positions_def live_Cons)
  next
    case False
    with Cons.prems have IH: "\<And>inst i. srch ty inst i es =
        Some (if unat inst < length (positions ty es)
              then i + of_nat (positions ty es ! unat inst) else bad)"
      using Cons.IH by simp
    show ?thesis
    proof (cases "matches ty e \<and> inst \<noteq> 0")
      case True
      then have "unat inst = Suc (unat (inst - 1))"
        by (simp add: unat_minus_one unat_gt_0)
      with True False IH [of "inst - 1" "i + 1"] show ?thesis
        by (auto simp: hit positions_Cons)
    next
      case other: False
      with False IH [of inst "i + 1"] show ?thesis
        by (auto simp: hit miss positions_Cons unat_eq_0)
    qed
  qed
qed (simp)

text \<open>A search that ran into the end of the memory had no sentinel to stop at.\<close>

lemma search_total: "(\<exists>e\<in>set es. is_last e) \<Longrightarrow> srch ty inst i es \<noteq> None"
  by (simp add: search_spec)

lemma positions_in_table:
  "j \<in> set (positions ty es) \<Longrightarrow> j < length es \<and> matches ty (es ! j) \<and> \<not> is_last (es ! j)"
  by (auto simp: positions_def live_def takeWhile_nth
      dest: order_less_le_trans [OF _ length_takeWhile_le] nth_length_takeWhile)
    (metis nth_mem set_takeWhileD takeWhile_nth)

text \<open>The matching entries themselves.\<close>

lemma filter_live: "filter (matches ty) (live es) = map (\<lambda>j. live es ! j) (positions ty es)"
  by (subst map_nth [of "live es", symmetric]) (simp only: filter_map positions_def comp_def)

lemma live_nth: "j < length (live es) \<Longrightarrow> live es ! j = es ! j"
  by (simp add: live_def takeWhile_nth)

lemma positions_live: "j \<in> set (positions ty es) \<Longrightarrow> j < length (live es)"
  by (simp add: positions_def)

text \<open>The entry found is a live entry of the requested type.\<close>

lemma search_hit:
  assumes "\<exists>e\<in>set es. is_last e" and "length es < 2 ^ 32"
    and "unat inst < length (positions ty es)"
  shows "\<exists>j. srch ty inst 0 es = Some (of_nat j) \<and> unat (of_nat j :: u32) = j \<and>
             j < length es \<and> matches ty (es ! j) \<and> \<not> is_last (es ! j)"
proof -
  let ?j = "positions ty es ! unat inst"
  have "?j \<in> set (positions ty es)" using assms(3) by simp
  from positions_in_table [OF this] have j: "?j < length es" "matches ty (es ! ?j)" "\<not> is_last (es ! ?j)"
    by simp_all
  with assms(2) have "unat (of_nat ?j :: u32) = ?j" by (intro word_le_of_nat_less) simp
  with j assms show ?thesis by (auto simp: search_spec)
qed

end

end
