(* ===== verification/Acs_Memory.thy ===== *)
theory Acs_Memory
  imports Acs_Status Acs_Tables
begin

text \<open>
  \<^verbatim>\<open>val/src/acs_memory.c\<close>: the memory information table and the page services that the page table
  code uses.

  The table is a list of \<open>MEM_INFO_BLOCK\<close> entries that ends with an entry of type
  \<open>MEMORY_TYPE_LAST_ENTRY\<close>; \<open>None\<close> as the result of a search is a read past the end of the list,
  which happens only when that sentinel is missing.  The page services work on a record of
  64-bit memory cells.  \<open>page_supply\<close> are the answers that the firmware's page allocator will give,
  oldest first (an empty list is the answer \<open>NULL\<close>), \<open>freed_pages\<close> the pages given back to it,
  newest first, and \<open>pal_page_size\<close> its page size.
\<close>

subsection \<open>The memory information table\<close>

record MEM_INFO_BLOCK =
  mem_type :: u32
  phy_addr :: u64
  virt_addr :: u64
  mem_size :: u64
  mem_flags :: u64

definition MEMORY_TYPE_DEVICE :: u32 where "MEMORY_TYPE_DEVICE = 0x1000"
definition MEMORY_TYPE_NORMAL :: u32 where "MEMORY_TYPE_NORMAL = 0x1001"
definition MEMORY_TYPE_RESERVED :: u32 where "MEMORY_TYPE_RESERVED = 0x1002"
definition MEMORY_TYPE_NOT_POPULATED :: u32 where "MEMORY_TYPE_NOT_POPULATED = 0x1003"
definition MEMORY_TYPE_LAST_ENTRY :: u32 where "MEMORY_TYPE_LAST_ENTRY = 0x1004"

lemmas memory_type_defs =
  MEMORY_TYPE_DEVICE_def MEMORY_TYPE_NORMAL_def MEMORY_TYPE_RESERVED_def
  MEMORY_TYPE_NOT_POPULATED_def MEMORY_TYPE_LAST_ENTRY_def

datatype MEMORY_INFO_e = MEM_TYPE_DEVICE | MEM_TYPE_NORMAL | MEM_TYPE_RESERVED
  | MEM_TYPE_NOT_POPULATED | MEM_TYPE_LAST_ENTRY

text \<open>The numbers of the enumeration, as \<open>val_memory_get_info\<close> and the log use them.\<close>

fun mem_type_num :: "MEMORY_INFO_e \<Rightarrow> u64" where
  "mem_type_num MEM_TYPE_DEVICE = 0x1000"
| "mem_type_num MEM_TYPE_NORMAL = 0x1001"
| "mem_type_num MEM_TYPE_RESERVED = 0x1002"
| "mem_type_num MEM_TYPE_NOT_POPULATED = 0x1003"
| "mem_type_num MEM_TYPE_LAST_ENTRY = 0x1004"

fun memory_entry_loop :: "u32 \<Rightarrow> u32 \<Rightarrow> u32 \<Rightarrow> MEM_INFO_BLOCK list \<Rightarrow> u32 option" where
  "memory_entry_loop ty inst i [] = None"
| "memory_entry_loop ty inst i (e # es) =
     (if mem_type e = MEMORY_TYPE_LAST_ENTRY then Some 0xFF
      else if mem_type e = ty
      then (if inst = 0 then Some i else memory_entry_loop ty (inst - 1) (i + 1) es)
      else memory_entry_loop ty inst (i + 1) es)"

definition val_memory_get_entry_index :: "MEM_INFO_BLOCK list \<Rightarrow> u32 \<Rightarrow> u32 \<Rightarrow> u32 option" where
  "val_memory_get_entry_index info ty inst = memory_entry_loop ty inst 0 info"

text \<open>
  \<open>val_memory_get_addr\<close>: the table pointer may be \<open>NULL\<close>; \<open>*attr\<close> is passed in and out, with its
  old contents \<open>attr\<close> kept when nothing is found.
\<close>

definition val_memory_get_addr :: "MEM_INFO_BLOCK list option \<Rightarrow> MEMORY_INFO_e \<Rightarrow> u32 \<Rightarrow> u64
    \<Rightarrow> 'x acs_scheme \<Rightarrow> (u64 \<times> u64 \<times> 'x acs_scheme) option" where
  "val_memory_get_addr tbl mt inst attr s =
     (case tbl of
        None \<Rightarrow> Some (0, attr, s)
      | Some info \<Rightarrow> do {
          i \<leftarrow> (case mt of
                  MEM_TYPE_DEVICE \<Rightarrow> val_memory_get_entry_index info MEMORY_TYPE_DEVICE inst
                | MEM_TYPE_NORMAL \<Rightarrow> val_memory_get_entry_index info MEMORY_TYPE_NORMAL inst
                | _ \<Rightarrow> Some 0xFF);
          if i \<noteq> 0xFF
          then map_option (\<lambda>e. (phy_addr e, mem_flags e, s)) (nth_opt info (unat i))
          else Some (0, attr,
                 val_print ACS_PRINT_INFO (''for memory type 0x%x'' @ nl) (mem_type_num mt)
                   (val_print ACS_PRINT_INFO ''Instance 0x%x not found '' (ucast inst) s)) })"

fun val_memory_get_info :: "MEM_INFO_BLOCK list \<Rightarrow> u64 \<Rightarrow> u64 \<Rightarrow> (u64 \<times> u64) option" where
  "val_memory_get_info [] addr attr = None"
| "val_memory_get_info (e # es) addr attr =
     (if mem_type e = MEMORY_TYPE_LAST_ENTRY then Some (mem_type_num MEM_TYPE_NOT_POPULATED, attr)
      else if addr \<ge> phy_addr e \<and> addr < phy_addr e + mem_size e
      then Some (ucast (mem_type e), mem_flags e)
      else val_memory_get_info es addr attr)"

fun max_memory_loop :: "MEM_INFO_BLOCK list \<Rightarrow> u64 \<Rightarrow> u64 option" where
  "max_memory_loop [] addr = None"
| "max_memory_loop (e # es) addr =
     (if mem_type e = MEMORY_TYPE_LAST_ENTRY then Some addr
      else max_memory_loop es (if phy_addr e > addr then phy_addr e + mem_size e else addr))"

definition val_get_max_memory :: "MEM_INFO_BLOCK list \<Rightarrow> u64 option" where
  "val_get_max_memory info = max_memory_loop info 0"

subsection \<open>Page services\<close>

record pages =
  cells :: "u64 \<Rightarrow> u64"
  page_supply :: "u64 list"
  freed_pages :: "u64 list"
  pal_page_size :: u32

definition val_memory_page_size :: "'x pages_scheme \<Rightarrow> u32" where
  "val_memory_page_size s = pal_page_size s"

definition val_memory_alloc_pages :: "'x pages_scheme \<Rightarrow> u64 \<times> 'x pages_scheme" where
  "val_memory_alloc_pages s =
     (case page_supply s of [] \<Rightarrow> (0, s) | p # ps \<Rightarrow> (p, s\<lparr>page_supply := ps\<rparr>))"

definition val_memory_free_pages :: "u64 \<Rightarrow> 'x pages_scheme \<Rightarrow> 'x pages_scheme" where
  "val_memory_free_pages p s = s\<lparr>freed_pages := p # freed_pages s\<rparr>"

text \<open>
  \<open>val_memory_set\<close> on whole cells: the code calls it with an 8-byte aligned buffer and a size that
  is a multiple of 8, and every byte of a cell in the buffer becomes \<open>value\<close>.
\<close>

definition val_memory_set :: "u64 \<Rightarrow> u32 \<Rightarrow> u8 \<Rightarrow> 'x pages_scheme \<Rightarrow> 'x pages_scheme" where
  "val_memory_set buf sz value s =
     s\<lparr>cells := (\<lambda>a. if a - buf < ucast sz then ucast value * 0x0101010101010101 else cells s a)\<rparr>"

definition val_memory_virt_to_phys :: "u64 \<Rightarrow> u64" where
  "val_memory_virt_to_phys va = va"

definition val_memory_phys_to_virt :: "u64 \<Rightarrow> u64" where
  "val_memory_phys_to_virt pa = pa"

subsection \<open>Lemmas\<close>

interpretation memory_search: instance_search memory_entry_loop "\<lambda>ty e. mem_type e = ty"
  "\<lambda>e. mem_type e = MEMORY_TYPE_LAST_ENTRY" "0xFF"
  by unfold_locales simp_all

text \<open>The first entry of the table, in front of the sentinel, that holds an address.\<close>

definition first_region :: "MEM_INFO_BLOCK list \<Rightarrow> u64 \<Rightarrow> MEM_INFO_BLOCK option" where
  "first_region info addr =
     List.find (\<lambda>e. addr \<ge> phy_addr e \<and> addr < phy_addr e + mem_size e) (memory_search.live info)"

lemma val_memory_get_info_spec:
  "(\<exists>e\<in>set info. mem_type e = MEMORY_TYPE_LAST_ENTRY) \<Longrightarrow>
   val_memory_get_info info addr attr =
     (case first_region info addr of
        None \<Rightarrow> Some (0x1003, attr)
      | Some e \<Rightarrow> Some (ucast (mem_type e), mem_flags e))"
  by (induction info addr attr rule: val_memory_get_info.induct)
     (auto simp: first_region_def memory_search.live_Cons)

lemma max_memory_loop_ge:
  "(\<exists>e\<in>set info. mem_type e = MEMORY_TYPE_LAST_ENTRY) \<Longrightarrow>
   (\<forall>e\<in>set (memory_search.live info). unat (phy_addr e) + unat (mem_size e) < 2 ^ 64) \<Longrightarrow>
   \<exists>m. max_memory_loop info a = Some m \<and> a \<le> m \<and> (\<forall>e\<in>set (memory_search.live info). phy_addr e \<le> m)"
proof (induction info a rule: max_memory_loop.induct)
  case (2 e es a)
  show ?case
  proof (cases "mem_type e = MEMORY_TYPE_LAST_ENTRY")
    case False
    let ?a = "if phy_addr e > a then phy_addr e + mem_size e else a"
    from 2 False obtain m where m: "max_memory_loop es ?a = Some m" "?a \<le> m"
      "\<forall>e\<in>set (memory_search.live es). phy_addr e \<le> m"
      by (auto simp: memory_search.live_Cons)
    have "unat (phy_addr e) + unat (mem_size e) < 2 ^ 64"
      using "2.prems" False by (simp add: memory_search.live_Cons)
    then have "phy_addr e \<le> phy_addr e + mem_size e"
      by (simp add: word_le_nat_alt unat_word_ariths)
    with m(2) have "a \<le> m" "phy_addr e \<le> m" by (auto split: if_splits)
    with m False show ?thesis by (auto simp: memory_search.live_Cons)
  qed (auto simp: memory_search.live_Cons)
qed simp

text \<open>
  With the regions of the table in ascending order and disjoint, the running maximum is the end of
  the last region.
\<close>

fun ascending :: "u64 \<Rightarrow> MEM_INFO_BLOCK list \<Rightarrow> bool" where
  "ascending a [] \<longleftrightarrow> True"
| "ascending a (e # es) \<longleftrightarrow> a < phy_addr e \<and> phy_addr e \<le> phy_addr e + mem_size e
     \<and> ascending (phy_addr e + mem_size e) es"

lemma max_memory_ascending:
  "(\<exists>e\<in>set info. mem_type e = MEMORY_TYPE_LAST_ENTRY) \<Longrightarrow> ascending a (memory_search.live info) \<Longrightarrow>
   \<exists>m. max_memory_loop info a = Some m \<and> a \<le> m \<and>
     (\<forall>e\<in>set (memory_search.live info). phy_addr e + mem_size e \<le> m)"
proof (induction info a rule: max_memory_loop.induct)
  case (2 e es a)
  then show ?case
    by (cases "mem_type e = MEMORY_TYPE_LAST_ENTRY") (fastforce simp: memory_search.live_Cons)+
qed simp

subsection \<open>Properties\<close>

text \<open>A table for the witnesses: one device range and two ranges of normal memory.\<close>

definition example_memory_table :: "MEM_INFO_BLOCK list" where
  "example_memory_table =
     [\<lparr>mem_type = 0x1000, phy_addr = 0x10000000, virt_addr = 0x10000000, mem_size = 0x1000, mem_flags = 0x2000\<rparr>,
      \<lparr>mem_type = 0x1001, phy_addr = 0x80000000, virt_addr = 0x80000000, mem_size = 0x10000000, mem_flags = 0x1000\<rparr>,
      \<lparr>mem_type = 0x1001, phy_addr = 0xA0000000, virt_addr = 0xA0000000, mem_size = 0x20000000, mem_flags = 0x1000\<rparr>,
      \<lparr>mem_type = 0x1004, phy_addr = 0, virt_addr = 0, mem_size = 0, mem_flags = 0\<rparr>]"

text \<open>
  Memory table search: on a table with a sentinel, \<open>val_memory_get_entry_index\<close> returns
  the position of the entry that is the \<open>inst\<close>-th of its type in front of the sentinel, and 0xFF
  when there are not that many.
\<close>

theorem memory_entry_index_correct:
  assumes "\<exists>e\<in>set info. mem_type e = MEMORY_TYPE_LAST_ENTRY"
  shows "val_memory_get_entry_index info ty inst =
    (let ps = filter (\<lambda>j. mem_type (info ! j) = ty)
                [0..<length (takeWhile (\<lambda>e. mem_type e \<noteq> MEMORY_TYPE_LAST_ENTRY) info)]
     in Some (if unat inst < length ps then of_nat (ps ! unat inst) else 0xFF))"
proof -
  have "memory_search.positions ty info = filter (\<lambda>j. mem_type (info ! j) = ty)
      [0..<length (takeWhile (\<lambda>e. mem_type e \<noteq> MEMORY_TYPE_LAST_ENTRY) info)]"
    by (auto simp: memory_search.positions_def memory_search.live_def takeWhile_nth intro!: filter_cong)
  with memory_search.search_spec [OF assms(1), of ty inst 0] show ?thesis
    by (simp add: val_memory_get_entry_index_def Let_def)
qed

theorem memory_entry_index_correct_witness:
  "val_memory_get_entry_index example_memory_table MEMORY_TYPE_NORMAL 1 = Some 2"
  using memory_entry_index_correct [of example_memory_table MEMORY_TYPE_NORMAL 1]
  by (simp add: example_memory_table_def memory_type_defs upt_rec)



end
