(* ===== verification/Acs_Pgt.thy ===== *)
theory Acs_Pgt
  imports Acs_Memory "HOL-Library.Multiset"
begin

text \<open>
  \<^verbatim>\<open>val/src/acs_pgt.c\<close>: construction, query and destruction of VMSAv8-64 translation tables.

  The tables live in the 64-bit cells of the record \<open>pages\<close> of theory \<open>Acs_Memory\<close>; the three static
  variables of the C file extend that record.  \<open>fill_loop\<close> is the \<open>for\<close> loop of
  \<open>fill_translation_table\<close> with its recursive call, so its arguments \<open>input_address\<close> and
  \<open>output_address\<close> are the loop variables; \<open>None\<close> is a loop that never ends.  The debug messages of
  the file are left out, they do not influence the tables.

  The specification is \<open>walk\<close>, the table walk of the architecture.  The lemmas show that a region of
  memory that satisfies \<open>span_ok\<close> is translated by the finished tables as the caller asked, that
  \<open>val_pgt_get_attributes\<close> reads the attributes back and that \<open>val_pgt_destroy\<close> frees every page
  of the tables once.
\<close>

subsection \<open>Descriptors\<close>

definition PGT_ENTRY_TABLE_MASK :: u64 where "PGT_ENTRY_TABLE_MASK = shl 0x1 1"
definition PGT_ENTRY_VALID_MASK :: u64 where "PGT_ENTRY_VALID_MASK = 0x1"
definition PGT_ENTRY_PAGE_MASK :: u64 where "PGT_ENTRY_PAGE_MASK = shl 0x1 1"
definition PGT_ENTRY_BLOCK_MASK :: u64 where "PGT_ENTRY_BLOCK_MASK = shl 0x0 1"

definition IS_PGT_ENTRY_PAGE :: "u64 \<Rightarrow> bool" where
  "IS_PGT_ENTRY_PAGE v \<longleftrightarrow> v AND 0x2 \<noteq> 0"

definition IS_PGT_ENTRY_BLOCK :: "u64 \<Rightarrow> bool" where
  "IS_PGT_ENTRY_BLOCK v \<longleftrightarrow> \<not> (v AND 0x2 \<noteq> 0)"

definition PGT_DESC_ATTRIBUTES_MASK :: u64 where
  "PGT_DESC_ATTRIBUTES_MASK = shl (shl 1 12 - 1) 52 OR shl (shl 1 10 - 1) 2"

definition PGT_DESC_ATTRIBUTES :: "u64 \<Rightarrow> u64" where
  "PGT_DESC_ATTRIBUTES v = v AND PGT_DESC_ATTRIBUTES_MASK"

record PE_TCR_BF =
  tcr_ps :: "3 word"
  tcr_tg :: "2 word"
  tcr_sh :: "2 word"
  tcr_orgn :: "2 word"
  tcr_irgn :: "2 word"
  tcr_tsz :: "6 word"
  tcr_sl :: "2 word"
  tg_size_log2 :: "5 word"

record pgt_descriptor_t =
  pgt_base :: u64
  ias :: u32
  oas :: u32
  mair :: u64
  stage :: u32
  tcr :: PE_TCR_BF

record memory_region_descriptor_t =
  physical_address :: u64
  virtual_address :: u64
  mr_length :: u64
  attributes :: u64

record tt_descriptor_t =
  tt_base :: u64
  input_base :: u64
  input_top :: u64
  output_base :: u64
  level :: u32
  size_log2 :: u32
  nbits :: u32

text \<open>The static variables of the file.\<close>

record pgt = pages +
  page_size :: u32
  bits_per_level :: u32
  pgt_addr_mask :: u64

definition store64 :: "u64 \<Rightarrow> u64 \<Rightarrow> pgt \<Rightarrow> pgt" where
  "store64 a v s = s\<lparr>cells := (cells s)(a := v)\<rparr>"

subsection \<open>Filling the tables\<close>

text \<open>
  \<open>~(page_size - 1)\<close> is computed in 32 bits and then widened, so the upper half of this mask is
  zero.
\<close>

definition page_addr_mask :: "pgt \<Rightarrow> u64" where
  "page_addr_mask s = ucast (NOT (page_size s - 1))"

definition page_descriptor :: "pgt \<Rightarrow> u64 \<Rightarrow> u64 \<Rightarrow> u64" where
  "page_descriptor s output_address attrs =
     PGT_ENTRY_PAGE_MASK OR PGT_ENTRY_VALID_MASK OR (output_address AND page_addr_mask s) OR attrs"

definition block_descriptor :: "u64 \<Rightarrow> u64 \<Rightarrow> u64 \<Rightarrow> u64" where
  "block_descriptor block_size output_address attrs =
     PGT_ENTRY_BLOCK_MASK OR PGT_ENTRY_VALID_MASK OR (output_address AND NOT (block_size - 1)) OR attrs"

definition table_descriptor :: "pgt \<Rightarrow> u64 \<Rightarrow> u64" where
  "table_descriptor s tt_base_next_level =
     PGT_ENTRY_TABLE_MASK OR PGT_ENTRY_VALID_MASK OR
     (val_memory_virt_to_phys tt_base_next_level AND page_addr_mask s)"

definition get_min :: "u64 \<Rightarrow> u64 \<Rightarrow> u64" where
  "get_min a b = (if a < b then a else b)"

definition table_index :: "tt_descriptor_t \<Rightarrow> u64 \<Rightarrow> u64" where
  "table_index d input_address =
     shr input_address (unat (size_log2 d)) AND (shl 1 (unat (nbits d)) - 1)"

definition table_desc_addr :: "tt_descriptor_t \<Rightarrow> u64 \<Rightarrow> u64" where
  "table_desc_addr d input_address = tt_base d + 8 * table_index d input_address"

definition block_eligible :: "tt_descriptor_t \<Rightarrow> u64 \<Rightarrow> u64 \<Rightarrow> bool" where
  "block_eligible d input_address output_address \<longleftrightarrow>
     (let block_size = shl 1 (unat (size_log2 d))
      in input_address AND (block_size - 1) = 0 \<and> output_address AND (block_size - 1) = 0 \<and>
         input_top d \<ge> input_address + block_size - 1)"

text \<open>The table of the next level: an existing one, or a fresh page; 0 when the allocation fails.\<close>

definition next_table :: "u64 \<Rightarrow> pgt \<Rightarrow> u64 \<times> pgt" where
  "next_table desc s =
     (if desc = 0 \<or> IS_PGT_ENTRY_BLOCK desc
      then case val_memory_alloc_pages s of
             (p, s1) \<Rightarrow> if p = 0 then (0, s1) else (p, val_memory_set p (page_size s1) 0 s1)
      else (val_memory_phys_to_virt (desc AND pgt_addr_mask s), s))"

definition next_level_desc :: "pgt \<Rightarrow> tt_descriptor_t \<Rightarrow> u64 \<Rightarrow> u64 \<Rightarrow> u64 \<Rightarrow> tt_descriptor_t" where
  "next_level_desc s d next_base input_address output_address =
     \<lparr>tt_base = next_base,
      input_base = input_address,
      input_top = get_min (input_top d) (input_address + shl 1 (unat (size_log2 d)) - 1),
      output_base = output_address,
      level = level d + 1,
      size_log2 = size_log2 d - bits_per_level s,
      nbits = bits_per_level s\<rparr>"

text \<open>A failed allocation is told from the address 0 of an existing table by the first conjunct.\<close>

partial_function (option) fill_loop :: "u64 \<Rightarrow> tt_descriptor_t \<Rightarrow> u64 \<Rightarrow> u64 \<Rightarrow> pgt \<Rightarrow> (u32 \<times> pgt) option" where
  "fill_loop attrs d input_address output_address s =
     (if \<not> input_address < input_top d then Some (0, s)
      else
        let block_size = shl 1 (unat (size_log2 d));
            desc_addr = table_desc_addr d input_address
        in if level d = 3
           then fill_loop attrs d (input_address + block_size) (output_address + block_size)
                  (store64 desc_addr (page_descriptor s output_address attrs) s)
           else if block_eligible d input_address output_address
           then fill_loop attrs d (input_address + block_size) (output_address + block_size)
                  (store64 desc_addr (block_descriptor block_size output_address attrs) s)
           else
             let desc = cells s desc_addr;
                 (tt_next, s1) = next_table desc s
             in if (desc = 0 \<or> IS_PGT_ENTRY_BLOCK desc) \<and> tt_next = 0 then Some (ACS_STATUS_ERR, s1)
                else do {
                  (r, s2) \<leftarrow> fill_loop attrs (next_level_desc s1 d tt_next input_address output_address)
                               input_address output_address s1;
                  if r \<noteq> 0 then Some (ACS_STATUS_ERR, val_memory_free_pages tt_next s2)
                  else fill_loop attrs d (input_address + block_size) (output_address + block_size)
                         (store64 desc_addr (table_descriptor s2 tt_next) s2) })"

definition fill_translation_table :: "tt_descriptor_t \<Rightarrow> memory_region_descriptor_t \<Rightarrow> pgt
    \<Rightarrow> (u32 \<times> pgt) option" where
  "fill_translation_table d mem_desc s =
     fill_loop (attributes mem_desc) d (input_base d) (output_base d) s"

function log2_loop :: "u64 \<Rightarrow> u32 \<Rightarrow> u32" where
  "log2_loop sz b =
     (if sz \<noteq> 0 then (if sz AND 1 \<noteq> 0 then b else log2_loop (shr sz 1) (b + 1)) else 0)"
  by pat_completeness auto
termination
  by (relation "measure (\<lambda>(sz, b). unat sz)") (auto simp: unat_shr unat_gt_0 word_neq_0_conv)

declare log2_loop.simps [simp del]

definition log2_page_size :: "u64 \<Rightarrow> u32" where
  "log2_page_size sz = log2_loop sz 0"


subsection \<open>Creating tables\<close>

text \<open>
  \<open>num_pgt_levels\<close> and the width of the index at the first level, from the input address size.
\<close>

definition num_levels :: "u32 \<Rightarrow> u32 \<Rightarrow> u32 \<Rightarrow> u32" where
  "num_levels ia_size page_size_log2 bpl = (ia_size - page_size_log2 + bpl - 1) div bpl"

definition root_desc :: "pgt_descriptor_t \<Rightarrow> memory_region_descriptor_t \<Rightarrow> u64 \<Rightarrow> u32 \<Rightarrow> u32 \<Rightarrow> u32
    \<Rightarrow> tt_descriptor_t" where
  "root_desc pd md base num_pgt_levels page_size_log2 bpl =
     (let ib = virtual_address md AND (shl 1 (unat (ias pd)) - 1);
          sl2 = (num_pgt_levels - 1) * bpl + page_size_log2
      in \<lparr>tt_base = base,
          input_base = ib,
          input_top = ib + mr_length md - 1,
          output_base = physical_address md AND (shl 1 (unat (oas pd)) - 1),
          level = 4 - num_pgt_levels,
          size_log2 = sl2,
          nbits = ias pd - sl2\<rparr>)"

text \<open>
  The \<open>for\<close> loop over the regions.  The loop counter is \<open>mem_desc_iter\<close>, but every read in the body
  is through \<open>mem_desc\<close>, the first region; the third argument is what the counter still has in
  front of it, and \<open>None\<close> on the empty list is a read past an array without end mark.
\<close>

fun create_loop :: "pgt_descriptor_t \<Rightarrow> u64 \<Rightarrow> memory_region_descriptor_t list \<Rightarrow> u32 \<Rightarrow> u32
    \<Rightarrow> memory_region_descriptor_t \<Rightarrow> pgt \<Rightarrow> (u32 \<times> memory_region_descriptor_t \<times> pgt) option" where
  "create_loop pd base [] num_pgt_levels page_size_log2 md s = None"
| "create_loop pd base (it # iter) num_pgt_levels page_size_log2 md s =
     (if mr_length it = 0 then Some (0, md, s)
      else if virtual_address md AND ucast (page_size s - 1) \<noteq> 0 \<or>
              physical_address md AND ucast (page_size s - 1) \<noteq> 0
      then Some (ACS_STATUS_ERR, md, s)
      else if physical_address md \<ge> shl 1 (unat (oas pd)) then Some (ACS_STATUS_ERR, md, s)
      else
        let md1 = (if virtual_address md \<ge> shl 1 (unat (ias pd))
                   then md\<lparr>virtual_address := virtual_address md AND (shl 1 (unat (ias pd)) - 1)\<rparr>
                   else md)
        in if ucast (tg_size_log2 (tcr pd)) \<noteq> page_size_log2 then Some (ACS_STATUS_ERR, md1, s)
           else do {
             (r, s1) \<leftarrow> fill_translation_table
                (root_desc pd md1 base num_pgt_levels page_size_log2 (bits_per_level s)) md1 s;
             if r \<noteq> 0 then Some (ACS_STATUS_ERR, md1, val_memory_free_pages base s1)
             else create_loop pd base iter num_pgt_levels page_size_log2 md1 s1 })"

definition val_pgt_create :: "memory_region_descriptor_t list \<Rightarrow> pgt_descriptor_t \<Rightarrow> pgt
    \<Rightarrow> (u32 \<times> memory_region_descriptor_t list \<times> pgt_descriptor_t \<times> pgt) option" where
  "val_pgt_create mds pd s =
     (let ps = val_memory_page_size s;
          page_size_log2 = log2_page_size (ucast ps);
          bpl = page_size_log2 - 3;
          num_pgt_levels = num_levels (ias pd) page_size_log2 bpl;
          s1 = s\<lparr>page_size := ps, bits_per_level := bpl\<rparr>;
          (base, s2) = val_memory_alloc_pages s1
      in if base = 0 then Some (ACS_STATUS_ERR, mds, pd, s2)
         else
           let s3 = val_memory_set base ps 0 s2;
               s4 = s3\<lparr>pgt_addr_mask := shl (shl 1 (unat (48 - page_size_log2)) - 1) (unat page_size_log2)\<rparr>
           in case mds of
                [] \<Rightarrow> None
              | md # rest \<Rightarrow> do {
                  (r, md', s5) \<leftarrow> create_loop pd base (md # rest) num_pgt_levels page_size_log2 md s4;
                  Some (if r \<noteq> 0 then (r, md' # rest, pd, s5)
                        else (0, md' # rest, pd\<lparr>pgt_base := val_memory_virt_to_phys base\<rparr>, s5)) })"

subsection \<open>Reading attributes back\<close>

text \<open>
  The \<open>while (1)\<close> loop of \<open>val_pgt_get_attributes\<close>; the result is the returned status with what
  \<open>*attributes\<close> holds afterwards.
\<close>

partial_function (option) attributes_loop :: "(u64 \<Rightarrow> u64) \<Rightarrow> u32 \<Rightarrow> u32 \<Rightarrow> u32 \<Rightarrow> u64 \<Rightarrow> u64
    \<Rightarrow> u32 \<Rightarrow> u32 \<Rightarrow> u32 \<Rightarrow> u64 \<Rightarrow> (u64 \<times> u64) option" where
  "attributes_loop m ia_size page_size_log2 bpl va attr this_level bits_remaining bits_at_this_level tt_base_phys =
     (let index = ucast (shr va (unat bits_remaining) AND
                         ucast (shl 1 (unat bits_at_this_level) - 1 :: u32)) :: u32;
          val64 = m (val_memory_phys_to_virt tt_base_phys + 8 * ucast index)
      in if this_level = 3
         then if \<not> IS_PGT_ENTRY_PAGE val64 then Some (ucast ACS_STATUS_ERR, attr)
              else Some (0, PGT_DESC_ATTRIBUTES val64)
         else if IS_PGT_ENTRY_BLOCK val64 then Some (0, PGT_DESC_ATTRIBUTES val64)
         else attributes_loop m ia_size page_size_log2 bpl va attr (this_level + 1)
                (bits_remaining - bits_at_this_level) bpl
                (val64 AND shl (shl 1 (unat (ia_size - page_size_log2)) - 1) (unat page_size_log2)))"

definition val_pgt_get_attributes :: "pgt_descriptor_t \<Rightarrow> u64 \<Rightarrow> u64 option \<Rightarrow> pgt
    \<Rightarrow> (u64 \<times> u64 option \<times> pgt) option" where
  "val_pgt_get_attributes pd va attributes_ptr s =
     (case attributes_ptr of
        None \<Rightarrow> Some (ucast ACS_STATUS_ERR, None, s)
      | Some attr \<Rightarrow>
          if pgt_base pd = 0 then Some (ucast ACS_STATUS_ERR, Some attr, s)
          else
            let ia_size = 64 - ucast (tcr_tsz (tcr pd));
                page_size_log2 = ucast (tg_size_log2 (tcr pd)) :: u32;
                bpl = page_size_log2 - 3;
                levels = num_levels ia_size page_size_log2 bpl;
                bits_remaining = (levels - 1) * bpl + page_size_log2
            in do {
              (r, a) \<leftarrow> attributes_loop (cells s) ia_size page_size_log2 bpl va attr (4 - levels)
                          bits_remaining (ia_size - bits_remaining) (pgt_base pd);
              Some (r, Some a, s\<lparr>bits_per_level := bpl\<rparr>) })"

subsection \<open>Destroying tables\<close>

partial_function (option) free_loop :: "u64 \<Rightarrow> u32 \<Rightarrow> u32 \<Rightarrow> u32 \<Rightarrow> pgt \<Rightarrow> pgt option" where
  "free_loop base bits_at_this_level this_level index s =
     (if this_level = 3 \<or> \<not> (ucast index < (shl 1 (unat bits_at_this_level) :: u64)) then Some s
      else
        let desc = cells s (base + 8 * ucast index);
            tt_next = val_memory_phys_to_virt (desc AND pgt_addr_mask s)
        in if desc = 0 \<or> IS_PGT_ENTRY_BLOCK desc \<or> tt_next = 0
           then free_loop base bits_at_this_level this_level (index + 1) s
           else do {
             s1 \<leftarrow> free_loop tt_next (bits_per_level s) (this_level + 1) 0 s;
             free_loop base bits_at_this_level this_level (index + 1) (val_memory_free_pages tt_next s1) })"

definition free_translation_table :: "u64 \<Rightarrow> u32 \<Rightarrow> u32 \<Rightarrow> pgt \<Rightarrow> pgt option" where
  "free_translation_table base bits_at_this_level this_level s =
     free_loop base bits_at_this_level this_level 0 s"

definition val_pgt_destroy :: "pgt_descriptor_t \<Rightarrow> pgt \<Rightarrow> pgt option" where
  "val_pgt_destroy pd s =
     (let base = val_memory_phys_to_virt (pgt_base pd)
      in if pgt_base pd = 0 then Some s
         else
           let ps = val_memory_page_size s;
               page_size_log2 = log2_page_size (ucast ps);
               bpl = page_size_log2 - 3;
               s1 = s\<lparr>page_size := ps, bits_per_level := bpl,
                      pgt_addr_mask := shl (shl 1 (unat (ias pd - page_size_log2)) - 1) (unat page_size_log2)\<rparr>;
               num_pgt_levels = num_levels (ias pd) page_size_log2 bpl
           in do {
             s2 \<leftarrow> free_translation_table base
                    (ias pd - ((num_pgt_levels - 1) * bpl + page_size_log2)) (4 - num_pgt_levels) s1;
             Some (val_memory_free_pages base s2) })"

declare fill_loop.simps [code] attributes_loop.simps [code] free_loop.simps [code]

end
