(* ===== verification/Acs_Pgt_Walk.thy ===== *)
theory Acs_Pgt_Walk
  imports Acs_Pgt
begin

text \<open>
  What the tables of \<^verbatim>\<open>val/src/acs_pgt.c\<close> translate.  \<open>walk\<close> and \<open>translate\<close> are the table walk of
  the architecture (VMSAv8-64 with a 4, 16 or 64 KB granule), \<open>entry_pages\<close> collects the table
  pages below a descriptor.  The level \<open>k\<close> of a table counts from the leaves: \<open>k = 0\<close> is level 3
  of the architecture; \<open>p\<close> is the logarithm of the granule and \<open>w\<close> a number of address bits.

  The proof follows the loop.  \<open>built\<close> says that the entries written for a range of addresses
  translate it and own exactly the pages \<open>used\<close>, whatever is stored outside of their footprint;
  \<open>filled\<close> adds what the loop leaves unchanged and how it fails.  \<open>built_page\<close>, \<open>built_block\<close> and
  \<open>built_table\<close> treat one entry, \<open>built_append\<close> joins two ranges, \<open>fill_loop_ok\<close> is the induction
  over the levels and the range.
\<close>

subsection \<open>The walk of the architecture\<close>

text \<open>The address bits below an entry of level \<open>k\<close>, and where block descriptors are allowed.\<close>

definition lsize :: "nat \<Rightarrow> nat \<Rightarrow> nat" where
  "lsize p k = k * (p - 3) + p"

definition block_level :: "nat \<Rightarrow> nat \<Rightarrow> bool" where
  "block_level p k \<longleftrightarrow> (p = 12 \<and> (k = 1 \<or> k = 2)) \<or> ((p = 14 \<or> p = 16) \<and> k = 1)"

definition output_addr :: "nat \<Rightarrow> nat \<Rightarrow> u64 \<Rightarrow> u64 \<Rightarrow> u64" where
  "output_addr w n d va = (take_bit w d AND NOT (mask n)) OR take_bit n va"

definition walk_index :: "nat \<Rightarrow> nat \<Rightarrow> u64 \<Rightarrow> nat" where
  "walk_index n nb va = unat (take_bit nb (drop_bit n va))"

definition entry_addr :: "u64 \<Rightarrow> nat \<Rightarrow> u64" where
  "entry_addr base i = base + 8 * of_nat i"

fun walk :: "nat \<Rightarrow> nat \<Rightarrow> (u64 \<Rightarrow> u64) \<Rightarrow> nat \<Rightarrow> nat \<Rightarrow> u64 \<Rightarrow> u64 \<Rightarrow> (u64 \<times> u64) option" where
  "walk p w m 0 nb base va =
     (let d = m (entry_addr base (walk_index p nb va))
      in if bit d 0 \<and> bit d 1 then Some (output_addr w p d va, PGT_DESC_ATTRIBUTES d) else None)"
| "walk p w m (Suc k) nb base va =
     (let n = lsize p (Suc k);
          d = m (entry_addr base (walk_index n nb va))
      in if \<not> bit d 0 then None
         else if bit d 1 then walk p w m k (p - 3) (take_bit w d AND NOT (mask p)) va
         else if block_level p (Suc k) then Some (output_addr w n d va, PGT_DESC_ATTRIBUTES d)
         else None)"

text \<open>
  The first level for an input address of \<open>ia_size\<close> bits, and the whole translation; \<open>w\<close> is the
  number of address bits that a table descriptor holds.
\<close>

definition first_k :: "nat \<Rightarrow> nat \<Rightarrow> nat" where
  "first_k p w = (w - p + (p - 3) - 1) div (p - 3) - 1"

definition translate :: "nat \<Rightarrow> nat \<Rightarrow> nat \<Rightarrow> (u64 \<Rightarrow> u64) \<Rightarrow> u64 \<Rightarrow> u64 \<Rightarrow> (u64 \<times> u64) option" where
  "translate p w ia_size m base va =
     walk p w m (first_k p ia_size) (ia_size - lsize p (first_k p ia_size)) base va"

text \<open>The table pages reachable from a descriptor, each with its multiplicity.\<close>

fun entry_pages :: "nat \<Rightarrow> nat \<Rightarrow> (u64 \<Rightarrow> u64) \<Rightarrow> nat \<Rightarrow> u64 \<Rightarrow> u64 multiset" where
  "entry_pages p w m 0 d = {#}"
| "entry_pages p w m (Suc k) d =
     (let n = take_bit w d AND NOT (mask p)
      in if d = 0 \<or> \<not> bit d 1 \<or> n = 0 then {#}
         else {#n#} + (\<Sum>i<2 ^ (p - 3). entry_pages p w m k (m (entry_addr n i))))"

subsection \<open>Preconditions\<close>

text \<open>
  A usable page: aligned, not \<open>NULL\<close> and below 4 GB, since the descriptors that \<open>acs_pgt.c\<close> writes
  keep only the low 32 bits of a page address; usable attributes: within the attribute fields.
\<close>

definition granule :: "nat \<Rightarrow> bool" where
  "granule p \<longleftrightarrow> p = 12 \<or> p = 14 \<or> p = 16"

definition page_ok :: "nat \<Rightarrow> u64 \<Rightarrow> bool" where
  "page_ok p a \<longleftrightarrow> a \<noteq> 0 \<and> 2 ^ p dvd unat a \<and> unat a < 2 ^ 32"

definition attrs_ok :: "u64 \<Rightarrow> bool" where
  "attrs_ok a \<longleftrightarrow> a AND PGT_DESC_ATTRIBUTES_MASK = a"

text \<open>
  A region the code translates correctly: page aligned, below 4 GB, with an end that does not fall
  on the first byte of a page, and at every level either aligned to the block size or inside one
  block.
\<close>

definition region_fits :: "nat \<Rightarrow> nat \<Rightarrow> memory_region_descriptor_t \<Rightarrow> bool" where
  "region_fits p w md \<longleftrightarrow>
     (let i = unat (virtual_address md); len = unat (mr_length md); out = unat (physical_address md);
          t = i + len - 1
      in 2 ^ p dvd i \<and> 2 ^ p dvd out \<and> 0 < len \<and> i + len \<le> 2 ^ w \<and> out + len \<le> 2 ^ 32 \<and> t mod 2 ^ p \<noteq> 0 \<and>
         (\<forall>j\<in>{1..first_k p w}. 2 ^ lsize p j dvd i \<or> i div 2 ^ lsize p j = t div 2 ^ lsize p j))"

definition pgt_setup :: "nat \<Rightarrow> nat \<Rightarrow> pgt_descriptor_t \<Rightarrow> memory_region_descriptor_t \<Rightarrow> pgt \<Rightarrow> bool" where
  "pgt_setup p w pd md s \<longleftrightarrow>
     granule p \<and> 32 \<le> w \<and> w \<le> 48 \<and> pal_page_size s = 2 ^ p \<and> ias pd = of_nat w \<and>
     tg_size_log2 (tcr pd) = of_nat p \<and> tcr_tsz (tcr pd) = 64 - of_nat w \<and>
     oas pd < 64 \<and> physical_address md < shl 1 (unat (oas pd)) \<and>
     attrs_ok (attributes md) \<and> region_fits p w md \<and>
     page_supply s \<noteq> [] \<and> distinct (page_supply s) \<and> (\<forall>a\<in>set (page_supply s). page_ok p a)"

subsection \<open>Footprints and the invariant of the loop\<close>

definition page_cells :: "nat \<Rightarrow> u64 \<Rightarrow> u64 set" where
  "page_cells p a = {x. unat (x - a) < 2 ^ p}"

definition table_cell :: "nat \<Rightarrow> u64 \<Rightarrow> nat \<Rightarrow> u64" where
  "table_cell nb base j = entry_addr base (j mod 2 ^ nb)"

definition block_range :: "nat \<Rightarrow> nat \<Rightarrow> nat \<Rightarrow> nat \<Rightarrow> nat set" where
  "block_range p k i t = {i div 2 ^ lsize p k .. t div 2 ^ lsize p k}"

definition footprint :: "nat \<Rightarrow> nat \<Rightarrow> nat \<Rightarrow> u64 \<Rightarrow> nat \<Rightarrow> nat \<Rightarrow> u64 list \<Rightarrow> u64 set" where
  "footprint p k nb base i t used = table_cell nb base ` block_range p k i t \<union> (\<Union>a\<in>set used. page_cells p a)"

definition mapped :: "nat \<Rightarrow> nat \<Rightarrow> (u64 \<Rightarrow> u64) \<Rightarrow> nat \<Rightarrow> nat \<Rightarrow> u64 \<Rightarrow> u64 \<Rightarrow> nat \<Rightarrow> nat \<Rightarrow> nat \<Rightarrow> bool" where
  "mapped p w m k nb base a i t out \<longleftrightarrow>
     (\<forall>va. i \<le> unat va \<and> unat va \<le> t \<longrightarrow> walk p w m k nb base va = Some (of_nat (out + (unat va - i)), a))"

definition built :: "nat \<Rightarrow> u64 \<Rightarrow> nat \<Rightarrow> nat \<Rightarrow> u64 \<Rightarrow> nat \<Rightarrow> nat \<Rightarrow> nat \<Rightarrow> u64 list \<Rightarrow> (u64 \<Rightarrow> u64) \<Rightarrow> bool" where
  "built p a k nb base i t out used m \<longleftrightarrow>
     (\<forall>m' w. 32 \<le> w \<and> w \<le> 48 \<and> (\<forall>x\<in>footprint p k nb base i t used. m' x = m x) \<longrightarrow>
        mapped p w m' k nb base a i t out \<and>
        (\<Sum>j\<in>block_range p k i t. entry_pages p w m' k (m' (table_cell nb base j))) = mset used)"

definition region_ok :: "nat \<Rightarrow> nat \<Rightarrow> nat \<Rightarrow> nat \<Rightarrow> nat \<Rightarrow> nat \<Rightarrow> bool" where
  "region_ok p k nb i t out \<longleftrightarrow>
     2 ^ p dvd i \<and> 2 ^ p dvd out \<and> i \<le> t \<and> t < 2 ^ 48 \<and> t mod 2 ^ p \<noteq> 0 \<and> out + (t - i) < 2 ^ 32 \<and>
     (\<forall>j. 1 \<le> j \<and> j \<le> k \<longrightarrow> 2 ^ lsize p j dvd i \<or> i div 2 ^ lsize p j = t div 2 ^ lsize p j) \<and>
     i div 2 ^ (lsize p k + nb) = t div 2 ^ (lsize p k + nb)"

definition tables_ok :: "nat \<Rightarrow> u64 \<Rightarrow> pgt \<Rightarrow> bool" where
  "tables_ok p base s \<longleftrightarrow>
     page_size s = 2 ^ p \<and> bits_per_level s = of_nat (p - 3) \<and> page_ok p base \<and>
     (\<forall>a\<in>set (page_supply s). page_ok p a) \<and> distinct (base # page_supply s)"

definition same_statics :: "pgt \<Rightarrow> pgt \<Rightarrow> bool" where
  "same_statics s s' \<longleftrightarrow> page_size s' = page_size s \<and> bits_per_level s' = bits_per_level s \<and>
     pgt_addr_mask s' = pgt_addr_mask s \<and> pal_page_size s' = pal_page_size s"

definition filled :: "nat \<Rightarrow> nat \<Rightarrow> nat \<Rightarrow> u64 \<Rightarrow> u64 \<Rightarrow> nat \<Rightarrow> nat \<Rightarrow> nat \<Rightarrow> pgt \<Rightarrow> u32 \<Rightarrow> pgt \<Rightarrow> bool" where
  "filled p k nb a base i t out s r s' \<longleftrightarrow>
     (\<exists>used. page_supply s = used @ page_supply s' \<and> same_statics s s' \<and>
        (\<forall>x. x \<notin> footprint p k nb base i t used \<longrightarrow> cells s' x = cells s x) \<and>
        ((r = 0 \<and> freed_pages s' = freed_pages s \<and> built p a k nb base i t out used (cells s')) \<or>
         (r = ACS_STATUS_ERR \<and> page_supply s' = [])))"

definition tt_lvl :: "nat \<Rightarrow> nat \<Rightarrow> nat \<Rightarrow> tt_descriptor_t \<Rightarrow> bool" where
  "tt_lvl p k nb d \<longleftrightarrow> level d = 3 - of_nat k \<and> size_log2 d = of_nat (lsize p k) \<and> nbits d = of_nat nb"

definition fill_pre :: "nat \<Rightarrow> nat \<Rightarrow> nat \<Rightarrow> u64 \<Rightarrow> tt_descriptor_t \<Rightarrow> u64 \<Rightarrow> u64 \<Rightarrow> pgt \<Rightarrow> bool" where
  "fill_pre p k nb a d ia oa s \<longleftrightarrow>
     tt_lvl p k nb d \<and> granule p \<and> k \<le> 3 \<and> nb + 3 \<le> p \<and> attrs_ok a \<and>
     region_ok p k nb (unat ia) (unat (input_top d)) (unat oa) \<and> tables_ok p (tt_base d) s \<and>
     (\<forall>j\<in>block_range p k (unat ia) (unat (input_top d)). cells s (table_cell nb (tt_base d) j) = 0)"

definition fill_goal :: "nat \<Rightarrow> nat \<Rightarrow> nat \<Rightarrow> u64 \<Rightarrow> tt_descriptor_t \<Rightarrow> u64 \<Rightarrow> u64 \<Rightarrow> pgt \<Rightarrow> bool" where
  "fill_goal p k nb a d ia oa s \<longleftrightarrow>
     (\<exists>r s'. fill_loop a d ia oa s = Some (r, s') \<and>
        filled p k nb a (tt_base d) (unat ia) (unat (input_top d)) (unat oa) s r s')"

definition zeroed :: "u64 \<Rightarrow> u64 list \<Rightarrow> pgt \<Rightarrow> pgt" where
  "zeroed nt rest s = val_memory_set nt (page_size s) 0 (s\<lparr>page_supply := rest\<rparr>)"

definition created :: "nat \<Rightarrow> nat \<Rightarrow> memory_region_descriptor_t \<Rightarrow> pgt_descriptor_t \<Rightarrow> pgt \<Rightarrow> u32 \<Rightarrow> pgt_descriptor_t \<Rightarrow> pgt \<Rightarrow> bool" where
  "created p w md pd s r pd' s' \<longleftrightarrow>
     (\<exists>base rest s4 s5. page_supply s = base # rest \<and>
        s4 = (zeroed base rest (s\<lparr>page_size := 2 ^ p, bits_per_level := of_nat (p - 3)\<rparr>))
               \<lparr>pgt_addr_mask := shl (shl 1 (48 - p) - 1) p\<rparr> \<and>
        filled p (first_k p w) (w - lsize p (first_k p w)) (attributes md) base (unat (virtual_address md))
           (unat (virtual_address md) + unat (mr_length md) - 1) (unat (physical_address md)) s4 r s5 \<and>
        (if r = 0 then pd' = pd\<lparr>pgt_base := base\<rparr> \<and> s' = s5
         else pd' = pd \<and> s' = val_memory_free_pages base s5))"

subsection \<open>A system for the witnesses\<close>

definition example_region :: memory_region_descriptor_t where
  "example_region = \<lparr>physical_address = 0x40000000, virtual_address = 0x80000000, mr_length = 0x2000,
     attributes = 0x740\<rparr>"

definition end_of_regions :: memory_region_descriptor_t where
  "end_of_regions = \<lparr>physical_address = 0, virtual_address = 0, mr_length = 0, attributes = 0\<rparr>"

definition example_pgt_desc :: pgt_descriptor_t where
  "example_pgt_desc = \<lparr>pgt_base = 0, ias = 48, oas = 48, mair = 0, stage = 1,
     tcr = \<lparr>tcr_ps = 5, tcr_tg = 0, tcr_sh = 3, tcr_orgn = 1, tcr_irgn = 1, tcr_tsz = 16, tcr_sl = 0,
            tg_size_log2 = 12\<rparr>\<rparr>"

definition example_pgt :: pgt where
  "example_pgt = \<lparr>cells = (\<lambda>_. 0xDEAD), page_supply = [0x1000, 0x3000, 0x2000, 0x8000, 0x9000],
     freed_pages = [], pal_page_size = 0x1000, page_size = 0, bits_per_level = 0, pgt_addr_mask = 0\<rparr>"

text \<open>A region of two pages that crosses a 2 MB boundary without being aligned to it.\<close>

definition crossing_region :: memory_region_descriptor_t where
  "crossing_region = \<lparr>physical_address = 0x401FF000, virtual_address = 0x1FF000, mr_length = 0x2000,
     attributes = 0x740\<rparr>"

subsection \<open>Lemmas: Words and descriptors\<close>

lemma unat_shl_1: "n < 64 \<Longrightarrow> unat (shl 1 n :: u64) = 2 ^ n"
  using word_le_of_nat_less [of "2 ^ n", where 'a=64] power_strict_increasing [of n 64 "2::nat"]
  by (simp add: push_bit_eq_mult)

lemma and_low_zero_iff: 
  "(x :: 'a::len word) AND (shl 1 n - 1) = 0 \<longleftrightarrow> 2 ^ n dvd unat x"
  unfolding push_bit_1_minus_1 take_bit_eq_mask [symmetric] word_eq_zero_unat unsigned_take_bit_eq
  by (simp add: take_bit_eq_0_iff)

lemma unat_index:
  "unat (shr (x :: 'a::len word) n AND (shl 1 nb - 1)) = unat x div 2 ^ n mod 2 ^ nb"
  unfolding push_bit_1_minus_1 take_bit_eq_mask [symmetric] unsigned_take_bit_eq unat_shr
  by (simp add: take_bit_eq_mod)

lemma bit_attr_mask: "bit PGT_DESC_ATTRIBUTES_MASK n \<longleftrightarrow> (2 \<le> n \<and> n < 12) \<or> (52 \<le> n \<and> n < 64)"
  unfolding PGT_DESC_ATTRIBUTES_MASK_def push_bit_1_minus_1 by (auto simp: bit_simps)

lemma attrs_ok_bit: "attrs_ok a \<Longrightarrow> bit a n \<Longrightarrow> (2 \<le> n \<and> n < 12) \<or> (52 \<le> n \<and> n < 64)"
  unfolding attrs_ok_def by (metis bit_and_iff bit_attr_mask)

lemma page_mask_bit:
  assumes "page_size s = 2 ^ p" "p < 32"
  shows "bit (page_addr_mask s) n \<longleftrightarrow> p \<le> n \<and> n < 32"
  using assms by (auto simp: page_addr_mask_def mask_eq_exp_minus_1 [symmetric] bit_simps)

lemma aligned_bit: "2 ^ n dvd unat (x::u64) \<Longrightarrow> bit x i \<Longrightarrow> n \<le> i"
proof (rule ccontr)
  assume "2 ^ n dvd unat x" "bit x i" "\<not> n \<le> i"
  then have "take_bit n x = 0" "bit (take_bit n x) i"
    by (simp_all add: word_eq_zero_unat unsigned_take_bit_eq take_bit_eq_0_iff bit_simps)
  then show False by simp
qed

lemma page_desc_decode:
  assumes "page_size s = 2 ^ p" "12 \<le> p" "p < 32" "attrs_ok a" "2 ^ p dvd unat x" "unat x < 2 ^ 32" "32 \<le> w" "w \<le> 48"
  defines "d \<equiv> 3 OR (x AND page_addr_mask s) OR a"
  shows "bit d 0" "bit d 1" "take_bit w d AND NOT (mask p) = x" "PGT_DESC_ATTRIBUTES d = a"
proof -
  have three: "bit (3::u64) i \<longleftrightarrow> i < 2" for i 
    by (auto simp: mask_lits bit_simps)
  have x: "bit x i \<Longrightarrow> p \<le> i \<and> i < 32" for i
    using aligned_bit [OF assms(5)] bit_less_exp [OF _ assms(6)] by blast
  note b = page_mask_bit [OF assms(1,3)] attrs_ok_bit [OF assms(4)] x three bit_attr_mask
  show "bit d 0" "bit d 1" by (auto simp: d_def bit_simps three)
  show "take_bit w d AND NOT (mask p) = x"
  proof (rule bit_word_eqI)
    fix i assume "i < LENGTH(64)"
    show "bit (take_bit w d AND NOT (mask p)) i = bit x i"
      using x [of i] three [of i] attrs_ok_bit [OF assms(4), of i] assms(2,3,7,8) \<open>i < _\<close>
      by (cases "bit x i"; cases "bit a i")
         (auto simp: d_def bit_simps three page_mask_bit [OF assms(1,3)])
  qed
  show "PGT_DESC_ATTRIBUTES d = a"
  proof (rule bit_word_eqI)
    fix i assume "i < LENGTH(64)"
    show "bit (PGT_DESC_ATTRIBUTES d) i = bit a i"
      using x [of i] three [of i] attrs_ok_bit [OF assms(4), of i] assms(2,3,7,8) \<open>i < _\<close>
      by (cases "bit x i"; cases "bit a i")
         (auto simp: PGT_DESC_ATTRIBUTES_def bit_attr_mask d_def bit_simps three page_mask_bit [OF assms(1,3)])
  qed
qed

lemma block_desc_decode:
  assumes "12 \<le> n" "n < 32" "attrs_ok a" "2 ^ n dvd unat x" "unat x < 2 ^ 32" "32 \<le> w" "w \<le> 48"
  defines "d \<equiv> 1 OR (x AND NOT (mask n)) OR a"
  shows "bit d 0" "\<not> bit d 1" "take_bit w d AND NOT (mask n) = x" "PGT_DESC_ATTRIBUTES d = a"
proof -
  have x: "bit x i \<Longrightarrow> n \<le> i \<and> i < 32" for i
    using aligned_bit [OF assms(4)] bit_less_exp [OF _ assms(5)] by blast
  note b = attrs_ok_bit [OF assms(3)] x bit_attr_mask
  show "bit d 0"  by (auto simp: d_def bit_simps )
  show "\<not> bit d 1" using b [of 1] assms(1) by (auto simp: d_def bit_simps)
  show "take_bit w d AND NOT (mask n) = x"
  proof (rule bit_word_eqI)
    fix i assume "i < LENGTH(64)"
    show "bit (take_bit w d AND NOT (mask n)) i = bit x i"
      using x [of i] attrs_ok_bit [OF assms(3), of i] assms(1,2,6,7) \<open>i < _\<close>
      by (cases "bit x i"; cases "bit a i") (auto simp: d_def bit_simps)
  qed
  show "PGT_DESC_ATTRIBUTES d = a"
  proof (rule bit_word_eqI)
    fix i assume "i < LENGTH(64)"
    show "bit (PGT_DESC_ATTRIBUTES d) i = bit a i"
      using x [of i] attrs_ok_bit [OF assms(3), of i] assms(1,2,6,7) \<open>i < _\<close>
      by (cases "bit x i"; cases "bit a i") (auto simp: PGT_DESC_ATTRIBUTES_def bit_attr_mask d_def bit_simps)
  qed
qed

subsection \<open>Lemmas: Pages and entries\<close>

lemma page_cells_div:
  assumes "page_ok p a" "p < 32" "x \<in> page_cells p a"
  shows "unat x div 2 ^ p = unat a div 2 ^ p"
proof -
  obtain y where xy: "x = a + y" by (metis add_diff_cancel_left' diff_add_cancel add.commute)
  then have y: "unat y < 2 ^ p" using assms(3) by (simp add: page_cells_def)
  have "(2::nat) ^ p \<le> 2 ^ 32" using assms(2) by (intro power_increasing) auto
  with y assms(1) have "unat a + unat y < 2 ^ 64" by (simp add: page_ok_def)
  then have "unat x = unat a + unat y" by (simp add: xy unat_word_ariths)
  with y assms(1) show ?thesis by (auto simp: page_ok_def elim!: dvdE)
qed

lemma pages_disjoint:
  assumes "page_ok p a" "page_ok p b" "a \<noteq> b" "p < 32"
  shows "page_cells p a \<inter> page_cells p b = {}"
proof -
  have "unat a div 2 ^ p \<noteq> unat b div 2 ^ p"
    using assms by (auto simp: page_ok_def word_unat_eq_iff elim!: dvdE)
  with assms show ?thesis using page_cells_div by (metis disjoint_iff)
qed

lemma entry_in_page:
  assumes "i < 2 ^ nb" "nb + 3 \<le> p" "p < 32"
  shows "entry_addr base i \<in> page_cells p base"
proof -
  have "i < 2 ^ (p - 3)" using assms(1) power_increasing [of nb "p - 3" "2::nat"] assms(2) by linarith
  then have i: "8 * i < 2 ^ p" using power_add [of "2::nat" "p - 3" 3] assms(2) by simp
  also have "(2::nat) ^ p \<le> 2 ^ 32" using assms(3) by (intro power_increasing) auto
  finally have "unat (of_nat (8 * i) :: u64) = 8 * i" by (intro word_le_of_nat_less) simp
  with i show ?thesis by (simp add: page_cells_def entry_addr_def)
qed

lemma entry_addr_inj:
  assumes "i < 2 ^ nb" "j < 2 ^ nb" "nb < 29" "entry_addr base i = entry_addr base j"
  shows "i = j"
proof -
  have "(2::nat) ^ nb \<le> 2 ^ 29" using assms(3) by (intro power_increasing) auto
  with assms(1,2) have "i < 2 ^ 29" "j < 2 ^ 29" by linarith+
  then have "8 * i < 2 ^ LENGTH(64)" "8 * j < 2 ^ LENGTH(64)" by simp_all
  then have "unat (of_nat (8 * i) :: u64) = 8 * i" "unat (of_nat (8 * j) :: u64) = 8 * j"
    by (auto intro: word_le_of_nat_less simp del: of_nat_mult)
  moreover have "of_nat (8 * i) = (of_nat (8 * j) :: u64)"
    using assms(4) by (simp add: entry_addr_def)
  ultimately have "8 * i = 8 * j" by metis
  then show ?thesis by simp
qed

lemma entry_pages_0 [simp]: "entry_pages p w m k 0 = {#}"
  by (cases k) simp_all

lemma or_low: 
  assumes "2 ^ n dvd out" "out < 2 ^ 64" "n < 64" 
  shows "(of_nat out :: u64) OR take_bit n va = of_nat (out + unat va mod 2 ^ n)"
proof -
  have u: "unat (of_nat out :: u64) = out" using assms by (simp add: word_le_of_nat_less)
  have "bit (of_nat out :: u64) i \<Longrightarrow> n \<le> i" for i
    using aligned_bit [of n "of_nat out" i] assms u by simp
  then have sum: "(of_nat out :: u64) OR take_bit n va = of_nat out + take_bit n va"
    by (intro disjunctive_add_eq_or [symmetric] bit_word_eqI)
      (fastforce simp: bit_and_iff bit_take_bit_iff not_le)
  have "take_bit n va = of_nat (unat va mod 2 ^ n)"
    by (metis take_bit_eq_mod unsigned_take_bit_eq of_nat_unat ucast_id)
  with sum show ?thesis by (metis of_nat_add)
qed

subsection \<open>Lemmas: One entry\<close>

lemma in_block:
  assumes "2 ^ n dvd i" "i \<le> v" "v < i + 2 ^ n"
  shows "v div 2 ^ n = i div (2::nat) ^ n" "v mod 2 ^ n = v - i"
proof -
  obtain q where i: "i = 2 ^ n * q" using assms(1) by (elim dvdE)
  obtain r where v: "v = i + r" using assms(2) by (metis le_iff_add)
  then have "r < 2 ^ n" using assms(3) by simp
  then show "v div 2 ^ n = i div 2 ^ n" "v mod 2 ^ n = v - i"
    by (simp_all add: v i)
qed

lemma built_leaf:
  fixes n :: nat
  assumes "2 ^ n dvd i" "i \<le> t" "t < i + 2 ^ n" "n < 64" "2 ^ n dvd out" "out < 2 ^ 64" "n = lsize p k"
    and leaf: "\<And>w m'. 32 \<le> w \<Longrightarrow> w \<le> 48 \<Longrightarrow> m' (table_cell nb base (i div 2 ^ n)) = m (table_cell nb base (i div 2 ^ n)) \<Longrightarrow>
       take_bit w (m' (table_cell nb base (i div 2 ^ n))) AND NOT (mask n) = of_nat out \<and>
       (\<forall>va. unat va div 2 ^ n = i div 2 ^ n \<longrightarrow> walk p w m' k nb base va =
          Some (output_addr w n (m' (table_cell nb base (i div 2 ^ n))) va, a)) \<and>
       entry_pages p w m' k (m' (table_cell nb base (i div 2 ^ n))) = {#}"
  shows "built p a k nb base i t out [] m"
proof -
  have td: "t div 2 ^ n = i div 2 ^ n" using in_block(1) [OF assms(1,2,3)] .
  have r: "block_range p k i t = {i div 2 ^ n}" by (simp add: block_range_def assms(7)[symmetric] td)
  show ?thesis
    unfolding built_def mapped_def r footprint_def
  proof (intro allI impI conjI)
    fix m' and w :: nat and va :: u64
    assume m: "32 \<le> w \<and> w \<le> 48 \<and> (\<forall>x\<in>table_cell nb base ` {i div 2 ^ n} \<union> \<Union> (page_cells p ` set []). m' x = m x)"
    note lf = leaf [of w m'] 
    show "(\<Sum>j\<in>{i div 2 ^ n}. entry_pages p w m' k (m' (table_cell nb base j))) = mset []"
      using lf m by simp
    assume va: "i \<le> unat va \<and> unat va \<le> t"
    then have v: "unat va < i + 2 ^ n" using assms(3) by simp
    have "of_nat out OR take_bit n va = (of_nat (out + (unat va - i)) :: u64)"
      using or_low [OF assms(5,6,4), of va] in_block(2) [OF assms(1) _ v] va by simp
    then show "walk p w m' k nb base va = Some (of_nat (out + (unat va - i)), a)"
      using lf m in_block(1) [OF assms(1) _ v] va by (simp add: output_addr_def)
  qed
qed

lemma lsize_0 [simp]: "lsize p 0 = p"
  by (simp add: lsize_def)

lemma walk_index_div: "walk_index n nb va = unat va div 2 ^ n mod 2 ^ nb"
  unfolding walk_index_def unsigned_take_bit_eq unat_shr by (simp add: take_bit_eq_mod)

lemma walk_index_cell: "unat va div 2 ^ n = j \<Longrightarrow> entry_addr base (walk_index n nb va) = table_cell nb base j"
  by (simp add: walk_index_div table_cell_def)

lemma built_page:
  assumes "granule p" "page_size s = 2 ^ p" "attrs_ok a"
    "2 ^ p dvd i" "i \<le> t" "t < i + 2 ^ p" "2 ^ p dvd out" "out < 2 ^ 32"
    "m (table_cell nb base (i div 2 ^ p)) = page_descriptor s (of_nat out) a"
  shows "built p a 0 nb base i t out [] m"
proof (rule built_leaf [OF assms(4,5,6)])
  show "p < 64" "2 ^ p dvd out" "out < 2 ^ 64" "p = lsize p 0"
    using assms by (auto simp: granule_def lsize_def)
  have u: "unat (of_nat out :: u64) = out" using assms(8) by (simp add: word_le_of_nat_less)
  have p: "12 \<le> p" "p < 32" using assms(1) by (auto simp: granule_def)
  have al: "2 ^ p dvd unat (of_nat out :: u64)" "unat (of_nat out :: u64) < 2 ^ 32" using assms(7,8) u by simp_all
  have d: "page_descriptor s (of_nat out) a = 3 OR (of_nat out AND page_addr_mask s) OR a"
    by (simp add: page_descriptor_def PGT_ENTRY_PAGE_MASK_def PGT_ENTRY_VALID_MASK_def or.assoc [symmetric])
  fix w m' assume w: "32 \<le> w" "w \<le> (48::nat)" "m' (table_cell nb base (i div 2 ^ p)) = m (table_cell nb base (i div 2 ^ p))"
  note dec = page_desc_decode [OF assms(2) p assms(3) al w(1,2), folded d]
  have e: "m' (table_cell nb base (i div 2 ^ p)) = page_descriptor s (of_nat out) a" using w(3) assms(9) by simp
  show "take_bit w (m' (table_cell nb base (i div 2 ^ p))) AND NOT (mask p) = of_nat out \<and>
       (\<forall>va. unat va div 2 ^ p = i div 2 ^ p \<longrightarrow> walk p w m' 0 nb base va =
          Some (output_addr w p (m' (table_cell nb base (i div 2 ^ p))) va, a)) \<and>
       entry_pages p w m' 0 (m' (table_cell nb base (i div 2 ^ p))) = {#}"
    using dec unfolding e by (auto simp: e walk_index_cell)
qed

lemma lsize_small_block_level: "granule p \<Longrightarrow> k > 0 \<Longrightarrow> k \<le> 3 \<Longrightarrow> lsize p k < 32 \<Longrightarrow> block_level p k"
  by (auto simp: granule_def lsize_def block_level_def)

lemma built_block:
  assumes "granule p" "attrs_ok a" "n = lsize p (Suc k)" "Suc k \<le> 3" "n < 32"
    "2 ^ n dvd i" "i \<le> t" "t < i + 2 ^ n" "2 ^ n dvd out" "out < 2 ^ 32"
    "m (table_cell nb base (i div 2 ^ n)) = block_descriptor (shl 1 n) (of_nat out) a"
  shows "built p a (Suc k) nb base i t out [] m"
proof (rule built_leaf [OF assms(6,7,8)])
  show "n < 64" "2 ^ n dvd out" "out < 2 ^ 64" "n = lsize p (Suc k)"
    using assms by auto
  have u: "unat (of_nat out :: u64) = out" using assms(10) by (simp add: word_le_of_nat_less)
  have n: "12 \<le> n" "n < 32" using assms(1,3,5) by (auto simp: granule_def lsize_def)
  have al: "2 ^ n dvd unat (of_nat out :: u64)" "unat (of_nat out :: u64) < 2 ^ 32" using assms(9,10) u by simp_all
  have d: "block_descriptor (shl 1 n) (of_nat out) a = 1 OR (of_nat out AND NOT (mask n)) OR a"
    by (simp only: block_descriptor_def PGT_ENTRY_BLOCK_MASK_def PGT_ENTRY_VALID_MASK_def push_bit_1_minus_1)
       (simp add: or.assoc)
  fix w m' assume w: "32 \<le> w" "w \<le> (48::nat)" "m' (table_cell nb base (i div 2 ^ n)) = m (table_cell nb base (i div 2 ^ n))"
  note dec = block_desc_decode [OF n assms(2) al w(1,2), folded d]
  have e: "m' (table_cell nb base (i div 2 ^ n)) = block_descriptor (shl 1 n) (of_nat out) a" using w(3) assms(11) by simp
  have bl: "block_level p (Suc k)"
    using lsize_small_block_level assms by blast
  show "take_bit w (m' (table_cell nb base (i div 2 ^ n))) AND NOT (mask n) = of_nat out \<and>
       (\<forall>va. unat va div 2 ^ n = i div 2 ^ n \<longrightarrow> walk p w m' (Suc k) nb base va =
          Some (output_addr w n (m' (table_cell nb base (i div 2 ^ n))) va, a)) \<and>
       entry_pages p w m' (Suc k) (m' (table_cell nb base (i div 2 ^ n))) = {#}"
    using dec bl unfolding e by (auto simp: e walk_index_cell Let_def assms(3)[symmetric])
qed

subsection \<open>Lemmas: Tables and ranges\<close>

lemma lsize_Suc: "lsize p (Suc k) = lsize p k + (p - 3)"
  by (simp add: lsize_def)

lemma rng_mod_inj:
  assumes "i div 2 ^ (lsize p k + nb) = t div 2 ^ (lsize p k + nb)"
  shows "inj_on (\<lambda>j. j mod 2 ^ nb) (block_range p k i t)"
proof (rule inj_onI)
  have same: "j div 2 ^ nb = i div 2 ^ (lsize p k + nb)" if "j \<in> block_range p k i t" for j
  proof -
    have "i div 2 ^ lsize p k div 2 ^ nb \<le> j div 2 ^ nb" "j div 2 ^ nb \<le> t div 2 ^ lsize p k div 2 ^ nb"
      using that by (simp_all add: block_range_def div_le_mono)
    with assms show ?thesis by (simp add: power_add div_mult2_eq)
  qed
  fix x y assume "x \<in> block_range p k i t" "y \<in> block_range p k i t" "x mod 2 ^ nb = y mod 2 ^ nb"
  with same show "x = y" by (metis div_mult_mod_eq)
qed

lemma table_sum:
  assumes "i div 2 ^ (lsize p k + nb) = t div 2 ^ (lsize p k + nb)"
    and "\<And>j. j < 2 ^ nb \<Longrightarrow> j \<notin> (\<lambda>j. j mod 2 ^ nb) ` block_range p k i t \<Longrightarrow> f (entry_addr b j) = (0::'a::comm_monoid_add)"
  shows "(\<Sum>j<2 ^ nb. f (entry_addr b j)) = (\<Sum>j\<in>block_range p k i t. f (table_cell nb b j))"
proof -
  have "(\<Sum>j<2 ^ nb. f (entry_addr b j)) = (\<Sum>j\<in>(\<lambda>j. j mod 2 ^ nb) ` block_range p k i t. f (entry_addr b j))"
    by (rule sum.mono_neutral_right) (auto simp: assms(2))
  also have "\<dots> = (\<Sum>j\<in>block_range p k i t. f (table_cell nb b j))"
    by (simp add: sum.reindex [OF rng_mod_inj [OF assms(1)]] table_cell_def)
  finally show ?thesis .
qed

lemma cell_in_page: "nb + 3 \<le> p \<Longrightarrow> p < 32 \<Longrightarrow> table_cell nb base j \<in> page_cells p base"
  unfolding table_cell_def by (rule entry_in_page) simp_all

lemma built_table:
  assumes "granule p" "page_size s = 2 ^ p" "n = lsize p (Suc k)" "i div 2 ^ n = e div 2 ^ n" "i \<le> e"
    and nt: "page_ok p nt"
    and sub: "built p a k (p - 3) nt i e out used m"
    and entry: "m (table_cell nb base (i div 2 ^ n)) = table_descriptor s nt"
    and zeros: "\<And>j. j < 2 ^ (p - 3) \<Longrightarrow> j \<notin> (\<lambda>j. j mod 2 ^ (p - 3)) ` block_range p k i e \<Longrightarrow> m (entry_addr nt j) = 0"
  shows "built p a (Suc k) nb base i e out (nt # used) m"
proof -
  have p: "12 \<le> p" "p < 32" using assms(1) by (auto simp: granule_def)
  have r: "block_range p (Suc k) i e = {i div 2 ^ n}" by (simp add: block_range_def assms(3)[symmetric] assms(4))
  have d: "table_descriptor s nt = 3 OR (nt AND page_addr_mask s) OR 0"
    by (simp add: table_descriptor_def PGT_ENTRY_TABLE_MASK_def PGT_ENTRY_VALID_MASK_def
        val_memory_virt_to_phys_def or.assoc [symmetric])
  show ?thesis
    unfolding built_def mapped_def r footprint_def
  proof (intro allI impI conjI)
    fix m' and w :: nat and va :: u64
    assume m: "32 \<le> w \<and> w \<le> 48 \<and> (\<forall>x\<in>table_cell nb base ` {i div 2 ^ n} \<union> \<Union> (page_cells p ` set (nt # used)). m' x = m x)"
    then have e: "m' (table_cell nb base (i div 2 ^ n)) = table_descriptor s nt" using entry by simp
    have dec: "bit (table_descriptor s nt) 0" "bit (table_descriptor s nt) 1"
      "take_bit w (table_descriptor s nt) AND NOT (mask p) = nt"
      using page_desc_decode [OF assms(2) p, of 0 nt w] nt m
      by (simp_all add: d attrs_ok_def page_ok_def)
    have pg: "m' x = m x" if "x \<in> page_cells p nt" for x using that m by simp
    have "\<forall>x\<in>footprint p k (p - 3) nt i e used. m' x = m x"
      using m p cell_in_page [of "p - 3" p nt] by (auto simp: footprint_def)
    with sub m have sub': "mapped p w m' k (p - 3) nt a i e out"
      "(\<Sum>j\<in>block_range p k i e. entry_pages p w m' k (m' (table_cell (p - 3) nt j))) = mset used"
      by (auto simp: built_def)
    have z: "entry_pages p w m' k (m' (entry_addr nt j)) = 0"
      if "j < 2 ^ (p - 3)" "j \<notin> (\<lambda>j. j mod 2 ^ (p - 3)) ` block_range p k i e" for j
      using zeros [OF that] pg [OF entry_in_page [OF that(1)]] p by simp
    have ss: "(\<Sum>j<2 ^ (p - 3). entry_pages p w m' k (m' (entry_addr nt j))) = mset used"
      using table_sum [of i p k "p - 3" e "\<lambda>x. entry_pages p w m' k (m' x)" nt, OF _ z] sub'(2) assms(3,4)
      by (simp add: lsize_Suc)
    have nz: "table_descriptor s nt \<noteq> 0" "nt \<noteq> 0" using dec(1) nt by (auto simp: page_ok_def)
    show "(\<Sum>j\<in>{i div 2 ^ n}. entry_pages p w m' (Suc k) (m' (table_cell nb base j))) = mset (nt # used)"
      using dec nz ss by (simp add: e)
    assume va: "i \<le> unat va \<and> unat va \<le> e"
    then have "unat va div 2 ^ n = i div 2 ^ n"
      using div_le_mono [of i "unat va" "2 ^ n"] div_le_mono [of "unat va" e "2 ^ n"] assms(4) by simp
    then show "walk p w m' (Suc k) nb base va = Some (of_nat (out + (unat va - i)), a)"
      using sub'(1) va dec by (simp add: mapped_def Let_def assms(3)[symmetric] walk_index_cell e)
  qed
qed

lemma foot_union:
  assumes "i \<le> e" "e < t" "2 ^ lsize p k dvd Suc e"
  shows "block_range p k i t = block_range p k i e \<union> block_range p k (Suc e) t" "block_range p k i e \<inter> block_range p k (Suc e) t = {}"
    "footprint p k nb base i t (u1 @ u2) = footprint p k nb base i e u1 \<union> footprint p k nb base (Suc e) t u2"
proof -
  define b :: nat where "b = 2 ^ lsize p k"
  obtain q where q: "Suc e = b * Suc q"
    using assms(3) unfolding b_def by (metis dvdE mult_0_right nat.distinct(1) not0_implies_Suc)
  have b: "0 < b" by (simp add: b_def)
  have "b * q \<le> e" "e < b * Suc q" using q b by simp_all
  then have "e div b = q" by (intro div_nat_eqI) (simp_all add: mult.commute)
  moreover have "Suc e div b = Suc q" using q b by simp
  moreover have "i div b \<le> e div b" "Suc e div b \<le> t div b"
    using assms(1,2) by (simp_all add: div_le_mono)
  ultimately show r: "block_range p k i t = block_range p k i e \<union> block_range p k (Suc e) t"
      "block_range p k i e \<inter> block_range p k (Suc e) t = {}"
    by (auto simp: block_range_def b_def)
  show "footprint p k nb base i t (u1 @ u2) = footprint p k nb base i e u1 \<union> footprint p k nb base (Suc e) t u2"
    by (auto simp: footprint_def r(1))
qed

lemma built_append:
  assumes b1: "built p a k nb base i e out u1 m1"
    and b2: "built p a k nb base (Suc e) t (out + (Suc e - i)) u2 m2"
    and "i \<le> e" "e < t" "2 ^ lsize p k dvd Suc e"
    and agree: "\<forall>x\<in>footprint p k nb base i e u1. m2 x = m1 x"
  shows "built p a k nb base i t out (u1 @ u2) m2"
proof -
  note r = foot_union(1,2) [OF assms(3-5)] and f = foot_union(3) [OF assms(3-5), of nb base u1 u2]
  have fin: "finite (block_range p k i e)" "finite (block_range p k (Suc e) t)" by (simp_all add: block_range_def)
  show ?thesis
    unfolding built_def
  proof (intro allI impI)
    fix m' and w :: nat
    assume m: "32 \<le> w \<and> w \<le> 48 \<and> (\<forall>x\<in>footprint p k nb base i t (u1 @ u2). m' x = m2 x)"
    then have "\<forall>x\<in>footprint p k nb base i e u1. m' x = m1 x" "\<forall>x\<in>footprint p k nb base (Suc e) t u2. m' x = m2 x"
      using agree by (auto simp: f)
    with m b1 b2 have
      x1: "mapped p w m' k nb base a i e out"
       "(\<Sum>j\<in>block_range p k i e. entry_pages p w m' k (m' (table_cell nb base j))) = mset u1" and
      x2: "mapped p w m' k nb base a (Suc e) t (out + (Suc e - i))"
       "(\<Sum>j\<in>block_range p k (Suc e) t. entry_pages p w m' k (m' (table_cell nb base j))) = mset u2"
      by (auto simp: built_def)
    have "mapped p w m' k nb base a i t out"
      unfolding mapped_def
    proof (intro allI impI)
      fix va :: u64 assume va: "i \<le> unat va \<and> unat va \<le> t"
      show "walk p w m' k nb base va = Some (of_nat (out + (unat va - i)), a)"
      proof (cases "unat va \<le> e")
        case True with x1(1) va show ?thesis by (simp add: mapped_def)
      next
        case False
        then have "out + (Suc e - i) + (unat va - Suc e) = out + (unat va - i)" using assms(3) by simp
        with False x2(1) va show ?thesis unfolding mapped_def by (metis not_less_eq_eq)
      qed
    qed
    moreover have "(\<Sum>j\<in>block_range p k i t. entry_pages p w m' k (m' (table_cell nb base j))) = mset (u1 @ u2)"
      using x1(2) x2(2) by (simp add: r sum.union_disjoint fin)
    ultimately show "mapped p w m' k nb base a i t out \<and>
       (\<Sum>j\<in>block_range p k i t. entry_pages p w m' k (m' (table_cell nb base j))) = mset (u1 @ u2)" ..
  qed
qed

subsection \<open>Lemmas: Ranges of the loop\<close>

lemma lsize_mono: "j \<le> k \<Longrightarrow> lsize p j \<le> lsize p k"
  by (simp add: lsize_def)

lemma div_between: "i \<le> e \<Longrightarrow> e \<le> t \<Longrightarrow> i div n = t div n \<Longrightarrow> i div n = e div (n::nat)"
  by (metis div_le_mono order.antisym)

lemma region_next:
  assumes "region_ok p k nb i t out" "i + 2 ^ lsize p k \<le> t"
  shows "2 ^ lsize p k dvd i" "region_ok p k nb (i + 2 ^ lsize p k) t (out + 2 ^ lsize p k)"
proof -
  let ?n = "lsize p k"
  have "Suc (i div 2 ^ ?n) \<le> t div 2 ^ ?n"
    using div_le_mono [OF assms(2), of "2 ^ ?n"] div_add_self2 [of "(2::nat) ^ ?n" i] by simp
  then have "i div 2 ^ ?n \<noteq> t div 2 ^ ?n" by simp
  with assms(1) show al: "2 ^ ?n dvd i"
    by (cases k) (auto simp: region_ok_def)
  have pn: "2 ^ p dvd (2::nat) ^ ?n" using lsize_mono [of 0 k p] by (intro le_imp_power_dvd) simp
  have j: "2 ^ lsize p j dvd i + 2 ^ ?n" if "j \<le> k" for j
  proof -
    have "2 ^ lsize p j dvd (2::nat) ^ ?n" using lsize_mono [OF that] by (intro le_imp_power_dvd)
    with al show ?thesis by (meson dvd_add dvd_trans)
  qed
  have g: "(i + 2 ^ ?n) div 2 ^ (?n + nb) = t div 2 ^ (?n + nb)"
    using assms div_le_mono [of i "i + 2 ^ ?n" "2 ^ (?n + nb)"] div_le_mono [OF assms(2), of "2 ^ (?n + nb)"]
    by (simp add: region_ok_def)
  show "region_ok p k nb (i + 2 ^ ?n) t (out + 2 ^ ?n)"
    using assms g j pn unfolding region_ok_def by (auto intro: dvd_add)
qed

lemma region_sub:
  assumes "region_ok p (Suc k) nb i t out" 
  defines "n \<equiv> lsize p (Suc k)"
  defines "e \<equiv> min t (i + 2 ^ n - 1)"
  shows "region_ok p k (p - 3) i e out" "i div 2 ^ n = e div 2 ^ n"
proof -
  have "e \<le> t" by (simp add: e_def)
  have "(1::nat) \<le> 2 ^ n" by simp
  then have "i \<le> e" using assms(1) unfolding e_def region_ok_def by linarith
  have "2 ^ n dvd i \<or> i div 2 ^ n = t div 2 ^ n" using assms(1) by (auto simp: region_ok_def n_def)
  then show d: "i div 2 ^ n = e div 2 ^ n"
  proof
    assume "2 ^ n dvd i"
    moreover have "e < i + 2 ^ n" unfolding e_def by (simp add: min_less_iff_disj)
    ultimately show ?thesis using in_block(1) [of n i e] \<open>i \<le> e\<close> by simp
  next
    assume "i div 2 ^ n = t div 2 ^ n"
    then show ?thesis by (rule div_between [OF \<open>i \<le> e\<close> \<open>e \<le> t\<close>])
  qed
  have "e mod 2 ^ p \<noteq> 0"
  proof (cases "e = t")
    case True with assms(1) show ?thesis by (simp add: region_ok_def)
  next
    case False
    then have e: "Suc e = i + 2 ^ n" by (simp add: e_def min_def split: if_splits)
    have "2 ^ p dvd (2::nat) ^ n" using lsize_mono [of 0 "Suc k" p] by (intro le_imp_power_dvd) (simp add: n_def)
    then have "2 ^ p dvd Suc e" unfolding e using assms(1) by (simp add: region_ok_def)
    moreover have "p \<noteq> 0" using assms(1) by (auto simp: region_ok_def intro: gr0I)
    ultimately show ?thesis
    proof (intro notI)
      assume "e mod 2 ^ p = 0"
      then have "2 ^ p dvd e" by (rule mod_0_imp_dvd)
      with \<open>2 ^ p dvd Suc e\<close> have "2 ^ p dvd Suc e - e" by (rule dvd_diff_nat)
      with \<open>p \<noteq> 0\<close> show False by simp
    qed
  qed
  note em = this
  have ej: "i div 2 ^ lsize p j = e div 2 ^ lsize p j" if "i div 2 ^ lsize p j = t div 2 ^ lsize p j" for j
    by (rule div_between [OF \<open>i \<le> e\<close> \<open>e \<le> t\<close> that])
  have n: "lsize p k + (p - 3) = n" by (simp add: n_def lsize_Suc)
  show "region_ok p k (p - 3) i e out"
    unfolding region_ok_def n
  proof (intro conjI allI impI)
    show "2 ^ p dvd i" "2 ^ p dvd out" using assms(1) by (simp_all add: region_ok_def)
    show "e < 2 ^ 48" "out + (e - i) < 2 ^ 32"
      using assms(1) \<open>e \<le> t\<close> unfolding region_ok_def by linarith+
    fix j assume "1 \<le> j \<and> j \<le> k"
    then have "2 ^ lsize p j dvd i \<or> i div 2 ^ lsize p j = t div 2 ^ lsize p j"
      using assms(1) unfolding region_ok_def by (metis le_Suc_eq)
    then show "2 ^ lsize p j dvd i \<or> i div 2 ^ lsize p j = e div 2 ^ lsize p j"
      using ej by blast
  qed (use \<open>i \<le> e\<close> em d in simp_all)
qed

subsection \<open>Lemmas: Joining two parts of the loop\<close>

lemma same_statics_trans: "same_statics s t \<Longrightarrow> same_statics t u \<Longrightarrow> same_statics s u"
  by (simp add: same_statics_def)

lemma foot_disjoint:
  assumes "i \<le> e" "e < t" "2 ^ lsize p k dvd Suc e" "nb + 3 \<le> p" "p < 29"
    and "i div 2 ^ (lsize p k + nb) = t div 2 ^ (lsize p k + nb)"
    and pg: "\<forall>x\<in>set (base # u1 @ u2). page_ok p x" and "distinct (base # u1 @ u2)"
  shows "footprint p k nb base i e u1 \<inter> footprint p k nb base (Suc e) t u2 = {}"
proof -
  have pp: "page_cells p x \<inter> page_cells p y = {}" if "x \<in> set (base # u1 @ u2)" "y \<in> set (base # u1 @ u2)" "x \<noteq> y" for x y
    using that pg assms(5) by (intro pages_disjoint) auto
  have cb: "table_cell nb base j \<in> page_cells p base" for j using cell_in_page assms(4,5) by simp
  have "table_cell nb base j \<noteq> table_cell nb base j'" if "j \<in> block_range p k i e" "j' \<in> block_range p k (Suc e) t" for j j'
  proof
    assume "table_cell nb base j = table_cell nb base j'"
    then have "j mod 2 ^ nb = j' mod 2 ^ nb"
      unfolding table_cell_def using assms(4,5) by (intro entry_addr_inj [of _ nb _ base]) simp_all
    moreover have "j \<in> block_range p k i t" "j' \<in> block_range p k i t" using that foot_union(1) [OF assms(1-3)] by auto
    ultimately have "j = j'" using rng_mod_inj [OF assms(6)] by (auto dest: inj_onD)
    with that foot_union(2) [OF assms(1-3)] show False by auto
  qed
  moreover have "table_cell nb base j \<notin> page_cells p x" if "x \<in> set u1 \<union> set u2" for j x
    using pp [of base x] cb [of j] that assms(8) by auto
  moreover have "page_cells p x \<inter> page_cells p y = {}" if "x \<in> set u1" "y \<in> set u2" for x y
    using pp [of x y] that assms(8) by auto
  ultimately show ?thesis unfolding footprint_def by blast
qed

lemma filled_append:
  assumes f1: "filled p k nb a base i e out s 0 s1"
    and f2: "filled p k nb a base (Suc e) t (out + (Suc e - i)) s1 r s'"
    and io: "i \<le> e" "e < t" "2 ^ lsize p k dvd Suc e" "nb + 3 \<le> p" "p < 29"
      "i div 2 ^ (lsize p k + nb) = t div 2 ^ (lsize p k + nb)"
    and ok: "tables_ok p base s"
  shows "filled p k nb a base i t out s r s'"
proof -
  from f1 obtain u1 where u1: "page_supply s = u1 @ page_supply s1" "same_statics s s1"
    "\<And>x. x \<notin> footprint p k nb base i e u1 \<Longrightarrow> cells s1 x = cells s x"
    "freed_pages s1 = freed_pages s" "built p a k nb base i e out u1 (cells s1)"
    by (auto simp: filled_def)
  from f2 obtain u2 where u2: "page_supply s1 = u2 @ page_supply s'" "same_statics s1 s'"
    "\<And>x. x \<notin> footprint p k nb base (Suc e) t u2 \<Longrightarrow> cells s' x = cells s1 x"
    and r: "(r = 0 \<and> freed_pages s' = freed_pages s1 \<and>
        built p a k nb base (Suc e) t (out + (Suc e - i)) u2 (cells s')) \<or>
        (r = ACS_STATUS_ERR \<and> page_supply s' = [])"
    unfolding filled_def by blast
  have pg: "\<forall>x\<in>set (base # u1 @ u2). page_ok p x" "distinct (base # u1 @ u2)"
    using ok u1(1) u2(1) by (auto simp: tables_ok_def)
  note dj = foot_disjoint [OF io pg]
  have agree: "\<forall>x\<in>footprint p k nb base i e u1. cells s' x = cells s1 x" using dj u2(3) by blast
  show ?thesis
    unfolding filled_def
  proof (intro exI conjI allI impI)
    show "page_supply s = (u1 @ u2) @ page_supply s'" using u1(1) u2(1) by simp
    show "same_statics s s'" using u1(2) u2(2) by (rule same_statics_trans)
    show "cells s' x = cells s x" if "x \<notin> footprint p k nb base i t (u1 @ u2)" for x
      using that u1(3) u2(3) foot_union(3) [OF io(1-3)] by simp
    show "(r = 0 \<and> freed_pages s' = freed_pages s \<and> built p a k nb base i t out (u1 @ u2) (cells s')) \<or>
        (r = ACS_STATUS_ERR \<and> page_supply s' = [])"
      using r built_append [OF u1(5) _ io(1-3) agree, of u2] u1(4) by auto
  qed
qed

lemma lsize_less: "granule p \<Longrightarrow> k \<le> 3 \<Longrightarrow> lsize p k < 64"
  by (auto simp: granule_def lsize_def)

lemma unat_of_nat_small: "n < 64 \<Longrightarrow> unat (of_nat n :: u32) = n"
  by (simp add: word_le_of_nat_less)

lemma table_desc_addr_cell:
  assumes "tt_lvl p k nb d" "granule p" "k \<le> 3" "nb < 64"
  shows "table_desc_addr d ia = table_cell nb (tt_base d) (unat ia div 2 ^ lsize p k)"
proof -
  have "unat (size_log2 d) = lsize p k" "unat (nbits d) = nb"
    using assms lsize_less [OF assms(2,3)] by (simp_all add: tt_lvl_def unat_of_nat_small)
  then have "unat (table_index d ia) = unat ia div 2 ^ lsize p k mod 2 ^ nb"
    by (simp only: table_index_def unat_index)
  then have "table_index d ia = of_nat (unat ia div 2 ^ lsize p k mod 2 ^ nb)"
    by (metis of_nat_unat ucast_id)
  then show ?thesis by (simp add: table_desc_addr_def table_cell_def entry_addr_def)
qed

lemma plus_block:
  assumes "unat (x::u64) + 2 ^ n < 2 ^ 64" "n < 64"
  shows "unat (x + shl 1 n) = unat x + 2 ^ n" "unat (x + shl 1 n - 1) = unat x + 2 ^ n - 1"
proof -
  show a: "unat (x + shl 1 n) = unat x + 2 ^ n" using assms unat_shl_1 [OF assms(2)] by (simp add: unat_word_ariths)
  have "x + shl 1 n \<noteq> 0"
  proof
    assume "x + shl 1 n = 0"
    then have "unat (x + shl 1 n) = 0" by simp
    with a show False by simp
  qed
  then show "unat (x + shl 1 n - 1) = unat x + 2 ^ n - 1"
    using a by (metis One_nat_def unat_minus_one)
qed

lemma block_eligible_iff:
  assumes "tt_lvl p k nb d" "granule p" "k \<le> 3" "unat ia + 2 ^ lsize p k < 2 ^ 64"
  shows "block_eligible d ia oa \<longleftrightarrow>
    2 ^ lsize p k dvd unat ia \<and> 2 ^ lsize p k dvd unat oa \<and> unat ia + 2 ^ lsize p k - 1 \<le> unat (input_top d)"
proof -
  have sl: "unat (size_log2 d) = lsize p k"
    using assms lsize_less [OF assms(2,3)] by (simp add: tt_lvl_def unat_of_nat_small)
  show ?thesis
    unfolding block_eligible_def Let_def sl and_low_zero_iff
    using plus_block(2) [OF assms(4) lsize_less [OF assms(2,3)]] by (simp add: word_le_nat_alt)
qed

subsection \<open>Lemmas: The rest of the loop\<close>

lemma block_end:
  fixes i :: nat
  shows "Suc (i + 2 ^ n - 1) = i + 2 ^ n" "i \<le> i + 2 ^ n - 1" "i + 2 ^ n \<le> t \<Longrightarrow> i + 2 ^ n - 1 < t"
proof -
  have "0 < (2::nat) ^ n" by simp
  then show "Suc (i + 2 ^ n - 1) = i + 2 ^ n" "i \<le> i + 2 ^ n - 1" "i + 2 ^ n \<le> t \<Longrightarrow> i + 2 ^ n - 1 < t"
    by linarith+
qed

lemma granule_bounds: "granule p \<Longrightarrow> 12 \<le> p \<and> p < 29"
  by (auto simp: granule_def)

lemma region_no_wrap:
  assumes "region_ok p k nb (unat ia) t (unat oa)" "granule p" "k \<le> 3"
  shows "unat (ia::u64) + 2 ^ lsize p k < 2 ^ 64" "unat (oa::u64) + 2 ^ lsize p k < 2 ^ 64"
proof -
  have "lsize p k \<le> 55" using assms(2,3) by (auto simp: granule_def lsize_def)
  then have "(2::nat) ^ lsize p k \<le> 2 ^ 55" by (intro power_increasing) auto
  with assms(1) show "unat ia + 2 ^ lsize p k < 2 ^ 64" "unat oa + 2 ^ lsize p k < 2 ^ 64"
    by (auto simp: region_ok_def)
qed

lemma tables_ok_filled:
  "tables_ok p base s \<Longrightarrow> filled p k nb a base i t out s r s1 \<Longrightarrow> tables_ok p base s1"
  by (auto simp: tables_ok_def filled_def same_statics_def)

lemma fill_pre_next:
  assumes pre: "fill_pre p k nb a d ia oa s" and le: "unat ia + 2 ^ lsize p k \<le> unat (input_top d)"
    and f: "filled p k nb a (tt_base d) (unat ia) (unat ia + 2 ^ lsize p k - 1) (unat oa) s 0 s1"
  shows "fill_pre p k nb a d (ia + shl 1 (lsize p k)) (oa + shl 1 (lsize p k)) s1"
proof -
  let ?n = "lsize p k" and ?t = "unat (input_top d)" and ?b = "tt_base d" and ?e = "unat ia + 2 ^ lsize p k - 1"
  have r: "region_ok p k nb (unat ia) ?t (unat oa)" and g: "granule p" "k \<le> 3" and ok: "tables_ok p ?b s"
    and nb: "nb + 3 \<le> p"
    using pre by (simp_all add: fill_pre_def)
  note w = region_no_wrap [OF r g] and n64 = lsize_less [OF g]
  have u: "unat (ia + shl 1 ?n) = unat ia + 2 ^ ?n" "unat (oa + shl 1 ?n) = unat oa + 2 ^ ?n"
    using plus_block(1) [OF w(1) n64] plus_block(1) [OF w(2) n64] by simp_all
  have Se: "Suc ?e = unat ia + 2 ^ ?n" by (rule block_end)
  obtain u1 where u1: "page_supply s = u1 @ page_supply s1"
      "\<And>x. x \<notin> footprint p k nb ?b (unat ia) ?e u1 \<Longrightarrow> cells s1 x = cells s x"
    using f by (auto simp: filled_def)
  have cond: "unat ia \<le> ?e" "?e < ?t" "2 ^ ?n dvd Suc ?e"
    using block_end(2,3) le region_next(1) [OF r le] unfolding Se by simp_all
  have grp: "unat ia div 2 ^ (?n + nb) = ?t div 2 ^ (?n + nb)" using r by (simp add: region_ok_def)
  have p29: "p < 29" using granule_bounds g by simp
  have pg: "\<forall>x\<in>set (?b # u1 @ []). page_ok p x" "distinct (?b # u1 @ [])"
    using ok u1(1) by (auto simp: tables_ok_def)
  note dj = foot_disjoint [OF cond nb p29 grp pg]
  have "cells s1 (table_cell nb ?b j) = 0" if "j \<in> block_range p k (unat ia + 2 ^ ?n) ?t" for j
  proof -
    have "table_cell nb ?b j \<notin> footprint p k nb ?b (unat ia) ?e u1" using dj that Se by (auto simp: footprint_def)
    moreover have "j \<in> block_range p k (unat ia) ?t" using foot_union(1) [OF cond] that Se by simp
    ultimately show ?thesis using u1(2) pre by (simp add: fill_pre_def)
  qed
  with pre region_next(2) [OF r le] tables_ok_filled [OF ok f] u show ?thesis
    by (simp add: fill_pre_def)
qed

lemma fill_rest:
  assumes pre: "fill_pre p k nb a d ia oa s"
    and f: "filled p k nb a (tt_base d) (unat ia) (min (unat (input_top d)) (unat ia + 2 ^ lsize p k - 1)) (unat oa) s 0 s1"
    and IH: "unat ia + 2 ^ lsize p k \<le> unat (input_top d) \<Longrightarrow>
       fill_pre p k nb a d (ia + shl 1 (lsize p k)) (oa + shl 1 (lsize p k)) s1 \<Longrightarrow>
       fill_goal p k nb a d (ia + shl 1 (lsize p k)) (oa + shl 1 (lsize p k)) s1"
  shows "\<exists>r s'. fill_loop a d (ia + shl 1 (lsize p k)) (oa + shl 1 (lsize p k)) s1 = Some (r, s') \<and>
     filled p k nb a (tt_base d) (unat ia) (unat (input_top d)) (unat oa) s r s'"
proof -
  let ?n = "lsize p k" and ?t = "unat (input_top d)" and ?b = "tt_base d" and ?e = "unat ia + 2 ^ lsize p k - 1"
  have r: "region_ok p k nb (unat ia) ?t (unat oa)" and g: "granule p" "k \<le> 3" and ok: "tables_ok p ?b s"
    and nb: "nb + 3 \<le> p"
    using pre by (simp_all add: fill_pre_def)
  note w = region_no_wrap [OF r g] and n64 = lsize_less [OF g]
  have u: "unat (ia + shl 1 ?n) = unat ia + 2 ^ ?n" "unat (oa + shl 1 ?n) = unat oa + 2 ^ ?n"
    using plus_block(1) [OF w(1) n64] plus_block(1) [OF w(2) n64] by simp_all
  show ?thesis
  proof (cases "unat ia + 2 ^ ?n \<le> ?t")
    case False
    then have "min ?t ?e = ?t" by (simp add: min_def)
    moreover have "\<not> ia + shl 1 ?n < input_top d" using False u by (simp add: word_less_nat_alt)
    then have "fill_loop a d (ia + shl 1 ?n) (oa + shl 1 ?n) s1 = Some (0, s1)"
      by (simp add: fill_loop.simps)
    ultimately show ?thesis using f by auto
  next
    case True
    then have e: "min ?t ?e = ?e" by simp
    with f have f': "filled p k nb a ?b (unat ia) ?e (unat oa) s 0 s1" by simp
    from IH [OF True fill_pre_next [OF pre True f']] obtain r' s' where
      l: "fill_loop a d (ia + shl 1 ?n) (oa + shl 1 ?n) s1 = Some (r', s')"
      "filled p k nb a ?b (unat ia + 2 ^ ?n) ?t (unat oa + 2 ^ ?n) s1 r' s'"
      unfolding fill_goal_def u by blast
    have Se: "Suc ?e = unat ia + 2 ^ ?n" by (rule block_end)
    have cond: "unat ia \<le> ?e" "?e < ?t" "2 ^ ?n dvd Suc ?e"
      using block_end(2,3) True region_next(1) [OF r True] unfolding Se by simp_all
    have grp: "unat ia div 2 ^ (?n + nb) = ?t div 2 ^ (?n + nb)" using r by (simp add: region_ok_def)
    have "filled p k nb a ?b (unat ia) ?t (unat oa) s r' s'"
      using filled_append [OF f' _ cond nb _ grp ok, of r' s'] l(2) granule_bounds [OF g(1)]
      unfolding Se by simp
    with l(1) show ?thesis by blast
  qed
qed

lemma filled_leaf:
  assumes "built p a k nb base i e out [] (cells (store64 (table_cell nb base (i div 2 ^ lsize p k)) v s))"
    and "e div 2 ^ lsize p k = i div 2 ^ lsize p k"
  shows "filled p k nb a base i e out s 0 (store64 (table_cell nb base (i div 2 ^ lsize p k)) v s)"
  using assms unfolding filled_def
  by (intro exI [of _ "[]"]) (auto simp: store64_def same_statics_def footprint_def block_range_def)

subsection \<open>Lemmas: A table of the next level\<close>

lemma built_cong:
  assumes "built p a k nb base i t out used m" "\<forall>x\<in>footprint p k nb base i t used. m2 x = m x"
  shows "built p a k nb base i t out used m2"
  using assms unfolding built_def by simp

lemma zeroed_simps [simp]:
  "page_supply (zeroed nt rest s) = rest" "freed_pages (zeroed nt rest s) = freed_pages s"
  "page_size (zeroed nt rest s) = page_size s" "bits_per_level (zeroed nt rest s) = bits_per_level s"
  "pgt_addr_mask (zeroed nt rest s) = pgt_addr_mask s" "pal_page_size (zeroed nt rest s) = pal_page_size s"
  by (simp_all add: zeroed_def val_memory_set_def)

lemma zeroed_cells:
  assumes "page_size s = 2 ^ p" "p < 32"
  shows "cells (zeroed nt rest s) x = (if x \<in> page_cells p nt then 0 else cells s x)"
proof -
  have "unat (2 ^ p :: u32) = 2 ^ p" using word_le_of_nat_less [of "2 ^ p", where 'a=32] assms(2)
    power_strict_increasing [of p 32 "2::nat"] by simp
  then have "(x - nt < ucast (page_size s)) = (unat (x - nt) < 2 ^ p)"
    using assms by (simp add: word_less_nat_alt unsigned_ucast_eq)
  then show ?thesis by (simp add: zeroed_def val_memory_set_def page_cells_def)
qed

lemma next_table_fresh:
  "page_supply s = nt # rest \<Longrightarrow> nt \<noteq> 0 \<Longrightarrow> next_table 0 s = (nt, zeroed nt rest s)"
  by (simp add: next_table_def val_memory_alloc_pages_def zeroed_def)

lemma next_table_empty: "page_supply s = [] \<Longrightarrow> next_table 0 s = (0, s)"
  by (simp add: next_table_def val_memory_alloc_pages_def)

lemma foot_sub:
  assumes "12 \<le> p" "p < 32"
  shows "footprint p k (p - 3) nt i e used \<subseteq> (\<Union>a\<in>set (nt # used). page_cells p a)"
  using cell_in_page [of "p - 3" p nt] assms by (auto simp: footprint_def)

lemma page_cells_union_foot: "(\<Union>a\<in>set used. page_cells p a) \<subseteq> footprint p k nb base i e used"
  by (auto simp: footprint_def)

lemma sub_frame:
  assumes "page_size s = 2 ^ p" "12 \<le> p" "p < 32"
    and "\<And>x. x \<notin> footprint p k (p - 3) nt i e used \<Longrightarrow> cells s2 x = cells (zeroed nt rest s) x"
    and "x \<notin> footprint p k' nb base i' t (nt # used)"
  shows "cells s2 x = cells s x"
proof -
  have "x \<notin> (\<Union>a\<in>set (nt # used). page_cells p a)"
    using assms(5) page_cells_union_foot [of p "nt # used"] by blast
  then have "x \<notin> footprint p k (p - 3) nt i e used" "x \<notin> page_cells p nt"
    using foot_sub [OF assms(2,3), of k nt i e used] by auto
  with assms(4) show ?thesis by (simp add: zeroed_cells [OF assms(1,3)])
qed

lemma filled_table_fail:
  assumes "granule p" and ok: "tables_ok p base s" and sup: "page_supply s = nt # rest"
    and sub: "filled p k (p - 3) a nt i e out (zeroed nt rest s) r s2" and "r \<noteq> 0"
  shows "filled p (Suc k) nb a base i t out s ACS_STATUS_ERR (val_memory_free_pages nt s2)"
proof -
  obtain used where u: "rest = used @ page_supply s2" "same_statics (zeroed nt rest s) s2" "page_supply s2 = []"
    "\<And>x. x \<notin> footprint p k (p - 3) nt i e used \<Longrightarrow> cells s2 x = cells (zeroed nt rest s) x"
    using sub assms(5) by (auto simp: filled_def)
  have "cells s2 x = cells s x" if "x \<notin> footprint p (Suc k) nb base i t (nt # used)" for x
    using sub_frame [OF _ _ _ u(4) that] ok granule_bounds [OF assms(1)] by (simp add: tables_ok_def)
  then show ?thesis
    unfolding filled_def using u sup
    by (intro exI [of _ "nt # used"]) (auto simp: val_memory_free_pages_def same_statics_def)
qed

lemma untouched_entry:
  assumes "page_ok p b" "\<forall>x\<in>set used. page_ok p x" "b \<notin> set used"
    and "j < 2 ^ nb" "j \<notin> (\<lambda>j. j mod 2 ^ nb) ` block_range p k i e" "nb + 3 \<le> p" "p < 29"
  shows "entry_addr b j \<notin> footprint p k nb b i e used"
proof
  assume "entry_addr b j \<in> footprint p k nb b i e used"
  moreover have "entry_addr b j \<notin> page_cells p x" if "x \<in> set used" for x
    using entry_in_page [OF assms(4,6), of b] pages_disjoint [OF assms(1), of x] that assms(2,3,7) by auto
  ultimately obtain j' where "j' \<in> block_range p k i e" "entry_addr b j = entry_addr b (j' mod 2 ^ nb)"
    by (auto simp: footprint_def table_cell_def)
  moreover from this have "j = j' mod 2 ^ nb"
    using assms(4,6,7) by (intro entry_addr_inj [of _ nb]) simp_all
  ultimately show False using assms(5) by blast
qed

lemma filled_table:
  fixes n k p :: nat
  defines "n \<equiv> lsize p (Suc k)"
  assumes g: "granule p" and ok: "tables_ok p base s" and sup: "page_supply s = nt # rest"
    and sub: "filled p k (p - 3) a nt i e out (zeroed nt rest s) 0 s2"
    and ie: "i div 2 ^ n = e div 2 ^ n" "i \<le> e" and nb: "nb + 3 \<le> p"
  shows "filled p (Suc k) nb a base i e out s 0
           (store64 (table_cell nb base (i div 2 ^ n)) (table_descriptor s2 nt) s2)"
proof -
  let ?c = "table_cell nb base (i div 2 ^ n)" and ?s3 = "store64 (table_cell nb base (i div 2 ^ n)) (table_descriptor s2 nt) s2"
  have p: "12 \<le> p" "p < 32" "p < 29" using granule_bounds [OF g] by auto
  have ps: "page_size s = 2 ^ p" using ok by (simp add: tables_ok_def)
  obtain used where u: "rest = used @ page_supply s2" "same_statics (zeroed nt rest s) s2"
    "\<And>x. x \<notin> footprint p k (p - 3) nt i e used \<Longrightarrow> cells s2 x = cells (zeroed nt rest s) x"
    "freed_pages s2 = freed_pages s" "built p a k (p - 3) nt i e out used (cells s2)"
    using sub by (auto simp: filled_def)
  have pg: "page_ok p base" "page_ok p nt" "\<forall>x\<in>set used. page_ok p x" "base \<noteq> nt" "nt \<notin> set used" "base \<notin> set used"
    using ok sup u(1) by (auto simp: tables_ok_def)
  have cb: "?c \<in> page_cells p base" using cell_in_page nb p(2) by simp
  have cn: "?c \<notin> page_cells p x" if "x = nt \<or> x \<in> set used" for x
    using cb pages_disjoint [OF pg(1), of x] that pg p(2) by blast
  have cf: "?c \<notin> footprint p k (p - 3) nt i e used"
    using foot_sub [OF p(1,2), of k nt i e used] cn by auto
  have st: "cells ?s3 x = (if x = ?c then table_descriptor s2 nt else cells s2 x)" for x
    by (simp add: store64_def)
  have b: "built p a k (p - 3) nt i e out used (cells ?s3)"
    by (rule built_cong [OF u(5)]) (use cf st in auto)
  have z: "cells ?s3 (entry_addr nt j) = 0"
    if "j < 2 ^ (p - 3)" "j \<notin> (\<lambda>j. j mod 2 ^ (p - 3)) ` block_range p k i e" for j
  proof -
    have pn: "entry_addr nt j \<in> page_cells p nt" using entry_in_page that(1) p by simp
    have "entry_addr nt j \<notin> footprint p k (p - 3) nt i e used"
      by (rule untouched_entry [OF pg(2,3,5) that _ p(3)]) (use p in simp)
    with u(3) pn cn st show ?thesis by (auto simp: zeroed_cells [OF ps p(2)])
  qed
  have td: "table_descriptor ?s3 nt = table_descriptor s2 nt" "page_size s2 = 2 ^ p"
    using u(2) ps by (simp_all add: table_descriptor_def page_addr_mask_def store64_def same_statics_def)
  have "built p a (Suc k) nb base i e out (nt # used) (cells ?s3)"
    by (rule built_table [OF g td(2) n_def [THEN meta_eq_to_obj_eq] ie pg(2) b _ z]) (simp_all add: st)
  moreover have "cells ?s3 x = cells s x" if "x \<notin> footprint p (Suc k) nb base i e (nt # used)" for x
  proof -
    have "x \<noteq> ?c" using that ie by (auto simp: footprint_def block_range_def n_def)
    then show ?thesis using sub_frame [OF ps p(1,2) u(3) that] st by simp
  qed
  ultimately show ?thesis
    unfolding filled_def using u sup
    by (intro exI [of _ "nt # used"]) (auto simp: store64_def same_statics_def)
qed

subsection \<open>Lemmas: The loop\<close>

lemma block_small:
  assumes "granule p" "k \<le> 3" "2 ^ lsize p k - 1 \<le> x" "x < (2::nat) ^ 32"
  shows "lsize p k < 32"
proof (rule ccontr)
  assume "\<not> lsize p k < 32"
  then have "33 \<le> lsize p k" using assms(1,2) by (auto simp: granule_def lsize_def le_Suc_eq numeral_3_eq_3)
  then have "(2::nat) ^ 33 \<le> 2 ^ lsize p k" by (intro power_increasing) auto
  with assms(3,4) show False by simp
qed

lemma level_3_iff: "k \<le> 3 \<Longrightarrow> (3 - of_nat k = (3::u32)) = (k = 0)"
  by (auto simp: le_Suc_eq numeral_3_eq_3)

lemma fill_step_page:
  assumes pre: "fill_pre p 0 nb a d ia oa s"
  defines "e \<equiv> min (unat (input_top d)) (unat ia + 2 ^ lsize p 0 - 1)"
  shows "filled p 0 nb a (tt_base d) (unat ia) e (unat oa) s 0
     (store64 (table_desc_addr d ia) (page_descriptor s oa a) s)"
proof -
  have r: "region_ok p 0 nb (unat ia) (unat (input_top d)) (unat oa)" and g: "granule p"
    and lv: "tt_lvl p 0 nb d" and nb: "nb + 3 \<le> p" and a: "attrs_ok a" and ps: "page_size s = 2 ^ p"
    using pre by (simp_all add: fill_pre_def tables_ok_def)
  have c: "table_desc_addr d ia = table_cell nb (tt_base d) (unat ia div 2 ^ lsize p 0)"
    using table_desc_addr_cell [OF lv g] nb granule_bounds [OF g] by simp
  have al: "2 ^ p dvd unat ia" "2 ^ p dvd unat oa" "unat oa < 2 ^ 32" "unat ia \<le> unat (input_top d)"
    using r by (auto simp: region_ok_def)
  have e: "unat ia \<le> e" "e < unat ia + 2 ^ p"
    using al(4) block_end(1,2) [of "unat ia" p] unfolding e_def lsize_0 by linarith+
  have "e div 2 ^ p = unat ia div 2 ^ p" by (rule in_block(1) [OF al(1) e])
  then show ?thesis
    unfolding c by (intro filled_leaf built_page [OF g ps a al(1) e al(2,3)]) (simp_all add: store64_def)
qed

lemma fill_step_block:
  assumes pre: "fill_pre p (Suc k) nb a d ia oa s" and el: "block_eligible d ia oa"
  defines "n \<equiv> lsize p (Suc k)"
  defines "e \<equiv> min (unat (input_top d)) (unat ia + 2 ^ n - 1)"
  shows "filled p (Suc k) nb a (tt_base d) (unat ia) e (unat oa) s 0
     (store64 (table_desc_addr d ia) (block_descriptor (shl 1 n) oa a) s)"
proof -
  have r: "region_ok p (Suc k) nb (unat ia) (unat (input_top d)) (unat oa)" and g: "granule p" "Suc k \<le> 3"
    and lv: "tt_lvl p (Suc k) nb d" and nb: "nb + 3 \<le> p" and a: "attrs_ok a"
    using pre by (simp_all add: fill_pre_def)
  have c: "table_desc_addr d ia = table_cell nb (tt_base d) (unat ia div 2 ^ lsize p (Suc k))"
    using table_desc_addr_cell [OF lv g] nb granule_bounds [OF g(1)] by simp
  have al: "2 ^ n dvd unat ia" "2 ^ n dvd unat oa" "unat ia + 2 ^ n - 1 \<le> unat (input_top d)"
    using el block_eligible_iff [OF lv g region_no_wrap(1) [OF r g]] by (simp_all add: n_def)
  have o: "unat oa < 2 ^ 32" "unat (input_top d) - unat ia < 2 ^ 32" using r unfolding region_ok_def by linarith+
  have n32: "lsize p (Suc k) < 32"
    using block_small [OF g _ o(2)] al(3) unfolding n_def by linarith
  have e: "unat ia \<le> e" "e < unat ia + 2 ^ n"
    using al(3) block_end(1,2) [of "unat ia" n] unfolding e_def by linarith+
  have "e div 2 ^ n = unat ia div 2 ^ n" by (rule in_block(1) [OF al(1) e])
  then show ?thesis
    unfolding c n_def
    by (intro filled_leaf built_block [OF g(1) a refl g(2) n32 al(1) [unfolded n_def] e [unfolded n_def] al(2) [unfolded n_def] o(1)])
       (simp_all add: store64_def)
qed

lemma next_level_pre:
  assumes pre: "fill_pre p (Suc k) nb a d ia oa s" and sup: "page_supply s = nt # rest"
  defines "d' \<equiv> next_level_desc (zeroed nt rest s) d nt ia oa"
  defines "e \<equiv> min (unat (input_top d)) (unat ia + 2 ^ lsize p (Suc k) - 1)"
  shows "fill_pre p k (p - 3) a d' ia oa (zeroed nt rest s)" "unat (input_top d') = e" "tt_base d' = nt"
    "unat ia div 2 ^ lsize p (Suc k) = e div 2 ^ lsize p (Suc k)" "unat ia \<le> e"
proof -
  have r: "region_ok p (Suc k) nb (unat ia) (unat (input_top d)) (unat oa)" and g: "granule p" "Suc k \<le> 3"
    and lv: "tt_lvl p (Suc k) nb d" and nb: "nb + 3 \<le> p" and a: "attrs_ok a" and ok: "tables_ok p (tt_base d) s"
    using pre by (simp_all add: fill_pre_def)
  have sl: "unat (size_log2 d) = lsize p (Suc k)"
    using lv lsize_less [OF g] by (simp add: tt_lvl_def unat_of_nat_small)
  have min': "unat (get_min x y) = min (unat x) (unat y)" for x y
    by (simp add: get_min_def min_def word_less_nat_alt)
  show top: "unat (input_top d') = e"
    using plus_block(2) [OF region_no_wrap(1) [OF r g] lsize_less [OF g]]
    by (simp add: d'_def next_level_desc_def min' sl e_def)
  show tb: "tt_base d' = nt" by (simp add: d'_def next_level_desc_def)
  note rs = region_sub [OF r, folded e_def]
  show "unat ia div 2 ^ lsize p (Suc k) = e div 2 ^ lsize p (Suc k)" by (rule rs(2))
  show "unat ia \<le> e" using rs(1) by (simp add: region_ok_def)
  have bpl: "bits_per_level s = of_nat (p - 3)" "page_size s = 2 ^ p" using ok by (simp_all add: tables_ok_def)
  have lv': "tt_lvl p k (p - 3) d'"
    using lv bpl by (simp add: tt_lvl_def d'_def next_level_desc_def lsize_Suc)
  have "cells (zeroed nt rest s) (table_cell (p - 3) nt j) = 0" for j
    using zeroed_cells [OF bpl(2), of nt rest] cell_in_page [of "p - 3" p nt j] granule_bounds [OF g(1)] by simp
  then show "fill_pre p k (p - 3) a d' ia oa (zeroed nt rest s)"
    using lv' g a rs(1) top tb ok sup granule_bounds [OF g(1)] by (auto simp: fill_pre_def tables_ok_def)
qed

lemma fill_goal_step:
  assumes pre: "fill_pre p k nb a d ia oa s"
    and f: "filled p k nb a (tt_base d) (unat ia) (min (unat (input_top d)) (unat ia + 2 ^ lsize p k - 1)) (unat oa) s 0 s1"
    and eq: "fill_loop a d ia oa s = fill_loop a d (ia + shl 1 (lsize p k)) (oa + shl 1 (lsize p k)) s1"
    and IH: "\<And>ia' oa' s'. unat (input_top d) - unat ia' < unat (input_top d) - unat ia \<Longrightarrow>
       fill_pre p k nb a d ia' oa' s' \<Longrightarrow> fill_goal p k nb a d ia' oa' s'"
  shows "fill_goal p k nb a d ia oa s"
proof -
  have r: "region_ok p k nb (unat ia) (unat (input_top d)) (unat oa)" and g: "granule p" "k \<le> 3"
    using pre by (simp_all add: fill_pre_def)
  have "unat (input_top d) - unat (ia + shl 1 (lsize p k)) < unat (input_top d) - unat ia"
    if "unat ia + 2 ^ lsize p k \<le> unat (input_top d)"
    using that plus_block(1) [OF region_no_wrap(1) [OF r g] lsize_less [OF g]]
      block_end(2) [of "unat ia" "lsize p k"] zero_less_power [of "2::nat" "lsize p k"] by linarith
  then show ?thesis
    unfolding fill_goal_def eq by (intro fill_rest [OF pre f] IH)
qed

lemma fill_pre_facts:
  assumes "fill_pre p k nb a d ia oa s"
  shows "ia < input_top d" "unat (size_log2 d) = lsize p k" "level d = 3 \<longleftrightarrow> k = 0"
    "tables_ok p (tt_base d) s" "granule p" "nb + 3 \<le> p"
    "table_desc_addr d ia = table_cell nb (tt_base d) (unat ia div 2 ^ lsize p k)"
    "cells s (table_cell nb (tt_base d) (unat ia div 2 ^ lsize p k)) = 0"
proof -
  have r: "region_ok p k nb (unat ia) (unat (input_top d)) (unat oa)" and g: "granule p" "k \<le> 3"
    and lv: "tt_lvl p k nb d" and nb: "nb + 3 \<le> p"
    using assms by (simp_all add: fill_pre_def)
  show "tables_ok p (tt_base d) s" "granule p" "nb + 3 \<le> p" using assms by (simp_all add: fill_pre_def)
  have "unat ia \<noteq> unat (input_top d)" using r by (auto simp: region_ok_def)
  then show "ia < input_top d" using r by (simp add: region_ok_def word_less_nat_alt)
  show "unat (size_log2 d) = lsize p k" using lv lsize_less [OF g] by (simp add: tt_lvl_def unat_of_nat_small)
  show "level d = 3 \<longleftrightarrow> k = 0" using lv level_3_iff [OF g(2)] by (simp add: tt_lvl_def)
  have "unat ia div 2 ^ lsize p k \<in> block_range p k (unat ia) (unat (input_top d))"
    using r by (simp add: block_range_def region_ok_def div_le_mono)
  then show "cells s (table_cell nb (tt_base d) (unat ia div 2 ^ lsize p k)) = 0"
    using assms by (simp add: fill_pre_def)
  show "table_desc_addr d ia = table_cell nb (tt_base d) (unat ia div 2 ^ lsize p k)"
    using table_desc_addr_cell [OF lv g] nb granule_bounds [OF g(1)] by simp
qed

lemma fill_loop_ok: "fill_pre p k nb a d ia oa s \<Longrightarrow> fill_goal p k nb a d ia oa s"
proof (induction k arbitrary: nb d ia oa s)
  case 0
  then show ?case
  proof (induction "unat (input_top d) - unat ia" arbitrary: ia oa s rule: less_induct)
    case less
    note f = fill_pre_facts [OF less.prems]
    show ?case
      by (rule fill_goal_step [OF less.prems fill_step_page [OF less.prems] _ less.hyps])
         (use f in \<open>simp_all add: fill_loop.simps [of a d ia oa s] Let_def\<close>)
  qed
next
  case (Suc k)
  from Suc.prems show ?case
  proof (induction "unat (input_top d) - unat ia" arbitrary: ia oa s rule: less_induct)
    case less
    note f = fill_pre_facts [OF less.prems]
    let ?bs = "shl 1 (lsize p (Suc k)) :: u64"
    show ?case
    proof (cases "block_eligible d ia oa")
      case True
      show ?thesis
        by (rule fill_goal_step [OF less.prems fill_step_block [OF less.prems True] _ less.hyps])
           (use f True in \<open>simp_all add: fill_loop.simps [of a d ia oa s] Let_def\<close>)
    next
      case noblk: False
      show ?thesis
      proof (cases "page_supply s")
        case Nil
        then have "fill_loop a d ia oa s = Some (ACS_STATUS_ERR, s)"
          using f noblk by (simp add: fill_loop.simps [of a d ia oa s] Let_def next_table_empty)
        moreover have "filled p (Suc k) nb a (tt_base d) (unat ia) (unat (input_top d)) (unat oa) s ACS_STATUS_ERR s"
          unfolding filled_def using Nil by (intro exI [of _ "[]"]) (simp add: same_statics_def)
        ultimately show ?thesis by (auto simp: fill_goal_def)
      next
        case sup: (Cons nt rest)
        let ?z = "zeroed nt rest s" and ?d = "next_level_desc (zeroed nt rest s) d nt ia oa"
        note nl = next_level_pre [OF less.prems sup]
        have nt: "nt \<noteq> 0" using f(4) sup by (auto simp: tables_ok_def page_ok_def)
        obtain r s2 where sub: "fill_loop a ?d ia oa ?z = Some (r, s2)"
          "filled p k (p - 3) a nt (unat ia) (unat (input_top ?d)) (unat oa) ?z r s2"
          using Suc.IH [OF nl(1)] nl(3) by (auto simp: fill_goal_def)
        show ?thesis
        proof (cases "r = 0")
          case False
          then have "fill_loop a d ia oa s = Some (ACS_STATUS_ERR, val_memory_free_pages nt s2)"
            using f noblk nt sub(1) by (simp add: fill_loop.simps [of a d ia oa s] Let_def next_table_fresh [OF sup])
          with filled_table_fail [OF f(5,4) sup sub(2) False] show ?thesis by (auto simp: fill_goal_def)
        next
          case True
          show ?thesis
            by (rule fill_goal_step [OF less.prems filled_table [OF f(5,4) sup sub(2) [unfolded True nl(2)] nl(4,5) f(6)] _ less.hyps])
              (use f noblk nt sub(1) True in \<open>simp_all add: fill_loop.simps [of a d ia oa s] Let_def next_table_fresh [OF sup]\<close>)
        qed
      qed
    qed
  qed
qed

subsection \<open>Lemmas: Level counts and reading attributes\<close>

lemma log2_page_size_granule: "granule p \<Longrightarrow> log2_page_size (2 ^ p) = of_nat p"
proof -
  assume "granule p"
  moreover have "log2_page_size (2 ^ 12) = 12" "log2_page_size (2 ^ 14) = 14" "log2_page_size (2 ^ 16) = 16"
    unfolding log2_page_size_def by code_simp+
  ultimately show ?thesis by (auto simp: granule_def)
qed

lemma upto_cases: "32 \<le> w \<Longrightarrow> w \<le> 48 \<Longrightarrow> w \<in> set [32..<49]" for w :: nat
  unfolding set_upt by simp

lemma granule_set: "granule p \<Longrightarrow> p \<in> set [12, 14, 16]"
  by (auto simp: granule_def)

lemma first_k_bounds:
  assumes "granule p" "32 \<le> w" "w \<le> 48"
  shows "first_k p w \<le> 3" "lsize p (first_k p w) < w" "w \<le> lsize p (first_k p w) + (p - 3)"
proof -
  have "\<forall>p\<in>set [12,14,16]. \<forall>w\<in>set [32..<49]. first_k p w \<le> 3 \<and> lsize p (first_k p w) < w \<and>
      w \<le> lsize p (first_k p w) + (p - 3)"
    by code_simp
  from bspec [OF bspec [OF this granule_set [OF assms(1)]] upto_cases [OF assms(2,3)]]
  show "first_k p w \<le> 3" "lsize p (first_k p w) < w" "w \<le> lsize p (first_k p w) + (p - 3)"
    by simp_all
qed

lemma num_levels_first_k:
  assumes "granule p" "32 \<le> w" "w \<le> 48"
  shows "num_levels (of_nat w) (of_nat p) (of_nat p - 3) = of_nat (Suc (first_k p w))"
    "((of_nat (Suc (first_k p w)) - 1) * (of_nat p - 3) + of_nat p :: u32) = of_nat (lsize p (first_k p w))"
    "(4 - of_nat (Suc (first_k p w)) :: u32) = 3 - of_nat (first_k p w)"
    "(of_nat w - of_nat (lsize p (first_k p w)) :: u32) = of_nat (w - lsize p (first_k p w))"
proof -
  have "\<forall>p\<in>set [12,14,16]. \<forall>w\<in>set [32..<49].
     num_levels (of_nat w) (of_nat p) (of_nat p - 3) = of_nat (Suc (first_k p w))"
    by code_simp
  from bspec [OF bspec [OF this granule_set [OF assms(1)]] upto_cases [OF assms(2,3)]]
  show "num_levels (of_nat w) (of_nat p) (of_nat p - 3) = of_nat (Suc (first_k p w))" .
  have p3: "of_nat p - 3 = (of_nat (p - 3) :: u32)" using granule_bounds [OF assms(1)] by (simp add: of_nat_diff)
  show "((of_nat (Suc (first_k p w)) - 1) * (of_nat p - 3) + of_nat p :: u32) = of_nat (lsize p (first_k p w))"
    by (simp add: p3 lsize_def)
  show "(4 - of_nat (Suc (first_k p w)) :: u32) = 3 - of_nat (first_k p w)" by simp
  show "(of_nat w - of_nat (lsize p (first_k p w)) :: u32) = of_nat (w - lsize p (first_k p w))"
    using first_k_bounds(2) [OF assms] by (simp add: of_nat_diff)
qed

lemma granule_u32: "granule p \<Longrightarrow> unat (of_nat p :: u32) = p" "granule p \<Longrightarrow> unat (of_nat (p - 3) :: u32) = p - 3"
  by (auto simp: granule_def)

lemma addr_mask_width:
  "p \<le> w \<Longrightarrow> w \<le> 64 \<Longrightarrow> (v :: u64) AND shl (shl 1 (w - p) - 1) p = take_bit w v AND NOT (mask p)"
  unfolding push_bit_1_minus_1 by (rule bit_word_eqI) (auto simp: bit_simps)

lemma index_u32:
  assumes "nb < 32"
  shows "tb + 8 * ucast (ucast (shr (va::u64) n AND ucast (shl 1 nb - 1 :: u32)) :: u32) =
    entry_addr tb (walk_index n nb va)"
proof -
  have "ucast (ucast (shr va n AND ucast (shl 1 nb - 1 :: u32)) :: u32) = shr va n AND (shl 1 nb - 1)"
    using assms unfolding push_bit_1_minus_1 by (intro bit_word_eqI) (auto simp: bit_simps)
  also have "\<dots> = of_nat (walk_index n nb va)"
    unfolding walk_index_div by (metis of_nat_unat ucast_id unat_index)
  finally show ?thesis by (simp add: entry_addr_def)
qed

lemma IS_PGT_bit: "IS_PGT_ENTRY_PAGE v \<longleftrightarrow> bit v 1" "IS_PGT_ENTRY_BLOCK v \<longleftrightarrow> \<not> bit v 1"
proof -
  have "(2::u64) = push_bit 1 1" by simp
  then have "(v AND 2 \<noteq> 0) = bit v 1"
    by (metis and_exp_eq_0_iff_not_bit power_one_right)
  then show "IS_PGT_ENTRY_PAGE v \<longleftrightarrow> bit v 1" "IS_PGT_ENTRY_BLOCK v \<longleftrightarrow> \<not> bit v 1"
    by (simp_all add: IS_PGT_ENTRY_PAGE_def IS_PGT_ENTRY_BLOCK_def)
qed

lemma attributes_loop_walk:
  assumes "granule p" "32 \<le> w" "w \<le> 48"
  shows "walk p w m k (p - 3) base va = Some (pa, at) \<Longrightarrow> k \<le> 3 \<Longrightarrow>
   attributes_loop m (of_nat w) (of_nat p) (of_nat (p - 3)) va attr (3 - of_nat k) (of_nat (lsize p k))
     (of_nat (p - 3)) base = Some (0, at)"
proof (induction k arbitrary: base)
  case 0
  have nb: "p - 3 < 32" using granule_bounds [OF assms(1)] by auto
  have us: "unat (of_nat (lsize p 0) :: u32) = p" "unat (of_nat (p - 3) :: u32) = p - 3"
    using granule_u32 [OF assms(1)] by (simp_all only: lsize_0)
  show ?case
    using 0
    by (subst attributes_loop.simps)
       (simp only: Let_def us index_u32 [OF nb] val_memory_phys_to_virt_def IS_PGT_bit walk.simps
          split: if_splits, auto)
next
  case (Suc k)
  have nb: "p - 3 < 32" using granule_bounds [OF assms(1)] by auto
  have l3: "(3 - of_nat (Suc k) :: u32) \<noteq> 3" using Suc.prems level_3_iff [of "Suc k"] by simp
  have l3': "(3 - of_nat (Suc k) :: u32) + 1 = 3 - of_nat k" by simp
  have wp: "unat (of_nat w - of_nat p :: u32) = w - p" "unat (of_nat p :: u32) = p" "p \<le> w" "w \<le> 64"
    using assms granule_bounds [OF assms(1)] unat_of_nat_small [of "w - p"] unat_of_nat_small [of p] by (simp_all add: of_nat_diff)
  have br: "of_nat (lsize p (Suc k)) - of_nat (p - 3) = (of_nat (lsize p k) :: u32)"
    by (simp add: lsize_Suc)
  have us: "unat (of_nat (lsize p (Suc k)) :: u32) = lsize p (Suc k)" "unat (of_nat (p - 3) :: u32) = p - 3"
    using lsize_less [OF assms(1), of "Suc k"] Suc.prems nb by (simp_all only: unat_of_nat_small)
  show ?case
    using Suc.prems Suc.IH
    by (subst attributes_loop.simps)
       (simp only: Let_def us index_u32 [OF nb] val_memory_phys_to_virt_def IS_PGT_bit wp l3 l3' br
          addr_mask_width [OF wp(3,4)] walk.simps split: if_splits, auto)
qed

subsection \<open>Lemmas: Destroying tables\<close>

lemma free_loop_level3: "free_loop base bits 3 index s = Some s"
  by (simp add: free_loop.simps)

lemma ucast_of_nat_u32: "j < 2 ^ 32 \<Longrightarrow> (ucast (of_nat j :: u32) :: u64) = of_nat j"
  by (simp add: word_unat_eq_iff unsigned_ucast_eq word_le_of_nat_less take_bit_nat_eq_self)

lemma free_loop_pages:
  assumes g: "granule p" and w: "32 \<le> w" "w \<le> 48"
  shows "k \<le> 3 \<Longrightarrow> nb \<le> p - 3 \<Longrightarrow> j \<le> 2 ^ nb \<Longrightarrow> bits_per_level s = of_nat (p - 3) \<Longrightarrow>
    pgt_addr_mask s = shl (shl 1 (w - p) - 1) p \<Longrightarrow>
    \<exists>fs. free_loop base (of_nat nb) (3 - of_nat k) (of_nat j) s = Some (s\<lparr>freed_pages := fs @ freed_pages s\<rparr>) \<and>
      mset fs = (\<Sum>i\<in>{j..<2 ^ nb}. entry_pages p w (cells s) k (cells s (entry_addr base i)))"
proof (induction k arbitrary: nb j s base)
  case 0
  then show ?case by (intro exI [of _ "[]"]) (simp add: free_loop.simps)
next
  case (Suc k)
  have pw: "p \<le> w" "w \<le> 64" using w granule_bounds [OF g] by auto
  have l3: "(3 - of_nat (Suc k) :: u32) \<noteq> 3" using Suc.prems(1) level_3_iff [of "Suc k"] by simp
  have l3': "(3 - of_nat (Suc k) :: u32) + 1 = 3 - of_nat k" by simp
  have "nb < 32" using Suc.prems(2) granule_bounds [OF g] by linarith
  then have nb: "unat (of_nat nb :: u32) = nb" and n32: "(2::nat) ^ nb < 2 ^ 32" "nb < 64"
    by (simp_all add: unat_of_nat_small power_strict_increasing del: power_numeral)
  have idx: "ucast (of_nat j :: u32) < (shl 1 nb :: u64) \<longleftrightarrow> j < 2 ^ nb"
    "(ucast (of_nat j :: u32) :: u64) = of_nat j" if "j \<le> 2 ^ nb" for j
  proof -
    show u: "(ucast (of_nat j :: u32) :: u64) = of_nat j"
      using that n32(1) by (intro ucast_of_nat_u32) linarith
    have "unat (of_nat j :: u64) = j" using that n32(1) by (intro word_le_of_nat_less) simp
    then show "ucast (of_nat j :: u32) < (shl 1 nb :: u64) \<longleftrightarrow> j < 2 ^ nb"
      unfolding u word_less_nat_alt unat_shl_1 [OF n32(2)] by simp
  qed
  note outer = Suc.IH
  have k3: "k \<le> 3" using Suc.prems(1) by simp
  from Suc.prems(3-5) show ?case
  proof (induction "2 ^ nb - j" arbitrary: j s)
    case 0
    then have "\<not> (ucast (of_nat j :: u32) < (shl 1 nb :: u64))" using idx(1) [of j] by simp
    with 0 nb show ?case by (intro exI [of _ "[]"]) (simp add: free_loop.simps)
  next
    case (Suc x)
    then have j: "j < 2 ^ nb" "x = 2 ^ nb - Suc j" "Suc j \<le> 2 ^ nb" by simp_all
    let ?d = "cells s (entry_addr base j)" and ?f = "\<lambda>i. entry_pages p w (cells s) (Suc k) (cells s (entry_addr base i))"
    let ?n = "take_bit w ?d AND NOT (mask p)"
    have set: "{j..<2 ^ nb} = insert j {Suc j..<2 ^ nb}" using j(1) by auto
    have sum: "(\<Sum>i\<in>{j..<2 ^ nb}. ?f i) = ?f j + (\<Sum>i\<in>{Suc j..<2 ^ nb}. ?f i)" unfolding set by simp
    have S1: "of_nat j + 1 = (of_nat (Suc j) :: u32)" by simp
    have m: "v AND pgt_addr_mask s = take_bit w v AND NOT (mask p)" for v
      using Suc.prems(3) addr_mask_width [OF pw] by simp
    have step: "free_loop base (of_nat nb) (3 - of_nat (Suc k)) (of_nat j) s =
        (if ?d = 0 \<or> \<not> bit ?d 1 \<or> ?n = 0
         then free_loop base (of_nat nb) (3 - of_nat (Suc k)) (of_nat (Suc j)) s
         else free_loop ?n (bits_per_level s) (3 - of_nat k) (of_nat 0) s \<bind>
           (\<lambda>s1. free_loop base (of_nat nb) (3 - of_nat (Suc k)) (of_nat (Suc j)) (val_memory_free_pages ?n s1)))"
      using j(1) idx [of j] l3
      by (subst free_loop.simps)
         (simp only: Let_def nb idx(2) [of j] IS_PGT_bit val_memory_phys_to_virt_def m l3' S1 entry_addr_def of_nat_0 simp_thms if_False if_True, simp)
    show ?case
    proof (cases "?d = 0 \<or> \<not> bit ?d 1 \<or> ?n = 0")
      case True
      then have "?f j = {#}" by (auto simp: Let_def)
      with Suc.hyps(1) [OF j(2,3) Suc.prems(2,3)] True show ?thesis unfolding step sum by simp
    next
      case False
      from outer [OF k3 _ _ Suc.prems(2,3), of "p - 3" 0 ?n] obtain fs where
        fs: "free_loop ?n (of_nat (p - 3)) (3 - of_nat k) (of_nat 0) s = Some (s\<lparr>freed_pages := fs @ freed_pages s\<rparr>)"
        "mset fs = (\<Sum>i<2 ^ (p - 3). entry_pages p w (cells s) k (cells s (entry_addr ?n i)))"
        by (auto simp: atLeast0LessThan)
      let ?s1 = "val_memory_free_pages ?n (s\<lparr>freed_pages := fs @ freed_pages s\<rparr>)"
      have s1: "cells ?s1 = cells s" "bits_per_level ?s1 = of_nat (p - 3)" "pgt_addr_mask ?s1 = shl (shl 1 (w - p) - 1) p"
        using Suc.prems(2,3) by (simp_all add: val_memory_free_pages_def)
      from Suc.hyps(1) [OF j(2,3) s1(2,3)] obtain gs where
        gs: "free_loop base (of_nat nb) (3 - of_nat (Suc k)) (of_nat (Suc j)) ?s1 = Some (?s1\<lparr>freed_pages := gs @ freed_pages ?s1\<rparr>)"
          "mset gs = (\<Sum>i\<in>{Suc j..<2 ^ nb}. ?f i)" unfolding s1(1) by blast
      have "?f j = {#?n#} + mset fs" using False fs(2) by (simp add: Let_def)
      moreover have "?s1\<lparr>freed_pages := gs @ freed_pages ?s1\<rparr> = s\<lparr>freed_pages := (gs @ ?n # fs) @ freed_pages s\<rparr>"
        by (simp add: val_memory_free_pages_def)
      ultimately show ?thesis
        using False fs gs Suc.prems(2) unfolding step sum
        by (intro exI [of _ "gs @ ?n # fs"]) simp
    qed
  qed
qed

subsection \<open>Lemmas: Creating tables\<close>

lemma low_bits_id: "n < 64 \<Longrightarrow> unat (x::u64) < 2 ^ n \<Longrightarrow> x AND (shl 1 n - 1) = x"
  by (simp add: push_bit_1_minus_1 take_bit_eq_mask [symmetric] word_unat_eq_iff unsigned_take_bit_eq take_bit_nat_eq_self del: push_bit_of_1)

lemma region_fits_ok:
  assumes "granule p" "32 \<le> w" "w \<le> 48" "region_fits p w md"
  defines "k \<equiv> first_k p w"
  shows "region_ok p k (w - lsize p k) (unat (virtual_address md))
     (unat (virtual_address md) + unat (mr_length md) - 1) (unat (physical_address md))"
    "unat (virtual_address md) < 2 ^ w"
    "unat (virtual_address md + mr_length md - 1) = unat (virtual_address md) + unat (mr_length md) - 1"
proof -
  let ?i = "unat (virtual_address md)" and ?l = "unat (mr_length md)" and ?o = "unat (physical_address md)"
  have f: "2 ^ p dvd ?i" "2 ^ p dvd ?o" "0 < ?l" "?i + ?l \<le> 2 ^ w" "?o + ?l \<le> 2 ^ 32" "(?i + ?l - 1) mod 2 ^ p \<noteq> 0"
    "\<And>j. 1 \<le> j \<Longrightarrow> j \<le> k \<Longrightarrow> 2 ^ lsize p j dvd ?i \<or> ?i div 2 ^ lsize p j = (?i + ?l - 1) div 2 ^ lsize p j"
    using assms(4) by (auto simp: region_fits_def Let_def k_def)
  have "(2::nat) ^ w \<le> 2 ^ 48" using assms(3) by (intro power_increasing) auto
  with f(3,4) have t48: "?i + ?l - 1 < 2 ^ 48" "?i + ?l < 2 ^ 64" by simp_all
  have tw: "?i + ?l - 1 < 2 ^ w" using f(3,4) by simp
  have kw: "lsize p k + (w - lsize p k) = w" using first_k_bounds(2) [OF assms(1-3)] by (simp add: k_def)
  show iw: "?i < 2 ^ w" using f(3,4) by linarith
  have "?i div 2 ^ w = 0" "(?i + ?l - 1) div 2 ^ w = 0" using iw tw by (simp_all only: div_less)
  then show "region_ok p k (w - lsize p k) ?i (?i + ?l - 1) ?o"
    unfolding region_ok_def kw using f t48(1) by (intro conjI allI impI) auto
  have a: "unat (virtual_address md + mr_length md) = ?i + ?l" using t48(2) by (simp add: unat_word_ariths)
  then have "virtual_address md + mr_length md \<noteq> 0" using f(3) by auto
  with a show "unat (virtual_address md + mr_length md - 1) = ?i + ?l - 1"
    by (metis One_nat_def unat_minus_one)
qed

lemma root_desc_facts:
  fixes base :: u64
  assumes "pgt_setup p w pd md s"
  defines "k \<equiv> first_k p w"
  defines "d \<equiv> \<lambda>base. root_desc pd md base (of_nat (Suc k)) (of_nat p) (of_nat (p - 3))"
  shows "tt_base (d base) = base" "input_base (d base) = virtual_address md" "output_base (d base) = physical_address md"
    "unat (input_top (d base)) = unat (virtual_address md) + unat (mr_length md) - 1"
    "tt_lvl p k (w - lsize p k) (d base)"
proof -
  have g: "granule p" "32 \<le> w" "w \<le> 48" "region_fits p w md" and ia: "ias pd = of_nat w" and
    o: "oas pd < 64" "physical_address md < shl 1 (unat (oas pd))"
    using assms(1) by (simp_all add: pgt_setup_def)
  have w: "unat (of_nat w :: u32) = w" "w < 64" using g by (simp_all add: unat_of_nat_small)
  note rf = region_fits_ok [OF g]
  have o64: "unat (oas pd) < 64" using o(1) by (simp add: word_less_nat_alt)
  have v: "virtual_address md AND (shl 1 (unat (ias pd)) - 1) = virtual_address md"
    unfolding ia w(1) by (rule low_bits_id [OF w(2) rf(2)])
  have pa: "physical_address md AND (shl 1 (unat (oas pd)) - 1) = physical_address md"
    using o(2) by (intro low_bits_id [OF o64]) (simp only: word_less_nat_alt unat_shl_1 [OF o64])
  have p3: "of_nat p - 3 = (of_nat (p - 3) :: u32)" using granule_bounds [OF g(1)] by (simp add: of_nat_diff)
  note nl = num_levels_first_k [OF g(1-3), unfolded p3, folded k_def]
  show "tt_base (d base) = base" "input_base (d base) = virtual_address md" "output_base (d base) = physical_address md"
    "unat (input_top (d base)) = unat (virtual_address md) + unat (mr_length md) - 1"
    unfolding d_def root_desc_def Let_def v pa using rf(3) by simp_all
  show "tt_lvl p k (w - lsize p k) (d base)"
    unfolding d_def root_desc_def Let_def tt_lvl_def
    using nl ia by (simp del: of_nat_Suc)
qed

lemma create_single:
  assumes st: "pgt_setup p w pd md s" and "mr_length fin = 0"
  shows "\<exists>r pd' s'. val_pgt_create [md, fin] pd s = Some (r, [md, fin], pd', s') \<and> created p w md pd s r pd' s'"
proof -
  define k where "k = first_k p w"
  have g: "granule p" "32 \<le> w" "w \<le> 48" "region_fits p w md" and ps: "pal_page_size s = 2 ^ p"
    and ia: "ias pd = of_nat w" and tg: "tg_size_log2 (tcr pd) = of_nat p" and a: "attrs_ok (attributes md)"
    and o: "physical_address md < shl 1 (unat (oas pd))"
    using st by (simp_all add: pgt_setup_def)
  obtain base rest where sup: "page_supply s = base # rest"
    using st by (cases "page_supply s") (auto simp: pgt_setup_def)
  have pg: "\<forall>x\<in>set (base # rest). page_ok p x" "distinct (base # rest)" "base \<noteq> 0"
    using st sup by (auto simp: pgt_setup_def page_ok_def)
  have p3: "of_nat p - 3 = (of_nat (p - 3) :: u32)" and p48: "unat (48 - of_nat p :: u32) = 48 - p"
    and u2p: "ucast (2 ^ p :: u32) = (2 ^ p :: u64)" and tg': "ucast (of_nat p :: 5 word) = (of_nat p :: u32)"
    using g(1) by (auto simp: granule_def)
  let ?s1 = "s\<lparr>page_size := 2 ^ p, bits_per_level := of_nat (p - 3)\<rparr>"
  define s4 where "s4 = (zeroed base rest ?s1)\<lparr>pgt_addr_mask := shl (shl 1 (48 - p) - 1) p\<rparr>"
  let ?d = "root_desc pd md base (of_nat (Suc k)) (of_nat p) (of_nat (p - 3))"
  note rd = root_desc_facts [OF st, folded k_def, of base] and rf = region_fits_ok [OF g, folded k_def]
  have kb: "k \<le> 3" "w - lsize p k + 3 \<le> p" using first_k_bounds [OF g(1-3)] granule_bounds [OF g(1)] by (simp_all add: k_def)
  have z: "cells s4 (table_cell (w - lsize p k) base j) = 0" for j
    using cell_in_page [OF kb(2), of base j] granule_bounds [OF g(1)] zeroed_cells [of ?s1 p base rest]
    by (simp add: s4_def)
  have "fill_pre p k (w - lsize p k) (attributes md) ?d (virtual_address md) (physical_address md) s4"
    unfolding fill_pre_def rd using rd(5) g(1) kb a rf(1) pg z by (simp add: tables_ok_def s4_def)
  from fill_loop_ok [OF this] obtain r s5 where
    fl: "fill_loop (attributes md) ?d (virtual_address md) (physical_address md) s4 = Some (r, s5)"
    and fd: "filled p k (w - lsize p k) (attributes md) base (unat (virtual_address md))
       (unat (virtual_address md) + unat (mr_length md) - 1) (unat (physical_address md)) s4 r s5"
    unfolding fill_goal_def rd by blast
  note p3u = p3 and lg = log2_page_size_granule [OF g(1)]
  note nl = num_levels_first_k(1) [OF g(1-3), unfolded p3, folded k_def]
  have w: "unat (of_nat w :: u32) = w" "w < 64" using g by (simp_all add: unat_of_nat_small)
  have vw: "\<not> virtual_address md \<ge> shl 1 (unat (ias pd))"
    unfolding ia w(1) word_le_nat_alt unat_shl_1 [OF w(2)] using rf(2) by simp
  have al: "virtual_address md AND ucast (2 ^ p - 1 :: u32) = 0" "physical_address md AND ucast (2 ^ p - 1 :: u32) = 0"
  proof -
    have "ucast (2 ^ p - 1 :: u32) = (shl 1 p - 1 :: u64)" using g(1) by (auto simp: granule_def)
    then show "virtual_address md AND ucast (2 ^ p - 1 :: u32) = 0" "physical_address md AND ucast (2 ^ p - 1 :: u32) = 0"
      using rf(1) by (simp_all only: and_low_zero_iff region_ok_def)
  qed
  have len: "mr_length md \<noteq> 0" using g(4) by (auto simp: region_fits_def Let_def)
  have cl: "create_loop pd base [md, fin] (of_nat (Suc k)) (of_nat p) md s4 =
     Some (if r \<noteq> 0 then (ACS_STATUS_ERR, md, val_memory_free_pages base s5) else (0, md, s5))"
    using len al o vw tg tg' fl rd(2,3) assms(2)
    by (simp add: s4_def fill_translation_table_def not_le [symmetric] del: of_nat_Suc of_nat_diff)
  have p48': "unat (of_nat p :: u32) = p" using granule_u32 [OF g(1)] by simp
  have s4': "(val_memory_set base (2 ^ p) 0 (?s1\<lparr>page_supply := rest\<rparr>))
      \<lparr>pgt_addr_mask := shl (shl 1 (unat (48 - of_nat p :: u32)) - 1) (unat (of_nat p :: u32))\<rparr> = s4"
    unfolding p48 p48' s4_def zeroed_def by simp
  have al': "val_memory_alloc_pages ?s1 = (base, ?s1\<lparr>page_supply := rest\<rparr>)"
    using sup by (simp add: val_memory_alloc_pages_def)
  have "val_pgt_create [md, fin] pd s =
     Some (if r \<noteq> 0 then (ACS_STATUS_ERR, [md, fin], pd, val_memory_free_pages base s5)
           else (0, [md, fin], pd\<lparr>pgt_base := base\<rparr>, s5))"
    unfolding val_pgt_create_def val_memory_page_size_def ps u2p lg p3 ia Let_def nl al' prod.case s4'
    using pg(3) cl by (simp add: val_memory_virt_to_phys_def del: of_nat_Suc of_nat_diff)
  moreover have "created p w md pd s (if r \<noteq> 0 then ACS_STATUS_ERR else 0) (if r \<noteq> 0 then pd else pd\<lparr>pgt_base := base\<rparr>)
      (if r \<noteq> 0 then val_memory_free_pages base s5 else s5)"
    unfolding created_def using sup fd
    by (intro exI [of _ base] exI [of _ rest] exI [of _ s4] exI [of _ s5])
       (auto simp: s4_def k_def filled_def)
  ultimately show ?thesis by (auto split: if_splits)
qed

subsection \<open>Lemmas: a finished table\<close>

lemma of_nat_offset:
  "(x :: u64) \<le> va \<Longrightarrow> of_nat (unat out + (unat va - unat x)) = out + (va - x)"
  by (simp add: word_le_nat_alt unat_sub [symmetric])

lemma created_success:
  assumes "pgt_setup p w pd md s" "mr_length fin = 0"
    "val_pgt_create [md, fin] pd s = Some (0, mds, pd', s')"
  shows "created p w md pd s 0 pd' s'"
  using create_single [OF assms(1,2)] assms(3) by auto

lemma created_walk:
  assumes "created p w md pd s 0 pd' s'" "32 \<le> v" "v \<le> 48" "0 < mr_length md"
    and va: "virtual_address md \<le> va" "unat va < unat (virtual_address md) + unat (mr_length md)"
  shows "translate p v w (cells s') (pgt_base pd') va =
    Some (physical_address md + (va - virtual_address md), attributes md)"
proof -
  obtain base rest s4 where f: "filled p (first_k p w) (w - lsize p (first_k p w)) (attributes md) base
      (unat (virtual_address md)) (unat (virtual_address md) + unat (mr_length md) - 1)
      (unat (physical_address md)) s4 0 s'" "pgt_base pd' = base"
    using assms(1) by (auto simp: created_def)
  then obtain used where "built p (attributes md) (first_k p w) (w - lsize p (first_k p w)) base
      (unat (virtual_address md)) (unat (virtual_address md) + unat (mr_length md) - 1)
      (unat (physical_address md)) used (cells s')"
    by (auto simp: filled_def)
  with assms(2,3) have "mapped p v (cells s') (first_k p w) (w - lsize p (first_k p w)) base (attributes md)
      (unat (virtual_address md)) (unat (virtual_address md) + unat (mr_length md) - 1) (unat (physical_address md))"
    by (simp add: built_def)
  with va f(2) show ?thesis
    unfolding mapped_def translate_def of_nat_offset [OF va(1), symmetric]
    by (simp add: word_le_nat_alt del: of_nat_add)
qed

lemma lsize_Suc_le: "lsize p k \<le> lsize p (Suc k)"
  by (simp add: lsize_def)

lemma example_setup: "pgt_setup 12 48 example_pgt_desc example_region example_pgt"
proof -
  have f: "first_k 12 48 = 3" by (simp add: first_k_def)
  have s: "{Suc 0..3} = {1, 2, 3}" by auto
  show ?thesis
    by (simp add: pgt_setup_def granule_def example_pgt_desc_def example_region_def example_pgt_def attrs_ok_def
      PGT_DESC_ATTRIBUTES_MASK_def region_fits_def Let_def page_ok_def f s lsize_def)
qed

lemma example_created: "\<exists>pd' s'. val_pgt_create [example_region, end_of_regions] example_pgt_desc example_pgt =
    Some (0, [example_region, end_of_regions], pd', s')"
proof -
  have "map_option fst (val_pgt_create [example_region, end_of_regions] example_pgt_desc example_pgt) = Some 0"
    by code_simp
  moreover obtain r pd' s' where "val_pgt_create [example_region, end_of_regions] example_pgt_desc example_pgt =
    Some (r, [example_region, end_of_regions], pd', s')"
    using create_single [OF example_setup, of end_of_regions] by (auto simp: end_of_regions_def)
  ultimately show ?thesis by simp
qed

lemma create_loop_cong:
  "map (\<lambda>r. mr_length r = 0) it = map (\<lambda>r. mr_length r = 0) it' \<Longrightarrow>
   create_loop pd base it n l md s = create_loop pd base it' n l md s"
proof (induction pd base it n l md s arbitrary: it' rule: create_loop.induct)
  case (2 pd base r it n l md s)
  from "2.prems" obtain r' it'' where i: "it' = r' # it''" "(mr_length r = 0) = (mr_length r' = 0)"
    "map (\<lambda>r. mr_length r = 0) it = map (\<lambda>r. mr_length r = 0) it''" by (cases it') auto
  show ?case
    using "2.IH" i by (auto simp: Let_def intro!: Option.bind_cong)
qed simp

subsection \<open>Properties\<close>

text \<open>
  Property C6. Page tables translate what was asked: for one region that fits, \<open>val_pgt_create\<close> returns;
  it either runs out of pages and says so, or the table walk of every address of the region gives
  the physical address at the same offset with the attributes of the region.
\<close>

theorem pgt_create_translates:
  assumes "pgt_setup p w pd md s" and "mr_length fin = 0"
  shows "\<exists>r pd' s'. val_pgt_create [md, fin] pd s = Some (r, [md, fin], pd', s') \<and>
    (r = 0 \<and> (\<forall>va. virtual_address md \<le> va \<and> unat va < unat (virtual_address md) + unat (mr_length md) \<longrightarrow>
        translate p 48 w (cells s') (pgt_base pd') va =
          Some (physical_address md + (va - virtual_address md), attributes md)) \<or>
     r = ACS_STATUS_ERR \<and> page_supply s' = [])"
proof -
  obtain r pd' s' where c: "val_pgt_create [md, fin] pd s = Some (r, [md, fin], pd', s')" "created p w md pd s r pd' s'"
    using create_single [OF assms] by blast
  have "0 < mr_length md" using assms(1) by (auto simp: pgt_setup_def region_fits_def Let_def word_less_nat_alt)
  then have "r = 0 \<Longrightarrow> \<forall>va. virtual_address md \<le> va \<and> unat va < unat (virtual_address md) + unat (mr_length md) \<longrightarrow>
        translate p 48 w (cells s') (pgt_base pd') va =
          Some (physical_address md + (va - virtual_address md), attributes md)"
    using created_walk [of p w md pd s pd' s' 48] c(2) by auto
  moreover have "r \<noteq> 0 \<Longrightarrow> r = ACS_STATUS_ERR \<and> page_supply s' = []"
    using c(2) by (auto simp: created_def filled_def val_memory_free_pages_def)
  ultimately show ?thesis using c(1) by blast
qed

theorem pgt_create_translates_witness:
  "\<exists>pd' s'. val_pgt_create [example_region, end_of_regions] example_pgt_desc example_pgt =
      Some (0, [example_region, end_of_regions], pd', s') \<and>
    translate 12 48 48 (cells s') (pgt_base pd') 0x80001234 = Some (0x40001234, 0x740)"
proof -
  have e: "mr_length end_of_regions = 0" by (simp add: end_of_regions_def)
  from pgt_create_translates [OF example_setup e] example_created show ?thesis
    by (auto simp: example_region_def)
qed

text \<open>
  Property C8. Attributes are read back: after a successful \<open>val_pgt_create\<close> with a first level of full
  width, \<open>val_pgt_get_attributes\<close> returns the attributes of the region for each of its addresses.
\<close>

theorem pgt_attributes_roundtrip:
  assumes "pgt_setup p w pd md s" and "mr_length fin = 0" and full: "(w - p) mod (p - 3) = 0"
    and "val_pgt_create [md, fin] pd s = Some (0, mds, pd', s')"
    and va: "virtual_address md \<le> va" "unat va < unat (virtual_address md) + unat (mr_length md)"
  shows "val_pgt_get_attributes pd' va (Some x) s' =
    Some (0, Some (attributes md), s'\<lparr>bits_per_level := of_nat (p - 3)\<rparr>)"
proof -
  have g: "granule p" "32 \<le> w" "w \<le> 48" and ia: "ias pd = of_nat w" "tg_size_log2 (tcr pd) = of_nat p"
    "tcr_tsz (tcr pd) = 64 - of_nat w" and rf: "region_fits p w md"
    and pg: "\<forall>a\<in>set (page_supply s). page_ok p a" "page_supply s \<noteq> []"
    using assms(1) by (simp_all add: pgt_setup_def)
  note cr = created_success [OF assms(1,2,4)]
  have "0 < mr_length md" using rf by (auto simp: region_fits_def Let_def word_less_nat_alt)
  note tr = created_walk [OF cr g(2,3) this va]
  define k where "k = first_k p w"
  have nb: "w - lsize p k = p - 3"
  proof -
    have "\<forall>p\<in>set [12,14,16]. \<forall>w\<in>set [32..<49]. (w - p) mod (p - 3) = 0 \<longrightarrow> w - lsize p (first_k p w) = p - 3"
      by code_simp
    from bspec [OF bspec [OF this granule_set [OF g(1)]] upto_cases [OF g(2,3)]] full
    show ?thesis by (simp add: k_def)
  qed
  obtain pa where walk: "walk p w (cells s') k (p - 3) (pgt_base pd') va = Some (pa, attributes md)"
    using tr by (auto simp: translate_def k_def [symmetric] nb)
  have p3: "of_nat p - 3 = (of_nat (p - 3) :: u32)" using granule_bounds [OF g(1)] by (simp add: of_nat_diff)
  note nl = num_levels_first_k [OF g, unfolded p3, folded k_def]
  note al = attributes_loop_walk [OF g walk, of x] 
  have kb: "k \<le> 3" using first_k_bounds(1) [OF g] by (simp add: k_def)
  have pd': "tcr pd' = tcr pd" "pgt_base pd' \<noteq> 0" using cr pg by (auto simp: created_def page_ok_def)
  have tsz: "64 - ucast (64 - of_nat w :: 6 word) = (of_nat w :: u32)"
  proof -
    have "\<forall>w\<in>set [32..<49]. 64 - ucast (64 - of_nat w :: 6 word) = (of_nat w :: u32)" by code_simp
    from bspec [OF this upto_cases [OF g(2,3)]] show ?thesis .
  qed
  have tg: "ucast (of_nat p :: 5 word) = (of_nat p :: u32)" using g(1) by (auto simp: granule_def)
  show ?thesis
    unfolding val_pgt_get_attributes_def pd'(1) ia(2,3) tsz tg Let_def p3 nl option.case
    using pd'(2) al [OF kb] nb nl(4) by (simp del: of_nat_diff)
qed

theorem pgt_attributes_roundtrip_witness:
  "\<exists>pd' s' s''. val_pgt_get_attributes pd' 0x80001FFF (Some 0) s' = Some (0, Some 0x740, s'')"
proof -
  have e: "mr_length end_of_regions = 0" by (simp add: end_of_regions_def)
  obtain pd' s' where c: "val_pgt_create [example_region, end_of_regions] example_pgt_desc example_pgt =
    Some (0, [example_region, end_of_regions], pd', s')" using example_created by blast
  from pgt_attributes_roundtrip [OF example_setup e _ c, of "0x80001FFF" 0] show ?thesis
    by (auto simp: example_region_def)
qed

text \<open>
  Property C7. No page is leaked or freed twice: after a successful \<open>val_pgt_create\<close>, \<open>val_pgt_destroy\<close>
  returns and the pages given back together with the pages never taken are the pages of the start.
\<close>

theorem pgt_destroy_returns_all_pages:
  assumes "pgt_setup p w pd md s" and "mr_length fin = 0"
    and "val_pgt_create [md, fin] pd s = Some (0, mds, pd', s')"
  shows "\<exists>s''. val_pgt_destroy pd' s' = Some s'' \<and>
    mset (freed_pages s'') + mset (page_supply s'') = mset (freed_pages s) + mset (page_supply s)"
proof -
  have g: "granule p" "32 \<le> w" "w \<le> 48" and ia: "ias pd = of_nat w" and rf: "region_fits p w md"
    and ps: "pal_page_size s = 2 ^ p" and pg: "\<forall>a\<in>set (page_supply s). page_ok p a" "distinct (page_supply s)"
    using assms(1) by (simp_all add: pgt_setup_def)
  define k where "k = first_k p w"
  define nb where "nb = w - lsize p k"
  let ?i = "unat (virtual_address md)" and ?t = "unat (virtual_address md) + unat (mr_length md) - 1"
  obtain base rest s4 where sup: "page_supply s = base # rest" and b: "pd' = pd\<lparr>pgt_base := base\<rparr>"
    and s4: "s4 = (zeroed base rest (s\<lparr>page_size := 2 ^ p, bits_per_level := of_nat (p - 3)\<rparr>))
               \<lparr>pgt_addr_mask := shl (shl 1 (48 - p) - 1) p\<rparr>"
    and f: "filled p k nb (attributes md) base ?i ?t (unat (physical_address md)) s4 0 s'"
    using created_success [OF assms] by (auto simp: created_def k_def nb_def)
  obtain used where u: "rest = used @ page_supply s'" "freed_pages s' = freed_pages s" "pal_page_size s' = 2 ^ p"
    "\<And>x. x \<notin> footprint p k nb base ?i ?t used \<Longrightarrow> cells s' x = cells s4 x"
    "built p (attributes md) k nb base ?i ?t (unat (physical_address md)) used (cells s')"
    using f ps by (auto simp: filled_def s4 same_statics_def)
  have rok: "region_ok p k nb ?i ?t (unat (physical_address md))"
    using region_fits_ok(1) [OF g rf] by (simp add: k_def nb_def)
  have kb: "k \<le> 3" "nb \<le> p - 3" "nb + 3 \<le> p" using first_k_bounds [OF g] granule_bounds [OF g(1)] by (simp_all add: k_def nb_def)
  have p32: "p < 32" "p < 29" using granule_bounds [OF g(1)] by simp_all
  have z: "cells s' (entry_addr base j) = 0" if "j < 2 ^ nb" "j \<notin> (\<lambda>j. j mod 2 ^ nb) ` block_range p k ?i ?t" for j
  proof -
    have "entry_addr base j \<notin> footprint p k nb base ?i ?t used"
      by (rule untouched_entry [OF _ _ _ that kb(3) p32(2)]) (use pg sup u(1) in auto)
    with u(4) have "cells s' (entry_addr base j) = cells s4 (entry_addr base j)" by simp
    then show ?thesis
      using zeroed_cells [of "s\<lparr>page_size := 2 ^ p, bits_per_level := of_nat (p - 3)\<rparr>" p base rest]
        entry_in_page [OF that(1) kb(3) p32(1), of base] p32 by (simp add: s4)
  qed
  have sum: "(\<Sum>j<2 ^ nb. entry_pages p w (cells s') k (cells s' (entry_addr base j))) = mset used"
    using table_sum [of ?i p k nb ?t "\<lambda>x. entry_pages p w (cells s') k (cells s' x)" base] rok z u(5) g(2,3)
    by (simp add: built_def region_ok_def)
  have p3: "of_nat p - 3 = (of_nat (p - 3) :: u32)" and u2p: "ucast (2 ^ p :: u32) = (2 ^ p :: u64)"
    using g(1) by (auto simp: granule_def)
  note nl = num_levels_first_k [OF g, unfolded p3, folded k_def]
  have pd': "pgt_base pd' = base" "ias pd' = of_nat w" using b ia by simp_all
  have wp: "unat (of_nat w - of_nat p :: u32) = w - p" "unat (of_nat p :: u32) = p"
    using g granule_bounds [OF g(1)] unat_of_nat_small [of "w - p"] unat_of_nat_small [of p] by (simp_all add: of_nat_diff)
  let ?s1 = "s'\<lparr>page_size := 2 ^ p, bits_per_level := of_nat (p - 3), pgt_addr_mask := shl (shl 1 (w - p) - 1) p\<rparr>"
  obtain fs where fs: "free_loop base (of_nat nb) (3 - of_nat k) (of_nat 0) ?s1 = Some (?s1\<lparr>freed_pages := fs @ freed_pages ?s1\<rparr>)"
      "mset fs = mset used"
    using free_loop_pages [OF g kb(1,2), of 0 ?s1 base] sum by (auto simp: atLeast0LessThan)
  have b0: "base \<noteq> 0" using pg sup by (auto simp: page_ok_def)
  have "val_pgt_destroy pd' s' = Some (val_memory_free_pages base (?s1\<lparr>freed_pages := fs @ freed_pages ?s1\<rparr>))"
    unfolding val_pgt_destroy_def free_translation_table_def val_memory_phys_to_virt_def val_memory_page_size_def
      u(3) u2p log2_page_size_granule [OF g(1)] p3 pd' Let_def nl nb_def [symmetric] wp
    using b0 fs(1) by (simp del: of_nat_diff)
  then show ?thesis
    using fs(2) u(1,2) sup by (auto simp: val_memory_free_pages_def)
qed

theorem pgt_destroy_returns_all_pages_witness:
  "\<exists>pd' s' s''. val_pgt_destroy pd' s' = Some s'' \<and>
     mset (freed_pages s'') + mset (page_supply s'') = {#0x1000, 0x3000, 0x2000, 0x8000, 0x9000#}"
proof -
  have e: "mr_length end_of_regions = 0" by (simp add: end_of_regions_def)
  obtain pd' s' where c: "val_pgt_create [example_region, end_of_regions] example_pgt_desc example_pgt =
    Some (0, [example_region, end_of_regions], pd', s')" using example_created by blast
  from pgt_destroy_returns_all_pages [OF example_setup e c] show ?thesis
    by (auto simp: example_pgt_def)
qed

text \<open>
  Property C9. \<open>val_pgt_create\<close> looks at the first region only: the regions behind it influence the
  tables, the descriptor and the status by nothing but their number.
\<close>

theorem pgt_create_maps_first_region_only:
  assumes "length rest = length rest'"
    and "\<forall>i<length rest. (mr_length (rest ! i) = 0) = (mr_length (rest' ! i) = 0)"
  shows "map_option (\<lambda>(r, mds, pd', s'). (r, hd mds, pd', s')) (val_pgt_create (md # rest) pd s) =
         map_option (\<lambda>(r, mds, pd', s'). (r, hd mds, pd', s')) (val_pgt_create (md # rest') pd s)"
proof -
  have "map (\<lambda>r. mr_length r = 0) (md # rest) = map (\<lambda>r. mr_length r = 0) (md # rest')"
    using assms by (auto intro: nth_equalityI)
  from create_loop_cong [OF this]
  have cl: "create_loop pd b (md # rest) n l md u = create_loop pd b (md # rest') n l md u" for b n l u .
  show ?thesis
    unfolding val_pgt_create_def Let_def list.case cl
    by (auto simp: bind_map_option option.map_comp comp_def map_option_bind simp del: create_loop.simps
        split: prod.splits intro!: Option.bind_cong)
qed

theorem pgt_create_maps_first_region_only_witness:
  "map_option (\<lambda>(r, mds, pd', s'). (r, hd mds, pd', s'))
     (val_pgt_create [example_region, crossing_region, end_of_regions] example_pgt_desc example_pgt) =
   map_option (\<lambda>(r, mds, pd', s'). (r, hd mds, pd', s'))
     (val_pgt_create [example_region, example_region, end_of_regions] example_pgt_desc example_pgt)"
proof -
  have "\<forall>i<length [crossing_region, end_of_regions].
      (mr_length ([crossing_region, end_of_regions] ! i) = 0) =
      (mr_length ([example_region, end_of_regions] ! i) = 0)"
    by (simp add: less_Suc_eq numeral_2_eq_2 crossing_region_def example_region_def)
  from pgt_create_maps_first_region_only [OF _ this] show ?thesis by simp
qed

text \<open>
  A page descriptor holds bits 31 to \<open>p\<close> of the output address only: the mask
  \<open>~(page_size - 1)\<close> is 32 bits wide, so a page above 4 GB is mapped to an address below it.
\<close>

theorem page_descriptor_keeps_32_bits:
  assumes "granule p" and "page_size s = 2 ^ p" and "attrs_ok a"
  shows "take_bit 48 (page_descriptor s output_address a) AND NOT (mask p) =
         take_bit 32 output_address AND NOT (mask p)"
proof (rule bit_word_eqI)
  have p: "12 \<le> p" "p < 32" using granule_bounds [OF assms(1)] by simp_all
  have d: "page_descriptor s output_address a = 3 OR (output_address AND page_addr_mask s) OR a"
    by (simp add: page_descriptor_def PGT_ENTRY_PAGE_MASK_def PGT_ENTRY_VALID_MASK_def or.assoc [symmetric])
  have three: "bit (3::u64) i \<longleftrightarrow> i < 2" for i by (auto simp: mask_lits bit_simps)
  fix i assume "i < LENGTH(64)"
  then show "bit (take_bit 48 (page_descriptor s output_address a) AND NOT (mask p)) i =
      bit (take_bit 32 output_address AND NOT (mask p)) i"
    using attrs_ok_bit [OF assms(3), of i] three [of i] p
    by (cases "bit a i"; cases "bit output_address i")
       (auto simp: d bit_simps page_mask_bit [OF assms(2) p(2)])
qed

theorem page_descriptor_keeps_32_bits_witness:
  "take_bit 48 (page_descriptor (example_pgt\<lparr>page_size := 0x1000\<rparr>) 0x880001000 0x740) AND NOT (mask 12) =
     0x80001000"
  using page_descriptor_keeps_32_bits [of 12 "example_pgt\<lparr>page_size := 0x1000\<rparr>" "0x740" "0x880001000"]
  by (simp add: granule_def attrs_ok_def PGT_DESC_ATTRIBUTES_MASK_def take_bit_eq_mask mask_eq_exp_minus_1)


end
