(* ===== verification/Acs_Loops.thy ===== *)
theory Acs_Loops
  imports Acs_Prelude
begin

text \<open>
  The \<open>while\<close> loops that may not end.  A loop is given by its step: \<open>Inl r\<close> leaves
  the loop with the result \<open>r\<close>, \<open>Inr s'\<close> goes on from the state \<open>s'\<close>; \<open>tail_iter\<close> runs it.  The locale
  \<open>tail_loop\<close> is the contract of such a loop.  Its laws are that the loop
  function unfolds to its step and that it is the least such function, so that \<open>None\<close> means that the
  loop never ends.  The lemmas relate the function to finite runs, give the two ways of showing
  that it ends (an invariant with a decreasing measure) or does not (a set of states that is never
  left), and the rule for partial correctness.
\<close>

partial_function (option) tail_iter :: "('s \<Rightarrow> 'r + 's) \<Rightarrow> 's \<Rightarrow> 'r option" where
  "tail_iter step s = (case step s of Inl r \<Rightarrow> Some r | Inr s' \<Rightarrow> tail_iter step s')"

declare tail_iter.simps [code]

locale tail_loop =
  fixes loop :: "'s \<Rightarrow> 'r option" and step :: "'s \<Rightarrow> 'r + 's"
  assumes unfold: "loop s = (case step s of Inl r \<Rightarrow> Some r | Inr s' \<Rightarrow> loop s')"
    and least: "(\<And>f s r. (\<And>s r. f s = Some r \<Longrightarrow> P s r) \<Longrightarrow>
                   (case step s of Inl r \<Rightarrow> Some r | Inr s' \<Rightarrow> f s') = Some r \<Longrightarrow> P s r) \<Longrightarrow>
                 loop s = Some r \<Longrightarrow> P s r"
begin

inductive run :: "'s \<Rightarrow> 'r \<Rightarrow> bool" where
  stop: "step s = Inl r \<Longrightarrow> run s r"
| go: "step s = Inr s' \<Longrightarrow> run s' r \<Longrightarrow> run s r"

lemma run_loop: "run s r \<Longrightarrow> loop s = Some r"
  by (induction rule: run.induct) (simp_all add: unfold)

lemma loop_run: "loop s = Some r \<Longrightarrow> run s r"
proof (erule least [rotated])
  fix f :: "'s \<Rightarrow> 'r option" and s r
  assume "\<And>s r. f s = Some r \<Longrightarrow> run s r"
    and "(case step s of Inl r \<Rightarrow> Some r | Inr s' \<Rightarrow> f s') = Some r"
  then show "run s r" by (auto split: sum.splits intro: run.intros)
qed

lemma loop_iff_run: "loop s = Some r \<longleftrightarrow> run s r"
  using run_loop loop_run by blast

lemma loop_inv:
  assumes "loop s = Some r" and "I s" and "\<And>s s'. I s \<Longrightarrow> step s = Inr s' \<Longrightarrow> I s'"
  shows "\<exists>t. I t \<and> step t = Inl r"
  using loop_run [OF assms(1)] assms(2)
  by (induction rule: run.induct) (use assms(3) in blast)+

lemma loop_never_ends:
  assumes "s \<in> S" and "\<And>x. x \<in> S \<Longrightarrow> \<exists>y\<in>S. step x = Inr y"
  shows "loop s = None"
proof (rule ccontr)
  assume "loop s \<noteq> None"
  then obtain r where "loop s = Some r" by blast
  from loop_inv [OF this, of "\<lambda>x. x \<in> S"] show False
    using assms by fastforce
qed

lemma loop_ends:
  fixes m :: "'s \<Rightarrow> nat"
  assumes "I s" and "\<And>s s'. I s \<Longrightarrow> step s = Inr s' \<Longrightarrow> I s' \<and> m s' < m s"
  shows "\<exists>r. loop s = Some r"
  using assms(1)
proof (induction "m s" arbitrary: s rule: less_induct)
  case less
  show ?case
  proof (cases "step s")
    case (Inl r)
    then show ?thesis by (simp add: unfold)
  next
    case (Inr s')
    with assms(2) [OF less.prems Inr] less.hyps show ?thesis by (simp add: unfold [of s])
  qed
qed

end

interpretation iter: tail_loop "tail_iter step" step for step :: "'s \<Rightarrow> 'r + 's"
proof unfold_locales
  show "tail_iter step s = (case step s of Inl r \<Rightarrow> Some r | Inr s' \<Rightarrow> tail_iter step s')" for s
    by (rule tail_iter.simps)
next
  fix P :: "'s \<Rightarrow> 'r \<Rightarrow> bool" and s r
  assume H: "\<And>f s r. (\<And>s r. f s = Some r \<Longrightarrow> P s r) \<Longrightarrow>
      (case step s of Inl r \<Rightarrow> Some r | Inr s' \<Rightarrow> f s') = Some r \<Longrightarrow> P s r"
    and "tail_iter step s = Some r"
  from this(2) have "step = step \<longrightarrow> P s r"
    by (rule tail_iter.raw_induct [where P = "\<lambda>st s r. st = step \<longrightarrow> P s r", rotated])
       (use H in blast)
  then show "P s r" by simp
qed

end
