(* ===== verification/Acs_Pcie.thy ===== *)
theory Acs_Pcie
  imports Acs_Status Acs_Loops
begin

text \<open>
  \<^verbatim>\<open>val/src/acs_pcie.c\<close>: the ECAM table, access to PCIe configuration space, capability search,
  identification of functions and the check of register bit-fields.

  The configuration space is hardware outside of the code.  It is the parameter \<open>E\<close>, a record with
  the ECAM table, the effect of a 32-bit read and of a 32-bit write on the device state \<open>'d\<close>, and
  \<open>uninit\<close>, the value that a local variable of the C code holds before it is assigned.  Output
  parameters are passed in and returned.  Arrays behind a pointer are total functions of the index,
  as the pointer arithmetic of the code.  \<open>None\<close> is a search that never ends, which happens when
  the capability list of a function is cyclic.  Console messages are left out.
\<close>

subsection \<open>Names of functions\<close>

definition PCIE_EXTRACT_BDF_SEG :: "u32 \<Rightarrow> u32" where
  "PCIE_EXTRACT_BDF_SEG bdf = shr bdf 24 AND 0xFF"

definition PCIE_EXTRACT_BDF_BUS :: "u32 \<Rightarrow> u32" where
  "PCIE_EXTRACT_BDF_BUS bdf = shr bdf 16 AND 0xFF"

definition PCIE_EXTRACT_BDF_DEV :: "u32 \<Rightarrow> u32" where
  "PCIE_EXTRACT_BDF_DEV bdf = shr bdf 8 AND 0xFF"

definition PCIE_EXTRACT_BDF_FUNC :: "u32 \<Rightarrow> u32" where
  "PCIE_EXTRACT_BDF_FUNC bdf = bdf AND 0xFF"

definition PCIE_CREATE_BDF :: "u32 \<Rightarrow> u32 \<Rightarrow> u32 \<Rightarrow> u32 \<Rightarrow> u32" where
  "PCIE_CREATE_BDF seg bus dev func =
     shl seg 24 OR shl (bus AND 0xFF) 16 OR shl (dev AND 0xFF) 8 OR func"

definition PCIE_CREATE_BDF_PACKED :: "u32 \<Rightarrow> u32" where
  "PCIE_CREATE_BDF_PACKED bdf =
     PCIE_EXTRACT_BDF_FUNC bdf OR shl (PCIE_EXTRACT_BDF_DEV bdf) 3 OR shl (PCIE_EXTRACT_BDF_BUS bdf) 8"

lemmas bdf_defs =
  PCIE_EXTRACT_BDF_SEG_def PCIE_EXTRACT_BDF_BUS_def PCIE_EXTRACT_BDF_DEV_def
  PCIE_EXTRACT_BDF_FUNC_def PCIE_CREATE_BDF_def

subsection \<open>Status values and register names of \<^verbatim>\<open>bsa_acs_pcie_spec.h\<close>\<close>

definition PCIE_SUCCESS :: u32 where "PCIE_SUCCESS = 0x0"
definition PCIE_NO_MAPPING :: u32 where "PCIE_NO_MAPPING = 0x10000001"
definition PCIE_CAP_NOT_FOUND :: u32 where "PCIE_CAP_NOT_FOUND = 0x10000010"
definition PCIE_UNKNOWN_RESPONSE :: u32 where "PCIE_UNKNOWN_RESPONSE = 0xFFFFFFFF"

lemmas pcie_status_defs =
  PCIE_SUCCESS_def PCIE_NO_MAPPING_def PCIE_CAP_NOT_FOUND_def PCIE_UNKNOWN_RESPONSE_def

abbreviation (input) TYPE01_VIDR :: u32 where "TYPE01_VIDR \<equiv> 0x0"
abbreviation (input) TYPE01_CR :: u32 where "TYPE01_CR \<equiv> 0x4"
abbreviation (input) TYPE01_RIDR :: u32 where "TYPE01_RIDR \<equiv> 0x8"
abbreviation (input) TYPE01_CLSR :: u32 where "TYPE01_CLSR \<equiv> 0xc"
abbreviation (input) TYPE01_BAR :: u32 where "TYPE01_BAR \<equiv> 0x10"
abbreviation (input) TYPE01_CPR :: u32 where "TYPE01_CPR \<equiv> 0x34"
abbreviation (input) TYPE1_PBN :: u32 where "TYPE1_PBN \<equiv> 0x18"
abbreviation (input) TYPE1_SEC_STA :: u32 where "TYPE1_SEC_STA \<equiv> 0x1C"
abbreviation (input) DCTLR_OFFSET :: u32 where "DCTLR_OFFSET \<equiv> 8"

definition RCiEP :: u32 where "RCiEP = shl 1 9"
definition RCEC :: u32 where "RCEC = shl 1 10"
definition EP :: u32 where "EP = shl 1 0"
definition RP :: u32 where "RP = shl 1 4"
definition iEP_EP :: u32 where "iEP_EP = shl 1 12"
definition iEP_RP :: u32 where "iEP_RP = shl 1 11"

lemmas port_type_defs = RCiEP_def RCEC_def EP_def RP_def iEP_EP_def iEP_RP_def

subsection \<open>The ECAM table\<close>

record PCIE_INFO_BLOCK =
  ecam_base :: u64
  segment_num :: u32
  start_bus_num :: u32
  end_bus_num :: u32

record PCIE_INFO_TABLE =
  num_entries :: u32
  block :: "u32 \<Rightarrow> PCIE_INFO_BLOCK"

datatype PCIE_INFO_e = PCIE_INFO_NUM_ECAM | PCIE_INFO_ECAM | PCIE_INFO_MCFG_ECAM
  | PCIE_INFO_START_BUS | PCIE_INFO_END_BUS | PCIE_INFO_SEGMENT

record 'd pcie_env =
  g_pcie_info_table :: "PCIE_INFO_TABLE option"
  mcfg_ecam :: u64
  cfg_ld :: "u64 \<Rightarrow> 'd \<Rightarrow> u32"
  cfg_st :: "u64 \<Rightarrow> u32 \<Rightarrow> 'd \<Rightarrow> 'd"
  uninit :: u32

definition val_pcie_get_info :: "'d pcie_env \<Rightarrow> PCIE_INFO_e \<Rightarrow> u32 \<Rightarrow> u64" where
  "val_pcie_get_info E ty index =
     (case g_pcie_info_table E of
        None \<Rightarrow> 0
      | Some t \<Rightarrow>
          if index \<ge> num_entries t then 0
          else case ty of
                 PCIE_INFO_NUM_ECAM \<Rightarrow> ucast (num_entries t)
               | PCIE_INFO_MCFG_ECAM \<Rightarrow> mcfg_ecam E
               | PCIE_INFO_ECAM \<Rightarrow> ecam_base (block t index)
               | PCIE_INFO_START_BUS \<Rightarrow> ucast (start_bus_num (block t index))
               | PCIE_INFO_END_BUS \<Rightarrow> ucast (end_bus_num (block t index))
               | PCIE_INFO_SEGMENT \<Rightarrow> ucast (segment_num (block t index)))"

text \<open>\<open>i = 0; while (i < val_pcie_get_info(PCIE_INFO_NUM_ECAM, 0))\<close> as the list of its indices.\<close>

definition ecam_indices :: "'d pcie_env \<Rightarrow> u32 list" where
  "ecam_indices E = map of_nat [0..<unat (val_pcie_get_info E PCIE_INFO_NUM_ECAM 0)]"

fun ecam_loop :: "'d pcie_env \<Rightarrow> u32 \<Rightarrow> u32 \<Rightarrow> u32 list \<Rightarrow> u64" where
  "ecam_loop E bus segment [] = 0"
| "ecam_loop E bus segment (i # is) =
     (if ucast bus \<ge> val_pcie_get_info E PCIE_INFO_START_BUS i \<and>
         ucast bus \<le> val_pcie_get_info E PCIE_INFO_END_BUS i \<and>
         ucast segment = val_pcie_get_info E PCIE_INFO_SEGMENT i
      then val_pcie_get_info E PCIE_INFO_ECAM i
      else ecam_loop E bus segment is)"

definition cfg_addr :: "u32 \<Rightarrow> u32 \<Rightarrow> u32 \<Rightarrow> u32" where
  "cfg_addr bus dev func = bus * 32 * 8 * 4096 + dev * 8 * 4096 + func * 4096"

text \<open>
  The part that the three access functions share: the address of the configuration space of a
  function, 0 when the name is invalid, the table missing or no ECAM matches.
\<close>

definition val_pcie_get_bdf_config_addr :: "'d pcie_env \<Rightarrow> u32 \<Rightarrow> u64" where
  "val_pcie_get_bdf_config_addr E bdf =
     (let bus = PCIE_EXTRACT_BDF_BUS bdf; dev = PCIE_EXTRACT_BDF_DEV bdf;
          func = PCIE_EXTRACT_BDF_FUNC bdf; segment = PCIE_EXTRACT_BDF_SEG bdf
      in if bus \<ge> 256 \<or> dev \<ge> 32 \<or> func \<ge> 8 then 0
         else if g_pcie_info_table E = None then 0
         else let base = ecam_loop E bus segment (ecam_indices E)
              in if base = 0 then 0 else base + ucast (cfg_addr bus dev func))"

text \<open>\<open>pal_mmio_read\<close> clears the low two bits of the address, \<open>pal_mmio_write\<close> does not.\<close>

definition pal_mmio_read :: "'d pcie_env \<Rightarrow> u64 \<Rightarrow> 'd \<Rightarrow> u32" where
  "pal_mmio_read E addr d = cfg_ld E (if addr AND 0x3 \<noteq> 0 then addr AND NOT 0x3 else addr) d"

definition pal_mmio_write :: "'d pcie_env \<Rightarrow> u64 \<Rightarrow> u32 \<Rightarrow> 'd \<Rightarrow> 'd" where
  "pal_mmio_write E addr data d = cfg_st E addr data d"

definition val_pcie_read_cfg :: "'d pcie_env \<Rightarrow> 'd \<Rightarrow> u32 \<Rightarrow> u32 \<Rightarrow> u32 \<Rightarrow> u32 \<times> u32" where
  "val_pcie_read_cfg E d bdf offset data =
     (let bus = PCIE_EXTRACT_BDF_BUS bdf; dev = PCIE_EXTRACT_BDF_DEV bdf;
          func = PCIE_EXTRACT_BDF_FUNC bdf; segment = PCIE_EXTRACT_BDF_SEG bdf
      in if bus \<ge> 256 \<or> dev \<ge> 32 \<or> func \<ge> 8 then (PCIE_NO_MAPPING, data)
         else if g_pcie_info_table E = None then (PCIE_NO_MAPPING, data)
         else let base = ecam_loop E bus segment (ecam_indices E)
              in if base = 0 then (PCIE_NO_MAPPING, data)
                 else (0, pal_mmio_read E (base + ucast (cfg_addr bus dev func) + ucast offset) d))"

definition val_pcie_write_cfg :: "'d pcie_env \<Rightarrow> u32 \<Rightarrow> u32 \<Rightarrow> u32 \<Rightarrow> 'd \<Rightarrow> 'd" where
  "val_pcie_write_cfg E bdf offset data d =
     (let bus = PCIE_EXTRACT_BDF_BUS bdf; dev = PCIE_EXTRACT_BDF_DEV bdf;
          func = PCIE_EXTRACT_BDF_FUNC bdf; segment = PCIE_EXTRACT_BDF_SEG bdf
      in if bus \<ge> 256 \<or> dev \<ge> 32 \<or> func \<ge> 8 then d
         else if g_pcie_info_table E = None then d
         else let base = ecam_loop E bus segment (ecam_indices E)
              in if base = 0 then d
                 else pal_mmio_write E (base + ucast (cfg_addr bus dev func) + ucast offset) data d)"

text \<open>The value that a local variable holds after \<open>val_pcie_read_cfg(bdf, offset, &v)\<close>.\<close>

definition rd_cfg :: "'d pcie_env \<Rightarrow> 'd \<Rightarrow> u32 \<Rightarrow> u32 \<Rightarrow> u32" where
  "rd_cfg E d bdf offset = snd (val_pcie_read_cfg E d bdf offset (uninit E))"

subsection \<open>Capability search\<close>

datatype BITFIELD_REGISTER_TYPE = HEADER | PCIE_CAP | PCIE_ECAP

text \<open>
  One round of the \<open>while (next_cap_offset)\<close> loops; the state is \<open>(next_cap_offset, reg_value)\<close>.  The
  two loops differ in the masks and in the shift of the fields of a capability header.
\<close>

definition cap_step :: "'d pcie_env \<Rightarrow> 'd \<Rightarrow> u32 \<Rightarrow> u32 \<Rightarrow> u32 \<Rightarrow> nat \<Rightarrow> u32 \<Rightarrow> u32
    \<Rightarrow> u32 \<times> u32 \<Rightarrow> (u32 \<times> u32) + (u32 \<times> u32)" where
  "cap_step E d bdf cid idmask nshift nmask cid_offset = (\<lambda>(next_cap_offset, reg_value).
     if next_cap_offset \<noteq> 0
     then let v = snd (val_pcie_read_cfg E d bdf next_cap_offset reg_value)
          in if v AND idmask = cid then Inl (PCIE_SUCCESS, next_cap_offset)
             else Inr (shr v nshift AND nmask, v)
     else Inl (PCIE_CAP_NOT_FOUND, cid_offset))"

definition cap_loop :: "'d pcie_env \<Rightarrow> 'd \<Rightarrow> u32 \<Rightarrow> u32 \<Rightarrow> u32 \<Rightarrow> nat \<Rightarrow> u32 \<Rightarrow> u32
    \<Rightarrow> u32 \<Rightarrow> u32 \<Rightarrow> (u32 \<times> u32) option" where
  "cap_loop E d bdf cid idmask nshift nmask cid_offset next_cap_offset reg_value =
     tail_iter (cap_step E d bdf cid idmask nshift nmask cid_offset) (next_cap_offset, reg_value)"

definition val_pcie_find_capability :: "'d pcie_env \<Rightarrow> 'd \<Rightarrow> u32 \<Rightarrow> BITFIELD_REGISTER_TYPE \<Rightarrow> u32 \<Rightarrow> u32
    \<Rightarrow> (u32 \<times> u32) option" where
  "val_pcie_find_capability E d bdf cid_type cid cid_offset =
     (case cid_type of
        PCIE_CAP \<Rightarrow>
          let (ret, reg_value) = val_pcie_read_cfg E d bdf TYPE01_CPR (uninit E)
          in if ret = PCIE_NO_MAPPING \<or> reg_value = PCIE_UNKNOWN_RESPONSE then Some (ret, cid_offset)
             else cap_loop E d bdf cid 0xff 8 0xff cid_offset (reg_value AND 0xff) reg_value
      | PCIE_ECAP \<Rightarrow> cap_loop E d bdf cid 0xffff 20 0xfff cid_offset 0x100 (uninit E)
      | HEADER \<Rightarrow> Some (PCIE_CAP_NOT_FOUND, cid_offset))"

text \<open>The offset of the PCI Express capability, in a local variable that starts uninitialised.\<close>

definition pciecs_base :: "'d pcie_env \<Rightarrow> 'd \<Rightarrow> u32 \<Rightarrow> u32 option" where
  "pciecs_base E d bdf = map_option snd (val_pcie_find_capability E d bdf PCIE_CAP 0x10 (uninit E))"

subsection \<open>Identification of functions\<close>

definition val_pcie_is_onchip_peripheral :: "u32 \<Rightarrow> u32" where
  "val_pcie_is_onchip_peripheral bdf = 0"

definition val_pcie_device_port_type :: "'d pcie_env \<Rightarrow> 'd \<Rightarrow> u32 \<Rightarrow> u32 option" where
  "val_pcie_device_port_type E d bdf = do {
     base \<leftarrow> pciecs_base E d bdf;
     let (status, reg_value) = val_pcie_read_cfg E d bdf (base + 0) (uninit E);
     if status \<noteq> 0 then Some PCIE_UNKNOWN_RESPONSE
     else
       let dp_type = shl 1 (unat (shr reg_value ((2 - 0) * 8 + 4) AND 0xf))
       in Some (if val_pcie_is_onchip_peripheral bdf \<noteq> 0
                then (if dp_type = EP then iEP_EP else if dp_type = RP then iEP_RP else dp_type)
                else dp_type) }"

definition val_pcie_function_header_type :: "'d pcie_env \<Rightarrow> 'd \<Rightarrow> u32 \<Rightarrow> u32" where
  "val_pcie_function_header_type E d bdf = shr (shr (rd_cfg E d bdf TYPE01_CLSR) 16 AND 0xff) 0 AND 0x7f"

definition val_pcie_multifunction_support :: "'d pcie_env \<Rightarrow> 'd \<Rightarrow> u32 \<Rightarrow> u32" where
  "val_pcie_multifunction_support E d bdf =
     (if shr (shr (rd_cfg E d bdf TYPE01_CLSR) 16 AND 0xff) 7 AND 0x1 \<noteq> 0 then 0 else 1)"

definition val_pcie_is_host_bridge :: "'d pcie_env \<Rightarrow> 'd \<Rightarrow> u32 \<Rightarrow> bool" where
  "val_pcie_is_host_bridge E d bdf \<longleftrightarrow>
     (let reg_value = rd_cfg E d bdf TYPE01_RIDR
      in shr reg_value 24 AND 0xFF = 0x06 \<and> shr reg_value 16 AND 0xFF = 0x00)"

definition sec_bus_of :: "u32 \<Rightarrow> u32" where "sec_bus_of reg_value = shr reg_value 8 AND 0xff"
definition sub_bus_of :: "u32 \<Rightarrow> u32" where "sub_bus_of reg_value = shr reg_value 16 AND 0xff"

fun ecam_base_loop :: "'d pcie_env \<Rightarrow> 'd \<Rightarrow> u32 \<Rightarrow> u16 \<Rightarrow> u32 list \<Rightarrow> u64 option" where
  "ecam_base_loop E d bdf seg_num [] = None"
| "ecam_base_loop E d bdf seg_num (i # is) =
     (if ucast seg_num = val_pcie_get_info E PCIE_INFO_SEGMENT i \<and>
         (val_pcie_function_header_type E d bdf = 0 \<or>
          (let reg_value = rd_cfg E d bdf TYPE1_PBN
           in ucast (sec_bus_of reg_value) \<ge> val_pcie_get_info E PCIE_INFO_START_BUS i \<and>
              ucast (sub_bus_of reg_value) \<le> val_pcie_get_info E PCIE_INFO_END_BUS i))
      then Some (val_pcie_get_info E PCIE_INFO_ECAM i)
      else ecam_base_loop E d bdf seg_num is)"

text \<open>
  \<open>ecam_index\<close> of \<open>val_pcie_get_ecam_base\<close> is 8 bits wide, so the loop over a table of 256 or more
  ECAM regions without a match never ends; this is the result \<open>None\<close>.
\<close>

definition val_pcie_get_ecam_base :: "'d pcie_env \<Rightarrow> 'd \<Rightarrow> u32 \<Rightarrow> u64 option" where
  "val_pcie_get_ecam_base E d bdf =
     (let n = unat (val_pcie_get_info E PCIE_INFO_NUM_ECAM 0)
      in case ecam_base_loop E d bdf (ucast (PCIE_EXTRACT_BDF_SEG bdf)) (map of_nat [0..<min n 256]) of
           Some b \<Rightarrow> Some b
         | None \<Rightarrow> if n > 255 then None else Some 0)"

subsection \<open>The next function in order\<close>

definition val_pcie_increment_busdev :: "u32 \<Rightarrow> u32" where
  "val_pcie_increment_busdev start_bdf =
     (let seg = PCIE_EXTRACT_BDF_SEG start_bdf; bus = PCIE_EXTRACT_BDF_BUS start_bdf;
          dev = PCIE_EXTRACT_BDF_DEV start_bdf
      in if dev \<noteq> 32 then PCIE_CREATE_BDF seg bus (dev + 1) 0 else PCIE_CREATE_BDF seg (bus + 1) 0 0)"

text \<open>\<open>while (ecam_cnt--)\<close>: the last ECAM region with this segment, searched downwards.\<close>

fun last_ecam :: "'d pcie_env \<Rightarrow> u32 \<Rightarrow> nat \<Rightarrow> u32 option" where
  "last_ecam E seg 0 = None"
| "last_ecam E seg (Suc n) =
     (if ucast seg = val_pcie_get_info E PCIE_INFO_SEGMENT (of_nat n) then Some (of_nat n)
      else last_ecam E seg n)"

definition val_pcie_increment_bdf :: "'d pcie_env \<Rightarrow> u32 \<Rightarrow> u32" where
  "val_pcie_increment_bdf E bdf =
     (let seg = PCIE_EXTRACT_BDF_SEG bdf; bus = PCIE_EXTRACT_BDF_BUS bdf;
          dev = PCIE_EXTRACT_BDF_DEV bdf; func = PCIE_EXTRACT_BDF_FUNC bdf
      in case last_ecam E seg (unat (val_pcie_get_info E PCIE_INFO_NUM_ECAM 0)) of
           None \<Rightarrow> 0
         | Some ecam_index \<Rightarrow>
             if func < 8 - 1 then PCIE_CREATE_BDF seg bus dev (func + 1)
             else if dev < 32 - 1 then PCIE_CREATE_BDF seg bus (dev + 1) 0
             else if ucast bus < val_pcie_get_info E PCIE_INFO_END_BUS ecam_index
             then PCIE_CREATE_BDF seg (bus + 1) 0 0
             else if ucast (ecam_index + 1) < val_pcie_get_info E PCIE_INFO_NUM_ECAM 0
             then PCIE_CREATE_BDF (ucast (val_pcie_get_info E PCIE_INFO_SEGMENT (ecam_index + 1)))
                    (ucast (val_pcie_get_info E PCIE_INFO_START_BUS (ecam_index + 1))) 0 0
             else 0)"

subsection \<open>Command and status registers\<close>

definition val_pcie_disable_bme :: "'d pcie_env \<Rightarrow> u32 \<Rightarrow> 'd \<Rightarrow> 'd" where
  "val_pcie_disable_bme E bdf d =
     val_pcie_write_cfg E bdf TYPE01_CR (rd_cfg E d bdf TYPE01_CR AND NOT (shl 1 2)) d"

definition val_pcie_enable_bme :: "'d pcie_env \<Rightarrow> u32 \<Rightarrow> 'd \<Rightarrow> 'd" where
  "val_pcie_enable_bme E bdf d =
     val_pcie_write_cfg E bdf TYPE01_CR (rd_cfg E d bdf TYPE01_CR OR shl 1 2) d"

definition val_pcie_disable_msa :: "'d pcie_env \<Rightarrow> u32 \<Rightarrow> 'd \<Rightarrow> 'd" where
  "val_pcie_disable_msa E bdf d =
     val_pcie_write_cfg E bdf TYPE01_CR (rd_cfg E d bdf TYPE01_CR AND NOT (shl 1 1)) d"

definition val_pcie_enable_msa :: "'d pcie_env \<Rightarrow> u32 \<Rightarrow> 'd \<Rightarrow> 'd" where
  "val_pcie_enable_msa E bdf d =
     val_pcie_write_cfg E bdf TYPE01_CR (rd_cfg E d bdf TYPE01_CR OR shl 1 1) d"

definition val_pcie_clear_urd :: "'d pcie_env \<Rightarrow> u32 \<Rightarrow> 'd \<Rightarrow> 'd option" where
  "val_pcie_clear_urd E bdf d = do {
     base \<leftarrow> pciecs_base E d bdf;
     Some (val_pcie_write_cfg E bdf (base + DCTLR_OFFSET) (shl 1 (16 + 3)) d) }"

definition val_pcie_is_urd :: "'d pcie_env \<Rightarrow> 'd \<Rightarrow> u32 \<Rightarrow> u32 option" where
  "val_pcie_is_urd E d bdf = do {
     base \<leftarrow> pciecs_base E d bdf;
     let reg_value = shr (rd_cfg E d bdf (base + DCTLR_OFFSET)) 16 AND 0xffff;
     Some (if shr reg_value 3 AND 0x1 \<noteq> 0 then 1 else 0) }"

definition val_pcie_clear_device_status_error :: "'d pcie_env \<Rightarrow> u32 \<Rightarrow> 'd \<Rightarrow> 'd option" where
  "val_pcie_clear_device_status_error E bdf d = do {
     base \<leftarrow> pciecs_base E d bdf;
     let reg_value = rd_cfg E d bdf (base + DCTLR_OFFSET) OR shl 0xF 16;
     Some (val_pcie_write_cfg E bdf (base + DCTLR_OFFSET) reg_value d) }"

definition val_pcie_is_device_status_error :: "'d pcie_env \<Rightarrow> 'd \<Rightarrow> u32 \<Rightarrow> u32 option" where
  "val_pcie_is_device_status_error E d bdf = do {
     base \<leftarrow> pciecs_base E d bdf;
     Some (if rd_cfg E d bdf (base + DCTLR_OFFSET) AND shl 0xF 16 \<noteq> 0 then 1 else 0) }"

definition val_pcie_clear_sig_target_abort :: "'d pcie_env \<Rightarrow> u32 \<Rightarrow> 'd \<Rightarrow> 'd" where
  "val_pcie_clear_sig_target_abort E bdf d =
     (let d1 = val_pcie_write_cfg E bdf TYPE01_CR (rd_cfg E d bdf TYPE01_CR OR shl 1 27) d
      in val_pcie_write_cfg E bdf TYPE1_SEC_STA (rd_cfg E d1 bdf TYPE1_SEC_STA OR shl 1 27) d1)"

definition val_pcie_is_sig_target_abort :: "'d pcie_env \<Rightarrow> 'd \<Rightarrow> u32 \<Rightarrow> u32" where
  "val_pcie_is_sig_target_abort E d bdf =
     (if shr (rd_cfg E d bdf TYPE01_CR) 27 AND 0x1 \<noteq> 0 \<or>
         shr (rd_cfg E d bdf TYPE1_SEC_STA) 27 AND 0x1 \<noteq> 0 then 1 else 0)"

text \<open>
  \<open>reg_value\<close> of \<open>val_pcie_disable_eru\<close> is not reset between its two reads, so a read that fails
  leaves the previous value in it.
\<close>

definition val_pcie_disable_eru :: "'d pcie_env \<Rightarrow> u32 \<Rightarrow> 'd \<Rightarrow> 'd option" where
  "val_pcie_disable_eru E bdf d =
     (let reg_value = rd_cfg E d bdf TYPE01_CR;
          d1 = val_pcie_write_cfg E bdf TYPE01_CR (reg_value AND NOT (shl 1 8)) d
      in do {
        base \<leftarrow> pciecs_base E d1 bdf;
        let reg_value2 = snd (val_pcie_read_cfg E d1 bdf (base + DCTLR_OFFSET) reg_value);
        let dis_mask = NOT (shl 1 0 OR shl 1 1 OR shl 1 2 OR shl 1 3);
        Some (val_pcie_write_cfg E bdf (base + DCTLR_OFFSET) (reg_value2 AND dis_mask) d1) })"

definition val_pcie_link_cap_support :: "'d pcie_env \<Rightarrow> 'd \<Rightarrow> u32 \<Rightarrow> u32 option" where
  "val_pcie_link_cap_support E d bdf = do {
     base \<leftarrow> pciecs_base E d bdf;
     let reg = (\<lambda>off. snd (val_pcie_read_cfg E d bdf (base + off) 0xFFFFFFFF));
     Some (if reg 0xC \<noteq> 0 then 1 else if reg 0x10 \<noteq> 0 then 1
           else if reg 0x2C \<noteq> 0 then 1 else if reg 0x30 \<noteq> 0 then 1 else 0) }"

subsection \<open>Base address registers\<close>

text \<open>
  The loop of \<open>val_pcie_get_mmio_bar\<close>; the result is \<open>(base_ptr[0], base_ptr[1])\<close>, whose old
  contents are \<open>b0\<close> and \<open>b1\<close>, and \<open>lo\<close> is \<open>bar_low32bits\<close>.
\<close>

function mmio_bar_loop :: "'d pcie_env \<Rightarrow> 'd \<Rightarrow> u32 \<Rightarrow> u32 \<Rightarrow> u32 \<times> u32 \<Rightarrow> u32 \<Rightarrow> u32 \<times> u32" where
  "mmio_bar_loop E d bdf index b lo =
     (if index < 6
      then let bar_low = snd (val_pcie_read_cfg E d bdf (TYPE01_BAR + index * 4) lo)
           in if shr bar_low 0 AND 0x1 = 0
              then (shl (shr bar_low 4 AND 0xfffffff) 4,
                    if shr bar_low 1 AND 0x3 = 2
                    then snd (val_pcie_read_cfg E d bdf (TYPE01_BAR + (index + 1) * 4) (uninit E))
                    else if shr bar_low 1 AND 0x3 = 0 then 0 else snd b)
              else if val_pcie_function_header_type E d bdf = 1 \<and> index + 1 = 2 then (0, 0)
              else mmio_bar_loop E d bdf (index + 1) b bar_low
      else (0, 0))"
  by pat_completeness auto
termination
proof (relation "measure (\<lambda>(E, d, bdf, index, b, lo). 6 - unat index)")
qed (auto simp: word_less_nat_alt unat_word_ariths)

declare mmio_bar_loop.simps [simp del]

definition val_pcie_get_mmio_bar :: "'d pcie_env \<Rightarrow> 'd \<Rightarrow> u32 \<Rightarrow> u32 \<times> u32 \<Rightarrow> u32 \<times> u32" where
  "val_pcie_get_mmio_bar E d bdf base = mmio_bar_loop E d bdf 0 base (uninit E)"

end
