(* ===== verification/Acs_Pcie_Table.thy ===== *)
theory Acs_Pcie_Table
  imports Acs_Pcie
begin

text \<open>
  The table of PCIe functions and what is computed from it (\<^verbatim>\<open>val/src/acs_pcie.c\<close>), the check of
  register bit-fields, and the bus enumeration of \<^verbatim>\<open>val/sys_arch_src/pcie/pcie.c\<close>.

  The nested loops over ECAM regions, buses, devices and functions become recursive functions on the
  list of their indices; a pair \<open>(True, t)\<close> as a result is the early \<open>return 1\<close>.
\<close>

subsection \<open>The table\<close>

record pcie_device_attr =
  attr_bdf :: u32
  attr_rp_bdf :: u32

record pcie_device_bdf_table =
  bdf_num_entries :: u32
  device :: "u32 \<Rightarrow> pcie_device_attr"

definition table_indices :: "pcie_device_bdf_table \<Rightarrow> u32 list" where
  "table_indices t = map of_nat [0..<unat (bdf_num_entries t)]"

text \<open>The functions recorded in the table, in order.\<close>

definition table_bdfs :: "pcie_device_bdf_table \<Rightarrow> u32 list" where
  "table_bdfs t = map (\<lambda>i. attr_bdf (device t i)) (table_indices t)"

definition add_bdf :: "u32 \<Rightarrow> pcie_device_bdf_table \<Rightarrow> pcie_device_bdf_table" where
  "add_bdf b t =
     t\<lparr>device := (device t)(bdf_num_entries t := (device t (bdf_num_entries t))\<lparr>attr_bdf := b\<rparr>),
       bdf_num_entries := bdf_num_entries t + 1\<rparr>"

definition set_rp :: "u32 \<Rightarrow> u32 \<Rightarrow> pcie_device_bdf_table \<Rightarrow> pcie_device_bdf_table" where
  "set_rp i rp t = t\<lparr>device := (device t)(i := (device t i)\<lparr>attr_rp_bdf := rp\<rparr>)\<rparr>"

subsection \<open>Relations between functions\<close>

fun downstream_loop :: "'d pcie_env \<Rightarrow> 'd \<Rightarrow> u32 \<Rightarrow> u32 \<Rightarrow> u32 \<Rightarrow> u32 list \<Rightarrow> u32 \<Rightarrow> u32 option
    \<Rightarrow> u32 \<times> u32" where
  "downstream_loop E d seg sec_bus sub_bus [] dsf type1 =
     (case type1 of Some b \<Rightarrow> (0, b) | None \<Rightarrow> (1, dsf))"
| "downstream_loop E d seg sec_bus sub_bus (b # bs) dsf type1 =
     (if PCIE_EXTRACT_BDF_BUS b \<ge> sec_bus \<and> PCIE_EXTRACT_BDF_BUS b \<le> sub_bus \<and> PCIE_EXTRACT_BDF_SEG b = seg
      then if val_pcie_function_header_type E d b = 0 then (0, b)
           else downstream_loop E d seg sec_bus sub_bus bs b (case type1 of Some x \<Rightarrow> Some x | None \<Rightarrow> Some b)
      else downstream_loop E d seg sec_bus sub_bus bs dsf type1)"

definition val_pcie_get_downstream_function :: "'d pcie_env \<Rightarrow> 'd \<Rightarrow> pcie_device_bdf_table \<Rightarrow> u32
    \<Rightarrow> u32 \<times> u32" where
  "val_pcie_get_downstream_function E d t bdf =
     (let reg_value = rd_cfg E d bdf TYPE1_PBN
      in downstream_loop E d (PCIE_EXTRACT_BDF_SEG bdf) (sec_bus_of reg_value) (sub_bus_of reg_value)
           (table_bdfs t) 0 None)"

text \<open>
  The search of \<open>val_pcie_get_rootport\<close>.  The condition on the type of the port contains the
  assignment \<open>dp_type = iEP_RP\<close>, whose value is not zero.
\<close>

fun rootport_loop :: "'d pcie_env \<Rightarrow> 'd \<Rightarrow> u32 \<Rightarrow> u32 list \<Rightarrow> u32 \<Rightarrow> (u32 \<times> u32) option" where
  "rootport_loop E d bdf [] reg_value = Some (1, 0)"
| "rootport_loop E d bdf (rp # rps) reg_value =
     (let v = snd (val_pcie_read_cfg E d rp TYPE1_PBN reg_value)
      in do {
        dp_type \<leftarrow> val_pcie_device_port_type E d rp;
        if (dp_type = RP \<or> iEP_RP \<noteq> 0) \<and>
           sec_bus_of v \<le> PCIE_EXTRACT_BDF_BUS bdf \<and> sub_bus_of v \<ge> PCIE_EXTRACT_BDF_BUS bdf
        then Some (0, rp)
        else rootport_loop E d bdf rps v })"

definition val_pcie_get_rootport :: "'d pcie_env \<Rightarrow> 'd \<Rightarrow> pcie_device_bdf_table \<Rightarrow> u32
    \<Rightarrow> (u32 \<times> u32) option" where
  "val_pcie_get_rootport E d t bdf = do {
     dp_type \<leftarrow> val_pcie_device_port_type E d bdf;
     if dp_type = RP then Some (0, bdf)
     else if dp_type = RCiEP \<or> dp_type = RCEC then Some (1, 0xffffffff)
     else rootport_loop E d bdf (table_bdfs t) (uninit E) }"

fun parent_loop :: "'d pcie_env \<Rightarrow> 'd \<Rightarrow> u8 \<Rightarrow> u32 \<Rightarrow> u32 list \<Rightarrow> u32 \<Rightarrow> (u8 \<times> u32) option" where
  "parent_loop E d dsf_bus rp_bdf [] reg_value = Some (1, rp_bdf)"
| "parent_loop E d dsf_bus rp_bdf (b # bs) reg_value = do {
     dp_type \<leftarrow> val_pcie_device_port_type E d b;
     if dp_type = RP
     then let v = snd (val_pcie_read_cfg E d b TYPE1_PBN reg_value)
          in if ucast dsf_bus = sec_bus_of v \<and> ucast dsf_bus \<le> sub_bus_of v then Some (0, b)
             else parent_loop E d dsf_bus rp_bdf bs v
     else parent_loop E d dsf_bus rp_bdf bs reg_value }"

definition val_pcie_parent_is_rootport :: "'d pcie_env \<Rightarrow> 'd \<Rightarrow> pcie_device_bdf_table \<Rightarrow> u32 \<Rightarrow> u32
    \<Rightarrow> (u8 \<times> u32) option" where
  "val_pcie_parent_is_rootport E d t dsf_bdf rp_bdf =
     parent_loop E d (ucast (PCIE_EXTRACT_BDF_BUS dsf_bdf)) rp_bdf (table_bdfs t) (uninit E)"

subsection \<open>Building the table\<close>

fun populate_loop :: "'d pcie_env \<Rightarrow> 'd \<Rightarrow> u32 list \<Rightarrow> pcie_device_bdf_table
    \<Rightarrow> (bool \<times> pcie_device_bdf_table) option" where
  "populate_loop E d [] t = Some (False, t)"
| "populate_loop E d (i # is) t = do {
     (status, rp) \<leftarrow> val_pcie_get_rootport E d t (attr_bdf (device t i));
     if status \<noteq> 0 \<and> rp = 0 then Some (True, t)
     else populate_loop E d is (set_rp i rp t) }"

definition val_pcie_populate_device_rootport :: "'d pcie_env \<Rightarrow> 'd \<Rightarrow> pcie_device_bdf_table
    \<Rightarrow> (bool \<times> pcie_device_bdf_table) option" where
  "val_pcie_populate_device_rootport E d t = populate_loop E d (table_indices t) t"

fun probe_funcs :: "'d pcie_env \<Rightarrow> 'd \<Rightarrow> u32 \<Rightarrow> u32 \<Rightarrow> u32 \<Rightarrow> u32 list \<Rightarrow> pcie_device_bdf_table
    \<Rightarrow> (bool \<times> pcie_device_bdf_table) option" where
  "probe_funcs E d seg bus dev [] t = Some (False, t)"
| "probe_funcs E d seg bus dev (func # fs) t =
     (let bdf = PCIE_CREATE_BDF seg bus dev func;
          (status, reg_value) = val_pcie_read_cfg E d bdf TYPE01_VIDR (uninit E)
      in if status = PCIE_NO_MAPPING then Some (True, t)
         else if reg_value \<noteq> PCIE_UNKNOWN_RESPONSE
         then if val_pcie_is_host_bridge E d bdf then probe_funcs E d seg bus dev fs t
              else do {
                (p_cap, _) \<leftarrow> val_pcie_find_capability E d bdf PCIE_CAP 0x10 (uninit E);
                if p_cap \<noteq> PCIE_SUCCESS then probe_funcs E d seg bus dev fs t
                else probe_funcs E d seg bus dev fs (add_bdf bdf t) }
         else if func = 0 then Some (False, t)
         else probe_funcs E d seg bus dev fs t)"

fun probe_devs :: "'d pcie_env \<Rightarrow> 'd \<Rightarrow> u32 \<Rightarrow> u32 \<Rightarrow> u32 list \<Rightarrow> pcie_device_bdf_table
    \<Rightarrow> (bool \<times> pcie_device_bdf_table) option" where
  "probe_devs E d seg bus [] t = Some (False, t)"
| "probe_devs E d seg bus (dev # ds) t = do {
     (err, t1) \<leftarrow> probe_funcs E d seg bus dev (map of_nat [0..<8]) t;
     if err then Some (True, t1) else probe_devs E d seg bus ds t1 }"

fun probe_buses :: "'d pcie_env \<Rightarrow> 'd \<Rightarrow> u32 \<Rightarrow> u32 list \<Rightarrow> pcie_device_bdf_table
    \<Rightarrow> (bool \<times> pcie_device_bdf_table) option" where
  "probe_buses E d seg [] t = Some (False, t)"
| "probe_buses E d seg (bus # bs) t = do {
     (err, t1) \<leftarrow> probe_devs E d seg bus (map of_nat [0..<32]) t;
     if err then Some (True, t1) else probe_buses E d seg bs t1 }"

text \<open>The buses of an ECAM region; \<open>start_bus\<close> and \<open>end_bus\<close> are 32-bit locals.\<close>

definition ecam_buses :: "'d pcie_env \<Rightarrow> u32 \<Rightarrow> u32 list" where
  "ecam_buses E i =
     map of_nat [unat (ucast (val_pcie_get_info E PCIE_INFO_START_BUS i) :: u32) ..<
                 Suc (unat (ucast (val_pcie_get_info E PCIE_INFO_END_BUS i) :: u32))]"

fun probe_ecams :: "'d pcie_env \<Rightarrow> 'd \<Rightarrow> u32 list \<Rightarrow> pcie_device_bdf_table
    \<Rightarrow> (bool \<times> pcie_device_bdf_table) option" where
  "probe_ecams E d [] t = Some (False, t)"
| "probe_ecams E d (i # is) t = do {
     (err, t1) \<leftarrow> probe_buses E d (ucast (val_pcie_get_info E PCIE_INFO_SEGMENT i)) (ecam_buses E i) t;
     if err then Some (True, t1) else probe_ecams E d is t1 }"

text \<open>
  \<open>g\<close> is \<open>g_pcie_bdf_table\<close> and \<open>mem\<close> the memory that \<open>pal_mem_alloc\<close> returns, \<open>None\<close> for \<open>NULL\<close>.
\<close>

definition val_pcie_create_device_bdf_table :: "'d pcie_env \<Rightarrow> 'd \<Rightarrow> pcie_device_bdf_table option
    \<Rightarrow> pcie_device_bdf_table option \<Rightarrow> (u32 \<times> pcie_device_bdf_table option) option" where
  "val_pcie_create_device_bdf_table E d mem g =
     (case g of
        Some t \<Rightarrow> Some (PCIE_SUCCESS, g)
      | None \<Rightarrow>
          (case mem of
             None \<Rightarrow> Some (1, None)
           | Some m \<Rightarrow>
               let t0 = m\<lparr>bdf_num_entries := 0\<rparr>
               in if (ucast (val_pcie_get_info E PCIE_INFO_NUM_ECAM 0) :: u32) = 0 then Some (1, Some t0)
                  else do {
                    (err, t1) \<leftarrow> probe_ecams E d (ecam_indices E) t0;
                    if err then Some (1, Some t1)
                    else do {
                      (fail, t2) \<leftarrow> val_pcie_populate_device_rootport E d t1;
                      Some (if fail then (1, Some (t2\<lparr>bdf_num_entries := 0\<rparr>)) else (0, Some t2)) } }))"

subsection \<open>Bit-fields of configuration registers\<close>

datatype BITFIELD_ATTR_TYPE = HW_INIT | READ_ONLY | STICKY_RO | RSVDP_RO | RSVDZ_RO | READ_WRITE | STICKY_RW

record pcie_cfgreg_bitfield_entry =
  reg_type :: BITFIELD_REGISTER_TYPE
  cap_id :: u16
  ecap_id :: u16
  reg_offset :: u16
  dev_port_bitmask :: u16
  bf_start :: u8
  bf_end :: u8
  cfg_value :: u32
  bf_attr :: BITFIELD_ATTR_TYPE
  err_str1 :: string
  err_str2 :: string

definition REG_MASK :: "u8 \<Rightarrow> u8 \<Rightarrow> u32" where
  "REG_MASK e st = shr (shl (NOT 0) (unat st) AND (shl 1 (unat e + 1) - 1)) (unat st)"

definition REG_SHIFT :: "u32 \<Rightarrow> u8 \<Rightarrow> nat" where
  "REG_SHIFT alignment_byte_cnt st = unat alignment_byte_cnt * 8 + unat st"

text \<open>\<open>!val_strncmp(s, "WARNING", 7)\<close>.\<close>

definition is_warning :: "string \<Rightarrow> bool" where
  "is_warning s \<longleftrightarrow> take 7 s = ''WARNING''"

text \<open>
  The attribute check: what is written, which values are compared at the end, and the device state.
  \<open>off\<close> is the word aligned offset and \<open>reg_value\<close> what was read there.
\<close>

definition attribute_check :: "'d pcie_env \<Rightarrow> u32 \<Rightarrow> u32 \<Rightarrow> BITFIELD_ATTR_TYPE \<Rightarrow> u32 \<Rightarrow> nat \<Rightarrow> u32 \<Rightarrow> 'd
    \<Rightarrow> bool \<times> 'd" where
  "attribute_check E bdf off attr msk sh reg_value d =
     (let wr = val_pcie_write_cfg E bdf off; rd = (\<lambda>d old. snd (val_pcie_read_cfg E d bdf off old))
      in if attr = HW_INIT \<or> attr = READ_ONLY \<or> attr = STICKY_RO
         then let v = reg_value XOR shl msk sh; d1 = wr v d in (rd d1 v = reg_value, d1)
         else if attr = RSVDP_RO
         then let v = reg_value; d1 = wr v d in (shr (rd d1 v) sh AND msk = 0, d1)
         else if attr = RSVDZ_RO
         then let v = reg_value AND NOT (shl msk sh); d1 = wr v d in (rd d1 v = reg_value, d1)
         else let v = reg_value XOR shl msk sh; d1 = wr v d; d2 = wr reg_value d1
              in (v = rd d1 reg_value, d2))"

definition val_pcie_bitfield_check :: "'d pcie_env \<Rightarrow> u32 \<Rightarrow> pcie_cfgreg_bitfield_entry \<Rightarrow> 'd
    \<Rightarrow> (u32 \<times> 'd) option" where
  "val_pcie_bitfield_check E bdf bf d =
     (let alignment_byte_cnt = ucast (reg_offset bf) AND 0x3;
          off = ucast (reg_offset bf) - alignment_byte_cnt;
          sh = REG_SHIFT alignment_byte_cnt (bf_start bf);
          msk = REG_MASK (bf_end bf) (bf_start bf)
      in do {
        (status, cap_base) \<leftarrow> (case reg_type bf of
             HEADER \<Rightarrow> Some (PCIE_SUCCESS, 0)
           | PCIE_CAP \<Rightarrow> val_pcie_find_capability E d bdf PCIE_CAP (ucast (cap_id bf)) (uninit E)
           | PCIE_ECAP \<Rightarrow> val_pcie_find_capability E d bdf PCIE_ECAP (ucast (ecap_id bf)) (uninit E));
        if status \<noteq> PCIE_SUCCESS then Some (status, d)
        else
          let v0 = rd_cfg E d bdf (cap_base + off);
              d1 = val_pcie_write_cfg E bdf (cap_base + off) v0 d;
              reg_value = snd (val_pcie_read_cfg E d1 bdf (cap_base + off) v0);
              bf_value = shr reg_value sh AND msk
          in if bf_value \<noteq> cfg_value bf then Some (if is_warning (err_str1 bf) then 0 else 1, d1)
             else let (same, d2) = attribute_check E bdf (cap_base + off) (bf_attr bf) msk sh reg_value d1
                  in Some (if same then 0 else if is_warning (err_str2 bf) then 0 else 1, d2) })"

fun bitfield_entries :: "'d pcie_env \<Rightarrow> u32 \<Rightarrow> u16 \<Rightarrow> pcie_cfgreg_bitfield_entry list \<Rightarrow> u32 \<times> u32 \<Rightarrow> 'd
    \<Rightarrow> ((u32 \<times> u32) \<times> 'd) option" where
  "bitfield_entries E bdf dp_type [] n d = Some (n, d)"
| "bitfield_entries E bdf dp_type (bf # bfs) n d =
     (if dp_type AND dev_port_bitmask bf = 0 then bitfield_entries E bdf dp_type bfs n d
      else do {
        (r, d1) \<leftarrow> val_pcie_bitfield_check E bdf bf d;
        bitfield_entries E bdf dp_type bfs
          (if r \<noteq> 0 then (fst n + 1, snd n) else (fst n, snd n + 1)) d1 })"

fun bitfield_functions :: "'d pcie_env \<Rightarrow> pcie_cfgreg_bitfield_entry list \<Rightarrow> u32 list \<Rightarrow> u32 \<times> u32 \<Rightarrow> 'd
    \<Rightarrow> ((u32 \<times> u32) \<times> 'd) option" where
  "bitfield_functions E bfs [] n d = Some (n, d)"
| "bitfield_functions E bfs (bdf # bdfs) n d = do {
     d1 \<leftarrow> val_pcie_disable_eru E bdf d;
     dp_type \<leftarrow> val_pcie_device_port_type E d1 bdf;
     (n1, d2) \<leftarrow> bitfield_entries E bdf (ucast dp_type) bfs n d1;
     bitfield_functions E bfs bdfs n1 d2 }"

definition val_pcie_register_bitfields_check :: "'d pcie_env \<Rightarrow> pcie_device_bdf_table
    \<Rightarrow> pcie_cfgreg_bitfield_entry list \<Rightarrow> 'd \<Rightarrow> (u32 \<times> 'd) option" where
  "val_pcie_register_bitfields_check E t bfs d = do {
     ((num_fails, num_pass), d1) \<leftarrow> bitfield_functions E bfs (table_bdfs t) (0, 0) d;
     Some (if num_pass > 0 \<or> num_fails > 0 then num_fails else ACS_STATUS_SKIP, d1) }"

subsection \<open>Bus enumeration\<close>

definition PCIE_HEADER_TYPE :: "u32 \<Rightarrow> u32" where
  "PCIE_HEADER_TYPE header_value = shr header_value 16 AND 0x3"

definition BUS_NUM_REG_CFG :: "u32 \<Rightarrow> u32 \<Rightarrow> u32 \<Rightarrow> u32" where
  "BUS_NUM_REG_CFG sub_bus sec_bus pri_bus = shl sub_bus 16 OR shl sec_bus 8 OR pri_bus"

definition all_dev_funcs :: "(u32 \<times> u32) list" where
  "all_dev_funcs = concat (map (\<lambda>dev. map (\<lambda>func. (of_nat dev, of_nat func)) [0..<8]) [0..<32])"

text \<open>
  \<open>pcie_enumerate_device\<close> with its two loops flattened into one list of device and function numbers;
  \<open>vendor\<close> and \<open>header\<close> are the locals that a failed read leaves unchanged.
\<close>

partial_function (option) enumerate_loop :: "'d pcie_env \<Rightarrow> u32 \<Rightarrow> u32 \<Rightarrow> u32 \<Rightarrow> u32 \<Rightarrow> u32
    \<Rightarrow> (u32 \<times> u32) list \<Rightarrow> 'd \<Rightarrow> (u32 \<times> 'd) option" where
  "enumerate_loop E bus sec_bus sub_bus vendor header dfs d =
     (if dfs = [] then Some (sub_bus, d)
      else
        let bdf = PCIE_CREATE_BDF 0 bus (fst (hd dfs)) (snd (hd dfs));
            vendor_id = snd (val_pcie_read_cfg E d bdf 0 vendor)
        in if vendor_id = 0x0 \<or> vendor_id = 0xFFFFFFFF
           then enumerate_loop E bus sec_bus sub_bus vendor_id header (tl dfs) d
           else
             let header_value = snd (val_pcie_read_cfg E d bdf 0xC header)
             in if PCIE_HEADER_TYPE header_value = 1
                then do {
                  let d1 = val_pcie_write_cfg E bdf 0x18 (BUS_NUM_REG_CFG 0xFF sec_bus bus) d;
                  (sub, d2) \<leftarrow> (if sec_bus = 255 then Some (sec_bus, d1)
                    else enumerate_loop E sec_bus (sec_bus + 1) sec_bus (uninit E) (uninit E) all_dev_funcs d1);
                  let d3 = val_pcie_write_cfg E bdf 0x18 (BUS_NUM_REG_CFG sub sec_bus bus) d2;
                  enumerate_loop E bus (sub + 1) sub vendor_id header_value (tl dfs) d3 }
                else if PCIE_HEADER_TYPE header_value = 0
                then enumerate_loop E bus sec_bus (sec_bus - 1) vendor_id header_value (tl dfs) d
                else enumerate_loop E bus sec_bus sub_bus vendor_id header_value (tl dfs) d)"

definition pcie_enumerate_device :: "'d pcie_env \<Rightarrow> u32 \<Rightarrow> u32 \<Rightarrow> 'd \<Rightarrow> (u32 \<times> 'd) option" where
  "pcie_enumerate_device E bus sec_bus d =
     (if bus = 256 - 1 then Some (bus, d)
      else enumerate_loop E bus sec_bus bus (uninit E) (uninit E) all_dev_funcs d)"

definition val_bsa_pcie_enumerate :: "'d pcie_env \<Rightarrow> 'd \<Rightarrow> 'd option" where
  "val_bsa_pcie_enumerate E d = map_option snd (pcie_enumerate_device E 0 1 d)"

declare enumerate_loop.simps [code]

end
