(* ===== verification/Acs_Pcie_Check.thy ===== *)
theory Acs_Pcie_Check
  imports Acs_Pcie_Table
begin

text \<open>
  Correctness of the PCIe component.  \<open>cfg_mapped\<close> says that a function name lies in an ECAM region
  and \<open>cfg_value_at\<close> is what a read then returns; \<open>cap_list\<close> is the chain of capabilities as a list;
  \<open>function_number\<close> orders the functions of a segment; \<open>rw_register\<close> describes a register whose
  bits are writable or fixed; \<open>scan_list\<close> is the specification of the device table.  The
  environments \<open>example_env\<close> and \<open>uniform_env\<close> are concrete configuration spaces for the witnesses.
\<close>

subsection \<open>Specification\<close>

definition cfg_mapped :: "'d pcie_env \<Rightarrow> u32 \<Rightarrow> bool" where
  "cfg_mapped E bdf \<longleftrightarrow> PCIE_EXTRACT_BDF_DEV bdf < 32 \<and> PCIE_EXTRACT_BDF_FUNC bdf < 8 \<and>
     g_pcie_info_table E \<noteq> None \<and>
     ecam_loop E (PCIE_EXTRACT_BDF_BUS bdf) (PCIE_EXTRACT_BDF_SEG bdf) (ecam_indices E) \<noteq> 0"

definition cfg_value_at :: "'d pcie_env \<Rightarrow> 'd \<Rightarrow> u32 \<Rightarrow> u32 \<Rightarrow> u32" where
  "cfg_value_at E d bdf offset = pal_mmio_read E (val_pcie_get_bdf_config_addr E bdf + ucast offset) d"

fun cap_list :: "(u32 \<Rightarrow> u32) \<Rightarrow> nat \<Rightarrow> u32 \<Rightarrow> u32 \<Rightarrow> u32 list \<Rightarrow> bool" where
  "cap_list V nshift nmask off [] \<longleftrightarrow> off = 0"
| "cap_list V nshift nmask off (x # xs) \<longleftrightarrow>
     off = x \<and> x \<noteq> 0 \<and> cap_list V nshift nmask (shr (V x) nshift AND nmask) xs"

definition function_number :: "u32 \<Rightarrow> nat" where
  "function_number bdf = unat (PCIE_EXTRACT_BDF_BUS bdf) * 256 + unat (PCIE_EXTRACT_BDF_DEV bdf) * 8
     + unat (PCIE_EXTRACT_BDF_FUNC bdf)"

definition rw_register :: "'d pcie_env \<Rightarrow> u64 \<Rightarrow> u32 \<Rightarrow> bool" where
  "rw_register E a wm \<longleftrightarrow>
     (\<forall>v d. cfg_ld E a (cfg_st E a v d) = (cfg_ld E a d AND NOT wm) OR (v AND wm))"

definition located :: "'d pcie_env \<Rightarrow> 'd \<Rightarrow> u32 \<Rightarrow> pcie_cfgreg_bitfield_entry \<Rightarrow> u32 \<Rightarrow> bool" where
  "located E d bdf bf cap_base \<longleftrightarrow>
     (case reg_type bf of
        HEADER \<Rightarrow> cap_base = 0
      | PCIE_CAP \<Rightarrow> val_pcie_find_capability E d bdf PCIE_CAP (ucast (cap_id bf)) (uninit E) = Some (PCIE_SUCCESS, cap_base)
      | PCIE_ECAP \<Rightarrow> val_pcie_find_capability E d bdf PCIE_ECAP (ucast (ecap_id bf)) (uninit E) = Some (PCIE_SUCCESS, cap_base))"

definition field_mask :: "pcie_cfgreg_bitfield_entry \<Rightarrow> u32" where
  "field_mask bf = shl (REG_MASK (bf_end bf) (bf_start bf)) (REG_SHIFT (ucast (reg_offset bf) AND 0x3) (bf_start bf))"

definition field_of :: "pcie_cfgreg_bitfield_entry \<Rightarrow> u32 \<Rightarrow> u32" where
  "field_of bf v = shr v (REG_SHIFT (ucast (reg_offset bf) AND 0x3) (bf_start bf)) AND REG_MASK (bf_end bf) (bf_start bf)"

definition word_offset :: "pcie_cfgreg_bitfield_entry \<Rightarrow> u32" where
  "word_offset bf = ucast (reg_offset bf) - (ucast (reg_offset bf) AND 0x3)"

definition present :: "'d pcie_env \<Rightarrow> 'd \<Rightarrow> u32 \<Rightarrow> bool" where
  "present E d bdf \<longleftrightarrow> rd_cfg E d bdf TYPE01_VIDR \<noteq> PCIE_UNKNOWN_RESPONSE \<and> \<not> val_pcie_is_host_bridge E d bdf \<and>
     map_option fst (val_pcie_find_capability E d bdf PCIE_CAP 0x10 (uninit E)) = Some PCIE_SUCCESS"

definition dev_functions :: "'d pcie_env \<Rightarrow> 'd \<Rightarrow> u32 \<Rightarrow> u32 \<Rightarrow> u32 \<Rightarrow> u32 list" where
  "dev_functions E d seg bus dev =
     (if rd_cfg E d (PCIE_CREATE_BDF seg bus dev 0) TYPE01_VIDR = PCIE_UNKNOWN_RESPONSE then []
      else filter (present E d) (map (PCIE_CREATE_BDF seg bus dev) (map of_nat [0..<8])))"

definition scan_list :: "'d pcie_env \<Rightarrow> 'd \<Rightarrow> u32 list" where
  "scan_list E d =
     concat (map (\<lambda>i. concat (map (\<lambda>bus. concat (map
        (\<lambda>dev. dev_functions E d (ucast (val_pcie_get_info E PCIE_INFO_SEGMENT i)) bus dev)
        (map of_nat [0..<32]))) (ecam_buses E i))) (ecam_indices E))"

definition scannable :: "'d pcie_env \<Rightarrow> 'd \<Rightarrow> u32 \<Rightarrow> bool" where
  "scannable E d bdf \<longleftrightarrow> cfg_mapped E bdf \<and>
     val_pcie_find_capability E d bdf PCIE_CAP 0x10 (uninit E) \<noteq> None"

definition add_all :: "u32 list \<Rightarrow> pcie_device_bdf_table \<Rightarrow> pcie_device_bdf_table" where
  "add_all bs t = fold add_bdf bs t"

definition all_scannable :: "'d pcie_env \<Rightarrow> 'd \<Rightarrow> bool" where
  "all_scannable E d \<longleftrightarrow> (\<forall>i\<in>set (ecam_indices E). \<forall>bus\<in>set (ecam_buses E i).
     \<forall>dev\<in>set (map of_nat [0..<32]). \<forall>f\<in>set (map of_nat [0..<8]).
       scannable E d (PCIE_CREATE_BDF (ucast (val_pcie_get_info E PCIE_INFO_SEGMENT i)) bus dev f))"

definition example_env :: "(u64 \<Rightarrow> u32) pcie_env" where
  "example_env = \<lparr>g_pcie_info_table = Some \<lparr>num_entries = 1,
       block = (\<lambda>_. \<lparr>ecam_base = 0x40000000, segment_num = 0, start_bus_num = 0, end_bus_num = 1\<rparr>)\<rparr>,
     mcfg_ecam = 0x40000000, cfg_ld = (\<lambda>a d. d a), cfg_st = (\<lambda>a v d. d(a := v)), uninit = 0xDEADBEEF\<rparr>"

definition example_cfg :: "u64 \<Rightarrow> u32" where
  "example_cfg = (\<lambda>a.
     if a = 0x40008000 then 0x12345678 else if a = 0x40008004 then 0x00100007
     else if a = 0x40008008 then 0x06040000 else if a = 0x4000800C then 0x00010000
     else if a = 0x40008018 then 0x00010100 else if a = 0x40008034 then 0x40
     else if a = 0x40008040 then 0x5001 else if a = 0x40008050 then 0x00420010
     else if a = 0x40008100 then 0x1 else 0xFFFFFFFF)"

definition uniform_env :: "u32 pcie_env" where
  "uniform_env = \<lparr>g_pcie_info_table = Some \<lparr>num_entries = 1,
       block = (\<lambda>_. \<lparr>ecam_base = 0x40000000, segment_num = 0, start_bus_num = 0, end_bus_num = 0\<rparr>)\<rparr>,
     mcfg_ecam = 0x40000000, cfg_ld = (\<lambda>a d. d), cfg_st = (\<lambda>a v d. d), uninit = 0xDEADBEEF\<rparr>"

definition example_bitfield :: pcie_cfgreg_bitfield_entry where
  "example_bitfield = \<lparr>reg_type = HEADER, cap_id = 0, ecap_id = 0, reg_offset = 0x4, dev_port_bitmask = 0xFFFF,
     bf_start = 2, bf_end = 2, cfg_value = 1, bf_attr = READ_WRITE,
     err_str1 = ''ERROR BME value mismatch'', err_str2 = ''ERROR BME attribute mismatch''\<rparr>"

definition bridge_cfg :: "u64 \<Rightarrow> u32" where
  "bridge_cfg a = (if a AND 0xFF = 0x34 then 0x40 else if a AND 0xFF = 0x40 then 0x00000010
     else if a AND 0xFF = 0x18 then 0x00FF0000 else 0x12345678)"

subsection \<open>Lemmas\<close>

lemma bus_less: "PCIE_EXTRACT_BDF_BUS bdf < 256"
proof -
  have "PCIE_EXTRACT_BDF_BUS bdf \<le> 0xFF" unfolding PCIE_EXTRACT_BDF_BUS_def by (rule word_and_le1)
  also have "(0xFF::u32) < 256" by simp
  finally show ?thesis .
qed

lemma read_cfg_mapped:
  "cfg_mapped E bdf \<Longrightarrow> val_pcie_read_cfg E d bdf offset data = (0, cfg_value_at E d bdf offset)"
  using bus_less [of bdf]
  by (auto simp: cfg_mapped_def val_pcie_read_cfg_def cfg_value_at_def val_pcie_get_bdf_config_addr_def Let_def
      not_le [symmetric])

lemma read_cfg_unmapped:
  "\<not> cfg_mapped E bdf \<Longrightarrow> val_pcie_read_cfg E d bdf offset data = (PCIE_NO_MAPPING, data)"
  by (auto simp: cfg_mapped_def val_pcie_read_cfg_def Let_def)

lemma write_cfg_mapped:
  "cfg_mapped E bdf \<Longrightarrow> val_pcie_write_cfg E bdf offset data d =
     cfg_st E (val_pcie_get_bdf_config_addr E bdf + ucast offset) data d"
  using bus_less [of bdf]
  by (auto simp: cfg_mapped_def val_pcie_write_cfg_def pal_mmio_write_def val_pcie_get_bdf_config_addr_def Let_def
      not_le [symmetric])

lemma write_cfg_unmapped:
  "\<not> cfg_mapped E bdf \<Longrightarrow> val_pcie_write_cfg E bdf offset data d = d"
  by (auto simp: cfg_mapped_def val_pcie_write_cfg_def Let_def)

lemma bdf_fields:
  assumes "seg < 256" "bus < 256" "dev < 256" "func < 256"
  shows "PCIE_EXTRACT_BDF_SEG (PCIE_CREATE_BDF seg bus dev func) = seg"
    "PCIE_EXTRACT_BDF_BUS (PCIE_CREATE_BDF seg bus dev func) = bus"
    "PCIE_EXTRACT_BDF_DEV (PCIE_CREATE_BDF seg bus dev func) = dev"
    "PCIE_EXTRACT_BDF_FUNC (PCIE_CREATE_BDF seg bus dev func) = func"
proof -
  have t: "unat seg < 2 ^ 8" "unat bus < 2 ^ 8" "unat dev < 2 ^ 8" "unat func < 2 ^ 8"
    using assms by (simp_all add: word_less_nat_alt)
  note b = bit_less_exp [OF _ t(1)] bit_less_exp [OF _ t(2)] bit_less_exp [OF _ t(3)] bit_less_exp [OF _ t(4)]
  show "PCIE_EXTRACT_BDF_SEG (PCIE_CREATE_BDF seg bus dev func) = seg"
    by (rule bit_word_eqI) (use b in \<open>fastforce simp: bdf_defs mask_lits bit_simps\<close>)
  show "PCIE_EXTRACT_BDF_BUS (PCIE_CREATE_BDF seg bus dev func) = bus"
    by (rule bit_word_eqI) (use b in \<open>fastforce simp: bdf_defs mask_lits bit_simps\<close>)
  show "PCIE_EXTRACT_BDF_DEV (PCIE_CREATE_BDF seg bus dev func) = dev"
    by (rule bit_word_eqI) (use b in \<open>fastforce simp: bdf_defs mask_lits bit_simps\<close>)
  show "PCIE_EXTRACT_BDF_FUNC (PCIE_CREATE_BDF seg bus dev func) = func"
    by (rule bit_word_eqI) (use b in \<open>fastforce simp: bdf_defs mask_lits bit_simps\<close>)
qed

lemma bdf_split: "PCIE_CREATE_BDF (PCIE_EXTRACT_BDF_SEG bdf) (PCIE_EXTRACT_BDF_BUS bdf)
    (PCIE_EXTRACT_BDF_DEV bdf) (PCIE_EXTRACT_BDF_FUNC bdf) = bdf"
proof (rule bit_word_eqI)
  fix n assume "n < LENGTH(32)"
  then consider "n < 8" | "8 \<le> n" "n < 16" | "16 \<le> n" "n < 24" | "24 \<le> n" "n < 32" by fastforce
  then show "bit (PCIE_CREATE_BDF (PCIE_EXTRACT_BDF_SEG bdf) (PCIE_EXTRACT_BDF_BUS bdf)
      (PCIE_EXTRACT_BDF_DEV bdf) (PCIE_EXTRACT_BDF_FUNC bdf)) n = bit bdf n"
    by cases (auto simp: bdf_defs mask_lits bit_simps)
qed

lemma cap_loop_list:
  assumes "cfg_mapped E bdf"
  shows "cap_list (cfg_value_at E d bdf) nshift nmask off xs \<Longrightarrow>
    cap_loop E d bdf cid idmask nshift nmask cid_offset off reg =
      Some (case List.find (\<lambda>x. cfg_value_at E d bdf x AND idmask = cid) xs of
              Some x \<Rightarrow> (PCIE_SUCCESS, x) | None \<Rightarrow> (PCIE_CAP_NOT_FOUND, cid_offset))"
proof (induction xs arbitrary: off reg)
  case Nil
  then show ?case by (simp add: cap_loop_def tail_iter.simps cap_step_def)
next
  case (Cons x xs)
  then show ?case
    by (simp add: cap_loop_def tail_iter.simps [of _ "(x, _)"] cap_step_def read_cfg_mapped [OF assms] Let_def)
qed

lemma cap_loop_cyclic:
  assumes "cfg_mapped E bdf" "off \<in> S"
    and "\<And>x. x \<in> S \<Longrightarrow> x \<noteq> 0 \<and> cfg_value_at E d bdf x AND idmask \<noteq> cid \<and>
            shr (cfg_value_at E d bdf x) nshift AND nmask \<in> S"
  shows "cap_loop E d bdf cid idmask nshift nmask cid_offset off reg = None"
  unfolding cap_loop_def
proof (rule iter.loop_never_ends)
  show "(off, reg) \<in> S \<times> UNIV" using assms(2) by simp
  fix x :: "u32 \<times> u32" assume "x \<in> S \<times> UNIV"
  then show "\<exists>y\<in>S \<times> UNIV. cap_step E d bdf cid idmask nshift nmask cid_offset x = Inr y"
    using assms(3) by (auto simp: cap_step_def read_cfg_mapped [OF assms(1)] Let_def)
qed

lemma seg_less: "PCIE_EXTRACT_BDF_SEG bdf < 256"
proof -
  have "PCIE_EXTRACT_BDF_SEG bdf \<le> 0xFF" unfolding PCIE_EXTRACT_BDF_SEG_def by (rule word_and_le1)
  also have "(0xFF::u32) < 256" by simp
  finally show ?thesis .
qed

lemma unat_plus_1_less: "(x::u32) < 256 \<Longrightarrow> unat (x + 1) = unat x + 1"
  by (simp add: word_less_nat_alt unat_word_ariths)

lemma u32_less_step: "(x::u32) < y \<Longrightarrow> y \<le> 256 \<Longrightarrow> x + 1 \<le> y \<and> x + 1 < 257"
  by (simp add: word_less_nat_alt word_le_nat_alt unat_word_ariths)

lemma u32_below: "x < 32 \<Longrightarrow> x < 31 \<or> x = (31::u32)" "x < 8 \<Longrightarrow> x < 7 \<or> x = (7::u32)"
  unfolding word_less_nat_alt word_unat_eq_iff by (simp_all, linarith+)

lemma rw_write:
  fixes v w m :: u32
  shows "(v AND NOT w) OR (v AND w) = v" "(v AND NOT w) OR ((v XOR m) AND w) = v XOR (m AND w)"
    "((v XOR (m AND w)) AND NOT w) OR (v AND w) = v"
  by (rule bit_word_eqI, auto simp: bit_simps)+

lemma xor_eq_xor: "((v::u32) XOR x = v XOR y) = (x = y)"
proof
  assume "v XOR x = v XOR y"
  then have "v XOR (v XOR x) = v XOR (v XOR y)" by simp
  then show "x = y" by (simp add: xor.assoc [symmetric])
qed simp

lemma xor_eq_self: "((v::u32) XOR x = v) = (x = 0)"
  using xor_eq_xor [of v x 0] by simp

lemma attribute_check_rw:
  assumes mp: "cfg_mapped E bdf" and al: "(val_pcie_get_bdf_config_addr E bdf + ucast off) AND 0x3 = 0"
    and rw: "rw_register E (val_pcie_get_bdf_config_addr E bdf + ucast off) wm"
    and v_def: "v = cfg_value_at E d bdf off"
  shows "attr \<in> {HW_INIT, READ_ONLY, STICKY_RO} \<Longrightarrow>
      fst (attribute_check E bdf off attr msk sh v d) = (shl msk sh AND wm = 0)"
    "attr \<in> {READ_WRITE, STICKY_RW} \<Longrightarrow>
      fst (attribute_check E bdf off attr msk sh v d) = (shl msk sh AND wm = shl msk sh) \<and>
      cfg_value_at E (snd (attribute_check E bdf off attr msk sh v d)) bdf off = v"
proof -
  let ?a = "val_pcie_get_bdf_config_addr E bdf + ucast off"
  have ld: "cfg_value_at E x bdf off = cfg_ld E ?a x" for x
    using al by (simp add: cfg_value_at_def pal_mmio_read_def)
  have st: "cfg_ld E ?a (cfg_st E ?a u x) = (cfg_ld E ?a x AND NOT wm) OR (u AND wm)" for u x
    using rw by (simp add: rw_register_def)
  note ev = attribute_check_def Let_def read_cfg_mapped [OF mp] write_cfg_mapped [OF mp] ld st rw_write v_def xor_eq_self xor_eq_xor
  show "fst (attribute_check E bdf off attr msk sh v d) = (shl msk sh AND wm = 0)"
    if "attr \<in> {HW_INIT, READ_ONLY, STICKY_RO}"
    using that by (auto simp: ev)
  show "fst (attribute_check E bdf off attr msk sh v d) = (shl msk sh AND wm = shl msk sh) \<and>
      cfg_value_at E (snd (attribute_check E bdf off attr msk sh v d)) bdf off = v"
    if "attr \<in> {READ_WRITE, STICKY_RW}"
    using that by (auto simp: ev)
qed

lemma rewrite_same_value:
  assumes "cfg_mapped E bdf" "(val_pcie_get_bdf_config_addr E bdf + ucast off) AND 0x3 = 0"
    "rw_register E (val_pcie_get_bdf_config_addr E bdf + ucast off) wm"
  shows "cfg_value_at E (val_pcie_write_cfg E bdf off (cfg_value_at E d bdf off) d) bdf off = cfg_value_at E d bdf off"
  using assms by (simp add: cfg_value_at_def pal_mmio_read_def write_cfg_mapped rw_register_def rw_write)

lemma add_all_append: "add_all (xs @ ys) t = add_all ys (add_all xs t)"
  by (simp add: add_all_def)

lemma probe_func_step:
  assumes "scannable E d (PCIE_CREATE_BDF seg bus dev f)"
  shows "probe_funcs E d seg bus dev (f # fs) t =
    (if rd_cfg E d (PCIE_CREATE_BDF seg bus dev f) TYPE01_VIDR = PCIE_UNKNOWN_RESPONSE \<and> f = 0 then Some (False, t)
     else probe_funcs E d seg bus dev fs
       (if present E d (PCIE_CREATE_BDF seg bus dev f) then add_bdf (PCIE_CREATE_BDF seg bus dev f) t else t))"
proof -
  let ?b = "PCIE_CREATE_BDF seg bus dev f"
  obtain c o' where cap: "val_pcie_find_capability E d ?b PCIE_CAP 0x10 (uninit E) = Some (c, o')"
    using assms by (auto simp: scannable_def)
  have m: "cfg_mapped E ?b" using assms by (simp add: scannable_def)
  then show ?thesis
    by (auto simp: rd_cfg_def read_cfg_mapped present_def cap pcie_status_defs Let_def)
qed

lemma probe_funcs_nonzero:
  "0 \<notin> set fs \<Longrightarrow> (\<And>f. f \<in> set fs \<Longrightarrow> scannable E d (PCIE_CREATE_BDF seg bus dev f)) \<Longrightarrow>
   probe_funcs E d seg bus dev fs t =
     Some (False, add_all (filter (present E d) (map (PCIE_CREATE_BDF seg bus dev) fs)) t)"
proof (induction fs arbitrary: t)
  case Nil then show ?case by (simp add: add_all_def)
next
  case (Cons f fs)
  have "scannable E d (PCIE_CREATE_BDF seg bus dev f)" "f \<noteq> 0" using Cons.prems by auto
  with probe_func_step [OF this(1)] Cons show ?case by (simp add: add_all_def)
qed

lemma probe_funcs_device:
  assumes "\<And>f. f \<in> set (map of_nat [0..<8]) \<Longrightarrow> scannable E d (PCIE_CREATE_BDF seg bus dev f)"
  shows "probe_funcs E d seg bus dev (map of_nat [0..<8]) t = Some (False, add_all (dev_functions E d seg bus dev) t)"
proof -
  have l: "map of_nat [0..<8] = (0 # map of_nat [1..<8] :: u32 list)" by (simp add: upt_rec)
  have nz: "(0::u32) \<notin> set (map of_nat [1..<8])" by (simp add: upt_rec)
  have "rd_cfg E d (PCIE_CREATE_BDF seg bus dev 0) TYPE01_VIDR = PCIE_UNKNOWN_RESPONSE \<Longrightarrow> \<not> present E d (PCIE_CREATE_BDF seg bus dev 0)"
    by (simp add: present_def)
  moreover have "scannable E d (PCIE_CREATE_BDF seg bus dev 0)" using assms [of 0] by (simp add: l)
  moreover have "\<And>f. f \<in> set (map of_nat [1..<8]) \<Longrightarrow> scannable E d (PCIE_CREATE_BDF seg bus dev f)" using assms by (simp only: l) simp
  ultimately show ?thesis
    unfolding l dev_functions_def
    using probe_func_step [of E d seg bus dev 0 "map of_nat [1..<8]" t] probe_funcs_nonzero [OF nz, of E d seg bus dev]
    by (simp add: add_all_def)
qed

lemma probe_devs_all:
  "(\<And>dev f. dev \<in> set devs \<Longrightarrow> f \<in> set (map of_nat [0..<8]) \<Longrightarrow> scannable E d (PCIE_CREATE_BDF seg bus dev f)) \<Longrightarrow>
   probe_devs E d seg bus devs t = Some (False, add_all (concat (map (dev_functions E d seg bus) devs)) t)"
proof (induction devs arbitrary: t)
  case Nil then show ?case by (simp add: add_all_def)
next
  case (Cons dev devs)
  have "probe_funcs E d seg bus dev (map of_nat [0..<8]) t = Some (False, add_all (dev_functions E d seg bus dev) t)"
    by (rule probe_funcs_device) (use Cons.prems in simp)
  with Cons show ?case by (simp add: add_all_append del: upt_Suc)
qed

lemma probe_buses_all:
  "(\<And>bus dev f. bus \<in> set buses \<Longrightarrow> dev \<in> set (map of_nat [0..<32]) \<Longrightarrow> f \<in> set (map of_nat [0..<8]) \<Longrightarrow>
      scannable E d (PCIE_CREATE_BDF seg bus dev f)) \<Longrightarrow>
   probe_buses E d seg buses t = Some (False, add_all (concat (map (\<lambda>bus. concat (map (dev_functions E d seg bus) (map of_nat [0..<32]))) buses)) t)"
proof (induction buses arbitrary: t)
  case Nil then show ?case by (simp add: add_all_def)
next
  case (Cons bus buses)
  have "probe_devs E d seg bus (map of_nat [0..<32]) t = Some (False, add_all (concat (map (dev_functions E d seg bus) (map of_nat [0..<32]))) t)"
    by (rule probe_devs_all) (use Cons.prems in simp)
  with Cons show ?case by (simp add: add_all_append del: upt_Suc map_map)
qed

lemma probe_ecams_all:
  assumes "all_scannable E d"
  shows "probe_ecams E d (ecam_indices E) t = Some (False, add_all (scan_list E d) t)"
proof -
  have "probe_ecams E d is t = Some (False, add_all (concat (map (\<lambda>i. concat (map (\<lambda>bus. concat (map
        (\<lambda>dev. dev_functions E d (ucast (val_pcie_get_info E PCIE_INFO_SEGMENT i)) bus dev)
        (map of_nat [0..<32]))) (ecam_buses E i))) is)) t)" if "set is \<subseteq> set (ecam_indices E)" for "is" t
    using that
  proof (induction "is" arbitrary: t)
    case Nil then show ?case by (simp add: add_all_def)
  next
    case (Cons i "is")
    let ?s = "ucast (val_pcie_get_info E PCIE_INFO_SEGMENT i)"
    have "probe_buses E d ?s (ecam_buses E i) t = Some (False, add_all (concat (map (\<lambda>bus. concat (map
        (dev_functions E d ?s bus) (map of_nat [0..<32]))) (ecam_buses E i))) t)"
      by (rule probe_buses_all) (use assms Cons.prems in \<open>auto simp: all_scannable_def\<close>)
    with Cons show ?case by (simp add: add_all_append del: upt_Suc map_map)
  qed
  from this [of "ecam_indices E"] show ?thesis by (simp add: scan_list_def)
qed

lemma add_all_table:
  assumes "unat (bdf_num_entries t) + length bs < 2 ^ 32"
  shows "unat (bdf_num_entries (add_all bs t)) = unat (bdf_num_entries t) + length bs \<and>
         table_bdfs (add_all bs t) = table_bdfs t @ bs"
  using assms
proof (induction bs arbitrary: t)
  case (Cons b bs)
  let ?n = "bdf_num_entries t"
  have n: "unat (?n + 1) = Suc (unat ?n)" using Cons.prems by (simp add: unat_word_ariths)
  have "table_bdfs (add_bdf b t) = table_bdfs t @ [b]"
  proof -
    have "(of_nat i :: u32) \<noteq> ?n" if "i < unat ?n" for i
    proof
      assume "(of_nat i :: u32) = ?n"
      moreover have "i < 2 ^ LENGTH(32)" using that unat_bound [of ?n] by linarith
      ultimately show False using that word_le_of_nat_less [of i, where 'a=32] by simp
    qed
    then have "map (\<lambda>i. attr_bdf (device (add_bdf b t) (of_nat i))) [0..<unat ?n] =
        map (\<lambda>i. attr_bdf (device t (of_nat i))) [0..<unat ?n]"
      by (intro map_cong) (auto simp: add_bdf_def)
    moreover have "bdf_num_entries (add_bdf b t) = ?n + 1" by (simp add: add_bdf_def)
    moreover have "attr_bdf (device (add_bdf b t) ?n) = b" by (simp add: add_bdf_def)
    ultimately show ?thesis by (simp add: table_bdfs_def table_indices_def n comp_def)
  qed
  moreover have "bdf_num_entries (add_bdf b t) = ?n + 1" by (simp add: add_bdf_def)
  ultimately show ?case
    using Cons.IH [of "add_bdf b t"] Cons.prems n by (simp add: add_all_def)
qed (simp add: add_all_def)

lemma set_rp_table [simp]:
  "bdf_num_entries (set_rp i rp t) = bdf_num_entries t" "table_bdfs (set_rp i rp t) = table_bdfs t"
  by (simp_all add: set_rp_def table_bdfs_def table_indices_def)

lemma get_rootport_cong:
  assumes "table_bdfs t = table_bdfs t'"
  shows "val_pcie_get_rootport E d t b = val_pcie_get_rootport E d t' b"
  unfolding val_pcie_get_rootport_def assms ..

lemma populate_loop_spec:
  assumes "populate_loop E d is t = Some (False, t')" "distinct is"
  shows "bdf_num_entries t' = bdf_num_entries t \<and> table_bdfs t' = table_bdfs t \<and>
    (\<forall>i\<in>set is. \<exists>status. val_pcie_get_rootport E d t (attr_bdf (device t i)) = Some (status, attr_rp_bdf (device t' i)) \<and>
        \<not> (status \<noteq> 0 \<and> attr_rp_bdf (device t' i) = 0)) \<and>
    (\<forall>i. i \<notin> set is \<longrightarrow> device t' i = device t i)"
  using assms
proof (induction "is" arbitrary: t)
  case (Cons i "is")
  from Cons.prems obtain st rp where g: "val_pcie_get_rootport E d t (attr_bdf (device t i)) = Some (st, rp)"
    "\<not> (st \<noteq> 0 \<and> rp = 0)" "populate_loop E d is (set_rp i rp t) = Some (False, t')"
    by (auto split: Option.bind_splits if_splits)
  note IH = Cons.IH [OF g(3)] 
  have di: "distinct is" "i \<notin> set is" using Cons.prems(2) by auto
  have "attr_bdf (device (set_rp i rp t) j) = attr_bdf (device t j)" for j by (simp add: set_rp_def)
  moreover have "device t' i = device (set_rp i rp t) i" using IH [OF di(1)] di(2) by simp
  then have "attr_rp_bdf (device t' i) = rp" by (simp add: set_rp_def)
  moreover have "device (set_rp i rp t) j = device t j" if "j \<noteq> i" for j using that by (simp add: set_rp_def)
  ultimately show ?case
    using IH [OF di(1)] g get_rootport_cong [OF set_rp_table(2), of E d i rp t] by auto
qed auto

lemma distinct_of_nat: "n \<le> 2 ^ 32 \<Longrightarrow> distinct (map of_nat [0..<n] :: u32 list)"
  unfolding distinct_map
proof (intro conjI inj_onI)
  fix i j assume n: "n \<le> 2 ^ 32" and ij: "i \<in> set [0..<n]" "j \<in> set [0..<n]" "(of_nat i :: u32) = of_nat j"
  then have "i < 2 ^ LENGTH(32)" "j < 2 ^ LENGTH(32)" by simp_all
  then have "unat (of_nat i :: u32) = i" "unat (of_nat j :: u32) = j"
    by (simp_all only: word_le_of_nat_less)
  with ij(3) show "i = j" by metis
qed simp

lemma example_mapped: "cfg_mapped example_env 0x100"
  by code_simp

lemma mixed_radix:
  fixes n :: nat
  assumes "a * n + x = b * n + y" "x < n" "y < n"
  shows "x = y" "a = b"
proof -
  have "(a * n + x) mod n = x" "(b * n + y) mod n = y" "(a * n + x) div n = a" "(b * n + y) div n = b"
    using assms(2,3) by simp_all
  with assms(1) show "x = y" "a = b" by metis+
qed

lemma cfg_addr_unat:
  assumes "bus < 256" "dev < 32" "func < 8"
  shows "unat (cfg_addr bus dev func) = (unat bus * 256 + unat dev * 8 + unat func) * 4096"
proof -
  have b: "unat bus < 256" "unat dev < 32" "unat func < 8" using assms by (simp_all add: word_less_nat_alt)
  have "cfg_addr bus dev func = of_nat ((unat bus * 256 + unat dev * 8 + unat func) * 4096)"
    by (simp add: cfg_addr_def algebra_simps)
  moreover have "(unat bus * 256 + unat dev * 8 + unat func) * 4096 < 2 ^ LENGTH(32)" using b by simp
  ultimately show ?thesis by (simp only: word_le_of_nat_less)
qed

lemma uniform_mapped:
  assumes "dev < 32" "func < 8"
  shows "cfg_mapped uniform_env (PCIE_CREATE_BDF 0 0 dev func)"
proof -
  have "dev < 256" "func < 256" using assms by (simp_all add: word_less_nat_alt)
  note f = bdf_fields [of 0 0, OF _ _ this]
  show ?thesis using assms
    by (simp add: cfg_mapped_def f ecam_indices_def val_pcie_get_info_def uniform_env_def)
qed

lemma uniform_value: "cfg_value_at uniform_env d bdf off = d"
  by (simp add: cfg_value_at_def pal_mmio_read_def uniform_env_def)

lemma uniform_cap: "cfg_mapped uniform_env bdf \<Longrightarrow>
   val_pcie_find_capability uniform_env 0x40400010 bdf PCIE_CAP 0x10 x = Some (PCIE_SUCCESS, 0x10)"
  by (simp add: val_pcie_find_capability_def read_cfg_mapped uniform_value pcie_status_defs cap_loop_def
      tail_iter.simps cap_step_def Let_def)

lemma uniform_port: "cfg_mapped uniform_env bdf \<Longrightarrow> val_pcie_device_port_type uniform_env 0x40400010 bdf = Some RP"
  by (simp add: val_pcie_device_port_type_def pciecs_base_def uniform_cap read_cfg_mapped uniform_value
      val_pcie_is_onchip_peripheral_def port_type_defs)

lemma u32_list_below: "x \<in> set (map of_nat [0..<n]) \<Longrightarrow> n \<le> 256 \<Longrightarrow> (x :: u32) < of_nat n \<or> n = 0"
  by (auto simp: word_less_nat_alt word_le_of_nat_less)

lemma uniform_indices: "ecam_indices uniform_env = [0]" "ecam_buses uniform_env 0 = [0]"
  "val_pcie_get_info uniform_env PCIE_INFO_SEGMENT 0 = 0" "val_pcie_get_info uniform_env PCIE_INFO_NUM_ECAM 0 = 1"
  by (simp_all add: ecam_indices_def ecam_buses_def val_pcie_get_info_def uniform_env_def)

lemma uniform_scannable: "all_scannable uniform_env 0x40400010"
  unfolding all_scannable_def uniform_indices
proof (intro ballI)
  fix i bus dev f :: u32 assume "i \<in> set [0::u32]" "bus \<in> set (ecam_buses uniform_env i)"
    and d: "dev \<in> set (map of_nat [0..<32])" "f \<in> set (map of_nat [0..<8])"
  then have "i = 0" "bus = 0" by (simp_all add: uniform_indices)
  moreover have "dev < 32" "f < 8" using u32_list_below [OF d(1)] u32_list_below [OF d(2)] by simp_all
  ultimately show "scannable uniform_env 0x40400010 (PCIE_CREATE_BDF (ucast (val_pcie_get_info uniform_env PCIE_INFO_SEGMENT i)) bus dev f)"
    using uniform_mapped by (simp add: scannable_def uniform_indices uniform_cap)
qed

lemma populate_loop_total:
  "(\<And>t i. i \<in> set is \<Longrightarrow> val_pcie_get_rootport E d t (attr_bdf (device t0 i)) = Some (0, attr_bdf (device t0 i))) \<Longrightarrow>
   (\<And>i. attr_bdf (device t i) = attr_bdf (device t0 i)) \<Longrightarrow> \<exists>t'. populate_loop E d is t = Some (False, t')"
proof (induction "is" arbitrary: t)
  case (Cons i "is")
  have "attr_bdf (device (set_rp i x t) j) = attr_bdf (device t0 j)" for j x
    using Cons.prems(2) by (simp add: set_rp_def)
  from Cons.IH [OF Cons.prems(1) this] show ?case using Cons.prems by simp
qed simp

lemma length_concat_le: "(\<And>x. x \<in> set xs \<Longrightarrow> length (f x) \<le> k) \<Longrightarrow> length (concat (map f xs)) \<le> k * length xs"
proof (induction xs)
  case (Cons x xs)
  have "length (f x) \<le> k" "length (concat (map f xs)) \<le> k * length xs" using Cons by simp_all
  then show ?case by simp
qed simp

lemma dev_functions_length: "length (dev_functions E d seg bus dev) \<le> 8"
  using length_filter_le [of "present E d" "map (PCIE_CREATE_BDF seg bus dev) (map of_nat [0..<8])"]
  by (simp add: dev_functions_def)

lemma uniform_scan_length: "length (scan_list uniform_env 0x40400010) \<le> 256"
proof -
  have "scan_list uniform_env 0x40400010 = concat (map (dev_functions uniform_env 0x40400010 0 0) (map of_nat [0..<32]))"
    by (simp add: scan_list_def uniform_indices del: upt_Suc map_map)
  also have "length \<dots> \<le> 8 * length (map of_nat [0..<32] :: u32 list)"
    by (rule length_concat_le) (rule dev_functions_length)
  finally show ?thesis by simp
qed

lemma scan_list_mapped:
  assumes "all_scannable E d" "b \<in> set (scan_list E d)"
  shows "cfg_mapped E b"
proof -
  from assms(2) obtain i bus dev f where "i \<in> set (ecam_indices E)" "bus \<in> set (ecam_buses E i)"
    "dev \<in> set (map of_nat [0..<32])" "f \<in> set (map of_nat [0..<8])"
    "b = PCIE_CREATE_BDF (ucast (val_pcie_get_info E PCIE_INFO_SEGMENT i)) bus dev f"
    by (fastforce simp: scan_list_def dev_functions_def split: if_splits)
  with assms(1) show ?thesis unfolding all_scannable_def scannable_def by blast
qed

subsection \<open>Properties\<close>

text \<open>
  \<open>val_pcie_increment_bdf\<close> steps to the next function number of the segment, carries from
  function to device and from device to bus, and at the last function of an ECAM region goes to the
  first function of the next region, or returns 0 behind the last one.
\<close>

theorem increment_bdf_successor:
  assumes "last_ecam E (PCIE_EXTRACT_BDF_SEG bdf) (unat (val_pcie_get_info E PCIE_INFO_NUM_ECAM 0)) = Some i"
    and "PCIE_EXTRACT_BDF_DEV bdf < 32" and "PCIE_EXTRACT_BDF_FUNC bdf < 8"
    and "val_pcie_get_info E PCIE_INFO_END_BUS i < 256"
  shows "let r = val_pcie_increment_bdf E bdf
     in if PCIE_EXTRACT_BDF_FUNC bdf = 7 \<and> PCIE_EXTRACT_BDF_DEV bdf = 31 \<and>
           \<not> ucast (PCIE_EXTRACT_BDF_BUS bdf) < val_pcie_get_info E PCIE_INFO_END_BUS i
        then r = (if ucast (i + 1) < val_pcie_get_info E PCIE_INFO_NUM_ECAM 0
                  then PCIE_CREATE_BDF (ucast (val_pcie_get_info E PCIE_INFO_SEGMENT (i + 1)))
                         (ucast (val_pcie_get_info E PCIE_INFO_START_BUS (i + 1))) 0 0
                  else 0)
        else PCIE_EXTRACT_BDF_SEG r = PCIE_EXTRACT_BDF_SEG bdf \<and> PCIE_EXTRACT_BDF_DEV r < 32 \<and>
             PCIE_EXTRACT_BDF_FUNC r < 8 \<and> function_number r = function_number bdf + 1"
proof -
  let ?s = "PCIE_EXTRACT_BDF_SEG bdf" and ?b = "PCIE_EXTRACT_BDF_BUS bdf" and ?d = "PCIE_EXTRACT_BDF_DEV bdf"
    and ?f = "PCIE_EXTRACT_BDF_FUNC bdf"
  have d256: "?d < 256" "?f < 256" using assms(2,3) by (simp_all add: word_less_nat_alt)
  consider (func) "?f < 7" | (dev) "?f = 7" "?d < 31"
    | (bus) "?f = 7" "?d = 31" "ucast ?b < val_pcie_get_info E PCIE_INFO_END_BUS i"
    | (last) "?f = 7" "?d = 31" "\<not> ucast ?b < val_pcie_get_info E PCIE_INFO_END_BUS i"
    using u32_below(1) [OF assms(2)] u32_below(2) [OF assms(3)] by auto
  then show ?thesis
  proof cases
    case func
    then have f: "?f + 1 < 8" "unat (?f + 1) = unat ?f + 1" by (simp_all add: word_less_nat_alt unat_word_ariths)
    have r: "val_pcie_increment_bdf E bdf = PCIE_CREATE_BDF ?s ?b ?d (?f + 1)"
      using assms(1) func by (simp add: val_pcie_increment_bdf_def Let_def)
    have "?f + 1 < 256" using f(1) by (simp add: word_less_nat_alt)
    note fl = bdf_fields [OF seg_less bus_less d256(1) this, of bdf bdf]
    show ?thesis using func f assms(2) unfolding Let_def r function_number_def fl by auto
  next
    case dev
    then have f: "?d + 1 < 32" "unat (?d + 1) = unat ?d + 1" by (simp_all add: word_less_nat_alt unat_word_ariths)
    have r: "val_pcie_increment_bdf E bdf = PCIE_CREATE_BDF ?s ?b (?d + 1) 0"
      using assms(1) dev by (simp add: val_pcie_increment_bdf_def Let_def)
    have "?d + 1 < 256" using f(1) by (simp add: word_less_nat_alt)
    note fl = bdf_fields [OF seg_less bus_less this, of 0 bdf bdf]
    show ?thesis using dev f unfolding Let_def r function_number_def by (auto simp: fl)
  next
    case bus
    have "unat ?b < unat (val_pcie_get_info E PCIE_INFO_END_BUS i)"
      using bus(3) by (simp add: word_less_nat_alt)
    then have b: "unat ?b < 255" using assms(4) by (simp add: word_less_nat_alt)
    then have f: "?b + 1 < 256" "unat (?b + 1) = unat ?b + 1" by (simp_all add: word_less_nat_alt unat_word_ariths)
    have r: "val_pcie_increment_bdf E bdf = PCIE_CREATE_BDF ?s (?b + 1) 0 0"
      using assms(1) bus by (simp add: val_pcie_increment_bdf_def Let_def)
    note fl = bdf_fields [OF seg_less f(1), of 0 0 bdf]
    show ?thesis using bus f unfolding Let_def r function_number_def by (auto simp: fl)
  next
    case last
    then show ?thesis using assms(1) by (simp add: val_pcie_increment_bdf_def Let_def)
  qed
qed

theorem increment_bdf_successor_witness:
  "function_number (val_pcie_increment_bdf example_env 0x00001F07) = function_number 0x00001F07 + 1"
proof -
  have n: "unat (val_pcie_get_info example_env PCIE_INFO_NUM_ECAM 0) = 1"
    and e: "val_pcie_get_info example_env PCIE_INFO_END_BUS 0 = 1"
    and l: "last_ecam example_env (PCIE_EXTRACT_BDF_SEG 0x00001F07) (Suc 0) = Some 0"
    and f: "PCIE_EXTRACT_BDF_DEV 0x00001F07 = 31" "PCIE_EXTRACT_BDF_FUNC 0x00001F07 = 7" "PCIE_EXTRACT_BDF_BUS 0x00001F07 = 0"
    by code_simp+
  show ?thesis
    using increment_bdf_successor [of example_env "0x00001F07" 0]
    by (simp add: n e l f Let_def del: last_ecam.simps)
qed



text \<open>
  Property C12. When the configuration space of every function below the end buses of the ECAM regions is
  reachable and \<open>val_pcie_create_device_bdf_table\<close> succeeds, the table lists exactly the functions that
  answer, are no host bridge and have a PCI Express capability, in scan order, and the root port stored
  with each entry is the one that \<open>val_pcie_get_rootport\<close> finds on the final table.
\<close>

theorem bdf_table_complete:
  assumes "all_scannable E d" and "length (scan_list E d) < 2 ^ 32"
    and "val_pcie_create_device_bdf_table E d (Some m) None = Some (0, Some t)"
  shows "table_bdfs t = scan_list E d \<and>
    (\<forall>i < bdf_num_entries t. \<exists>status. val_pcie_get_rootport E d t (attr_bdf (device t i)) =
        Some (status, attr_rp_bdf (device t i)) \<and> \<not> (status \<noteq> 0 \<and> attr_rp_bdf (device t i) = 0))"
proof -
  let ?t1 = "add_all (scan_list E d) (m\<lparr>bdf_num_entries := 0\<rparr>)"
  have pop: "val_pcie_populate_device_rootport E d ?t1 = Some (False, t)"
    using assms(3) by (auto simp: val_pcie_create_device_bdf_table_def Let_def probe_ecams_all [OF assms(1)]
        split: if_splits Option.bind_splits)
  have "table_bdfs (m\<lparr>bdf_num_entries := 0\<rparr>) = []" by (simp add: table_bdfs_def table_indices_def)
  with add_all_table [of "m\<lparr>bdf_num_entries := 0\<rparr>" "scan_list E d"] assms(2)
  have t1: "table_bdfs ?t1 = scan_list E d" by simp
  have inj: "distinct (table_indices ?t1)"
    unfolding table_indices_def using unat_bound [of "bdf_num_entries ?t1"] by (intro distinct_of_nat) simp
  note sp = populate_loop_spec [OF pop [unfolded val_pcie_populate_device_rootport_def] inj]
  have "i \<in> set (table_indices ?t1)" if "i < bdf_num_entries t" for i
    using that sp by (auto simp: table_indices_def word_less_nat_alt intro!: image_eqI [of _ _ "unat i"])
  moreover have "attr_bdf (device t i) = attr_bdf (device ?t1 i)" if "i < bdf_num_entries t" for i
    using sp calculation [OF that] unfolding table_bdfs_def table_indices_def by (auto simp: map_eq_conv)
  ultimately show ?thesis
    using sp t1 get_rootport_cong [of t ?t1 E d] by auto
qed

theorem bdf_table_complete_witness:
  "\<exists>t. val_pcie_create_device_bdf_table uniform_env 0x40400010
         (Some \<lparr>bdf_num_entries = 7, device = (\<lambda>_. \<lparr>attr_bdf = 0, attr_rp_bdf = 0\<rparr>)\<rparr>) None = Some (0, Some t) \<and>
     table_bdfs t = scan_list uniform_env 0x40400010 \<and> 0 \<in> set (scan_list uniform_env 0x40400010)"
proof -
  let ?E = uniform_env and ?d = "0x40400010 :: u32"
  let ?m = "\<lparr>bdf_num_entries = 7, device = (\<lambda>_. \<lparr>attr_bdf = 0, attr_rp_bdf = 0\<rparr>)\<rparr>"
  let ?m0 = "?m\<lparr>bdf_num_entries := 0\<rparr>"
  let ?t1 = "add_all (scan_list ?E ?d) ?m0"
  have len: "length (scan_list ?E ?d) < 2 ^ 32" using uniform_scan_length by simp
  have "table_bdfs ?m0 = []" by (simp add: table_bdfs_def table_indices_def)
  with add_all_table [of ?m0 "scan_list ?E ?d"] len have t1: "table_bdfs ?t1 = scan_list ?E ?d" by simp
  have rp: "val_pcie_get_rootport ?E ?d t (attr_bdf (device ?t1 i)) = Some (0, attr_bdf (device ?t1 i))"
    if "i \<in> set (table_indices ?t1)" for t i
  proof -
    have "attr_bdf (device ?t1 i) \<in> set (table_bdfs ?t1)" using that by (simp add: table_bdfs_def)
    then have "cfg_mapped ?E (attr_bdf (device ?t1 i))" using scan_list_mapped [OF uniform_scannable] t1 by simp
    then show ?thesis by (simp add: val_pcie_get_rootport_def uniform_port)
  qed
  from populate_loop_total [of "table_indices ?t1", OF rp refl]
  obtain t where t: "val_pcie_populate_device_rootport ?E ?d ?t1 = Some (False, t)"
    by (auto simp: val_pcie_populate_device_rootport_def)
  have c: "val_pcie_create_device_bdf_table ?E ?d (Some \<lparr>bdf_num_entries = 7, device = (\<lambda>_. \<lparr>attr_bdf = 0, attr_rp_bdf = 0\<rparr>)\<rparr>) None = Some (0, Some t)"
    using t by (simp add: val_pcie_create_device_bdf_table_def uniform_indices(4) probe_ecams_all [OF uniform_scannable])
  have "cfg_mapped ?E (PCIE_CREATE_BDF 0 0 0 0)" by (rule uniform_mapped) simp_all
  then have m: "cfg_mapped ?E 0" by (simp add: PCIE_CREATE_BDF_def)
  then have "present ?E ?d 0"
    by (simp add: present_def rd_cfg_def read_cfg_mapped uniform_value pcie_status_defs uniform_cap val_pcie_is_host_bridge_def)
  then have "0 \<in> set (dev_functions ?E ?d 0 0 0)" using m
    by (auto simp: dev_functions_def PCIE_CREATE_BDF_def rd_cfg_def read_cfg_mapped uniform_value pcie_status_defs
        intro!: image_eqI [of _ _ 0])
  then have "0 \<in> set (scan_list ?E ?d)"
    by (auto simp: scan_list_def uniform_indices simp del: upt_Suc intro!: bexI [of _ 0])
  with bdf_table_complete [OF uniform_scannable len c] c show ?thesis by blast
qed

text \<open>
  Property C14. When the capability list and the extended capability list of a function end,
  \<open>val_pcie_find_capability\<close> returns the first capability with the requested identifier, and
  \<open>PCIE_CAP_NOT_FOUND\<close> with the output parameter unchanged when there is none.
\<close>

theorem find_capability_finds_first:
  assumes "cfg_mapped E bdf" and "cfg_value_at E d bdf TYPE01_CPR \<noteq> PCIE_UNKNOWN_RESPONSE"
    and "cap_list (cfg_value_at E d bdf) 8 0xff (cfg_value_at E d bdf TYPE01_CPR AND 0xff) caps"
    and "cap_list (cfg_value_at E d bdf) 20 0xfff 0x100 ecaps"
  shows "val_pcie_find_capability E d bdf PCIE_CAP cid old =
      Some (case List.find (\<lambda>x. cfg_value_at E d bdf x AND 0xff = cid) caps of
              Some x \<Rightarrow> (PCIE_SUCCESS, x) | None \<Rightarrow> (PCIE_CAP_NOT_FOUND, old)) \<and>
    val_pcie_find_capability E d bdf PCIE_ECAP cid old =
      Some (case List.find (\<lambda>x. cfg_value_at E d bdf x AND 0xffff = cid) ecaps of
              Some x \<Rightarrow> (PCIE_SUCCESS, x) | None \<Rightarrow> (PCIE_CAP_NOT_FOUND, old))"
  using assms(2) cap_loop_list [OF assms(1,3)] cap_loop_list [OF assms(1,4)]
  by (simp add: val_pcie_find_capability_def read_cfg_mapped [OF assms(1)] pcie_status_defs)

theorem find_capability_finds_first_witness:
  "val_pcie_find_capability example_env example_cfg 0x100 PCIE_CAP 0x10 0 = Some (PCIE_SUCCESS, 0x50)"
proof -
  have v: "cfg_value_at example_env example_cfg 0x100 0x34 = 0x40"
    "cfg_value_at example_env example_cfg 0x100 0x40 = 0x5001"
    "cfg_value_at example_env example_cfg 0x100 0x50 = 0x00420010"
    "cfg_value_at example_env example_cfg 0x100 0x100 = 0x1"
    by code_simp+
  show ?thesis
    using find_capability_finds_first [OF example_mapped, of example_cfg "[0x40, 0x50]" "[0x100]" "0x10" 0]
    by (simp add: v pcie_status_defs)
qed

text \<open>
  Property C17. When the list of capabilities of a function runs into a cycle without the requested
  identifier, the search never returns: nothing in the loop counts the visited capabilities.
\<close>

theorem find_capability_cyclic:
  assumes "cfg_mapped E bdf" and "cfg_value_at E d bdf TYPE01_CPR \<noteq> PCIE_UNKNOWN_RESPONSE"
    and "cfg_value_at E d bdf TYPE01_CPR AND 0xff \<in> S"
    and "\<forall>x\<in>S. x \<noteq> 0 \<and> cfg_value_at E d bdf x AND 0xff \<noteq> cid \<and> shr (cfg_value_at E d bdf x) 8 AND 0xff \<in> S"
  shows "val_pcie_find_capability E d bdf PCIE_CAP cid old = None"
  using assms(2) cap_loop_cyclic [OF assms(1,3), where idmask = "0xff" and cid = cid and nshift = 8 and nmask = "0xff"] assms(4)
  by (auto simp: val_pcie_find_capability_def read_cfg_mapped [OF assms(1)] pcie_status_defs)

theorem find_capability_cyclic_witness:
  "val_pcie_find_capability example_env (example_cfg(0x40008050 := 0x4009)) 0x100 PCIE_CAP 0x10 0 = None"
proof -
  let ?d = "example_cfg(0x40008050 := 0x4009)"
  have v: "cfg_value_at example_env ?d 0x100 0x34 = 0x40" "cfg_value_at example_env ?d 0x100 0x40 = 0x5001"
    "cfg_value_at example_env ?d 0x100 0x50 = 0x4009" by code_simp+
  show ?thesis
    using find_capability_cyclic [OF example_mapped, of ?d "{0x40, 0x50}" "0x10"] 
    by (simp add: v pcie_status_defs)
qed



text \<open>
  \<open>val_pcie_get_rootport\<close> takes the first function of the table whose word at offset 0x18 covers the
  bus as a bridge bus range, whatever the type of this function is: the condition contains the assignment
  \<open>dp_type = iEP_RP\<close>, so the port type is never tested.
\<close>

theorem rootport_ignores_port_type:
  assumes "val_pcie_device_port_type E d bdf = Some ty" and "ty \<noteq> RP" and "ty \<noteq> RCiEP" and "ty \<noteq> RCEC"
    and "table_bdfs t = cand # rest" and "cfg_mapped E cand" and "val_pcie_device_port_type E d cand = Some ty'"
    and "sec_bus_of (cfg_value_at E d cand TYPE1_PBN) \<le> PCIE_EXTRACT_BDF_BUS bdf"
    and "PCIE_EXTRACT_BDF_BUS bdf \<le> sub_bus_of (cfg_value_at E d cand TYPE1_PBN)"
  shows "val_pcie_get_rootport E d t bdf = Some (0, cand)"
  using assms by (simp add: val_pcie_get_rootport_def read_cfg_mapped Let_def port_type_defs)

theorem rootport_ignores_port_type_witness:
  "val_pcie_device_port_type example_env bridge_cfg 0x100 = Some EP \<and>
   val_pcie_get_rootport example_env bridge_cfg
      \<lparr>bdf_num_entries = 1, device = (\<lambda>_. \<lparr>attr_bdf = 0x100, attr_rp_bdf = 0\<rparr>)\<rparr> 0x10200 = Some (0, 0x100)"
proof -
  have p: "val_pcie_device_port_type example_env bridge_cfg 0x100 = Some EP"
    "val_pcie_device_port_type example_env bridge_cfg 0x10200 = Some EP" by code_simp+
  have tb: "table_bdfs \<lparr>bdf_num_entries = 1, device = (\<lambda>_. \<lparr>attr_bdf = 0x100, attr_rp_bdf = 0\<rparr>)\<rparr> = [0x100]"
    by (simp add: table_bdfs_def table_indices_def)
  have b: "sec_bus_of (cfg_value_at example_env bridge_cfg 0x100 TYPE1_PBN) \<le> PCIE_EXTRACT_BDF_BUS 0x10200"
    "PCIE_EXTRACT_BDF_BUS 0x10200 \<le> sub_bus_of (cfg_value_at example_env bridge_cfg 0x100 TYPE1_PBN)" by code_simp+
  show ?thesis
    using rootport_ignores_port_type [OF p(2) _ _ _ tb example_mapped p(1) b] p(1)
    by (simp add: port_type_defs)
qed

end
