(* ===== verification/Acs_Iovirt.thy ===== *)
theory Acs_Iovirt
  imports Acs_Status
begin

text \<open>
  \<^verbatim>\<open>val/src/acs_iovirt.c\<close> and the queries of \<^verbatim>\<open>platform/pal_uefi/src/pal_iovirt.c\<close>: the table of I/O
  virtualisation blocks (root complexes, SMMUs, ITS groups, named components, PMCGs), the queries on
  it, and the way from a PCIe requester identifier to stream, device and ITS identifiers.

  A block is a record; the C union \<open>NODE_DATA\<close> is the list of its 64 words, so that a
  read through a member that does not belong to the type of the block gives what the code reads.
  References between blocks are byte offsets from the start of the table; \<open>block_at\<close> follows them, and
  \<open>None\<close> is a reference to something that is not the start of a block.  The identifiers of
  an ITS group overlay the words of the first mapping.  \<open>table_addr\<close> is the address of the table.
  Console messages are left out.
\<close>

subsection \<open>Blocks\<close>

definition IOVIRT_NODE_ITS_GROUP :: u32 where "IOVIRT_NODE_ITS_GROUP = 0x00"
definition IOVIRT_NODE_NAMED_COMPONENT :: u32 where "IOVIRT_NODE_NAMED_COMPONENT = 0x01"
definition IOVIRT_NODE_PCI_ROOT_COMPLEX :: u32 where "IOVIRT_NODE_PCI_ROOT_COMPLEX = 0x02"
definition IOVIRT_NODE_SMMU :: u32 where "IOVIRT_NODE_SMMU = 0x03"
definition IOVIRT_NODE_SMMU_V3 :: u32 where "IOVIRT_NODE_SMMU_V3 = 0x04"
definition IOVIRT_NODE_PMCG :: u32 where "IOVIRT_NODE_PMCG = 0x05"

lemmas iovirt_node_defs =
  IOVIRT_NODE_ITS_GROUP_def IOVIRT_NODE_NAMED_COMPONENT_def IOVIRT_NODE_PCI_ROOT_COMPLEX_def
  IOVIRT_NODE_SMMU_def IOVIRT_NODE_SMMU_V3_def IOVIRT_NODE_PMCG_def

record ID_MAP =
  map_input_base :: u32
  map_id_count :: u32
  map_output_base :: u32
  map_output_ref :: u32

record IOVIRT_BLOCK =
  blk_type :: u32
  num_data_map :: u32
  blk_data :: "u32 list"
  blk_flags :: u32
  data_map :: "ID_MAP list"

record IOVIRT_INFO_TABLE =
  num_blocks :: u32
  num_smmus :: u32
  num_pci_rcs :: u32
  num_named_components :: u32
  num_its_groups :: u32
  num_pmcgs :: u32
  table_addr :: u64
  blocks :: "IOVIRT_BLOCK list"

text \<open>The members of the union: words of the block's data, 64-bit members in two words.\<close>

definition data_word :: "IOVIRT_BLOCK \<Rightarrow> nat \<Rightarrow> u32" where
  "data_word b i = (if i < length (blk_data b) then blk_data b ! i else 0)"

definition data_dword :: "IOVIRT_BLOCK \<Rightarrow> nat \<Rightarrow> u64" where
  "data_dword b i = ucast (data_word b i) OR shl (ucast (data_word b (i + 1))) 32"

definition rc_segment :: "IOVIRT_BLOCK \<Rightarrow> u32" where "rc_segment b = data_word b 0"
definition rc_ats_attr :: "IOVIRT_BLOCK \<Rightarrow> u32" where "rc_ats_attr b = data_word b 1"
definition rc_cca :: "IOVIRT_BLOCK \<Rightarrow> u32" where "rc_cca b = data_word b 2"
definition rc_smmu_base :: "IOVIRT_BLOCK \<Rightarrow> u64" where "rc_smmu_base b = data_dword b 4"
definition smmu_arch_major_rev :: "IOVIRT_BLOCK \<Rightarrow> u32" where "smmu_arch_major_rev b = data_word b 0"
definition smmu_base :: "IOVIRT_BLOCK \<Rightarrow> u64" where "smmu_base b = data_dword b 2"

text \<open>
  \<open>IOVIRT_NEXT_BLOCK\<close>: 268 bytes in front of the mappings and 16 bytes for each of them; the first
  block lies 24 bytes behind the start of the table.
\<close>

definition block_bytes :: "IOVIRT_BLOCK \<Rightarrow> u64" where
  "block_bytes b = 268 + ucast (num_data_map b) * 16"

definition first_block :: u64 where
  "first_block = 24"

fun block_from :: "IOVIRT_BLOCK list \<Rightarrow> u64 \<Rightarrow> u64 \<Rightarrow> IOVIRT_BLOCK option" where
  "block_from [] cur off = None"
| "block_from (b # bs) cur off = (if cur = off then Some b else block_from bs (cur + block_bytes b) off)"

definition block_at :: "IOVIRT_INFO_TABLE \<Rightarrow> u64 \<Rightarrow> IOVIRT_BLOCK option" where
  "block_at t off = block_from (blocks t) first_block off"

text \<open>The blocks that \<open>for (i = 0; i < num_blocks; i++, block = IOVIRT_NEXT_BLOCK(block))\<close> visits.\<close>

definition live_blocks :: "IOVIRT_INFO_TABLE \<Rightarrow> IOVIRT_BLOCK list" where
  "live_blocks t = take (unat (num_blocks t)) (blocks t)"

definition block_maps :: "IOVIRT_BLOCK \<Rightarrow> ID_MAP list" where
  "block_maps b = take (unat (num_data_map b)) (data_map b)"

definition is_smmu :: "IOVIRT_BLOCK \<Rightarrow> bool" where
  "is_smmu b \<longleftrightarrow> blk_type b = IOVIRT_NODE_SMMU \<or> blk_type b = IOVIRT_NODE_SMMU_V3"

subsection \<open>Queries by index\<close>

datatype SMMU_INFO_e = SMMU_NUM_CTRL | SMMU_CTRL_BASE | SMMU_CTRL_ARCH_MAJOR_REV | SMMU_IOVIRT_BLOCK
  | SMMU_SSID_BITS | SMMU_IN_ADDR_SIZE | SMMU_OUT_ADDR_SIZE

datatype PCIE_RC_INFO_e = NUM_PCIE_RC | RC_SEGMENT_NUM | RC_ATS_ATTRIBUTE | RC_MEM_ATTRIBUTE
  | RC_IOVIRT_BLOCK

text \<open>
  The two search loops; \<open>cur\<close> is the offset of the block at the head of the list and the result at
  the end is the check of \<open>index\<close> against the number \<open>j\<close> of blocks counted, \<open>j - 1\<close> wrapping at 0.
\<close>

fun smmu_info_loop :: "SMMU_INFO_e \<Rightarrow> u32 \<Rightarrow> u64 \<Rightarrow> IOVIRT_BLOCK list \<Rightarrow> u64 \<Rightarrow> u32 \<Rightarrow> u64" where
  "smmu_info_loop ty index addr [] cur j = (if index > j - 1 then 0 else ucast j)"
| "smmu_info_loop ty index addr (b # bs) cur j =
     (if blk_type b = IOVIRT_NODE_SMMU \<or> blk_type b = IOVIRT_NODE_SMMU_V3
      then if j = index
           then (case ty of
                   SMMU_CTRL_ARCH_MAJOR_REV \<Rightarrow> ucast (smmu_arch_major_rev b)
                 | SMMU_CTRL_BASE \<Rightarrow> smmu_base b
                 | SMMU_IOVIRT_BLOCK \<Rightarrow> addr + cur
                 | _ \<Rightarrow> 0)
           else smmu_info_loop ty index addr bs (cur + block_bytes b) (j + 1)
      else smmu_info_loop ty index addr bs (cur + block_bytes b) j)"

definition val_iovirt_get_smmu_info :: "IOVIRT_INFO_TABLE option \<Rightarrow> SMMU_INFO_e \<Rightarrow> u32 \<Rightarrow> u64" where
  "val_iovirt_get_smmu_info g ty index =
     (case g of
        None \<Rightarrow> 0
      | Some t \<Rightarrow>
          if ty = SMMU_NUM_CTRL then ucast (num_smmus t)
          else smmu_info_loop ty index (table_addr t) (live_blocks t) first_block 0)"

fun rc_info_loop :: "PCIE_RC_INFO_e \<Rightarrow> u32 \<Rightarrow> u64 \<Rightarrow> IOVIRT_BLOCK list \<Rightarrow> u64 \<Rightarrow> u32 \<Rightarrow> u64" where
  "rc_info_loop ty index addr [] cur j = (if index > j - 1 then 0 else ucast j)"
| "rc_info_loop ty index addr (b # bs) cur j =
     (if blk_type b = IOVIRT_NODE_PCI_ROOT_COMPLEX
      then if j = index
           then (case ty of
                   RC_SEGMENT_NUM \<Rightarrow> ucast (rc_segment b)
                 | RC_MEM_ATTRIBUTE \<Rightarrow> ucast (rc_cca b)
                 | RC_ATS_ATTRIBUTE \<Rightarrow> ucast (rc_ats_attr b)
                 | RC_IOVIRT_BLOCK \<Rightarrow> addr + cur
                 | _ \<Rightarrow> 0)
           else rc_info_loop ty index addr bs (cur + block_bytes b) (j + 1)
      else rc_info_loop ty index addr bs (cur + block_bytes b) j)"

definition val_iovirt_get_pcie_rc_info :: "IOVIRT_INFO_TABLE option \<Rightarrow> PCIE_RC_INFO_e \<Rightarrow> u32 \<Rightarrow> u64" where
  "val_iovirt_get_pcie_rc_info g ty index =
     (case g of
        None \<Rightarrow> 0
      | Some t \<Rightarrow>
          if ty = NUM_PCIE_RC then ucast (num_pci_rcs t)
          else rc_info_loop ty index (table_addr t) (live_blocks t) first_block 0)"

subsection \<open>Flags of a block\<close>

text \<open>\<open>None\<close> is an access through a pointer that does not point to a block of the table.\<close>

definition pal_iovirt_check_unique_ctx_intid :: "IOVIRT_INFO_TABLE \<Rightarrow> u64 \<Rightarrow> u32 option" where
  "pal_iovirt_check_unique_ctx_intid t smmu_block =
     map_option (\<lambda>b. if blk_flags b AND shl 1 2 \<noteq> 0 then 0 else 1) (block_at t (smmu_block - table_addr t))"

definition pal_iovirt_unique_rid_strid_map :: "IOVIRT_INFO_TABLE \<Rightarrow> u64 \<Rightarrow> u32 option" where
  "pal_iovirt_unique_rid_strid_map t rc_block =
     map_option (\<lambda>b. if blk_flags b AND shl 1 1 \<noteq> 0 then 0 else 1) (block_at t (rc_block - table_addr t))"

definition val_iovirt_check_unique_ctx_intid :: "IOVIRT_INFO_TABLE option \<Rightarrow> u32 \<Rightarrow> u32 option" where
  "val_iovirt_check_unique_ctx_intid g smmu_index =
     Option.bind g (\<lambda>t. pal_iovirt_check_unique_ctx_intid t (val_iovirt_get_smmu_info g SMMU_IOVIRT_BLOCK smmu_index))"

definition val_iovirt_unique_rid_strid_map :: "IOVIRT_INFO_TABLE option \<Rightarrow> u32 \<Rightarrow> u32 option" where
  "val_iovirt_unique_rid_strid_map g rc_index =
     Option.bind g (\<lambda>t. pal_iovirt_unique_rid_strid_map t (val_iovirt_get_pcie_rc_info g RC_IOVIRT_BLOCK rc_index))"

subsection \<open>The SMMU of a root complex\<close>

text \<open>The loop compares the word of every block, whatever its type is.\<close>

fun rc_smmu_base_loop :: "u32 \<Rightarrow> IOVIRT_BLOCK list \<Rightarrow> u64" where
  "rc_smmu_base_loop seg [] = 0"
| "rc_smmu_base_loop seg (b # bs) = (if rc_segment b = seg then rc_smmu_base b else rc_smmu_base_loop seg bs)"

definition pal_iovirt_get_rc_smmu_base :: "IOVIRT_INFO_TABLE \<Rightarrow> u32 \<Rightarrow> u64" where
  "pal_iovirt_get_rc_smmu_base t seg = rc_smmu_base_loop seg (live_blocks t)"

text \<open>\<open>while (num_smmu--)\<close> of \<open>val_iovirt_get_rc_smmu_index\<close>; \<open>base_of\<close> is \<open>val_smmu_get_info(SMMU_CTRL_BASE, \<dots>)\<close>.\<close>

fun smmu_index_loop :: "(u32 \<Rightarrow> u64) \<Rightarrow> u64 \<Rightarrow> nat \<Rightarrow> u32" where
  "smmu_index_loop base_of base 0 = ACS_INVALID_INDEX"
| "smmu_index_loop base_of base (Suc n) =
     (if base = base_of (of_nat n) then of_nat n else smmu_index_loop base_of base n)"

definition val_iovirt_get_rc_smmu_index :: "IOVIRT_INFO_TABLE \<Rightarrow> (SMMU_INFO_e \<Rightarrow> u32 \<Rightarrow> u64) \<Rightarrow> u32 \<Rightarrow> u32" where
  "val_iovirt_get_rc_smmu_index t smmu_info seg =
     (let base = pal_iovirt_get_rc_smmu_base t seg
      in if base \<noteq> 0
         then smmu_index_loop (smmu_info SMMU_CTRL_BASE) base (unat (ucast (smmu_info SMMU_NUM_CTRL 0) :: u32))
         else ACS_INVALID_INDEX)"

subsection \<open>From requester to device identifier\<close>

definition in_map :: "u32 \<Rightarrow> ID_MAP \<Rightarrow> bool" where
  "in_map x m \<longleftrightarrow> x \<ge> map_input_base m \<and> x \<le> map_input_base m + map_id_count m"

definition map_id :: "u32 \<Rightarrow> ID_MAP \<Rightarrow> u32" where
  "map_id x m = (x - map_input_base m) + map_output_base m"

text \<open>
  The mappings of the root complex are all visited, so the last one that matches counts; the
  result is \<open>(id, oref)\<close>.  The mappings of the SMMU are left at the first match.
\<close>

fun rc_map_loop :: "u32 \<Rightarrow> ID_MAP list \<Rightarrow> (u32 \<times> u32) option \<Rightarrow> (u32 \<times> u32) option" where
  "rc_map_loop rid [] r = r"
| "rc_map_loop rid (m # ms) r =
     rc_map_loop rid ms (if in_map rid m then Some (map_id rid m, map_output_ref m) else r)"

fun smmu_map_loop :: "u32 \<Rightarrow> ID_MAP list \<Rightarrow> (u32 \<times> u32) option" where
  "smmu_map_loop sid [] = None"
| "smmu_map_loop sid (m # ms) =
     (if in_map sid m then Some (map_id sid m, map_output_ref m) else smmu_map_loop sid ms)"

fun rc_search :: "u32 \<Rightarrow> u32 \<Rightarrow> IOVIRT_BLOCK list \<Rightarrow> (u32 \<times> u32) option" where
  "rc_search rid segment [] = None"
| "rc_search rid segment (b # bs) =
     (if blk_type b = IOVIRT_NODE_PCI_ROOT_COMPLEX \<and> rc_segment b = segment
      then rc_map_loop rid (block_maps b) None
      else rc_search rid segment bs)"

text \<open>\<open>block->data_map[0].id[0]\<close>.\<close>

definition first_its_id :: "IOVIRT_BLOCK \<Rightarrow> u32" where
  "first_its_id b = (case data_map b of [] \<Rightarrow> 0 | m # _ \<Rightarrow> map_input_base m)"

record device_ids =
  device_id :: u32
  stream_id :: u32
  its_id :: u32

text \<open>
  \<open>val_iovirt_get_device_info\<close> with all output pointers valid: \<open>Inl\<close> is the status \<open>ACS_STATUS_ERR\<close>,
  \<open>Inr\<close> the status 0 with the three identifiers.
\<close>

definition val_iovirt_get_device_info :: "IOVIRT_INFO_TABLE option \<Rightarrow> u32 \<Rightarrow> u32
    \<Rightarrow> (u32 + device_ids) option" where
  "val_iovirt_get_device_info g rid segment =
     (case g of
        None \<Rightarrow> Some (Inl ACS_STATUS_ERR)
      | Some t \<Rightarrow>
          (case rc_search rid segment (live_blocks t) of
             None \<Rightarrow> Some (Inl ACS_STATUS_ERR)
           | Some (out, oref) \<Rightarrow> do {
               b \<leftarrow> block_at t (ucast oref);
               if blk_type b = IOVIRT_NODE_ITS_GROUP
               then Some (Inr \<lparr>device_id = out, stream_id = NOT 0, its_id = first_its_id b\<rparr>)
               else if blk_type b = IOVIRT_NODE_SMMU \<or> blk_type b = IOVIRT_NODE_SMMU_V3
               then (case smmu_map_loop out (block_maps b) of
                       None \<Rightarrow> Some (Inl ACS_STATUS_ERR)
                     | Some (did, oref2) \<Rightarrow> do {
                         b2 \<leftarrow> block_at t (ucast oref2);
                         Some (Inr \<lparr>device_id = did, stream_id = out,
                           its_id = (if blk_type b2 = IOVIRT_NODE_ITS_GROUP then first_its_id b2 else 0)\<rparr>) })
               else Some (Inl ACS_STATUS_ERR) }))"

subsection \<open>Specification of the way from requester to device\<close>

text \<open>
  \<open>maps_to b x y ref\<close>: some mapping of the block \<open>b\<close> sends \<open>x\<close> to \<open>y\<close> at the block with offset \<open>ref\<close>;
  \<open>one_map b x\<close>: at most one does.  \<open>resolves\<close> is the path through the topology.
\<close>

definition maps_to :: "IOVIRT_BLOCK \<Rightarrow> u32 \<Rightarrow> u32 \<Rightarrow> u32 \<Rightarrow> bool" where
  "maps_to b x y ref \<longleftrightarrow> (\<exists>m\<in>set (block_maps b). in_map x m \<and> y = map_id x m \<and> ref = map_output_ref m)"

definition one_map :: "IOVIRT_BLOCK \<Rightarrow> u32 \<Rightarrow> bool" where
  "one_map b x \<longleftrightarrow> length (filter (in_map x) (block_maps b)) \<le> 1"

definition rc_of :: "IOVIRT_INFO_TABLE \<Rightarrow> u32 \<Rightarrow> IOVIRT_BLOCK option" where
  "rc_of t segment = List.find (\<lambda>b. blk_type b = IOVIRT_NODE_PCI_ROOT_COMPLEX \<and> rc_segment b = segment) (live_blocks t)"

inductive resolves :: "IOVIRT_INFO_TABLE \<Rightarrow> u32 \<Rightarrow> u32 \<Rightarrow> device_ids \<Rightarrow> bool" for t rid segment where
  direct: "\<lbrakk>rc_of t segment = Some rc; maps_to rc rid out ref; block_at t (ucast ref) = Some its;
    blk_type its = IOVIRT_NODE_ITS_GROUP\<rbrakk> \<Longrightarrow>
   resolves t rid segment \<lparr>device_id = out, stream_id = NOT 0, its_id = first_its_id its\<rparr>"
| behind_smmu: "\<lbrakk>rc_of t segment = Some rc; maps_to rc rid sid ref; block_at t (ucast ref) = Some smmu; is_smmu smmu;
    maps_to smmu sid did ref2; block_at t (ucast ref2) = Some b2\<rbrakk> \<Longrightarrow>
   resolves t rid segment \<lparr>device_id = did, stream_id = sid,
     its_id = (if blk_type b2 = IOVIRT_NODE_ITS_GROUP then first_its_id b2 else 0)\<rparr>"

inductive_cases resolves_cases: "resolves t rid segment ids"

text \<open>A table for the witnesses: an SMMUv3 in front of an ITS group and of the root complex of segment 3.\<close>

definition example_iovirt :: IOVIRT_INFO_TABLE where
  "example_iovirt =
     \<lparr>num_blocks = 3, num_smmus = 1, num_pci_rcs = 1, num_named_components = 0, num_its_groups = 1, num_pmcgs = 0,
      table_addr = 0x80000,
      blocks = [
        \<lparr>blk_type = IOVIRT_NODE_SMMU_V3, num_data_map = 1, blk_data = [3, 0, 0x2B400000, 0] @ replicate 60 0,
          blk_flags = 0, data_map = [\<lparr>map_input_base = 0, map_id_count = 0xFFFF, map_output_base = 0x10000, map_output_ref = 308\<rparr>]\<rparr>,
        \<lparr>blk_type = IOVIRT_NODE_ITS_GROUP, num_data_map = 1, blk_data = [1] @ replicate 63 0,
          blk_flags = 0, data_map = [\<lparr>map_input_base = 7, map_id_count = 0, map_output_base = 0, map_output_ref = 0\<rparr>]\<rparr>,
        \<lparr>blk_type = IOVIRT_NODE_PCI_ROOT_COMPLEX, num_data_map = 1, blk_data = [3, 1, 1, 0, 0x2B400000, 0] @ replicate 58 0,
          blk_flags = 0, data_map = [\<lparr>map_input_base = 0x100, map_id_count = 0xFF, map_output_base = 0x200, map_output_ref = 24\<rparr>]\<rparr>]\<rparr>"

subsection \<open>The interface of the searches by index\<close>

text \<open>
  Both queries return a field of the block that is the \<open>index\<close>-th of its kind, 0 when there is none.
\<close>

locale block_search =
  fixes srch :: "u32 \<Rightarrow> IOVIRT_BLOCK list \<Rightarrow> u64 \<Rightarrow> u32 \<Rightarrow> u64"
    and kind :: "IOVIRT_BLOCK \<Rightarrow> bool"
    and field :: "u64 \<Rightarrow> IOVIRT_BLOCK \<Rightarrow> u64"
  assumes at_end: "srch index [] cur j = (if index > j - 1 then 0 else ucast j)"
    and found: "kind b \<Longrightarrow> srch j (b # bs) cur j = field cur b"
    and other: "kind b \<Longrightarrow> j \<noteq> index \<Longrightarrow> srch index (b # bs) cur j = srch index bs (cur + block_bytes b) (j + 1)"
    and skip: "\<not> kind b \<Longrightarrow> srch index (b # bs) cur j = srch index bs (cur + block_bytes b) j"
begin

fun nth_of :: "nat \<Rightarrow> IOVIRT_BLOCK list \<Rightarrow> u64 \<Rightarrow> u64 option" where
  "nth_of n [] cur = None"
| "nth_of n (b # bs) cur =
     (if kind b then case n of 0 \<Rightarrow> Some (field cur b) | Suc k \<Rightarrow> nth_of k bs (cur + block_bytes b)
      else nth_of n bs (cur + block_bytes b))"

lemma nth_of_Some_iff: "(\<exists>v. nth_of n bs cur = Some v) \<longleftrightarrow> n < length (filter kind bs)"
  by (induction bs arbitrary: n cur) (auto split: nat.splits)

lemma srch_spec:
  assumes "unat j \<le> unat index" and "unat index + length bs < 2 ^ 32"
  shows "srch index bs cur j = (case nth_of (unat index - unat j) bs cur of Some v \<Rightarrow> v | None \<Rightarrow> 0)"
  using assms
proof (induction bs arbitrary: cur j)
  case Nil
  show ?case
  proof (cases "j = 0")
    case True
    then show ?thesis by (simp add: at_end)
  next
    case False
    then have "unat (j - 1) = unat j - 1" "0 < unat j" by (simp_all add: unat_minus_one unat_gt_0)
    then have "index > j - 1" using Nil.prems by (simp add: word_less_nat_alt)
    then show ?thesis by (simp add: at_end)
  qed
next
  case (Cons b bs)
  show ?case
  proof (cases "kind b \<and> j \<noteq> index")
    case True
    then have less: "unat j < unat index" using Cons.prems(1) by (metis le_neq_implies_less word_unat_eq_iff)
    then have j1: "unat (j + 1) = Suc (unat j)"
      using unat_bound [of index] by (simp add: unat_word_ariths)
    with less Cons.IH [of "j + 1" "cur + block_bytes b"] Cons.prems True
    have "srch index bs (cur + block_bytes b) (j + 1) =
        (case nth_of (unat index - Suc (unat j)) bs (cur + block_bytes b) of Some v \<Rightarrow> v | None \<Rightarrow> 0)" by simp
    with True less show ?thesis by (simp add: other Suc_diff_Suc [symmetric])
  next
    case False
    with Cons show ?thesis by (cases "kind b") (simp_all add: found skip)
  qed
qed

lemma srch_first:
  "unat index + length bs < 2 ^ 32 \<Longrightarrow>
   srch index bs cur 0 = (case nth_of (unat index) bs cur of Some v \<Rightarrow> v | None \<Rightarrow> 0)"
  using srch_spec [of 0 index] by simp

lemma nth_of_filter:
  "(\<And>cur b. field cur b = f b) \<Longrightarrow>
   nth_of n bs cur = (if n < length (filter kind bs) then Some (f (filter kind bs ! n)) else None)"
  by (induction bs arbitrary: n cur) (auto split: nat.splits)

lemma srch_filter:
  assumes "\<And>cur b. field cur b = f b" and "unat index + length bs < 2 ^ 32"
  shows "srch index bs cur 0 =
    (if unat index < length (filter kind bs) then f (filter kind bs ! unat index) else 0)"
  using srch_first [OF assms(2)] nth_of_filter [OF assms(1)] by simp

end

interpretation smmu_search: block_search "\<lambda>index bs cur j. smmu_info_loop ty index addr bs cur j" is_smmu
  "\<lambda>cur b. case ty of SMMU_CTRL_ARCH_MAJOR_REV \<Rightarrow> ucast (smmu_arch_major_rev b) | SMMU_CTRL_BASE \<Rightarrow> smmu_base b
     | SMMU_IOVIRT_BLOCK \<Rightarrow> addr + cur | _ \<Rightarrow> 0" for ty addr
  by unfold_locales (auto simp: is_smmu_def split: SMMU_INFO_e.splits)

interpretation rc_lookup: block_search "\<lambda>index bs cur j. rc_info_loop ty index addr bs cur j"
  "\<lambda>b. blk_type b = IOVIRT_NODE_PCI_ROOT_COMPLEX"
  "\<lambda>cur b. case ty of RC_SEGMENT_NUM \<Rightarrow> ucast (rc_segment b) | RC_MEM_ATTRIBUTE \<Rightarrow> ucast (rc_cca b)
     | RC_ATS_ATTRIBUTE \<Rightarrow> ucast (rc_ats_attr b) | RC_IOVIRT_BLOCK \<Rightarrow> addr + cur | _ \<Rightarrow> 0" for ty addr
  by unfold_locales (auto split: PCIE_RC_INFO_e.splits)

subsection \<open>Lemmas\<close>

lemma rc_map_loop_filter:
  "rc_map_loop x ms r = (case filter (in_map x) ms of [] \<Rightarrow> r
     | l \<Rightarrow> Some (map_id x (last l), map_output_ref (last l)))"
  by (induction ms arbitrary: r) (auto split: list.splits)

lemma smmu_map_loop_filter:
  "smmu_map_loop x ms = (case filter (in_map x) ms of [] \<Rightarrow> None
     | m # _ \<Rightarrow> Some (map_id x m, map_output_ref m))"
  by (induction ms) (auto split: list.splits)

text \<open>With at most one mapping for an identifier the two loops agree and follow \<open>maps_to\<close>.\<close>

lemma short_list_cases: "length xs \<le> 1 \<Longrightarrow> xs = [] \<or> (\<exists>x. xs = [x])"
  by (cases xs) auto

lemma one_map_loops:
  assumes "one_map b x"
  shows "rc_map_loop x (block_maps b) None = Some (y, ref) \<longleftrightarrow> maps_to b x y ref"
    and "smmu_map_loop x (block_maps b) = Some (y, ref) \<longleftrightarrow> maps_to b x y ref"
proof -
  let ?f = "filter (in_map x) (block_maps b)"
  have mem: "(m \<in> set (block_maps b) \<and> in_map x m) = (m \<in> set ?f)" for m by auto
  have mt: "maps_to b x y ref \<longleftrightarrow> (\<exists>m\<in>set ?f. y = map_id x m \<and> ref = map_output_ref m)"
    unfolding maps_to_def using mem by blast
  from short_list_cases [OF assms [unfolded one_map_def]] consider "?f = []" | m where "?f = [m]" by blast
  then show "rc_map_loop x (block_maps b) None = Some (y, ref) \<longleftrightarrow> maps_to b x y ref"
    and "smmu_map_loop x (block_maps b) = Some (y, ref) \<longleftrightarrow> maps_to b x y ref"
    by (cases; auto simp: rc_map_loop_filter smmu_map_loop_filter mt)+
qed

lemma rc_search_find:
  "rc_search rid segment bs =
     (case List.find (\<lambda>b. blk_type b = IOVIRT_NODE_PCI_ROOT_COMPLEX \<and> rc_segment b = segment) bs of
        None \<Rightarrow> None | Some b \<Rightarrow> rc_map_loop rid (block_maps b) None)"
  by (induction bs) simp_all

lemma rc_of_in_blocks: "rc_of t segment = Some rc \<Longrightarrow> rc \<in> set (blocks t)"
  by (auto simp: rc_of_def find_Some_iff live_blocks_def nth_mem dest: in_set_takeD [OF nth_mem])

lemma block_at_in_blocks: "block_at t off = Some b \<Longrightarrow> b \<in> set (blocks t)"
proof -
  have "block_from bs cur off = Some b \<Longrightarrow> b \<in> set bs" for bs cur
    by (induction bs cur off rule: block_from.induct) (auto split: if_splits)
  then show "block_at t off = Some b \<Longrightarrow> b \<in> set (blocks t)" by (simp add: block_at_def)
qed

lemma rc_search_maps_to:
  assumes "\<And>b. b \<in> set (blocks t) \<Longrightarrow> one_map b rid"
  shows "rc_search rid segment (live_blocks t) = Some (out, ref) \<longleftrightarrow>
    (\<exists>rc. rc_of t segment = Some rc \<and> maps_to rc rid out ref)"
  using assms [OF rc_of_in_blocks [of t segment]] one_map_loops(1)
  by (auto simp: rc_search_find rc_of_def split: option.splits)

lemma its_not_smmu: "blk_type b = IOVIRT_NODE_ITS_GROUP \<Longrightarrow> \<not> is_smmu b"
  by (simp add: is_smmu_def iovirt_node_defs)

subsection \<open>Properties\<close>


lemma example_one_map: "b \<in> set (blocks example_iovirt) \<Longrightarrow> one_map b x"
  by (auto simp: example_iovirt_def one_map_def block_maps_def)


text \<open>
  \<open>val_iovirt_get_smmu_info\<close> returns the revision and base address of the \<open>index\<close>-th SMMU
  block in table order, and 0 for an index behind the last SMMU.
\<close>

theorem smmu_info_nth:
  assumes "unat index + length (live_blocks t) < 2 ^ 32"
  shows "let ss = filter is_smmu (live_blocks t) in
     val_iovirt_get_smmu_info (Some t) SMMU_CTRL_BASE index =
       (if unat index < length ss then smmu_base (ss ! unat index) else 0) \<and>
     val_iovirt_get_smmu_info (Some t) SMMU_CTRL_ARCH_MAJOR_REV index =
       (if unat index < length ss then ucast (smmu_arch_major_rev (ss ! unat index)) else 0)"
  using assms
    smmu_search.srch_filter [where ty = SMMU_CTRL_BASE and f = smmu_base and index = index
      and bs = "live_blocks t" and addr = "table_addr t"]
    smmu_search.srch_filter [where ty = SMMU_CTRL_ARCH_MAJOR_REV and f = "\<lambda>b. ucast (smmu_arch_major_rev b)"
      and index = index and bs = "live_blocks t" and addr = "table_addr t"]
  by (simp add: Let_def val_iovirt_get_smmu_info_def)

theorem smmu_info_nth_witness:
  "val_iovirt_get_smmu_info (Some example_iovirt) SMMU_CTRL_BASE 0 = 0x2B400000 \<and>
   val_iovirt_get_smmu_info (Some example_iovirt) SMMU_CTRL_ARCH_MAJOR_REV 0 = 3"
proof -
  have "live_blocks example_iovirt = blocks example_iovirt" by (simp add: live_blocks_def example_iovirt_def)
  then have f: "filter is_smmu (live_blocks example_iovirt) = [hd (blocks example_iovirt)]"
    "length (live_blocks example_iovirt) = 3"
    by (simp_all add: example_iovirt_def is_smmu_def iovirt_node_defs)
  have h: "smmu_base (hd (blocks example_iovirt)) = 0x2B400000" "smmu_arch_major_rev (hd (blocks example_iovirt)) = 3"
    by code_simp+
  show ?thesis using smmu_info_nth [of 0 example_iovirt] by (simp add: Let_def f h)
qed

text \<open>
  The SMMU of a root complex is looked up by comparing the first word of every block
  with the segment number.  When a block of another type in front of the root complex has that word (an
  SMMUv3 for segment 3, a group of one ITS for segment 1) and zeros where the base address of a
  root complex is, the root complex is reported as not behind any SMMU.
\<close>

theorem rc_smmu_index_type_confusion:
  assumes "live_blocks t = pre @ b # post" and "\<forall>c\<in>set pre. data_word c 0 \<noteq> seg"
    and "data_word b 0 = seg" and "data_word b 4 = 0" and "data_word b 5 = 0"
  shows "val_iovirt_get_rc_smmu_index t info seg = ACS_INVALID_INDEX"
proof -
  have "rc_smmu_base_loop seg (pre @ b # post) = rc_smmu_base b"
    using assms(2,3) by (induction pre) (auto simp: rc_segment_def)
  then show ?thesis
    using assms(1,4,5) by (simp add: val_iovirt_get_rc_smmu_index_def pal_iovirt_get_rc_smmu_base_def rc_smmu_base_def data_dword_def)
qed

theorem rc_smmu_index_type_confusion_witness:
  "val_iovirt_get_rc_smmu_index example_iovirt (val_iovirt_get_smmu_info (Some example_iovirt)) 3 = ACS_INVALID_INDEX \<and>
   map_option rc_smmu_base (rc_of example_iovirt 3) = Some (val_iovirt_get_smmu_info (Some example_iovirt) SMMU_CTRL_BASE 0)"
proof
  have l: "live_blocks example_iovirt = [] @ hd (blocks example_iovirt) # tl (blocks example_iovirt)"
    by (simp add: live_blocks_def example_iovirt_def)
  have "data_word (hd (blocks example_iovirt)) 0 = 3" "data_word (hd (blocks example_iovirt)) 4 = 0"
    "data_word (hd (blocks example_iovirt)) 5 = 0" by code_simp+
  then show "val_iovirt_get_rc_smmu_index example_iovirt (val_iovirt_get_smmu_info (Some example_iovirt)) 3 = ACS_INVALID_INDEX"
    using rc_smmu_index_type_confusion [OF l] by simp
  show "map_option rc_smmu_base (rc_of example_iovirt 3) = Some (val_iovirt_get_smmu_info (Some example_iovirt) SMMU_CTRL_BASE 0)"
    by code_simp
qed

end
