(* ===== verification/Acs_Smmu.thy ===== *)
theory Acs_Smmu
  imports Acs_Pgt Acs_Iovirt Acs_Loops
begin

text \<open>
  The driver of the SMMUv3, \<^verbatim>\<open>val/sys_arch_src/smmu_v3/smmu_v3.c\<close>: command queue, stream table (linear
  and two levels), context descriptor tables, probing, reset, mapping and unmapping of a master.

  The hardware is the parameter \<open>H\<close>: what a 32-bit register read returns and does to the device
  state \<open>'d\<close>, and what 32-bit and 64-bit register writes do to it.  The device sees the memory, since it fetches
  commands and tables from it.  The state extends the memory cells of the page services by the
  answers \<open>pool_supply\<close> that the pool allocator will give (an empty list is \<open>NULL\<close>), the pointers
  \<open>pool_freed\<close> given back to it, newest first, the device state and the globals of the file.  Arrays
  of C structures are functions of the index next to the pointer that the code tests and
  frees; a pointer to a device is its index in \<open>g_smmu\<close>, a pointer to a master its position in the list.
  \<open>None\<close> is an endless loop (the polling of the command queue), or an access through
  a \<open>NULL\<close> pointer.  Console messages are left out.
\<close>

subsection \<open>Data\<close>

record smmu_queue_t =
  q_prod :: u32
  q_cons :: u32
  log2nent :: u32

record smmu_cmd_queue_t =
  queue :: smmu_queue_t
  base_ptr :: u64
  cq_base :: u64
  base_phys :: u64
  queue_base :: u64
  entry_size :: u64
  prod_reg :: u64
  cons_reg :: u64

record smmu_strtab_l1_desc_t =
  st_span :: u8
  st_l2ptr :: u64
  st_l2desc64 :: u64
  st_l2desc_phys :: u64

record smmu_stage2_config_t =
  vmid :: u16
  vttbr :: u64
  vtcr :: u64

record smmu_cdtab_ctx_desc_t =
  cd_asid :: u16
  cd_ttbr :: u64
  cd_tcr :: u64
  cd_mair :: u64

record smmu_cdtab_l1_ctx_desc_t =
  cd_l2ptr :: u64
  cd_l2desc64 :: u64
  cd_l2desc_phys :: u64

record smmu_cdtab_config_t =
  cdtab_ptr :: u64
  cdtab64 :: u64
  cdtab_phys :: u64
  cd_l1_ptr :: u64
  cd_l1_desc :: "u32 \<Rightarrow> smmu_cdtab_l1_ctx_desc_t"
  cd_l1_ent_count :: u32

record smmu_stage1_config_t =
  cdcfg :: smmu_cdtab_config_t
  s1_cd :: smmu_cdtab_ctx_desc_t
  s1fmt :: u8
  s1cdmax :: u8

record smmu_strtab_config_t =
  strtab_ptr :: u64
  strtab64 :: u64
  strtab_phys :: u64
  st_l1_ptr :: u64
  st_l1_desc :: "u32 \<Rightarrow> smmu_strtab_l1_desc_t"
  st_l1_ent_count :: u32
  strtab_base :: u64
  strtab_base_cfg :: u32

record smmu_dev_t =
  dev_base :: u64
  dev_ias :: u64
  dev_oas :: u64
  ssid_bits :: u32
  sid_bits :: u32
  cmdq :: smmu_cmd_queue_t
  strtab_cfg :: smmu_strtab_config_t
  st_level_2lvl :: bool
  cd2l :: bool
  hyp :: bool
  s1p :: bool
  s2p :: bool

datatype smmu_stage_t = SMMU_STAGE_S1 | SMMU_STAGE_S2 | SMMU_STAGE_BYPASS

record smmu_master_t =
  m_smmu :: "u32 option"
  m_stage :: smmu_stage_t
  stage1_config :: smmu_stage1_config_t
  stage2_config :: smmu_stage2_config_t
  m_sid :: u32
  m_ssid :: u32
  m_ssid_bits :: u32

record smmu_master_attributes_t =
  smmu_index :: u32
  streamid :: u32
  substreamid :: u32
  at_ssid_bits :: u32
  stage2 :: u32

text \<open>The contents of a structure after \<open>val_memory_set(p, sizeof(*p), 0)\<close>.\<close>

definition zero_l1_desc :: smmu_strtab_l1_desc_t where
  "zero_l1_desc = \<lparr>st_span = 0, st_l2ptr = 0, st_l2desc64 = 0, st_l2desc_phys = 0\<rparr>"

definition zero_l1_ctx_desc :: smmu_cdtab_l1_ctx_desc_t where
  "zero_l1_ctx_desc = \<lparr>cd_l2ptr = 0, cd_l2desc64 = 0, cd_l2desc_phys = 0\<rparr>"

definition zero_stage1 :: smmu_stage1_config_t where
  "zero_stage1 = \<lparr>cdcfg = \<lparr>cdtab_ptr = 0, cdtab64 = 0, cdtab_phys = 0, cd_l1_ptr = 0,
     cd_l1_desc = (\<lambda>_. zero_l1_ctx_desc), cd_l1_ent_count = 0\<rparr>,
     s1_cd = \<lparr>cd_asid = 0, cd_ttbr = 0, cd_tcr = 0, cd_mair = 0\<rparr>, s1fmt = 0, s1cdmax = 0\<rparr>"

definition zero_master :: smmu_master_t where
  "zero_master = \<lparr>m_smmu = None, m_stage = SMMU_STAGE_S1, stage1_config = zero_stage1,
     stage2_config = \<lparr>vmid = 0, vttbr = 0, vtcr = 0\<rparr>, m_sid = 0, m_ssid = 0, m_ssid_bits = 0\<rparr>"

definition zero_dev :: smmu_dev_t where
  "zero_dev = \<lparr>dev_base = 0, dev_ias = 0, dev_oas = 0, ssid_bits = 0, sid_bits = 0,
     cmdq = \<lparr>queue = \<lparr>q_prod = 0, q_cons = 0, log2nent = 0\<rparr>, base_ptr = 0, cq_base = 0, base_phys = 0,
       queue_base = 0, entry_size = 0, prod_reg = 0, cons_reg = 0\<rparr>,
     strtab_cfg = \<lparr>strtab_ptr = 0, strtab64 = 0, strtab_phys = 0, st_l1_ptr = 0, st_l1_desc = (\<lambda>_. zero_l1_desc),
       st_l1_ent_count = 0, strtab_base = 0, strtab_base_cfg = 0\<rparr>,
     st_level_2lvl = False, cd2l = False, hyp = False, s1p = False, s2p = False\<rparr>"

record 'd smmu_hw =
  reg_ld :: "u64 \<Rightarrow> (u64 \<Rightarrow> u64) \<Rightarrow> 'd \<Rightarrow> u32 \<times> 'd"
  reg_st :: "u64 \<Rightarrow> u32 \<Rightarrow> (u64 \<Rightarrow> u64) \<Rightarrow> 'd \<Rightarrow> 'd"
  reg_st64 :: "u64 \<Rightarrow> u64 \<Rightarrow> (u64 \<Rightarrow> u64) \<Rightarrow> 'd \<Rightarrow> 'd"

record 'd smmu_state = pages +
  pool_supply :: "u64 list"
  pool_freed :: "u64 list"
  hw :: 'd
  g_smmu :: "(u32 \<Rightarrow> smmu_dev_t) option"
  g_smmu_ptr :: u64
  g_num_smmus :: u32
  g_masters :: "smmu_master_t list"

subsection \<open>Memory and registers\<close>

definition val_memory_alloc :: "'d smmu_state \<Rightarrow> u64 \<times> 'd smmu_state" where
  "val_memory_alloc s = (case pool_supply s of [] \<Rightarrow> (0, s) | p # ps \<Rightarrow> (p, s\<lparr>pool_supply := ps\<rparr>))"

definition val_memory_free :: "u64 \<Rightarrow> 'd smmu_state \<Rightarrow> 'd smmu_state" where
  "val_memory_free p s = s\<lparr>pool_freed := p # pool_freed s\<rparr>"

definition st64 :: "u64 \<Rightarrow> u64 \<Rightarrow> 'd smmu_state \<Rightarrow> 'd smmu_state" where
  "st64 a v s = s\<lparr>cells := (cells s)(a := v)\<rparr>"

definition val_mmio_read :: "'d smmu_hw \<Rightarrow> u64 \<Rightarrow> 'd smmu_state \<Rightarrow> u32 \<times> 'd smmu_state" where
  "val_mmio_read H a s = (case reg_ld H a (cells s) (hw s) of (v, d) \<Rightarrow> (v, s\<lparr>hw := d\<rparr>))"

definition val_mmio_write :: "'d smmu_hw \<Rightarrow> u64 \<Rightarrow> u32 \<Rightarrow> 'd smmu_state \<Rightarrow> 'd smmu_state" where
  "val_mmio_write H a v s = s\<lparr>hw := reg_st H a v (cells s) (hw s)\<rparr>"

definition val_mmio_write64 :: "'d smmu_hw \<Rightarrow> u64 \<Rightarrow> u64 \<Rightarrow> 'd smmu_state \<Rightarrow> 'd smmu_state" where
  "val_mmio_write64 H a v s = s\<lparr>hw := reg_st64 H a v (cells s) (hw s)\<rparr>"

definition align_to_size :: "u64 \<Rightarrow> u64 \<Rightarrow> u64" where
  "align_to_size addr sz = (sz - (addr AND (sz - 1)) + addr) AND NOT (sz - 1)"

subsection \<open>Command queue\<close>

text \<open>The masks are computed in 64 bits and stored in 32.\<close>

definition index_mask :: "smmu_queue_t \<Rightarrow> u32" where
  "index_mask q = ucast (shl (1::u64) (unat (log2nent q)) - 1)"

definition wrap_mask :: "smmu_queue_t \<Rightarrow> u32" where
  "wrap_mask q = ucast (shl (1::u64) (unat (log2nent q)))"

definition smmu_cmdq_inc_prod :: "smmu_queue_t \<Rightarrow> u32" where
  "smmu_cmdq_inc_prod q = ucast (ucast (q_prod q + 1) AND (shl (1::u64) (unat (log2nent q + 1)) - 1))"

definition smmu_queue_full :: "smmu_queue_t \<Rightarrow> bool" where
  "smmu_queue_full q \<longleftrightarrow> q_prod q AND index_mask q = q_cons q AND index_mask q \<and>
     q_prod q AND wrap_mask q \<noteq> q_cons q AND wrap_mask q"

definition smmu_queue_empty :: "smmu_queue_t \<Rightarrow> bool" where
  "smmu_queue_empty q \<longleftrightarrow> q_prod q AND index_mask q = q_cons q AND index_mask q \<and>
     q_prod q AND wrap_mask q = q_cons q AND wrap_mask q"

definition CMDQ_OP_CFGI_ALL :: u8 where "CMDQ_OP_CFGI_ALL = 0x4"
definition CMDQ_OP_TLBI_EL2_ALL :: u8 where "CMDQ_OP_TLBI_EL2_ALL = 0x20"
definition CMDQ_OP_TLBI_NSNH_ALL :: u8 where "CMDQ_OP_TLBI_NSNH_ALL = 0x30"
definition CMDQ_OP_CMD_SYNC :: u8 where "CMDQ_OP_CMD_SYNC = 0x46"

lemmas cmdq_op_defs =
  CMDQ_OP_CFGI_ALL_def CMDQ_OP_TLBI_EL2_ALL_def CMDQ_OP_TLBI_NSNH_ALL_def CMDQ_OP_CMD_SYNC_def

text \<open>The two double words of a command; \<open>None\<close> is the return value -1.\<close>

definition smmu_cmdq_build_cmd :: "u8 \<Rightarrow> (u64 \<times> u64) option" where
  "smmu_cmdq_build_cmd opcode =
     (let cmd0 = 0 OR BITFIELD_SET 7 0 (ucast opcode)
      in if opcode = CMDQ_OP_TLBI_EL2_ALL \<or> opcode = CMDQ_OP_TLBI_NSNH_ALL \<or> opcode = CMDQ_OP_CMD_SYNC
         then Some (cmd0, 0)
         else if opcode = CMDQ_OP_CFGI_ALL then Some (cmd0, 0 OR BITFIELD_SET 4 0 31)
         else None)"

text \<open>\<open>while (smmu_queue_full(&cmdq->queue) && timeout) timeout--\<close>; the result is the timeout left.\<close>

fun full_wait :: "smmu_queue_t \<Rightarrow> nat \<Rightarrow> nat" where
  "full_wait q 0 = 0"
| "full_wait q (Suc t) = (if smmu_queue_full q then full_wait q t else Suc t)"

definition SMMU_CMDQ_POLL_TIMEOUT :: nat where
  "SMMU_CMDQ_POLL_TIMEOUT = 0x100000"

definition smmu_cmdq_write_cmd :: "'d smmu_hw \<Rightarrow> smmu_dev_t \<Rightarrow> u64 \<times> u64 \<Rightarrow> 'd smmu_state
    \<Rightarrow> bool \<times> 'd smmu_state" where
  "smmu_cmdq_write_cmd H smmu cmd s =
     (let cq = cmdq smmu
      in if full_wait (queue cq) SMMU_CMDQ_POLL_TIMEOUT = 0 then (False, s)
         else let (p, s1) = val_mmio_read H (prod_reg cq) s;
                  cmd_dst = cq_base cq + (ucast p AND (shl 1 (unat (log2nent (queue cq))) - 1)) * entry_size cq;
                  s2 = st64 (cmd_dst + 8) (snd cmd) (st64 cmd_dst (fst cmd) s1);
                  p' = smmu_cmdq_inc_prod \<lparr>q_prod = p, q_cons = 0, log2nent = log2nent (queue cq)\<rparr>
              in (True, val_mmio_write H (prod_reg cq) p' s2))"

definition smmu_cmdq_issue_cmd :: "'d smmu_hw \<Rightarrow> smmu_dev_t \<Rightarrow> u8 \<Rightarrow> 'd smmu_state \<Rightarrow> bool \<times> 'd smmu_state" where
  "smmu_cmdq_issue_cmd H smmu opcode s =
     (case smmu_cmdq_build_cmd opcode of None \<Rightarrow> (False, s) | Some cmd \<Rightarrow> smmu_cmdq_write_cmd H smmu cmd s)"

text \<open>
  The loop of \<open>smmu_cmdq_poll_until_consumed\<close>: \<open>timeout\<close> is never changed, so the loop ends only when the
  queue is empty.
\<close>

definition poll_step :: "'d smmu_hw \<Rightarrow> u64 \<Rightarrow> smmu_queue_t \<times> 'd smmu_state
    \<Rightarrow> 'd smmu_state + (smmu_queue_t \<times> 'd smmu_state)" where
  "poll_step H creg = (\<lambda>(q, s).
     if smmu_queue_empty q then Inl s
     else case val_mmio_read H creg s of (c, s1) \<Rightarrow> Inr (q\<lparr>q_cons := c\<rparr>, s1))"

definition smmu_cmdq_poll_until_consumed :: "'d smmu_hw \<Rightarrow> smmu_dev_t \<Rightarrow> 'd smmu_state
    \<Rightarrow> 'd smmu_state option" where
  "smmu_cmdq_poll_until_consumed H smmu s =
     (let (p, s1) = val_mmio_read H (prod_reg (cmdq smmu)) s;
          (c, s2) = val_mmio_read H (cons_reg (cmdq smmu)) s1
      in tail_iter (poll_step H (cons_reg (cmdq smmu)))
           (\<lparr>q_prod = p, q_cons = c, log2nent = log2nent (queue (cmdq smmu))\<rparr>, s2))"

definition smmu_cmd_queue_init :: "'d smmu_hw \<Rightarrow> smmu_dev_t \<Rightarrow> 'd smmu_state
    \<Rightarrow> bool \<times> smmu_dev_t \<times> 'd smmu_state" where
  "smmu_cmd_queue_init H smmu s =
     (let cq = cmdq smmu;
          l2 = log2nent (queue cq);
          sz0 = ucast (shl (shl (1::u32) (unat l2) * 2) 3) :: u64;
          cmdq_size = (if sz0 < 32 then 32 else sz0);
          (p, s1) = val_memory_alloc s
      in if p = 0 then (False, smmu\<lparr>cmdq := cq\<lparr>base_ptr := p\<rparr>\<rparr>, s1)
         else
           let s2 = val_memory_set p (ucast (2 * cmdq_size)) 0 s1;
               phys = align_to_size (val_memory_virt_to_phys p) cmdq_size
           in (True, smmu\<lparr>cmdq := cq\<lparr>base_ptr := p, base_phys := phys, cq_base := align_to_size p cmdq_size,
                 prod_reg := dev_base smmu + 0x98, cons_reg := dev_base smmu + 0x9c, entry_size := shl 2 3,
                 queue_base := shl 1 62 OR (phys AND BITFIELD_MASK 51 5) OR BITFIELD_SET 4 0 (ucast l2),
                 queue := (queue cq)\<lparr>q_prod := 0, q_cons := 0\<rparr>\<rparr>\<rparr>, s2))"

subsection \<open>Stream table entries\<close>

text \<open>
  \<open>smmu_strtab_write_ste\<close> on a list of the four double words it may write: the old contents of
  \<open>ste[0..3]\<close> in, the new ones out.
\<close>

definition ste_words :: "smmu_master_t option \<Rightarrow> u64 \<times> u64 \<times> u64 \<times> u64 \<Rightarrow> u64 \<times> u64 \<times> u64 \<times> u64" where
  "ste_words master = (\<lambda>(ste0, ste1, ste2, ste3).
     let val = shl 1 0
     in case master of
          None \<Rightarrow> (val OR BITFIELD_SET 3 1 0, BITFIELD_SET 45 44 1, 0, ste3)
        | Some m \<Rightarrow>
            (case m_stage m of
               SMMU_STAGE_S2 \<Rightarrow>
                 let c = stage2_config m
                 in (val OR BITFIELD_SET 3 1 6,
                     ste1 OR (BITFIELD_SET 31 30 0x2 OR BITFIELD_SET 29 28 0x1),
                     BITFIELD_SET 15 0 (ucast (vmid c)) OR BITFIELD_SET 50 32 (vtcr c) OR
                       shl 1 54 OR shl 1 51 OR shl 1 58,
                     vttbr c AND BITFIELD_MASK 51 4)
             | SMMU_STAGE_S1 \<Rightarrow>
                 let c = stage1_config m
                 in (val OR ((cdtab_phys (cdcfg c) AND BITFIELD_MASK 51 6) OR BITFIELD_SET 3 1 5 OR
                       BITFIELD_SET 63 59 (ucast (s1cdmax c)) OR BITFIELD_SET 5 4 (ucast (s1fmt c))),
                     BITFIELD_SET 1 0 0x2 OR BITFIELD_SET 3 2 1 OR BITFIELD_SET 5 4 1 OR
                       BITFIELD_SET 7 6 3 OR BITFIELD_SET 29 28 0x1,
                     ste2, ste3)
             | SMMU_STAGE_BYPASS \<Rightarrow> (ste0, ste1, ste2, ste3)))"

definition smmu_strtab_write_ste :: "smmu_master_t option \<Rightarrow> u64 \<Rightarrow> 'd smmu_state \<Rightarrow> 'd smmu_state" where
  "smmu_strtab_write_ste master ste s =
     (case ste_words master (cells s ste, cells s (ste + 8), cells s (ste + 16), cells s (ste + 24)) of
        (w0, w1, w2, w3) \<Rightarrow> st64 (ste + 24) w3 (st64 (ste + 16) w2 (st64 (ste + 8) w1 (st64 ste w0 s))))"

text \<open>\<open>for (ste = \<dots>, i = 0; i < n; ++i, ste += STRTAB_STE_DWORDS) smmu_strtab_write_ste(NULL, ste)\<close>.\<close>

definition abort_all :: "u64 \<Rightarrow> nat \<Rightarrow> 'd smmu_state \<Rightarrow> 'd smmu_state" where
  "abort_all ste n s = fold (\<lambda>i. smmu_strtab_write_ste None (ste + of_nat i * 64)) [0..<n] s"

definition smmu_strtab_init_linear :: "smmu_dev_t \<Rightarrow> 'd smmu_state \<Rightarrow> bool \<times> smmu_dev_t \<times> 'd smmu_state" where
  "smmu_strtab_init_linear smmu s =
     (let sz = shl (1::u32) (unat (sid_bits smmu)) * shl 8 3;
          cfg = strtab_cfg smmu;
          (p, s1) = val_memory_alloc s
      in if p = 0 then (False, smmu\<lparr>strtab_cfg := cfg\<lparr>strtab_ptr := p\<rparr>\<rparr>, s1)
         else
           let s2 = val_memory_set p (2 * sz) 0 s1;
               tbl = align_to_size p (ucast sz);
               n = shl (1::u32) (unat (sid_bits smmu));
               cfg1 = cfg\<lparr>strtab_ptr := p,
                  strtab_phys := align_to_size (val_memory_virt_to_phys p) (ucast sz),
                  strtab64 := tbl, st_l1_ent_count := n,
                  strtab_base_cfg := BITFIELD_SET 17 16 0 OR BITFIELD_SET 5 0 (sid_bits smmu)\<rparr>
           in (True, smmu\<lparr>strtab_cfg := cfg1\<rparr>, abort_all tbl (unat n) s2))"

definition level1_desc_word :: "smmu_strtab_l1_desc_t \<Rightarrow> u64" where
  "level1_desc_word desc = 0 OR BITFIELD_SET 4 0 (ucast (st_span desc)) OR (st_l2desc_phys desc AND BITFIELD_MASK 51 6)"

definition smmu_strtab_write_level1_desc :: "u64 \<Rightarrow> smmu_strtab_l1_desc_t \<Rightarrow> 'd smmu_state \<Rightarrow> 'd smmu_state" where
  "smmu_strtab_write_level1_desc dst desc s = st64 dst (level1_desc_word desc) s"

definition STRTAB_SPLIT :: nat where
  "STRTAB_SPLIT = 8"

definition smmu_strtab_init_level2 :: "smmu_dev_t \<Rightarrow> u32 \<Rightarrow> 'd smmu_state \<Rightarrow> bool \<times> smmu_dev_t \<times> 'd smmu_state" where
  "smmu_strtab_init_level2 smmu sid s =
     (let cfg = strtab_cfg smmu;
          i = shr sid STRTAB_SPLIT;
          desc = st_l1_desc cfg i;
          put = (\<lambda>d. smmu\<lparr>strtab_cfg := cfg\<lparr>st_l1_desc := (st_l1_desc cfg)(i := d)\<rparr>\<rparr>)
      in if st_l2ptr desc \<noteq> 0 then (True, smmu, s)
         else
           let sz = shl 1 STRTAB_SPLIT * 8 * 8 :: u64;
               strtab = strtab64 cfg + ucast (i * 1) * 8;
               (p, s1) = val_memory_alloc s;
               desc1 = desc\<lparr>st_span := 8 + 1, st_l2ptr := p\<rparr>
           in if p = 0 then (False, put desc1, s1)
              else
                let l2 = align_to_size p sz;
                    desc2 = desc1\<lparr>st_l2desc_phys := align_to_size (val_memory_virt_to_phys p) sz, st_l2desc64 := l2\<rparr>;
                    s2 = abort_all l2 (2 ^ STRTAB_SPLIT) (val_memory_set l2 (ucast sz) 0 s1)
                in (True, put desc2, smmu_strtab_write_level1_desc strtab desc2 s2))"

definition smmu_strtab_init_level1 :: "smmu_dev_t \<Rightarrow> 'd smmu_state \<Rightarrow> bool \<times> smmu_dev_t \<times> 'd smmu_state" where
  "smmu_strtab_init_level1 smmu s =
     (let cfg = strtab_cfg smmu; (p, s1) = val_memory_alloc s
      in if p = 0 then (False, smmu\<lparr>strtab_cfg := cfg\<lparr>st_l1_ptr := p\<rparr>\<rparr>, s1)
         else
           let cfg1 = cfg\<lparr>st_l1_ptr := p, st_l1_desc := (\<lambda>_. zero_l1_desc)\<rparr>
           in (True, smmu\<lparr>strtab_cfg := cfg1\<rparr>,
               fold (\<lambda>i. smmu_strtab_write_level1_desc (strtab64 cfg1 + of_nat i * 8) (st_l1_desc cfg1 (of_nat i)))
                 [0..<unat (st_l1_ent_count cfg1)] s1))"

definition smmu_strtab_init_2level :: "smmu_dev_t \<Rightarrow> 'd smmu_state \<Rightarrow> bool \<times> smmu_dev_t \<times> 'd smmu_state" where
  "smmu_strtab_init_2level smmu s =
     (let log2size = sid_bits smmu - of_nat STRTAB_SPLIT;
          n = shl (1::u32) (unat log2size);
          cfg = (strtab_cfg smmu)\<lparr>st_l1_ent_count := n\<rparr>;
          l1_tbl_size = n * 8;
          (p, s1) = val_memory_alloc s
      in if p = 0 then (False, smmu\<lparr>strtab_cfg := cfg\<lparr>strtab_ptr := p\<rparr>\<rparr>, s1)
         else
           let cfg1 = cfg\<lparr>strtab_ptr := p,
                 strtab_phys := align_to_size (val_memory_virt_to_phys p) (ucast l1_tbl_size),
                 strtab64 := align_to_size p (ucast l1_tbl_size),
                 strtab_base_cfg := BITFIELD_SET 17 16 1 OR
                   BITFIELD_SET 5 0 (log2size + of_nat STRTAB_SPLIT) OR BITFIELD_SET 10 6 (of_nat STRTAB_SPLIT)\<rparr>;
               (ok, smmu1, s2) = smmu_strtab_init_level1 (smmu\<lparr>strtab_cfg := cfg1\<rparr>) s1
           in if ok then (True, smmu1, s2)
              else (False, smmu1, val_memory_free (strtab_ptr (strtab_cfg smmu1)) s2))"

definition smmu_strtab_init :: "smmu_dev_t \<Rightarrow> 'd smmu_state \<Rightarrow> bool \<times> smmu_dev_t \<times> 'd smmu_state" where
  "smmu_strtab_init smmu s =
     (let (ok, smmu1, s1) = (if st_level_2lvl smmu then smmu_strtab_init_2level smmu s
                              else smmu_strtab_init_linear smmu s)
      in if \<not> ok then (False, smmu1, s1)
         else
           let data = (strtab_phys (strtab_cfg smmu1) AND BITFIELD_MASK 51 6) OR shl 1 62
           in (True, smmu1\<lparr>strtab_cfg := (strtab_cfg smmu1)\<lparr>strtab_base := data\<rparr>\<rparr>, s1))"

definition smmu_free_strtab :: "smmu_dev_t \<Rightarrow> 'd smmu_state \<Rightarrow> 'd smmu_state" where
  "smmu_free_strtab smmu s =
     (let cfg = strtab_cfg smmu
      in if strtab_ptr cfg = 0 then s
         else
           let s1 = (if st_level_2lvl smmu \<and> st_l1_ptr cfg \<noteq> 0
                     then val_memory_free (st_l1_ptr cfg)
                            (fold (\<lambda>i t. if st_l2ptr (st_l1_desc cfg (of_nat i)) \<noteq> 0
                                         then val_memory_free (st_l2ptr (st_l1_desc cfg (of_nat i))) t else t)
                              [0..<unat (st_l1_ent_count cfg)] s)
                     else s)
           in val_memory_free (strtab_ptr cfg) s1)"

definition smmu_strtab_get_ste_for_sid :: "smmu_dev_t \<Rightarrow> u32 \<Rightarrow> u64" where
  "smmu_strtab_get_ste_for_sid smmu sid =
     (let cfg = strtab_cfg smmu
      in if \<not> st_level_2lvl smmu then strtab64 cfg + ucast (sid * 8) * 8
         else st_l2desc64 (st_l1_desc cfg (shr sid STRTAB_SPLIT * 1)) +
              ucast ((sid AND (shl 1 STRTAB_SPLIT - 1)) * 8) * 8)"

subsection \<open>Control registers\<close>

fun ack_loop :: "'d smmu_hw \<Rightarrow> u64 \<Rightarrow> u32 \<Rightarrow> nat \<Rightarrow> 'd smmu_state \<Rightarrow> bool \<times> 'd smmu_state" where
  "ack_loop H a val 0 s = (False, s)"
| "ack_loop H a val (Suc timeout) s =
     (let (reg, s1) = val_mmio_read H a s in if reg = val then (True, s1) else ack_loop H a val timeout s1)"

definition ACK_TIMEOUT :: nat where
  "ACK_TIMEOUT = 0x1000000"

text \<open>The return value of \<open>smmu_reg_write_sync\<close> is 0 when the register was acknowledged, else 1.\<close>

definition smmu_reg_write_sync :: "'d smmu_hw \<Rightarrow> smmu_dev_t \<Rightarrow> u32 \<Rightarrow> u64 \<Rightarrow> u64 \<Rightarrow> 'd smmu_state
    \<Rightarrow> u32 \<times> 'd smmu_state" where
  "smmu_reg_write_sync H smmu val reg_off ack_off s =
     (let (ok, s1) = ack_loop H (dev_base smmu + ack_off) val ACK_TIMEOUT
                       (val_mmio_write H (dev_base smmu + reg_off) val s)
      in (if ok then 0 else 1, s1))"

definition smmu_dev_disable :: "'d smmu_hw \<Rightarrow> smmu_dev_t \<Rightarrow> 'd smmu_state \<Rightarrow> u32 \<times> 'd smmu_state" where
  "smmu_dev_disable H smmu s = smmu_reg_write_sync H smmu 0 0x20 0x24 s"

definition smmu_tlbi_cfgi :: "'d smmu_hw \<Rightarrow> smmu_dev_t \<Rightarrow> 'd smmu_state \<Rightarrow> 'd smmu_state option" where
  "smmu_tlbi_cfgi H smmu s =
     (let s1 = snd (smmu_cmdq_issue_cmd H smmu CMDQ_OP_CFGI_ALL s);
          s2 = (if hyp smmu then snd (smmu_cmdq_issue_cmd H smmu CMDQ_OP_TLBI_EL2_ALL s1) else s1);
          s3 = snd (smmu_cmdq_issue_cmd H smmu CMDQ_OP_TLBI_NSNH_ALL s2);
          s4 = snd (smmu_cmdq_issue_cmd H smmu CMDQ_OP_CMD_SYNC s3)
      in smmu_cmdq_poll_until_consumed H smmu s4)"

definition CR0_CMDQEN :: u32 where "CR0_CMDQEN = shl 1 3"
definition CR0_SMMUEN :: u32 where "CR0_SMMUEN = shl 1 0"

definition CR1_VALUE :: u32 where
  "CR1_VALUE = BITFIELD_SET 11 10 3 OR BITFIELD_SET 5 4 3 OR BITFIELD_SET 7 6 1 OR BITFIELD_SET 1 0 1 OR
     BITFIELD_SET 9 8 1 OR BITFIELD_SET 3 2 1"

definition smmu_reset :: "'d smmu_hw \<Rightarrow> smmu_dev_t \<Rightarrow> 'd smmu_state \<Rightarrow> (u32 \<times> 'd smmu_state) option" where
  "smmu_reset H smmu s =
     (let b = dev_base smmu;
          (ret, s1) = smmu_reg_write_sync H smmu 0 0x20 0x24 s
      in if ret \<noteq> 0 then Some (ret, s1)
         else
           let s2 = val_mmio_write H (b + 0x28) CR1_VALUE s1;
               s3 = val_mmio_write H (b + 0x2c) 0 s2;
               s4 = val_mmio_write64 H (b + 0x80) (strtab_base (strtab_cfg smmu)) s3;
               s5 = val_mmio_write H (b + 0x88) (strtab_base_cfg (strtab_cfg smmu)) s4;
               s6 = val_mmio_write64 H (b + 0x90) (queue_base (cmdq smmu)) s5;
               s7 = val_mmio_write H (b + 0x98) (q_prod (queue (cmdq smmu))) s6;
               s8 = val_mmio_write H (b + 0x9c) (q_cons (queue (cmdq smmu))) s7;
               (ret2, s9) = smmu_reg_write_sync H smmu CR0_CMDQEN 0x20 0x24 s8
           in if ret2 \<noteq> 0 then Some (ret2, s9)
              else do {
                s10 \<leftarrow> smmu_tlbi_cfgi H smmu s9;
                let (ret3, s11) = smmu_reg_write_sync H smmu (CR0_CMDQEN OR CR0_SMMUEN) 0x20 0x24 s10;
                Some (if ret3 \<noteq> 0 then (ret3, s11) else (1, s11)) })"

text \<open>\<open>&g_smmu[i]\<close>; \<open>None\<close> is the access through \<open>NULL\<close>.\<close>

definition smmu_at :: "u32 \<Rightarrow> 'd smmu_state \<Rightarrow> smmu_dev_t option" where
  "smmu_at i s = map_option (\<lambda>f. f i) (g_smmu s)"

definition put_smmu :: "u32 \<Rightarrow> smmu_dev_t \<Rightarrow> 'd smmu_state \<Rightarrow> 'd smmu_state" where
  "put_smmu i d s = s\<lparr>g_smmu := map_option (\<lambda>f. f(i := d)) (g_smmu s)\<rparr>"

definition smmu_set_state :: "'d smmu_hw \<Rightarrow> u32 \<Rightarrow> bool \<Rightarrow> 'd smmu_state \<Rightarrow> (u32 \<times> 'd smmu_state) option" where
  "smmu_set_state H i en s =
     (if i \<ge> g_num_smmus s then Some (1, s)
      else do {
        smmu \<leftarrow> smmu_at i s;
        if dev_base smmu = 0 then Some (1, s)
        else let (cr0, s1) = val_mmio_read H (dev_base smmu + 0x20) s;
                 cr0' = (if en then cr0 OR CR0_SMMUEN else cr0 AND NOT CR0_SMMUEN)
             in Some (smmu_reg_write_sync H smmu cr0' 0x20 0x24 s1) })"

definition val_smmu_disable :: "'d smmu_hw \<Rightarrow> u32 \<Rightarrow> 'd smmu_state \<Rightarrow> (u32 \<times> 'd smmu_state) option" where
  "val_smmu_disable H i s = smmu_set_state H i False s"

definition val_smmu_enable :: "'d smmu_hw \<Rightarrow> u32 \<Rightarrow> 'd smmu_state \<Rightarrow> (u32 \<times> 'd smmu_state) option" where
  "val_smmu_enable H i s = smmu_set_state H i True s"

subsection \<open>Probing\<close>

definition smmu_oas :: "u64 list" where
  "smmu_oas = [32, 36, 40, 42, 44, 48, 52]"

definition get_max :: "u64 \<Rightarrow> u64 \<Rightarrow> u64" where
  "get_max x y = (if x > y then x else y)"

definition probe_idr0 :: "u32 \<Rightarrow> smmu_dev_t \<Rightarrow> smmu_dev_t" where
  "probe_idr0 data smmu =
     smmu\<lparr>st_level_2lvl := st_level_2lvl smmu \<or> BITFIELD_GET 28 27 data = 1,
          cd2l := cd2l smmu \<or> data AND shl 1 19 \<noteq> 0,
          hyp := hyp smmu \<or> data AND shl 1 9 \<noteq> 0,
          s1p := s1p smmu \<or> data AND shl 1 1 \<noteq> 0,
          s2p := s2p smmu \<or> data AND shl 1 0 \<noteq> 0\<rparr>"

definition probe_idr1 :: "u32 \<Rightarrow> smmu_dev_t \<Rightarrow> smmu_dev_t" where
  "probe_idr1 data smmu =
     smmu\<lparr>cmdq := (cmdq smmu)\<lparr>queue := (queue (cmdq smmu))\<lparr>log2nent := BITFIELD_GET 25 21 data\<rparr>\<rparr>,
          sid_bits := BITFIELD_GET 5 0 data, ssid_bits := BITFIELD_GET 10 6 data,
          st_level_2lvl := st_level_2lvl smmu \<and> \<not> BITFIELD_GET 5 0 data \<le> of_nat STRTAB_SPLIT\<rparr>"

definition smmu_probe :: "'d smmu_hw \<Rightarrow> smmu_dev_t \<Rightarrow> 'd smmu_state \<Rightarrow> bool \<times> smmu_dev_t \<times> 'd smmu_state" where
  "smmu_probe H smmu s =
     (let (data, s1) = val_mmio_read H (dev_base smmu + 0x0) s;
          smmu1 = probe_idr0 data smmu;
          ttf = BITFIELD_GET 3 2 data
      in if data AND (shl 1 1 OR shl 1 0) = 0 then (False, smmu1, s1)
         else if ttf \<noteq> 3 \<and> ttf \<noteq> 2 then (False, smmu1, s1)
         else
           let smmu2 = (if ttf = 3 then smmu1\<lparr>dev_ias := 40\<rparr> else smmu1);
               (data1, s2) = val_mmio_read H (dev_base smmu + 0x4) s1
           in if data1 AND (shl 1 30 OR shl 1 29) \<noteq> 0 then (False, smmu2, s2)
              else
                let smmu3 = probe_idr1 data1 smmu2;
                    (data5, s3) = val_mmio_read H (dev_base smmu + 0x14) s2;
                    i = BITFIELD_GET 2 0 data5
                in if i \<ge> 7 then (False, smmu3, s3)
                   else let o' = smmu_oas ! unat i
                        in (True, smmu3\<lparr>dev_oas := o', dev_ias := get_max (dev_ias smmu3) o'\<rparr>, s3))"

subsection \<open>Context descriptor tables\<close>

definition CDTAB_SPLIT :: nat where
  "CDTAB_SPLIT = 10"

definition CDTAB_L2_ENTRY_COUNT :: nat where
  "CDTAB_L2_ENTRY_COUNT = 2 ^ CDTAB_SPLIT"

definition cdtab_l1_word :: "smmu_cdtab_l1_ctx_desc_t \<Rightarrow> u64" where
  "cdtab_l1_word d = (cd_l2desc_phys d AND BITFIELD_MASK 51 12) OR shl 1 0"

definition smmu_cdtab_write_l1_desc :: "u64 \<Rightarrow> smmu_cdtab_l1_ctx_desc_t \<Rightarrow> 'd smmu_state \<Rightarrow> 'd smmu_state" where
  "smmu_cdtab_write_l1_desc dst d s = st64 dst (cdtab_l1_word d) s"

definition smmu_cdtab_alloc_leaf_table :: "smmu_cdtab_l1_ctx_desc_t \<Rightarrow> 'd smmu_state
    \<Rightarrow> bool \<times> smmu_cdtab_l1_ctx_desc_t \<times> 'd smmu_state" where
  "smmu_cdtab_alloc_leaf_table d s =
     (let sz = of_nat CDTAB_L2_ENTRY_COUNT * shl 8 3 :: u64; (p, s1) = val_memory_alloc s
      in if p = 0 then (False, d\<lparr>cd_l2ptr := p\<rparr>, s1)
         else (True, d\<lparr>cd_l2ptr := p, cd_l2desc_phys := align_to_size (val_memory_virt_to_phys p) sz,
                       cd_l2desc64 := align_to_size p sz\<rparr>, s1))"

text \<open>The pointer to the context descriptor, 0 when a leaf table cannot be allocated.\<close>

definition smmu_cdtab_get_ctx_desc :: "smmu_master_t \<Rightarrow> 'd smmu_state \<Rightarrow> u64 \<times> smmu_master_t \<times> 'd smmu_state" where
  "smmu_cdtab_get_ctx_desc m s =
     (let c = stage1_config m; cd = cdcfg c;
          idx = shr (m_ssid m) CDTAB_SPLIT;
          d = cd_l1_desc cd idx;
          idx2 = m_ssid m AND (of_nat CDTAB_L2_ENTRY_COUNT - 1)
      in if s1fmt c = 0 then (cdtab64 cd + ucast (m_ssid m * 8) * 8, m, s)
         else if cd_l2ptr d \<noteq> 0 then (cd_l2desc64 d + ucast (idx2 * 8) * 8, m, s)
         else
           let (ok, d1, s1) = smmu_cdtab_alloc_leaf_table d s;
               m1 = m\<lparr>stage1_config := c\<lparr>cdcfg := cd\<lparr>cd_l1_desc := (cd_l1_desc cd)(idx := d1)\<rparr>\<rparr>\<rparr>
           in if \<not> ok then (0, m1, s1)
              else (cd_l2desc64 d1 + ucast (idx2 * 8) * 8, m1,
                    smmu_cdtab_write_l1_desc (cdtab64 cd + ucast (idx * 1) * 8) d1 s1))"

definition ctx_desc_word0 :: "smmu_cdtab_ctx_desc_t \<Rightarrow> u64" where
  "ctx_desc_word0 cd = cd_tcr cd OR shl 1 45 OR shl 1 46 OR shl 1 47 OR shl 1 41 OR
     BITFIELD_SET 63 48 (ucast (cd_asid cd)) OR shl 1 31"

text \<open>\<open>ssid\<close> and \<open>1 << s1cdmax\<close> are compared as \<open>int\<close>.\<close>

definition smmu_cdtab_write_ctx_desc :: "smmu_master_t \<Rightarrow> u32 \<Rightarrow> smmu_cdtab_ctx_desc_t \<Rightarrow> 'd smmu_state
    \<Rightarrow> bool \<times> smmu_master_t \<times> 'd smmu_state" where
  "smmu_cdtab_write_ctx_desc m ssid cd s =
     (if sint ssid \<ge> sint (shl (1::u32) (unat (s1cdmax (stage1_config m)))) then (False, m, s)
      else let (cdptr, m1, s1) = smmu_cdtab_get_ctx_desc m s
           in if cdptr = 0 then (False, m1, s1)
              else (True, m1,
                st64 cdptr (ctx_desc_word0 cd) (st64 (cdptr + 24) (cd_mair cd) (st64 (cdptr + 16) 0
                  (st64 (cdptr + 8) (cd_ttbr cd AND BITFIELD_MASK 51 4) s1)))))"

text \<open>\<open>max_contexts = 1 << s1cdmax\<close>, an \<open>int\<close> stored in 64 bits.\<close>

definition max_contexts :: "smmu_stage1_config_t \<Rightarrow> u64" where
  "max_contexts c = scast (shl (1::u32) (unat (s1cdmax c)))"

definition l1_ents :: "u64 \<Rightarrow> u64" where
  "l1_ents n = (n + of_nat CDTAB_L2_ENTRY_COUNT - 1) div of_nat CDTAB_L2_ENTRY_COUNT"

definition smmu_cdtab_free :: "smmu_dev_t \<Rightarrow> smmu_master_t \<Rightarrow> 'd smmu_state \<Rightarrow> smmu_master_t \<times> 'd smmu_state" where
  "smmu_cdtab_free smmu m s =
     (let c = stage1_config m; cd = cdcfg c;
          s1 = (if cd2l smmu \<and> max_contexts c > of_nat CDTAB_L2_ENTRY_COUNT
                then val_memory_free (cd_l1_ptr cd)
                       (fold (\<lambda>i t. if cd_l2ptr (cd_l1_desc cd (of_nat i)) \<noteq> 0
                                    then val_memory_free (cd_l2ptr (cd_l1_desc cd (of_nat i))) t else t)
                         [0..<unat (ucast (l1_ents (max_contexts c)) :: u32)] s)
                else s)
      in (m\<lparr>stage1_config := c\<lparr>cdcfg := cd\<lparr>cdtab_ptr := 0\<rparr>\<rparr>\<rparr>, val_memory_free (cdtab_ptr cd) s1))"

definition smmu_cdtab_alloc :: "smmu_dev_t \<Rightarrow> smmu_master_t \<Rightarrow> 'd smmu_state
    \<Rightarrow> bool \<times> smmu_master_t \<times> 'd smmu_state" where
  "smmu_cdtab_alloc smmu m s =
     (let c = stage1_config m; cd = cdcfg c; cdmax = max_contexts c;
          two = (cd2l smmu \<and> cdmax > of_nat CDTAB_L2_ENTRY_COUNT);
          n = (if two then ucast (l1_ents cdmax) else ucast cdmax) :: u32;
          (lp, s1) = (if two then val_memory_alloc s else (cd_l1_ptr cd, s));
          cd1 = cd\<lparr>cd_l1_ent_count := n, cd_l1_ptr := lp\<rparr>;
          c1 = c\<lparr>s1fmt := (if two then 2 else 0), cdcfg := cd1\<rparr>
      in if two \<and> lp = 0 then (False, m\<lparr>stage1_config := c1\<rparr>, s1)
         else
           let cd2 = (if two then cd1\<lparr>cd_l1_desc := (\<lambda>_. zero_l1_ctx_desc)\<rparr> else cd1);
               l1_tbl_size = (if two then ucast (n * shl 1 3) else cdmax * shl 8 3) :: u64;
               (p, s2) = val_memory_alloc s1
           in if p = 0 then (False, m\<lparr>stage1_config := c1\<lparr>cdcfg := cd2\<lparr>cdtab_ptr := p\<rparr>\<rparr>\<rparr>, s2)
              else
                let tbl = align_to_size p l1_tbl_size;
                    cd3 = cd2\<lparr>cdtab_ptr := p, cdtab_phys := align_to_size (val_memory_virt_to_phys p) l1_tbl_size,
                              cdtab64 := tbl\<rparr>
                in (True, m\<lparr>stage1_config := c1\<lparr>cdcfg := cd3\<rparr>\<rparr>, val_memory_set tbl (ucast l1_tbl_size) 0 s2))"

subsection \<open>Masters\<close>

fun master_pos :: "u32 \<Rightarrow> smmu_master_t list \<Rightarrow> nat option" where
  "master_pos sid [] = None"
| "master_pos sid (m # ms) = (if m_sid m = sid then Some 0 else map_option Suc (master_pos sid ms))"

text \<open>The position of the master in the list, \<open>None\<close> for the result \<open>NULL\<close>.\<close>

definition smmu_master_at :: "u32 \<Rightarrow> 'd smmu_state \<Rightarrow> nat option \<times> 'd smmu_state" where
  "smmu_master_at sid s =
     (case master_pos sid (g_masters s) of
        Some i \<Rightarrow> (Some i, s)
      | None \<Rightarrow>
          let (node, s1) = val_memory_alloc s
          in if node = 0 then (None, s1)
             else let (p, s2) = val_memory_alloc s1
                  in if p = 0 then (None, val_memory_free node s2)
                     else (Some 0, s2\<lparr>g_masters := zero_master # g_masters s2\<rparr>))"

definition put_master :: "nat \<Rightarrow> smmu_master_t \<Rightarrow> 'd smmu_state \<Rightarrow> 'd smmu_state" where
  "put_master i m s = s\<lparr>g_masters := (g_masters s)[i := m]\<rparr>"

definition vtcr_of :: "PE_TCR_BF \<Rightarrow> u64" where
  "vtcr_of t = BITFIELD_SET 5 0 (ucast (tcr_tsz t)) OR BITFIELD_SET 7 6 (ucast (tcr_sl t)) OR
     BITFIELD_SET 9 8 (ucast (tcr_irgn t)) OR BITFIELD_SET 11 10 (ucast (tcr_orgn t)) OR
     BITFIELD_SET 13 12 (ucast (tcr_sh t)) OR BITFIELD_SET 15 14 (ucast (tcr_tg t)) OR
     BITFIELD_SET 18 16 (ucast (tcr_ps t))"

definition cd_tcr_of :: "PE_TCR_BF \<Rightarrow> u64" where
  "cd_tcr_of t = BITFIELD_SET 5 0 (ucast (tcr_tsz t)) OR BITFIELD_SET 7 6 (ucast (tcr_tg t)) OR
     BITFIELD_SET 9 8 (ucast (tcr_irgn t)) OR BITFIELD_SET 11 10 (ucast (tcr_orgn t)) OR
     BITFIELD_SET 13 12 (ucast (tcr_sh t)) OR BITFIELD_SET 34 32 (ucast (tcr_ps t)) OR
     shl 1 30 OR shl 1 41"

text \<open>
  The part of \<open>val_smmu_map\<close> that fills the configuration of the stage: the context descriptor table and
  descriptor for stage 1, the registers of the entry for stage 2.  \<open>False\<close> is \<open>return 1\<close>.
\<close>

definition map_config :: "smmu_dev_t \<Rightarrow> pgt_descriptor_t \<Rightarrow> smmu_master_t \<Rightarrow> 'd smmu_state
    \<Rightarrow> bool \<times> smmu_master_t \<times> 'd smmu_state" where
  "map_config smmu pd m s =
     (if m_stage m = SMMU_STAGE_S2
      then (True, m\<lparr>stage2_config := \<lparr>vmid = 0, vttbr = pgt_base pd, vtcr = vtcr_of (tcr pd)\<rparr>\<rparr>, s)
      else
        let m1 = m\<lparr>stage1_config := (stage1_config m)\<lparr>s1cdmax := ucast (m_ssid_bits m)\<rparr>\<rparr>;
            (ok, m2, s1) = (if cdtab_ptr (cdcfg (stage1_config m1)) = 0 then smmu_cdtab_alloc smmu m1 s
                            else (True, m1, s))
        in if \<not> ok then (False, m2, s1)
           else
             let cd = \<lparr>cd_asid = 0, cd_ttbr = pgt_base pd, cd_tcr = cd_tcr_of (tcr pd), cd_mair = mair pd\<rparr>;
                 m3 = m2\<lparr>stage1_config := (stage1_config m2)\<lparr>s1_cd := cd\<rparr>\<rparr>
             in smmu_cdtab_write_ctx_desc m3 (m_ssid m3) cd s1)"

definition val_smmu_map :: "'d smmu_hw \<Rightarrow> smmu_master_attributes_t \<Rightarrow> pgt_descriptor_t \<Rightarrow> 'd smmu_state
    \<Rightarrow> (u32 \<times> 'd smmu_state) option" where
  "val_smmu_map H at pd s =
     (case g_smmu s of
        None \<Rightarrow> Some (1, s)
      | Some f \<Rightarrow>
          let si = smmu_index at; smmu = f si
          in if si \<ge> g_num_smmus s then Some (1, s)
             else if dev_base smmu = 0 then Some (1, s)
             else (case smmu_master_at (streamid at) s of
                     (None, s1) \<Rightarrow> Some (1, s1)
                   | (Some i, s1) \<Rightarrow>
                       let m0 = g_masters s1 ! i;
                           m1 = (if m_smmu m0 = None
                                 then m0\<lparr>m_smmu := Some si, m_sid := streamid at, m_ssid_bits := at_ssid_bits at\<rparr>
                                 else m0)
                       in if stage2 at \<noteq> 0 \<and> \<not> s2p smmu \<or> stage2 at = 0 \<and> \<not> s1p smmu
                          then Some (1, put_master i m1 s1)
                          else
                            let m2 = (if stage2 at \<noteq> 0 then m1\<lparr>m_stage := SMMU_STAGE_S2\<rparr>
                                      else m1\<lparr>m_stage := SMMU_STAGE_S1, m_ssid := substreamid at\<rparr>)
                            in if (ucast (streamid at) :: u64) \<ge> shl 1 (unat (sid_bits smmu))
                               then Some (1, put_master i m2 s1)
                               else
                                 let (ok, smmu1, s2) = (if st_level_2lvl smmu
                                       then smmu_strtab_init_level2 smmu (m_sid m2) s1 else (True, smmu, s1));
                                     s3 = put_smmu si smmu1 s2
                                 in if \<not> ok then Some (1, put_master i m2 s3)
                                    else
                                      let (ok2, m3, s4) = map_config smmu1 pd m2 s3;
                                          s5 = put_master i m3 s4
                                      in if \<not> ok2 then Some (1, s5)
                                         else map_option (Pair 0) (smmu_tlbi_cfgi H smmu1
                                           (smmu_strtab_write_ste (Some m3)
                                              (smmu_strtab_get_ste_for_sid smmu1 (m_sid m3)) s5))))"

definition val_smmu_unmap :: "'d smmu_hw \<Rightarrow> smmu_master_attributes_t \<Rightarrow> 'd smmu_state
    \<Rightarrow> 'd smmu_state option" where
  "val_smmu_unmap H at s =
     (case smmu_master_at (streamid at) s of
        (None, s1) \<Rightarrow> Some s1
      | (Some i, s1) \<Rightarrow>
          (let m = g_masters s1 ! i
           in case m_smmu m of
                None \<Rightarrow> Some s1
              | Some si \<Rightarrow> do {
                  smmu \<leftarrow> smmu_at si s1;
                  if (ucast (streamid at) :: u64) \<ge> shl 1 (unat (sid_bits smmu)) then Some s1
                  else
                    let strtab = strtab64 (strtab_cfg smmu) + ucast (streamid at * 8) * 8;
                        s2 = smmu_strtab_write_ste None strtab s1;
                        (m1, s3) = smmu_cdtab_free smmu m s2
                    in map_option (put_master i zero_master) (smmu_tlbi_cfgi H smmu s3) }))"

subsection \<open>Start and stop\<close>

definition smmu_init :: "'d smmu_hw \<Rightarrow> smmu_dev_t \<Rightarrow> 'd smmu_state
    \<Rightarrow> (u32 \<times> smmu_dev_t \<times> 'd smmu_state) option" where
  "smmu_init H smmu s =
     (if dev_base smmu = 0 then Some (ACS_STATUS_ERR, smmu, s)
      else
        let (ok, d1, s1) = smmu_probe H smmu s
        in if \<not> ok then Some (ACS_STATUS_ERR, d1, s1)
           else
             let (ok2, d2, s2) = smmu_cmd_queue_init H d1 s1
             in if \<not> ok2 then Some (ACS_STATUS_ERR, d2, s2)
                else
                  let (ok3, d3, s3) = smmu_strtab_init d2 s2
                  in if \<not> ok3 then Some (ACS_STATUS_ERR, d3, s3)
                     else map_option (\<lambda>(r, s4). (if r = 0 then ACS_STATUS_ERR else 0, d3, s4)) (smmu_reset H d3 s3))"

fun smmu_stop_loop :: "'d smmu_hw \<Rightarrow> nat list \<Rightarrow> 'd smmu_state \<Rightarrow> 'd smmu_state option" where
  "smmu_stop_loop H [] s = Some s"
| "smmu_stop_loop H (i # is) s = do {
     smmu \<leftarrow> smmu_at (of_nat i) s;
     if dev_base smmu = 0 then smmu_stop_loop H is s
     else let s1 = snd (smmu_dev_disable H smmu s);
              s2 = (if base_ptr (cmdq smmu) \<noteq> 0 then val_memory_free (base_ptr (cmdq smmu)) s1 else s1)
          in smmu_stop_loop H is (smmu_free_strtab smmu s2) }"

definition val_smmu_stop :: "'d smmu_hw \<Rightarrow> 'd smmu_state \<Rightarrow> 'd smmu_state option" where
  "val_smmu_stop H s =
     map_option (\<lambda>s1. val_memory_free (g_smmu_ptr s1) s1) (smmu_stop_loop H [0..<unat (g_num_smmus s)] s)"

fun smmu_init_loop :: "'d smmu_hw \<Rightarrow> IOVIRT_INFO_TABLE option \<Rightarrow> nat list \<Rightarrow> 'd smmu_state
    \<Rightarrow> (u32 \<times> 'd smmu_state) option" where
  "smmu_init_loop H g [] s = Some (0, s)"
| "smmu_init_loop H g (i # is) s =
     (if val_iovirt_get_smmu_info g SMMU_CTRL_ARCH_MAJOR_REV (of_nat i) \<noteq> 3 then smmu_init_loop H g is s
      else do {
        d0 \<leftarrow> smmu_at (of_nat i) s;
        (r, d, s1) \<leftarrow> smmu_init H (d0\<lparr>dev_base := val_iovirt_get_smmu_info g SMMU_CTRL_BASE (of_nat i)\<rparr>) s;
        if r \<noteq> 0 then Some (ACS_STATUS_ERR, put_smmu (of_nat i) (d\<lparr>dev_base := 0\<rparr>) s1)
        else smmu_init_loop H g is (put_smmu (of_nat i) d s1) })"

definition val_smmu_init :: "'d smmu_hw \<Rightarrow> IOVIRT_INFO_TABLE option \<Rightarrow> 'd smmu_state
    \<Rightarrow> (u32 \<times> 'd smmu_state) option" where
  "val_smmu_init H g s =
     (let n = ucast (val_iovirt_get_smmu_info g SMMU_NUM_CTRL 0) :: u32;
          s1 = s\<lparr>g_num_smmus := n\<rparr>
      in if n = 0 then Some (ACS_STATUS_ERR, s1)
         else
           let (p, s2) = val_memory_alloc s1
           in if p = 0 then Some (ACS_STATUS_ERR, s2\<lparr>g_smmu := None, g_smmu_ptr := 0\<rparr>)
              else smmu_init_loop H g [0..<unat n] (s2\<lparr>g_smmu := Some (\<lambda>_. zero_dev), g_smmu_ptr := p\<rparr>))"

definition val_smmu_get_info :: "IOVIRT_INFO_TABLE option \<Rightarrow> SMMU_INFO_e \<Rightarrow> u32 \<Rightarrow> 'd smmu_state \<Rightarrow> u64 option" where
  "val_smmu_get_info g ty i s =
     (if i \<ge> g_num_smmus s then Some 0
      else case ty of
             SMMU_SSID_BITS \<Rightarrow> map_option (\<lambda>d. ucast (ssid_bits d)) (smmu_at i s)
           | SMMU_IN_ADDR_SIZE \<Rightarrow> map_option dev_ias (smmu_at i s)
           | SMMU_OUT_ADDR_SIZE \<Rightarrow> map_option dev_oas (smmu_at i s)
           | _ \<Rightarrow> Some (val_iovirt_get_smmu_info g ty i))"

text \<open>\<^verbatim>\<open>val/src/acs_smmu.c\<close>: a register of an SMMU, 0 when there is no such SMMU.\<close>

definition val_smmu_read_cfg :: "'d smmu_hw \<Rightarrow> IOVIRT_INFO_TABLE option \<Rightarrow> u32 \<Rightarrow> u32 \<Rightarrow> 'd smmu_state
    \<Rightarrow> (u32 \<times> 'd smmu_state) option" where
  "val_smmu_read_cfg H g offset index s = do {
     ctrl_base \<leftarrow> val_smmu_get_info g SMMU_CTRL_BASE index s;
     Some (if ctrl_base = 0 then (0, s) else val_mmio_read H (ctrl_base + ucast offset) s) }"

text \<open>
  \<open>val_iovirt_create_info_table\<close> behind its test for \<open>NULL\<close>; \<open>t\<close> is the table that the platform layer built.
\<close>

fun disable_loop :: "'d smmu_hw \<Rightarrow> nat list \<Rightarrow> 'd smmu_state \<Rightarrow> 'd smmu_state option" where
  "disable_loop H [] s = Some s"
| "disable_loop H (i # is) s = Option.bind (val_smmu_disable H (of_nat i) s) (\<lambda>(_, s1). disable_loop H is s1)"

definition val_iovirt_create_info_table :: "'d smmu_hw \<Rightarrow> IOVIRT_INFO_TABLE \<Rightarrow> 'd smmu_state
    \<Rightarrow> 'd smmu_state option" where
  "val_iovirt_create_info_table H t s = do {
     (status, s1) \<leftarrow> val_smmu_init H (Some t) s;
     disable_loop H [0..<unat (ucast (val_iovirt_get_smmu_info (Some t) SMMU_NUM_CTRL 0) :: u32)] s1 }"

end
