(* ===== verification/Acs_Rings.thy ===== *)
theory Acs_Rings
  imports Acs_Prelude
begin

text \<open>
  The interface of the command queues.  The SMMU and the ITS read their commands from an array of slots in
  memory.  \<open>slot_array\<close> states the two laws of such an array, that a slot holds what was written into it and
  that a write leaves the other slots alone, and derives how a write at the producer's end changes the
  sequence of commands between consumer and producer.  The component theories interpret it on their
  own memory layout.
\<close>

locale slot_array =
  fixes rd :: "'m \<Rightarrow> nat \<Rightarrow> 'c"
    and wr :: "nat \<Rightarrow> 'c \<Rightarrow> 'm \<Rightarrow> 'm"
    and cap :: nat
  assumes cap_pos: "0 < cap"
    and rd_wr_same: "k < cap \<Longrightarrow> rd (wr k c m) k = c"
    and rd_wr_other: "j < cap \<Longrightarrow> k < cap \<Longrightarrow> j \<noteq> k \<Longrightarrow> rd (wr k c m) j = rd m j"
begin

text \<open>The \<open>n\<close> commands from the slot of index \<open>h\<close> on, oldest first.\<close>

definition window :: "'m \<Rightarrow> nat \<Rightarrow> nat \<Rightarrow> 'c list" where
  "window m h n = map (\<lambda>i. rd m ((h + i) mod cap)) [0..<n]"

lemma length_window [simp]: "length (window m h n) = n"
  by (simp add: window_def)

lemma window_0 [simp]: "window m h 0 = []"
  by (simp add: window_def)

lemma mod_slot_neq: "i < n \<Longrightarrow> n < cap \<Longrightarrow> (h + i) mod cap \<noteq> (h + n) mod cap"
proof
  assume less: "i < n" "n < cap" and "(h + i) mod cap = (h + n) mod cap"
  then have "cap dvd (h + n) - (h + i)" by (metis add_le_cancel_left less_imp_le mod_eq_dvd_iff_nat)
  with less show False by (auto dest: dvd_imp_le)
qed

lemma window_push:
  assumes "n < cap"
  shows "window (wr ((h + n) mod cap) c m) h (Suc n) = window m h n @ [c]"
proof -
  have "rd (wr ((h + n) mod cap) c m) ((h + i) mod cap) = rd m ((h + i) mod cap)" if "i < n" for i
    using cap_pos mod_slot_neq [OF that assms] by (intro rd_wr_other) simp_all
  then have "map (\<lambda>i. rd (wr ((h + n) mod cap) c m) ((h + i) mod cap)) [0..<n] = map (\<lambda>i. rd m ((h + i) mod cap)) [0..<n]"
    by (intro map_cong) auto
  then show ?thesis
    unfolding window_def using cap_pos by (simp add: rd_wr_same)
qed

text \<open>A write into a full ring replaces the oldest command.\<close>

lemma window_overrun:
  assumes "0 < n"
  shows "window (wr ((h + cap) mod cap) c m) h n ! 0 = c"
  unfolding window_def using assms cap_pos by (simp add: rd_wr_same)

end

end
