(* ===== verification/Acs_Smmu_Check.thy ===== *)
theory Acs_Smmu_Check
  imports Acs_Smmu Acs_Rings
begin

text \<open>
  Correctness of the SMMU driver.  \<open>q_count\<close> is the number of commands between the consumer and the
  producer index of a queue; \<open>cmd_slot\<close> reads a command out of memory and \<open>cons_seq\<close> is the sequence
  of values that polling the consumer register gives.
\<close>

subsection \<open>Specification\<close>

definition q_count :: "nat \<Rightarrow> u32 \<Rightarrow> u32 \<Rightarrow> nat" where
  "q_count n p c = nat ((int (unat p) - int (unat c)) mod 2 ^ Suc n)"

definition cmd_slot :: "u64 \<Rightarrow> (u64 \<Rightarrow> u64) \<Rightarrow> nat \<Rightarrow> u64 \<times> u64" where
  "cmd_slot b m k = (m (b + of_nat k * 16), m (b + of_nat k * 16 + 8))"

definition put_slot :: "u64 \<Rightarrow> nat \<Rightarrow> u64 \<times> u64 \<Rightarrow> (u64 \<Rightarrow> u64) \<Rightarrow> (u64 \<Rightarrow> u64)" where
  "put_slot b k c m = m(b + of_nat k * 16 := fst c, b + of_nat k * 16 + 8 := snd c)"

text \<open>The commands that the hardware has still to execute, oldest first.\<close>

definition pending_cmds :: "u64 \<Rightarrow> nat \<Rightarrow> (u64 \<Rightarrow> u64) \<Rightarrow> u32 \<Rightarrow> u32 \<Rightarrow> (u64 \<times> u64) list" where
  "pending_cmds b n m p c = map (\<lambda>i. cmd_slot b m ((unat c + i) mod 2 ^ n)) [0..<q_count n p c]"

fun cons_seq :: "'d smmu_hw \<Rightarrow> u64 \<Rightarrow> 'd smmu_state \<Rightarrow> nat \<Rightarrow> u32 \<times> 'd smmu_state" where
  "cons_seq H a s 0 = val_mmio_read H a s"
| "cons_seq H a s (Suc k) = cons_seq H a (snd (val_mmio_read H a s)) k"

text \<open>The queue of an initialised device: no software copy of the indices, a slot size of 16 bytes, no wrap-around of addresses.\<close>

definition cmdq_ready :: "smmu_dev_t \<Rightarrow> bool" where
  "cmdq_ready smmu \<longleftrightarrow> q_prod (queue (cmdq smmu)) = 0 \<and> q_cons (queue (cmdq smmu)) = 0 \<and>
     entry_size (cmdq smmu) = 16 \<and> log2nent (queue (cmdq smmu)) < 32 \<and>
     unat (cq_base (cmdq smmu)) + 16 * 2 ^ unat (log2nent (queue (cmdq smmu))) \<le> 2 ^ 64"

definition slot_cap :: "u64 \<Rightarrow> nat \<Rightarrow> nat" where
  "slot_cap b n = (if unat b + 16 * 2 ^ n \<le> (2::nat) ^ 64 then 2 ^ n else 1)"

definition ste_at :: "(u64 \<Rightarrow> u64) \<Rightarrow> u64 \<Rightarrow> u64 \<times> u64 \<times> u64 \<times> u64" where
  "ste_at m a = (m a, m (a + 8), m (a + 16), m (a + 24))"

definition abort_ste :: "u64 \<times> u64 \<times> u64" where
  "abort_ste = (1, BITFIELD_SET 45 44 1, 0)"

definition table_fits :: "u64 \<Rightarrow> nat \<Rightarrow> bool" where
  "table_fits b n \<longleftrightarrow> unat b + 64 * n \<le> (2::nat) ^ 64"

definition aborts :: "(u64 \<Rightarrow> u64) \<Rightarrow> u64 \<Rightarrow> bool" where
  "aborts m a \<longleftrightarrow> (m a, m (a + 8), m (a + 16)) = abort_ste"

definition in_cmdq :: "smmu_dev_t \<Rightarrow> u64 \<Rightarrow> bool" where
  "in_cmdq smmu a \<longleftrightarrow> (\<exists>j<2 ^ unat (log2nent (queue (cmdq smmu))).
     a = cq_base (cmdq smmu) + of_nat j * 16 \<or> a = cq_base (cmdq smmu) + of_nat j * 16 + 8)"

definition in_table :: "u64 \<Rightarrow> nat \<Rightarrow> u64 \<Rightarrow> bool" where
  "in_table b n a \<longleftrightarrow> (\<exists>j<n. \<exists>k<64. a = b + of_nat j * 64 + of_nat k)"

definition quiet_hw :: "unit smmu_hw" where
  "quiet_hw = \<lparr>reg_ld = (\<lambda>a m d. (0, d)), reg_st = (\<lambda>a v m d. d), reg_st64 = (\<lambda>a v m d. d)\<rparr>"

definition counter_hw :: "u32 smmu_hw" where
  "counter_hw = \<lparr>reg_ld = (\<lambda>a m d. (d, d)), reg_st = (\<lambda>a v m d. v), reg_st64 = (\<lambda>a v m d. d)\<rparr>"

definition stuck_hw :: "unit smmu_hw" where
  "stuck_hw = \<lparr>reg_ld = (\<lambda>a m d. (if a = 0x2B400098 then 1 else 0, d)), reg_st = (\<lambda>a v m d. d), reg_st64 = (\<lambda>a v m d. d)\<rparr>"

definition dead_hw :: "unit smmu_hw" where
  "dead_hw = \<lparr>reg_ld = (\<lambda>a m d. (if a = 0x2B400000 then 0x0800000B else if a = 0x2B400004 then 0x01000001
      else if a = 0x2B400014 then 5 else 0xFFFFFFFF, d)),
    reg_st = (\<lambda>a v m d. d), reg_st64 = (\<lambda>a v m d. d)\<rparr>"

definition example_smmu :: smmu_dev_t where
  "example_smmu = zero_dev\<lparr>dev_base := 0x2B400000, sid_bits := 4, s1p := True, s2p := True,
     cmdq := \<lparr>queue = \<lparr>q_prod = 0, q_cons = 0, log2nent = 2\<rparr>, base_ptr = 0x10000, cq_base = 0x10000, base_phys = 0x10000,
       queue_base = 0, entry_size = 16, prod_reg = 0x2B400098, cons_reg = 0x2B40009C\<rparr>,
     strtab_cfg := (strtab_cfg zero_dev)\<lparr>strtab64 := 0x20000\<rparr>\<rparr>"

definition example_sstate :: "'d \<Rightarrow> 'd smmu_state" where
  "example_sstate d = \<lparr>cells = (\<lambda>_. 0), page_supply = [], freed_pages = [], pal_page_size = 0x1000,
     pool_supply = [0x100000, 0x200000], pool_freed = [], hw = d, g_smmu = Some (\<lambda>_. example_smmu), g_smmu_ptr = 0x5000,
     g_num_smmus = 1, g_masters = []\<rparr>"

definition dead_dev :: smmu_dev_t where
  "dead_dev = zero_dev\<lparr>dev_base := 0x2B400000\<rparr>"

definition probed_dev :: smmu_dev_t where
  "probed_dev = (probe_idr1 0x01000001 (probe_idr0 0x0800000B dead_dev))\<lparr>dev_oas := 48, dev_ias := 48\<rparr>"

definition example_attr :: smmu_master_attributes_t where
  "example_attr = \<lparr>smmu_index = 0, streamid = 5, substreamid = 0, at_ssid_bits = 0, stage2 = 1\<rparr>"

definition example_pgt :: pgt_descriptor_t where
  "example_pgt = \<lparr>pgt_base = 0x80000000, ias = 48, oas = 48, mair = 0xFF, stage = 2,
     tcr = \<lparr>tcr_ps = 5, tcr_tg = 0, tcr_sh = 3, tcr_orgn = 1, tcr_irgn = 1, tcr_tsz = 16, tcr_sl = 2, tg_size_log2 = 12\<rparr>\<rparr>"

definition example_two :: smmu_dev_t where
  "example_two = example_smmu\<lparr>st_level_2lvl := True, sid_bits := 16,
     strtab_cfg := (strtab_cfg example_smmu)\<lparr>st_l1_desc := (\<lambda>_. \<lparr>st_span = 9, st_l2ptr = 0x3C000, st_l2desc64 = 0x40000, st_l2desc_phys = 0x40000\<rparr>)\<rparr>\<rparr>"

definition example_mapped_state :: "unit smmu_state" where
  "example_mapped_state = (example_sstate ())\<lparr>g_smmu := Some (\<lambda>_. example_two), cells := (\<lambda>a. if a = 0x40140 then 13 else 0),
     g_masters := [zero_master\<lparr>m_smmu := Some 0, m_sid := 5, m_stage := SMMU_STAGE_S2\<rparr>]\<rparr>"

subsection \<open>Lemmas\<close>

lemma wrap_mask_bit: "unat (log2nent q) < 32 \<Longrightarrow>
  (x AND wrap_mask q = y AND wrap_mask q) \<longleftrightarrow> (bit x (unat (log2nent q)) = bit y (unat (log2nent q)))"
proof -
  let ?n = "unat (log2nent q)"
  assume n: "?n < 32"
  have w: "bit (wrap_mask q) i = (i = ?n)" for i
    using n unfolding wrap_mask_def by (auto simp: bit_simps)
  then have b: "bit (x AND wrap_mask q) i = (i = ?n \<and> bit x ?n)" for x i by (auto simp: bit_and_iff)
  show ?thesis
  proof
    assume "x AND wrap_mask q = y AND wrap_mask q"
    then have "bit (x AND wrap_mask q) ?n = bit (y AND wrap_mask q) ?n" by (rule arg_cong)
    then show "bit x ?n = bit y ?n" unfolding b by simp
  next
    assume "bit x ?n = bit y ?n"
    then show "x AND wrap_mask q = y AND wrap_mask q" by (intro bit_word_eqI) (simp add: b)
  qed
qed

lemma index_mask_eq: "unat (log2nent q) \<le> 32 \<Longrightarrow> x AND index_mask q = take_bit (unat (log2nent q)) x"
  unfolding index_mask_def push_bit_1_minus_1
  by (rule bit_word_eqI) (auto simp: bit_simps)

lemma take_bit_Suc_eq:
  "take_bit (Suc n) (x::'a::len word) = take_bit (Suc n) y \<longleftrightarrow> take_bit n x = take_bit n y \<and> bit x n = bit y n"
proof -
  have "take_bit m x = take_bit m y \<longleftrightarrow> (\<forall>k<m. bit x k = bit y k)" for m
    unfolding bit_eq_iff [of "take_bit m x"] bit_take_bit_iff by (auto dest: bit_imp_le_length)
  then show ?thesis by (auto simp: less_Suc_eq)
qed

lemma int_mod_eq_iff: "a mod m = b mod m \<longleftrightarrow> (int a - int b) mod int m = 0"
proof -
  have "a mod m = b mod m \<longleftrightarrow> int a mod int m = int b mod int m"
    unfolding zmod_int [symmetric] by simp
  then show ?thesis by (simp add: mod_eq_dvd_iff mod_eq_0_iff_dvd)
qed

lemma take_bit_eq_int_mod:
  "take_bit n (x::u32) = take_bit n y \<longleftrightarrow> (int (unat x) - int (unat y)) mod 2 ^ n = 0"
  unfolding word_unat_eq_iff [symmetric] word_unat_eq_iff unsigned_take_bit_eq take_bit_eq_mod [where 'a = nat] int_mod_eq_iff
  by simp

lemma queue_empty_count:
  assumes "unat (log2nent q) < 32"
  shows "smmu_queue_empty q \<longleftrightarrow> q_count (unat (log2nent q)) (q_prod q) (q_cons q) = 0"
proof -
  let ?n = "unat (log2nent q)"
  have "smmu_queue_empty q \<longleftrightarrow> take_bit (Suc ?n) (q_prod q) = take_bit (Suc ?n) (q_cons q)"
    using assms by (simp add: smmu_queue_empty_def index_mask_eq wrap_mask_bit take_bit_Suc_eq)
  then show ?thesis
    unfolding take_bit_eq_int_mod q_count_def by (auto simp: nat_eq_iff)
qed

lemma half_mod: "(x::int) mod (2 * m) = m \<longleftrightarrow> x mod m = 0 \<and> x mod (2 * m) \<noteq> 0" if "0 < m" for m
proof -
  have e: "x mod (2 * m) = m * (x div m mod 2) + x mod m" using that zmod_zmult2_eq [of 2 x m] by (simp add: mult.commute)
  define r k where r1: "r = x mod m" and k1: "k = x div m mod 2"
  have r: "r = x mod m" "0 \<le> r" "r < m" and k: "k = x div m mod 2" "k = 0 \<or> k = 1"
    using that by (simp_all add: r1 k1) presburger
  from k(2) show ?thesis unfolding e r(1) [symmetric] k(1) [symmetric] using r(2,3) by auto
qed

lemma queue_full_count:
  assumes "unat (log2nent q) < 32"
  shows "smmu_queue_full q \<longleftrightarrow> q_count (unat (log2nent q)) (q_prod q) (q_cons q) = 2 ^ unat (log2nent q)"
proof -
  let ?n = "unat (log2nent q)" and ?x = "int (unat (q_prod q)) - int (unat (q_cons q))"
  have "smmu_queue_full q \<longleftrightarrow> take_bit ?n (q_prod q) = take_bit ?n (q_cons q) \<and>
      take_bit (Suc ?n) (q_prod q) \<noteq> take_bit (Suc ?n) (q_cons q)"
    using assms by (auto simp: smmu_queue_full_def index_mask_eq wrap_mask_bit take_bit_Suc_eq)
  also have "\<dots> \<longleftrightarrow> ?x mod 2 ^ Suc ?n = 2 ^ ?n"
    unfolding take_bit_eq_int_mod using half_mod [of "2 ^ ?n" ?x] by simp
  also have "\<dots> \<longleftrightarrow> nat (?x mod 2 ^ Suc ?n) = 2 ^ ?n"
    by (auto simp: nat_eq_iff2)
  finally show ?thesis by (simp add: q_count_def)
qed

lemma inc_prod_unat:
  assumes "unat (log2nent q) < 32"
  shows "unat (smmu_cmdq_inc_prod q) = (unat (q_prod q) + 1) mod 2 ^ Suc (unat (log2nent q))"
proof -
  let ?n = "unat (log2nent q)"
  have n1: "unat (log2nent q + 1) = Suc ?n" using assms by (simp add: unat_word_ariths)
  have "smmu_cmdq_inc_prod q = take_bit (Suc ?n) (q_prod q + 1)"
    unfolding smmu_cmdq_inc_prod_def n1 push_bit_1_minus_1
    by (rule bit_word_eqI) (auto simp: bit_simps)
  then have "unat (smmu_cmdq_inc_prod q) = unat (q_prod q + 1) mod 2 ^ Suc ?n"
    by (simp only: unsigned_take_bit_eq take_bit_eq_mod [where 'a = nat])
  also have "\<dots> = (unat (q_prod q) + 1) mod 2 ^ Suc ?n"
  proof -
    have "(2::nat) ^ Suc ?n dvd 2 ^ 32" using assms by (intro le_imp_power_dvd) simp
    then show ?thesis by (simp add: unat_word_ariths mod_mod_cancel)
  qed
  finally show ?thesis .
qed

lemma q_count_inc:
  assumes "unat (log2nent q) < 32" and "q_count (unat (log2nent q)) (q_prod q) c < 2 ^ Suc (unat (log2nent q)) - 1"
  shows "q_count (unat (log2nent q)) (smmu_cmdq_inc_prod q) c = Suc (q_count (unat (log2nent q)) (q_prod q) c)"
proof -
  let ?n = "unat (log2nent q)" and ?p = "int (unat (q_prod q))" and ?c = "int (unat c)"
  have "int (unat (smmu_cmdq_inc_prod q)) = (?p + 1) mod 2 ^ Suc ?n"
    unfolding inc_prod_unat [OF assms(1)] by (simp add: of_nat_mod add.commute)
  then have "(int (unat (smmu_cmdq_inc_prod q)) - ?c) mod 2 ^ Suc ?n = (?p + 1 - ?c) mod 2 ^ Suc ?n"
    by (simp add: mod_diff_left_eq)
  also have "\<dots> = ((?p - ?c) mod 2 ^ Suc ?n + 1) mod 2 ^ Suc ?n" by (simp add: mod_simps algebra_simps)
  also have "\<dots> = (?p - ?c) mod 2 ^ Suc ?n + 1"
  proof (rule mod_pos_pos_trivial)
    have "int (q_count ?n (q_prod q) c) = (?p - ?c) mod 2 ^ Suc ?n" by (simp add: q_count_def)
    moreover have "int (q_count ?n (q_prod q) c) < 2 ^ Suc ?n - 1" using assms(2) less_imp_of_nat_less [OF assms(2), where 'a = int] by (simp add: of_nat_diff)
    ultimately show "(?p - ?c) mod 2 ^ Suc ?n + 1 < 2 ^ Suc ?n" by simp
  qed simp
  finally show ?thesis unfolding q_count_def by (simp add: nat_add_distrib)
qed

lemma slot_addr_unat:
  assumes "unat b + 16 * 2 ^ n \<le> (2::nat) ^ 64" and "k < 2 ^ n"
  shows "unat (b + of_nat k * 16 :: u64) = unat b + k * 16" "unat (b + of_nat k * 16 + 8 :: u64) = unat b + k * 16 + 8"
proof -
  have k: "k * 16 + 16 \<le> 16 * 2 ^ n" using assms(2) by simp
  then have "k * 16 < 2 ^ 64" using assms(1) by linarith
  then have "unat (of_nat k * 16 :: u64) = k * 16"
    using word_le_of_nat_less [of "k * 16", where 'a = 64] by simp
  with k assms(1) show "unat (b + of_nat k * 16 :: u64) = unat b + k * 16" "unat (b + of_nat k * 16 + 8 :: u64) = unat b + k * 16 + 8"
    by (simp_all add: unat_word_ariths)
qed

lemma slot_neq:
  assumes "j < slot_cap b n" "k < slot_cap b n" "j \<noteq> k"
  shows "b + of_nat j * 16 \<noteq> (b + of_nat k * 16 :: u64)" "b + of_nat j * 16 \<noteq> (b + of_nat k * 16 + 8 :: u64)"
    "b + of_nat j * 16 + 8 \<noteq> (b + of_nat k * 16 :: u64)" "b + of_nat j * 16 + 8 \<noteq> (b + of_nat k * 16 + 8 :: u64)"
proof -
  have room: "unat b + 16 * 2 ^ n \<le> (2::nat) ^ 64" and jk: "j < 2 ^ n" "k < 2 ^ n"
    using assms by (auto simp: slot_cap_def split: if_splits)
  show "b + of_nat j * 16 \<noteq> (b + of_nat k * 16 :: u64)" "b + of_nat j * 16 \<noteq> (b + of_nat k * 16 + 8 :: u64)"
    "b + of_nat j * 16 + 8 \<noteq> (b + of_nat k * 16 :: u64)" "b + of_nat j * 16 + 8 \<noteq> (b + of_nat k * 16 + 8 :: u64)"
    unfolding word_unat_eq_iff slot_addr_unat [OF room jk(1)] slot_addr_unat [OF room jk(2)] using assms(3) by arith+
qed

interpretation cmdq_slots: slot_array "cmd_slot b" "put_slot b" "slot_cap b n" for b n
proof
  show "0 < slot_cap b n" by (simp add: slot_cap_def)
  fix c :: "u64 \<times> u64" and m :: "u64 \<Rightarrow> u64" and j k
  show "cmd_slot b (put_slot b k c m) k = c"
    by (simp add: cmd_slot_def put_slot_def)
  show "cmd_slot b (put_slot b k c m) j = cmd_slot b m j"
    if "j < slot_cap b n" "k < slot_cap b n" "j \<noteq> k"
    using slot_neq [OF that] by (simp add: cmd_slot_def put_slot_def)
qed

lemma full_wait_free: "\<not> smmu_queue_full q \<Longrightarrow> 0 < t \<Longrightarrow> full_wait q t = t"
  by (cases t) simp_all

lemma ready_not_full: "cmdq_ready smmu \<Longrightarrow> full_wait (queue (cmdq smmu)) SMMU_CMDQ_POLL_TIMEOUT \<noteq> 0"
  by (simp add: cmdq_ready_def smmu_queue_full_def full_wait_free SMMU_CMDQ_POLL_TIMEOUT_def)

lemma prod_slot:
  assumes "n < 32"
  shows "ucast (p::u32) AND (2 ^ n - 1) = (of_nat (unat p mod 2 ^ n) :: u64)"
proof -
  have "unat (ucast p AND (2 ^ n - 1) :: u64) = unat p mod 2 ^ n"
    unfolding mask_eq_exp_minus_1 [symmetric] take_bit_eq_mask [symmetric] unsigned_take_bit_eq unat_ucast_u32
    by (simp only: take_bit_eq_mod)
  then show ?thesis by (metis of_nat_unat ucast_id)
qed

lemma issue_effect:
  assumes "cmdq_ready smmu" and "smmu_cmdq_build_cmd opcode = Some cmd"
    and "reg_ld H (prod_reg (cmdq smmu)) (cells s) (hw s) = (p, d)" and "n = unat (log2nent (queue (cmdq smmu)))"
  shows "smmu_cmdq_issue_cmd H smmu opcode s =
    (let m = put_slot (cq_base (cmdq smmu)) (unat p mod 2 ^ n) cmd (cells s)
     in (True, s\<lparr>cells := m, hw := reg_st H (prod_reg (cmdq smmu))
          (smmu_cmdq_inc_prod \<lparr>q_prod = p, q_cons = 0, log2nent = log2nent (queue (cmdq smmu))\<rparr>) m d\<rparr>))"
proof -
  have n: "n < 32" using assms(1,4) by (simp add: cmdq_ready_def word_less_nat_alt)
  have e: "entry_size (cmdq smmu) = 16" using assms(1) by (simp add: cmdq_ready_def)
  show ?thesis
    using ready_not_full [OF assms(1)] assms(2,3)
    by (simp add: smmu_cmdq_issue_cmd_def smmu_cmdq_write_cmd_def val_mmio_read_def val_mmio_write_def Let_def
        st64_def put_slot_def e prod_slot [OF n, unfolded assms(4)] assms(4))
qed

lemma q_count_slot:
  assumes "n < 32"
  shows "(unat c + q_count n p c) mod 2 ^ n = unat p mod 2 ^ n"
proof -
  have "int ((unat c + q_count n p c) mod 2 ^ n) = (int (unat c) + (int (unat p) - int (unat c)) mod 2 ^ Suc n) mod 2 ^ n"
    by (simp add: q_count_def of_nat_mod)
  also have "\<dots> = (int (unat c) + (int (unat p) - int (unat c)) mod 2 ^ Suc n mod 2 ^ n) mod 2 ^ n"
    by (simp add: mod_add_right_eq)
  also have "(int (unat p) - int (unat c)) mod 2 ^ Suc n mod 2 ^ n = (int (unat p) - int (unat c)) mod 2 ^ n"
    by (rule mod_mod_cancel) (simp add: le_imp_power_dvd)
  also have "(int (unat c) + (int (unat p) - int (unat c)) mod 2 ^ n) mod 2 ^ n = int (unat p) mod 2 ^ n"
    by (simp add: mod_add_right_eq)
  finally have "int ((unat c + q_count n p c) mod 2 ^ n) = int (unat p mod 2 ^ n)" by (simp add: of_nat_mod)
  then show ?thesis by simp
qed

lemma poll_cons_seq:
  assumes "\<not> smmu_queue_empty q"
  shows "(\<exists>r. tail_iter (poll_step H a) (q, s) = Some r) \<longleftrightarrow>
    (\<exists>k. smmu_queue_empty (q\<lparr>q_cons := fst (cons_seq H a s k)\<rparr>))"
proof
  have run: "\<exists>k. smmu_queue_empty (q\<lparr>q_cons := fst (cons_seq H a s k)\<rparr>)"
    if "iter.run (poll_step H a) (q, s) r" "\<not> smmu_queue_empty q" for r q s
    using that
  proof (induction "(q, s)" r arbitrary: q s rule: iter.run.induct)
    case (stop r)
    then show ?case by (simp add: poll_step_def split: prod.splits)
  next
    case (go s' r)
    obtain v t where v: "val_mmio_read H a s = (v, t)" by fastforce
    with go have s': "s' = (q\<lparr>q_cons := v\<rparr>, t)" by (simp add: poll_step_def)
    show ?case
    proof (cases "smmu_queue_empty (q\<lparr>q_cons := v\<rparr>)")
      case True
      then show ?thesis using v by (intro exI [of _ 0]) simp
    next
      case False
      from go(3) [OF s' False] obtain k where "smmu_queue_empty (q\<lparr>q_cons := v, q_cons := fst (cons_seq H a t k)\<rparr>)" by blast
      then show ?thesis using v by (intro exI [of _ "Suc k"]) simp
    qed
  qed
  assume "\<exists>r. tail_iter (poll_step H a) (q, s) = Some r"
  then obtain r where "tail_iter (poll_step H a) (q, s) = Some r" ..
  from run [OF iter.loop_run [OF this] assms] show "\<exists>k. smmu_queue_empty (q\<lparr>q_cons := fst (cons_seq H a s k)\<rparr>)" .
next
  have "smmu_queue_empty (q\<lparr>q_cons := fst (cons_seq H a s k)\<rparr>) \<Longrightarrow> \<exists>r. tail_iter (poll_step H a) (q, s) = Some r" for k q s
  proof (induction k arbitrary: q s)
    case 0
    obtain v t where v: "val_mmio_read H a s = (v, t)" by fastforce
    with 0 have "tail_iter (poll_step H a) (q\<lparr>q_cons := v\<rparr>, t) = Some t"
      by (subst tail_iter.simps) (simp add: poll_step_def)
    with v show ?case by (subst tail_iter.simps) (simp add: poll_step_def)
  next
    case (Suc k)
    obtain v t where v: "val_mmio_read H a s = (v, t)" by fastforce
    with Suc.prems Suc.IH [where q = "q\<lparr>q_cons := v\<rparr>" and s = t] show ?case
      by (subst tail_iter.simps) (simp add: poll_step_def)
  qed
  then show "\<exists>k. smmu_queue_empty (q\<lparr>q_cons := fst (cons_seq H a s k)\<rparr>) \<Longrightarrow> \<exists>r. tail_iter (poll_step H a) (q, s) = Some r"
    by blast
qed

lemma BITFIELD_GET_less: "msb - lsb + 1 < LENGTH('a) \<Longrightarrow> unat (BITFIELD_GET msb lsb (x::'a::len word)) < 2 ^ (msb - lsb + 1)"
  unfolding BITFIELD_GET_take_bit unsigned_take_bit_eq by (rule take_bit_nat_less_exp)

lemma bit_BITFIELD_SET: "bit (BITFIELD_SET msb lsb (v::'a::len word)) n \<longleftrightarrow>
    lsb \<le> n \<and> n < LENGTH('a) \<and> n - lsb < msb - lsb + 1 \<and> bit v (n - lsb)"
  by (auto simp: BITFIELD_SET_push_bit bit_simps)

lemma bit_BITFIELD_MASK: "bit (BITFIELD_MASK msb lsb :: 'a::len word) n \<longleftrightarrow> n < LENGTH('a) \<and> n < msb - lsb + 1"
  unfolding BITFIELD_MASK_mask by (auto simp: bit_simps)

lemma bit_BITFIELD_GET: "bit (BITFIELD_GET msb lsb (v::'a::len word)) n \<longleftrightarrow> n < msb - lsb + 1 \<and> bit v (lsb + n)"
  by (auto simp: BITFIELD_GET_take_bit bit_simps dest: bit_imp_le_length)

lemmas bitfield_bits = bit_BITFIELD_SET bit_BITFIELD_MASK bit_BITFIELD_GET

lemma bit_lit_1: "bit (1::'a::len word) n \<longleftrightarrow> n = 0" by (simp add: bit_simps)

lemma aligned_low_bits: "take_bit k (x::'a::len word) = 0 \<Longrightarrow> n < k \<Longrightarrow> \<not> bit x n"
  by (metis bit_0_eq bit_take_bit_iff bot_apply bot_bool_def)

lemma bit_shl1: "k < 64 \<Longrightarrow> bit (shl 1 k :: u64) n \<longleftrightarrow> n = k"
  unfolding bit_push_bit_iff bit_1_iff by auto

lemma ste0_stage1:
  fixes c :: smmu_stage1_config_t and v :: u64
  assumes "take_bit 6 (cdtab_phys (cdcfg c)) = 0"
  defines "w \<equiv> shl 1 0 OR ((cdtab_phys (cdcfg c) AND BITFIELD_MASK 51 6) OR BITFIELD_SET 3 1 v OR
       BITFIELD_SET 63 59 (ucast (s1cdmax c)) OR BITFIELD_SET 5 4 (ucast (s1fmt c)))"
  shows "bit w 0" "BITFIELD_GET 3 1 w = take_bit 3 v" "BITFIELD_GET 5 4 w = take_bit 2 (ucast (s1fmt c))"
    "BITFIELD_GET 63 59 w = take_bit 5 (ucast (s1cdmax c))" "shl (BITFIELD_GET 51 6 w) 6 = take_bit 46 (cdtab_phys (cdcfg c))"
proof -
  have lo: "\<not> bit (cdtab_phys (cdcfg c)) n" if "n < 6" for n using aligned_low_bits [OF assms(1) that] .
  have ge: "6 \<le> n" "6 + (n - 6) = n" if "bit (cdtab_phys (cdcfg c)) n" for n using lo [of n] that by fastforce+
  have w: "bit w n \<longleftrightarrow> n = 0 \<or> (n < 46 \<and> bit (cdtab_phys (cdcfg c)) n) \<or> (1 \<le> n \<and> n < 4 \<and> bit v (n - 1)) \<or>
     (59 \<le> n \<and> n < 64 \<and> bit (s1cdmax c) (n - 59)) \<or> (4 \<le> n \<and> n < 6 \<and> bit (s1fmt c) (n - 4))" for n
    unfolding w_def by (auto simp: bitfield_bits bit_simps dest: bit_imp_le_length)
  show "bit w 0" by (simp add: w)
  show "BITFIELD_GET 3 1 w = take_bit 3 v"
    by (rule bit_word_eqI) (use lo in \<open>auto simp: bit_BITFIELD_GET w bit_take_bit_iff\<close>)
  show "BITFIELD_GET 5 4 w = take_bit 2 (ucast (s1fmt c))"
    by (rule bit_word_eqI) (use lo in \<open>auto simp: bit_BITFIELD_GET w bit_simps\<close>)
  show "BITFIELD_GET 63 59 w = take_bit 5 (ucast (s1cdmax c))"
    by (rule bit_word_eqI) (use lo in \<open>auto simp: bit_BITFIELD_GET w bit_simps\<close>)
  show "shl (BITFIELD_GET 51 6 w) 6 = take_bit 46 (cdtab_phys (cdcfg c))"
    by (rule bit_word_eqI) (auto simp: bit_BITFIELD_GET w bit_simps ge dest: ge(1))
qed

lemma ste_words_stage2:
  assumes "m_stage m = SMMU_STAGE_S2" and "ste_words (Some m) w = (w0, w1, w2, w3)"
  shows "w0 = 13" and "BITFIELD_GET 50 32 w2 = take_bit 19 (vtcr (stage2_config m))"
    and "BITFIELD_GET 15 0 w2 = ucast (vmid (stage2_config m))" and "w3 = take_bit 48 (vttbr (stage2_config m))"
proof -
  obtain o0 o1 o2 o3 where w: "w = (o0, o1, o2, o3)" by (cases w)
  let ?c = "stage2_config m"
  have w0: "w0 = shl 1 0 OR BITFIELD_SET 3 1 6" and w3: "w3 = vttbr ?c AND BITFIELD_MASK 51 4"
    and w2: "w2 = BITFIELD_SET 15 0 (ucast (vmid ?c)) OR BITFIELD_SET 50 32 (vtcr ?c) OR
                       shl 1 54 OR shl 1 51 OR shl 1 58"
    using assms by (simp_all add: ste_words_def w Let_def)
  show "w0 = 13" unfolding w0 by code_simp
  show "w3 = take_bit 48 (vttbr ?c)" unfolding w3 BITFIELD_MASK_mask by (simp add: take_bit_eq_mask)
  have lt: "54 < (64::nat)" "51 < (64::nat)" "58 < (64::nat)" by simp_all
  have b: "bit w2 n \<longleftrightarrow> (n < 16 \<and> bit (vmid ?c) n) \<or> (32 \<le> n \<and> n < 51 \<and> bit (vtcr ?c) (n - 32)) \<or> n = 54 \<or> n = 51 \<or> n = 58" for n
    unfolding w2 bit_or_iff bit_BITFIELD_SET bit_shl1 [of 54, OF lt(1)] bit_shl1 [of 51, OF lt(2)] bit_shl1 [of 58, OF lt(3)]
      bit_ucast_iff by (auto dest: bit_imp_le_length)
  show "BITFIELD_GET 50 32 w2 = take_bit 19 (vtcr ?c)"
    by (rule bit_word_eqI) (auto simp: bit_BITFIELD_GET b bit_take_bit_iff)
  show "BITFIELD_GET 15 0 w2 = ucast (vmid ?c)"
    by (rule bit_word_eqI) (auto simp: bit_BITFIELD_GET b bit_simps dest: bit_imp_le_length)
qed

lemma align_to_size_unat:
  assumes "k < 63" and "unat a + 2 * 2 ^ k \<le> 2 ^ 64"
  shows "unat (align_to_size a (2 ^ k)) = (unat a div 2 ^ k + 1) * 2 ^ k"
proof -
  have m: "(2 ^ k - 1 :: u64) = mask k" by (simp add: mask_eq_exp_minus_1)
  have k: "unat (2 ^ k :: u64) = 2 ^ k" using assms(1) word_le_of_nat_less [of "2 ^ k", where 'a = 64] power_strict_increasing [of k 64 "2::nat"] by simp
  have r: "unat (a AND mask k) = unat a mod 2 ^ k"
    unfolding take_bit_eq_mask [symmetric] unsigned_take_bit_eq by (simp only: take_bit_eq_mod)
  have le: "a AND mask k \<le> 2 ^ k" unfolding word_le_nat_alt r k by (simp add: less_imp_le)
  let ?x = "2 ^ k - (a AND mask k) + a"
  have "unat (2 ^ k - (a AND mask k)) = 2 ^ k - unat a mod 2 ^ k"
    using le by (simp add: unat_sub k r)
  moreover have "2 ^ k - unat a mod 2 ^ k + unat a = (unat a div 2 ^ k + 1) * 2 ^ k"
    using div_mult_mod_eq [of "unat a" "2 ^ k"] mod_less_divisor [of "2 ^ k" "unat a"] by (simp add: add_mult_distrib)
  moreover have "(unat a div 2 ^ k + 1) * 2 ^ k \<le> unat a + 2 ^ k" using div_times_less_eq_dividend [of "unat a" "2 ^ k"] by (simp add: algebra_simps)
  moreover have "(0::nat) < 2 ^ k" by simp
  ultimately have "unat (2 ^ k - (a AND mask k)) + unat a = (unat a div 2 ^ k + 1) * 2 ^ k"
    "(unat a div 2 ^ k + 1) * 2 ^ k < 2 ^ 64" using assms(2) by linarith+
  then have x: "unat ?x = (unat a div 2 ^ k + 1) * 2 ^ k"
    using unat_add_u64 [of "2 ^ k - (a AND mask k)" a] by simp
  have "unat ?x mod 2 ^ k = 0" unfolding x by simp
  then have low: "take_bit k ?x = 0"
    by (simp only: word_unat_eq_iff unsigned_take_bit_eq take_bit_eq_mod [where 'a = nat] unsigned_0)
  have "bit ?x n \<Longrightarrow> \<not> n < k" for n using aligned_low_bits [OF low] by blast
  then have "?x AND NOT (mask k) = ?x" by (intro bit_word_eqI) (auto simp: bit_and_iff bit_not_iff bit_mask_iff)
  then show ?thesis unfolding align_to_size_def m using x by simp
qed

lemma offsets_distinct [simp]:
  "(a::u64) + 8 \<noteq> a" "a + 16 \<noteq> a" "a + 24 \<noteq> a" "a \<noteq> a + 8" "a \<noteq> a + 16" "a \<noteq> a + 24"
  by simp_all

lemma write_ste_at: "ste_at (cells (smmu_strtab_write_ste m a s)) a = ste_words m (ste_at (cells s) a)"
  by (simp add: smmu_strtab_write_ste_def ste_at_def st64_def split: prod.splits)

lemma write_ste_other:
  "x \<noteq> a \<Longrightarrow> x \<noteq> a + 8 \<Longrightarrow> x \<noteq> a + 16 \<Longrightarrow> x \<noteq> a + 24 \<Longrightarrow> cells (smmu_strtab_write_ste m a s) x = cells s x"
  by (simp add: smmu_strtab_write_ste_def st64_def split: prod.splits)

lemma entry_unat:
  assumes "table_fits b n" "i < n" "k < 64"
  shows "unat (b + of_nat i * 64 + of_nat k :: u64) = unat b + 64 * i + k"
proof -
  have "64 * i + k < 2 ^ 64" "unat b + (64 * i + k) < 2 ^ 64" using assms by (auto simp: table_fits_def)
  then have "unat (of_nat (64 * i + k) :: u64) = 64 * i + k" using word_le_of_nat_less [of "64 * i + k", where 'a = 64] by simp
  with \<open>unat b + (64 * i + k) < 2 ^ 64\<close> have "unat (b + of_nat (64 * i + k)) = unat b + 64 * i + k"
    by (simp add: unat_word_ariths)
  then show ?thesis by (simp add: algebra_simps)
qed

lemma entries_apart:
  assumes "table_fits b n" "i < n" "j < n" "i \<noteq> j" "k < 64" "l < 64"
  shows "b + of_nat i * 64 + of_nat k \<noteq> (b + of_nat j * 64 + of_nat l :: u64)"
proof
  assume "b + of_nat i * 64 + of_nat k = (b + of_nat j * 64 + of_nat l :: u64)"
  then have "unat b + 64 * i + k = unat b + 64 * j + l"
    using entry_unat [OF assms(1,2,5)] entry_unat [OF assms(1,3,6)] by metis
  with assms(4-6) show False by presburger
qed

lemma write_ste_apart:
  assumes "table_fits b n" "i < n" "j < n" "i \<noteq> j" "k < 64"
  shows "cells (smmu_strtab_write_ste m (b + of_nat j * 64) s) (b + of_nat i * 64 + of_nat k) = cells s (b + of_nat i * 64 + of_nat k)"
  using entries_apart [OF assms, of 0] entries_apart [OF assms, of 8] entries_apart [OF assms, of 16] entries_apart [OF assms, of 24]
  by (intro write_ste_other) simp_all

lemma write_ste_apart_ste:
  assumes "table_fits b n" "i < n" "j < n" "i \<noteq> j"
  shows "ste_at (cells (smmu_strtab_write_ste m (b + of_nat j * 64) s)) (b + of_nat i * 64) = ste_at (cells s) (b + of_nat i * 64)"
  using write_ste_apart [OF assms, of 0 m s] write_ste_apart [OF assms, of 8 m s] write_ste_apart [OF assms, of 16 m s]
    write_ste_apart [OF assms, of 24 m s]
  by (simp add: ste_at_def)

lemma ste_words_abort: "ste_words None w = (1, BITFIELD_SET 45 44 1, 0, snd (snd (snd w)))"
  by (cases w) (simp add: ste_words_def BITFIELD_SET_def Let_def)

lemma aborts_write: "aborts (cells (smmu_strtab_write_ste None a s)) a"
  using write_ste_at [of None a s] by (simp add: ste_words_abort ste_at_def aborts_def abort_ste_def)

lemma abort_all_aborts:
  assumes "table_fits b n" "i < n"
  shows "aborts (cells (abort_all b n s)) (b + of_nat i * 64)"
proof -
  have "k \<le> n \<Longrightarrow> \<forall>i<k. aborts (cells (fold (\<lambda>i. smmu_strtab_write_ste None (b + of_nat i * 64)) [0..<k] s)) (b + of_nat i * 64)" for k
  proof (induction k)
    case (Suc k)
    let ?t = "fold (\<lambda>i. smmu_strtab_write_ste None (b + of_nat i * 64)) [0..<k] s"
    have "aborts (cells (smmu_strtab_write_ste None (b + of_nat k * 64) ?t)) (b + of_nat i * 64)" if "i < k" for i
      using Suc that write_ste_apart_ste [OF assms(1), of i k None ?t] by (simp add: aborts_def ste_at_def)
    then show ?case using aborts_write by (simp add: less_Suc_eq)
  qed simp
  then show ?thesis using assms(2) by (simp add: abort_all_def)
qed

lemma linear_ste_addr:
  assumes "\<not> st_level_2lvl smmu" "unat sid < 2 ^ 29"
  shows "smmu_strtab_get_ste_for_sid smmu sid = strtab64 (strtab_cfg smmu) + of_nat (unat sid) * 64"
proof -
  have "unat (sid * 8) = unat sid * 8" using assms(2) by (simp add: unat_word_ariths)
  then have "ucast (sid * 8) = (of_nat (unat sid * 8) :: u64)" by (metis unat_ucast_u32 of_nat_unat ucast_id)
  then show ?thesis using assms(1) by (simp add: smmu_strtab_get_ste_for_sid_def)
qed

lemma issue_cells:
  assumes "cmdq_ready smmu" "\<not> in_cmdq smmu a"
  shows "cells (snd (smmu_cmdq_issue_cmd H smmu op s)) a = cells s a"
proof (cases "smmu_cmdq_build_cmd op")
  case None
  then show ?thesis by (simp add: smmu_cmdq_issue_cmd_def)
next
  case (Some cmd)
  obtain p d where pd: "reg_ld H (prod_reg (cmdq smmu)) (cells s) (hw s) = (p, d)" by fastforce
  let ?n = "unat (log2nent (queue (cmdq smmu)))"
  have "unat p mod 2 ^ ?n < 2 ^ ?n" by simp
  then show ?thesis
    using issue_effect [OF assms(1) Some pd refl] assms(2) by (auto simp: Let_def in_cmdq_def put_slot_def)
qed

lemma poll_cells: "smmu_cmdq_poll_until_consumed H smmu s = Some s' \<Longrightarrow> cells s' = cells s"
proof -
  have rd: "cells (snd (val_mmio_read H a t)) = cells t" for a t
    by (simp add: val_mmio_read_def split: prod.splits)
  let ?step = "poll_step H (cons_reg (cmdq smmu))"
  have inv: "cells (snd y) = cells (snd x)" if "?step x = Inr y" for x y
    using that rd [of "cons_reg (cmdq smmu)" "snd x"] by (cases x) (auto simp: poll_step_def split: if_splits prod.splits)
  have out: "r = snd x" if "?step x = Inl r" for x r
    using that by (cases x) (auto simp: poll_step_def split: if_splits prod.splits)
  obtain p s1 where r1: "val_mmio_read H (prod_reg (cmdq smmu)) s = (p, s1)" by fastforce
  obtain c s2 where r2: "val_mmio_read H (cons_reg (cmdq smmu)) s1 = (c, s2)" by fastforce
  have c: "cells s2 = cells s" using rd [of "prod_reg (cmdq smmu)" s] rd [of "cons_reg (cmdq smmu)" s1] r1 r2 by simp
  assume "smmu_cmdq_poll_until_consumed H smmu s = Some s'"
  then have "tail_iter ?step (\<lparr>q_prod = p, q_cons = c, log2nent = log2nent (queue (cmdq smmu))\<rparr>, s2) = Some s'"
    by (simp add: smmu_cmdq_poll_until_consumed_def r1 r2)
  from iter.loop_inv [OF this, of "\<lambda>x. cells (snd x) = cells s"] inv c
  obtain x where "cells (snd x) = cells s" "?step x = Inl s'" by auto
  with out show "cells s' = cells s" by metis
qed

lemma tlbi_cells:
  assumes "cmdq_ready smmu" "\<not> in_cmdq smmu a" "smmu_tlbi_cfgi H smmu s = Some s'"
  shows "cells s' a = cells s a"
  using poll_cells [OF assms(3) [unfolded smmu_tlbi_cfgi_def Let_def]]
  by (simp add: issue_cells [OF assms(1,2)])

lemma master_pos_sid: "master_pos sid ms = Some i \<Longrightarrow> i < length ms \<and> m_sid (ms ! i) = sid"
  by (induction ms arbitrary: i) (auto split: if_splits)

lemma master_at_spec:
  assumes "smmu_master_at sid s = (Some i, s1)"
  shows "cells s1 = cells s" "g_smmu s1 = g_smmu s" "g_num_smmus s1 = g_num_smmus s" "i < length (g_masters s1)"
    "m_smmu (g_masters s1 ! i) \<noteq> None \<Longrightarrow> m_sid (g_masters s1 ! i) = sid"
  using assms master_pos_sid [of sid "g_masters s"]
  by (auto simp: smmu_master_at_def val_memory_alloc_def zero_master_def split: option.splits list.splits if_splits)

lemma map_stage2_effect:
  assumes "g_smmu s = Some f" and "smmu = f (smmu_index at)" and "\<not> st_level_2lvl smmu" and "stage2 at \<noteq> 0"
    and "val_smmu_map H at pd s = Some (0, s')"
  shows "\<exists>m t. cells t = cells s \<and> m_stage m = SMMU_STAGE_S2 \<and>
      stage2_config m = \<lparr>vmid = 0, vttbr = pgt_base pd, vtcr = vtcr_of (tcr pd)\<rparr> \<and>
      (ucast (streamid at) :: u64) < shl 1 (unat (sid_bits smmu)) \<and>
      smmu_tlbi_cfgi H smmu (smmu_strtab_write_ste (Some m) (smmu_strtab_get_ste_for_sid smmu (streamid at)) t) = Some s'"
proof -
  from assms obtain i s1 where at: "smmu_master_at (streamid at) s = (Some i, s1)"
    by (auto simp: val_smmu_map_def Let_def split: if_splits prod.splits option.splits)
  note sp = master_at_spec [OF at]
  let ?m0 = "g_masters s1 ! i"
  let ?m1 = "if m_smmu ?m0 = None then ?m0\<lparr>m_smmu := Some (smmu_index at), m_sid := streamid at, m_ssid_bits := at_ssid_bits at\<rparr> else ?m0"
  let ?m3 = "?m1\<lparr>m_stage := SMMU_STAGE_S2, stage2_config := \<lparr>vmid = 0, vttbr = pgt_base pd, vtcr = vtcr_of (tcr pd)\<rparr>\<rparr>"
  have sid: "m_sid ?m3 = streamid at" using sp(5) by auto
  have "(ucast (streamid at) :: u64) < shl 1 (unat (sid_bits smmu))"
    using assms at by (auto simp: val_smmu_map_def Let_def not_le split: if_splits)
  moreover have "smmu_tlbi_cfgi H smmu (smmu_strtab_write_ste (Some ?m3) (smmu_strtab_get_ste_for_sid smmu (streamid at))
      (put_master i ?m3 (put_smmu (smmu_index at) smmu s1))) = Some s'"
    using assms at sid by (auto simp: val_smmu_map_def Let_def map_config_def split: if_splits)
  moreover have "cells (put_master i ?m3 (put_smmu (smmu_index at) smmu s1)) = cells s"
    by (simp add: put_master_def put_smmu_def sp)
  ultimately show ?thesis by (intro exI [of _ ?m3] exI [of _ "put_master i ?m3 (put_smmu (smmu_index at) smmu s1)"]) auto
qed

lemma cdtab_free_cells: "cells (snd (smmu_cdtab_free smmu m s)) = cells s"
proof -
  have "cells (fold (\<lambda>i t. if P i then val_memory_free (q i) t else t) xs s) = cells s" for P q and xs :: "nat list"
    by (induction xs arbitrary: s) (auto simp: val_memory_free_def)
  then show ?thesis by (simp add: smmu_cdtab_free_def Let_def val_memory_free_def)
qed

lemma example_ready: "cmdq_ready example_smmu"
  by (simp add: cmdq_ready_def example_smmu_def)

lemma dead_probe: "smmu_probe dead_hw dead_dev (example_sstate ()) = (True, probed_dev, example_sstate ())"
proof -
  have b: "dev_base dead_dev = 0x2B400000" "dev_ias (probe_idr1 0x01000001 (probe_idr0 0x0800000B dead_dev)) = 0"
    by (simp_all add: dead_dev_def probe_idr1_def probe_idr0_def zero_dev_def)
  have r: "val_mmio_read dead_hw 0x2B400000 s = (0x0800000B, s)" "val_mmio_read dead_hw 0x2B400004 s = (0x01000001, s)"
    "val_mmio_read dead_hw 0x2B400014 s = (5, s)" for s by (simp_all add: val_mmio_read_def dead_hw_def)
  have f: "BITFIELD_GET 3 2 (0x0800000B::u32) = 2" "BITFIELD_GET 2 0 (5::u32) = 5" "smmu_oas ! 5 = 48" "get_max 0 48 = 48"
    by code_simp+
  show ?thesis by (simp add: smmu_probe_def b r f probed_dev_def Let_def)
qed

lemma probed_fields: "sid_bits probed_dev = 1" "dev_base probed_dev = 0x2B400000" "dev_oas probed_dev = 48"
  "\<not> st_level_2lvl probed_dev" "log2nent (queue (cmdq probed_dev)) = 8" "strtab_cfg probed_dev = strtab_cfg zero_dev"
proof -
  have "BITFIELD_GET 5 0 (0x01000001::u32) = 1" "BITFIELD_GET 25 21 (0x01000001::u32) = 8" by code_simp+
  then show "sid_bits probed_dev = 1" "dev_base probed_dev = 0x2B400000" "dev_oas probed_dev = 48"
    "\<not> st_level_2lvl probed_dev" "log2nent (queue (cmdq probed_dev)) = 8" "strtab_cfg probed_dev = strtab_cfg zero_dev"
    by (simp_all add: probed_dev_def probe_idr1_def probe_idr0_def dead_dev_def STRTAB_SPLIT_def)
qed

lemma ack_loop_never: "(\<And>t. fst (val_mmio_read H a t) \<noteq> v) \<Longrightarrow> \<exists>s'. ack_loop H a v n s = (False, s')"
  by (induction n arbitrary: s) (simp_all add: split_beta)

lemma dead_reset: "dev_base d = 0x2B400000 \<Longrightarrow> \<exists>s'. smmu_reset dead_hw d s = Some (1, s')"
proof -
  have "fst (val_mmio_read dead_hw 0x2B400024 t) \<noteq> 0" for t by (simp add: val_mmio_read_def dead_hw_def)
  from ack_loop_never [OF this] obtain s'
    where "ack_loop dead_hw 0x2B400024 0 ACK_TIMEOUT (val_mmio_write dead_hw 0x2B400020 0 s) = (False, s')" by blast
  then show "dev_base d = 0x2B400000 \<Longrightarrow> \<exists>s'. smmu_reset dead_hw d s = Some (1, s')"
    by (simp add: smmu_reset_def smmu_reg_write_sync_def)
qed

lemma tlbi_quiet: "\<exists>s'. smmu_tlbi_cfgi quiet_hw smmu s = Some s'"
proof -
  have rd: "val_mmio_read quiet_hw a t = (0, t)" for a t by (simp add: val_mmio_read_def quiet_hw_def)
  have "\<exists>s'. smmu_cmdq_poll_until_consumed quiet_hw smmu t = Some s'" for t
    unfolding smmu_cmdq_poll_until_consumed_def rd Let_def
    by (subst tail_iter.simps) (simp add: poll_step_def smmu_queue_empty_def rd)
  then show ?thesis by (simp add: smmu_tlbi_cfgi_def Let_def)
qed

lemma example_apart: "in_cmdq example_smmu a \<Longrightarrow> \<not> in_table 0x20000 16 a"
proof
  assume "in_cmdq example_smmu a"
  then obtain j where j: "j < 4" "a = 0x10000 + of_nat j * 16 \<or> a = 0x10000 + of_nat j * 16 + 8"
    by (auto simp: in_cmdq_def example_smmu_def)
  have "unat (0x10000::u64) + 16 * 2 ^ 2 \<le> 2 ^ 64" "j < 2 ^ 2" using j(1) by simp_all
  note slot_addr_unat [OF this]
  with j have less: "unat a < 0x20000" by auto
  assume "in_table 0x20000 16 a"
  then obtain i k where "i < 16" "k < 64" "a = 0x20000 + of_nat i * 64 + of_nat k" by (auto simp: in_table_def)
  moreover have "table_fits 0x20000 16" by (simp add: table_fits_def)
  ultimately have "unat a = 0x20000 + 64 * i + k" using entry_unat [of "0x20000" 16 i k] by simp
  with less show False by simp
qed

subsection \<open>Properties\<close>

text \<open>
  Property C20. On a command queue with room, \<open>smmu_cmdq_issue_cmd\<close> appends the command at the
  end of the sequence of commands that the hardware has still to execute, and tells it so by the producer register;
  the commands in front stay as they are.
\<close>

theorem cmdq_issue_appends:
  assumes "cmdq_ready smmu" and "smmu_cmdq_build_cmd opcode = Some cmd"
    and "reg_ld H (prod_reg (cmdq smmu)) (cells s) (hw s) = (p, d)"
    and "q_count (unat (log2nent (queue (cmdq smmu)))) p c < 2 ^ unat (log2nent (queue (cmdq smmu)))"
  shows "\<exists>s' p'. smmu_cmdq_issue_cmd H smmu opcode s = (True, s') \<and>
     hw s' = reg_st H (prod_reg (cmdq smmu)) p' (cells s') d \<and>
     pending_cmds (cq_base (cmdq smmu)) (unat (log2nent (queue (cmdq smmu)))) (cells s') p' c =
       pending_cmds (cq_base (cmdq smmu)) (unat (log2nent (queue (cmdq smmu)))) (cells s) p c @ [cmd]"
proof -
  let ?q = "queue (cmdq smmu)" let ?n = "unat (log2nent ?q)" and ?b = "cq_base (cmdq smmu)"
  let ?k = "q_count ?n p c"
  have n: "?n < 32" and room: "unat ?b + 16 * 2 ^ ?n \<le> 2 ^ 64"
    using assms(1) by (simp_all add: cmdq_ready_def word_less_nat_alt)
  have cap: "slot_cap ?b ?n = 2 ^ ?n" using room by (simp add: slot_cap_def)
  let ?p' = "smmu_cmdq_inc_prod \<lparr>q_prod = p, q_cons = 0, log2nent = log2nent ?q\<rparr>"
  let ?m = "put_slot ?b ((unat c + ?k) mod slot_cap ?b ?n) cmd (cells s)"
  have w: "pending_cmds ?b ?n m p' c = cmdq_slots.window ?b ?n m (unat c) (q_count ?n p' c)" for m p'
    unfolding pending_cmds_def cmdq_slots.window_def unfolding cap ..
  have "(2::nat) ^ ?n \<le> 2 ^ Suc ?n - 1" by simp
  then have "q_count ?n ?p' c = Suc ?k" using q_count_inc [of "\<lparr>q_prod = p, q_cons = 0, log2nent = log2nent ?q\<rparr>" c] n assms(4)
    by simp
  then have "pending_cmds ?b ?n ?m ?p' c = pending_cmds ?b ?n (cells s) p c @ [cmd]"
    unfolding w using cmdq_slots.window_push [of ?k ?b ?n "unat c" cmd "cells s"] assms(4) cap by simp
  moreover have "?m = put_slot ?b (unat p mod 2 ^ ?n) cmd (cells s)"
    unfolding cap q_count_slot [OF n] ..
  ultimately show ?thesis
    using issue_effect [OF assms(1-3) refl]
    by (intro exI [of _ "snd (smmu_cmdq_issue_cmd H smmu opcode s)"] exI [of _ ?p'] conjI) (simp_all add: Let_def)
qed

theorem cmdq_issue_appends_witness:
  "\<exists>s' p'. smmu_cmdq_issue_cmd counter_hw example_smmu CMDQ_OP_CFGI_ALL (example_sstate 3) = (True, s') \<and>
     pending_cmds 0x10000 2 (cells s') p' 1 = pending_cmds 0x10000 2 (cells (example_sstate (3::u32))) 3 1 @ [(4, 31)]"
proof -
  have c: "smmu_cmdq_build_cmd CMDQ_OP_CFGI_ALL = Some (4, 31)" by code_simp
  have r: "reg_ld counter_hw (prod_reg (cmdq example_smmu)) (cells (example_sstate 3)) (hw (example_sstate 3)) = (3, 3)"
    by (simp add: counter_hw_def example_sstate_def)
  have q: "q_count (unat (log2nent (queue (cmdq example_smmu)))) 3 1 < 2 ^ unat (log2nent (queue (cmdq example_smmu)))"
    by (simp add: q_count_def example_smmu_def)
  have e: "cq_base (cmdq example_smmu) = 0x10000" "unat (log2nent (queue (cmdq example_smmu))) = 2"
    by (simp_all add: example_smmu_def)
  show ?thesis using cmdq_issue_appends [OF example_ready c r q] unfolding e by blast
qed

text \<open>
  The driver tests a software copy of the indices that nothing updates, so it never sees a full
  queue: a command issued into a full queue is reported as written and replaces the oldest command.
\<close>

theorem cmdq_overrun:
  assumes "cmdq_ready smmu" and "smmu_cmdq_build_cmd opcode = Some cmd"
    and "reg_ld H (prod_reg (cmdq smmu)) (cells s) (hw s) = (p, d)"
    and "q_count (unat (log2nent (queue (cmdq smmu)))) p c = 2 ^ unat (log2nent (queue (cmdq smmu)))"
  shows "\<exists>s'. smmu_cmdq_issue_cmd H smmu opcode s = (True, s') \<and>
     pending_cmds (cq_base (cmdq smmu)) (unat (log2nent (queue (cmdq smmu)))) (cells s') p c ! 0 = cmd"
proof -
  let ?q = "queue (cmdq smmu)" let ?n = "unat (log2nent ?q)" and ?b = "cq_base (cmdq smmu)"
  have n: "?n < 32" and room: "unat ?b + 16 * 2 ^ ?n \<le> 2 ^ 64"
    using assms(1) by (simp_all add: cmdq_ready_def word_less_nat_alt)
  have cap: "slot_cap ?b ?n = 2 ^ ?n" using room by (simp add: slot_cap_def)
  have w: "pending_cmds ?b ?n m p c = cmdq_slots.window ?b ?n m (unat c) (2 ^ ?n)" for m
    unfolding pending_cmds_def cmdq_slots.window_def assms(4) unfolding cap ..
  have "(unat c + slot_cap ?b ?n) mod slot_cap ?b ?n = unat p mod 2 ^ ?n"
    using q_count_slot [OF n, of c p] assms(4) cap by simp
  with issue_effect [OF assms(1-3) refl] cmdq_slots.window_overrun [of "2 ^ ?n" ?b ?n "unat c" cmd "cells s"]
  show ?thesis unfolding w by (simp add: Let_def)
qed

theorem cmdq_overrun_witness:
  "\<exists>s'. smmu_cmdq_issue_cmd counter_hw example_smmu CMDQ_OP_CMD_SYNC (example_sstate 5) = (True, s') \<and>
     pending_cmds 0x10000 2 (cells s') 5 1 ! 0 = (0x46, 0)"
proof -
  have c: "smmu_cmdq_build_cmd CMDQ_OP_CMD_SYNC = Some (0x46, 0)" by code_simp
  have r: "reg_ld counter_hw (prod_reg (cmdq example_smmu)) (cells (example_sstate 5)) (hw (example_sstate 5)) = (5, 5)"
    by (simp add: counter_hw_def example_sstate_def)
  have q: "q_count (unat (log2nent (queue (cmdq example_smmu)))) 5 1 = 2 ^ unat (log2nent (queue (cmdq example_smmu)))"
    by (simp add: q_count_def example_smmu_def)
  have e: "cq_base (cmdq example_smmu) = 0x10000" "unat (log2nent (queue (cmdq example_smmu))) = 2"
    by (simp_all add: example_smmu_def)
  show ?thesis using cmdq_overrun [OF example_ready c r q] unfolding e .
qed

text \<open>
  Property C22. \<open>smmu_cmdq_poll_until_consumed\<close> returns if and only if one of the values read from the
  consumer register is equal to the producer index; there is no timeout.
\<close>

theorem poll_returns_iff:
  assumes "unat (log2nent (queue (cmdq smmu))) < 32"
    and "val_mmio_read H (prod_reg (cmdq smmu)) s = (p, s1)"
  shows "(\<exists>s'. smmu_cmdq_poll_until_consumed H smmu s = Some s') \<longleftrightarrow>
    (\<exists>k. q_count (unat (log2nent (queue (cmdq smmu)))) p (fst (cons_seq H (cons_reg (cmdq smmu)) s1 k)) = 0)"
proof -
  let ?l = "log2nent (queue (cmdq smmu))" and ?a = "cons_reg (cmdq smmu)"
  obtain c s2 where c: "val_mmio_read H ?a s1 = (c, s2)" by fastforce
  let ?q = "\<lparr>q_prod = p, q_cons = c, log2nent = ?l\<rparr>"
  have q: "q_count (unat ?l) p x = 0 \<longleftrightarrow> smmu_queue_empty (?q\<lparr>q_cons := x\<rparr>)" for x
    using queue_empty_count [of "?q\<lparr>q_cons := x\<rparr>"] assms(1) by simp
  have poll: "smmu_cmdq_poll_until_consumed H smmu s = tail_iter (poll_step H ?a) (?q, s2)"
    by (simp add: smmu_cmdq_poll_until_consumed_def assms(2) c)
  show ?thesis
  proof (cases "smmu_queue_empty ?q")
    case True
    then have "tail_iter (poll_step H ?a) (?q, s2) = Some s2" by (subst tail_iter.simps) (simp add: poll_step_def)
    moreover have "q_count (unat ?l) p (fst (cons_seq H ?a s1 0)) = 0" unfolding q using True c by simp
    ultimately show ?thesis unfolding poll by blast
  next
    case False
    have "(\<exists>k. smmu_queue_empty (?q\<lparr>q_cons := fst (cons_seq H ?a s1 k)\<rparr>)) \<longleftrightarrow>
        (\<exists>k. smmu_queue_empty (?q\<lparr>q_cons := fst (cons_seq H ?a s2 k)\<rparr>))"
    proof
      assume "\<exists>k. smmu_queue_empty (?q\<lparr>q_cons := fst (cons_seq H ?a s1 k)\<rparr>)"
      then obtain k where k: "smmu_queue_empty (?q\<lparr>q_cons := fst (cons_seq H ?a s1 k)\<rparr>)" ..
      with False c have "k \<noteq> 0" by (cases k) auto
      then obtain j where "k = Suc j" by (cases k) auto
      with k c show "\<exists>k. smmu_queue_empty (?q\<lparr>q_cons := fst (cons_seq H ?a s2 k)\<rparr>)" by auto
    next
      assume "\<exists>k. smmu_queue_empty (?q\<lparr>q_cons := fst (cons_seq H ?a s2 k)\<rparr>)"
      then obtain k where "smmu_queue_empty (?q\<lparr>q_cons := fst (cons_seq H ?a s2 k)\<rparr>)" ..
      then show "\<exists>k. smmu_queue_empty (?q\<lparr>q_cons := fst (cons_seq H ?a s1 k)\<rparr>)"
        using c by (intro exI [of _ "Suc k"]) simp
    qed
    with poll_cons_seq [OF False] show ?thesis unfolding poll q by simp
  qed
qed

theorem poll_returns_iff_witness:
  "smmu_cmdq_poll_until_consumed stuck_hw example_smmu (example_sstate ()) = None \<and>
   (\<exists>s'. smmu_cmdq_poll_until_consumed quiet_hw example_smmu (example_sstate ()) = Some s')"
proof
  have n: "unat (log2nent (queue (cmdq example_smmu))) < 32" "unat (log2nent (queue (cmdq example_smmu))) = 2"
    by (simp_all add: example_smmu_def)
  have c: "cons_reg (cmdq example_smmu) = 0x2B40009C" "prod_reg (cmdq example_smmu) = 0x2B400098"
    by (simp_all add: example_smmu_def)
  have p: "val_mmio_read stuck_hw (prod_reg (cmdq example_smmu)) (example_sstate ()) = (1, example_sstate ())"
    by (simp add: val_mmio_read_def stuck_hw_def c example_sstate_def)
  have "fst (cons_seq stuck_hw 0x2B40009C s k) = 0" for s k
    by (induction k arbitrary: s) (simp_all add: val_mmio_read_def stuck_hw_def)
  with poll_returns_iff [OF n(1) p]
  show "smmu_cmdq_poll_until_consumed stuck_hw example_smmu (example_sstate ()) = None"
    by (simp add: c n q_count_def)
  have p': "val_mmio_read quiet_hw (prod_reg (cmdq example_smmu)) (example_sstate ()) = (0, example_sstate ())"
    by (simp add: val_mmio_read_def quiet_hw_def example_sstate_def)
  have "q_count 2 0 (fst (cons_seq quiet_hw 0x2B40009C (example_sstate ()) 0)) = 0"
    by (simp add: val_mmio_read_def quiet_hw_def q_count_def)
  with poll_returns_iff [OF n(1) p'] show "\<exists>s'. smmu_cmdq_poll_until_consumed quiet_hw example_smmu (example_sstate ()) = Some s'"
    unfolding c n by blast
qed

text \<open>
  Property C23. What \<open>smmu_probe\<close> accepts is well formed: the output size is one of the architecture, the
  input size is not smaller, queue and stream table sizes fit their fields, a two-level table has more than
  8 stream bits and a translation stage is supported.
\<close>

theorem smmu_probe_type:
  assumes "smmu_probe H smmu s = (True, d, s')"
  shows "dev_oas d \<in> set smmu_oas \<and> dev_oas d \<le> dev_ias d \<and> unat (log2nent (queue (cmdq d))) < 32 \<and>
    unat (sid_bits d) < 64 \<and> unat (ssid_bits d) < 32 \<and> (st_level_2lvl d \<longrightarrow> 8 < sid_bits d) \<and>
    (s1p d \<or> s2p d) \<and> dev_base d = dev_base smmu"
proof -
  obtain data s1 where r0: "val_mmio_read H (dev_base smmu) s = (data, s1)" by fastforce
  obtain data1 s2 where r1: "val_mmio_read H (dev_base smmu + 4) s1 = (data1, s2)" by fastforce
  obtain data5 s3 where r5: "val_mmio_read H (dev_base smmu + 0x14) s2 = (data5, s3)" by fastforce
  let ?i = "BITFIELD_GET 2 0 data5"
  let ?F = "\<lambda>m. (probe_idr1 data1 m)\<lparr>dev_oas := smmu_oas ! unat ?i,
     dev_ias := get_max (dev_ias (probe_idr1 data1 m)) (smmu_oas ! unat ?i)\<rparr>"
  from assms have trans: "data AND (shl 1 1 OR shl 1 0) \<noteq> 0" and i: "\<not> ?i \<ge> 7"
    and d: "d = ?F ((probe_idr0 data smmu)\<lparr>dev_ias := 40\<rparr>) \<or> d = ?F (probe_idr0 data smmu)"
    unfolding smmu_probe_def Let_def
    by (auto simp: r0 r1 r5 split: if_splits)
  have ii: "unat ?i < length smmu_oas" using i by (simp add: smmu_oas_def not_le word_less_nat_alt)
  have sp: "s1p (probe_idr0 data smmu) \<or> s2p (probe_idr0 data smmu)"
    using trans unfolding bit.conj_disj_distrib by (auto simp: probe_idr0_def)
  have bits: "unat (BITFIELD_GET 25 21 data1) < 32" "unat (BITFIELD_GET 5 0 data1) < 64" "unat (BITFIELD_GET 10 6 data1) < 32"
    using BITFIELD_GET_less [where 'a = 32, of 25 21 data1] BITFIELD_GET_less [where 'a = 32, of 5 0 data1]
      BITFIELD_GET_less [where 'a = 32, of 10 6 data1] by simp_all
  from d show ?thesis
    using sp bits nth_mem [OF ii]
    by (elim disjE) (simp_all add: probe_idr1_def probe_idr0_def get_max_def STRTAB_SPLIT_def not_le not_less less_imp_le)
qed

theorem smmu_probe_type_witness:
  "\<exists>d s'. smmu_probe dead_hw dead_dev (example_sstate ()) = (True, d, s') \<and> dev_oas d = 48 \<and>
     dev_oas d \<in> set smmu_oas \<and> dev_oas d \<le> dev_ias d \<and> unat (log2nent (queue (cmdq d))) < 32"
  using dead_probe smmu_probe_type [OF dead_probe] probed_fields(3) by blast

text \<open>
  \<open>smmu_reset\<close> returns 1 when it fails and when it succeeds, and \<open>smmu_init\<close> takes
  every value except 0 for success: once the tables are allocated it reports success whatever the reset did.
\<close>

theorem reset_failure_ignored:
  assumes "dev_base smmu \<noteq> 0" and "smmu_probe H smmu s = (True, d1, s1)"
    and "smmu_cmd_queue_init H d1 s1 = (True, d2, s2)" and "smmu_strtab_init d2 s2 = (True, d3, s3)"
    and "smmu_reset H d3 s3 = Some (r, s4)"
  shows "r = 1 \<and> smmu_init H smmu s = Some (0, d3, s4)"
proof -
  have sync: "fst (smmu_reg_write_sync H d v a b t) = 0 \<or> fst (smmu_reg_write_sync H d v a b t) = 1" for d v a b t
    by (simp add: smmu_reg_write_sync_def split: prod.splits)
  have "r = 1" using assms(5) sync
    unfolding smmu_reset_def Let_def
    by (auto split: prod.splits if_splits Option.bind_splits) (metis fst_conv)+
  with assms show ?thesis by (simp add: smmu_init_def)
qed

theorem reset_failure_ignored_witness:
  "\<exists>d s'. smmu_init dead_hw dead_dev (example_sstate ()) = Some (0, d, s')"
proof -
  have q: "\<exists>d2 s2. smmu_cmd_queue_init dead_hw probed_dev (example_sstate ()) = (True, d2, s2) \<and> pool_supply s2 = [0x200000] \<and>
      dev_base d2 = 0x2B400000 \<and> \<not> st_level_2lvl d2"
    by (simp add: smmu_cmd_queue_init_def example_sstate_def val_memory_alloc_def Let_def probed_fields val_memory_set_def)
  then obtain d2 s2 where d2: "smmu_cmd_queue_init dead_hw probed_dev (example_sstate ()) = (True, d2, s2)"
    "pool_supply s2 = [0x200000]" "dev_base d2 = 0x2B400000" "\<not> st_level_2lvl d2" by blast
  then obtain d3 s3 where d3: "smmu_strtab_init d2 s2 = (True, d3, s3)" "dev_base d3 = 0x2B400000"
    by (simp add: smmu_strtab_init_def smmu_strtab_init_linear_def val_memory_alloc_def Let_def)
  from dead_reset [OF d3(2)] obtain s4 where r: "smmu_reset dead_hw d3 s3 = Some (1, s4)" by blast
  have "dev_base dead_dev \<noteq> 0" by (simp add: dead_dev_def)
  from reset_failure_ignored [OF this dead_probe d2(1) d3(1) r] show ?thesis by blast
qed





text \<open>
  Property C19. A successful \<open>val_smmu_map\<close> for stage 2 on a linear stream table installs the page table and the
  control fields in the entry of the stream and leaves the entries of all other streams unchanged.
\<close>

theorem map_isolates_streams:
  assumes "g_smmu s = Some f" and "smmu = f (smmu_index at)" and "\<not> st_level_2lvl smmu" and "stage2 at \<noteq> 0"
    and "cmdq_ready smmu" and "unat (sid_bits smmu) = k" and "k \<le> 24"
    and "b = strtab64 (strtab_cfg smmu)" and "table_fits b (2 ^ k)"
    and "\<forall>a. in_cmdq smmu a \<longrightarrow> \<not> in_table b (2 ^ k) a"
    and "val_smmu_map H at pd s = Some (0, s')"
  shows "unat (streamid at) < 2 ^ k \<and>
    (\<forall>j<2 ^ k. j \<noteq> unat (streamid at) \<longrightarrow> ste_at (cells s') (b + of_nat j * 64) = ste_at (cells s) (b + of_nat j * 64)) \<and>
    (case ste_at (cells s') (b + of_nat (unat (streamid at)) * 64) of (w0, w1, w2, w3) \<Rightarrow>
       w0 = 13 \<and> BITFIELD_GET 50 32 w2 = take_bit 19 (vtcr_of (tcr pd)) \<and> w3 = take_bit 48 (pgt_base pd))"
proof -
  let ?sid = "streamid at"
  from map_stage2_effect [OF assms(1-4,11)] obtain m t where t: "cells t = cells s" and m: "m_stage m = SMMU_STAGE_S2"
    "stage2_config m = \<lparr>vmid = 0, vttbr = pgt_base pd, vtcr = vtcr_of (tcr pd)\<rparr>"
    and r: "(ucast ?sid :: u64) < shl 1 (unat (sid_bits smmu))"
    and e: "smmu_tlbi_cfgi H smmu (smmu_strtab_write_ste (Some m) (smmu_strtab_get_ste_for_sid smmu ?sid) t) = Some s'" by blast
  have "unat (shl 1 k :: u64) = 2 ^ k"
    using assms(7) word_le_of_nat_less [of "2 ^ k", where 'a = 64] power_strict_increasing [of k 64 "2::nat"] by simp
  then have sid: "unat ?sid < 2 ^ k" using r unfolding assms(6) word_less_nat_alt by simp
  have "2 ^ k \<le> (2::nat) ^ 29" using assms(7) by (intro power_increasing) simp_all
  then have addr: "smmu_strtab_get_ste_for_sid smmu ?sid = b + of_nat (unat ?sid) * 64"
    using linear_ste_addr [OF assms(3)] sid assms(8) by simp
  have keep: "cells s' (b + of_nat j * 64 + of_nat o') = cells (smmu_strtab_write_ste (Some m) (b + of_nat (unat ?sid) * 64) t) (b + of_nat j * 64 + of_nat o')"
    if "j < 2 ^ k" "o' < 64" for j o'
  proof -
    have "in_table b (2 ^ k) (b + of_nat j * 64 + of_nat o')" using that by (auto simp: in_table_def)
    then show ?thesis using tlbi_cells [OF assms(5) _ e] assms(10) addr by auto
  qed
  have ste: "ste_at (cells s') (b + of_nat j * 64) = ste_at (cells (smmu_strtab_write_ste (Some m) (b + of_nat (unat ?sid) * 64) t)) (b + of_nat j * 64)"
    if "j < 2 ^ k" for j
    using keep [OF that, of 0] keep [OF that, of 8] keep [OF that, of 16] keep [OF that, of 24] by (simp add: ste_at_def)
  have "ste_at (cells s') (b + of_nat j * 64) = ste_at (cells s) (b + of_nat j * 64)" if "j < 2 ^ k" "j \<noteq> unat ?sid" for j
    unfolding ste [OF that(1)] write_ste_apart_ste [OF assms(9) that(1) sid that(2)] t ..
  moreover have "case ste_at (cells s') (b + of_nat (unat ?sid) * 64) of (w0, w1, w2, w3) \<Rightarrow>
       w0 = 13 \<and> BITFIELD_GET 50 32 w2 = take_bit 19 (vtcr_of (tcr pd)) \<and> w3 = take_bit 48 (pgt_base pd)"
    unfolding ste [OF sid] write_ste_at
    using ste_words_stage2 [OF m(1), of "ste_at (cells t) (b + of_nat (unat ?sid) * 64)"] m(2) by (auto split: prod.splits)
  ultimately show ?thesis using sid by blast
qed

theorem map_isolates_streams_witness:
  "\<exists>s'. val_smmu_map quiet_hw example_attr example_pgt (example_sstate ()) = Some (0, s') \<and>
     ste_at (cells s') 0x20180 = ste_at (cells (example_sstate ())) 0x20180 \<and> cells s' 0x20140 = 13"
proof -
  let ?s = "example_sstate ()"
  have d: "dev_base example_smmu \<noteq> 0" "\<not> st_level_2lvl example_smmu" "s2p example_smmu" "sid_bits example_smmu = 4"
    "strtab64 (strtab_cfg example_smmu) = 0x20000"
    by (simp_all add: example_smmu_def zero_dev_def)
  have "\<exists>s'. val_smmu_map quiet_hw example_attr example_pgt ?s = Some (0, s')"
    using tlbi_quiet d
    by (simp add: val_smmu_map_def example_sstate_def example_attr_def smmu_master_at_def val_memory_alloc_def Let_def
        zero_master_def map_config_def put_smmu_def put_master_def)
  then obtain s' where m: "val_smmu_map quiet_hw example_attr example_pgt ?s = Some (0, s')" ..
  have g: "g_smmu ?s = Some (\<lambda>_. example_smmu)" by (simp add: example_sstate_def)
  have r: "example_smmu = (\<lambda>_. example_smmu) (smmu_index example_attr)" ..
  have "stage2 example_attr \<noteq> 0" "unat (sid_bits example_smmu) = 4" "table_fits 0x20000 (2 ^ 4)"
    by (simp_all add: example_attr_def d table_fits_def)
  note iso = map_isolates_streams [OF g r d(2) this(1) example_ready this(2) _ d(5) [symmetric] this(3) _ m]
  have "unat (streamid example_attr) = 5" by (simp add: example_attr_def)
  with iso have six: "\<And>j. j < 16 \<Longrightarrow> j \<noteq> 5 \<Longrightarrow> ste_at (cells s') (0x20000 + of_nat j * 64) = ste_at (cells ?s) (0x20000 + of_nat j * 64)"
    and five: "case ste_at (cells s') (0x20000 + of_nat 5 * 64) of (w0, w1, w2, w3) \<Rightarrow> w0 = 13 \<and>
       BITFIELD_GET 50 32 w2 = take_bit 19 (vtcr_of (tcr example_pgt)) \<and> w3 = take_bit 48 (pgt_base example_pgt)"
    using example_apart by auto
  have "cells s' 0x20140 = 13" using five by (simp add: ste_at_def)
  with six [of 6] m show ?thesis by simp
qed

text \<open>
  \<open>val_smmu_unmap\<close> computes the address of the entry as in a linear table; with a
  two-level table the entry of the stream is not cleared, and the stream stays mapped.
\<close>

theorem unmap_two_level_keeps_entry:
  assumes "g_smmu s = Some f" and "master_pos (streamid at) (g_masters s) = Some i"
    and "m_smmu (g_masters s ! i) = Some si" and "smmu = f si" and "st_level_2lvl smmu" and "cmdq_ready smmu"
    and "e = smmu_strtab_get_ste_for_sid smmu (streamid at)" and "lin = strtab64 (strtab_cfg smmu) + ucast (streamid at * 8) * 8"
    and "\<forall>x\<in>{e, e + 8, e + 16, e + 24}. x \<notin> {lin, lin + 8, lin + 16, lin + 24} \<and> \<not> in_cmdq smmu x"
    and "val_smmu_unmap H at s = Some s'"
  shows "ste_at (cells s') e = ste_at (cells s) e"
proof (cases "(ucast (streamid at) :: u64) \<ge> shl 1 (unat (sid_bits smmu))")
  case True
  then have "s' = s" using assms by (simp add: val_smmu_unmap_def smmu_master_at_def smmu_at_def Let_def)
  then show ?thesis by simp
next
  case False
  let ?s2 = "smmu_strtab_write_ste None lin s"
  from False assms obtain t where t: "smmu_tlbi_cfgi H smmu (snd (smmu_cdtab_free smmu (g_masters s ! i) ?s2)) = Some t"
    "s' = put_master i zero_master t"
    by (auto simp: val_smmu_unmap_def smmu_master_at_def smmu_at_def Let_def split: prod.splits)
  have "cells s' x = cells s x" if "x \<in> {e, e + 8, e + 16, e + 24}" for x
  proof -
    have x: "x \<notin> {lin, lin + 8, lin + 16, lin + 24}" "\<not> in_cmdq smmu x" using assms(9) that by blast+
    have "cells s' x = cells t x" by (simp add: t(2) put_master_def)
    also have "\<dots> = cells ?s2 x" using tlbi_cells [OF assms(6) x(2) t(1)] by (simp add: cdtab_free_cells)
    also have "\<dots> = cells s x" using x(1) by (intro write_ste_other) auto
    finally show ?thesis .
  qed
  then show ?thesis by (simp add: ste_at_def)
qed

theorem unmap_two_level_keeps_entry_witness:
  "\<exists>s'. val_smmu_unmap quiet_hw example_attr example_mapped_state = Some s' \<and> cells s' 0x40140 = 13"
proof -
  let ?s = example_mapped_state
  have g: "g_smmu ?s = Some (\<lambda>_. example_two)" and p: "master_pos (streamid example_attr) (g_masters ?s) = Some 0"
    and m: "m_smmu (g_masters ?s ! 0) = Some 0"
    by (simp_all add: example_mapped_state_def example_attr_def)
  have t: "st_level_2lvl example_two" "cmdq example_two = cmdq example_smmu" by (simp_all add: example_two_def)
  have ready: "cmdq_ready example_two" using example_ready by (simp add: cmdq_ready_def t)
  have e: "0x40140 = smmu_strtab_get_ste_for_sid example_two (streamid example_attr)"
    "0x20140 = strtab64 (strtab_cfg example_two) + ucast (streamid example_attr * 8) * 8" by code_simp+
  have nq: "\<not> in_cmdq example_two x" if "unat x \<ge> 0x20000" for x
  proof
    assume "in_cmdq example_two x"
    then obtain j where j: "j < 4" "x = 0x10000 + of_nat j * 16 \<or> x = 0x10000 + of_nat j * 16 + 8"
      by (auto simp: in_cmdq_def t) (auto simp: example_smmu_def)
    have "unat (0x10000::u64) + 16 * 2 ^ 2 \<le> 2 ^ 64" "j < 2 ^ 2" using j(1) by simp_all
    note slot_addr_unat [OF this]
    with j that show False by auto
  qed
  have "\<exists>s'. val_smmu_unmap quiet_hw example_attr ?s = Some s'"
    using tlbi_quiet g p m by (simp add: val_smmu_unmap_def smmu_master_at_def smmu_at_def Let_def split: prod.splits)
  then obtain s' where u: "val_smmu_unmap quiet_hw example_attr ?s = Some s'" ..
  have "\<forall>x\<in>{0x40140, 0x40140 + 8, 0x40140 + 16, 0x40140 + 24}. x \<notin> {0x20140, 0x20140 + 8, 0x20140 + 16, 0x20140 + 24} \<and>
      \<not> in_cmdq example_two (x :: u64)" using nq by simp
  from unmap_two_level_keeps_entry [OF g p m refl t(1) ready e this u]
  have "cells s' 0x40140 = cells ?s 0x40140" by (simp add: ste_at_def)
  then show ?thesis using u by (simp add: example_mapped_state_def)
qed

end
