(* ===== verification/Acs_Its.thy ===== *)
theory Acs_Its
  imports Acs_Memory Acs_Loops Acs_Rings
begin

text \<open>
  \<^verbatim>\<open>platform/pal_uefi/src_gic_its\<close>: the interrupt translation service of the GIC.  \<open>bsa_gic_its.c\<close> sets up
  the tables and the command queue of every ITS and maps and discards LPIs by commands;
  \<open>bsa_gic_redistributor.c\<close> sets up the configuration and pending tables of the redistributor.

  The bus is the parameter \<open>H\<close>: \<open>is_ram\<close> tells which addresses are memory, the other fields give the
  effect of register reads and writes on the device state \<open>'d\<close>.  Memory is an array of 64-bit cells at
  addresses that are multiples of 8; \<open>page_supply\<close> are the answers of the page allocator.  The arrays
  \<open>GicIts\<close> and \<open>g_cwriter_ptr\<close> are functions of the index.  Debug messages are left out.
\<close>

subsection \<open>Data\<close>

record 'd its_bus =
  is_ram :: "u64 \<Rightarrow> bool"
  ld32 :: "u64 \<Rightarrow> 'd \<Rightarrow> u32 \<times> 'd"
  ld64 :: "u64 \<Rightarrow> 'd \<Rightarrow> u64 \<times> 'd"
  sto32 :: "u64 \<Rightarrow> u32 \<Rightarrow> 'd \<Rightarrow> 'd"
  sto64 :: "u64 \<Rightarrow> u64 \<Rightarrow> 'd \<Rightarrow> 'd"

record GIC_ITS_BLOCK =
  its_ID :: u32
  its_Base :: u64
  CommandQBase :: u64
  IDBits :: u32
  ITTBase :: u64

record 'd its_state = pages +
  its_hw :: 'd
  GicDBase :: u64
  GicRdBase :: u64
  GicNumIts :: u32
  GicIts :: "u32 \<Rightarrow> GIC_ITS_BLOCK"
  g_cwriter_ptr :: "u32 \<Rightarrow> u32"
  g_its_setup_done :: bool
  ConfigBase :: u64

datatype EFI_STATUS = EFI_SUCCESS | EFI_OUT_OF_RESOURCES | EFI_UNSUPPORTED

subsection \<open>Access to memory and registers\<close>

definition MmioRead32 :: "'d its_bus \<Rightarrow> u64 \<Rightarrow> 'd its_state \<Rightarrow> u32 \<times> 'd its_state" where
  "MmioRead32 H a s = (case ld32 H a (its_hw s) of (v, d) \<Rightarrow> (v, s\<lparr>its_hw := d\<rparr>))"

definition MmioRead64 :: "'d its_bus \<Rightarrow> u64 \<Rightarrow> 'd its_state \<Rightarrow> u64 \<times> 'd its_state" where
  "MmioRead64 H a s = (case ld64 H a (its_hw s) of (v, d) \<Rightarrow> (v, s\<lparr>its_hw := d\<rparr>))"

definition MmioWrite32 :: "'d its_bus \<Rightarrow> u64 \<Rightarrow> u32 \<Rightarrow> 'd its_state \<Rightarrow> 'd its_state" where
  "MmioWrite32 H a v s = s\<lparr>its_hw := sto32 H a v (its_hw s)\<rparr>"

definition MmioWrite64 :: "'d its_bus \<Rightarrow> u64 \<Rightarrow> u64 \<Rightarrow> 'd its_state \<Rightarrow> 'd its_state" where
  "MmioWrite64 H a v s =
     (if is_ram H a then s\<lparr>cells := (cells s)(a := v)\<rparr> else s\<lparr>its_hw := sto64 H a v (its_hw s)\<rparr>)"

text \<open>A byte of a memory cell, little endian.\<close>

definition cell_of :: "u64 \<Rightarrow> u64" where
  "cell_of a = a AND NOT 7"

definition byte_shift :: "u64 \<Rightarrow> nat" where
  "byte_shift a = 8 * unat (a AND 7)"

definition MmioWrite8 :: "u64 \<Rightarrow> u8 \<Rightarrow> 'd its_state \<Rightarrow> 'd its_state" where
  "MmioWrite8 a v s = s\<lparr>cells := (cells s)(cell_of a :=
     (cells s (cell_of a) AND NOT (shl 0xFF (byte_shift a))) OR shl (ucast v) (byte_shift a))\<rparr>"

definition AllocateAlignedPages :: "'d its_state \<Rightarrow> u64 \<times> 'd its_state" where
  "AllocateAlignedPages s =
     (case page_supply s of [] \<Rightarrow> (0, s) | p # ps \<Rightarrow> (p, s\<lparr>page_supply := ps\<rparr>))"

text \<open>\<open>EFI_SIZE_TO_PAGES\<close> and \<open>EFI_PAGES_TO_SIZE\<close> of the UEFI headers, with 4 KB pages.\<close>

definition EFI_SIZE_TO_PAGES :: "u32 \<Rightarrow> u32" where
  "EFI_SIZE_TO_PAGES sz = shr sz 12 + (if sz AND 0xFFF \<noteq> 0 then 1 else 0)"

definition EFI_PAGES_TO_SIZE :: "u32 \<Rightarrow> u32" where
  "EFI_PAGES_TO_SIZE n = shl n 12"

definition GET_MIN :: "u32 \<Rightarrow> u32 \<Rightarrow> u32" where
  "GET_MIN a b = (if a < b then a else b)"

definition put_its :: "u32 \<Rightarrow> GIC_ITS_BLOCK \<Rightarrow> 'd its_state \<Rightarrow> 'd its_state" where
  "put_its i b s = s\<lparr>GicIts := (GicIts s)(i := b)\<rparr>"

definition PA_MASK :: "nat \<Rightarrow> nat \<Rightarrow> u64" where
  "PA_MASK len shift = shl (shl 1 len - 1) shift"

subsection \<open>Redistributor\<close>

text \<open>The loop over the frames of a redistributor region; \<open>None\<close> is a loop that does not end.\<close>

definition rd_frame_step :: "'d its_bus \<Rightarrow> u32 \<Rightarrow> u64 \<Rightarrow> u64 \<times> 'd its_state
    \<Rightarrow> (u64 \<times> 'd its_state) + (u64 \<times> 'd its_state)" where
  "rd_frame_step H affinity stop = (\<lambda>(base, s).
     if base < stop
     then case MmioRead32 H (base + 0x8 + 0x4) s of (a, s1) \<Rightarrow>
            if a = affinity then Inl (base, s1) else Inr (base + 0x20000, s1)
     else Inl (0, s))"

definition GetCurrentCpuRDBase :: "'d its_bus \<Rightarrow> u64 \<Rightarrow> u64 \<Rightarrow> u32 \<Rightarrow> 'd its_state \<Rightarrow> (u64 \<times> 'd its_state) option" where
  "GetCurrentCpuRDBase H Mpidr rdbase len s =
     (let affinity = ucast ((Mpidr AND (0xFF OR 0xFF00 OR 0xFF0000)) OR shr (Mpidr AND 0xFF00000000) 8) :: u32
      in if len = 0
         then case MmioRead32 H (rdbase + 0x8 + 0x4) s of (a, s1) \<Rightarrow>
                Some (if a = affinity then rdbase else 0, s1)
         else tail_iter (rd_frame_step H affinity (rdbase + ucast len)) (rdbase, s))"

definition ArmGICDSupportsLPIs :: "'d its_bus \<Rightarrow> u64 \<Rightarrow> 'd its_state \<Rightarrow> u32 \<times> 'd its_state" where
  "ArmGICDSupportsLPIs H base s = (case MmioRead32 H (base + 0x4) s of (v, s1) \<Rightarrow> (v AND shl 1 17, s1))"

definition ArmGICRSupportsLPIs :: "'d its_bus \<Rightarrow> u64 \<Rightarrow> 'd its_state \<Rightarrow> u32 \<times> 'd its_state" where
  "ArmGICRSupportsLPIs H base s = (case MmioRead32 H (base + 0x8) s of (v, s1) \<Rightarrow> (v AND shl 1 0, s1))"

definition ArmGicSetItsConfigTableBase :: "'d its_bus \<Rightarrow> u64 \<Rightarrow> 'd its_state \<Rightarrow> EFI_STATUS \<times> 'd its_state" where
  "ArmGicSetItsConfigTableBase H rd s =
     (let (pb, s1) = MmioRead64 H (rd + 0x70) s;
          idbits = ucast (pb AND 0x1F) :: u32;
          sz = shl 1 (unat (idbits + 1)) - 8192;
          pages = EFI_SIZE_TO_PAGES sz + 1;
          (addr, s2) = AllocateAlignedPages s1
      in if addr = 0 then (EFI_OUT_OF_RESOURCES, s2)
         else
           let s3 = val_memory_set addr (EFI_PAGES_TO_SIZE pages) 0 s2;
               (wv, s4) = MmioRead64 H (rd + 0x70) s3;
               s5 = MmioWrite64 H (rd + 0x70) ((wv AND NOT (PA_MASK 40 12)) OR (addr AND PA_MASK 40 12)) s4
           in (EFI_SUCCESS, s5\<lparr>ConfigBase := addr\<rparr>))"

definition ArmGicSetItsPendingTableBase :: "'d its_bus \<Rightarrow> u64 \<Rightarrow> 'd its_state \<Rightarrow> EFI_STATUS \<times> 'd its_state" where
  "ArmGicSetItsPendingTableBase H rd s =
     (let (pb, s1) = MmioRead64 H (rd + 0x70) s;
          idbits = ucast (pb AND 0x1F) :: u32;
          sz = shl 1 (unat (idbits + 1)) div 8;
          pages = EFI_SIZE_TO_PAGES sz + 1;
          (addr, s2) = AllocateAlignedPages s1
      in if addr = 0 then (EFI_OUT_OF_RESOURCES, s2)
         else
           let s3 = val_memory_set addr (EFI_PAGES_TO_SIZE pages) 0 s2;
               (wv, s4) = MmioRead64 H (rd + 0x78) s3
           in (EFI_SUCCESS, MmioWrite64 H (rd + 0x78) ((wv AND NOT (PA_MASK 36 16)) OR (addr AND PA_MASK 36 16)) s4))"

definition ArmGicRedistributorConfigurationForLPI :: "'d its_bus \<Rightarrow> u64 \<Rightarrow> 'd its_state \<Rightarrow> EFI_STATUS \<times> 'd its_state" where
  "ArmGicRedistributorConfigurationForLPI H rd s =
     (case ArmGicSetItsConfigTableBase H rd s of (st, s1) \<Rightarrow>
        if st \<noteq> EFI_SUCCESS then (st, s1) else ArmGicSetItsPendingTableBase H rd s1)"

definition ARM_LPI_MINID :: u32 where "ARM_LPI_MINID = 8192"
definition LPI_PRIORITY_MASK :: u32 where "LPI_PRIORITY_MASK = 0xFC"
definition LPI_ENABLE :: u32 where "LPI_ENABLE = shl 1 0"
definition LPI_DISABLE :: u8 where "LPI_DISABLE = 0"

definition ClearConfigTable :: "u32 \<Rightarrow> 'd its_state \<Rightarrow> 'd its_state" where
  "ClearConfigTable IntID s = MmioWrite8 (ConfigBase s + ucast (IntID - ARM_LPI_MINID)) LPI_DISABLE s"

definition SetConfigTable :: "u32 \<Rightarrow> u32 \<Rightarrow> 'd its_state \<Rightarrow> 'd its_state" where
  "SetConfigTable IntID Priority s =
     MmioWrite8 (ConfigBase s + ucast (IntID - ARM_LPI_MINID)) (ucast ((Priority AND LPI_PRIORITY_MASK) OR LPI_ENABLE)) s"

definition EnableLPIsRD :: "'d its_bus \<Rightarrow> u64 \<Rightarrow> 'd its_state \<Rightarrow> 'd its_state" where
  "EnableLPIsRD H rd s = (case MmioRead32 H (rd + 0x0) s of (v, s1) \<Rightarrow> MmioWrite32 H (rd + 0x0) (v OR shl 1 0) s1)"

subsection \<open>Tables of an ITS\<close>

definition ArmGicSetItsCommandQueueBase :: "'d its_bus \<Rightarrow> u32 \<Rightarrow> 'd its_state \<Rightarrow> EFI_STATUS \<times> 'd its_state" where
  "ArmGicSetItsCommandQueueBase H i s =
     (let ItsBase = its_Base (GicIts s i);
          (addr, s1) = AllocateAlignedPages s
      in if addr = 0 then (EFI_OUT_OF_RESOURCES, s1)
         else
           let s2 = val_memory_set addr (8 * 0x1000) 0 s1;
               s3 = put_its i ((GicIts s2 i)\<lparr>CommandQBase := addr\<rparr>) s2;
               (wv, s4) = MmioRead64 H (ItsBase + 0x80) s3
           in (EFI_SUCCESS, MmioWrite64 H (ItsBase + 0x80)
                ((wv AND NOT (PA_MASK 40 12)) OR (addr AND PA_MASK 40 12) OR shl 1 63) s4))"

text \<open>One round of the loop over the \<open>GITS_BASER\<close> registers; an error leaves the loop.\<close>

fun baser_loop :: "'d its_bus \<Rightarrow> u64 \<Rightarrow> nat list \<Rightarrow> 'd its_state \<Rightarrow> EFI_STATUS \<times> 'd its_state" where
  "baser_loop H ItsBase [] s = (EFI_SUCCESS, s)"
| "baser_loop H ItsBase (it # its) s =
     (let reg = ItsBase + (0x100 + 8 * of_nat it);
          (baser, s1) = MmioRead64 H reg s;
          table_type = shr baser 56 AND 0x7;
          entry_size = ucast (shr baser 48 AND 0x1F) :: u32;
          (typer, s2) = MmioRead64 H (ItsBase + 0x8) s1;
          DevBits = ucast (shr typer 13 AND 0x1F) :: u32;
          CIDBits = ucast (shr typer 32 AND 0xF) :: u32
      in if table_type \<noteq> 1 \<and> table_type \<noteq> 4 then baser_loop H ItsBase its s2
         else
           let sz = shl 1 (unat ((if table_type = 1 then DevBits else CIDBits) + 1)) * (entry_size + 1);
               pages = EFI_SIZE_TO_PAGES sz;
               (addr, s3) = AllocateAlignedPages s2
           in if addr = 0 then (EFI_OUT_OF_RESOURCES, s3)
              else
                let s4 = val_memory_set addr (EFI_PAGES_TO_SIZE pages) 0 s3;
                    (wv, s5) = MmioRead64 H reg s4
                in baser_loop H ItsBase its (MmioWrite64 H reg
                     ((wv AND NOT (PA_MASK 36 12)) OR (addr AND PA_MASK 36 12) OR shl 1 63 OR ucast (pages - 1)) s5))"

definition ArmGicSetItsTables :: "'d its_bus \<Rightarrow> u32 \<Rightarrow> 'd its_state \<Rightarrow> EFI_STATUS \<times> 'd its_state" where
  "ArmGicSetItsTables H i s =
     (case baser_loop H (its_Base (GicIts s i)) [0..<8] s of (st, s1) \<Rightarrow>
        if st \<noteq> EFI_SUCCESS then (st, s1)
        else
          let (addr, s2) = AllocateAlignedPages s1
          in if addr = 0 then (EFI_OUT_OF_RESOURCES, s2)
             else let s3 = val_memory_set addr (8 * 0x1000) 0 s2
                  in (EFI_SUCCESS, put_its i ((GicIts s3 i)\<lparr>ITTBase := addr\<rparr>) s3))"

definition EnableITS :: "'d its_bus \<Rightarrow> u64 \<Rightarrow> 'd its_state \<Rightarrow> 'd its_state" where
  "EnableITS H base s = (case MmioRead32 H (base + 0x0) s of (v, s1) \<Rightarrow> MmioWrite32 H (base + 0x0) (v OR shl 1 0) s1)"

subsection \<open>Commands\<close>

text \<open>
  The four double words of a command go to \<open>CMDQ_BASE + g_cwriter_ptr[ItsIndex]\<close>, a pointer to 64-bit words, and
  the index moves on by \<open>ITS_NEXT_CMD_PTR\<close>, without wrapping around.
\<close>

type_synonym its_cmd = "u64 \<times> u64 \<times> u64 \<times> u64"

definition write_cmd :: "'d its_bus \<Rightarrow> u32 \<Rightarrow> u64 \<Rightarrow> its_cmd \<Rightarrow> 'd its_state \<Rightarrow> 'd its_state" where
  "write_cmd H i base cmd s =
     (case cmd of (c0, c1, c2, c3) \<Rightarrow>
        let a = (\<lambda>k. base + (ucast (g_cwriter_ptr s i) + k) * 8);
            s4 = MmioWrite64 H (a 3) c3 (MmioWrite64 H (a 2) c2 (MmioWrite64 H (a 1) c1 (MmioWrite64 H (a 0) c0 s)))
        in s4\<lparr>g_cwriter_ptr := (g_cwriter_ptr s4)(i := g_cwriter_ptr s4 i + 4)\<rparr>)"

definition cmd_MAPD :: "u64 \<Rightarrow> u64 \<Rightarrow> u32 \<Rightarrow> u64 \<Rightarrow> its_cmd" where
  "cmd_MAPD DevID ITT_BASE Size Valid =
     (shl DevID 32 OR 0x8, ucast Size, shl Valid 63 OR (ITT_BASE AND PA_MASK 44 8), 0)"

definition cmd_MAPC :: "u32 \<Rightarrow> u32 \<Rightarrow> u64 \<Rightarrow> its_cmd" where
  "cmd_MAPC Clctn_ID RDBase Valid = (0x9, 0, shl Valid 63 OR ucast RDBase OR ucast Clctn_ID, 0)"

definition cmd_MAPI :: "u64 \<Rightarrow> u32 \<Rightarrow> u32 \<Rightarrow> its_cmd" where
  "cmd_MAPI DevID IntID Clctn_ID = (shl DevID 32 OR 0xB, ucast IntID, ucast Clctn_ID, 0)"

definition cmd_INV :: "u64 \<Rightarrow> u32 \<Rightarrow> its_cmd" where
  "cmd_INV DevID IntID = (shl DevID 32 OR 0xC, ucast IntID, 0, 0)"

definition cmd_DISCARD :: "u64 \<Rightarrow> u32 \<Rightarrow> its_cmd" where
  "cmd_DISCARD DevID IntID = (shl DevID 32 OR 0xF, ucast IntID, 0, 0)"

definition cmd_SYNC :: "u32 \<Rightarrow> its_cmd" where
  "cmd_SYNC RDBase = (0x5, 0, ucast RDBase, 0)"

definition WriteCmdQMAPD :: "'d its_bus \<Rightarrow> u32 \<Rightarrow> u64 \<Rightarrow> u64 \<Rightarrow> u64 \<Rightarrow> u32 \<Rightarrow> u64 \<Rightarrow> 'd its_state \<Rightarrow> 'd its_state" where
  "WriteCmdQMAPD H i base DevID ITT_BASE Size Valid = write_cmd H i base (cmd_MAPD DevID ITT_BASE Size Valid)"

definition WriteCmdQMAPC :: "'d its_bus \<Rightarrow> u32 \<Rightarrow> u64 \<Rightarrow> u32 \<Rightarrow> u32 \<Rightarrow> u32 \<Rightarrow> u64 \<Rightarrow> 'd its_state \<Rightarrow> 'd its_state" where
  "WriteCmdQMAPC H i base DevID Clctn_ID RDBase Valid = write_cmd H i base (cmd_MAPC Clctn_ID RDBase Valid)"

definition WriteCmdQMAPI :: "'d its_bus \<Rightarrow> u32 \<Rightarrow> u64 \<Rightarrow> u64 \<Rightarrow> u32 \<Rightarrow> u32 \<Rightarrow> 'd its_state \<Rightarrow> 'd its_state" where
  "WriteCmdQMAPI H i base DevID IntID Clctn_ID = write_cmd H i base (cmd_MAPI DevID IntID Clctn_ID)"

definition WriteCmdQINV :: "'d its_bus \<Rightarrow> u32 \<Rightarrow> u64 \<Rightarrow> u64 \<Rightarrow> u32 \<Rightarrow> 'd its_state \<Rightarrow> 'd its_state" where
  "WriteCmdQINV H i base DevID IntID = write_cmd H i base (cmd_INV DevID IntID)"

definition WriteCmdQDISCARD :: "'d its_bus \<Rightarrow> u32 \<Rightarrow> u64 \<Rightarrow> u64 \<Rightarrow> u32 \<Rightarrow> 'd its_state \<Rightarrow> 'd its_state" where
  "WriteCmdQDISCARD H i base DevID IntID = write_cmd H i base (cmd_DISCARD DevID IntID)"

definition WriteCmdQSYNC :: "'d its_bus \<Rightarrow> u32 \<Rightarrow> u64 \<Rightarrow> u32 \<Rightarrow> 'd its_state \<Rightarrow> 'd its_state" where
  "WriteCmdQSYNC H i base RDBase = write_cmd H i base (cmd_SYNC RDBase)"

text \<open>
  The loop of \<open>PollTillCommandQueueDone\<close>; \<open>r\<close> is \<open>WAIT_ITS_COMMAND_DONE - count\<close>.
\<close>

definition WAIT_ITS_COMMAND_DONE :: nat where
  "WAIT_ITS_COMMAND_DONE = 10000"

fun its_poll_loop :: "'d its_bus \<Rightarrow> u64 \<Rightarrow> u64 \<Rightarrow> nat \<Rightarrow> u64 \<Rightarrow> 'd its_state \<Rightarrow> 'd its_state" where
  "its_poll_loop H ItsBase cw r cr s =
     (if cr = cw then s
      else
        let s1 = (if cr AND shl 1 0 \<noteq> 0 then MmioWrite64 H (ItsBase + 0x88) (cw OR shl 1 0) s else s)
        in case r of
             0 \<Rightarrow> s1
           | Suc r' \<Rightarrow> (case MmioRead64 H (ItsBase + 0x90) s1 of (cr', s2) \<Rightarrow> its_poll_loop H ItsBase cw r' cr' s2))"

definition PollTillCommandQueueDone :: "'d its_bus \<Rightarrow> u32 \<Rightarrow> 'd its_state \<Rightarrow> 'd its_state" where
  "PollTillCommandQueueDone H i s =
     (let ItsBase = its_Base (GicIts s i);
          (cw, s1) = MmioRead64 H (ItsBase + 0x88) s;
          (cr, s2) = MmioRead64 H (ItsBase + 0x90) s1
      in its_poll_loop H ItsBase cw WAIT_ITS_COMMAND_DONE cr s2)"

text \<open>\<open>value\<close> is a 32-bit local; the processor number is left where it is in \<open>GICR_TYPER\<close>.\<close>

definition GetRDBaseFormat :: "'d its_bus \<Rightarrow> u32 \<Rightarrow> 'd its_state \<Rightarrow> u64 \<times> 'd its_state" where
  "GetRDBaseFormat H i s =
     (let (typer, s1) = MmioRead64 H (its_Base (GicIts s i) + 0x8) s
      in if (ucast typer :: u32) AND shl 1 19 \<noteq> 0 then (GicRdBase s1, s1)
         else let (v, s2) = MmioRead64 H (GicRdBase s1 + 0x8) s1
              in (ucast ((ucast v :: u32) AND 0xFFFF00), s2))"

definition kick :: "'d its_bus \<Rightarrow> u32 \<Rightarrow> u64 \<Rightarrow> 'd its_state \<Rightarrow> 'd its_state" where
  "kick H i ItsBase s = PollTillCommandQueueDone H i (MmioWrite64 H (ItsBase + 0x88) (ucast (g_cwriter_ptr s i * 8)) s)"

definition ArmGicItsClearLpiMappings :: "'d its_bus \<Rightarrow> u32 \<Rightarrow> u32 \<Rightarrow> u32 \<Rightarrow> 'd its_state \<Rightarrow> 'd its_state" where
  "ArmGicItsClearLpiMappings H i DevID IntID s =
     (if \<not> g_its_setup_done s then s
      else
        let ItsBase = its_Base (GicIts s i); cq = CommandQBase (GicIts s i);
            s1 = ClearConfigTable IntID s;
            (RDBase, s2) = GetRDBaseFormat H i s1;
            s3 = WriteCmdQDISCARD H i cq (ucast DevID) IntID s2;
            s4 = WriteCmdQSYNC H i cq (ucast RDBase) s3
        in kick H i ItsBase s4)"

definition ArmGicItsCreateLpiMap :: "'d its_bus \<Rightarrow> u32 \<Rightarrow> u32 \<Rightarrow> u32 \<Rightarrow> u32 \<Rightarrow> 'd its_state \<Rightarrow> 'd its_state" where
  "ArmGicItsCreateLpiMap H i DevID IntID Priority s =
     (if \<not> g_its_setup_done s then s
      else
        let ItsBase = its_Base (GicIts s i); cq = CommandQBase (GicIts s i);
            s1 = SetConfigTable IntID Priority s;
            s2 = EnableLPIsRD H (GicRdBase s1) s1;
            s3 = EnableITS H ItsBase s2;
            (RDBase, s4) = GetRDBaseFormat H i s3;
            s5 = WriteCmdQMAPD H i cq (ucast DevID) (ITTBase (GicIts s4 i)) (IDBits (GicIts s4 i)) 0x1 s4;
            s6 = WriteCmdQMAPC H i cq DevID 0x1 (ucast RDBase) 0x1 s5;
            s7 = WriteCmdQMAPI H i cq (ucast DevID) IntID 0x1 s6;
            s8 = WriteCmdQINV H i cq (ucast DevID) IntID s7;
            s9 = WriteCmdQSYNC H i cq (ucast RDBase) s8
        in kick H i ItsBase s9)"

subsection \<open>Configuration\<close>

definition ArmGicItsGetMaxLpiID :: "'d its_state \<Rightarrow> u32" where
  "ArmGicItsGetMaxLpiID s =
     (if GicNumIts s = 0 \<or> \<not> g_its_setup_done s then 0
      else
        let min_idbits = fold (\<lambda>j m. if m < IDBits (GicIts s (of_nat j)) then m else IDBits (GicIts s (of_nat j)))
                           [0..<unat (GicNumIts s)] 31
        in shl 1 (unat (min_idbits + 1)) - 1)"

definition ArmGicItsGetGITSTranslatorAddress :: "u32 \<Rightarrow> 'd its_state \<Rightarrow> u64" where
  "ArmGicItsGetGITSTranslatorAddress i s = its_Base (GicIts s i) + 0x10040"

definition SetInitialConfiguration :: "'d its_bus \<Rightarrow> u32 \<Rightarrow> 'd its_state \<Rightarrow> EFI_STATUS \<times> 'd its_state" where
  "SetInitialConfiguration H i s =
     (let (dt, s1) = MmioRead32 H (GicDBase s + 0x4) s;
          gicd = shr dt 19 AND 0x1F;
          (it, s2) = MmioRead64 H (its_Base (GicIts s i) + 0x8) s1;
          gits = ucast (shr it 8 AND 0x1F) :: u32
      in if GET_MIN gicd gits < 14 then (EFI_UNSUPPORTED, s2)
         else
           let (wv, s3) = MmioRead64 H (GicRdBase s2 + 0x70) s2;
               s4 = put_its i ((GicIts s3 i)\<lparr>IDBits := GET_MIN gicd gits\<rparr>) s3
           in (EFI_SUCCESS, MmioWrite64 H (GicRdBase s4 + 0x70) (wv OR ucast (GET_MIN gicd gits)) s4))"

fun for_each_its :: "(u32 \<Rightarrow> 'd its_state \<Rightarrow> EFI_STATUS \<times> 'd its_state) \<Rightarrow> nat list \<Rightarrow> 'd its_state
    \<Rightarrow> EFI_STATUS \<times> 'd its_state" where
  "for_each_its f [] s = (EFI_SUCCESS, s)"
| "for_each_its f (j # js) s =
     (case f (of_nat j) s of (st, s1) \<Rightarrow> if st \<noteq> EFI_SUCCESS then (st, s1) else for_each_its f js s1)"

definition set_tables :: "'d its_bus \<Rightarrow> u32 \<Rightarrow> 'd its_state \<Rightarrow> EFI_STATUS \<times> 'd its_state" where
  "set_tables H i s =
     (case ArmGicSetItsCommandQueueBase H i s of (st, s1) \<Rightarrow>
        if st \<noteq> EFI_SUCCESS then (st, s1) else ArmGicSetItsTables H i s1)"

text \<open>\<open>ok\<close> tells whether \<open>AllocatePool\<close> for \<open>g_cwriter_ptr\<close> succeeds.\<close>

definition ArmGicItsConfiguration :: "'d its_bus \<Rightarrow> bool \<Rightarrow> 'd its_state \<Rightarrow> EFI_STATUS \<times> 'd its_state" where
  "ArmGicItsConfiguration H ok s =
     (if \<not> ok then (EFI_OUT_OF_RESOURCES, s)
      else
        let n = [0..<unat (GicNumIts s)];
            s0 = s\<lparr>g_cwriter_ptr := (\<lambda>j. if j < GicNumIts s then 0 else g_cwriter_ptr s j)\<rparr>;
            (st1, s1) = for_each_its (SetInitialConfiguration H) n s0
        in if st1 \<noteq> EFI_SUCCESS then (st1, s1)
           else
             let (st2, s2) = ArmGicRedistributorConfigurationForLPI H (GicRdBase s1) s1
             in if st2 \<noteq> EFI_SUCCESS then (st2, s2)
                else
                  let (st3, s3) = for_each_its (set_tables H) n s2
                  in if st3 \<noteq> EFI_SUCCESS then (st3, s3) else (EFI_SUCCESS, s3\<lparr>g_its_setup_done := True\<rparr>))"

declare its_poll_loop.simps [simp del]

end
