(* ===== verification/Acs_Its_Check.thy ===== *)
theory Acs_Its_Check
  imports Acs_Its
begin

text \<open>
  Correctness of the ITS commands.  \<open>its_slot\<close> reads the four double words of a command of the queue, \<open>its_log\<close>
  the first commands of the queue; the queue of 8 pages has \<open>ITS_QUEUE_SLOTS\<close> slots, and the interpretation
  \<open>its_slots\<close> gives the laws of the slots.  \<open>same_memory\<close> relates states that differ in the device only;
  \<open>create_prefix\<close> is what \<open>ArmGicItsCreateLpiMap\<close> does in front of its commands, \<open>create_batch\<close> are the commands.
\<close>

subsection \<open>Specification\<close>

definition its_slot :: "u64 \<Rightarrow> (u64 \<Rightarrow> u64) \<Rightarrow> nat \<Rightarrow> its_cmd" where
  "its_slot b m k =
     (let a = b + of_nat k * 32 in (m a, m (a + 8), m (a + 16), m (a + 24)))"

definition put_its_slot :: "u64 \<Rightarrow> nat \<Rightarrow> its_cmd \<Rightarrow> (u64 \<Rightarrow> u64) \<Rightarrow> u64 \<Rightarrow> u64" where
  "put_its_slot b k c m =
     (let a = b + of_nat k * 32
      in case c of (c0, c1, c2, c3) \<Rightarrow> m(a := c0, a + 8 := c1, a + 16 := c2, a + 24 := c3))"

definition ITS_QUEUE_SLOTS :: nat where
  "ITS_QUEUE_SLOTS = 1024"

definition slot_in_ram :: "'d its_bus \<Rightarrow> u64 \<Rightarrow> nat \<Rightarrow> bool" where
  "slot_in_ram H b k \<longleftrightarrow> (\<forall>x\<in>{0, 8, 16, 24}. is_ram H (b + of_nat k * 32 + x))"

definition same_memory :: "'d its_state \<Rightarrow> 'd its_state \<Rightarrow> bool" where
  "same_memory s s' \<longleftrightarrow> s' = s\<lparr>its_hw := its_hw s'\<rparr>"

definition its_log :: "u64 \<Rightarrow> (u64 \<Rightarrow> u64) \<Rightarrow> nat \<Rightarrow> its_cmd list" where
  "its_log b m n = map (its_slot b m) [0..<n]"

definition read_byte :: "(u64 \<Rightarrow> u64) \<Rightarrow> u64 \<Rightarrow> u8" where
  "read_byte m a = ucast (shr (m (cell_of a)) (byte_shift a))"

definition lpi_addr :: "'d its_state \<Rightarrow> u32 \<Rightarrow> u64" where
  "lpi_addr s n = ConfigBase s + ucast (n - ARM_LPI_MINID)"

definition config_outside_queue :: "'d its_state \<Rightarrow> u32 \<Rightarrow> u64 \<Rightarrow> bool" where
  "config_outside_queue s n b \<longleftrightarrow> 32 * ITS_QUEUE_SLOTS \<le> unat (cell_of (lpi_addr s n) - b)"

definition idle_bus :: "unit its_bus" where
  "idle_bus = \<lparr>is_ram = (\<lambda>a. a < 0x100000), ld32 = (\<lambda>a d. (0, d)), ld64 = (\<lambda>a d. (0, d)),
     sto32 = (\<lambda>a v d. d), sto64 = (\<lambda>a v d. d)\<rparr>"

definition its_example :: "u32 \<Rightarrow> unit its_state" where
  "its_example cw = \<lparr>cells = (\<lambda>a. 0), page_supply = [], freed_pages = [], pal_page_size = 0x1000, its_hw = (),
     GicDBase = 0x8000000, GicRdBase = 0x80A0000, GicNumIts = 1,
     GicIts = (\<lambda>i. \<lparr>its_ID = 0, its_Base = 0x8080000, CommandQBase = 0x10000, IDBits = 15, ITTBase = 0x40000\<rparr>),
     g_cwriter_ptr = (\<lambda>i. cw), g_its_setup_done = True, ConfigBase = 0x50000\<rparr>"

definition create_prefix :: "'d its_bus \<Rightarrow> u32 \<Rightarrow> u32 \<Rightarrow> u32 \<Rightarrow> 'd its_state \<Rightarrow> u64 \<times> 'd its_state" where
  "create_prefix H i IntID Priority s =
     GetRDBaseFormat H i (EnableITS H (its_Base (GicIts s i)) (EnableLPIsRD H (GicRdBase s) (SetConfigTable IntID Priority s)))"

definition create_batch :: "GIC_ITS_BLOCK \<Rightarrow> u64 \<Rightarrow> u32 \<Rightarrow> u32 \<Rightarrow> its_cmd list" where
  "create_batch blk RDBase DevID IntID =
     [cmd_MAPD (ucast DevID) (ITTBase blk) (IDBits blk) 1, cmd_MAPC 1 (ucast RDBase) 1,
      cmd_MAPI (ucast DevID) IntID 1, cmd_INV (ucast DevID) IntID, cmd_SYNC (ucast RDBase)]"

subsection \<open>Lemmas\<close>

lemma small_offset_neq:
  assumes "x < 2 ^ 64" "y < 2 ^ 64" "x \<noteq> y"
  shows "(b :: u64) + of_nat x \<noteq> b + of_nat y"
proof
  assume "b + of_nat x = b + of_nat y"
  then have "unat (of_nat x :: u64) = unat (of_nat y :: u64)" by simp
  then show False using assms by (simp add: unat_of_nat take_bit_nat_eq_self)
qed

lemma its_slot_neq:
  assumes "j < ITS_QUEUE_SLOTS" "k < ITS_QUEUE_SLOTS" "j \<noteq> k" "x < 4" "y < 4"
  shows "(b :: u64) + of_nat j * 32 + of_nat (8 * x) \<noteq> b + of_nat k * 32 + of_nat (8 * y)"
proof -
  have "b + of_nat (j * 32 + 8 * x) \<noteq> b + of_nat (k * 32 + 8 * y)"
    using assms by (intro small_offset_neq) (auto simp: ITS_QUEUE_SLOTS_def)
  then show ?thesis by (simp add: add.assoc)
qed

lemma its_slot_neqs:
  assumes "j < ITS_QUEUE_SLOTS" "k < ITS_QUEUE_SLOTS" "j \<noteq> k"
  shows "\<forall>x\<in>{0, 8, 16, 24}. \<forall>y\<in>{0, 8, 16, 24}. (b :: u64) + of_nat j * 32 + x \<noteq> b + of_nat k * 32 + y"
  using its_slot_neq [OF assms, of 0 0 b] its_slot_neq [OF assms, of 0 1 b] its_slot_neq [OF assms, of 0 2 b]
    its_slot_neq [OF assms, of 0 3 b] its_slot_neq [OF assms, of 1 0 b] its_slot_neq [OF assms, of 1 1 b]
    its_slot_neq [OF assms, of 1 2 b] its_slot_neq [OF assms, of 1 3 b] its_slot_neq [OF assms, of 2 0 b]
    its_slot_neq [OF assms, of 2 1 b] its_slot_neq [OF assms, of 2 2 b] its_slot_neq [OF assms, of 2 3 b]
    its_slot_neq [OF assms, of 3 0 b] its_slot_neq [OF assms, of 3 1 b] its_slot_neq [OF assms, of 3 2 b]
    its_slot_neq [OF assms, of 3 3 b] by simp

interpretation its_slots: slot_array "its_slot b" "put_its_slot b" ITS_QUEUE_SLOTS for b
proof
  show "0 < ITS_QUEUE_SLOTS" by (simp add: ITS_QUEUE_SLOTS_def)
  fix c :: its_cmd and m :: "u64 \<Rightarrow> u64" and j k
  show "its_slot b (put_its_slot b k c m) k = c"
    by (simp add: its_slot_def put_its_slot_def Let_def split_beta)
  show "its_slot b (put_its_slot b k c m) j = its_slot b m j"
    if "j < ITS_QUEUE_SLOTS" "k < ITS_QUEUE_SLOTS" "j \<noteq> k"
    using its_slot_neqs [OF that, of b] by (simp add: its_slot_def put_its_slot_def Let_def split_beta)
qed

lemma write_cmd_effect:
  assumes "g_cwriter_ptr s i = of_nat (4 * k)" "k < 2 ^ 30" "slot_in_ram H b k"
  shows "write_cmd H i b c s =
    s\<lparr>cells := put_its_slot b k c (cells s), g_cwriter_ptr := (g_cwriter_ptr s)(i := of_nat (4 * Suc k))\<rparr>"
proof -
  have u: "ucast (of_nat (4 * k) :: u32) = (of_nat (4 * k) :: u64)"
    using assms(2) by (simp add: word_unat_eq_iff unsigned_ucast_eq unat_of_nat take_bit_nat_eq_self del: of_nat_mult)
  have a: "b + (ucast (of_nat (4 * k) :: u32) + x) * 8 = b + of_nat k * 32 + x * 8" for x :: u64
    unfolding u by (simp add: algebra_simps)
  show ?thesis
    using assms(3) unfolding write_cmd_def assms(1) a
    by (cases c) (simp add: MmioWrite64_def slot_in_ram_def put_its_slot_def Let_def add.commute assms(1))
qed

lemma same_memory_refl [simp]: "same_memory s s"
  by (simp add: same_memory_def)

lemma same_memory_trans: "same_memory s s' \<Longrightarrow> same_memory s' s'' \<Longrightarrow> same_memory s s''"
  by (cases s; cases s'; cases s'') (simp add: same_memory_def)

lemma same_memory_fields:
  assumes "same_memory s s'"
  shows "cells s' = cells s" "g_cwriter_ptr s' = g_cwriter_ptr s" "GicIts s' = GicIts s"
    "g_its_setup_done s' = g_its_setup_done s" "GicRdBase s' = GicRdBase s" "ConfigBase s' = ConfigBase s"
  using assms by (cases s; cases s'; simp add: same_memory_def)+

lemma same_memory_hw [simp]: "same_memory s (s\<lparr>its_hw := d\<rparr>)"
  by (simp add: same_memory_def)

lemma same_memory_access [simp]:
  "same_memory s (snd (MmioRead32 H a s))" "same_memory s (snd (MmioRead64 H a s))" "same_memory s (MmioWrite32 H a v32 s)"
  by (simp_all add: MmioRead32_def MmioRead64_def MmioWrite32_def split_beta)

lemma same_memory_write64: "\<not> is_ram H a \<Longrightarrow> same_memory s (MmioWrite64 H a v s)"
  by (simp add: MmioWrite64_def)

lemma poll_loop_memory:
  assumes "\<not> is_ram H (base + 0x88)"
  shows "same_memory s (its_poll_loop H base cw r cr s)"
proof (induction r arbitrary: cr s)
  case 0
  show ?case by (subst its_poll_loop.simps) (simp add: same_memory_write64 assms Let_def)
next
  case (Suc r)
  let ?s1 = "if cr AND shl 1 0 \<noteq> 0 then MmioWrite64 H (base + 0x88) (cw OR shl 1 0) s else s"
  have "same_memory s ?s1" by (simp add: same_memory_write64 assms)
  then have "same_memory s (snd (MmioRead64 H (base + 0x90) ?s1))"
    by (rule same_memory_trans) (rule same_memory_access)
  from same_memory_trans [OF this Suc.IH] show ?case
    by (subst its_poll_loop.simps) (simp only: Let_def split_beta nat.case if_split, simp)
qed

lemma Poll_memory:
  assumes "\<not> is_ram H (its_Base (GicIts s i) + 0x88)"
  shows "same_memory s (PollTillCommandQueueDone H i s)"
  unfolding PollTillCommandQueueDone_def Let_def split_beta
  by (rule same_memory_trans [OF same_memory_trans [OF same_memory_access(2) same_memory_access(2)] poll_loop_memory [OF assms]])

lemma GetRDBaseFormat_memory: "same_memory s (snd (GetRDBaseFormat H i s))"
proof -
  let ?s1 = "snd (MmioRead64 H (its_Base (GicIts s i) + 0x8) s)"
  have "same_memory s ?s1" by (rule same_memory_access)
  moreover have "same_memory s (snd (MmioRead64 H (GicRdBase ?s1 + 0x8) ?s1))"
    by (rule same_memory_trans) (rule same_memory_access)+
  ultimately show ?thesis by (simp add: GetRDBaseFormat_def Let_def split_beta)
qed

lemma Enable_memory:
  "same_memory s (EnableLPIsRD H a s)" "same_memory s (EnableITS H a s)"
  unfolding EnableLPIsRD_def EnableITS_def split_beta
  by (rule same_memory_trans [OF same_memory_access(1) same_memory_access(3)])+

lemma kick_memory:
  assumes "\<not> is_ram H (its_Base (GicIts s i) + 0x88)"
  shows "same_memory s (kick H i (its_Base (GicIts s i)) s)"
proof -
  let ?s1 = "MmioWrite64 H (its_Base (GicIts s i) + 0x88) (ucast (g_cwriter_ptr s i * 8)) s"
  have "same_memory s ?s1" by (rule same_memory_write64 [OF assms])
  moreover have "same_memory ?s1 (PollTillCommandQueueDone H i ?s1)"
    by (rule Poll_memory) (simp add: same_memory_fields(3) [OF same_memory_write64 [OF assms]] assms)
  ultimately show ?thesis unfolding kick_def by (rule same_memory_trans)
qed

lemma write_cmds_effect:
  assumes "g_cwriter_ptr s i = of_nat (4 * k)" "k + length cs \<le> 2 ^ 30" "\<And>j. j < length cs \<Longrightarrow> slot_in_ram H b (k + j)"
  shows "fold (write_cmd H i b) cs s =
    s\<lparr>cells := fold (\<lambda>(j, c). put_its_slot b j c) (enumerate k cs) (cells s),
      g_cwriter_ptr := (g_cwriter_ptr s)(i := of_nat (4 * (k + length cs)))\<rparr>"
  using assms
proof (induction cs arbitrary: s k)
  case Nil
  then have "(g_cwriter_ptr s)(i := of_nat (4 * k)) = g_cwriter_ptr s" by (simp add: fun_upd_idem)
  then show ?case by simp
next
  case (Cons c cs)
  from Cons.prems(3) [of 0] have "slot_in_ram H b k" by simp
  note eff = write_cmd_effect [OF Cons.prems(1) _ this, of c]
  have k: "k < 2 ^ 30" using Cons.prems(2) by simp
  have "slot_in_ram H b (Suc k + j)" if "j < length cs" for j
    using Cons.prems(3) [of "Suc j"] that by simp
  with Cons.IH [of "write_cmd H i b c s" "Suc k"] Cons.prems(2) show ?case
    by (simp add: eff [OF k] cong: if_cong)
qed

lemma window_pushes:
  "k + length cs \<le> ITS_QUEUE_SLOTS \<Longrightarrow>
   its_slots.window b (fold (\<lambda>(j, c). put_its_slot b j c) (enumerate k cs) m) 0 (k + length cs) = its_slots.window b m 0 k @ cs"
proof (induction cs arbitrary: k m)
  case Nil
  then show ?case by simp
next
  case (Cons c cs)
  then show ?case
    using its_slots.window_push [of k b 0 c m] Cons.IH [of "Suc k" "put_its_slot b k c m"] by simp
qed

lemma its_log_window: "n \<le> ITS_QUEUE_SLOTS \<Longrightarrow> its_log b m n = its_slots.window b m 0 n"
  by (simp add: its_log_def its_slots.window_def)

lemma cell_byte_inj:
  assumes "cell_of a = cell_of a'" "byte_shift a = byte_shift a'"
  shows "a = a'"
proof -
  have "a AND 7 = a' AND 7" using assms(2) by (simp add: byte_shift_def word_unat_eq_iff)
  moreover have "x = (x AND NOT y) OR (x AND y)" for x y :: u64
    by (rule bit_word_eqI) (auto simp: bit_simps)
  ultimately show ?thesis using assms(1) unfolding cell_of_def by metis
qed

lemma byte_shift_cases: "byte_shift a \<in> {0, 8, 16, 24, 32, 40, 48, 56}"
proof -
  have "unat (a AND 7) < 8"
    using word_and_le1 [of a 7] by (simp add: word_le_nat_alt)
  then have "unat (a AND 7) \<in> {0, 1, 2, 3, 4, 5, 6, 7}" by auto
  then show ?thesis by (auto simp: byte_shift_def)
qed

lemma low_byte_mask: "(0xFF :: u64) = mask 8"
  by (simp add: mask_eq_exp_minus_1)

lemma byte_inserted:
  fixes w :: u64 and v :: u8
  assumes "k \<le> 56"
  shows "ucast (shr ((w AND NOT (shl (mask 8) k)) OR shl (ucast v) k) k) = v"
  using assms by (intro bit_word_eqI) (auto simp: bit_simps)

lemma byte_kept:
  fixes w :: u64 and v :: u8
  assumes "k' \<le> 56" "k + 8 \<le> k' \<or> k' + 8 \<le> k"
  shows "ucast (shr ((w AND NOT (shl (mask 8) k)) OR shl (ucast v) k) k') = (ucast (shr w k') :: u8)"
  using assms by (intro bit_word_eqI) (auto simp: bit_simps dest: bit_imp_le_length)

lemma read_byte_upd:
  "read_byte (m(cell_of a := (m (cell_of a) AND NOT (shl 0xFF (byte_shift a))) OR shl (ucast v) (byte_shift a))) a'
     = (if a' = a then v else read_byte m a')"
proof (cases "cell_of a' = cell_of a \<and> a' \<noteq> a")
  case False
  moreover have "byte_shift a \<le> 56" using byte_shift_cases [of a] by auto
  ultimately show ?thesis unfolding low_byte_mask read_byte_def using byte_inserted by auto
next
  case True
  then have "byte_shift a \<noteq> byte_shift a'" using cell_byte_inj [of a a'] by metis
  then have "byte_shift a' \<le> 56" "byte_shift a + 8 \<le> byte_shift a' \<or> byte_shift a' + 8 \<le> byte_shift a"
    using byte_shift_cases [of a] byte_shift_cases [of a'] by auto
  with True show ?thesis unfolding low_byte_mask read_byte_def using byte_kept by auto
qed

lemma lpi_addr_inj: "lpi_addr s n = lpi_addr s n' \<longleftrightarrow> n = n'"
proof -
  have "ucast x = (ucast y :: u64) \<longleftrightarrow> x = y" for x y :: u32
    by (simp add: word_unat_eq_iff unat_ucast_u32)
  then show ?thesis by (simp add: lpi_addr_def)
qed

lemma MmioWrite8_cells: "read_byte (cells (MmioWrite8 a v s)) a' = (if a' = a then v else read_byte (cells s) a')"
proof -
  have "cells (MmioWrite8 a v s) = (cells s)(cell_of a :=
      (cells s (cell_of a) AND NOT (shl 0xFF (byte_shift a))) OR shl (ucast v) (byte_shift a))"
    by (simp add: MmioWrite8_def)
  then show ?thesis by (simp only: read_byte_upd)
qed

lemma config_write_keeps_log:
  assumes "config_outside_queue s n b" "m \<le> ITS_QUEUE_SLOTS"
  shows "its_log b (cells (SetConfigTable n p s)) m = its_log b (cells s) m"
    "its_log b (cells (ClearConfigTable n s)) m = its_log b (cells s) m"
proof -
  have ne: "cell_of (lpi_addr s n) \<noteq> b + of_nat (32 * k + x)" if "k < m" "x < 32" for k x
  proof
    assume "cell_of (lpi_addr s n) = b + of_nat (32 * k + x)"
    then have "unat (cell_of (lpi_addr s n) - b) = unat (of_nat (32 * k + x) :: u64)" by simp
    also have "\<dots> = 32 * k + x"
      using that assms(2) by (simp add: unat_of_nat take_bit_nat_eq_self ITS_QUEUE_SLOTS_def del: of_nat_add of_nat_mult)
    finally show False using that assms by (simp add: config_outside_queue_def)
  qed
  have "its_slot b (f(cell_of (lpi_addr s n) := v)) k = its_slot b f k" if "k < m" for k f v
    using ne [OF that, of 0] ne [OF that, of 8] ne [OF that, of 16] ne [OF that, of 24]
    by (simp add: its_slot_def Let_def ac_simps)
  then show "its_log b (cells (SetConfigTable n p s)) m = its_log b (cells s) m"
    "its_log b (cells (ClearConfigTable n s)) m = its_log b (cells s) m"
    by (simp_all add: its_log_def SetConfigTable_def ClearConfigTable_def MmioWrite8_def lpi_addr_def)
qed

lemmas WriteCmdQ_defs = WriteCmdQMAPD_def WriteCmdQMAPC_def WriteCmdQMAPI_def WriteCmdQINV_def WriteCmdQDISCARD_def
  WriteCmdQSYNC_def

lemma config_same:
  "g_cwriter_ptr (SetConfigTable n p s) = g_cwriter_ptr s" "GicIts (SetConfigTable n p s) = GicIts s"
  "g_cwriter_ptr (ClearConfigTable n s) = g_cwriter_ptr s" "GicIts (ClearConfigTable n s) = GicIts s"
  "GicRdBase (SetConfigTable n p s) = GicRdBase s" "g_its_setup_done (ClearConfigTable n s) = g_its_setup_done s"
  by (simp_all add: SetConfigTable_def ClearConfigTable_def MmioWrite8_def)

lemma create_prefix_memory: "same_memory (SetConfigTable n p s) (snd (create_prefix H i n p s))"
  unfolding create_prefix_def
  by (intro same_memory_trans [OF _ GetRDBaseFormat_memory] same_memory_trans [OF _ Enable_memory(2)] Enable_memory(1))

lemma create_unfold:
  assumes "g_its_setup_done s"
  shows "ArmGicItsCreateLpiMap H i d n p s =
    (case create_prefix H i n p s of (rd, s') \<Rightarrow>
       kick H i (its_Base (GicIts s i)) (fold (write_cmd H i (CommandQBase (GicIts s i))) (create_batch (GicIts s i) rd d n) s'))"
proof -
  note same_memory_fields(3) [OF create_prefix_memory, of H i n p s] 
  then show ?thesis
    using assms unfolding ArmGicItsCreateLpiMap_def create_batch_def WriteCmdQ_defs
    by (simp add: Let_def split_beta create_prefix_def config_same)
qed

lemma clear_unfold:
  assumes "g_its_setup_done s"
  shows "ArmGicItsClearLpiMappings H i d n s =
    (case GetRDBaseFormat H i (ClearConfigTable n s) of (rd, s') \<Rightarrow>
       kick H i (its_Base (GicIts s i))
         (fold (write_cmd H i (CommandQBase (GicIts s i))) [cmd_DISCARD (ucast d) n, cmd_SYNC (ucast rd)] s'))"
  using assms unfolding ArmGicItsClearLpiMappings_def WriteCmdQ_defs
  by (simp add: Let_def split_beta config_same)

lemma kick_after_writes:
  assumes "g_cwriter_ptr s i = of_nat (4 * k)" "k + length cs < 2 ^ 27"
    and "\<And>j. j < length cs \<Longrightarrow> slot_in_ram H b (k + j)"
    and "\<not> is_ram H (its_Base (GicIts s i) + 0x88)"
  shows "\<exists>q. kick H i (its_Base (GicIts s i)) (fold (write_cmd H i b) cs s) = PollTillCommandQueueDone H i
           (MmioWrite64 H (its_Base (GicIts s i) + 0x88) (of_nat (32 * (k + length cs))) q) \<and>
         same_memory q (kick H i (its_Base (GicIts s i)) (fold (write_cmd H i b) cs s)) \<and>
         cells q = fold (\<lambda>(j, c). put_its_slot b j c) (enumerate k cs) (cells s) \<and>
         g_cwriter_ptr q = (g_cwriter_ptr s)(i := of_nat (4 * (k + length cs))) \<and> GicIts q = GicIts s \<and>
         g_its_setup_done q = g_its_setup_done s"
proof -
  let ?q = "fold (write_cmd H i b) cs s"
  have q: "?q = s\<lparr>cells := fold (\<lambda>(j, c). put_its_slot b j c) (enumerate k cs) (cells s),
      g_cwriter_ptr := (g_cwriter_ptr s)(i := of_nat (4 * (k + length cs)))\<rparr>"
    using assms(2) by (intro write_cmds_effect assms(1,3)) simp_all
  have "ucast (of_nat (4 * (k + length cs)) * 8 :: u32) = (of_nat (32 * (k + length cs)) :: u64)"
  proof -
    have "of_nat (4 * (k + length cs)) * 8 = (of_nat (32 * (k + length cs)) :: u32)" by simp
    moreover have "32 * (k + length cs) < 2 ^ 32" using assms(2) by simp
    ultimately show ?thesis
      by (simp add: word_unat_eq_iff unat_ucast_u32 unat_of_nat take_bit_nat_eq_self del: of_nat_mult of_nat_add)
  qed
  moreover have "same_memory ?q (kick H i (its_Base (GicIts s i)) ?q)"
    using kick_memory [of H ?q i] assms(4) by (simp add: q)
  ultimately show ?thesis
    by (intro exI [of _ ?q]) (simp add: kick_def q del: of_nat_mult of_nat_add)
qed

lemma its_example_ready:
  "j < ITS_QUEUE_SLOTS + 2 \<Longrightarrow> slot_in_ram idle_bus 0x10000 j"
proof -
  assume "j < ITS_QUEUE_SLOTS + 2"
  then have "0x10000 + of_nat (j * 32 + x) < (0x100000 :: u64)" if "x < 32" for x
    using that by (simp add: word_less_nat_alt unat_word_ariths unat_of_nat take_bit_nat_eq_self ITS_QUEUE_SLOTS_def del: of_nat_add of_nat_mult)
  from this [of 0] this [of 8] this [of 16] this [of 24] show ?thesis
    by (simp add: slot_in_ram_def idle_bus_def add.assoc)
qed

lemma clear_effect:
  assumes "g_its_setup_done s" "g_cwriter_ptr s i = of_nat (4 * k)" "k + 2 < 2 ^ 27"
    and "slot_in_ram H (CommandQBase (GicIts s i)) k" "slot_in_ram H (CommandQBase (GicIts s i)) (k + 1)"
    and "\<not> is_ram H (its_Base (GicIts s i) + 0x88)"
  shows "\<exists>c. cells (ArmGicItsClearLpiMappings H i DevID IntID s) =
      put_its_slot (CommandQBase (GicIts s i)) (k + 1) c
        (put_its_slot (CommandQBase (GicIts s i)) k (cmd_DISCARD (ucast DevID) IntID) (cells (ClearConfigTable IntID s)))"
    and "g_cwriter_ptr (ArmGicItsClearLpiMappings H i DevID IntID s) i = of_nat (4 * (k + 2))"
    and "GicIts (ArmGicItsClearLpiMappings H i DevID IntID s) = GicIts s"
    and "g_its_setup_done (ArmGicItsClearLpiMappings H i DevID IntID s)"
proof -
  let ?s' = "snd (GetRDBaseFormat H i (ClearConfigTable IntID s))" and ?b = "CommandQBase (GicIts s i)"
  let ?cs = "[cmd_DISCARD (ucast DevID) IntID, cmd_SYNC (ucast (fst (GetRDBaseFormat H i (ClearConfigTable IntID s))))]"
  let ?r = "kick H i (its_Base (GicIts ?s' i)) (fold (write_cmd H i ?b) ?cs ?s')"
  note mem = same_memory_fields [OF GetRDBaseFormat_memory, of H i "ClearConfigTable IntID s"] config_same
  have r: "ArmGicItsClearLpiMappings H i DevID IntID s = ?r"
    unfolding clear_unfold [OF assms(1)] by (simp add: split_beta mem)
  have slots: "slot_in_ram H ?b (k + j)" if "j < length ?cs" for j
    using that assms(4,5) by (auto simp: less_Suc_eq)
  have pre: "g_cwriter_ptr ?s' i = of_nat (4 * k)" "k + length ?cs < 2 ^ 27" "\<not> is_ram H (its_Base (GicIts ?s' i) + 0x88)"
    using assms by (simp_all add: mem)
  obtain q where q: "same_memory q ?r" "cells q = fold (\<lambda>(j, c). put_its_slot ?b j c) (enumerate k ?cs) (cells ?s')"
      "g_cwriter_ptr q = (g_cwriter_ptr ?s')(i := of_nat (4 * (k + length ?cs)))" "GicIts q = GicIts ?s'"
      "g_its_setup_done q = g_its_setup_done ?s'"
    using kick_after_writes [OF pre(1,2) slots pre(3)] by blast
  note out = same_memory_fields [OF q(1)]
  show "\<exists>c. cells (ArmGicItsClearLpiMappings H i DevID IntID s) =
      put_its_slot ?b (k + 1) c (put_its_slot ?b k (cmd_DISCARD (ucast DevID) IntID) (cells (ClearConfigTable IntID s)))"
    unfolding r out q(2) by (rule exI [of _ "?cs ! 1"]) (simp add: mem)
  show "g_cwriter_ptr (ArmGicItsClearLpiMappings H i DevID IntID s) i = of_nat (4 * (k + 2))"
    unfolding r out q(3) by simp
  show "GicIts (ArmGicItsClearLpiMappings H i DevID IntID s) = GicIts s"
    unfolding r out q(4) by (simp add: mem)
  show "g_its_setup_done (ArmGicItsClearLpiMappings H i DevID IntID s)"
    unfolding r out q(5) using assms(1) by (simp add: mem)
qed

lemma clear_repeated:
  assumes "g_its_setup_done s" "g_cwriter_ptr s i = 0" "m \<le> 512"
    and "\<And>j. j < ITS_QUEUE_SLOTS + 2 \<Longrightarrow> slot_in_ram H (CommandQBase (GicIts s i)) j"
    and "\<not> is_ram H (its_Base (GicIts s i) + 0x88)"
  shows "g_cwriter_ptr ((ArmGicItsClearLpiMappings H i DevID IntID ^^ m) s) i = of_nat (4 * (2 * m)) \<and>
    GicIts ((ArmGicItsClearLpiMappings H i DevID IntID ^^ m) s) = GicIts s \<and>
    g_its_setup_done ((ArmGicItsClearLpiMappings H i DevID IntID ^^ m) s)"
  using assms(3)
proof (induction m)
  case 0
  then show ?case using assms by simp
next
  case (Suc m)
  let ?s = "(ArmGicItsClearLpiMappings H i DevID IntID ^^ m) s"
  have IH: "g_cwriter_ptr ?s i = of_nat (4 * (2 * m))" "GicIts ?s = GicIts s" "g_its_setup_done ?s"
    using Suc by auto
  have "2 * m + 2 < 2 ^ 27" "slot_in_ram H (CommandQBase (GicIts ?s i)) (2 * m)" "slot_in_ram H (CommandQBase (GicIts ?s i)) (2 * m + 1)"
    using Suc.prems assms(4) by (simp_all add: IH ITS_QUEUE_SLOTS_def)
  from clear_effect(2-4) [OF IH(3,1) this, of DevID IntID] assms(5) show ?case
    by (simp add: IH(2))
qed

subsection \<open>Properties\<close>

text \<open>
  \<open>SetConfigTable\<close> and \<open>ClearConfigTable\<close> set the configuration byte of an LPI to its priority with the
  enable bit, or to 0, and leave the bytes of all other LPIs unchanged.
\<close>

theorem lpi_config_roundtrip:
  "read_byte (cells (SetConfigTable n p s)) (lpi_addr s n) = (ucast p AND 0xFC) OR 1 \<and>
   read_byte (cells (ClearConfigTable n s)) (lpi_addr s n) = 0 \<and>
   (\<forall>n'. n' \<noteq> n \<longrightarrow>
      read_byte (cells (SetConfigTable n p s)) (lpi_addr s n') = read_byte (cells s) (lpi_addr s n') \<and>
      read_byte (cells (ClearConfigTable n s)) (lpi_addr s n') = read_byte (cells s) (lpi_addr s n'))"
proof -
  have "SetConfigTable n p s = MmioWrite8 (lpi_addr s n) (ucast ((p AND LPI_PRIORITY_MASK) OR LPI_ENABLE)) s"
    "ClearConfigTable n s = MmioWrite8 (lpi_addr s n) LPI_DISABLE s"
    by (simp_all add: SetConfigTable_def ClearConfigTable_def lpi_addr_def)
  moreover have "ucast ((p AND LPI_PRIORITY_MASK) OR LPI_ENABLE) = (ucast p AND 0xFC) OR (1 :: u8)"
    by (simp add: LPI_PRIORITY_MASK_def LPI_ENABLE_def unsigned_or_eq unsigned_and_eq)
  ultimately show ?thesis by (simp add: MmioWrite8_cells lpi_addr_inj LPI_DISABLE_def)
qed

theorem lpi_config_roundtrip_witness:
  "read_byte (cells (SetConfigTable 8195 0xA3 (its_example 0))) 0x50003 = 0xA1 \<and>
   read_byte (cells (SetConfigTable 8195 0xA3 (its_example 0))) 0x50004 = 0"
  using lpi_config_roundtrip [of 8195 "0xA3" "its_example 0"]
  by (auto simp: lpi_addr_def its_example_def ARM_LPI_MINID_def read_byte_def dest: spec [of _ 8196])

text \<open>
  Property C25. After setup and with room for five commands, \<open>ArmGicItsCreateLpiMap\<close> appends \<open>MAPD\<close>, \<open>MAPC\<close>, \<open>MAPI\<close>,
  \<open>INV\<close> and \<open>SYNC\<close>, in this order, to the commands in the queue, leaves the earlier ones alone, and tells the ITS by writing
  the byte offset behind the last command into \<open>GITS_CWRITER\<close> before it polls.
\<close>

theorem its_create_appends:
  assumes "g_its_setup_done s" "g_cwriter_ptr s i = of_nat (4 * k)" "k + 5 \<le> ITS_QUEUE_SLOTS"
    and "\<And>j. j < ITS_QUEUE_SLOTS \<Longrightarrow> slot_in_ram H (CommandQBase (GicIts s i)) j"
    and "\<not> is_ram H (its_Base (GicIts s i) + 0x88)"
    and "config_outside_queue s IntID (CommandQBase (GicIts s i))"
  shows "\<exists>q. ArmGicItsCreateLpiMap H i DevID IntID Priority s = PollTillCommandQueueDone H i
           (MmioWrite64 H (its_Base (GicIts s i) + 0x88) (of_nat (32 * (k + 5))) q) \<and>
         its_log (CommandQBase (GicIts s i)) (cells (ArmGicItsCreateLpiMap H i DevID IntID Priority s)) (k + 5) =
           its_log (CommandQBase (GicIts s i)) (cells s) k @
           create_batch (GicIts s i) (fst (create_prefix H i IntID Priority s)) DevID IntID \<and>
         g_cwriter_ptr (ArmGicItsCreateLpiMap H i DevID IntID Priority s) i = of_nat (4 * (k + 5))"
proof -
  let ?s' = "snd (create_prefix H i IntID Priority s)" and ?b = "CommandQBase (GicIts s i)"
  let ?cs = "create_batch (GicIts s i) (fst (create_prefix H i IntID Priority s)) DevID IntID"
  let ?r = "kick H i (its_Base (GicIts ?s' i)) (fold (write_cmd H i ?b) ?cs ?s')"
  note mem = same_memory_fields [OF create_prefix_memory, of H i IntID Priority s] config_same
  have len: "length ?cs = 5" by (simp add: create_batch_def)
  have r: "ArmGicItsCreateLpiMap H i DevID IntID Priority s = ?r"
    unfolding create_unfold [OF assms(1)] by (simp add: split_beta mem)
  obtain q where q: "?r = PollTillCommandQueueDone H i
        (MmioWrite64 H (its_Base (GicIts ?s' i) + 0x88) (of_nat (32 * (k + length ?cs))) q)"
      "same_memory q ?r" "cells q = fold (\<lambda>(j, c). put_its_slot ?b j c) (enumerate k ?cs) (cells ?s')"
      "g_cwriter_ptr q = (g_cwriter_ptr ?s')(i := of_nat (4 * (k + length ?cs)))"
    using kick_after_writes [of ?s' i k ?cs H ?b] assms(2-5)
    by (auto simp: mem len ITS_QUEUE_SLOTS_def simp del: of_nat_mult of_nat_add)
  have "its_log ?b (cells q) (k + 5) = its_log ?b (cells ?s') k @ ?cs"
    using window_pushes [of k ?cs ?b "cells ?s'"] assms(3) by (simp add: its_log_window len q(3))
  also have "its_log ?b (cells ?s') k = its_log ?b (cells s) k"
    using assms(3,6) by (simp add: mem config_write_keeps_log)
  finally show ?thesis
    using q same_memory_fields(1,2) [OF q(2)] unfolding r by (auto simp: mem len simp del: of_nat_mult of_nat_add)
qed

theorem its_create_appends_witness:
  "\<exists>q. ArmGicItsCreateLpiMap idle_bus 0 7 8195 0xA0 (its_example 8) = PollTillCommandQueueDone idle_bus 0
         (MmioWrite64 idle_bus 0x8080088 (of_nat (32 * (2 + 5))) q)"
  using its_create_appends [of "its_example 8" 0 2 idle_bus 8195 7 "0xA0"] its_example_ready
  by (auto simp: its_example_def idle_bus_def config_outside_queue_def ITS_QUEUE_SLOTS_def lpi_addr_def cell_of_def ARM_LPI_MINID_def)

text \<open>
  Property C26. The write index of the command queue never wraps: from an empty queue, the 513th
  \<open>ArmGicItsClearLpiMappings\<close> writes its command behind the 8 pages of the queue.
\<close>

theorem its_queue_overflow:
  assumes "g_its_setup_done s" "g_cwriter_ptr s i = 0"
    and "\<And>j. j < ITS_QUEUE_SLOTS + 2 \<Longrightarrow> slot_in_ram H (CommandQBase (GicIts s i)) j"
    and "\<not> is_ram H (its_Base (GicIts s i) + 0x88)"
  shows "g_cwriter_ptr ((ArmGicItsClearLpiMappings H i DevID IntID ^^ 512) s) i = 4096 \<and>
    cells ((ArmGicItsClearLpiMappings H i DevID IntID ^^ 513) s) (CommandQBase (GicIts s i) + 8 * 0x1000) =
      fst (cmd_DISCARD (ucast DevID) IntID) \<and>
    g_cwriter_ptr ((ArmGicItsClearLpiMappings H i DevID IntID ^^ 513) s) i = 4104"
proof -
  let ?s = "(ArmGicItsClearLpiMappings H i DevID IntID ^^ 512) s" and ?b = "CommandQBase (GicIts s i)"
  have full: "g_cwriter_ptr ?s i = of_nat (4 * 1024)" "GicIts ?s = GicIts s" "g_its_setup_done ?s"
    using clear_repeated [of s i 512 H DevID IntID] assms by auto
  have "(1024::nat) + 2 < 2 ^ 27" "slot_in_ram H (CommandQBase (GicIts ?s i)) 1024" "slot_in_ram H (CommandQBase (GicIts ?s i)) (1024 + 1)"
    using assms(3) by (simp_all add: full ITS_QUEUE_SLOTS_def)
  note eff = clear_effect [OF full(3,1) this, of DevID IntID]
  have step: "(ArmGicItsClearLpiMappings H i DevID IntID ^^ 513) s = ArmGicItsClearLpiMappings H i DevID IntID ?s"
  proof -
    have "(513::nat) = Suc 512" by simp
    then show ?thesis by (metis comp_apply funpow.simps(2))
  qed
  obtain c m where "cells (ArmGicItsClearLpiMappings H i DevID IntID ?s) =
      put_its_slot ?b (1024 + 1) c (put_its_slot ?b 1024 (cmd_DISCARD (ucast DevID) IntID) m)"
    using eff(1) assms(4) by (auto simp: full)
  then have "cells (ArmGicItsClearLpiMappings H i DevID IntID ?s) (?b + 8 * 0x1000) = fst (cmd_DISCARD (ucast DevID) IntID)"
    by (cases c) (simp add: put_its_slot_def cmd_DISCARD_def Let_def)
  with eff(2) assms(4) full show ?thesis unfolding step by simp
qed

theorem its_queue_overflow_witness:
  "cells ((ArmGicItsClearLpiMappings idle_bus 0 7 8195 ^^ 513) (its_example 0)) 0x18000 = fst (cmd_DISCARD 7 8195)"
  using its_queue_overflow [of "its_example 0" 0 idle_bus 7 8195] its_example_ready
  by (auto simp: its_example_def idle_bus_def)

end
