(* ===== verification/Acs_Gic.thy ===== *)
theory Acs_Gic
  imports Acs_Infra Acs_Pcie Acs_Iovirt
begin

text \<open>
  The generic interrupt controller: \<^verbatim>\<open>val/src/acs_gic.c\<close>, \<open>acs_gic_support.c\<close> and \<open>acs_gic_v2m.c\<close> with the driver
  under \<^verbatim>\<open>val/sys_arch_src/gic\<close> (\<open>gic.c\<close>, \<open>v2/gic_v2.c\<close>, \<open>v3/gic_v3.c\<close>, \<open>bsa_exception.c\<close>).

  The parameter \<open>H\<close> is the machine and the platform layer: the effect of memory mapped accesses, of the
  assembly routines for system registers and of the \<open>pal_gic\<close> functions on the device state \<open>'d\<close>.  The state
  extends the globals of the suite by the device, the GIC table, the table of the interrupt handlers (by name)
  and the MSI frames.  The results are options: \<open>None\<close> is a loop that does not end or a read past a table
  without its last entry.  Table entries are lists; \<open>g_intr_handler\<close> is memory behind a pointer, so the
  function is total although the array has \<open>NUM_ARM_MAX_INTERRUPT\<close> entries.
\<close>

subsection \<open>Data\<close>

record GIC_INFO_ENTRY =
  ge_type :: u32
  ge_base :: u64
  ge_entry_id :: u32
  ge_length :: u64
  ge_flags :: u32
  ge_spi_count :: u32
  ge_spi_base :: u32

record GIC_INFO_TABLE =
  hdr_gic_version :: u32
  hdr_num_gicd :: u32
  hdr_num_gicrd :: u32
  hdr_num_its :: u32
  hdr_num_msi_frame :: u32
  gic_info :: "GIC_INFO_ENTRY list"

definition ENTRY_TYPE_CPUIF :: u32 where "ENTRY_TYPE_CPUIF = 0x1000"
definition ENTRY_TYPE_GICD :: u32 where "ENTRY_TYPE_GICD = 0x1001"
definition ENTRY_TYPE_GICC_GICRD :: u32 where "ENTRY_TYPE_GICC_GICRD = 0x1002"
definition ENTRY_TYPE_GICR_GICRD :: u32 where "ENTRY_TYPE_GICR_GICRD = 0x1003"
definition ENTRY_TYPE_GIC_MSI_FRAME :: u32 where "ENTRY_TYPE_GIC_MSI_FRAME = 0x1005"
definition ENTRY_TYPE_GICH :: u32 where "ENTRY_TYPE_GICH = 0x1006"

lemmas gic_entry_types = ENTRY_TYPE_CPUIF_def ENTRY_TYPE_GICD_def ENTRY_TYPE_GICC_GICRD_def
  ENTRY_TYPE_GICR_GICRD_def ENTRY_TYPE_GIC_MSI_FRAME_def ENTRY_TYPE_GICH_def

datatype GIC_INFO_e = GIC_INFO_VERSION | GIC_INFO_SEC_STATES | GIC_INFO_AFFINITY_NS | GIC_INFO_ENABLE_GROUP1NS
  | GIC_INFO_SGI_NON_SECURE | GIC_INFO_SGI_NON_SECURE_LEGACY | GIC_INFO_DIST_BASE | GIC_INFO_CITF_BASE
  | GIC_INFO_NUM_RDIST | GIC_INFO_RDIST_BASE | GIC_INFO_NUM_ITS | GIC_INFO_ITS_BASE | GIC_INFO_NUM_MSI_FRAME

fun gic_info_num :: "GIC_INFO_e \<Rightarrow> u64" where
  "gic_info_num GIC_INFO_VERSION = 1"
| "gic_info_num GIC_INFO_SEC_STATES = 2"
| "gic_info_num GIC_INFO_AFFINITY_NS = 3"
| "gic_info_num GIC_INFO_ENABLE_GROUP1NS = 4"
| "gic_info_num GIC_INFO_SGI_NON_SECURE = 5"
| "gic_info_num GIC_INFO_SGI_NON_SECURE_LEGACY = 6"
| "gic_info_num GIC_INFO_DIST_BASE = 7"
| "gic_info_num GIC_INFO_CITF_BASE = 8"
| "gic_info_num GIC_INFO_NUM_RDIST = 9"
| "gic_info_num GIC_INFO_RDIST_BASE = 10"
| "gic_info_num GIC_INFO_NUM_ITS = 11"
| "gic_info_num GIC_INFO_ITS_BASE = 12"
| "gic_info_num GIC_INFO_NUM_MSI_FRAME = 13"

datatype INTR_TRIGGER_INFO_TYPE_e = INTR_TRIGGER_INFO_LEVEL_LOW | INTR_TRIGGER_INFO_LEVEL_HIGH
  | INTR_TRIGGER_INFO_EDGE_FALLING | INTR_TRIGGER_INFO_EDGE_RISING

fun trigger_num :: "INTR_TRIGGER_INFO_TYPE_e \<Rightarrow> u64" where
  "trigger_num INTR_TRIGGER_INFO_LEVEL_LOW = 0"
| "trigger_num INTR_TRIGGER_INFO_LEVEL_HIGH = 1"
| "trigger_num INTR_TRIGGER_INFO_EDGE_FALLING = 2"
| "trigger_num INTR_TRIGGER_INFO_EDGE_RISING = 3"

record MSI_FRAME_ENTRY =
  mf_base :: u64
  mf_entry_id :: u32
  mf_flags :: u32
  mf_spi_count :: u32
  mf_spi_base :: u32

record GICv2m_MSI_FRAME_INFO =
  num_msi_frame :: u32
  msi_info :: "u32 \<Rightarrow> MSI_FRAME_ENTRY"

text \<open>The system registers that the assembly routines of the driver access.\<close>

datatype gic_sysreg = SR_ICH_HCR | SR_ICH_MISR | SR_ICC_IGRPEN1 | SR_ICC_BPR1 | SR_ICC_PMR | SR_HCR
  | SR_ICC_IAR1 | SR_ICC_EOIR1 | SR_CurrentEL | SR_FAR | SR_ESR

record 'd gic_hw =
  bus_rd32 :: "u64 \<Rightarrow> 'd \<Rightarrow> u32 \<times> 'd"
  bus_rd64 :: "u64 \<Rightarrow> 'd \<Rightarrow> u64 \<times> 'd"
  bus_wr32 :: "u64 \<Rightarrow> u32 \<Rightarrow> 'd \<Rightarrow> 'd"
  bus_wr64 :: "u64 \<Rightarrow> u64 \<Rightarrow> 'd \<Rightarrow> 'd"
  sys_rd :: "gic_sysreg \<Rightarrow> 'd \<Rightarrow> u64 \<times> 'd"
  sys_wr :: "gic_sysreg \<Rightarrow> u64 \<Rightarrow> 'd \<Rightarrow> 'd"
  set_el2_vector_table :: "'d \<Rightarrow> 'd"
  clear_daif :: "'d \<Rightarrow> 'd"
  pal_gic_info :: GIC_INFO_TABLE
  pal_max_lpi_id :: u32
  pal_install_isr :: "u32 \<Rightarrow> string \<Rightarrow> 'd \<Rightarrow> u32 \<times> 'd"
  pal_end_of_interrupt :: "u32 \<Rightarrow> 'd \<Rightarrow> 'd"
  pal_set_intr_trigger :: "u32 \<Rightarrow> INTR_TRIGGER_INFO_TYPE_e \<Rightarrow> 'd \<Rightarrow> u32 \<times> 'd"
  pal_its_configure :: "'d \<Rightarrow> u32 \<times> 'd"
  pal_request_msi :: "u32 \<Rightarrow> u32 \<Rightarrow> u32 \<Rightarrow> u32 \<Rightarrow> 'd \<Rightarrow> (u32 \<times> u32 \<times> u32) \<times> 'd"
  pal_free_msi :: "u32 \<Rightarrow> u32 \<Rightarrow> u32 \<Rightarrow> u32 \<Rightarrow> 'd \<Rightarrow> 'd"

record 'd gic_state = acs +
  gic_dev :: 'd
  g_gic_info_table :: "GIC_INFO_TABLE option"
  g_intr_handler :: "u32 \<Rightarrow> string option"
  g_v2m_msi_info :: "GICv2m_MSI_FRAME_INFO option"

subsection \<open>Access to registers\<close>

definition gic_read :: "'d gic_hw \<Rightarrow> u64 \<Rightarrow> 'd gic_state \<Rightarrow> u32 \<times> 'd gic_state" where
  "gic_read H a s = (case bus_rd32 H a (gic_dev s) of (v, d) \<Rightarrow> (v, s\<lparr>gic_dev := d\<rparr>))"

definition gic_read64 :: "'d gic_hw \<Rightarrow> u64 \<Rightarrow> 'd gic_state \<Rightarrow> u64 \<times> 'd gic_state" where
  "gic_read64 H a s = (case bus_rd64 H a (gic_dev s) of (v, d) \<Rightarrow> (v, s\<lparr>gic_dev := d\<rparr>))"

definition gic_write :: "'d gic_hw \<Rightarrow> u64 \<Rightarrow> u32 \<Rightarrow> 'd gic_state \<Rightarrow> 'd gic_state" where
  "gic_write H a v s = s\<lparr>gic_dev := bus_wr32 H a v (gic_dev s)\<rparr>"

definition gic_write64 :: "'d gic_hw \<Rightarrow> u64 \<Rightarrow> u64 \<Rightarrow> 'd gic_state \<Rightarrow> 'd gic_state" where
  "gic_write64 H a v s = s\<lparr>gic_dev := bus_wr64 H a v (gic_dev s)\<rparr>"

definition sysreg_read :: "'d gic_hw \<Rightarrow> gic_sysreg \<Rightarrow> 'd gic_state \<Rightarrow> u64 \<times> 'd gic_state" where
  "sysreg_read H r s = (case sys_rd H r (gic_dev s) of (v, d) \<Rightarrow> (v, s\<lparr>gic_dev := d\<rparr>))"

definition sysreg_write :: "'d gic_hw \<Rightarrow> gic_sysreg \<Rightarrow> u64 \<Rightarrow> 'd gic_state \<Rightarrow> 'd gic_state" where
  "sysreg_write H r v s = s\<lparr>gic_dev := sys_wr H r v (gic_dev s)\<rparr>"

subsection \<open>The GIC table\<close>

text \<open>The \<open>while (gic_entry->type != 0xFF)\<close> loops: the first entry in front of the last one that fits.\<close>

fun gic_entry_loop :: "(u32 \<Rightarrow> bool) \<Rightarrow> GIC_INFO_ENTRY list \<Rightarrow> GIC_INFO_ENTRY option option" where
  "gic_entry_loop P [] = None"
| "gic_entry_loop P (e # es) =
     (if ge_type e = 0xFF then Some None
      else if P (ge_type e) then Some (Some e)
      else gic_entry_loop P es)"

definition gic_not_available :: "'d gic_state \<Rightarrow> 'd gic_state" where
  "gic_not_available s = val_print ACS_PRINT_ERR (''GIC INFO table not available '' @ nl) 0 s"

definition val_get_gicd_base :: "'d gic_state \<Rightarrow> (u64 \<times> 'd gic_state) option" where
  "val_get_gicd_base s =
     (case g_gic_info_table s of
        None \<Rightarrow> Some (0, gic_not_available s)
      | Some t \<Rightarrow> map_option (\<lambda>r. (case r of Some e \<Rightarrow> ge_base e | None \<Rightarrow> 0, s))
                    (gic_entry_loop (\<lambda>ty. ty = ENTRY_TYPE_GICD) (gic_info t)))"

text \<open>\<open>rdbase_len\<close> is passed in and returned.\<close>

definition val_get_gicr_base :: "u32 \<Rightarrow> 'd gic_state \<Rightarrow> (u64 \<times> u32 \<times> 'd gic_state) option" where
  "val_get_gicr_base rdbase_len s =
     (case g_gic_info_table s of
        None \<Rightarrow> Some (0, rdbase_len, gic_not_available s)
      | Some t \<Rightarrow> map_option (\<lambda>r. case r of
            Some e \<Rightarrow> (ge_base e, if ge_type e = ENTRY_TYPE_GICR_GICRD then ucast (ge_length e) else 0, s)
          | None \<Rightarrow> (0, 0, s))
          (gic_entry_loop (\<lambda>ty. ty = ENTRY_TYPE_GICR_GICRD \<or> ty = ENTRY_TYPE_GICC_GICRD) (gic_info t)))"

definition val_get_gich_base :: "'d gic_state \<Rightarrow> (u64 \<times> 'd gic_state) option" where
  "val_get_gich_base s =
     (case g_gic_info_table s of
        None \<Rightarrow> Some (0, gic_not_available s)
      | Some t \<Rightarrow> map_option (\<lambda>r. (case r of Some e \<Rightarrow> ge_base e | None \<Rightarrow> 0, s))
                    (gic_entry_loop (\<lambda>ty. ty = ENTRY_TYPE_GICH) (gic_info t)))"

definition val_get_cpuif_base :: "'d gic_state \<Rightarrow> (u64 \<times> 'd gic_state) option" where
  "val_get_cpuif_base s =
     (case g_gic_info_table s of
        None \<Rightarrow> Some (0, gic_not_available s)
      | Some t \<Rightarrow> map_option (\<lambda>r. (case r of Some e \<Rightarrow> ge_base e | None \<Rightarrow> 0, s))
                    (gic_entry_loop (\<lambda>ty. ty = ENTRY_TYPE_CPUIF) (gic_info t)))"

text \<open>A field of a distributor register.\<close>

definition gicd_field :: "'d gic_hw \<Rightarrow> u64 \<Rightarrow> nat \<Rightarrow> nat \<Rightarrow> 'd gic_state \<Rightarrow> (u32 \<times> 'd gic_state) option" where
  "gicd_field H off lo hi s = do {
     (b, s1) \<leftarrow> val_get_gicd_base s;
     let (v, s2) = gic_read H (b + off) s1;
     Some (VAL_EXTRACT_BITS v lo hi, s2) }"

definition val_gic_get_info :: "'d gic_hw \<Rightarrow> GIC_INFO_e \<Rightarrow> 'd gic_state \<Rightarrow> (u32 \<times> 'd gic_state) option" where
  "val_gic_get_info H ty s =
     (case g_gic_info_table s of
        None \<Rightarrow> Some (0, val_print ACS_PRINT_ERR (nl @ ''   Get GIC info called before gic info table is filled '') 0 s)
      | Some t \<Rightarrow>
          (case ty of
             GIC_INFO_VERSION \<Rightarrow>
               if hdr_gic_version t \<noteq> 0
               then Some (hdr_gic_version t, val_print ACS_PRINT_INFO (nl @ ''       gic version from info table = %d '')
                      (ucast (hdr_gic_version t)) s)
               else gicd_field H 0xFFE8 4 7 s
           | GIC_INFO_SEC_STATES \<Rightarrow> gicd_field H 0 6 6 s
           | GIC_INFO_AFFINITY_NS \<Rightarrow> gicd_field H 0 4 4 s
           | GIC_INFO_ENABLE_GROUP1NS \<Rightarrow> gicd_field H 0 0 1 s
           | GIC_INFO_SGI_NON_SECURE \<Rightarrow> do {
               (b, _, s1) \<leftarrow> val_get_gicr_base 0 s;
               Some (gic_read H (b + 0x10000 + 0x100) s1) }
           | GIC_INFO_SGI_NON_SECURE_LEGACY \<Rightarrow> do {
               (b, s1) \<leftarrow> val_get_gicd_base s;
               Some (gic_read H (b + 0x100) s1) }
           | GIC_INFO_NUM_ITS \<Rightarrow> Some (hdr_num_its t, s)
           | GIC_INFO_NUM_MSI_FRAME \<Rightarrow> Some (hdr_num_msi_frame t, s)
           | _ \<Rightarrow> Some (ACS_STATUS_ERR, val_print ACS_PRINT_ERR (nl @ ''    GIC Info - TYPE not recognized %d  '')
                          (gic_info_num ty) s)))"

definition val_get_max_intid :: "'d gic_hw \<Rightarrow> 'd gic_state \<Rightarrow> (u32 \<times> 'd gic_state) option" where
  "val_get_max_intid H s = do {
     (b, s1) \<leftarrow> val_get_gicd_base s;
     let (v, s2) = gic_read H (b + 0x004) s1;
     Some (32 * ((v AND 0x1F) + 1), s2) }"

subsection \<open>Interrupts of the distributor, \<^verbatim>\<open>acs_gic.c\<close>\<close>

definition val_gic_route_interrupt_to_pe :: "'d gic_hw \<Rightarrow> u32 \<Rightarrow> u64 \<Rightarrow> 'd gic_state \<Rightarrow> (u32 \<times> 'd gic_state) option" where
  "val_gic_route_interrupt_to_pe H int_id mpid s =
     (if int_id > 31
      then do {
        (b, s1) \<leftarrow> val_get_gicd_base s;
        Some (0, gic_write64 H (b + 0x6000 + ucast (8 * int_id)) (mpid AND 0xF80FFFFFF) s1) }
      else Some (0, val_print ACS_PRINT_ERR
             (nl @ ''    Only SPIs can be routed, interrupt with INTID = %d cannot be routed'') (ucast int_id) s))"

definition val_gic_get_interrupt_state :: "'d gic_hw \<Rightarrow> u32 \<Rightarrow> 'd gic_state \<Rightarrow> (u32 \<times> 'd gic_state) option" where
  "val_gic_get_interrupt_state H int_id s = do {
     let reg_offset = int_id div 32;
     let mask = shl 1 (unat (int_id mod 32));
     (b, s1) \<leftarrow> val_get_gicd_base s;
     let (pend, s2) = gic_read H (b + 0x200 + ucast (4 * reg_offset)) s1;
     (b', s3) \<leftarrow> val_get_gicd_base s2;
     let (active, s4) = gic_read H (b' + 0x300 + ucast (4 * reg_offset)) s3;
     Some (if mask AND active \<noteq> 0 \<or> mask AND pend \<noteq> 0 then 1 else 0, s4) }"

definition val_gic_clear_interrupt :: "'d gic_hw \<Rightarrow> u32 \<Rightarrow> 'd gic_state \<Rightarrow> 'd gic_state option" where
  "val_gic_clear_interrupt H int_id s =
     (let reg_offset = int_id div 32; bitv = shl 1 (unat (int_id mod 32))
      in if int_id > 31 \<and> int_id < 1020
         then do {
           (b, s1) \<leftarrow> val_get_gicd_base s;
           let s2 = gic_write H (b + 0x280 + ucast (4 * reg_offset)) bitv s1;
           (b', s3) \<leftarrow> val_get_gicd_base s2;
           Some (gic_write H (b' + 0x380 + ucast (4 * reg_offset)) bitv s3) }
         else Some (val_print ACS_PRINT_ERR (nl @ ''    Invalid SPI interrupt ID number %d'') (ucast int_id) s))"

definition val_gic_get_intr_trigger_type :: "'d gic_hw \<Rightarrow> u32 \<Rightarrow> INTR_TRIGGER_INFO_TYPE_e \<Rightarrow> 'd gic_state
    \<Rightarrow> (u32 \<times> INTR_TRIGGER_INFO_TYPE_e \<times> 'd gic_state) option" where
  "val_gic_get_intr_trigger_type H int_id trigger_type s = do {
     (mx, s1) \<leftarrow> val_get_max_intid H s;
     if int_id > mx
     then Some (ACS_STATUS_ERR, trigger_type,
            val_print ACS_PRINT_ERR (nl @ ''       Invalid Interrupt ID number 0x%x '') (ucast int_id) s1)
     else do {
       let reg_offset = int_id div 16;
       let config_bit_shift = (1 + int_id * 2) mod 32;
       (b, s2) \<leftarrow> val_get_gicd_base s1;
       let (v, s3) = gic_read H (b + 0xC00 + ucast (4 * reg_offset)) s2;
       Some (0, if v AND shl 1 (unat config_bit_shift) = 0 then INTR_TRIGGER_INFO_LEVEL_HIGH
                else INTR_TRIGGER_INFO_EDGE_RISING, s3) } }"

definition val_gic_set_intr_trigger :: "'d gic_hw \<Rightarrow> u32 \<Rightarrow> INTR_TRIGGER_INFO_TYPE_e \<Rightarrow> 'd gic_state \<Rightarrow> 'd gic_state" where
  "val_gic_set_intr_trigger H int_id trigger_type s =
     (let s1 = val_print ACS_PRINT_DEBUG (nl @ ''    Setting Trigger type as %d  '') (trigger_num trigger_type) s;
          (status, d) = pal_set_intr_trigger H int_id trigger_type (gic_dev s1);
          s2 = s1\<lparr>gic_dev := d\<rparr>
      in if status \<noteq> 0 then val_print ACS_PRINT_ERR (nl @ ''    Error Could Not Configure Trigger Type'') 0 s2 else s2)"

subsection \<open>System registers, \<^verbatim>\<open>acs_gic_support.c\<close>\<close>

datatype BSA_ACS_GIC_REGS = ICH_HCR_EL2 | ICH_MISR_EL2 | ICC_IGRPEN1_EL1 | ICC_BPR1_EL1 | ICC_PMR_EL1

definition report_bad_reg :: "'d gic_state \<Rightarrow> 'd gic_state option" where
  "report_bad_reg s = do { i \<leftarrow> my_index s; Some (val_report_status i (RESULT_FAIL 0 0x78) s) }"

definition val_gic_reg_read :: "'d gic_hw \<Rightarrow> BSA_ACS_GIC_REGS \<Rightarrow> 'd gic_state \<Rightarrow> (u64 \<times> 'd gic_state) option" where
  "val_gic_reg_read H r s =
     (case r of
        ICH_HCR_EL2 \<Rightarrow> do {
          (v, s1) \<leftarrow> val_gic_get_info H GIC_INFO_VERSION s;
          if v \<ge> 3 then Some (sysreg_read H SR_ICH_HCR s1)
          else do {
            (b, s2) \<leftarrow> val_get_gich_base s1;
            let (x, s3) = gic_read H (b + 0) s2;
            Some (ucast x, s3) } }
      | ICH_MISR_EL2 \<Rightarrow> Some (sysreg_read H SR_ICH_MISR s)
      | _ \<Rightarrow> map_option (\<lambda>s'. (0, s')) (report_bad_reg s))"

definition val_gic_reg_write :: "'d gic_hw \<Rightarrow> BSA_ACS_GIC_REGS \<Rightarrow> u64 \<Rightarrow> 'd gic_state \<Rightarrow> 'd gic_state option" where
  "val_gic_reg_write H r v s =
     (case r of
        ICH_HCR_EL2 \<Rightarrow> do {
          (ver, s1) \<leftarrow> val_gic_get_info H GIC_INFO_VERSION s;
          if ver \<ge> 3 then Some (sysreg_write H SR_ICH_HCR v s1)
          else do {
            (b, s2) \<leftarrow> val_get_gich_base s1;
            Some (gic_write H (b + 0) (ucast v) s2) } }
      | ICC_IGRPEN1_EL1 \<Rightarrow> Some (sysreg_write H SR_ICC_IGRPEN1 v s)
      | ICC_BPR1_EL1 \<Rightarrow> Some (sysreg_write H SR_ICC_BPR1 v s)
      | ICC_PMR_EL1 \<Rightarrow> Some (sysreg_write H SR_ICC_PMR v s)
      | ICH_MISR_EL2 \<Rightarrow> report_bad_reg s)"

definition val_gic_cpuif_init :: "'d gic_hw \<Rightarrow> 'd gic_state \<Rightarrow> 'd gic_state option" where
  "val_gic_cpuif_init H s = do {
     s1 \<leftarrow> val_gic_reg_write H ICC_BPR1_EL1 0x7 s;
     s2 \<leftarrow> val_gic_reg_write H ICC_PMR_EL1 0xff s1;
     val_gic_reg_write H ICC_IGRPEN1_EL1 0x1 s2 }"

definition val_gic_is_valid_lpi :: "'d gic_hw \<Rightarrow> u32 \<Rightarrow> u32" where
  "val_gic_is_valid_lpi H int_id = (if int_id < 8192 \<or> int_id > pal_max_lpi_id H then 0 else 1)"

definition val_gic_end_of_interrupt :: "'d gic_hw \<Rightarrow> u32 \<Rightarrow> 'd gic_state \<Rightarrow> u32 \<times> 'd gic_state" where
  "val_gic_end_of_interrupt H int_id s = (0, s\<lparr>gic_dev := pal_end_of_interrupt H int_id (gic_dev s)\<rparr>)"

definition val_gic_its_configure :: "'d gic_hw \<Rightarrow> 'd gic_state \<Rightarrow> u32 \<times> 'd gic_state" where
  "val_gic_its_configure H s = (case pal_its_configure H (gic_dev s) of (st, d) \<Rightarrow> (st, s\<lparr>gic_dev := d\<rparr>))"

subsection \<open>Driver of GICv3, \<^verbatim>\<open>gic_v3.c\<close>\<close>

definition IsSpi :: "u32 \<Rightarrow> bool" where
  "IsSpi int_id \<longleftrightarrow> int_id \<ge> 32 \<and> int_id < 1020"

text \<open>
  The affinity masks of \<open>gic.h\<close>.  \<open>PE_AFF1\<close>, \<open>PE_AFF2\<close> and \<open>PE_AFF3\<close> are comparisons there (\<open><\<close>, not \<open><<\<close>).
\<close>

definition c_bool :: "bool \<Rightarrow> u64" where "c_bool b = (if b then 1 else 0)"
definition PE_AFF0 :: u64 where "PE_AFF0 = 0xFF"
definition PE_AFF1 :: u64 where "PE_AFF1 = c_bool ((0xFF :: u32) < 8)"
definition PE_AFF2 :: u64 where "PE_AFF2 = c_bool ((0xFF :: u32) < 16)"
definition PE_AFF3 :: u64 where "PE_AFF3 = c_bool ((0xFF :: u64) < 32)"

lemmas PE_AFF_defs = PE_AFF0_def PE_AFF1_def PE_AFF2_def PE_AFF3_def c_bool_def

definition CpuAffinity :: "u64 \<Rightarrow> u64" where
  "CpuAffinity mpid = (mpid AND (PE_AFF0 OR PE_AFF1 OR PE_AFF2)) OR shr (mpid AND PE_AFF3) 8"

definition GICR_TYPER_AFF :: u64 where
  "GICR_TYPER_AFF = shl 0xFFFFFFFF 32"

definition frame_affinity :: "'d gic_hw \<Rightarrow> u64 \<Rightarrow> 'd gic_state \<Rightarrow> u64 \<times> 'd gic_state" where
  "frame_affinity H base s = (case gic_read64 H (base + 0x8) s of (v, s1) \<Rightarrow> (shr (v AND GICR_TYPER_AFF) 32, s1))"

definition cpu_rd_step :: "'d gic_hw \<Rightarrow> u64 \<Rightarrow> u64 \<Rightarrow> u64 \<times> 'd gic_state \<Rightarrow> (u64 \<times> 'd gic_state) + (u64 \<times> 'd gic_state)" where
  "cpu_rd_step H affinity stop = (\<lambda>(base, s).
     if base < stop
     then case frame_affinity H base s of (a, s1) \<Rightarrow>
            if a = affinity then Inl (base, s1) else Inr (base + 0x20000, s1)
     else Inl (0, s))"

definition CurrentCpuRDBase :: "'d gic_hw \<Rightarrow> u64 \<Rightarrow> u32 \<Rightarrow> 'd gic_state \<Rightarrow> (u64 \<times> 'd gic_state) option" where
  "CurrentCpuRDBase H rdbase len s =
     (if len = 0
      then case frame_affinity H rdbase s of (a, s1) \<Rightarrow> Some (if a = CpuAffinity (MPIDR s) then rdbase else 0, s1)
      else tail_iter (cpu_rd_step H (CpuAffinity (MPIDR s)) (rdbase + ucast len)) (rdbase, s))"

definition my_rd_base :: "'d gic_hw \<Rightarrow> 'd gic_state \<Rightarrow> (u64 \<times> 'd gic_state) option" where
  "my_rd_base H s = do { (b, len, s1) \<leftarrow> val_get_gicr_base 0 s; CurrentCpuRDBase H b len s1 }"

definition waker_step :: "'d gic_hw \<Rightarrow> u64 \<Rightarrow> 'd gic_state \<Rightarrow> 'd gic_state + 'd gic_state" where
  "waker_step H base s = (case gic_read H (base + 0x14) s of (v, s1) \<Rightarrow> if shr v 2 AND 1 = 0 then Inl s1 else Inr s1)"

definition WakeUpRD :: "'d gic_hw \<Rightarrow> 'd gic_state \<Rightarrow> 'd gic_state option" where
  "WakeUpRD H s = do {
     (base, s1) \<leftarrow> my_rd_base H s;
     if base = 0 then Some s1
     else
       let (tmp, s2) = gic_read H (base + 0x14) s1;
           s3 = (if shr tmp 1 AND 1 \<noteq> 0 then gic_write H (base + 0x14) (tmp AND NOT 0x02) s2 else s2)
       in tail_iter (waker_step H base) s3 }"

definition v3_AcknowledgeInterrupt :: "'d gic_hw \<Rightarrow> 'd gic_state \<Rightarrow> u32 \<times> 'd gic_state" where
  "v3_AcknowledgeInterrupt H s = (case sysreg_read H SR_ICC_IAR1 s of (v, s1) \<Rightarrow> (ucast v, s1))"

definition v3_EndofInterrupt :: "'d gic_hw \<Rightarrow> u32 \<Rightarrow> 'd gic_state \<Rightarrow> 'd gic_state" where
  "v3_EndofInterrupt H int_id s = sysreg_write H SR_ICC_EOIR1 (ucast int_id) s"

text \<open>The common body of \<open>v3_DisableInterruptSource\<close> and \<open>v3_EnableInterruptSource\<close>, with the register offset.\<close>

definition v3_source :: "'d gic_hw \<Rightarrow> u64 \<Rightarrow> u32 \<Rightarrow> 'd gic_state \<Rightarrow> 'd gic_state option" where
  "v3_source H reg int_id s =
     (let regOffset = int_id div 32; v = shl 1 (unat (int_id mod 32))
      in if IsSpi int_id
         then do { (b, s1) \<leftarrow> val_get_gicd_base s; Some (gic_write H (b + reg + ucast (4 * regOffset)) v s1) }
         else do {
           (base, s1) \<leftarrow> my_rd_base H s;
           if base = 0 then Some s1 else Some (gic_write H (base + 0x10000 + reg + ucast (4 * regOffset)) v s1) })"

definition v3_DisableInterruptSource :: "'d gic_hw \<Rightarrow> u32 \<Rightarrow> 'd gic_state \<Rightarrow> 'd gic_state option" where
  "v3_DisableInterruptSource H int_id s = v3_source H 0x180 int_id s"

definition v3_EnableInterruptSource :: "'d gic_hw \<Rightarrow> u32 \<Rightarrow> 'd gic_state \<Rightarrow> 'd gic_state option" where
  "v3_EnableInterruptSource H int_id s = v3_source H 0x100 int_id s"

definition set_priority_byte :: "'d gic_hw \<Rightarrow> u64 \<Rightarrow> u32 \<Rightarrow> u32 \<Rightarrow> 'd gic_state \<Rightarrow> 'd gic_state" where
  "set_priority_byte H reg regShift priority s =
     (case gic_read H reg s of (v, s1) \<Rightarrow>
        gic_write H reg ((v AND NOT (shl 0xff (unat regShift))) OR shl priority (unat regShift)) s1)"

definition v3_SetInterruptPriority :: "'d gic_hw \<Rightarrow> u32 \<Rightarrow> u32 \<Rightarrow> 'd gic_state \<Rightarrow> 'd gic_state option" where
  "v3_SetInterruptPriority H int_id priority s =
     (let regOffset = int_id div 4; regShift = (int_id mod 4) * 8
      in if IsSpi int_id
         then do { (b, s1) \<leftarrow> val_get_gicd_base s; Some (set_priority_byte H (b + 0x400 + ucast (4 * regOffset)) regShift priority s1) }
         else do {
           (base, s1) \<leftarrow> my_rd_base H s;
           if base = 0 then Some s1
           else Some (set_priority_byte H (base + 0x400 + ucast (4 * regOffset)) regShift priority s1) })"

text \<open>A counting loop of the initialisation: the body for the indices of a list, in order.\<close>

fun each_index :: "(u32 \<Rightarrow> 's \<Rightarrow> 's option) \<Rightarrow> nat list \<Rightarrow> 's \<Rightarrow> 's option" where
  "each_index f [] s = Some s"
| "each_index f (i # is) s = do { s1 \<leftarrow> f (of_nat i) s; each_index f is s1 }"

definition bsa_gic_vector_table_init :: "'d gic_hw \<Rightarrow> 'd gic_state \<Rightarrow> 'd gic_state" where
  "bsa_gic_vector_table_init H s =
     (let s1 = val_print ACS_PRINT_DEBUG ('' GIC_INIT: Setting Up Vector Table...'' @ nl) 0 s;
          s2 = s1\<lparr>gic_dev := set_el2_vector_table H (gic_dev s1)\<rparr>
      in val_gic_bsa_install_esr 1 ''default_irq_handler'' s2)"

definition take_exceptions :: "'d gic_hw \<Rightarrow> 'd gic_state \<Rightarrow> 'd gic_state" where
  "take_exceptions H s =
     (let s1 = bsa_gic_vector_table_init H s;
          (el, s2) = sysreg_read H SR_CurrentEL s1;
          s3 = (if el = 0x8 then sysreg_write H SR_HCR (shl 1 27) s2 else s2)
      in s3\<lparr>gic_dev := clear_daif H (gic_dev s3)\<rparr>)"

definition GIC_DEFAULT_PRIORITY :: u32 where "GIC_DEFAULT_PRIORITY = 0x80"

definition v3_Init :: "'d gic_hw \<Rightarrow> 'd gic_state \<Rightarrow> 'd gic_state option" where
  "v3_Init H s = do {
     (gicd_base, s1) \<leftarrow> val_get_gicd_base s;
     (mx, s2) \<leftarrow> val_get_max_intid H s1;
     let s3 = val_print ACS_PRINT_DEBUG ('' '' @ nl @ ''GIC_INIT: D base %x'' @ nl) gicd_base s2;
     let s4 = val_print ACS_PRINT_DEBUG ('' '' @ nl @ ''GIC_INIT: Interrupts %d'' @ nl) (ucast mx) s3;
     s5 \<leftarrow> each_index (v3_DisableInterruptSource H) [0..<unat mx] s4;
     let s6 = take_exceptions H s5;
     s7 \<leftarrow> each_index (\<lambda>i. v3_SetInterruptPriority H i GIC_DEFAULT_PRIORITY) [0..<unat mx] s6;
     let (c1, s8) = gic_read H (gicd_base + 0) s7;
     let s9 = gic_write H (gicd_base + 0) (c1 OR shl 1 4) s8;
     let (c2, s10) = gic_read H (gicd_base + 0) s9;
     let s11 = gic_write H (gicd_base + 0) (c2 OR 0x2) s10;
     let (c3, s12) = gic_read H (gicd_base + 0) s11;
     let s13 = val_print ACS_PRINT_DEBUG ('' '' @ nl @ ''GIC_INIT: GICD_CTLR value 0x%08x'' @ nl) (ucast c3) s12;
     s14 \<leftarrow> WakeUpRD H s13;
     s15 \<leftarrow> each_index (\<lambda>i. v3_SetInterruptPriority H i GIC_DEFAULT_PRIORITY) [0..<unat mx] s14;
     let cpuTarget = MPIDR s15 AND (PE_AFF0 OR PE_AFF1 OR PE_AFF2 OR PE_AFF3);
     s16 \<leftarrow> each_index (\<lambda>i s. Some (gic_write64 H (gicd_base + 0x6100 + ucast (i * 8)) cpuTarget s)) [0..<unat (mx - 32)] s15;
     val_gic_cpuif_init H s16 }"

subsection \<open>Driver of GICv2, \<^verbatim>\<open>gic_v2.c\<close>\<close>

definition v2_AcknowledgeInterrupt :: "'d gic_hw \<Rightarrow> 'd gic_state \<Rightarrow> (u32 \<times> 'd gic_state) option" where
  "v2_AcknowledgeInterrupt H s = do { (b, s1) \<leftarrow> val_get_cpuif_base s; Some (gic_read H (b + 0x0C) s1) }"

definition v2_EndofInterrupt :: "'d gic_hw \<Rightarrow> u32 \<Rightarrow> 'd gic_state \<Rightarrow> 'd gic_state option" where
  "v2_EndofInterrupt H int_id s = do { (b, s1) \<leftarrow> val_get_cpuif_base s; Some (gic_write H (b + 0x10) int_id s1) }"

definition v2_DisableInterruptSource :: "'d gic_hw \<Rightarrow> u32 \<Rightarrow> 'd gic_state \<Rightarrow> 'd gic_state option" where
  "v2_DisableInterruptSource H int_id s = do {
     (b, s1) \<leftarrow> val_get_gicd_base s;
     Some (gic_write H (b + 0x180 + ucast (4 * (int_id div 32))) (shl 1 (unat (int_id mod 32))) s1) }"

definition v2_EnableInterruptSource :: "'d gic_hw \<Rightarrow> u32 \<Rightarrow> 'd gic_state \<Rightarrow> 'd gic_state option" where
  "v2_EnableInterruptSource H int_id s = do {
     (b, s1) \<leftarrow> val_get_gicd_base s;
     Some (gic_write H (b + 0x100 + ucast (4 * (int_id div 32))) (shl 1 (unat (int_id mod 32))) s1) }"

definition v2_set_priority :: "'d gic_hw \<Rightarrow> u32 \<Rightarrow> 'd gic_state \<Rightarrow> 'd gic_state option" where
  "v2_set_priority H i s = do {
     (b, s1) \<leftarrow> val_get_gicd_base s;
     Some (set_priority_byte H (b + 0x400 + ucast (4 * (i div 4))) ((i mod 4) * 8) GIC_DEFAULT_PRIORITY s1) }"

text \<open>\<open>cpuif_base\<close> is a 32-bit local.\<close>

definition v2_Init :: "'d gic_hw \<Rightarrow> 'd gic_state \<Rightarrow> 'd gic_state option" where
  "v2_Init H s = do {
     (gicd_base, s1) \<leftarrow> val_get_gicd_base s;
     (cb, s2) \<leftarrow> val_get_cpuif_base s1;
     let cpuif_base = cb AND 0xFFFFFFFF;
     (mx, s3) \<leftarrow> val_get_max_intid H s2;
     let s4 = val_print ACS_PRINT_DEBUG ('' '' @ nl @ ''GIC_INIT: D base %x'' @ nl) gicd_base s3;
     let s5 = val_print ACS_PRINT_DEBUG ('' '' @ nl @ ''GIC_INIT: CPU IF base %x'' @ nl) cpuif_base s4;
     let s6 = val_print ACS_PRINT_DEBUG ('' '' @ nl @ ''GIC_INIT: Interrupts %d'' @ nl) (ucast mx) s5;
     s7 \<leftarrow> each_index (v2_DisableInterruptSource H) [0..<unat mx] s6;
     s8 \<leftarrow> each_index (v2_set_priority H) [0..<unat mx] (take_exceptions H s7);
     (b, s9) \<leftarrow> val_get_gicd_base s8;
     let (cpuTarget, s10) = gic_read H (b + 0x800) s9;
     s11 \<leftarrow> (if cpuTarget \<noteq> 0
              then each_index (\<lambda>i s. Some (gic_write H (gicd_base + 0x800 + ucast (i * 4)) cpuTarget s)) [8..<unat (mx div 4)] s10
              else Some s10);
     let s12 = gic_write H (cpuif_base + 0x08) 0x7 s11;
     let s13 = gic_write H (cpuif_base + 0x04) 0xff s12;
     let s14 = gic_write H (cpuif_base + 0x00) 0x1 s13;
     (b2, s15) \<leftarrow> val_get_gicd_base s14;
     Some (gic_write H (b2 + 0) 0x1 s15) }"

subsection \<open>Selection of the driver, \<^verbatim>\<open>gic.c\<close>, and interrupts, \<^verbatim>\<open>bsa_exception.c\<close>\<close>

definition is_v3 :: "u32 \<Rightarrow> bool" where
  "is_v3 gic_version \<longleftrightarrow> gic_version = 3 \<or> gic_version = 4"

definition val_bsa_gic_init :: "'d gic_hw \<Rightarrow> 'd gic_state \<Rightarrow> 'd gic_state option" where
  "val_bsa_gic_init H s = do {
     (v, s1) \<leftarrow> val_gic_get_info H GIC_INFO_VERSION s; if is_v3 v then v3_Init H s1 else v2_Init H s1 }"

definition val_bsa_gic_enableInterruptSource :: "'d gic_hw \<Rightarrow> u32 \<Rightarrow> 'd gic_state \<Rightarrow> 'd gic_state option" where
  "val_bsa_gic_enableInterruptSource H int_id s = do {
     (v, s1) \<leftarrow> val_gic_get_info H GIC_INFO_VERSION s;
     if is_v3 v then v3_EnableInterruptSource H int_id s1 else v2_EnableInterruptSource H int_id s1 }"

definition val_bsa_gic_disableInterruptSource :: "'d gic_hw \<Rightarrow> u32 \<Rightarrow> 'd gic_state \<Rightarrow> 'd gic_state option" where
  "val_bsa_gic_disableInterruptSource H int_id s = do {
     (v, s1) \<leftarrow> val_gic_get_info H GIC_INFO_VERSION s;
     if is_v3 v then v3_DisableInterruptSource H int_id s1 else v2_DisableInterruptSource H int_id s1 }"

definition val_bsa_gic_acknowledgeInterrupt :: "'d gic_hw \<Rightarrow> 'd gic_state \<Rightarrow> (u32 \<times> 'd gic_state) option" where
  "val_bsa_gic_acknowledgeInterrupt H s = do {
     (v, s1) \<leftarrow> val_gic_get_info H GIC_INFO_VERSION s;
     if is_v3 v then Some (v3_AcknowledgeInterrupt H s1) else v2_AcknowledgeInterrupt H s1 }"

definition val_bsa_gic_endofInterrupt :: "'d gic_hw \<Rightarrow> u32 \<Rightarrow> 'd gic_state \<Rightarrow> 'd gic_state option" where
  "val_bsa_gic_endofInterrupt H int_id s = do {
     (v, s1) \<leftarrow> val_gic_get_info H GIC_INFO_VERSION s;
     if is_v3 v then Some (v3_EndofInterrupt H int_id s1) else v2_EndofInterrupt H int_id s1 }"

text \<open>\<open>run\<close> executes the handler of the given name.\<close>

definition default_irq_handler :: "'d gic_hw \<Rightarrow> (string \<Rightarrow> 'd gic_state \<Rightarrow> 'd gic_state) \<Rightarrow> 'd gic_state \<Rightarrow> 'd gic_state option" where
  "default_irq_handler H run s = do {
     (iar, s1) \<leftarrow> val_bsa_gic_acknowledgeInterrupt H s;
     let ack = iar AND 0xFFFFFF;
     let s2 = (case g_intr_handler s1 ack of
                 Some h \<Rightarrow> run h s1
               | None \<Rightarrow> val_print ACS_PRINT_ERR (nl @ ''       GIC_INIT: Unregistered Handler for the interrupt_id : 0x%x'') (ucast ack) s1);
     val_bsa_gic_endofInterrupt H ack s2 }"

definition val_gic_bsa_install_isr :: "'d gic_hw \<Rightarrow> u32 \<Rightarrow> string option \<Rightarrow> 'd gic_state \<Rightarrow> (u32 \<times> 'd gic_state) option" where
  "val_gic_bsa_install_isr H interrupt_id isr s = do {
     s1 \<leftarrow> val_bsa_gic_disableInterruptSource H interrupt_id s;
     s2 \<leftarrow> val_bsa_gic_enableInterruptSource H interrupt_id (s1\<lparr>g_intr_handler := (g_intr_handler s1)(interrupt_id := isr)\<rparr>);
     Some (0, s2) }"

text \<open>
  \<open>call\<close> runs an installed exception handler; a call through a null pointer is \<open>None\<close>.  \<open>bsa_gic_get_far\<close> and
  \<open>bsa_gic_get_esr\<close> return 32 bits.
\<close>

definition common_exception_handler :: "'d gic_hw \<Rightarrow> (string \<Rightarrow> u32 \<Rightarrow> 'd gic_state \<Rightarrow> 'd gic_state option) \<Rightarrow> u32 \<Rightarrow> 'd gic_state
    \<Rightarrow> (u32 \<times> 'd gic_state) option" where
  "common_exception_handler H call exception_type s = do {
     let s1 = val_print ACS_PRINT_DEBUG (nl @ ''       GIC_INIT: In Exception Handler Type : %x'') (ucast exception_type) s;
     h \<leftarrow> g_esr_handler s1 exception_type;
     s2 \<leftarrow> call h exception_type s1;
     let (far, s3) = sysreg_read H SR_FAR s2;
     let s4 = val_print ACS_PRINT_INFO (nl @ ''       GIC_INIT: Common Handler, FAR = %x'') (ucast (ucast far :: 32 word)) s3;
     let (esr, s5) = sysreg_read H SR_ESR s4;
     let s6 = val_print ACS_PRINT_INFO (nl @ ''       GIC_INIT: Common Handler, ESR = %x'') (ucast (ucast esr :: 32 word)) s5;
     Some (if exception_type = 0 then 1 else 0, s6) }"

definition val_gic_install_isr :: "'d gic_hw \<Rightarrow> u32 \<Rightarrow> string \<Rightarrow> 'd gic_state \<Rightarrow> (u32 \<times> 'd gic_state) option" where
  "val_gic_install_isr H int_id isr s = do {
     (mx, s1) \<leftarrow> val_get_max_intid H s;
     if (int_id > mx \<and> val_gic_is_valid_lpi H int_id = 0) \<or> int_id = 0
     then Some (ACS_STATUS_ERR, val_print ACS_PRINT_ERR (nl @ ''       Invalid Interrupt ID number 0x%x '') (ucast int_id) s1)
     else if bsa_gic_imp s1 then val_gic_bsa_install_isr H int_id (Some isr) s1
     else do {
       let (ret_val, d) = pal_install_isr H int_id isr (gic_dev s1);
       let s2 = s1\<lparr>gic_dev := d\<rparr>;
       s3 \<leftarrow> (if int_id > 31 \<and> int_id < 1024
              then do {
                (b, s') \<leftarrow> val_get_gicd_base s2;
                Some (gic_write H (b + 0x100 + ucast (4 * (int_id div 32))) (shl 1 (unat (int_id mod 32))) s') }
              else Some s2);
       Some (ret_val, s3) } }"

definition val_gic_create_info_table :: "'d gic_hw \<Rightarrow> bool \<Rightarrow> 'd gic_state \<Rightarrow> (u32 \<times> 'd gic_state) option" where
  "val_gic_create_info_table H null s =
     (if null then Some (ACS_STATUS_ERR, val_print ACS_PRINT_ERR (''Input for Create Info table cannot be NULL '' @ nl) 0 s)
      else
        let t = pal_gic_info H; s1 = s\<lparr>g_gic_info_table := Some t\<rparr>;
            s2 = val_print ACS_PRINT_TEST ('' GIC_INFO: Number of GICD             : %4d '' @ nl) (ucast (hdr_num_gicd t)) s1;
            s3 = val_print ACS_PRINT_TEST ('' GIC_INFO: Number of ITS              : %4d '' @ nl) (ucast (hdr_num_its t)) s2
        in if hdr_num_gicd t = 0
           then Some (ACS_STATUS_ERR, val_print ACS_PRINT_ERR (nl @ '' ** CRITICAL ERROR: GIC Distributor count is 0 **'' @ nl) 0 s3)
           else if bsa_gic_imp s3 then map_option (\<lambda>s'. (ACS_STATUS_PASS, s')) (val_bsa_gic_init H s3)
           else Some (ACS_STATUS_PASS, s3))"

subsection \<open>GICv2m, \<^verbatim>\<open>acs_gic_v2m.c\<close>\<close>

fun v2m_loop :: "u32 \<Rightarrow> GIC_INFO_ENTRY list \<Rightarrow> (u32 \<Rightarrow> MSI_FRAME_ENTRY) \<Rightarrow> (u32 \<Rightarrow> MSI_FRAME_ENTRY) option" where
  "v2m_loop i [] m = None"
| "v2m_loop i (e # es) m =
     (if ge_type e = 0xFF then Some m
      else if ge_type e = ENTRY_TYPE_GIC_MSI_FRAME
      then v2m_loop (i + 1) es (m(i := \<lparr>mf_base = ge_base e, mf_entry_id = ge_entry_id e, mf_flags = ge_flags e,
                                   mf_spi_count = ge_spi_count e, mf_spi_base = ge_spi_base e\<rparr>))
      else v2m_loop i es m)"

text \<open>\<open>ok\<close> tells whether \<open>val_memory_alloc\<close> succeeds, \<open>m\<close> is what the allocated memory holds.\<close>

definition val_gic_v2m_parse_info :: "bool \<Rightarrow> (u32 \<Rightarrow> MSI_FRAME_ENTRY) \<Rightarrow> 'd gic_state \<Rightarrow> (u32 \<times> 'd gic_state) option" where
  "val_gic_v2m_parse_info ok m s =
     (case g_gic_info_table s of
        None \<Rightarrow> Some (ACS_STATUS_SKIP, val_print ACS_PRINT_DEBUG (''GIC INFO table not available '' @ nl) 0 s)
      | Some t \<Rightarrow>
          if \<not> ok then Some (ACS_STATUS_SKIP,
                   val_print ACS_PRINT_DEBUG (nl @ ''      GICv2m : MSI Frame Info Failed.'') 0 (s\<lparr>g_v2m_msi_info := None\<rparr>))
          else do {
            m' \<leftarrow> v2m_loop 0 (gic_info t) m;
            Some (0, s\<lparr>g_v2m_msi_info := Some \<lparr>num_msi_frame = hdr_num_msi_frame t, msi_info = m'\<rparr>\<rparr>) })"

datatype V2M_MSI_INFO_e = V2M_MSI_FRAME_ID | V2M_MSI_SPI_BASE | V2M_MSI_SPI_NUM | V2M_MSI_FRAME_BASE | V2M_MSI_FLAGS

definition v2m_typer_field :: "'d gic_hw \<Rightarrow> MSI_FRAME_ENTRY \<Rightarrow> nat \<Rightarrow> nat \<Rightarrow> 'd gic_state \<Rightarrow> u32 \<times> 'd gic_state" where
  "v2m_typer_field H f lo hi s = (case gic_read H (mf_base f + 0x008) s of (v, s1) \<Rightarrow> (VAL_EXTRACT_BITS v lo hi, s1))"

definition val_gic_v2m_get_info :: "'d gic_hw \<Rightarrow> V2M_MSI_INFO_e \<Rightarrow> u32 \<Rightarrow> 'd gic_state \<Rightarrow> u64 \<times> 'd gic_state" where
  "val_gic_v2m_get_info H ty inst s =
     (case g_v2m_msi_info s of
        None \<Rightarrow> (0, val_print ACS_PRINT_ERR (nl @ ''   Get GICv2m info called before table is filled '') 0 s)
      | Some t \<Rightarrow>
          let f = msi_info t inst
          in case ty of
               V2M_MSI_FRAME_ID \<Rightarrow> (ucast (mf_entry_id f), s)
             | V2M_MSI_FRAME_BASE \<Rightarrow> (mf_base f, s)
             | V2M_MSI_SPI_BASE \<Rightarrow>
                 if mf_spi_base f = 0 then case v2m_typer_field H f 16 25 s of (v, s1) \<Rightarrow> (ucast v, s1)
                 else (ucast (mf_spi_base f), s)
             | V2M_MSI_SPI_NUM \<Rightarrow>
                 if mf_spi_count f = 0 then case v2m_typer_field H f 0 9 s of (v, s1) \<Rightarrow> (ucast v, s1)
                 else (ucast (mf_spi_count f), s)
             | V2M_MSI_FLAGS \<Rightarrow> (ucast (mf_flags f), s))"

subsection \<open>Message signalled interrupts\<close>

text \<open>
  \<open>E\<close> is the configuration space, with the same device state.  All addresses of the MSI-X table are computed in
  32 bits, from the value of the base address register as it is read.
\<close>

definition GET_DEVICE_ID :: "u32 \<Rightarrow> u32 \<Rightarrow> u32 \<Rightarrow> u32" where
  "GET_DEVICE_ID bus dev func = shl bus 8 OR shl dev 3 OR func"

definition on_dev :: "('d \<Rightarrow> 'd) \<Rightarrow> 'd gic_state \<Rightarrow> 'd gic_state" where
  "on_dev f s = s\<lparr>gic_dev := f (gic_dev s)\<rparr>"

definition msix_table_address :: "'d pcie_env \<Rightarrow> u32 \<Rightarrow> u32 \<Rightarrow> 'd gic_state \<Rightarrow> u32" where
  "msix_table_address E bdf cap s =
     (let tor = rd_cfg E (gic_dev s) bdf (cap + 0x4)
      in rd_cfg E (gic_dev s) bdf (TYPE01_BAR + (tor AND 0x7) * 4))"

definition clear_msi_x_table :: "'d gic_hw \<Rightarrow> 'd pcie_env \<Rightarrow> u32 \<Rightarrow> u32 \<Rightarrow> 'd gic_state \<Rightarrow> 'd gic_state option" where
  "clear_msi_x_table H E bdf msi_index s = do {
     (_, cap) \<leftarrow> val_pcie_find_capability E (gic_dev s) bdf PCIE_CAP 0x11 (uninit E);
     let v = rd_cfg E (gic_dev s) bdf cap;
     let s1 = on_dev (val_pcie_write_cfg E bdf cap (v AND (shl 1 31 - 1))) s;
     let addr = msix_table_address E bdf cap s1;
     let s2 = gic_write H (ucast (addr + msi_index * 16 + 0x0)) 0 s1;
     let s3 = gic_write H (ucast (addr + msi_index * 16 + 0x8)) 0 s2;
     Some (gic_write H (ucast (addr + msi_index * 16 + 0xC)) 0x1 s3) }"

definition fill_msi_x_table :: "'d gic_hw \<Rightarrow> 'd pcie_env \<Rightarrow> u32 \<Rightarrow> u32 \<Rightarrow> u32 \<Rightarrow> u32 \<Rightarrow> 'd gic_state \<Rightarrow> 'd gic_state option" where
  "fill_msi_x_table H E bdf msi_index msi_addr msi_data s = do {
     let command_data = rd_cfg E (gic_dev s) bdf TYPE01_CR;
     let s1 = on_dev (val_pcie_write_cfg E bdf TYPE01_CR (command_data OR shl 1 1 OR shl 1 2)) s;
     (_, cap) \<leftarrow> val_pcie_find_capability E (gic_dev s1) bdf PCIE_CAP 0x11 (uninit E);
     let v = rd_cfg E (gic_dev s1) bdf cap;
     let s2 = on_dev (val_pcie_write_cfg E bdf cap (v OR shl 1 31)) s1;
     let addr = msix_table_address E bdf cap s2;
     let s3 = gic_write H (ucast (addr + msi_index * 16 + 0x0)) msi_addr s2;
     let s4 = gic_write H (ucast (addr + msi_index * 16 + 0x8)) msi_data s3;
     Some (gic_write H (ucast (addr + msi_index * 16 + 0xC)) 0x0 s4) }"

text \<open>The device of a function: by the IO virtualisation table, else its requester id; \<open>its_id\<close> may stay uninitialised.\<close>

definition msi_device :: "'d pcie_env \<Rightarrow> IOVIRT_INFO_TABLE option \<Rightarrow> u32 \<Rightarrow> (u32 \<times> u32) option" where
  "msi_device E g bdf = do {
     let req_id = GET_DEVICE_ID (PCIE_EXTRACT_BDF_BUS bdf) (PCIE_EXTRACT_BDF_DEV bdf) (PCIE_EXTRACT_BDF_FUNC bdf);
     r \<leftarrow> val_iovirt_get_device_info g req_id (PCIE_EXTRACT_BDF_SEG bdf);
     Some (case r of Inr i \<Rightarrow> (device_id i, its_id i) | Inl e \<Rightarrow> (req_id, uninit E)) }"

definition val_gic_free_msi :: "'d gic_hw \<Rightarrow> 'd pcie_env \<Rightarrow> IOVIRT_INFO_TABLE option \<Rightarrow> u32 \<Rightarrow> u32 \<Rightarrow> u32 \<Rightarrow> 'd gic_state
    \<Rightarrow> 'd gic_state option" where
  "val_gic_free_msi H E g bdf IntID msi_index s = do {
     (did, its) \<leftarrow> msi_device E g bdf;
     clear_msi_x_table H E bdf msi_index (on_dev (pal_free_msi H its did IntID msi_index) s) }"

definition val_gic_request_msi :: "'d gic_hw \<Rightarrow> 'd pcie_env \<Rightarrow> IOVIRT_INFO_TABLE option \<Rightarrow> u32 \<Rightarrow> u32 \<Rightarrow> u32 \<Rightarrow> 'd gic_state
    \<Rightarrow> (u32 \<times> 'd gic_state) option" where
  "val_gic_request_msi H E g bdf IntID msi_index s = do {
     (did, its) \<leftarrow> msi_device E g bdf;
     let ((status, msi_addr, msi_data), d) = pal_request_msi H its did IntID msi_index (gic_dev s);
     let s1 = s\<lparr>gic_dev := d\<rparr>;
     if status \<noteq> 0 then Some (status, s1)
     else do {
       s2 \<leftarrow> fill_msi_x_table H E bdf msi_index msi_addr msi_data s1;
       Some (status, s2) } }"

end
