(* ===== verification/Acs_Gic_Check.thy ===== *)
theory Acs_Gic_Check
  imports Acs_Gic
begin

text \<open>
  Correctness of the GIC driver.  \<open>rd_frames\<close> lists the frames of a redistributor region and \<open>first_frame\<close> is the
  reference definition of the search for the frame of an affinity; \<open>same_tables\<close> relates states with the same
  GIC table and the same handlers.
\<close>

subsection \<open>Specification\<close>

definition frame_count :: "u32 \<Rightarrow> nat" where
  "frame_count len = (unat len + 0x1FFFF) div 0x20000"

definition rd_frames :: "u64 \<Rightarrow> u32 \<Rightarrow> u64 list" where
  "rd_frames rd len = map (\<lambda>i. rd + of_nat i * 0x20000) [0..<frame_count len]"

definition first_frame :: "(u64 \<Rightarrow> u64) \<Rightarrow> u64 \<Rightarrow> u64 list \<Rightarrow> u64" where
  "first_frame typer aff fs = (case List.find (\<lambda>b. shr (typer (b + 0x8)) 32 = aff) fs of Some b \<Rightarrow> b | None \<Rightarrow> 0)"

definition same_tables :: "'d gic_state \<Rightarrow> 'd gic_state \<Rightarrow> bool" where
  "same_tables s s' \<longleftrightarrow> g_gic_info_table s' = g_gic_info_table s \<and> g_intr_handler s' = g_intr_handler s \<and> bsa_gic_imp s' = bsa_gic_imp s"

definition gic_example_hw :: "unit gic_hw" where
  "gic_example_hw = \<lparr>bus_rd32 = (\<lambda>a d. (2, d)), bus_rd64 = (\<lambda>a d. (0x300000000, d)), bus_wr32 = (\<lambda>a v d. d),
     bus_wr64 = (\<lambda>a v d. d), sys_rd = (\<lambda>r d. (40, d)), sys_wr = (\<lambda>r v d. d), set_el2_vector_table = id, clear_daif = id,
     pal_gic_info = \<lparr>hdr_gic_version = 3, hdr_num_gicd = 1, hdr_num_gicrd = 1, hdr_num_its = 0, hdr_num_msi_frame = 0, gic_info = []\<rparr>,
     pal_max_lpi_id = 0, pal_install_isr = (\<lambda>n h d. (0, d)), pal_end_of_interrupt = (\<lambda>n d. d),
     pal_set_intr_trigger = (\<lambda>n t d. (0, d)), pal_its_configure = (\<lambda>d. (0, d)),
     pal_request_msi = (\<lambda>a b c e d. ((0, 0, 0), d)), pal_free_msi = (\<lambda>a b c e d. d)\<rparr>"

definition gic_example_table :: GIC_INFO_TABLE where
  "gic_example_table = \<lparr>hdr_gic_version = 3, hdr_num_gicd = 1, hdr_num_gicrd = 1, hdr_num_its = 0, hdr_num_msi_frame = 0,
     gic_info = [\<lparr>ge_type = 0x1001, ge_base = 0x8000000, ge_entry_id = 0, ge_length = 0, ge_flags = 0, ge_spi_count = 0, ge_spi_base = 0\<rparr>,
                 \<lparr>ge_type = 0xFF, ge_base = 0, ge_entry_id = 0, ge_length = 0, ge_flags = 0, ge_spi_count = 0, ge_spi_base = 0\<rparr>]\<rparr>"

definition gic_example :: "unit gic_state" where
  "gic_example = acs.extend (two_pe_system\<lparr>bsa_gic_imp := True\<rparr>)
     (gic_state.fields () (Some gic_example_table) (\<lambda>n. None) None)"

subsection \<open>Lemmas\<close>

lemma GICR_TYPER_AFF_shr: "shr (v AND GICR_TYPER_AFF) 32 = shr v 32"
proof -
  have "(0xFFFFFFFF :: u64) = mask 32" by (simp add: mask_eq_exp_minus_1)
  then have "GICR_TYPER_AFF = push_bit 32 (mask 32)" by (simp add: GICR_TYPER_AFF_def)
  show ?thesis unfolding \<open>GICR_TYPER_AFF = _\<close>
    by (intro bit_word_eqI) (auto simp: bit_simps dest: bit_imp_le_length)
qed

lemma CpuAffinity_low_byte: "CpuAffinity m = m AND 0xFF"
  by (simp add: CpuAffinity_def PE_AFF_defs)

lemma frame_affinity_pure:
  assumes "\<And>a d. fst (bus_rd64 H a d) = typer a"
  shows "fst (frame_affinity H b s) = shr (typer (b + 0x8)) 32"
  using assms [of "b + 0x8" "gic_dev s"] GICR_TYPER_AFF_shr [of "typer (b + 0x8)"]
  by (simp add: frame_affinity_def gic_read64_def split_beta)

lemma frame_addr_less:
  fixes rd :: u64
  assumes "unat rd + unat len + 0x20000 \<le> 2 ^ 64" "k \<le> frame_count len"
  shows "rd + of_nat k * 0x20000 < rd + ucast len \<longleftrightarrow> k < frame_count len"
proof -
  have k: "k * 0x20000 \<le> unat len + 0x1FFFF" 
    using assms(2) unfolding frame_count_def by (simp add: less_eq_div_iff_mult_less_eq)
  have "unat (of_nat (k * 0x20000) :: u64) = k * 0x20000"
    using k assms(1) by (simp add: unat_of_nat take_bit_nat_eq_self del: of_nat_mult)
  then have "unat (rd + of_nat (k * 0x20000)) = unat rd + k * 0x20000"
    using k assms(1) by (subst unat_add_u64) simp_all
  then have 1: "unat (rd + of_nat k * 0x20000) = unat rd + k * 0x20000" by simp
  have 2: "unat (rd + ucast len) = unat rd + unat len"
    using assms(1) by (simp add: unat_word_ariths unat_ucast_u32)
  have "k * 0x20000 < unat len \<longleftrightarrow> k < frame_count len"
    using less_eq_div_iff_mult_less_eq [of "0x20000" "Suc k" "unat len + 0x1FFFF"]
    unfolding frame_count_def by (simp add: Suc_le_eq)
  then show ?thesis unfolding word_less_nat_alt 1 2 by simp
qed

lemma frame_search:
  assumes "\<And>a d. fst (bus_rd64 H a d) = typer a" "unat rd + unat len + 0x20000 \<le> 2 ^ 64"
    and "k \<le> frame_count len"
  shows "\<exists>s'. tail_iter (cpu_rd_step H aff (rd + ucast len)) (rd + of_nat k * 0x20000, s) =
    Some (first_frame typer aff (drop k (rd_frames rd len)), s')"
  using assms(3)
proof (induction "frame_count len - k" arbitrary: k s)
  case 0
  then have "k = frame_count len" by simp
  with frame_addr_less [OF assms(2), of k] show ?case
    by (simp add: tail_iter.simps [of _ "(_, _)"] cpu_rd_step_def first_frame_def rd_frames_def)
next
  case (Suc n)
  then have k: "k < frame_count len" by simp
  let ?b = "rd + of_nat k * 0x20000"
  have drop: "drop k (rd_frames rd len) = ?b # drop (Suc k) (rd_frames rd len)"
    using k by (simp add: rd_frames_def Cons_nth_drop_Suc [symmetric])
  obtain a s1 where a: "frame_affinity H ?b s = (a, s1)" "a = shr (typer (?b + 0x8)) 32"
    using frame_affinity_pure [OF assms(1), of ?b s] by (cases "frame_affinity H ?b s") auto
  have step: "cpu_rd_step H aff (rd + ucast len) (?b, s) = (if a = aff then Inl (?b, s1) else Inr (?b + 0x20000, s1))"
    using frame_addr_less [OF assms(2), of k] k a by (simp add: cpu_rd_step_def)
  have "?b + 0x20000 = rd + of_nat (Suc k) * 0x20000" by (simp add: algebra_simps)
  moreover have "\<exists>s'. tail_iter (cpu_rd_step H aff (rd + ucast len)) (rd + of_nat (Suc k) * 0x20000, s1) =
      Some (first_frame typer aff (drop (Suc k) (rd_frames rd len)), s')"
    by (rule Suc.hyps(1)) (use Suc.hyps(2) k in simp_all)
  ultimately have "\<exists>s'. tail_iter (cpu_rd_step H aff (rd + ucast len)) (?b + 0x20000, s1) =
      Some (first_frame typer aff (drop (Suc k) (rd_frames rd len)), s')" by metis
  with step a show ?case
    by (subst tail_iter.simps) (auto simp: drop first_frame_def)
qed

lemma access_tables [simp]:
  "g_gic_info_table (snd (gic_read H a s)) = g_gic_info_table s" "g_intr_handler (snd (gic_read H a s)) = g_intr_handler s"
  "g_gic_info_table (snd (gic_read64 H a s)) = g_gic_info_table s" "g_intr_handler (snd (gic_read64 H a s)) = g_intr_handler s"
  "g_gic_info_table (gic_write H a v s) = g_gic_info_table s" "g_intr_handler (gic_write H a v s) = g_intr_handler s"
  "g_gic_info_table (val_print l m x s) = g_gic_info_table s" "g_intr_handler (val_print l m x s) = g_intr_handler s"
  "bsa_gic_imp (snd (gic_read H a s)) = bsa_gic_imp s" "bsa_gic_imp (snd (gic_read64 H a s)) = bsa_gic_imp s"
  "bsa_gic_imp (gic_write H a v s) = bsa_gic_imp s" "bsa_gic_imp (val_print l m x s) = bsa_gic_imp s"
  "bsa_gic_imp (gic_not_available s) = bsa_gic_imp s"
  "g_gic_info_table (gic_not_available s) = g_gic_info_table s" "g_intr_handler (gic_not_available s) = g_intr_handler s"
  by (simp_all add: gic_read_def gic_read64_def gic_write_def val_print_def gic_not_available_def split_beta)

lemma same_tables_trans: "same_tables s s' \<Longrightarrow> same_tables s' s'' \<Longrightarrow> same_tables s s''"
  by (simp add: same_tables_def)

lemma base_tables:
  "val_get_gicd_base s = Some (b, s') \<Longrightarrow> same_tables s s'"
  "val_get_gicr_base n s = Some (b, l, s') \<Longrightarrow> same_tables s s'"
  by (auto simp: val_get_gicd_base_def val_get_gicr_base_def same_tables_def split: option.splits)

lemma cpu_rd_tables:
  assumes "CurrentCpuRDBase H rd len s = Some (b, s')"
  shows "same_tables s s'"
proof (cases "len = 0")
  case True
  with assms show ?thesis
    by (auto simp: CurrentCpuRDBase_def frame_affinity_def split_beta same_tables_def)
next
  case False
  let ?f = "cpu_rd_step H (CpuAffinity (MPIDR s)) (rd + ucast len)"
  have l: "tail_iter ?f (rd, s) = Some (b, s')"
    using assms False by (simp add: CurrentCpuRDBase_def)
  have keep: "same_tables s (snd y)" if "same_tables s (snd x)" "?f x = Inr y" for x y
    using that by (auto simp: cpu_rd_step_def frame_affinity_def split_beta same_tables_def split: if_splits)
  have "\<exists>t. same_tables s (snd t) \<and> ?f t = Inl (b, s')"
  proof (rule iter.loop_inv [OF l])
    show "same_tables s (snd (rd, s))" by (simp add: same_tables_def)
    show "same_tables s (snd y)" if "same_tables s (snd x)" "?f x = Inr y" for x y
      using that by (rule keep)
  qed
  then show ?thesis
    by (auto simp: cpu_rd_step_def frame_affinity_def split_beta same_tables_def split: if_splits)
qed

lemma v3_source_tables:
  assumes "v3_source H reg n s = Some s'"
  shows "same_tables s s'"
proof (cases "IsSpi n")
  case True
  with assms obtain b s1 where r: "val_get_gicd_base s = Some (b, s1)" "\<exists>a v. s' = gic_write H a v s1"
    by (auto simp: v3_source_def Let_def bind_eq_Some_conv)
  show ?thesis using base_tables(1) [OF r(1)] r(2) by (auto simp: same_tables_def)
next
  case False
  with assms obtain b len s1 base s2 where
    r: "val_get_gicr_base 0 s = Some (b, len, s1)" "CurrentCpuRDBase H b len s1 = Some (base, s2)"
    "same_tables s2 s'"
    by (fastforce simp: v3_source_def my_rd_base_def Let_def bind_eq_Some_conv same_tables_def split: if_splits)
  show ?thesis
    using base_tables(2) [OF r(1)] cpu_rd_tables [OF r(2)] r(3) by (simp add: same_tables_def)
qed

lemma val_print_console: "\<exists>c. val_print l m x s = s\<lparr>console := c\<rparr>"
proof (cases "g_print_level s \<le> l")
  case False
  then have "val_print l m x s = s\<lparr>console := console s\<rparr>" by (simp add: val_print_def)
  then show ?thesis ..
qed (auto simp: val_print_def)

lemma get_version:
  assumes "g_gic_info_table s = Some t" "is_v3 (hdr_gic_version t)"
  shows "\<exists>c. val_gic_get_info H GIC_INFO_VERSION s = Some (hdr_gic_version t, s\<lparr>console := c\<rparr>)"
  using assms val_print_console [of ACS_PRINT_INFO _ _ s]
  by (fastforce simp: val_gic_get_info_def is_v3_def)

lemma source_tables:
  assumes "g_gic_info_table s = Some t" "is_v3 (hdr_gic_version t)"
  shows "val_bsa_gic_disableInterruptSource H n s = Some s' \<Longrightarrow> same_tables s s'"
    "val_bsa_gic_enableInterruptSource H n s = Some s' \<Longrightarrow> same_tables s s'"
proof -
  obtain c where c: "val_gic_get_info H GIC_INFO_VERSION s = Some (hdr_gic_version t, s\<lparr>console := c\<rparr>)"
    using get_version [OF assms] by blast
  show "val_bsa_gic_disableInterruptSource H n s = Some s' \<Longrightarrow> same_tables s s'"
    "val_bsa_gic_enableInterruptSource H n s = Some s' \<Longrightarrow> same_tables s s'"
    using v3_source_tables [of H _ n "s\<lparr>console := c\<rparr>" s'] assms(2)
    by (auto simp: val_bsa_gic_disableInterruptSource_def val_bsa_gic_enableInterruptSource_def c
        v3_DisableInterruptSource_def v3_EnableInterruptSource_def same_tables_def)
qed

lemma max_intid_tables: "val_get_max_intid H s = Some (mx, s1) \<Longrightarrow> same_tables s s1"
  by (cases "val_get_gicd_base s")
    (auto simp: val_get_max_intid_def same_tables_def Let_def split_beta dest: base_tables(1))

lemma install_isr_tables:
  assumes "val_gic_install_isr H n isr s = Some (0, s')" "bsa_gic_imp s" "g_gic_info_table s = Some t"
    and "is_v3 (hdr_gic_version t)"
  shows "g_gic_info_table s' = Some t" "g_intr_handler s' = (g_intr_handler s)(n := Some isr)"
proof -
  obtain mx s1 where mx: "val_get_max_intid H s = Some (mx, s1)"
    using assms(1) by (auto simp: val_gic_install_isr_def bind_eq_Some_conv)
  note s1 = max_intid_tables [OF mx, unfolded same_tables_def]
  then have "val_gic_bsa_install_isr H n (Some isr) s1 = Some (0, s')"
    using assms(1,2) by (simp add: val_gic_install_isr_def mx ACS_STATUS_ERR_def split: if_splits)
  then obtain s2 where s2: "val_bsa_gic_disableInterruptSource H n s1 = Some s2"
    and e: "val_bsa_gic_enableInterruptSource H n (s2\<lparr>g_intr_handler := (g_intr_handler s2)(n := Some isr)\<rparr>) = Some s'"
    by (auto simp: val_gic_bsa_install_isr_def bind_eq_Some_conv)
  from source_tables(1) [OF _ assms(4) s2] s1 assms(3)
  have s2': "g_gic_info_table s2 = Some t" "g_intr_handler s2 = g_intr_handler s" by (simp_all add: same_tables_def)
  from source_tables(2) [OF _ assms(4) e] s2' show "g_gic_info_table s' = Some t" "g_intr_handler s' = (g_intr_handler s)(n := Some isr)"
    by (simp_all add: same_tables_def)
qed

lemma gic_example_install: "map_option fst (val_gic_install_isr gic_example_hw 40 ''isr'' gic_example) = Some 0"
  by code_simp

subsection \<open>Properties\<close>

text \<open>
  Property C28. \<open>CurrentCpuRDBase\<close> ends on every region that does not reach the end of the address space and is equal to
  a search through the list of the frames.  It looks for the low byte of \<open>MPIDR\<close> only: the masks for the other
  affinity levels are 0, so a PE with a nonzero \<open>Aff1\<close>, \<open>Aff2\<close> or \<open>Aff3\<close> does not find its own frame.
\<close>

theorem redistributor_search:
  assumes "\<And>a d. fst (bus_rd64 H a d) = typer a" "unat rd + unat len + 0x20000 \<le> 2 ^ 64" "len \<noteq> 0"
  shows "\<exists>s'. CurrentCpuRDBase H rd len s = Some (first_frame typer (MPIDR s AND 0xFF) (rd_frames rd len), s')"
  using frame_search [OF assms(1,2), where k = 0 and aff = "MPIDR s AND 0xFF" and s = s] assms(3)
  by (simp add: CurrentCpuRDBase_def CpuAffinity_low_byte)

theorem redistributor_search_witness:
  "\<exists>s'. CurrentCpuRDBase gic_example_hw 0x80A0000 0x40000 (gic_example\<lparr>MPIDR := 0x80000003\<rparr>) = Some (0x80A0000, s')"
  using redistributor_search [of gic_example_hw "\<lambda>a. 0x300000000" "0x80A0000" "0x40000" "gic_example\<lparr>MPIDR := 0x80000003\<rparr>"]
  by (simp add: gic_example_hw_def gic_example_def rd_frames_def frame_count_def first_frame_def acs.defs upt_rec)

text \<open>
  Property C27. After \<open>val_gic_install_isr\<close> on a GICv3, taking that interrupt acknowledges it, runs the installed handler
  once and ends the interrupt of the same number; the handlers of the other interrupts are the old ones.
\<close>

theorem irq_dispatch:
  assumes "val_gic_install_isr H n isr s = Some (0, s1)" "bsa_gic_imp s" "g_gic_info_table s = Some t"
    and "is_v3 (hdr_gic_version t)"
    and "sys_rd H SR_ICC_IAR1 (gic_dev s1) = (iar, d)" "ucast iar AND 0xFFFFFF = n"
    and "\<And>x. g_gic_info_table (run isr x) = g_gic_info_table x"
  shows "\<exists>c c'. default_irq_handler H run s1 =
    Some (v3_EndofInterrupt H n ((run isr (s1\<lparr>gic_dev := d, console := c\<rparr>))\<lparr>console := c'\<rparr>)) \<and>
    (\<forall>m. m \<noteq> n \<longrightarrow> g_intr_handler s1 m = g_intr_handler s m)"
proof -
  note tab = install_isr_tables [OF assms(1-4)]
  obtain c where c: "val_gic_get_info H GIC_INFO_VERSION s1 = Some (hdr_gic_version t, s1\<lparr>console := c\<rparr>)"
    using get_version [OF tab(1) assms(4)] by blast
  let ?x = "s1\<lparr>gic_dev := d, console := c\<rparr>"
  have "g_gic_info_table (run isr ?x) = Some t" using assms(7) tab(1) by simp
  then obtain c' where c': "val_gic_get_info H GIC_INFO_VERSION (run isr ?x) = Some (hdr_gic_version t, (run isr ?x)\<lparr>console := c'\<rparr>)"
    using get_version [OF _ assms(4)] by blast
  have ack: "val_bsa_gic_acknowledgeInterrupt H s1 = Some (ucast iar, ?x)"
    using assms(4,5) by (simp add: val_bsa_gic_acknowledgeInterrupt_def c v3_AcknowledgeInterrupt_def sysreg_read_def)
  have "default_irq_handler H run s1 = Some (v3_EndofInterrupt H n ((run isr ?x)\<lparr>console := c'\<rparr>))"
    using assms(4) by (simp add: default_irq_handler_def ack assms(6) tab(2) val_bsa_gic_endofInterrupt_def c')
  then show ?thesis using tab(2) by auto
qed

theorem irq_dispatch_witness:
  "\<exists>s1 s2. val_gic_install_isr gic_example_hw 40 ''isr'' gic_example = Some (0, s1) \<and>
     default_irq_handler gic_example_hw (\<lambda>h x. x) s1 = Some s2 \<and> (\<forall>m. m \<noteq> 40 \<longrightarrow> g_intr_handler s1 m = None)"
proof -
  obtain s1 where s1: "val_gic_install_isr gic_example_hw 40 ''isr'' gic_example = Some (0, s1)"
    using gic_example_install by auto
  have "g_gic_info_table gic_example = Some gic_example_table" "bsa_gic_imp gic_example" "is_v3 (hdr_gic_version gic_example_table)"
    "g_intr_handler gic_example = (\<lambda>n. None)" "sys_rd gic_example_hw SR_ICC_IAR1 (gic_dev s1) = (40, ())"
    by (simp_all add: gic_example_def gic_example_table_def gic_example_hw_def acs.defs gic_state.defs is_v3_def)
  with irq_dispatch [OF s1, of gic_example_table 40 "()" "\<lambda>h x. x"] s1 show ?thesis by auto
qed

end
