(* ===== verification/Acs_Devices.thy ===== *)
theory Acs_Devices
  imports Acs_Memory Acs_Pcie_Table
begin

text \<open>
  The tables and drivers of the smaller devices: \<^verbatim>\<open>val/src/acs_peripherals.c\<close>, \<open>acs_timer.c\<close>, \<open>acs_timer_support.c\<close>,
  \<open>acs_wd.c\<close>, \<open>acs_dma.c\<close>, \<open>acs_exerciser.c\<close> and the power functions of \<open>acs_wakeup.c\<close>.

  The parameter \<open>H\<close> is the machine: memory mapped accesses, the accessors of the timer registers (assembly) and
  the platform functions, on the device state \<open>'d\<close>; the state extends the globals of the suite by the device and the
  tables.  Arrays inside a table entry or behind a pointer are total functions of the index.  \<open>None\<close> is a loop
  that does not end or a read past a list without its last entry.
\<close>

subsection \<open>Peripherals\<close>

record PERIPHERAL_INFO_BLOCK =
  per_type :: u32
  per_bdf :: u32
  per_base0 :: u64
  per_base1 :: u64
  per_irq :: u32
  per_flags :: u32
  per_msi :: u32
  per_msix :: u32
  per_max_pasids :: u32

record PERIPHERAL_INFO_TABLE =
  num_usb :: u32
  num_sata :: u32
  num_uart :: u32
  num_all :: u32
  per_info :: "PERIPHERAL_INFO_BLOCK list"

definition PERIPHERAL_TYPE_USB :: u32 where "PERIPHERAL_TYPE_USB = 0x2000"
definition PERIPHERAL_TYPE_SATA :: u32 where "PERIPHERAL_TYPE_SATA = 0x2001"
definition PERIPHERAL_TYPE_UART :: u32 where "PERIPHERAL_TYPE_UART = 0x2002"
definition PERIPHERAL_TYPE_NONE :: u32 where "PERIPHERAL_TYPE_NONE = 0x2004"

datatype PERIPHERAL_INFO_e = NUM_USB | NUM_SATA | NUM_UART | NUM_ALL | USB_BASE0 | USB_FLAGS | USB_GSIV | USB_BDF
  | SATA_BASE0 | SATA_BASE1 | SATA_FLAGS | SATA_GSIV | SATA_BDF | UART_BASE0 | UART_GSIV | UART_FLAGS
  | ANY_FLAGS | ANY_GSIV | ANY_BDF | MAX_PASIDS

fun peripheral_entry_loop :: "u32 \<Rightarrow> u32 \<Rightarrow> u32 \<Rightarrow> PERIPHERAL_INFO_BLOCK list \<Rightarrow> u32 option" where
  "peripheral_entry_loop ty inst i [] = None"
| "peripheral_entry_loop ty inst i (e # es) =
     (if per_type e = 0xFF then Some 0xFFFF
      else if ty = PERIPHERAL_TYPE_NONE \<or> per_type e = ty
      then (if inst = 0 then Some i else peripheral_entry_loop ty (inst - 1) (i + 1) es)
      else peripheral_entry_loop ty inst (i + 1) es)"

definition val_peripheral_get_entry_index :: "PERIPHERAL_INFO_TABLE \<Rightarrow> u32 \<Rightarrow> u32 \<Rightarrow> u32 option" where
  "val_peripheral_get_entry_index t ty inst = peripheral_entry_loop ty inst 0 (per_info t)"

definition peripheral_field :: "PERIPHERAL_INFO_TABLE \<Rightarrow> u32 \<Rightarrow> u32 \<Rightarrow> (PERIPHERAL_INFO_BLOCK \<Rightarrow> u64) \<Rightarrow> u64 option" where
  "peripheral_field t ty inst f = do {
     i \<leftarrow> val_peripheral_get_entry_index t ty inst;
     if i \<noteq> 0xFFFF then map_option f (nth_opt (per_info t) (unat i)) else Some 0 }"

definition val_peripheral_get_info :: "PERIPHERAL_INFO_TABLE option \<Rightarrow> PERIPHERAL_INFO_e \<Rightarrow> u32 \<Rightarrow> u64 option" where
  "val_peripheral_get_info g info_type inst =
     (case g of
        None \<Rightarrow> Some 0
      | Some t \<Rightarrow>
          (case info_type of
             NUM_USB \<Rightarrow> Some (ucast (num_usb t))
           | NUM_SATA \<Rightarrow> Some (ucast (num_sata t))
           | NUM_UART \<Rightarrow> Some (ucast (num_uart t))
           | NUM_ALL \<Rightarrow> Some (ucast (num_all t))
           | USB_BASE0 \<Rightarrow> peripheral_field t PERIPHERAL_TYPE_USB inst per_base0
           | USB_FLAGS \<Rightarrow> peripheral_field t PERIPHERAL_TYPE_USB inst (\<lambda>e. ucast (per_flags e))
           | USB_GSIV \<Rightarrow> peripheral_field t PERIPHERAL_TYPE_USB inst (\<lambda>e. ucast (per_irq e))
           | USB_BDF \<Rightarrow> peripheral_field t PERIPHERAL_TYPE_USB inst (\<lambda>e. ucast (per_bdf e))
           | SATA_BASE0 \<Rightarrow> peripheral_field t PERIPHERAL_TYPE_SATA inst per_base0
           | SATA_BASE1 \<Rightarrow> peripheral_field t PERIPHERAL_TYPE_SATA inst per_base1
           | SATA_FLAGS \<Rightarrow> peripheral_field t PERIPHERAL_TYPE_SATA inst (\<lambda>e. ucast (per_flags e))
           | SATA_GSIV \<Rightarrow> peripheral_field t PERIPHERAL_TYPE_SATA inst (\<lambda>e. ucast (per_irq e))
           | SATA_BDF \<Rightarrow> peripheral_field t PERIPHERAL_TYPE_SATA inst (\<lambda>e. ucast (per_bdf e))
           | UART_BASE0 \<Rightarrow> peripheral_field t PERIPHERAL_TYPE_UART inst per_base0
           | UART_GSIV \<Rightarrow> peripheral_field t PERIPHERAL_TYPE_UART inst (\<lambda>e. ucast (per_irq e))
           | UART_FLAGS \<Rightarrow> peripheral_field t PERIPHERAL_TYPE_UART inst (\<lambda>e. ucast (per_flags e))
           | ANY_FLAGS \<Rightarrow> peripheral_field t PERIPHERAL_TYPE_NONE inst (\<lambda>e. ucast (per_flags e))
           | ANY_GSIV \<Rightarrow> peripheral_field t PERIPHERAL_TYPE_NONE inst (\<lambda>e. ucast (per_irq e))
           | ANY_BDF \<Rightarrow> peripheral_field t PERIPHERAL_TYPE_NONE inst (\<lambda>e. ucast (per_bdf e))
           | MAX_PASIDS \<Rightarrow> peripheral_field t PERIPHERAL_TYPE_NONE inst (\<lambda>e. ucast (per_max_pasids e))))"

subsection \<open>Timer tables\<close>

record TIMER_INFO_HDR =
  s_el1_timer_flag :: u32
  ns_el1_timer_flag :: u32
  el2_timer_flag :: u32
  el2_virt_timer_flag :: u32
  s_el1_timer_gsiv :: u32
  ns_el1_timer_gsiv :: u32
  el2_timer_gsiv :: u32
  virtual_timer_flag :: u32
  virtual_timer_gsiv :: u32
  el2_virt_timer_gsiv :: u32
  num_platform_timer :: u32
  num_watchdog :: u32
  sys_timer_status :: u32

record TIMER_INFO_GTBLOCK =
  gt_type :: u32
  timer_count :: u32
  block_cntl_base :: u64
  frame_num :: "u32 \<Rightarrow> u8"
  GtCntBase :: "u32 \<Rightarrow> u64"
  GtCntEl0Base :: "u32 \<Rightarrow> u64"
  gt_gsiv :: "u32 \<Rightarrow> u32"
  virt_gsiv :: "u32 \<Rightarrow> u32"
  gt_flags :: "u32 \<Rightarrow> u32"

record TIMER_INFO_TABLE =
  timer_hdr :: TIMER_INFO_HDR
  gt_info :: "u32 \<Rightarrow> TIMER_INFO_GTBLOCK"

datatype TIMER_INFO_e = TIMER_INFO_CNTFREQ | TIMER_INFO_PHY_EL1_INTID | TIMER_INFO_PHY_EL1_FLAGS | TIMER_INFO_VIR_EL1_INTID
  | TIMER_INFO_VIR_EL1_FLAGS | TIMER_INFO_PHY_EL2_INTID | TIMER_INFO_PHY_EL2_FLAGS | TIMER_INFO_VIR_EL2_INTID
  | TIMER_INFO_VIR_EL2_FLAGS | TIMER_INFO_NUM_PLATFORM_TIMERS | TIMER_INFO_IS_PLATFORM_TIMER_SECURE
  | TIMER_INFO_SYS_CNTL_BASE | TIMER_INFO_SYS_CNT_BASE_N | TIMER_INFO_FRAME_NUM | TIMER_INFO_SYS_INTID
  | TIMER_INFO_SYS_TIMER_STATUS

text \<open>One round of the \<open>while\<close> loop on \<open>(instance, *block, *index)\<close>.\<close>

definition timer_index_step :: "TIMER_INFO_TABLE \<Rightarrow> u64 \<times> u32 \<times> u32 \<Rightarrow> (u32 \<times> u32) + (u64 \<times> u32 \<times> u32)" where
  "timer_index_step t = (\<lambda>(inst, block, index).
     let c = ucast (timer_count (gt_info t block))
     in if inst > c then Inr (inst - c, block + 1, ucast (inst - c)) else Inl (block, index))"

definition val_platform_timer_get_entry_index :: "TIMER_INFO_TABLE \<Rightarrow> u64 \<Rightarrow> u32 \<Rightarrow> (u32 \<times> u32) option" where
  "val_platform_timer_get_entry_index t inst index0 =
     (if inst > ucast (num_platform_timer (timer_hdr t)) then Some (0xFFFF, index0)
      else tail_iter (timer_index_step t) (inst, 0, ucast inst))"

text \<open>
  A case of \<open>val_timer_get_info\<close> that looks up a block: when nothing is found, control falls through to the
  next case \<open>k\<close>, which is given the index variable.
\<close>

definition block_case :: "TIMER_INFO_TABLE \<Rightarrow> u64 \<Rightarrow> (TIMER_INFO_GTBLOCK \<Rightarrow> u32 \<Rightarrow> u64) \<Rightarrow> (u32 \<Rightarrow> u64 option) \<Rightarrow> u32 \<Rightarrow> u64 option" where
  "block_case t inst f k index0 = do {
     (block, index) \<leftarrow> val_platform_timer_get_entry_index t inst index0;
     if block \<noteq> 0xFFFF then Some (f (gt_info t block) index) else k index }"

definition sys_intid_case :: "TIMER_INFO_TABLE \<Rightarrow> u64 \<Rightarrow> u32 \<Rightarrow> u64 option" where
  "sys_intid_case t inst = block_case t inst (\<lambda>b i. ucast (gt_gsiv b i)) (\<lambda>_. Some (ucast (ns_el1_timer_flag (timer_hdr t))))"

definition frame_num_case :: "TIMER_INFO_TABLE \<Rightarrow> u64 \<Rightarrow> u32 \<Rightarrow> u64 option" where
  "frame_num_case t inst = block_case t inst (\<lambda>b i. ucast (frame_num b i)) (sys_intid_case t inst)"

definition cnt_base_n_case :: "TIMER_INFO_TABLE \<Rightarrow> u64 \<Rightarrow> u32 \<Rightarrow> u64 option" where
  "cnt_base_n_case t inst = block_case t inst GtCntBase (frame_num_case t inst)"

definition cntl_base_case :: "TIMER_INFO_TABLE \<Rightarrow> u64 \<Rightarrow> u32 \<Rightarrow> u64 option" where
  "cntl_base_case t inst = block_case t inst (\<lambda>b i. block_cntl_base b) (cnt_base_n_case t inst)"

definition secure_case :: "TIMER_INFO_TABLE \<Rightarrow> u64 \<Rightarrow> u32 \<Rightarrow> u64 option" where
  "secure_case t inst = block_case t inst (\<lambda>b i. ucast (shr (gt_flags b i) 16 AND 1)) (cntl_base_case t inst)"

subsection \<open>Machine and state\<close>

datatype ARM_ARCH_TIMER_REGS = CntFrq | CntPct | CntkCtl | CntpTval | CntpCtl | CntvTval | CntvCtl | CntvCt | CntpCval | CntvCval
  | CntvOff | CnthCtl | CnthpTval | CnthpCtl | CnthpCval | CnthvTval | CnthvCtl | CnthvCval | RegMaximum

fun timer_reg_num :: "ARM_ARCH_TIMER_REGS \<Rightarrow> u64" where
  "timer_reg_num CntFrq = 0" | "timer_reg_num CntPct = 1" | "timer_reg_num CntkCtl = 2" | "timer_reg_num CntpTval = 3"
| "timer_reg_num CntpCtl = 4" | "timer_reg_num CntvTval = 5" | "timer_reg_num CntvCtl = 6" | "timer_reg_num CntvCt = 7"
| "timer_reg_num CntpCval = 8" | "timer_reg_num CntvCval = 9" | "timer_reg_num CntvOff = 10" | "timer_reg_num CnthCtl = 11"
| "timer_reg_num CnthpTval = 12" | "timer_reg_num CnthpCtl = 13" | "timer_reg_num CnthpCval = 14" | "timer_reg_num CnthvTval = 15"
| "timer_reg_num CnthvCtl = 16" | "timer_reg_num CnthvCval = 17" | "timer_reg_num RegMaximum = 18"

record WD_INFO_BLOCK =
  wd_ctrl_base :: u64
  wd_refresh_base :: u64
  wd_gsiv :: u32
  wd_flags :: u32

record WD_INFO_TABLE =
  num_wd :: u32
  wd_info :: "u32 \<Rightarrow> WD_INFO_BLOCK"

datatype WD_INFO_TYPE_e = WD_INFO_COUNT | WD_INFO_CTRL_BASE | WD_INFO_REFRESH_BASE | WD_INFO_GSIV | WD_INFO_ISSECURE | WD_INFO_IS_EDGE

record DMA_INFO_BLOCK =
  dma_type :: u32
  dma_target :: u64
  dma_port :: u64
  dma_host :: u64
  dma_flags :: u32

record DMA_INFO_TABLE =
  num_dma_ctrls :: u32
  dma_info :: "u32 \<Rightarrow> DMA_INFO_BLOCK"

datatype DMA_INFO_e = DMA_NUM_CTRL | DMA_HOST_INFO | DMA_PORT_INFO | DMA_TARGET_INFO | DMA_HOST_COHERENT
  | DMA_HOST_IOMMU_ATTACHED | DMA_HOST_PCI

record EXERCISER_INFO_BLOCK =
  ex_bdf :: u32
  initialized :: u32

record EXERCISER_INFO_TABLE =
  num_exerciser :: u32
  e_info :: "u32 \<Rightarrow> EXERCISER_INFO_BLOCK"

record 'd dev_hw =
  dev_rd32 :: "u64 \<Rightarrow> 'd \<Rightarrow> u32 \<times> 'd"
  dev_wr32 :: "u64 \<Rightarrow> u32 \<Rightarrow> 'd \<Rightarrow> 'd"
  timer_rd :: "ARM_ARCH_TIMER_REGS \<Rightarrow> 'd \<Rightarrow> u64 \<times> 'd"
  timer_wr :: "ARM_ARCH_TIMER_REGS \<Rightarrow> u64 \<Rightarrow> 'd \<Rightarrow> 'd"
  pal_timer_table :: TIMER_INFO_TABLE
  pal_wd_table :: WD_INFO_TABLE
  pal_peripheral_table :: PERIPHERAL_INFO_TABLE
  pal_dma_table :: DMA_INFO_TABLE
  pal_dma_start_from :: "u64 \<Rightarrow> u32 \<Rightarrow> u64 \<Rightarrow> u64 \<Rightarrow> 'd \<Rightarrow> 'd"
  pal_dma_start_to :: "u64 \<Rightarrow> u32 \<Rightarrow> u64 \<Rightarrow> u64 \<Rightarrow> u32 \<Rightarrow> 'd \<Rightarrow> 'd"
  pal_is_bdf_exerciser :: "u32 \<Rightarrow> 'd \<Rightarrow> bool"
  pal_exerciser_state :: "u32 \<Rightarrow> 'd \<Rightarrow> u32 \<times> u32"
  pal_smc :: "u64 \<Rightarrow> u64 \<Rightarrow> u64 \<Rightarrow> u64 \<Rightarrow> 'd \<Rightarrow> 'd"
  call_wfi :: "'d \<Rightarrow> 'd"

record 'd dev_state = acs +
  dev_hw_state :: 'd
  g_timer_info_table :: "TIMER_INFO_TABLE option"
  g_wd_info_table :: "WD_INFO_TABLE option"
  g_peripheral_info_table :: "PERIPHERAL_INFO_TABLE option"
  g_dma_info_table :: "DMA_INFO_TABLE option"
  g_exercier_info_table :: EXERCISER_INFO_TABLE

definition dev_read :: "'d dev_hw \<Rightarrow> u64 \<Rightarrow> 'd dev_state \<Rightarrow> u32 \<times> 'd dev_state" where
  "dev_read H a s = (case dev_rd32 H a (dev_hw_state s) of (v, d) \<Rightarrow> (v, s\<lparr>dev_hw_state := d\<rparr>))"

definition dev_write :: "'d dev_hw \<Rightarrow> u64 \<Rightarrow> u32 \<Rightarrow> 'd dev_state \<Rightarrow> 'd dev_state" where
  "dev_write H a v s = s\<lparr>dev_hw_state := dev_wr32 H a v (dev_hw_state s)\<rparr>"

definition pal_print :: "string \<Rightarrow> u64 \<Rightarrow> 'x acs_scheme \<Rightarrow> 'x acs_scheme" where
  "pal_print str data s = s\<lparr>console := console s @ [(str, data)]\<rparr>"

definition val_peripheral_create_info_table :: "'d dev_hw \<Rightarrow> 'd dev_state \<Rightarrow> 'd dev_state" where
  "val_peripheral_create_info_table H s =
     (let t = pal_peripheral_table H; s1 = s\<lparr>g_peripheral_info_table := Some t\<rparr>;
          s2 = val_print ACS_PRINT_TEST ('' Peripheral: Num of USB controllers   :    %d '' @ nl) (ucast (num_usb t)) s1;
          s3 = val_print ACS_PRINT_TEST ('' Peripheral: Num of SATA controllers  :    %d '' @ nl) (ucast (num_sata t)) s2
      in val_print ACS_PRINT_TEST ('' Peripheral: Num of UART controllers  :    %d '' @ nl) (ucast (num_uart t)) s3)"

subsection \<open>Timers\<close>

definition ArmArchTimerReadReg :: "'d dev_hw \<Rightarrow> ARM_ARCH_TIMER_REGS \<Rightarrow> 'd dev_state \<Rightarrow> u64 \<times> 'd dev_state" where
  "ArmArchTimerReadReg H r s =
     (case r of
        CnthCtl \<Rightarrow> (0xFFFFFFFF, pal_print (''The register is related to Hypervisor Mode. Can't perform requested operation'' @ nl @ '' '') 0 s)
      | CnthpCval \<Rightarrow> (0xFFFFFFFF, pal_print (''The register is related to Hypervisor Mode. Can't perform requested operation'' @ nl @ '' '') 0 s)
      | CnthvCval \<Rightarrow> (0xFFFFFFFF, pal_print (''Unknown ARM Generic Timer register %x. '' @ nl @ '' '') (timer_reg_num r) s)
      | RegMaximum \<Rightarrow> (0xFFFFFFFF, pal_print (''Unknown ARM Generic Timer register %x. '' @ nl @ '' '') (timer_reg_num r) s)
      | _ \<Rightarrow> (case timer_rd H r (dev_hw_state s) of (v, d) \<Rightarrow> (v, s\<lparr>dev_hw_state := d\<rparr>)))"

definition ArmArchTimerWriteReg :: "'d dev_hw \<Rightarrow> ARM_ARCH_TIMER_REGS \<Rightarrow> u64 \<Rightarrow> 'd dev_state \<Rightarrow> 'd dev_state" where
  "ArmArchTimerWriteReg H r v s =
     (case r of
        CntPct \<Rightarrow> pal_print (''Can't write to Read Only Register: CNTPCT '' @ nl) 0 s
      | CntvCt \<Rightarrow> pal_print (''Can't write to Read Only Register: CNTVCT '' @ nl) 0 s
      | CnthCtl \<Rightarrow> pal_print (''The register is related to Hypervisor Mode. Can't perform requested operation'' @ nl @ '' '') 0 s
      | CnthpCval \<Rightarrow> pal_print (''The register is related to Hypervisor Mode. Can't perform requested operation'' @ nl @ '' '') 0 s
      | CntFrq \<Rightarrow> pal_print (''Unknown ARM Generic Timer register %x. '' @ nl @ '' '') (timer_reg_num r) s
      | CnthvCval \<Rightarrow> pal_print (''Unknown ARM Generic Timer register %x. '' @ nl @ '' '') (timer_reg_num r) s
      | RegMaximum \<Rightarrow> pal_print (''Unknown ARM Generic Timer register %x. '' @ nl @ '' '') (timer_reg_num r) s
      | _ \<Rightarrow> s\<lparr>dev_hw_state := timer_wr H r v (dev_hw_state s)\<rparr>)"

definition val_timer_get_info :: "'d dev_hw \<Rightarrow> u32 \<Rightarrow> TIMER_INFO_e \<Rightarrow> u64 \<Rightarrow> 'd dev_state \<Rightarrow> (u64 \<times> 'd dev_state) option" where
  "val_timer_get_info H index0 info_type inst s =
     (case g_timer_info_table s of
        None \<Rightarrow> Some (0, s)
      | Some t \<Rightarrow>
          let h = timer_hdr t; pure = map_option (\<lambda>v. (v, s))
          in case info_type of
               TIMER_INFO_CNTFREQ \<Rightarrow> Some (ArmArchTimerReadReg H CntFrq s)
             | TIMER_INFO_PHY_EL1_INTID \<Rightarrow> Some (ucast (ns_el1_timer_gsiv h), s)
             | TIMER_INFO_VIR_EL1_INTID \<Rightarrow> Some (ucast (virtual_timer_gsiv h), s)
             | TIMER_INFO_PHY_EL2_INTID \<Rightarrow> Some (ucast (el2_timer_gsiv h), s)
             | TIMER_INFO_VIR_EL2_INTID \<Rightarrow> Some (ucast (el2_virt_timer_gsiv h), s)
             | TIMER_INFO_NUM_PLATFORM_TIMERS \<Rightarrow> Some (ucast (num_platform_timer h), s)
             | TIMER_INFO_IS_PLATFORM_TIMER_SECURE \<Rightarrow> pure (secure_case t inst index0)
             | TIMER_INFO_SYS_CNTL_BASE \<Rightarrow> pure (cntl_base_case t inst index0)
             | TIMER_INFO_SYS_CNT_BASE_N \<Rightarrow> pure (cnt_base_n_case t inst index0)
             | TIMER_INFO_FRAME_NUM \<Rightarrow> pure (frame_num_case t inst index0)
             | TIMER_INFO_SYS_INTID \<Rightarrow> pure (sys_intid_case t inst index0)
             | TIMER_INFO_PHY_EL1_FLAGS \<Rightarrow> Some (ucast (ns_el1_timer_flag h), s)
             | TIMER_INFO_VIR_EL1_FLAGS \<Rightarrow> Some (ucast (virtual_timer_flag h), s)
             | TIMER_INFO_PHY_EL2_FLAGS \<Rightarrow> Some (ucast (el2_timer_flag h), s)
             | TIMER_INFO_SYS_TIMER_STATUS \<Rightarrow> Some (ucast (sys_timer_status h), s)
             | TIMER_INFO_VIR_EL2_FLAGS \<Rightarrow> Some (0, s))"

definition ArmGenericTimerEnableTimer :: "'d dev_hw \<Rightarrow> ARM_ARCH_TIMER_REGS \<Rightarrow> 'd dev_state \<Rightarrow> 'd dev_state" where
  "ArmGenericTimerEnableTimer H r s =
     (case ArmArchTimerReadReg H r s of (v, s1) \<Rightarrow> ArmArchTimerWriteReg H r ((v AND NOT (shl 1 1)) OR shl 1 0) s1)"

definition ArmGenericTimerDisableTimer :: "'d dev_hw \<Rightarrow> ARM_ARCH_TIMER_REGS \<Rightarrow> 'd dev_state \<Rightarrow> 'd dev_state" where
  "ArmGenericTimerDisableTimer H r s =
     (case ArmArchTimerReadReg H r s of (v, s1) \<Rightarrow> ArmArchTimerWriteReg H r ((v OR shl 1 1) AND NOT (shl 1 0)) s1)"

definition set_timer :: "'d dev_hw \<Rightarrow> ARM_ARCH_TIMER_REGS \<Rightarrow> ARM_ARCH_TIMER_REGS \<Rightarrow> u64 \<Rightarrow> 'd dev_state \<Rightarrow> 'd dev_state" where
  "set_timer H ctl tval timeout s =
     (if timeout \<noteq> 0
      then ArmGenericTimerEnableTimer H ctl (ArmArchTimerWriteReg H tval timeout (ArmGenericTimerDisableTimer H ctl s))
      else ArmGenericTimerDisableTimer H ctl s)"

definition val_timer_set_phy_el1 :: "'d dev_hw \<Rightarrow> u64 \<Rightarrow> 'd dev_state \<Rightarrow> 'd dev_state" where
  "val_timer_set_phy_el1 H timeout s = set_timer H CntpCtl CntpTval timeout s"

definition val_timer_set_vir_el1 :: "'d dev_hw \<Rightarrow> u64 \<Rightarrow> 'd dev_state \<Rightarrow> 'd dev_state" where
  "val_timer_set_vir_el1 H timeout s = set_timer H CntvCtl CntvTval timeout s"

definition val_timer_set_phy_el2 :: "'d dev_hw \<Rightarrow> u64 \<Rightarrow> 'd dev_state \<Rightarrow> 'd dev_state" where
  "val_timer_set_phy_el2 H timeout s = set_timer H CnthpCtl CnthpTval timeout s"

definition val_timer_set_vir_el2 :: "'d dev_hw \<Rightarrow> u64 \<Rightarrow> 'd dev_state \<Rightarrow> 'd dev_state" where
  "val_timer_set_vir_el2 H timeout s = set_timer H CnthvCtl CnthvTval timeout s"

definition val_get_phy_el2_timer_count :: "'d dev_hw \<Rightarrow> 'd dev_state \<Rightarrow> u64 \<times> 'd dev_state" where
  "val_get_phy_el2_timer_count H s = ArmArchTimerReadReg H CnthpTval s"

definition val_timer_create_info_table :: "'d dev_hw \<Rightarrow> bool \<Rightarrow> 'd dev_state \<Rightarrow> 'd dev_state" where
  "val_timer_create_info_table H null s =
     (if null then val_print ACS_PRINT_ERR (''Input for Create Info table cannot be NULL '' @ nl) 0 s
      else
        let t = pal_timer_table H; s1 = val_timer_set_phy_el1 H 0 (s\<lparr>g_timer_info_table := Some t\<rparr>)
        in val_print ACS_PRINT_TEST ('' TIMER_INFO: Number of system timers  : %4d '' @ nl) (ucast (num_platform_timer (timer_hdr t))) s1)"

definition val_timer_set_system_timer :: "'d dev_hw \<Rightarrow> u64 \<Rightarrow> u32 \<Rightarrow> 'd dev_state \<Rightarrow> 'd dev_state" where
  "val_timer_set_system_timer H cnt_base_n timeout s = dev_write H (cnt_base_n + 0x2C) 1 (dev_write H (cnt_base_n + 0x28) timeout s)"

definition val_timer_disable_system_timer :: "'d dev_hw \<Rightarrow> u64 \<Rightarrow> 'd dev_state \<Rightarrow> 'd dev_state" where
  "val_timer_disable_system_timer H cnt_base_n s = dev_write H (cnt_base_n + 0x2C) 0 s"

definition val_timer_skip_if_cntbase_access_not_allowed :: "'d dev_hw \<Rightarrow> u32 \<Rightarrow> u64 \<Rightarrow> 'd dev_state \<Rightarrow> (u32 \<times> 'd dev_state) option" where
  "val_timer_skip_if_cntbase_access_not_allowed H index0 index s = do {
     (cnt_ctl_base, s1) \<leftarrow> val_timer_get_info H index0 TIMER_INFO_SYS_CNTL_BASE index s;
     (fnum, s2) \<leftarrow> val_timer_get_info H index0 TIMER_INFO_FRAME_NUM index s1;
     let reg = cnt_ctl_base + 0x40 + ucast ((ucast fnum :: 32 word) * 4);
     Some (if cnt_ctl_base \<noteq> 0
           then
             let (data, s3) = dev_read H reg s2
             in if data AND 1 = 1 then (0, s3)
                else
                  let s4 = dev_write H reg (data OR 1) s3; (data', s5) = dev_read H reg s4
                  in (if data' AND 1 = 1 then 0 else ACS_STATUS_SKIP, s5)
           else (ACS_STATUS_SKIP, s2)) }"

subsection \<open>Watchdogs\<close>

definition val_wd_get_info :: "u32 \<Rightarrow> WD_INFO_TYPE_e \<Rightarrow> 'd dev_state \<Rightarrow> u64" where
  "val_wd_get_info index info_type s =
     (case g_wd_info_table s of
        None \<Rightarrow> 0
      | Some t \<Rightarrow>
          (case info_type of
             WD_INFO_COUNT \<Rightarrow> ucast (num_wd t)
           | WD_INFO_CTRL_BASE \<Rightarrow> wd_ctrl_base (wd_info t index)
           | WD_INFO_REFRESH_BASE \<Rightarrow> wd_refresh_base (wd_info t index)
           | WD_INFO_GSIV \<Rightarrow> ucast (wd_gsiv (wd_info t index))
           | WD_INFO_ISSECURE \<Rightarrow> ucast (shr (wd_flags (wd_info t index)) 2 AND 1)
           | WD_INFO_IS_EDGE \<Rightarrow> ucast (wd_flags (wd_info t index) AND 1)))"

definition val_wd_create_info_table :: "'d dev_hw \<Rightarrow> bool \<Rightarrow> 'd dev_state \<Rightarrow> 'd dev_state" where
  "val_wd_create_info_table H null s =
     (if null then val_print ACS_PRINT_ERR (''Input for Create Info table cannot be NULL '' @ nl) 0 s
      else val_print ACS_PRINT_TEST ('' WATCHDOG_INFO: Number of Watchdogs   : %4d '' @ nl) (ucast (num_wd (pal_wd_table H)))
             (s\<lparr>g_wd_info_table := Some (pal_wd_table H)\<rparr>))"

text \<open>The accesses through \<open>g_wd_info_table\<close> without a test; a null pointer is \<open>None\<close>.\<close>

definition val_wd_enable :: "'d dev_hw \<Rightarrow> u32 \<Rightarrow> 'd dev_state \<Rightarrow> 'd dev_state option" where
  "val_wd_enable H index s = do { t \<leftarrow> g_wd_info_table s; Some (dev_write H (wd_ctrl_base (wd_info t index) + 0x0) 1 s) }"

definition val_wd_disable :: "'d dev_hw \<Rightarrow> u32 \<Rightarrow> 'd dev_state \<Rightarrow> 'd dev_state option" where
  "val_wd_disable H index s = do { t \<leftarrow> g_wd_info_table s; Some (dev_write H (wd_ctrl_base (wd_info t index) + 0x0) 0 s) }"

text \<open>\<open>ctrl_base\<close> is a 32-bit local.\<close>

definition val_wd_set_ws0 :: "'d dev_hw \<Rightarrow> u32 \<Rightarrow> u32 \<Rightarrow> 'd dev_state \<Rightarrow> (u32 \<times> 'd dev_state) option" where
  "val_wd_set_ws0 H index timeout s =
     (if timeout = 0 then map_option (\<lambda>s'. (0, s')) (val_wd_disable H index s)
      else do {
        let ctrl_base = val_wd_get_info index WD_INFO_CTRL_BASE s AND 0xFFFFFFFF;
        let (iidr, s1) = dev_read H (ctrl_base + 0xFCC) s;
        let data = VAL_EXTRACT_BITS iidr 16 19;
        (counter_freq, s2) \<leftarrow> val_timer_get_info H 0 TIMER_INFO_CNTFREQ 0 s1;
        let ticks = counter_freq * ucast timeout;
        if data = 0 \<and> shr ticks 32 \<noteq> 0
        then Some (1, val_print ACS_PRINT_ERR (nl @ ''Counter frequency value exceeded'') 0 s2)
        else do {
          t \<leftarrow> g_wd_info_table s2;
          let base = wd_ctrl_base (wd_info t index);
          let s3 = dev_write H (base + 8) (ucast ticks) s2;
          let s4 = (if data = 1 then dev_write H (base + 12) (ucast (shr ticks 32)) s3 else s3);
          s5 \<leftarrow> val_wd_enable H index s4;
          Some (0, s5) } })"

subsection \<open>DMA controllers\<close>

fun dma_info_num :: "DMA_INFO_e \<Rightarrow> u64" where
  "dma_info_num DMA_NUM_CTRL = 1" | "dma_info_num DMA_HOST_INFO = 2" | "dma_info_num DMA_PORT_INFO = 3"
| "dma_info_num DMA_TARGET_INFO = 4" | "dma_info_num DMA_HOST_COHERENT = 5" | "dma_info_num DMA_HOST_IOMMU_ATTACHED = 6"
| "dma_info_num DMA_HOST_PCI = 7"

definition val_dma_get_info :: "DMA_INFO_e \<Rightarrow> u32 \<Rightarrow> 'd dev_state \<Rightarrow> u64 \<times> 'd dev_state" where
  "val_dma_get_info ty index s =
     (case g_dma_info_table s of
        None \<Rightarrow> (0, val_print ACS_PRINT_ERR (''GET_DMA_INFO: DMA info table is not created '' @ nl) 0 s)
      | Some t \<Rightarrow>
          if index > num_dma_ctrls t
          then (0, val_print ACS_PRINT_ERR (''GET_DMA_INFO: Index (%d) is greater than num of DMA '' @ nl) (ucast index) s)
          else
            let b = dma_info t index
            in (case ty of
                  DMA_NUM_CTRL \<Rightarrow> ucast (num_dma_ctrls t)
                | DMA_HOST_INFO \<Rightarrow> dma_host b
                | DMA_PORT_INFO \<Rightarrow> dma_port b
                | DMA_TARGET_INFO \<Rightarrow> dma_target b
                | DMA_HOST_COHERENT \<Rightarrow> ucast (dma_flags b) AND 0xF
                | DMA_HOST_IOMMU_ATTACHED \<Rightarrow> ucast (dma_flags b) AND 0xF0
                | DMA_HOST_PCI \<Rightarrow> ucast (dma_flags b) AND 0xF00, s))"

definition val_dma_create_info_table :: "'d dev_hw \<Rightarrow> 'd dev_state \<Rightarrow> 'd dev_state" where
  "val_dma_create_info_table H s =
     (case val_dma_get_info DMA_NUM_CTRL 0 (s\<lparr>g_dma_info_table := Some (pal_dma_table H)\<rparr>) of (n, s1) \<Rightarrow>
        val_print ACS_PRINT_TEST ('' DMA_INFO: Number of DMA CTRL in PCIe :    %x '' @ nl) n s1)"

definition val_dma_start_from_device :: "'d dev_hw \<Rightarrow> u64 \<Rightarrow> u32 \<Rightarrow> u32 \<Rightarrow> 'd dev_state \<Rightarrow> u32 \<times> 'd dev_state" where
  "val_dma_start_from_device H buffer len ctrl_index s =
     (let (host, s1) = val_dma_get_info DMA_HOST_INFO ctrl_index s;
          (target, s2) = val_dma_get_info DMA_TARGET_INFO ctrl_index s1
      in (0, s2\<lparr>dev_hw_state := pal_dma_start_from H buffer len host target (dev_hw_state s2)\<rparr>))"

definition val_dma_start_to_device :: "'d dev_hw \<Rightarrow> u64 \<Rightarrow> u32 \<Rightarrow> u32 \<Rightarrow> 'd dev_state \<Rightarrow> u32 \<times> 'd dev_state" where
  "val_dma_start_to_device H buffer len ctrl_index s =
     (let (host, s1) = val_dma_get_info DMA_HOST_INFO ctrl_index s;
          (target, s2) = val_dma_get_info DMA_TARGET_INFO ctrl_index s1
      in (0, s2\<lparr>dev_hw_state := pal_dma_start_to H buffer len host target 10000 (dev_hw_state s2)\<rparr>))"

subsection \<open>Exercisers\<close>

fun exerciser_loop :: "'d dev_hw \<Rightarrow> 'd pcie_env \<Rightarrow> pcie_device_bdf_table \<Rightarrow> nat \<Rightarrow> 'd dev_state \<Rightarrow> bool \<times> 'd dev_state" where
  "exerciser_loop H E t 0 s = (True, s)"
| "exerciser_loop H E t (Suc n) s =
     (let Bdf = attr_bdf (device t (of_nat n))
      in if fst (val_pcie_read_cfg E (dev_hw_state s) Bdf TYPE01_VIDR (uninit E)) = PCIE_NO_MAPPING
         then (False, val_print ACS_PRINT_ERR (nl @ ''      BDF 0x%x mapping issue'') (ucast Bdf) s)
         else if pal_is_bdf_exerciser H Bdf (dev_hw_state s)
         then
           let x = g_exercier_info_table s; k = num_exerciser x;
               x' = x\<lparr>e_info := (e_info x)(k := \<lparr>ex_bdf = Bdf, initialized = 0\<rparr>), num_exerciser := k + 1\<rparr>
           in exerciser_loop H E t n
                (val_print ACS_PRINT_DEBUG (''    exerciser Bdf %x'' @ nl) (ucast Bdf) (s\<lparr>g_exercier_info_table := x'\<rparr>))
         else exerciser_loop H E t n s)"

definition val_exerciser_create_info_table :: "'d dev_hw \<Rightarrow> 'd pcie_env \<Rightarrow> pcie_device_bdf_table \<Rightarrow> 'd dev_state \<Rightarrow> 'd dev_state" where
  "val_exerciser_create_info_table H E t s =
     (if bdf_num_entries t = 0 then val_print ACS_PRINT_DEBUG (nl @ ''       No BDFs discovered            '') 0 s
      else case exerciser_loop H E t (unat (bdf_num_entries t)) s of
             (ok, s1) \<Rightarrow> if ok then val_print ACS_PRINT_DEBUG (''    exerciser cards in the system %x '' @ nl)
                                   (ucast (num_exerciser (g_exercier_info_table s1))) s1 else s1)"

definition val_exerciser_get_bdf :: "u32 \<Rightarrow> 'd dev_state \<Rightarrow> u32" where
  "val_exerciser_get_bdf inst s = ex_bdf (e_info (g_exercier_info_table s) inst)"

text \<open>\<open>val_exerciser_get_info\<close> for \<open>EXERCISER_NUM_CARDS\<close>, the only request it knows.\<close>

definition val_exerciser_get_info :: "bool \<Rightarrow> 'd dev_state \<Rightarrow> u32" where
  "val_exerciser_get_info num_cards s = (if num_cards then num_exerciser (g_exercier_info_table s) else 0)"

text \<open>\<open>Ecam\<close> is a 32-bit local; \<open>EXERCISER_ON\<close> is 2.\<close>

definition val_exerciser_init :: "'d dev_hw \<Rightarrow> 'd pcie_env \<Rightarrow> u32 \<Rightarrow> 'd dev_state \<Rightarrow> (u32 \<times> 'd dev_state) option" where
  "val_exerciser_init H E inst s =
     (let x = g_exercier_info_table s; Bdf = ex_bdf (e_info x inst); d = dev_hw_state s
      in if initialized (e_info x inst) \<noteq> 0
         then Some (0, val_print ACS_PRINT_DEBUG (nl @ ''  Already initialized %d'') (ucast inst) s)
         else if fst (pal_exerciser_state H Bdf d) \<noteq> 0 \<or> snd (pal_exerciser_state H Bdf d) \<noteq> 2
         then Some (1, val_print ACS_PRINT_ERR (nl @ ''   Exerciser Bdf %lx not ready'') (ucast Bdf) s)
         else do {
           ecam \<leftarrow> val_pcie_get_ecam_base E d Bdf;
           let a = (ecam AND 0xFFFFFFFF) +
                   ucast (cfg_addr (PCIE_EXTRACT_BDF_BUS Bdf) (PCIE_EXTRACT_BDF_DEV Bdf) (PCIE_EXTRACT_BDF_FUNC Bdf)) + 0x04;
           let d1 = pal_mmio_write E a (pal_mmio_read E a d OR 0x06) d;
           Some (0, s\<lparr>dev_hw_state := d1,
                      g_exercier_info_table := x\<lparr>e_info := (e_info x)(inst := (e_info x inst)\<lparr>initialized := 1\<rparr>)\<rparr>\<rparr>) })"

subsection \<open>Power states\<close>

definition val_suspend_pe :: "'d dev_hw \<Rightarrow> u32 \<Rightarrow> u64 \<Rightarrow> u32 \<Rightarrow> 'd dev_state \<Rightarrow> 'd dev_state" where
  "val_suspend_pe H power_state entry context_id s =
     s\<lparr>dev_hw_state := pal_smc H 0xc4000001 (ucast power_state) entry (ucast context_id) (dev_hw_state s)\<rparr>"

definition val_power_enter_semantic :: "'d dev_hw \<Rightarrow> bool \<Rightarrow> 'd dev_state \<Rightarrow> u32 \<times> 'd dev_state" where
  "val_power_enter_semantic H sem_B s = (0, if sem_B then s\<lparr>dev_hw_state := call_wfi H (dev_hw_state s)\<rparr> else s)"

end
