(* ===== verification/Acs_Devices_Check.thy ===== *)
theory Acs_Devices_Check
  imports Acs_Devices
begin

text \<open>
  Correctness of the table look-ups of the devices: the peripheral table (an interpretation of \<open>instance_search\<close>) and
  the blocks of platform timers.  \<open>timers_before t b\<close> is the number of timers in front of block \<open>b\<close>.
\<close>

subsection \<open>Specification\<close>

definition block_timers :: "TIMER_INFO_TABLE \<Rightarrow> nat \<Rightarrow> nat" where
  "block_timers t b = unat (timer_count (gt_info t (of_nat b)))"

definition timers_before :: "TIMER_INFO_TABLE \<Rightarrow> nat \<Rightarrow> nat" where
  "timers_before t b = (\<Sum>j<b. block_timers t j)"

definition example_timers :: TIMER_INFO_TABLE where
  "example_timers = \<lparr>timer_hdr = \<lparr>s_el1_timer_flag = 0, ns_el1_timer_flag = 0, el2_timer_flag = 0, el2_virt_timer_flag = 0,
       s_el1_timer_gsiv = 29, ns_el1_timer_gsiv = 30, el2_timer_gsiv = 26, virtual_timer_flag = 0, virtual_timer_gsiv = 27,
       el2_virt_timer_gsiv = 28, num_platform_timer = 4, num_watchdog = 0, sys_timer_status = 1\<rparr>,
     gt_info = (\<lambda>b. \<lparr>gt_type = 0x2001, timer_count = 2, block_cntl_base = 0x2A810000, frame_num = ucast, GtCntBase = (\<lambda>i. 0x2A830000),
       GtCntEl0Base = (\<lambda>i. 0), gt_gsiv = (\<lambda>i. 92), virt_gsiv = (\<lambda>i. 0), gt_flags = (\<lambda>i. 0)\<rparr>)\<rparr>"

definition peripheral_nth :: "u32 \<Rightarrow> PERIPHERAL_INFO_TABLE \<Rightarrow> nat \<Rightarrow> PERIPHERAL_INFO_BLOCK option" where
  "peripheral_nth ty t n =
     nth_opt (filter (\<lambda>e. ty = PERIPHERAL_TYPE_NONE \<or> per_type e = ty) (takeWhile (\<lambda>e. per_type e \<noteq> 0xFF) (per_info t))) n"

definition example_peripherals :: PERIPHERAL_INFO_TABLE where
  "example_peripherals = (let e = (\<lambda>ty b. \<lparr>per_type = ty, per_bdf = b, per_base0 = ucast b * 16, per_base1 = 0, per_irq = 0, per_flags = 0,
       per_msi = 0, per_msix = 0, per_max_pasids = 0\<rparr>)
     in \<lparr>num_usb = 1, num_sata = 0, num_uart = 1, num_all = 2, per_info = [e 0x2000 0x100, e 0x2002 0x200, e 0xFF 0]\<rparr>)"

subsection \<open>Lemmas\<close>

interpretation peripheral_search: instance_search peripheral_entry_loop
  "\<lambda>ty e. ty = PERIPHERAL_TYPE_NONE \<or> per_type e = ty" "\<lambda>e. per_type e = 0xFF" "0xFFFF"
  by unfold_locales simp_all

lemma ucast_of_nat_u64: "ucast (of_nat n :: u64) = (of_nat n :: u32)"
proof -
  have "(n mod 18446744073709551616) mod 4294967296 = n mod (4294967296 :: nat)"
    by (rule mod_mod_cancel) simp
  then show ?thesis by (simp add: word_unat_eq_iff unat_of_nat unsigned_ucast_eq take_bit_eq_mod)
qed

lemma timer_index_loop:
  assumes "0 < i \<or> k = b" "i \<le> block_timers t b" "k \<le> b" "(\<Sum>j\<in>{k..<b}. block_timers t j) + i < 2 ^ 32"
  shows "tail_iter (timer_index_step t) (of_nat ((\<Sum>j\<in>{k..<b}. block_timers t j) + i), of_nat k, of_nat ((\<Sum>j\<in>{k..<b}. block_timers t j) + i))
    = Some (of_nat b, of_nat i)"
  using assms
proof (induction "b - k" arbitrary: k)
  case 0
  then have "k = b" by simp
  have "\<not> ucast (timer_count (gt_info t (of_nat b))) < (of_nat i :: u64)"
    using 0(3,5) \<open>k = b\<close> by (simp add: word_less_nat_alt block_timers_def unat_ucast_u32 unat_of_nat take_bit_nat_eq_self)
  with \<open>k = b\<close> show ?case by (simp add: tail_iter.simps [of _ "(_, _)"] timer_index_step_def)
next
  case (Suc n)
  then have kb: "k < b" and i: "0 < i" by auto
  let ?r = "(\<Sum>j\<in>{Suc k..<b}. block_timers t j) + i" and ?c = "block_timers t k"
  have s: "(\<Sum>j\<in>{k..<b}. block_timers t j) + i = ?c + ?r"
    using kb by (simp add: sum.atLeast_Suc_lessThan)
  have lt: "?c + ?r < 2 ^ 32" using Suc.prems(4) s by simp
  have c: "ucast (timer_count (gt_info t (of_nat k))) = (of_nat ?c :: u64)"
    by (simp add: block_timers_def word_unat_eq_iff unat_ucast_u32)
  have "(of_nat ?c :: u64) < of_nat (?c + ?r)"
    using lt i by (simp add: word_less_nat_alt unat_of_nat take_bit_nat_eq_self del: of_nat_add)
  moreover have "of_nat (?c + ?r) - of_nat ?c = (of_nat ?r :: u64)" by simp
  ultimately have "timer_index_step t (of_nat (?c + ?r), of_nat k, of_nat (?c + ?r)) = Inr (of_nat ?r, of_nat (Suc k), of_nat ?r)"
    by (simp add: timer_index_step_def c Let_def ucast_of_nat_u64 add.commute [of 1] del: of_nat_add)
  moreover have "tail_iter (timer_index_step t) (of_nat ?r, of_nat (Suc k), of_nat ?r) = Some (of_nat b, of_nat i)"
    using Suc kb i lt by (intro Suc.hyps(1)) simp_all
  ultimately show ?case unfolding s by (subst tail_iter.simps) simp
qed

lemma timer_index_result:
  assumes "timers_before t b + i < 2 ^ 32" "timers_before t b + i \<le> unat (num_platform_timer (timer_hdr t))"
    and "0 < i \<or> b = 0" "i \<le> block_timers t b"
  shows "val_platform_timer_get_entry_index t (of_nat (timers_before t b + i)) x = Some (of_nat b, of_nat i)"
proof -
  have "unat (of_nat (timers_before t b + i) :: u64) = timers_before t b + i"
    using assms(1) by (simp add: unat_of_nat take_bit_nat_eq_self del: of_nat_add)
  then have "\<not> ucast (num_platform_timer (timer_hdr t)) < (of_nat (timers_before t b + i) :: u64)"
    using assms(2) by (simp add: word_less_nat_alt unat_ucast_u32)
  moreover have "(\<Sum>j\<in>{0..<b}. block_timers t j) = timers_before t b"
    by (simp add: timers_before_def lessThan_atLeast0)
  ultimately show ?thesis
    using timer_index_loop [of i 0 b t] assms
    by (simp add: val_platform_timer_get_entry_index_def ucast_of_nat_u64 del: of_nat_add)
qed

lemma peripheral_field_nth:
  assumes "\<exists>e\<in>set (per_info t). per_type e = 0xFF" "length (per_info t) < 0xFFFF"
  shows "peripheral_field t ty inst f =
    Some (case nth_opt (filter (\<lambda>e. ty = PERIPHERAL_TYPE_NONE \<or> per_type e = ty) (takeWhile (\<lambda>e. per_type e \<noteq> 0xFF) (per_info t))) (unat inst)
          of Some e \<Rightarrow> f e | None \<Rightarrow> 0)"
proof -
  let ?es = "per_info t" and ?ps = "peripheral_search.positions ty (per_info t)"
  have live: "takeWhile (\<lambda>e. per_type e \<noteq> 0xFF) ?es = peripheral_search.live ?es"
    by (simp add: peripheral_search.live_def)
  show ?thesis
  proof (cases "unat inst < length ?ps")
    case True
    let ?j = "?ps ! unat inst"
    have j: "?j < length (peripheral_search.live ?es)" "?j < length ?es"
      using True peripheral_search.positions_live peripheral_search.positions_in_table by (meson nth_mem)+
    then have "unat (of_nat ?j :: u32) = ?j" "(of_nat ?j :: u32) \<noteq> 0xFFFF"
      using assms(2) by (auto simp: unat_of_nat take_bit_nat_eq_self word_unat_eq_iff)
    with j True peripheral_search.search_spec [OF assms(1), of ty inst 0] show ?thesis
      by (simp add: peripheral_field_def val_peripheral_get_entry_index_def live peripheral_search.filter_live
          peripheral_search.live_nth nth_opt_def)
  next
    case False
    with peripheral_search.search_spec [OF assms(1), of ty inst 0] show ?thesis
      by (simp add: peripheral_field_def val_peripheral_get_entry_index_def live peripheral_search.filter_live nth_opt_def)
  qed
qed

subsection \<open>Properties\<close>

text \<open>
  \<open>val_platform_timer_get_entry_index\<close> finds the timers inside a block, but its loop compares with \<open>>\<close>: for
  the first timer of the next block it returns the index behind the last timer of the block before.
\<close>

theorem timer_index_off_by_one:
  assumes "timers_before t (Suc b) < 2 ^ 32" "timers_before t (Suc b) \<le> unat (num_platform_timer (timer_hdr t))"
    and "0 < i" "i < block_timers t b"
  shows "val_platform_timer_get_entry_index t (of_nat (timers_before t b + i)) x = Some (of_nat b, of_nat i) \<and>
    val_platform_timer_get_entry_index t (of_nat (timers_before t (Suc b))) x = Some (of_nat b, timer_count (gt_info t (of_nat b)))"
proof -
  have s: "timers_before t (Suc b) = timers_before t b + block_timers t b" by (simp add: timers_before_def)
  have "of_nat (block_timers t b) = timer_count (gt_info t (of_nat b))" by (simp add: block_timers_def)
  then show ?thesis
    using timer_index_result [of t b i x] timer_index_result [of t b "block_timers t b" x] assms
    unfolding s by (simp del: of_nat_add)
qed

theorem timer_index_off_by_one_witness:
  "val_platform_timer_get_entry_index example_timers 1 0 = Some (0, 1) \<and>
   val_platform_timer_get_entry_index example_timers 2 0 = Some (0, 2)"
  using timer_index_off_by_one [of example_timers 0 1 0]
  by (simp add: timers_before_def block_timers_def example_timers_def)

text \<open>
  On a table with its last entry, \<open>val_peripheral_get_info\<close> returns the field of the \<open>inst\<close>-th peripheral of the
  requested type (of any type for the \<open>ANY\<close> requests), and 0 when there are not that many.
\<close>

theorem peripheral_info_nth:
  assumes "\<exists>e\<in>set (per_info t). per_type e = 0xFF" "length (per_info t) < 0xFFFF"
  shows "val_peripheral_get_info (Some t) UART_BASE0 inst =
      Some (case peripheral_nth PERIPHERAL_TYPE_UART t (unat inst) of Some e \<Rightarrow> per_base0 e | None \<Rightarrow> 0) \<and>
    val_peripheral_get_info (Some t) SATA_BASE1 inst =
      Some (case peripheral_nth PERIPHERAL_TYPE_SATA t (unat inst) of Some e \<Rightarrow> per_base1 e | None \<Rightarrow> 0) \<and>
    val_peripheral_get_info (Some t) ANY_BDF inst =
      Some (case peripheral_nth PERIPHERAL_TYPE_NONE t (unat inst) of Some e \<Rightarrow> ucast (per_bdf e) | None \<Rightarrow> 0)"
  by (simp add: val_peripheral_get_info_def peripheral_field_nth [OF assms] peripheral_nth_def)

theorem peripheral_info_nth_witness:
  "val_peripheral_get_info (Some example_peripherals) UART_BASE0 0 = Some 0x2000 \<and>
   val_peripheral_get_info (Some example_peripherals) ANY_BDF 1 = Some 0x200"
  using peripheral_info_nth [of example_peripherals 0] peripheral_info_nth [of example_peripherals 1]
  by (simp add: example_peripherals_def peripheral_nth_def PERIPHERAL_TYPE_UART_def PERIPHERAL_TYPE_NONE_def nth_opt_def)

end
