(* ===== verification/Acs_Modules.thy ===== *)
theory Acs_Modules
  imports Acs_Gic Acs_Devices
begin

text \<open>
  The test modules and the application: the ten functions \<open>val_*_execute_tests\<close> of \<^verbatim>\<open>val/src\<close> and \<open>ShellAppMain\<close> of
  \<^verbatim>\<open>uefi_app/BsaAcsMain.c\<close>, in the configuration for UEFI (\<open>TARGET_LINUX\<close> is not defined).

  The tests of \<^verbatim>\<open>test_pool\<close> are the parameter \<open>T\<close>: \<open>T name num_pe s\<close> is the status that the entry of a test returns and
  the state it leaves.  A module is a list of groups, each with the condition on the software view \<open>sw\<close>, its
  heading and the names of its tests.  The locale \<open>test_module\<close> is the contract that the modules share.
\<close>

subsection \<open>Common parts\<close>

type_synonym 's tests = "string \<Rightarrow> u32 \<Rightarrow> 's \<Rightarrow> u32 \<times> 's"

text \<open>\<open>status |= entry(num_pe)\<close> for the tests of a list.\<close>

fun run_entries :: "'s tests \<Rightarrow> u32 \<Rightarrow> string list \<Rightarrow> u32 \<times> 's \<Rightarrow> u32 \<times> 's" where
  "run_entries T num_pe [] r = r"
| "run_entries T num_pe (n # ns) (status, s) =
     (case T n num_pe s of (st, s1) \<Rightarrow> run_entries T num_pe ns (status OR st, s1))"

type_synonym group = "bool \<times> string \<times> string list"

fun run_groups :: "'x acs_scheme tests \<Rightarrow> u32 \<Rightarrow> group list \<Rightarrow> u32 \<times> 'x acs_scheme \<Rightarrow> u32 \<times> 'x acs_scheme" where
  "run_groups T num_pe [] r = r"
| "run_groups T num_pe ((on, heading, ns) # gs) (status, s) =
     (if on
      then run_groups T num_pe gs (run_entries T num_pe ns
             (status, if heading = [] then s else val_print ACS_PRINT_ERR heading 0 s))
      else run_groups T num_pe gs (status, s))"

definition skip_module :: "u32 \<Rightarrow> 'x acs_scheme \<Rightarrow> bool" where
  "skip_module base s \<longleftrightarrow> base \<in> set (g_skip_test_num s)"

definition module_end :: "string \<Rightarrow> u32 \<times> 'x acs_scheme \<Rightarrow> u32 \<times> 'x acs_scheme" where
  "module_end passed = (\<lambda>(status, s).
     (status, val_print ACS_PRINT_TEST
        (if status \<noteq> ACS_STATUS_PASS then nl @ ''      *** One or more tests have Failed/Skipped.*** '' @ nl else passed) 0 s))"

definition skipped :: "string \<Rightarrow> 'x acs_scheme \<Rightarrow> u32 \<times> 'x acs_scheme" where
  "skipped msg s = (ACS_STATUS_SKIP, val_print ACS_PRINT_TEST msg 0 s)"

definition os_view :: "(u32 \<Rightarrow> u32) \<Rightarrow> bool" where "os_view sw \<longleftrightarrow> sw 0 \<noteq> 0"
definition hyp_view :: "(u32 \<Rightarrow> u32) \<Rightarrow> bool" where "hyp_view sw \<longleftrightarrow> sw 1 \<noteq> 0"
definition ps_view :: "(u32 \<Rightarrow> u32) \<Rightarrow> bool" where "ps_view sw \<longleftrightarrow> sw 2 \<noteq> 0"

definition OS_HEADING :: string where "OS_HEADING = nl @ ''Operating System:'' @ nl"
definition HYP_HEADING :: string where "HYP_HEADING = nl @ ''Hypervisor:'' @ nl"
definition PS_HEADING :: string where "PS_HEADING = nl @ ''Platform Security:'' @ nl"

subsection \<open>The modules\<close>

definition pe_groups :: "(u32 \<Rightarrow> u32) \<Rightarrow> group list" where
  "pe_groups sw =
     [(os_view sw, OS_HEADING,
        [''os_c001'', ''os_c002'', ''os_c003'', ''os_c004'', ''os_c005'', ''os_c006'', ''os_c007'', ''os_c008'', ''os_c009'', ''os_c010'',
         ''os_c011'', ''os_c012'', ''os_c013'', ''os_c014'', ''os_c015'', ''os_c016'', ''os_c017'', ''os_c018'', ''os_c019'', ''os_c020'']),
      (hyp_view sw, HYP_HEADING, [''hyp_c001'', ''hyp_c002'', ''hyp_c003'', ''hyp_c004'', ''hyp_c005'']),
      (ps_view sw, PS_HEADING, [''ps_c001''])]"

definition val_pe_execute_tests :: "'x acs_scheme tests \<Rightarrow> u32 \<Rightarrow> (u32 \<Rightarrow> u32) \<Rightarrow> 'x acs_scheme \<Rightarrow> u32 \<times> 'x acs_scheme" where
  "val_pe_execute_tests T num_pe sw s =
     (if skip_module 0 s then skipped (nl @ ''      USER Override - Skipping all PE tests '' @ nl) s
      else module_end (nl @ ''      All PE tests have passed!! '' @ nl) (run_groups T num_pe (pe_groups sw) (ACS_STATUS_PASS, s)))"

definition memory_groups :: "(u32 \<Rightarrow> u32) \<Rightarrow> group list" where
  "memory_groups sw = [(os_view sw, OS_HEADING, [''os_m001'', ''os_m002'', ''os_m003''])]"

definition val_memory_execute_tests :: "'x acs_scheme tests \<Rightarrow> u32 \<Rightarrow> (u32 \<Rightarrow> u32) \<Rightarrow> 'x acs_scheme \<Rightarrow> u32 \<times> 'x acs_scheme" where
  "val_memory_execute_tests T num_pe sw s =
     (if skip_module 100 s then skipped (nl @ ''      USER Override - Skipping all Memory tests '' @ nl) s
      else module_end (nl @ ''      All Memory tests have passed!! '' @ nl) (run_groups T num_pe (memory_groups sw) (ACS_STATUS_PASS, s)))"

definition timer_groups :: "(u32 \<Rightarrow> u32) \<Rightarrow> group list" where
  "timer_groups sw = [(os_view sw, OS_HEADING, [''os_t001'', ''os_t002'', ''os_t003'', ''os_t004'', ''os_t005''])]"

definition val_timer_execute_tests :: "'x acs_scheme tests \<Rightarrow> u32 \<Rightarrow> (u32 \<Rightarrow> u32) \<Rightarrow> 'x acs_scheme \<Rightarrow> u32 \<times> 'x acs_scheme" where
  "val_timer_execute_tests T num_pe sw s =
     (if skip_module 400 s then skipped (nl @ ''      USER Override - Skipping all Timer tests '' @ nl) s
      else module_end (nl @ ''      All Timer tests passed!! '' @ nl) (run_groups T num_pe (timer_groups sw) (ACS_STATUS_PASS, s)))"

definition wakeup_groups :: "(u32 \<Rightarrow> u32) \<Rightarrow> group list" where
  "wakeup_groups sw = [(os_view sw, OS_HEADING, [''os_u001''])]"

definition val_wakeup_execute_tests :: "'x acs_scheme tests \<Rightarrow> u32 \<Rightarrow> (u32 \<Rightarrow> u32) \<Rightarrow> 'x acs_scheme \<Rightarrow> u32 \<times> 'x acs_scheme" where
  "val_wakeup_execute_tests T num_pe sw s =
     (if skip_module 500 s then skipped (nl @ ''      USER Override - Skipping all Wakeup tests '' @ nl) s
      else module_end (nl @ ''      All Wakeup tests passed!! '' @ nl) (run_groups T num_pe (wakeup_groups sw) (ACS_STATUS_PASS, s)))"

definition peripheral_groups :: "(u32 \<Rightarrow> u32) \<Rightarrow> group list" where
  "peripheral_groups sw = [(os_view sw, OS_HEADING, [''os_d001'', ''os_d002'', ''os_d003''])]"

definition val_peripheral_execute_tests :: "'x acs_scheme tests \<Rightarrow> u32 \<Rightarrow> (u32 \<Rightarrow> u32) \<Rightarrow> 'x acs_scheme \<Rightarrow> u32 \<times> 'x acs_scheme" where
  "val_peripheral_execute_tests T num_pe sw s =
     (if skip_module 600 s then skipped (nl @ ''      USER Override - Skipping all Peripheral tests '' @ nl) s
      else module_end (nl @ ''      All Peripheral tests passed!! '' @ nl) (run_groups T num_pe (peripheral_groups sw) (ACS_STATUS_PASS, s)))"

definition wd_groups :: "(u32 \<Rightarrow> u32) \<Rightarrow> group list" where
  "wd_groups sw = [(os_view sw, OS_HEADING, [''os_w001'', ''os_w002''])]"

definition val_wd_execute_tests :: "'x acs_scheme tests \<Rightarrow> u32 \<Rightarrow> (u32 \<Rightarrow> u32) \<Rightarrow> 'x acs_scheme \<Rightarrow> u32 \<times> 'x acs_scheme" where
  "val_wd_execute_tests T num_pe sw s =
     (if skip_module 700 s then skipped (nl @ ''      USER Override - Skipping all Watchdog tests '' @ nl) s
      else module_end (nl @ ''      All Watchdog tests passed!! '' @ nl) (run_groups T num_pe (wd_groups sw) (ACS_STATUS_PASS, s)))"

text \<open>\<open>num_smmu\<close> is what \<open>val_iovirt_get_smmu_info(SMMU_NUM_CTRL, 0)\<close> returns.\<close>

definition smmu_groups :: "(u32 \<Rightarrow> u32) \<Rightarrow> group list" where
  "smmu_groups sw =
     [(os_view sw, OS_HEADING, [''os_i001'', ''os_i002'', ''os_i003'', ''os_i004'', ''os_i005'', ''os_i006'', ''os_i007'', ''os_i008'']),
      (os_view sw \<or> hyp_view sw, [], [''os_i009'']),
      (hyp_view sw, HYP_HEADING, [''hyp_i001'', ''hyp_i002'', ''hyp_i003'', ''hyp_i004'', ''hyp_i005''])]"

definition val_smmu_execute_tests :: "'x acs_scheme tests \<Rightarrow> u32 \<Rightarrow> u32 \<Rightarrow> (u32 \<Rightarrow> u32) \<Rightarrow> 'x acs_scheme \<Rightarrow> u32 \<times> 'x acs_scheme" where
  "val_smmu_execute_tests T num_smmu num_pe sw s =
     (if skip_module 300 s then skipped (nl @ ''      USER Override - Skipping all SMMU tests '' @ nl) s
      else if num_smmu = 0
      then (ACS_STATUS_SKIP, val_print ACS_PRINT_WARN (nl @ ''     No SMMU Controller Found, Skipping SMMU tests...'' @ nl) 0 s)
      else module_end (nl @ ''     All SMMU tests Passed!! '' @ nl) (run_groups T num_pe (smmu_groups sw) (ACS_STATUS_PASS, s)))"

text \<open>The GIC module; \<open>ok\<close> and \<open>m\<close> are the memory that \<open>val_gic_v2m_parse_info\<close> allocates.\<close>

definition gic_groups :: "(u32 \<Rightarrow> u32) \<Rightarrow> group list" where
  "gic_groups sw =
     [(os_view sw, OS_HEADING, [''os_g001'', ''os_g002'', ''os_g003'', ''os_g004'', ''os_g005'', ''os_g006'']),
      (hyp_view sw, HYP_HEADING, [''hyp_g001''])]"

definition v2m_groups :: "(u32 \<Rightarrow> u32) \<Rightarrow> group list" where
  "v2m_groups sw = [(os_view sw, OS_HEADING, [''os_v001'', ''os_v002'', ''os_v003'', ''os_v004''])]"

definition val_gic_execute_tests :: "'d gic_hw \<Rightarrow> 'd gic_state tests \<Rightarrow> bool \<Rightarrow> (u32 \<Rightarrow> MSI_FRAME_ENTRY) \<Rightarrow> u32 \<Rightarrow> (u32 \<Rightarrow> u32)
    \<Rightarrow> 'd gic_state \<Rightarrow> (u32 \<times> 'd gic_state) option" where
  "val_gic_execute_tests H T ok m num_pe sw s =
     (if skip_module 200 s then Some (skipped (nl @ ''      USER Override - Skipping all GIC tests '' @ nl) s)
      else
        let done = module_end (nl @ ''     All GIC tests Passed!! '' @ nl);
            (status, s1) = run_groups T num_pe (gic_groups sw) (ACS_STATUS_PASS, s)
        in do {
          (gic_version, s2) \<leftarrow> val_gic_get_info H GIC_INFO_VERSION s1;
          (num_msi, s3) \<leftarrow> val_gic_get_info H GIC_INFO_NUM_MSI_FRAME s2;
          if gic_version \<noteq> 2 \<or> num_msi = 0
          then Some (done (status, val_print ACS_PRINT_TEST (nl @ ''      No GICv2m, Skipping all GICv2m tests '' @ nl) 0 s3))
          else do {
            (r, s4) \<leftarrow> val_gic_v2m_parse_info ok m s3;
            if r \<noteq> 0
            then Some (done (status, val_print ACS_PRINT_TEST (nl @ ''     GICv2m info mismatch, Skipping all GICv2m tests '' @ nl) 0 s4))
            else Some (done (run_groups T num_pe (v2m_groups sw)
                   (status, val_print ACS_PRINT_ERR (nl @ ''      *** Starting GICv2m tests ***'' @ nl) 0 s4))) } })"

text \<open>
  The PCIe module; \<open>num_ecam\<close> is the number of ECAM regions and \<open>entries\<close> reads \<open>g_pcie_bdf_table->num_entries\<close>, which the
  first test may change.
\<close>

definition pcie_messages :: "'x acs_scheme \<Rightarrow> 'x acs_scheme" where
  "pcie_messages s =
     fold (\<lambda>m. val_print ACS_PRINT_ERR m 0)
       [nl @ ''       PCI_IN_06: PCIe HB must recognise tranx from PE     '', ''    : Result:  PASS'',
        nl @ ''       PCI_iEP_1: PCIe spec follow SW visible spec         '', ''    : Result:  PASS'',
        nl @ ''       RE_CFG_1: Recognise RW request in ECAM reg          '', ''    : Result:  PASS'', OS_HEADING] s"

definition pcie_tests :: "string list" where
  "pcie_tests = [''os_p002'', ''os_p020'', ''os_p021'', ''os_p022'', ''os_p023'', ''os_p024'', ''os_p025'', ''os_p026'', ''os_p027'', ''os_p028'',
     ''os_p029'', ''os_p030'', ''os_p031'', ''os_p032'', ''os_p033'', ''os_p034'', ''os_p035'', ''os_p036'', ''os_p037'', ''os_p038'', ''os_p039'',
     ''os_p041'', ''os_p042'', ''os_p044'', ''os_p048'', ''os_p050'', ''os_p051'', ''os_p052'', ''os_p053'', ''os_p054'', ''os_p055'', ''os_p056'',
     ''os_p057'', ''os_p058'', ''os_p059'', ''os_p060'', ''os_p061'', ''os_p062'']"

definition val_pcie_execute_tests :: "'x acs_scheme tests \<Rightarrow> u32 \<Rightarrow> ('x acs_scheme \<Rightarrow> u32) \<Rightarrow> u32 \<Rightarrow> (u32 \<Rightarrow> u32) \<Rightarrow> 'x acs_scheme
    \<Rightarrow> u32 \<times> 'x acs_scheme" where
  "val_pcie_execute_tests T num_ecam entries num_pe sw s =
     (if skip_module 800 s then skipped (nl @ ''      USER Override - Skipping all PCIe tests '' @ nl) s
      else if num_ecam = 0
      then (ACS_STATUS_SKIP, val_print ACS_PRINT_WARN (nl @ ''     *** No ECAM region found, Skipping PCIE tests *** '' @ nl) 0 s)
      else
        let (status, s1) = (if os_view sw then run_entries T num_pe [''os_p001''] (ACS_STATUS_PASS, pcie_messages s) else (ACS_STATUS_PASS, s))
        in if os_view sw \<and> status \<noteq> ACS_STATUS_PASS
           then (status, val_print ACS_PRINT_WARN (nl @ ''     *** Skipping remaining PCIE tests *** '' @ nl) 0 s1)
           else if entries s1 = 0
           then (ACS_STATUS_SKIP, val_print ACS_PRINT_WARN (nl @ ''     *** No Valid Devices Found, Skipping PCIE tests *** '' @ nl) 0 s1)
           else module_end (nl @ ''      All PCIe tests passed!! '' @ nl)
                  (run_groups T num_pe [(os_view sw, [], pcie_tests)] (status, s1)))"

text \<open>The exerciser module; its tests have no argument.  \<open>create\<close> is the creation of the device table.\<close>

definition exerciser_groups :: "(u32 \<Rightarrow> u32) \<Rightarrow> group list" where
  "exerciser_groups sw =
     [(os_view sw, OS_HEADING, [''os_e001'', ''os_e004'', ''os_e005'', ''os_e006'', ''os_e012'', ''os_e013'', ''os_e015''])]"

definition val_exerciser_execute_tests :: "'d dev_hw \<Rightarrow> 'd pcie_env \<Rightarrow> 'd dev_state tests \<Rightarrow> (u32 \<times> pcie_device_bdf_table) \<Rightarrow> (u32 \<Rightarrow> u32)
    \<Rightarrow> 'd dev_state \<Rightarrow> u32 \<times> 'd dev_state" where
  "val_exerciser_execute_tests H E T create sw s =
     (if skip_module 900 s then skipped (nl @ ''      USER Override - Skipping all Exerciser tests '' @ nl) s
      else if fst create \<noteq> 0
      then (ACS_STATUS_SKIP, val_print ACS_PRINT_WARN (nl @ ''     Create BDF Table Failed, Skipping Exerciser tests...'' @ nl) 0 s)
      else
        let s1 = val_exerciser_create_info_table H E (snd create) s
        in if val_exerciser_get_info True s1 = 0
           then (ACS_STATUS_SKIP, val_print ACS_PRINT_WARN (nl @ ''     No Exerciser Devices Found, Skipping tests...'' @ nl) 0 s1)
           else module_end (nl @ ''      All Exerciser tests passed!! '' @ nl)
                  (run_groups T 0 (exerciser_groups sw) (ACS_STATUS_PASS, s1)))"

subsection \<open>Options of the application\<close>

text \<open>
  The loop over the argument of \<open>-skip\<close>: \<open>dec\<close> is \<open>StrDecimalToUintn\<close>, \<open>arr\<close> the memory from \<open>g_skip_test_num\<close> on and \<open>j\<close>
  the last index written.
\<close>

fun skip_loop :: "(string \<Rightarrow> u32) \<Rightarrow> string \<Rightarrow> string \<Rightarrow> nat \<Rightarrow> (nat \<Rightarrow> u32) \<Rightarrow> nat \<times> (nat \<Rightarrow> u32)" where
  "skip_loop dec cmd [] j arr = (j, arr)"
| "skip_loop dec cmd (c # cs) j arr =
     (let arr0 = arr(0 := dec cmd)
      in if c = CHR '','' then skip_loop dec cmd cs (Suc j) (arr0(Suc j := dec cs)) else skip_loop dec cmd cs j arr0)"

definition parse_skip :: "(string \<Rightarrow> u32) \<Rightarrow> string \<Rightarrow> (nat \<Rightarrow> u32) \<Rightarrow> nat \<times> (nat \<Rightarrow> u32)" where
  "parse_skip dec cmd arr = skip_loop dec cmd cmd 0 arr"

definition parse_print_level :: "(string \<Rightarrow> u32) \<Rightarrow> string option \<Rightarrow> u32" where
  "parse_print_level dec arg =
     (case arg of None \<Rightarrow> 3 | Some v \<Rightarrow> if dec v > 5 then 3 else dec v)"

definition parse_sw_view :: "bool \<Rightarrow> bool \<Rightarrow> bool \<Rightarrow> u32 \<Rightarrow> u32" where
  "parse_sw_view os hyp ps =
     (if os \<or> hyp \<or> ps
      then (\<lambda>i. if i = 0 then (if os then 1 else 0) else if i = 1 then (if hyp then 1 else 0)
                else if i = 2 then (if ps then 1 else 0) else 0)
      else (\<lambda>i. if i < 3 then 1 else 0))"

end
