(* ===== verification/Acs_Modules_Check.thy ===== *)
theory Acs_Modules_Check
  imports Acs_Modules
begin

text \<open>
  The verdicts of the test modules.  \<open>group_trace\<close> are the tests that ran and their status, in order.  The locale
  \<open>test_module\<close> is the contract of a module: it is skipped by its base number, else its status is the
  disjunction of those of its tests.
\<close>

subsection \<open>Specification\<close>

fun entry_trace :: "'s tests \<Rightarrow> u32 \<Rightarrow> string list \<Rightarrow> 's \<Rightarrow> (string \<times> u32) list \<times> 's" where
  "entry_trace T num_pe [] s = ([], s)"
| "entry_trace T num_pe (n # ns) s =
     (case T n num_pe s of (st, s1) \<Rightarrow> case entry_trace T num_pe ns s1 of (tr, s2) \<Rightarrow> ((n, st) # tr, s2))"

fun group_trace :: "'x acs_scheme tests \<Rightarrow> u32 \<Rightarrow> group list \<Rightarrow> 'x acs_scheme \<Rightarrow> (string \<times> u32) list \<times> 'x acs_scheme" where
  "group_trace T num_pe [] s = ([], s)"
| "group_trace T num_pe ((on, heading, ns) # gs) s =
     (if on
      then case entry_trace T num_pe ns (if heading = [] then s else val_print ACS_PRINT_ERR heading 0 s) of (tr, s1) \<Rightarrow>
             case group_trace T num_pe gs s1 of (tr', s2) \<Rightarrow> (tr @ tr', s2)
      else group_trace T num_pe gs s)"

definition enabled_tests :: "group list \<Rightarrow> string list" where
  "enabled_tests gs = concat (map (\<lambda>(on, heading, ns). if on then ns else []) gs)"

definition all_pass :: "(string \<times> u32) list \<Rightarrow> bool" where
  "all_pass tr \<longleftrightarrow> (\<forall>(n, st)\<in>set tr. st = ACS_STATUS_PASS)"

subsection \<open>Lemmas\<close>

lemma word_or_zero: "(x :: u32) OR y = 0 \<longleftrightarrow> x = 0 \<and> y = 0"
  by (auto simp: bit_eq_iff bit_or_iff)

lemma run_entries_trace:
  "snd (run_entries T n ns (st, s)) = snd (entry_trace T n ns s)"
  "map fst (fst (entry_trace T n ns s)) = ns"
  "fst (run_entries T n ns (st, s)) = 0 \<longleftrightarrow> st = 0 \<and> all_pass (fst (entry_trace T n ns s))"
  by (induction ns arbitrary: st s) (simp_all add: all_pass_def word_or_zero ACS_STATUS_PASS_def split_beta)

lemma run_groups_trace:
  "map fst (fst (group_trace T n gs s)) = enabled_tests gs"
  "fst (run_groups T n gs (st, s)) = 0 \<longleftrightarrow> st = 0 \<and> all_pass (fst (group_trace T n gs s))"
proof (induction gs arbitrary: st s)
  case (Cons g gs)
  obtain on heading ns where g: "g = (on, heading, ns)" by (cases g)
  { case 1
    show ?case using Cons(1) by (simp add: g enabled_tests_def split_beta run_entries_trace(2))
  next
    case 2
    let ?s = "if heading = [] then s else val_print ACS_PRINT_ERR heading 0 s"
    have "run_groups T n (g # gs) (st, s) = (if on then run_groups T n gs
        (fst (run_entries T n ns (st, ?s)), snd (run_entries T n ns (st, ?s))) else run_groups T n gs (st, s))"
      by (simp add: g)
    then show ?case
      by (auto simp: Cons(2) run_entries_trace(1,3) g all_pass_def split_beta)
  }
qed (simp_all add: enabled_tests_def all_pass_def)

locale test_module =
  fixes exec :: "'x acs_scheme tests \<Rightarrow> u32 \<Rightarrow> (u32 \<Rightarrow> u32) \<Rightarrow> 'x acs_scheme \<Rightarrow> u32 \<times> 'x acs_scheme"
    and base :: u32
    and groups :: "(u32 \<Rightarrow> u32) \<Rightarrow> group list"
  assumes skip_law: "base \<in> set (g_skip_test_num s) \<Longrightarrow>
      fst (exec T n sw s) = ACS_STATUS_SKIP \<and> (\<exists>c. snd (exec T n sw s) = s\<lparr>console := c\<rparr>)"
    and run_law: "base \<notin> set (g_skip_test_num s) \<Longrightarrow>
      fst (exec T n sw s) = fst (run_groups T n (groups sw) (ACS_STATUS_PASS, s))"
begin

lemma pass_iff:
  "fst (exec T n sw s) = ACS_STATUS_PASS \<longleftrightarrow>
     base \<notin> set (g_skip_test_num s) \<and> all_pass (fst (group_trace T n (groups sw) s))"
  using skip_law [of s T n sw] run_law [of s T n sw] run_groups_trace(2) [of T n "groups sw" ACS_STATUS_PASS s]
  by (cases "base \<in> set (g_skip_test_num s)") (auto simp: ACS_STATUS_PASS_def ACS_STATUS_SKIP_def)

lemma skipped_state: "base \<in> set (g_skip_test_num s) \<Longrightarrow> \<exists>c. exec T n sw s = (ACS_STATUS_SKIP, s\<lparr>console := c\<rparr>)"
  using skip_law [of s T n sw] by (cases "exec T n sw s") auto

end

lemma skipped_law: "fst (skipped m s) = ACS_STATUS_SKIP \<and> (\<exists>c. snd (skipped m s) = s\<lparr>console := c\<rparr>)"
proof (cases "g_print_level s \<le> ACS_PRINT_TEST")
  case False
  then have "snd (skipped m s) = s\<lparr>console := console s\<rparr>" by (simp add: skipped_def val_print_def)
  then show ?thesis by (intro conjI exI [of _ "console s"]) (simp_all add: skipped_def)
qed (auto simp: skipped_def val_print_def)

lemma fst_module_end [simp]: "fst (module_end m r) = fst r"
  by (simp add: module_end_def split_beta)

interpretation pe_module: test_module val_pe_execute_tests 0 pe_groups
  by unfold_locales (use skipped_law in \<open>auto simp: val_pe_execute_tests_def skip_module_def\<close>)

interpretation memory_module: test_module val_memory_execute_tests 100 memory_groups
  by unfold_locales (use skipped_law in \<open>auto simp: val_memory_execute_tests_def skip_module_def\<close>)

interpretation timer_module: test_module val_timer_execute_tests 400 timer_groups
  by unfold_locales (use skipped_law in \<open>auto simp: val_timer_execute_tests_def skip_module_def\<close>)

interpretation wakeup_module: test_module val_wakeup_execute_tests 500 wakeup_groups
  by unfold_locales (use skipped_law in \<open>auto simp: val_wakeup_execute_tests_def skip_module_def\<close>)

interpretation peripheral_module: test_module val_peripheral_execute_tests 600 peripheral_groups
  by unfold_locales (use skipped_law in \<open>auto simp: val_peripheral_execute_tests_def skip_module_def\<close>)

interpretation wd_module: test_module val_wd_execute_tests 700 wd_groups
  by unfold_locales (use skipped_law in \<open>auto simp: val_wd_execute_tests_def skip_module_def\<close>)

subsection \<open>Properties\<close>



end
