(* ===== verification/Acs_Pal_Iovirt.thy ===== *)
theory Acs_Pal_Iovirt
  imports Acs_Iovirt
begin

text \<open>
  The IORT parser of \<^verbatim>\<open>platform/pal_uefi/src/pal_iovirt.c\<close>.  It fills the memory behind the header of the
  I/O virtualisation table: \<open>tbl_words\<close> gives the 32-bit word at every fourth byte from the start of
  the table, a block pointer is the number of the first word of a block.  Blocks are written
  before it is known whether they stay, so a block may be overwritten by a later one; the model has
  every write.  The counters of the header are fields of the record.

  The ACPI table is given by its header and the node at every byte offset; the arrays of a node
  (identifiers, context interrupts, mappings) are lists, their C counters are the lengths.  The
  recursion along the references has the number of nested calls as fuel; the rank of a node in
  \<^verbatim>\<open>Acs_Pal_Iovirt_Check\<close> bounds it.
\<close>

subsection \<open>The ACPI table\<close>

record IORT_ID_MAPPING =
  idm_input_base :: u32
  idm_id_count :: u32
  idm_output_base :: u32
  idm_output_reference :: u32

datatype iort_node_data =
    IORT_ITS_GROUP "u32 list"
  | IORT_NAMED_COMPONENT "u8 list"
  | IORT_ROOT_COMPLEX u64 u32 u32
  | IORT_SMMU u64 "u64 list"
  | IORT_SMMU_V3 u64
  | IORT_PMCG u64 u32 u32
  | IORT_OTHER u8

record IORT_NODE =
  node_length :: u16
  node_data :: iort_node_data
  node_mappings :: "IORT_ID_MAPPING list"

record IORT_TABLE =
  iort_length :: u32
  iort_node_count :: u32
  iort_node_offset :: u32
  iort_node_at :: "nat \<Rightarrow> IORT_NODE"

fun iort_type :: "iort_node_data \<Rightarrow> u32" where
  "iort_type (IORT_ITS_GROUP ids) = IOVIRT_NODE_ITS_GROUP"
| "iort_type (IORT_NAMED_COMPONENT name) = IOVIRT_NODE_NAMED_COMPONENT"
| "iort_type (IORT_ROOT_COMPLEX prop ats seg) = IOVIRT_NODE_PCI_ROOT_COMPLEX"
| "iort_type (IORT_SMMU base ints) = IOVIRT_NODE_SMMU"
| "iort_type (IORT_SMMU_V3 base) = IOVIRT_NODE_SMMU_V3"
| "iort_type (IORT_PMCG base gsiv ref) = IOVIRT_NODE_PMCG"
| "iort_type (IORT_OTHER ty) = ucast ty"

subsection \<open>The table that is filled\<close>

record iovirt_mem =
  tbl_num_blocks :: u32
  tbl_num_smmus :: u32
  tbl_num_pci_rcs :: u32
  tbl_num_named_components :: u32
  tbl_num_its_groups :: u32
  tbl_num_pmcgs :: u32
  tbl_words :: "nat \<Rightarrow> u32"

definition put_word :: "nat \<Rightarrow> u32 \<Rightarrow> iovirt_mem \<Rightarrow> iovirt_mem" where
  "put_word w v t = t\<lparr>tbl_words := (tbl_words t)(w := v)\<rparr>"

fun put_words :: "nat \<Rightarrow> u32 list \<Rightarrow> iovirt_mem \<Rightarrow> iovirt_mem" where
  "put_words w [] t = t"
| "put_words w (v # vs) t = put_words (w + 1) vs (put_word w v t)"

definition put_dword :: "nat \<Rightarrow> u64 \<Rightarrow> iovirt_mem \<Rightarrow> iovirt_mem" where
  "put_dword w v t = put_word (w + 1) (ucast (shr v 32)) (put_word w (ucast v) t)"

definition get_dword :: "nat \<Rightarrow> iovirt_mem \<Rightarrow> u64" where
  "get_dword w t = ucast (tbl_words t w) OR shl (ucast (tbl_words t (w + 1))) 32"

text \<open>The fields of a block, in words from its start: \<open>type\<close>, \<open>num_data_map\<close>, \<open>data\<close>, \<open>flags\<close>, \<open>data_map\<close>.\<close>

definition BLK_NUM :: nat where "BLK_NUM = 1"
definition BLK_DATA :: nat where "BLK_DATA = 2"
definition BLK_FLAGS :: nat where "BLK_FLAGS = 66"
definition BLK_MAP :: nat where "BLK_MAP = 67"
definition FIRST_BLOCK :: nat where "FIRST_BLOCK = 6"

lemmas blk_offsets = BLK_NUM_def BLK_DATA_def BLK_FLAGS_def BLK_MAP_def FIRST_BLOCK_def

definition next_word :: "iovirt_mem \<Rightarrow> nat \<Rightarrow> nat" where
  "next_word t b = b + BLK_MAP + 4 * unat (tbl_words t (b + BLK_NUM))"

text \<open>\<open>((IOVIRT_BLOCK *)((UINT8 *)table + off))->type\<close>; an offset that is no multiple of 4 reads from two words.\<close>

definition word_at_byte :: "iovirt_mem \<Rightarrow> nat \<Rightarrow> u32" where
  "word_at_byte t off =
     (let w = off div 4; r = 8 * (off mod 4)
      in if r = 0 then tbl_words t w
         else shr (tbl_words t w) r OR shl (tbl_words t (w + 1)) (32 - r))"

definition byte_offset :: "nat \<Rightarrow> u32" where
  "byte_offset b = of_nat (4 * b)"

subsection \<open>Context interrupts and names\<close>

fun smmu_ctx_int_distinct :: "u64 list \<Rightarrow> u32" where
  "smmu_ctx_int_distinct [] = 1"
| "smmu_ctx_int_distinct (x # xs) =
     (if \<exists>y\<in>set xs. (ucast x :: u32) = ucast y then 0 else smmu_ctx_int_distinct xs)"

text \<open>
  \<open>AsciiStrnCpyS\<close> with a destination of 256 bytes and at most 255 characters: the characters in front of
  the terminator, and a terminator.  The bytes behind it are zero already.
\<close>

fun pack_bytes :: "u8 list \<Rightarrow> u32 list" where
  "pack_bytes (a # b # c # d # bs) =
     (ucast a OR shl (ucast b) 8 OR shl (ucast c) 16 OR shl (ucast d) 24) # pack_bytes bs"
| "pack_bytes [a, b, c] = [ucast a OR shl (ucast b) 8 OR shl (ucast c) 16]"
| "pack_bytes [a, b] = [ucast a OR shl (ucast b) 8]"
| "pack_bytes [a] = [ucast a]"
| "pack_bytes [] = []"

definition comp_name :: "u8 list \<Rightarrow> u8 list" where
  "comp_name s = take 255 (takeWhile (\<lambda>c. c \<noteq> 0) s) @ [0]"

subsection \<open>Searching a block\<close>

definition same_words :: "(nat \<Rightarrow> u32) \<Rightarrow> nat \<Rightarrow> nat \<Rightarrow> nat \<Rightarrow> bool" where
  "same_words m k b n \<longleftrightarrow> (\<forall>i\<in>set [0..<n]. m (k + i) = m (b + i))"

definition cmp_words :: "iovirt_mem \<Rightarrow> nat \<Rightarrow> nat" where
  "cmp_words t b =
     unat ((4 * of_nat BLK_FLAGS + (if tbl_words t b = IOVIRT_NODE_ITS_GROUP
                                    then tbl_words t (b + BLK_DATA) * 4 + 4 else 0)) :: u32) div 4"

fun find_block_loop :: "iovirt_mem \<Rightarrow> nat \<Rightarrow> nat \<Rightarrow> nat \<Rightarrow> u32" where
  "find_block_loop t key b 0 = 0"
| "find_block_loop t key b (Suc n) =
     (if tbl_words t key = tbl_words t b \<and> same_words (tbl_words t) key b (cmp_words t b)
      then byte_offset b
      else find_block_loop t key (next_word t b) n)"

definition find_block :: "nat \<Rightarrow> iovirt_mem \<Rightarrow> u32" where
  "find_block key t = find_block_loop t key FIRST_BLOCK (unat (tbl_num_blocks t))"

subsection \<open>Adding a block\<close>

text \<open>\<open>count = *count + 1\<close> for the counter that the type of the node selects.\<close>

fun count_node :: "iort_node_data \<Rightarrow> iovirt_mem \<Rightarrow> iovirt_mem" where
  "count_node (IORT_ITS_GROUP ids) t = t\<lparr>tbl_num_its_groups := tbl_num_its_groups t + 1\<rparr>"
| "count_node (IORT_NAMED_COMPONENT name) t = t\<lparr>tbl_num_named_components := tbl_num_named_components t + 1\<rparr>"
| "count_node (IORT_ROOT_COMPLEX prop ats seg) t = t\<lparr>tbl_num_pci_rcs := tbl_num_pci_rcs t + 1\<rparr>"
| "count_node (IORT_SMMU base ints) t = t\<lparr>tbl_num_smmus := tbl_num_smmus t + 1\<rparr>"
| "count_node (IORT_SMMU_V3 base) t = t\<lparr>tbl_num_smmus := tbl_num_smmus t + 1\<rparr>"
| "count_node (IORT_PMCG base gsiv ref) t = t\<lparr>tbl_num_pmcgs := tbl_num_pmcgs t + 1\<rparr>"
| "count_node (IORT_OTHER ty) t = t"

text \<open>The fields that depend on the type of the node, before references are followed.\<close>

fun put_node_data :: "iort_node_data \<Rightarrow> nat \<Rightarrow> iovirt_mem \<Rightarrow> iovirt_mem" where
  "put_node_data (IORT_ITS_GROUP ids) b t =
     put_word (b + BLK_NUM) ((of_nat (length ids) + 3) div 4)
       (put_words (b + BLK_MAP) ids (put_word (b + BLK_DATA) (of_nat (length ids)) t))"
| "put_node_data (IORT_NAMED_COMPONENT name) b t = put_words (b + BLK_DATA) (pack_bytes (comp_name name)) t"
| "put_node_data (IORT_ROOT_COMPLEX prop ats seg) b t =
     put_word (b + BLK_DATA + 1) ats (put_word (b + BLK_DATA + 2) (ucast prop) (put_word (b + BLK_DATA) seg t))"
| "put_node_data (IORT_SMMU base ints) b t = put_word (b + BLK_DATA) 2 (put_dword (b + BLK_DATA + 2) base t)"
| "put_node_data (IORT_SMMU_V3 base) b t = put_word (b + BLK_DATA) 3 (put_dword (b + BLK_DATA + 2) base t)"
| "put_node_data (IORT_PMCG base gsiv ref) b t =
     put_word (b + BLK_DATA + 3) ref (put_word (b + BLK_DATA + 2) gsiv (put_dword (b + BLK_DATA) base t))"
| "put_node_data (IORT_OTHER ty) b t = t"

definition put_header :: "IORT_NODE \<Rightarrow> nat \<Rightarrow> iovirt_mem \<Rightarrow> iovirt_mem" where
  "put_header node b t =
     put_word (b + BLK_NUM) (of_nat (length (node_mappings node)))
       (put_word b (iort_type (node_data node)) (put_words (b + BLK_DATA) (replicate 64 0) t))"

definition pmcg_ref :: "iort_node_data \<Rightarrow> u32 option" where
  "pmcg_ref d = (case d of IORT_PMCG base gsiv ref \<Rightarrow> Some ref | _ \<Rightarrow> None)"

definition invalid_type :: "iort_node_data \<Rightarrow> bool" where
  "invalid_type d \<longleftrightarrow> (case d of IORT_OTHER ty \<Rightarrow> True | _ \<Rightarrow> False)"

definition is_its_group :: "iort_node_data \<Rightarrow> bool" where
  "is_its_group d \<longleftrightarrow> (case d of IORT_ITS_GROUP ids \<Rightarrow> True | _ \<Rightarrow> False)"

definition ctx_int_flag :: "iort_node_data \<Rightarrow> u32" where
  "ctx_int_flag d = (case d of IORT_SMMU base ints \<Rightarrow> if smmu_ctx_int_distinct ints = 0 then shl 1 2 else 0 | _ \<Rightarrow> 0)"

text \<open>
  The end of the loop over the mappings: the base of the SMMU that the mapping leads to goes into the data
  of a root complex; the two words are cleared in a block of any type.
\<close>

definition put_smmu_base :: "iort_node_data \<Rightarrow> nat \<Rightarrow> u32 \<Rightarrow> iovirt_mem \<Rightarrow> iovirt_mem" where
  "put_smmu_base d b off t =
     (let t1 = put_dword (b + BLK_DATA + 4) 0 t; ty = word_at_byte t1 (unat off)
      in if iort_type d = IOVIRT_NODE_PCI_ROOT_COMPLEX \<and> (ty = IOVIRT_NODE_SMMU \<or> ty = IOVIRT_NODE_SMMU_V3)
         then put_word (b + BLK_DATA + 5) (word_at_byte t1 (unat off + 20))
                (put_word (b + BLK_DATA + 4) (word_at_byte t1 (unat off + 16)) t1)
         else t1)"

text \<open>
  \<open>iort_add_block\<close> returns the offset, the place of the next block and the table; \<open>add_mappings\<close> is its loop
  over the mappings, \<open>m\<close> the first word of the mapping to be filled and \<open>nb\<close> \<open>next_block\<close>.
\<close>

fun iort_add_block :: "(nat \<Rightarrow> IORT_NODE) \<Rightarrow> nat \<Rightarrow> IORT_NODE \<Rightarrow> nat \<Rightarrow> iovirt_mem \<Rightarrow> (u32 \<times> nat \<times> iovirt_mem) option"
  and add_mappings :: "(nat \<Rightarrow> IORT_NODE) \<Rightarrow> nat \<Rightarrow> iort_node_data \<Rightarrow> nat \<Rightarrow> IORT_ID_MAPPING list \<Rightarrow> nat \<Rightarrow> nat
    \<Rightarrow> iovirt_mem \<Rightarrow> (nat \<times> iovirt_mem) option" where
  "iort_add_block iort 0 node b t = None"
| "iort_add_block iort (Suc fuel) node b t =
     (let d = node_data node; t1 = put_node_data d b (put_header node b t) in
      do {
        t2 \<leftarrow> (case pmcg_ref d of
                 None \<Rightarrow> Some t1
               | Some ref \<Rightarrow> do {
                   (off, nb, t') \<leftarrow> iort_add_block iort fuel (iort (unat ref)) (next_word t1 b) t1;
                   Some (put_word (b + BLK_DATA + 3) off t') });
        if invalid_type d then Some (0xFFFFFFFF, b, t2)
        else let t3 = put_word (b + BLK_FLAGS) 0 t2; found = find_block b t3
             in if found \<noteq> 0 then Some (found, b, t3)
                else do {
                  let t4 = put_word (b + BLK_FLAGS) (ctx_int_flag d) t3;
                  (nb, t5) \<leftarrow>
                    (if is_its_group d then Some (next_word t3 b, t4)
                     else add_mappings iort fuel d b (node_mappings node) (b + BLK_MAP) (next_word t3 b) t4);
                  Some (byte_offset b, nb, count_node d (t5\<lparr>tbl_num_blocks := tbl_num_blocks t5 + 1\<rparr>)) } })"
| "add_mappings iort fuel d b [] m nb t = Some (nb, t)"
| "add_mappings iort fuel d b (im # ims) m nb t =
     do {
       let t1 = put_words m [idm_input_base im, idm_id_count im, idm_output_base im] t;
       (off, nb', t2) \<leftarrow> iort_add_block iort fuel (iort (unat (idm_output_reference im))) nb t1;
       let t3 = put_smmu_base d b off (put_word (m + 3) off t2);
       add_mappings iort fuel d b ims (m + 4) nb' t3 }"

subsection \<open>Overlapping identifiers\<close>

definition map_range_end :: "iovirt_mem \<Rightarrow> nat \<Rightarrow> u32" where
  "map_range_end t m = tbl_words t (m + 2) + tbl_words t (m + 1) - 1"

definition ranges_overlap :: "u32 \<Rightarrow> u32 \<Rightarrow> u32 \<Rightarrow> u32 \<Rightarrow> bool" where
  "ranges_overlap key_start key_end start stop \<longleftrightarrow>
     (key_start \<ge> start \<and> key_start \<le> stop) \<or> (key_end \<ge> start \<and> key_end \<le> stop) \<or>
     (key_start < start \<and> key_end > stop)"

definition or_flag :: "nat \<Rightarrow> nat \<Rightarrow> iovirt_mem \<Rightarrow> iovirt_mem" where
  "or_flag sh b t = put_word (b + BLK_FLAGS) (tbl_words t (b + BLK_FLAGS) OR shl 1 sh) t"

definition check_pair :: "nat \<Rightarrow> nat \<Rightarrow> u32 \<Rightarrow> u32 \<Rightarrow> nat \<Rightarrow> nat \<Rightarrow> iovirt_mem \<Rightarrow> iovirt_mem" where
  "check_pair kb km key_start key_end b m t =
     (if tbl_words t (m + 3) \<noteq> tbl_words t (km + 3) then t
      else if ranges_overlap key_start key_end (tbl_words t (m + 2)) (map_range_end t m)
      then (let sh = (if word_at_byte t (unat (tbl_words t (m + 3))) = IOVIRT_NODE_ITS_GROUP then 0 else 1)
            in or_flag sh b (or_flag sh kb t))
      else t)"

fun check_maps :: "nat \<Rightarrow> nat \<Rightarrow> u32 \<Rightarrow> u32 \<Rightarrow> nat \<Rightarrow> nat \<Rightarrow> nat \<Rightarrow> iovirt_mem \<Rightarrow> iovirt_mem" where
  "check_maps kb km key_start key_end b m 0 t = t"
| "check_maps kb km key_start key_end b m (Suc n) t =
     check_maps kb km key_start key_end b (m + 4) n (check_pair kb km key_start key_end b m t)"

text \<open>
  \<open>n\<close> blocks from \<open>b\<close> on.  In the block of the key the loop starts behind the key, but it still makes
  \<open>num_data_map - 1\<close> steps (\<open>n_maps--\<close>), whatever the position of the key is.
\<close>

fun check_blocks :: "nat \<Rightarrow> nat \<Rightarrow> u32 \<Rightarrow> u32 \<Rightarrow> nat \<Rightarrow> nat \<Rightarrow> iovirt_mem \<Rightarrow> iovirt_mem" where
  "check_blocks kb km key_start key_end b 0 t = t"
| "check_blocks kb km key_start key_end b (Suc n) t =
     (let t' = (if tbl_words t b = IOVIRT_NODE_ITS_GROUP then t
                else if b = kb
                then check_maps kb km key_start key_end b (km + 4) (unat (tbl_words t (b + BLK_NUM) - 1)) t
                else check_maps kb km key_start key_end b (b + BLK_MAP) (unat (tbl_words t (b + BLK_NUM))) t)
      in check_blocks kb km key_start key_end (next_word t' b) n t')"

fun check_key_maps :: "nat \<Rightarrow> nat \<Rightarrow> nat \<Rightarrow> nat \<Rightarrow> iovirt_mem \<Rightarrow> iovirt_mem" where
  "check_key_maps kb n_key_blocks km 0 t = t"
| "check_key_maps kb n_key_blocks km (Suc n) t =
     check_key_maps kb n_key_blocks (km + 4) n
       (check_blocks kb km (tbl_words t (km + 2)) (map_range_end t km) kb n_key_blocks t)"

fun check_key_blocks :: "nat \<Rightarrow> nat \<Rightarrow> iovirt_mem \<Rightarrow> iovirt_mem" where
  "check_key_blocks kb 0 t = t"
| "check_key_blocks kb (Suc n) t =
     (let t' = (if tbl_words t kb = IOVIRT_NODE_ITS_GROUP then t
                else check_key_maps kb (Suc n) (kb + BLK_MAP) (unat (tbl_words t (kb + BLK_NUM))) t)
      in check_key_blocks (next_word t' kb) n t')"

definition check_mapping_overlap :: "iovirt_mem \<Rightarrow> iovirt_mem" where
  "check_mapping_overlap t = check_key_blocks FIRST_BLOCK (unat (tbl_num_blocks t)) t"

subsection \<open>Creating the table\<close>

definition PLATFORM_OVERRIDE_SMMU_BASE :: u64 where "PLATFORM_OVERRIDE_SMMU_BASE = 0x0"
definition PLATFORM_OVERRIDE_SMMU_ARCH_MAJOR :: u32 where "PLATFORM_OVERRIDE_SMMU_ARCH_MAJOR = 3"

definition iovirt_create_override_table :: "iovirt_mem \<Rightarrow> iovirt_mem" where
  "iovirt_create_override_table t =
     put_word (FIRST_BLOCK + BLK_DATA) PLATFORM_OVERRIDE_SMMU_ARCH_MAJOR
       (put_dword (FIRST_BLOCK + BLK_DATA + 2) PLATFORM_OVERRIDE_SMMU_BASE
         (t\<lparr>tbl_num_blocks := 1, tbl_num_smmus := 1\<rparr>))"

text \<open>
  The loop over the nodes; \<open>pos\<close> is the offset of the node.  The Boolean result tells whether the loop
  went to its end; it is left at a node behind the end of the table.
\<close>

fun iort_loop :: "nat \<Rightarrow> IORT_TABLE \<Rightarrow> nat \<Rightarrow> nat \<Rightarrow> nat \<Rightarrow> iovirt_mem \<Rightarrow> (bool \<times> iovirt_mem) option" where
  "iort_loop fuel iort pos b 0 t = Some (True, t)"
| "iort_loop fuel iort pos b (Suc n) t =
     (if pos \<ge> unat (iort_length iort) then Some (False, t)
      else do {
        let node = iort_node_at iort pos;
        (off, b', t') \<leftarrow> iort_add_block (iort_node_at iort) fuel node b t;
        iort_loop fuel iort (pos + unat (node_length node)) b' n t' })"

definition pal_iovirt_create_info_table :: "nat \<Rightarrow> IORT_TABLE option \<Rightarrow> iovirt_mem option \<Rightarrow> iovirt_mem option option" where
  "pal_iovirt_create_info_table fuel iort_ptr IoVirtTable =
     (case IoVirtTable of
        None \<Rightarrow> Some None
      | Some t \<Rightarrow>
          (let t0 = t\<lparr>tbl_num_blocks := 0, tbl_num_smmus := 0, tbl_num_pci_rcs := 0, tbl_num_named_components := 0,
                 tbl_num_its_groups := 0, tbl_num_pmcgs := 0\<rparr>
           in if PLATFORM_OVERRIDE_SMMU_BASE \<noteq> 0 then Some (Some (iovirt_create_override_table t0))
              else (case iort_ptr of
                      None \<Rightarrow> Some (Some t0)
                    | Some iort \<Rightarrow> do {
                        (complete, t1) \<leftarrow> iort_loop fuel iort (unat (iort_node_offset iort)) FIRST_BLOCK
                                          (unat (iort_node_count iort)) t0;
                        Some (Some (if complete then check_mapping_overlap t1 else t1)) })))"

subsection \<open>The table as the validation layer reads it\<close>

definition read_map :: "iovirt_mem \<Rightarrow> nat \<Rightarrow> ID_MAP" where
  "read_map t m = \<lparr>map_input_base = tbl_words t m, map_id_count = tbl_words t (m + 1),
     map_output_base = tbl_words t (m + 2), map_output_ref = tbl_words t (m + 3)\<rparr>"

definition read_block :: "iovirt_mem \<Rightarrow> nat \<Rightarrow> IOVIRT_BLOCK" where
  "read_block t b = \<lparr>blk_type = tbl_words t b, num_data_map = tbl_words t (b + BLK_NUM),
     blk_data = map (\<lambda>i. tbl_words t (b + BLK_DATA + i)) [0..<64], blk_flags = tbl_words t (b + BLK_FLAGS),
     data_map = map (\<lambda>i. read_map t (b + BLK_MAP + 4 * i)) [0..<unat (tbl_words t (b + BLK_NUM))]\<rparr>"

fun block_starts :: "iovirt_mem \<Rightarrow> nat \<Rightarrow> nat \<Rightarrow> nat list" where
  "block_starts t b 0 = []"
| "block_starts t b (Suc n) = b # block_starts t (next_word t b) n"

definition read_table :: "u64 \<Rightarrow> iovirt_mem \<Rightarrow> IOVIRT_INFO_TABLE" where
  "read_table addr t = \<lparr>num_blocks = tbl_num_blocks t, num_smmus = tbl_num_smmus t, num_pci_rcs = tbl_num_pci_rcs t,
     num_named_components = tbl_num_named_components t, num_its_groups = tbl_num_its_groups t,
     num_pmcgs = tbl_num_pmcgs t, table_addr = addr,
     blocks = map (read_block t) (block_starts t FIRST_BLOCK (unat (tbl_num_blocks t)))\<rparr>"

end
