(* ===== verification/Acs_Pal_Iovirt_Check.thy ===== *)
theory Acs_Pal_Iovirt_Check
  imports Acs_Pal_Iovirt
begin

text \<open>
  Correctness of the IORT parser.  The recursion ends when the references have a rank; \<open>added\<close> describes what a
  call adds to the table (a chain of blocks behind the end, counted by the header), \<open>flags_grow\<close> what the
  overlap check may change, \<open>layout\<close> that the flags lie apart from everything the loops read.
  \<open>block_at_starts\<close> links the words that are written here to the blocks that \<^verbatim>\<open>Acs_Iovirt\<close> reads.
\<close>

subsection \<open>Specification\<close>

definition node_refs :: "IORT_NODE \<Rightarrow> nat list" where
  "node_refs node = map (\<lambda>m. unat (idm_output_reference m)) (node_mappings node)
     @ (case pmcg_ref (node_data node) of None \<Rightarrow> [] | Some ref \<Rightarrow> [unat ref])"

definition ranked :: "(nat \<Rightarrow> IORT_NODE) \<Rightarrow> (nat \<Rightarrow> nat) \<Rightarrow> bool" where
  "ranked iort r \<longleftrightarrow> (\<forall>n. \<forall>m\<in>set (node_refs (iort n)). r m < r n)"

text \<open>
  The counter of a kind of block: 0 ITS groups, 1 named components, 2 root complexes, 3 SMMUs of both types, 4 PMCGs.
\<close>

definition kind_of_type :: "u32 \<Rightarrow> nat" where
  "kind_of_type ty = (if ty = IOVIRT_NODE_ITS_GROUP then 0 else if ty = IOVIRT_NODE_NAMED_COMPONENT then 1
     else if ty = IOVIRT_NODE_PCI_ROOT_COMPLEX then 2
     else if ty = IOVIRT_NODE_SMMU \<or> ty = IOVIRT_NODE_SMMU_V3 then 3 else if ty = IOVIRT_NODE_PMCG then 4 else 5)"

definition counter :: "iovirt_mem \<Rightarrow> nat \<Rightarrow> u32" where
  "counter t kind = (if kind = 0 then tbl_num_its_groups t else if kind = 1 then tbl_num_named_components t
     else if kind = 2 then tbl_num_pci_rcs t else if kind = 3 then tbl_num_smmus t else if kind = 4 then tbl_num_pmcgs t else 0)"

text \<open>
  The loops change nothing but flags: \<open>flags_grow F t t'\<close> tells that \<open>t'\<close> differs from \<open>t\<close> at most in bits set
  in the words of \<open>F\<close>.
\<close>

definition flags_grow :: "nat set \<Rightarrow> iovirt_mem \<Rightarrow> iovirt_mem \<Rightarrow> bool" where
  "flags_grow F t t' \<longleftrightarrow> (\<forall>w. w \<notin> F \<longrightarrow> tbl_words t' w = tbl_words t w) \<and>
     (\<forall>w k. bit (tbl_words t w) k \<longrightarrow> bit (tbl_words t' w) k) \<and> tbl_num_blocks t' = tbl_num_blocks t \<and> counter t' = counter t"

definition both_flagged :: "nat \<Rightarrow> nat \<Rightarrow> iovirt_mem \<Rightarrow> bool" where
  "both_flagged kb b t \<longleftrightarrow> bit (tbl_words t (kb + BLK_FLAGS)) 1 \<and> bit (tbl_words t (b + BLK_FLAGS)) 1"

text \<open>The mapping at \<open>m\<close> and the key at \<open>km\<close> lead to one block that is no ITS group, and their ranges overlap.\<close>

definition sid_clash :: "nat set \<Rightarrow> iovirt_mem \<Rightarrow> u32 \<Rightarrow> u32 \<Rightarrow> nat \<Rightarrow> nat \<Rightarrow> bool" where
  "sid_clash F t ks ke km m \<longleftrightarrow> {m + 1, m + 2, m + 3, km + 3} \<inter> F = {} \<and>
     tbl_words t (m + 3) = tbl_words t (km + 3) \<and> ranges_overlap ks ke (tbl_words t (m + 2)) (map_range_end t m) \<and>
     (\<exists>x. unat (tbl_words t (m + 3)) = 4 * x \<and> x \<notin> F \<and> tbl_words t x \<noteq> IOVIRT_NODE_ITS_GROUP)"

definition layout :: "nat set \<Rightarrow> iovirt_mem \<Rightarrow> nat list \<Rightarrow> bool" where
  "layout F t bs \<longleftrightarrow> (\<forall>b\<in>set bs. b + BLK_FLAGS \<in> F \<and> b \<notin> F \<and> b + BLK_NUM \<notin> F \<and>
     (\<forall>i < 4 * unat (tbl_words t (b + BLK_NUM)). b + BLK_MAP + i \<notin> F))"

definition block_body :: "nat \<Rightarrow> nat \<Rightarrow> u32 \<Rightarrow> u32 \<Rightarrow> nat \<Rightarrow> iovirt_mem \<Rightarrow> iovirt_mem" where
  "block_body kb km ks ke b t =
     (if tbl_words t b = IOVIRT_NODE_ITS_GROUP then t
      else if b = kb then check_maps kb km ks ke b (km + 4) (unat (tbl_words t (b + BLK_NUM) - 1)) t
      else check_maps kb km ks ke b (b + BLK_MAP) (unat (tbl_words t (b + BLK_NUM))) t)"

text \<open>The mapping \<open>q\<close> of the block \<open>b\<close> is one that the loops compare with the key at \<open>km\<close>.\<close>

definition compared :: "iovirt_mem \<Rightarrow> nat \<Rightarrow> nat \<Rightarrow> nat \<Rightarrow> nat \<Rightarrow> bool" where
  "compared t kb km b m \<longleftrightarrow>
     (if b = kb then \<exists>i < unat (tbl_words t (b + BLK_NUM) - 1). m = km + 4 + 4 * i
      else \<exists>i < unat (tbl_words t (b + BLK_NUM)). m = b + BLK_MAP + 4 * i)"

definition key_body :: "nat \<Rightarrow> nat \<Rightarrow> iovirt_mem \<Rightarrow> iovirt_mem" where
  "key_body kb n t = (if tbl_words t kb = IOVIRT_NODE_ITS_GROUP then t
     else check_key_maps kb n (kb + BLK_MAP) (unat (tbl_words t (kb + BLK_NUM))) t)"

definition mapping_clash :: "nat set \<Rightarrow> iovirt_mem \<Rightarrow> nat \<Rightarrow> nat \<Rightarrow> bool" where
  "mapping_clash F t km m \<longleftrightarrow> {km + 1, km + 2} \<inter> F = {} \<and> sid_clash F t (tbl_words t (km + 2)) (map_range_end t km) km m"

definition starts :: "iovirt_mem \<Rightarrow> nat list" where
  "starts t = block_starts t FIRST_BLOCK (unat (tbl_num_blocks t))"

definition table_end :: "iovirt_mem \<Rightarrow> nat" where
  "table_end t = (next_word t ^^ unat (tbl_num_blocks t)) FIRST_BLOCK"

definition flag_words :: "iovirt_mem \<Rightarrow> nat set" where
  "flag_words t = (\<lambda>b. b + BLK_FLAGS) ` set (starts t)"

definition id_range :: "ID_MAP \<Rightarrow> nat set" where
  "id_range m = {unat (map_output_base m) ..< unat (map_output_base m) + unat (map_id_count m)}"

definition proper_map :: "ID_MAP \<Rightarrow> bool" where
  "proper_map m \<longleftrightarrow> map_id_count m \<noteq> 0 \<and> unat (map_output_base m) + unat (map_id_count m) \<le> 2 ^ 32"

definition example_table :: iovirt_mem where
  "example_table = \<lparr>tbl_num_blocks = 2, tbl_num_smmus = 1, tbl_num_pci_rcs = 1, tbl_num_named_components = 0,
     tbl_num_its_groups = 0, tbl_num_pmcgs = 0,
     tbl_words = (\<lambda>_. 0)(6 := 4, 7 := 0, 8 := 3, 10 := 0x2B400000, 73 := 2, 74 := 2, 140 := 0, 141 := 0x100, 142 := 0, 143 := 24,
       144 := 0x100, 145 := 0x100, 146 := 0x200, 147 := 24)\<rparr>"

definition kinds :: "iovirt_mem \<Rightarrow> nat list \<Rightarrow> nat \<Rightarrow> nat" where
  "kinds t bs kind = length (filter (\<lambda>b. kind_of_type (tbl_words t b) = kind) bs)"

text \<open>Writes that keep the counters and touch only words of a set.\<close>

definition writes :: "nat set \<Rightarrow> iovirt_mem \<Rightarrow> iovirt_mem \<Rightarrow> bool" where
  "writes W t t' \<longleftrightarrow> (\<forall>w. w \<notin> W \<longrightarrow> tbl_words t' w = tbl_words t w) \<and> tbl_num_blocks t' = tbl_num_blocks t \<and> counter t' = counter t"

text \<open>
  \<open>chain t b k b'\<close>: \<open>k\<close> blocks lie from \<open>b\<close> to \<open>b'\<close>.  A chain depends on the words between its ends only.
\<close>

definition chain :: "iovirt_mem \<Rightarrow> nat \<Rightarrow> nat \<Rightarrow> nat \<Rightarrow> bool" where
  "chain t b k b' \<longleftrightarrow> (next_word t ^^ k) b = b'"

text \<open>
  \<open>added t b t' b'\<close>: the table \<open>t'\<close> has new blocks from \<open>b\<close> to \<open>b'\<close> (\<open>k\<close> of them) and its counters count them.
\<close>

definition added :: "nat \<Rightarrow> nat set \<Rightarrow> iovirt_mem \<Rightarrow> nat \<Rightarrow> iovirt_mem \<Rightarrow> nat \<Rightarrow> bool" where
  "added k W t b t' b' \<longleftrightarrow> chain t' b k b' \<and> (\<forall>w. w < b \<longrightarrow> w \<notin> W \<longrightarrow> tbl_words t' w = tbl_words t w) \<and>
     tbl_num_blocks t' = tbl_num_blocks t + of_nat k \<and>
     (\<forall>kind<5. counter t' kind = counter t kind + of_nat (kinds t' (block_starts t' b k) kind))"

definition plain_node :: "IORT_NODE \<Rightarrow> bool" where
  "plain_node node \<longleftrightarrow> pmcg_ref (node_data node) = None \<and> length (node_mappings node) < 2 ^ 32"

fun tree_size :: "(nat \<Rightarrow> IORT_NODE) \<Rightarrow> nat \<Rightarrow> IORT_NODE \<Rightarrow> nat" where
  "tree_size iort 0 node = 0"
| "tree_size iort (Suc fuel) node = 1 + sum_list (map (\<lambda>m. tree_size iort fuel (iort (unat (idm_output_reference m)))) (node_mappings node))"

definition example_iort :: IORT_TABLE where
  "example_iort = \<lparr>iort_length = 212, iort_node_count = 3, iort_node_offset = 52, iort_node_at = (\<lambda>n.
     if n = 180 then \<lparr>node_length = 24, node_data = IORT_ITS_GROUP [7], node_mappings = []\<rparr>
     else if n = 92 then \<lparr>node_length = 88, node_data = IORT_SMMU_V3 0x2B400000, node_mappings =
       [\<lparr>idm_input_base = 0, idm_id_count = 0xFFFF, idm_output_base = 0, idm_output_reference = 180\<rparr>]\<rparr>
     else \<lparr>node_length = 40, node_data = IORT_ROOT_COMPLEX 1 0 0, node_mappings =
       [\<lparr>idm_input_base = 0, idm_id_count = 0xFFFF, idm_output_base = 0, idm_output_reference = 92\<rparr>]\<rparr>)\<rparr>"

subsection \<open>Lemmas\<close>

declare iort_add_block.simps(2) [simp del]

lemma smmu_ctx_int_distinct_iff:
  "smmu_ctx_int_distinct xs = (if distinct (map (\<lambda>x. ucast x :: u32) xs) then 1 else 0)"
  by (induction xs) auto

subsection \<open>Termination\<close>

lemma add_mappings_total:
  assumes "\<And>im b t. im \<in> set ims \<Longrightarrow> \<exists>x. iort_add_block iort fuel (iort (unat (idm_output_reference im))) b t = Some x"
  shows "\<exists>x. add_mappings iort fuel d b ims m nb t = Some x"
  using assms
proof (induction ims arbitrary: m nb t)
  case (Cons im ims)
  obtain off nb' t2 where "iort_add_block iort fuel (iort (unat (idm_output_reference im))) nb
      (put_words m [idm_input_base im, idm_id_count im, idm_output_base im] t) = Some (off, nb', t2)"
    using Cons.prems [of im nb] by (metis list.set_intros(1) prod_cases3)
  then show ?case using Cons by (simp add: Let_def)
qed simp

lemma add_block_total:
  assumes "ranked iort r" and "\<forall>m\<in>set (node_refs node). r m < fuel"
  shows "\<exists>x. iort_add_block iort (Suc fuel) node b t = Some x"
  using assms(2)
proof (induction fuel arbitrary: node b t)
  case 0
  then have "node_refs node = []" by simp
  then have "node_mappings node = []" "pmcg_ref (node_data node) = None"
    by (simp_all add: node_refs_def split: option.splits)
  then show ?case by (simp add: Let_def iort_add_block.simps(2))
next
  case (Suc fuel)
  have sub: "\<exists>x. iort_add_block iort (Suc fuel) (iort m) b t = Some x" if "m \<in> set (node_refs node)" for m b t
  proof (rule Suc.IH)
    show "\<forall>m'\<in>set (node_refs (iort m)). r m' < fuel"
      using assms(1) that Suc.prems by (fastforce simp: ranked_def)
  qed
  have maps: "\<exists>nb' t'. add_mappings iort (Suc fuel) d b (node_mappings node) m nb t = Some (nb', t')" for d b m nb t
    using add_mappings_total [of "node_mappings node" iort "Suc fuel" d b m nb t] sub
    by (auto simp: node_refs_def)
  have pm: "\<exists>t2. (case pmcg_ref (node_data node) of None \<Rightarrow> Some t1
      | Some ref \<Rightarrow> do { (off, nb, t') \<leftarrow> iort_add_block iort (Suc fuel) (iort (unat ref)) (next_word t1 b) t1;
                   Some (put_word (b + BLK_DATA + 3) off t') }) = Some t2" for t1
  proof (cases "pmcg_ref (node_data node)")
    case (Some ref)
    then obtain off nb t' where "iort_add_block iort (Suc fuel) (iort (unat ref)) (next_word t1 b) t1 = Some (off, nb, t')"
      using sub [of "unat ref" "next_word t1 b" t1] by (auto simp: node_refs_def)
    with Some show ?thesis by simp
  qed simp
  obtain t2 where t2: "(case pmcg_ref (node_data node) of None \<Rightarrow> Some (put_node_data (node_data node) b (put_header node b t))
      | Some ref \<Rightarrow> do { (off, nb, t') \<leftarrow> iort_add_block iort (Suc fuel) (iort (unat ref))
                   (next_word (put_node_data (node_data node) b (put_header node b t)) b)
                   (put_node_data (node_data node) b (put_header node b t));
                   Some (put_word (b + BLK_DATA + 3) off t') }) = Some t2"
    using pm by blast
  let ?t3 = "put_word (b + BLK_FLAGS) 0 t2"
  obtain nb t5 where "add_mappings iort (Suc fuel) (node_data node) b (node_mappings node) (b + BLK_MAP) (next_word ?t3 b)
      (put_word (b + BLK_FLAGS) (ctx_int_flag (node_data node)) ?t3) = Some (nb, t5)" using maps by blast
  then show ?case unfolding iort_add_block.simps(2) [of iort "Suc fuel"] Let_def t2 by simp
qed

lemma put_word_simps [simp]:
  "counter (put_word w v t) = counter t" "tbl_num_blocks (put_word w v t) = tbl_num_blocks t"
  "tbl_words (put_word w v t) = (tbl_words t)(w := v)"
  by (simp_all add: put_word_def counter_def fun_eq_iff)

text \<open>The words in which a root complex keeps the base of its SMMU belong to the name of a named component.\<close>

lemma mapping_clears_name:
  assumes "iort_type d \<noteq> IOVIRT_NODE_PCI_ROOT_COMPLEX"
  shows "tbl_words (put_smmu_base d b off t) (b + BLK_DATA + 4) = 0" "tbl_words (put_smmu_base d b off t) (b + BLK_DATA + 5) = 0"
  using assms by (simp_all add: put_smmu_base_def Let_def put_dword_def)

subsection \<open>Overlapping ranges\<close>

lemma flags_grow_refl [simp, intro]: "flags_grow F t t"
  by (simp add: flags_grow_def)

lemma flags_grow_trans [trans]: "flags_grow F t t' \<Longrightarrow> flags_grow F t' t'' \<Longrightarrow> flags_grow F t t''"
  by (simp add: flags_grow_def)

lemma flags_growD:
  "flags_grow F t t' \<Longrightarrow> w \<notin> F \<Longrightarrow> tbl_words t' w = tbl_words t w"
  "flags_grow F t t' \<Longrightarrow> bit (tbl_words t w) k \<Longrightarrow> bit (tbl_words t' w) k"
  by (simp_all add: flags_grow_def)

lemma or_flag_grow: "b + BLK_FLAGS \<in> F \<Longrightarrow> flags_grow F t (or_flag sh b t)"
  by (auto simp: flags_grow_def or_flag_def bit_simps)

lemma both_flagged_grow: "flags_grow F t t' \<Longrightarrow> both_flagged kb b t \<Longrightarrow> both_flagged kb b t'"
  by (simp add: both_flagged_def flags_growD(2))

lemma sid_clash_grow:
  assumes "flags_grow F t t'" and "sid_clash F t ks ke km m"
  shows "sid_clash F t' ks ke km m"
  using assms(2) flags_growD(1) [OF assms(1)] by (auto simp: sid_clash_def map_range_end_def)

lemma check_pair_grow:
  "b + BLK_FLAGS \<in> F \<Longrightarrow> kb + BLK_FLAGS \<in> F \<Longrightarrow> flags_grow F t (check_pair kb km ks ke b m t)"
  by (auto simp: check_pair_def Let_def intro: flags_grow_trans [OF or_flag_grow or_flag_grow])

lemma check_pair_detects:
  assumes "sid_clash F t ks ke km m"
  shows "both_flagged kb b (check_pair kb km ks ke b m t)"
proof -
  obtain x where x: "unat (tbl_words t (m + 3)) = 4 * x" "tbl_words t x \<noteq> IOVIRT_NODE_ITS_GROUP"
    using assms by (auto simp: sid_clash_def)
  have "check_pair kb km ks ke b m t = or_flag 1 b (or_flag 1 kb t)"
    using assms x by (simp add: check_pair_def sid_clash_def word_at_byte_def)
  then show ?thesis by (simp add: both_flagged_def or_flag_def put_word_def bit_simps)
qed

lemma check_maps_grow:
  "b + BLK_FLAGS \<in> F \<Longrightarrow> kb + BLK_FLAGS \<in> F \<Longrightarrow> flags_grow F t (check_maps kb km ks ke b m n t)"
  by (induction n arbitrary: m t) (auto intro: flags_grow_trans [OF check_pair_grow])

lemma check_maps_detects:
  assumes "b + BLK_FLAGS \<in> F" "kb + BLK_FLAGS \<in> F" and "i < n" and "sid_clash F t ks ke km (m + 4 * i)"
  shows "both_flagged kb b (check_maps kb km ks ke b m n t)"
  using assms(3,4)
proof (induction n arbitrary: m t i)
  case (Suc n)
  show ?case
  proof (cases i)
    case 0
    then show ?thesis
      using Suc.prems check_pair_detects both_flagged_grow [OF check_maps_grow [OF assms(1,2)]] by simp
  next
    case (Suc i')
    then have "sid_clash F (check_pair kb km ks ke b m t) ks ke km (m + 4 + 4 * i')"
      using Suc.prems(2) sid_clash_grow [OF check_pair_grow [OF assms(1,2)]] by (simp add: add.assoc)
    then show ?thesis using Suc.IH [of i' _ "m + 4"] Suc.prems(1) Suc by simp
  qed
qed simp

subsection \<open>The layout of the blocks\<close>

lemma next_word_grow: "flags_grow F t t' \<Longrightarrow> b + BLK_NUM \<notin> F \<Longrightarrow> next_word t' b = next_word t b"
  by (simp add: next_word_def flags_growD(1))

lemma block_starts_grow:
  "flags_grow F t t' \<Longrightarrow> layout F t (block_starts t b n) \<Longrightarrow> block_starts t' b n = block_starts t b n"
  by (induction n arbitrary: b) (auto simp: layout_def next_word_grow)

lemma layout_grow: "flags_grow F t t' \<Longrightarrow> layout F t bs \<Longrightarrow> layout F t' bs"
  by (auto simp: layout_def flags_growD(1))

lemma layout_Cons:
  "layout F t (b # bs) \<Longrightarrow> layout F t bs \<and> b + BLK_FLAGS \<in> F \<and> b \<notin> F \<and> b + BLK_NUM \<notin> F"
  by (simp add: layout_def)

lemma check_blocks_Suc:
  "check_blocks kb km ks ke b (Suc n) t =
     check_blocks kb km ks ke (next_word (block_body kb km ks ke b t) b) n (block_body kb km ks ke b t)"
  by (simp add: block_body_def Let_def)

lemma block_body_grow:
  "b + BLK_FLAGS \<in> F \<Longrightarrow> kb + BLK_FLAGS \<in> F \<Longrightarrow> flags_grow F t (block_body kb km ks ke b t)"
  by (simp add: block_body_def check_maps_grow)

lemma check_blocks_grow:
  assumes "kb + BLK_FLAGS \<in> F" and "layout F t (block_starts t b n)"
  shows "flags_grow F t (check_blocks kb km ks ke b n t)"
  using assms(2)
proof (induction n arbitrary: b t)
  case (Suc n)
  let ?t = "block_body kb km ks ke b t"
  have l: "layout F t (block_starts t (next_word t b) n)" "b + BLK_FLAGS \<in> F" "b + BLK_NUM \<notin> F"
    using Suc.prems layout_Cons by auto
  have g: "flags_grow F t ?t" using block_body_grow [OF l(2) assms(1)] .
  have "layout F ?t (block_starts ?t (next_word ?t b) n)"
    using l g by (simp add: next_word_grow block_starts_grow layout_grow)
  from Suc.IH [OF this] show ?case unfolding check_blocks_Suc using g flags_grow_trans by blast
qed simp

lemma compared_grow:
  "flags_grow F t t' \<Longrightarrow> b + BLK_NUM \<notin> F \<Longrightarrow> compared t' kb km b m = compared t kb km b m"
  by (auto simp: compared_def flags_growD(1))

lemma block_body_detects:
  assumes "b + BLK_FLAGS \<in> F" "kb + BLK_FLAGS \<in> F" "tbl_words t b \<noteq> IOVIRT_NODE_ITS_GROUP"
    "compared t kb km b m" "sid_clash F t ks ke km m"
  shows "both_flagged kb b (block_body kb km ks ke b t)"
  using assms check_maps_detects [OF assms(1,2)]
  by (auto simp: block_body_def compared_def split: if_splits)

lemma check_blocks_detects:
  assumes "kb + BLK_FLAGS \<in> F" and "layout F t (block_starts t b n)" and "x \<in> set (block_starts t b n)"
    and "tbl_words t x \<noteq> IOVIRT_NODE_ITS_GROUP" "compared t kb km x m" "sid_clash F t ks ke km m"
  shows "both_flagged kb x (check_blocks kb km ks ke b n t)"
  using assms(2-)
proof (induction n arbitrary: b t)
  case (Suc n)
  let ?t = "block_body kb km ks ke b t"
  have l: "layout F t (block_starts t (next_word t b) n)" "b + BLK_FLAGS \<in> F" "b + BLK_NUM \<notin> F"
    using Suc.prems(1) layout_Cons by auto
  have g: "flags_grow F t ?t" using block_body_grow [OF l(2) assms(1)] .
  have st: "block_starts ?t (next_word ?t b) n = block_starts t (next_word t b) n"
    using l g by (simp add: next_word_grow block_starts_grow)
  have lt: "layout F ?t (block_starts ?t (next_word ?t b) n)"
    unfolding st using l(1) g layout_grow by blast
  show ?case
  proof (cases "x = b")
    case True
    then show ?thesis unfolding check_blocks_Suc
      using block_body_detects [OF l(2) assms(1)] Suc.prems(3-)
        both_flagged_grow [OF check_blocks_grow [OF assms(1) lt]] by blast
  next
    case False
    then have x: "x \<in> set (block_starts t (next_word t b) n)" using Suc.prems(2) by simp
    then have "x \<notin> F" "x + BLK_NUM \<notin> F" using l(1) by (auto simp: layout_def)
    then have "tbl_words ?t x \<noteq> IOVIRT_NODE_ITS_GROUP" "compared ?t kb km x m"
      using Suc.prems(3,4) flags_growD(1) [OF g] by (auto simp: compared_def)
    then show ?thesis unfolding check_blocks_Suc
      using Suc.IH [OF lt] x st sid_clash_grow [OF g Suc.prems(5)] by simp
  qed
qed simp

lemma check_key_blocks_Suc:
  "check_key_blocks kb (Suc n) t = check_key_blocks (next_word (key_body kb (Suc n) t) kb) n (key_body kb (Suc n) t)"
  by (simp add: key_body_def Let_def)

lemma check_key_maps_grow:
  assumes "kb + BLK_FLAGS \<in> F" and "layout F t (block_starts t kb nk)"
  shows "flags_grow F t (check_key_maps kb nk km n t)"
  using assms(2)
proof (induction n arbitrary: km t)
  case (Suc n)
  let ?t = "check_blocks kb km (tbl_words t (km + 2)) (map_range_end t km) kb nk t"
  have g: "flags_grow F t ?t" using check_blocks_grow [OF assms(1) Suc.prems] .
  then have "layout F ?t (block_starts ?t kb nk)" using Suc.prems block_starts_grow layout_grow by metis
  with Suc.IH g show ?case using flags_grow_trans by (metis check_key_maps.simps(2))
qed simp

lemma mapping_clash_grow:
  assumes "flags_grow F t t'" and "mapping_clash F t km m"
  shows "mapping_clash F t' km m"
  using assms(2) flags_growD(1) [OF assms(1)] sid_clash_grow [OF assms(1)]
  by (auto simp: mapping_clash_def map_range_end_def)

lemma check_key_maps_detects:
  assumes "kb + BLK_FLAGS \<in> F" "kb + BLK_NUM \<notin> F" and "layout F t (block_starts t kb nk)"
    and "x \<in> set (block_starts t kb nk)" "p < n"
    and "tbl_words t x \<noteq> IOVIRT_NODE_ITS_GROUP" "compared t kb (km + 4 * p) x m" "mapping_clash F t (km + 4 * p) m"
  shows "both_flagged kb x (check_key_maps kb nk km n t)"
  using assms(3-)
proof (induction n arbitrary: km t p)
  case (Suc n)
  let ?t = "check_blocks kb km (tbl_words t (km + 2)) (map_range_end t km) kb nk t"
  have g: "flags_grow F t ?t" using check_blocks_grow [OF assms(1) Suc.prems(1)] .
  then have st: "block_starts ?t kb nk = block_starts t kb nk" and lt: "layout F ?t (block_starts ?t kb nk)"
    using Suc.prems(1) block_starts_grow layout_grow by metis+
  have x: "x \<notin> F" "x + BLK_NUM \<notin> F" using Suc.prems(1,2) by (auto simp: layout_def)
  show ?case
  proof (cases p)
    case 0
    then have "both_flagged kb x ?t"
      using check_blocks_detects [OF assms(1) Suc.prems(1,2,4)] Suc.prems(5,6) by (simp add: mapping_clash_def)
    then show ?thesis using both_flagged_grow [OF check_key_maps_grow [OF assms(1) lt]] by simp
  next
    case (Suc p')
    have c: "compared ?t kb (km + 4 + 4 * p') x m" "mapping_clash F ?t (km + 4 + 4 * p') m" "tbl_words ?t x \<noteq> IOVIRT_NODE_ITS_GROUP"
      using Suc.prems(4-6) Suc mapping_clash_grow [OF g] x flags_growD(1) [OF g] by (auto simp: compared_def add.assoc)
    have "x \<in> set (block_starts ?t kb nk)" using st Suc.prems(2) by simp
    from Suc.IH [OF lt this _ c(3,1,2)] show ?thesis using Suc Suc.prems(3) by simp
  qed
qed simp

lemma key_body_grow:
  "kb + BLK_FLAGS \<in> F \<Longrightarrow> layout F t (block_starts t kb n) \<Longrightarrow> flags_grow F t (key_body kb n t)"
  by (simp add: key_body_def check_key_maps_grow)

lemma key_body_stable:
  assumes "layout F t (block_starts t kb (Suc n))"
  defines "t' \<equiv> key_body kb (Suc n) t"
  shows "flags_grow F t t'" "block_starts t' (next_word t' kb) n = block_starts t (next_word t kb) n"
    "layout F t' (block_starts t' (next_word t' kb) n)"
proof -
  have l: "layout F t (block_starts t (next_word t kb) n)" "kb + BLK_FLAGS \<in> F" "kb + BLK_NUM \<notin> F"
    using assms(1) layout_Cons by auto
  show g: "flags_grow F t t'" unfolding t'_def using key_body_grow [OF l(2) assms(1)] .
  show st: "block_starts t' (next_word t' kb) n = block_starts t (next_word t kb) n"
    using l g by (simp add: next_word_grow block_starts_grow)
  show "layout F t' (block_starts t' (next_word t' kb) n)" unfolding st using l(1) g layout_grow by blast
qed

lemma check_key_blocks_grow:
  "layout F t (block_starts t kb n) \<Longrightarrow> flags_grow F t (check_key_blocks kb n t)"
proof (induction n arbitrary: kb t)
  case (Suc n)
  from key_body_stable [OF Suc.prems] Suc.IH show ?case
    unfolding check_key_blocks_Suc using flags_grow_trans by blast
qed simp

lemma check_key_blocks_detects:
  assumes "layout F t (block_starts t kb n)" and "i \<le> j" "j < n"
    and "p < unat (tbl_words t (block_starts t kb n ! i + BLK_NUM))"
    and "tbl_words t (block_starts t kb n ! i) \<noteq> IOVIRT_NODE_ITS_GROUP"
    and "tbl_words t (block_starts t kb n ! j) \<noteq> IOVIRT_NODE_ITS_GROUP"
    and "compared t (block_starts t kb n ! i) (block_starts t kb n ! i + BLK_MAP + 4 * p) (block_starts t kb n ! j) m"
    and "mapping_clash F t (block_starts t kb n ! i + BLK_MAP + 4 * p) m"
  shows "both_flagged (block_starts t kb n ! i) (block_starts t kb n ! j) (check_key_blocks kb n t)"
  using assms
proof (induction n arbitrary: kb t i j)
  case (Suc n)
  let ?t = "key_body kb (Suc n) t"
  note st = key_body_stable [OF Suc.prems(1)]
  have kb: "kb + BLK_FLAGS \<in> F" "kb + BLK_NUM \<notin> F" using layout_Cons Suc.prems(1) by auto
  have len: "length (block_starts t b k) = k" for t b k by (induction k arbitrary: b) simp_all
  show ?case
  proof (cases i)
    case 0
    have "both_flagged kb (block_starts t kb (Suc n) ! j) ?t"
      using check_key_maps_detects [OF kb Suc.prems(1) nth_mem, of j p] Suc.prems(3-) 0 len [of t kb "Suc n"]
      by (simp add: key_body_def)
    then show ?thesis unfolding check_key_blocks_Suc
      using both_flagged_grow [OF check_key_blocks_grow [OF st(3)]] 0 by simp
  next
    case (Suc i')
    then obtain j' where j: "j = Suc j'" using Suc.prems(2) by (cases j) auto
    let ?bs = "block_starts t (next_word t kb) n"
    have mem: "?bs ! i' \<in> set ?bs" "?bs ! j' \<in> set ?bs"
      using Suc.prems(2,3) Suc j len [of t "next_word t kb" n] by simp_all
    have F: "?bs ! i' \<notin> F" "?bs ! i' + BLK_NUM \<notin> F" "?bs ! j' \<notin> F" "?bs ! j' + BLK_NUM \<notin> F"
      using mem layout_Cons [of F t kb ?bs] Suc.prems(1) unfolding layout_def block_starts.simps by blast+
    have w: "tbl_words ?t v = tbl_words t v" if "v \<notin> F" for v using flags_growD(1) [OF st(1) that] .
    have pr: "p < unat (tbl_words ?t (?bs ! i' + BLK_NUM))" "tbl_words ?t (?bs ! i') \<noteq> IOVIRT_NODE_ITS_GROUP"
      "tbl_words ?t (?bs ! j') \<noteq> IOVIRT_NODE_ITS_GROUP"
      using Suc.prems(4-6) Suc j by (simp_all add: w [OF F(1)] w [OF F(2)] w [OF F(3)])
    have cm: "compared ?t (?bs ! i') (?bs ! i' + BLK_MAP + 4 * p) (?bs ! j') m"
      "mapping_clash F ?t (?bs ! i' + BLK_MAP + 4 * p) m"
      using Suc.prems(7,8) Suc j mapping_clash_grow [OF st(1)] by (simp_all add: compared_grow [OF st(1) F(4)])
    have "both_flagged (?bs ! i') (?bs ! j') (check_key_blocks (next_word ?t kb) n ?t)"
      using Suc.IH [OF st(3), of i' j', unfolded st(2), OF _ _ pr cm] Suc.prems(2,3) Suc j by simp
    then show ?thesis unfolding check_key_blocks_Suc using Suc j by simp
  qed
qed simp

lemma length_block_starts [simp]: "length (block_starts t b n) = n"
  by (induction n arbitrary: b) simp_all

lemma block_starts_ge: "x \<in> set (block_starts t b n) \<Longrightarrow> b \<le> x"
proof (induction n arbitrary: b)
  case (Suc n)
  have "b \<le> next_word t b" by (simp add: next_word_def)
  then show ?case using Suc by auto (meson le_trans)
qed simp

lemma block_starts_gap:
  "x \<in> set (block_starts t b n) \<Longrightarrow> y \<in> set (block_starts t b n) \<Longrightarrow> x < y \<Longrightarrow> next_word t x \<le> y"
proof (induction n arbitrary: b)
  case (Suc n)
  have "b < next_word t b" by (simp add: next_word_def blk_offsets)
  then show ?case using Suc block_starts_ge [of _ t "next_word t b" n] by fastforce
qed simp

lemma block_starts_sorted: "j < i \<Longrightarrow> i < n \<Longrightarrow> block_starts t b n ! j < block_starts t b n ! i"
proof (induction n arbitrary: b i j)
  case (Suc n)
  have "b < next_word t b" by (simp add: next_word_def blk_offsets)
  moreover have "next_word t b \<le> block_starts t (next_word t b) n ! k" if "k < n" for k
    using that by (intro block_starts_ge [of _ t _ n] nth_mem) simp
  ultimately show ?case using Suc by (cases i; cases j) (auto intro: less_le_trans)
qed simp

lemma block_starts_end: "x \<in> set (block_starts t b n) \<Longrightarrow> next_word t x \<le> (next_word t ^^ n) b"
proof (induction n arbitrary: b)
  case (Suc n)
  have "c \<le> (next_word t ^^ n) c" for c
    by (induction n) (simp_all add: next_word_def)
  then show ?case using Suc by (auto simp: funpow_swap1)
qed simp

lemma starts_layout: "layout (flag_words t) t (starts t)"
proof -
  have "b + i \<noteq> c + BLK_FLAGS" if "b \<in> set (starts t)" "c \<in> set (starts t)" and i: "i \<noteq> BLK_FLAGS"
    "b + i < next_word t b" for b c i
  proof (cases b c rule: linorder_cases)
    case less
    then show ?thesis using block_starts_gap [OF that(1,2)[unfolded starts_def]] i by linarith
  next
    case greater
    then have "c + BLK_FLAGS < b"
      using block_starts_gap [OF that(2,1)[unfolded starts_def]] by (simp add: next_word_def blk_offsets)
    then show ?thesis by linarith
  qed (use i in simp)
  from this [of _ _ 0] this [of _ _ BLK_NUM] this [of _ _ "BLK_MAP + _"] show ?thesis
    unfolding layout_def flag_words_def
    by (auto simp: next_word_def add.assoc [symmetric]) (auto simp: blk_offsets)
qed

lemma read_table_blocks: "blocks (read_table addr t) = map (read_block t) (starts t)"
  by (simp add: read_table_def starts_def)

lemma read_table_addr: "table_addr (read_table addr t) = addr"
  by (simp add: read_table_def)

lemma block_bytes_read: "block_bytes (read_block t b) = of_nat (4 * (next_word t b - b))"
  by (simp add: block_bytes_def read_block_def next_word_def blk_offsets)

lemma block_from_starts:
  assumes "(next_word t ^^ n) b * 4 < 2 ^ 32"
  shows "block_from (map (read_block t) (block_starts t b n)) (of_nat (4 * b)) off = Some blk \<longleftrightarrow>
    (\<exists>x\<in>set (block_starts t b n). off = of_nat (4 * x) \<and> blk = read_block t x)"
  using assms
proof (induction n arbitrary: b)
  case (Suc n)
  have nw: "of_nat (4 * b) + block_bytes (read_block t b) = of_nat (4 * next_word t b)"
    unfolding block_bytes_read of_nat_add [symmetric] by (simp add: next_word_def)
  have "(of_nat (4 * x) :: u64) \<noteq> of_nat (4 * b)" if "x \<in> set (block_starts t (next_word t b) n)" for x
  proof -
    have "b < next_word t b" by (simp add: next_word_def blk_offsets)
    with block_starts_ge [OF that] have lt: "b < x" by simp
    have "next_word t x \<le> (next_word t ^^ Suc n) b" using that block_starts_end by (simp add: funpow_swap1)
    moreover have "x \<le> next_word t x" by (simp add: next_word_def)
    ultimately have "4 * x < 2 ^ 64" "4 * b < 2 ^ 64" using Suc.prems lt by simp_all
    then have "unat (of_nat (4 * x) :: u64) = 4 * x" "unat (of_nat (4 * b) :: u64) = 4 * b"
      by (intro word_le_of_nat_less; simp)+
    with lt show ?thesis by (metis less_irrefl mult_less_cancel1 zero_less_numeral nat_mult_less_cancel1)
  qed
  moreover have "(next_word t ^^ n) (next_word t b) * 4 < 2 ^ 32" using Suc.prems by (simp add: funpow_swap1)
  ultimately show ?case using Suc.IH [of "next_word t b"] nw by (auto split: if_splits)
qed simp

lemma block_at_starts:
  assumes "4 * table_end t < 2 ^ 32"
  shows "block_at (read_table addr t) off = Some blk \<longleftrightarrow>
    (\<exists>x\<in>set (starts t). off = of_nat (4 * x) \<and> blk = read_block t x)"
  using block_from_starts [where t = t and n = "unat (tbl_num_blocks t)" and b = FIRST_BLOCK and off = off and blk = blk] assms
  by (simp add: block_at_def read_table_blocks starts_def table_end_def first_block_def FIRST_BLOCK_def mult.commute)

subsection \<open>Stream identifiers of a table that passed the check\<close>

lemma proper_map_end:
  assumes "proper_map m"
  shows "unat (map_output_base m + map_id_count m - 1) = unat (map_output_base m) + unat (map_id_count m) - 1"
proof -
  have "unat (map_id_count m - 1) = unat (map_id_count m) - 1" "0 < unat (map_id_count m)"
    using assms by (simp_all add: proper_map_def unat_minus_one unat_gt_0)
  moreover have "unat (map_output_base m + (map_id_count m - 1)) = unat (map_output_base m) + unat (map_id_count m - 1)"
  proof -
    have "unat (map_output_base m) + unat (map_id_count m - 1) < 2 ^ 32"
      using assms calculation unfolding proper_map_def by linarith
    then show ?thesis by (simp add: unat_word_ariths)
  qed
  ultimately show ?thesis by (simp add: add_diff_eq)
qed

lemma overlap_of_ranges:
  assumes "proper_map m" "proper_map m'" and "id_range m \<inter> id_range m' \<noteq> {}"
  shows "ranges_overlap (map_output_base m) (map_output_base m + map_id_count m - 1)
    (map_output_base m') (map_output_base m' + map_id_count m' - 1)"
  using assms proper_map_end [OF assms(1)] proper_map_end [OF assms(2)]
  unfolding ranges_overlap_def word_le_nat_alt word_less_nat_alt id_range_def
  by (auto simp: proper_map_def)

lemma nth_read_map:
  assumes "p < length (data_map (read_block t b))"
  shows "data_map (read_block t b) ! p = read_map t (b + BLK_MAP + 4 * p)" "p < unat (tbl_words t (b + BLK_NUM))"
  using assms by (simp_all add: read_block_def)

lemma map_word_solid:
  assumes "b \<in> set (starts t)" "p < unat (tbl_words t (b + BLK_NUM))" "c < 4"
  shows "b + BLK_MAP + 4 * p + c \<notin> flag_words t"
proof -
  have "4 * p + c < 4 * unat (tbl_words t (b + BLK_NUM))" using assms(2,3) by linarith
  then show ?thesis using starts_layout [of t] assms(1) by (simp add: layout_def add.assoc)
qed

text \<open>Two mappings of the table, the one with the smaller place is the key.\<close>

lemma clash_flagged:
  assumes bs: "b \<in> set (starts t)" "c \<in> set (starts t)" "x \<in> set (starts t)" and fits: "4 * x < 2 ^ 32"
    and pq: "p < unat (tbl_words t (b + BLK_NUM))" "q < unat (tbl_words t (c + BLK_NUM))" "b < c \<or> b = c \<and> p < q"
    and ty: "tbl_words t b \<noteq> IOVIRT_NODE_ITS_GROUP" "tbl_words t c \<noteq> IOVIRT_NODE_ITS_GROUP"
      "tbl_words t x \<noteq> IOVIRT_NODE_ITS_GROUP"
    and ref: "tbl_words t (b + BLK_MAP + 4 * p + 3) = of_nat (4 * x)" "tbl_words t (c + BLK_MAP + 4 * q + 3) = of_nat (4 * x)"
    and ov: "ranges_overlap (tbl_words t (b + BLK_MAP + 4 * p + 2)) (map_range_end t (b + BLK_MAP + 4 * p))
      (tbl_words t (c + BLK_MAP + 4 * q + 2)) (map_range_end t (c + BLK_MAP + 4 * q))"
  shows "both_flagged b c (check_mapping_overlap t)"
proof -
  let ?F = "flag_words t" and ?km = "b + BLK_MAP + 4 * p" and ?m = "c + BLK_MAP + 4 * q"
  obtain i j where ij: "i < length (starts t)" "starts t ! i = b" "j < length (starts t)" "starts t ! j = c"
    using bs by (metis in_set_conv_nth)
  have le: "i \<le> j"
  proof (rule ccontr)
    assume "\<not> i \<le> j"
    then have "c < b" using block_starts_sorted [of j i _ t] ij by (fastforce simp: starts_def)
    with pq(3) show False by simp
  qed
  have x: "unat (of_nat (4 * x) :: u32) = 4 * x" using fits by (intro word_le_of_nat_less) simp
  have "x \<notin> ?F" using starts_layout [of t] bs(3) by (auto simp: layout_def)
  then have clash: "mapping_clash ?F t ?km ?m"
    using map_word_solid [OF bs(1) pq(1), of 1] map_word_solid [OF bs(1) pq(1), of 2] map_word_solid [OF bs(1) pq(1), of 3]
      map_word_solid [OF bs(2) pq(2), of 1] map_word_solid [OF bs(2) pq(2), of 2] map_word_solid [OF bs(2) pq(2), of 3]
      ref ov x ty(3)
    unfolding mapping_clash_def sid_clash_def by auto
  have cmp: "compared t b ?km c ?m"
  proof (cases "c = b")
    case True
    then have "q - p - 1 < unat (tbl_words t (b + BLK_NUM) - 1)" "?m = ?km + 4 + 4 * (q - p - 1)"
      using pq unat_minus_one [of "tbl_words t (b + BLK_NUM)"] by fastforce+
    with True show ?thesis by (auto simp: compared_def)
  qed (use pq(2) in \<open>auto simp: compared_def\<close>)
  show ?thesis
    using check_key_blocks_detects [of ?F t FIRST_BLOCK "unat (tbl_num_blocks t)" i j p ?m, folded starts_def]
      starts_layout le ij ty pq(1) clash cmp
    by (simp add: check_mapping_overlap_def starts_def)
qed

lemma check_mapping_overlap_grow: "flags_grow (flag_words t) t (check_mapping_overlap t)"
  unfolding check_mapping_overlap_def
  by (rule check_key_blocks_grow) (use starts_layout in \<open>simp add: starts_def\<close>)

lemma block_ends_grow:
  "flags_grow F t t' \<Longrightarrow> layout F t (block_starts t b n) \<Longrightarrow> (next_word t' ^^ n) b = (next_word t ^^ n) b"
  by (induction n arbitrary: b) (auto simp: layout_def next_word_grow funpow_swap1)

lemma check_mapping_overlap_starts: "starts (check_mapping_overlap t) = starts t"
proof -
  have "tbl_num_blocks (check_mapping_overlap t) = tbl_num_blocks t"
    using check_mapping_overlap_grow [of t] by (simp add: flags_grow_def)
  then show ?thesis
    using block_starts_grow [OF check_mapping_overlap_grow] starts_layout unfolding starts_def by metis
qed

lemma flag_test_clear: "(f AND shl 1 1 = 0) \<longleftrightarrow> \<not> bit f 1" for f :: u32
proof -
  have "f AND shl 1 1 = f AND 2 ^ 1" by simp
  then show ?thesis by (simp only: and_exp_eq_0_iff_not_bit)
qed

subsection \<open>The counters of the header\<close>

lemma count_node_counter:
  assumes "\<not> invalid_type d" "kind < 5"
  shows "counter (count_node d t) kind = counter t kind + (if kind_of_type (iort_type d) = kind then 1 else 0)"
    "tbl_num_blocks (count_node d t) = tbl_num_blocks t" "tbl_words (count_node d t) = tbl_words t"
  using assms by (cases d; simp add: counter_def kind_of_type_def iovirt_node_defs invalid_type_def)+

lemma writes_refl [simp]: "writes W t t"
  by (simp add: writes_def)

lemma writes_trans: "writes W t t' \<Longrightarrow> writes W t' t'' \<Longrightarrow> writes W t t''"
  by (simp add: writes_def)

lemma writes_put_word: "writes W t s \<Longrightarrow> w \<in> W \<Longrightarrow> writes W t (put_word w v s)"
  by (auto simp: writes_def)

lemma writes_put_words: "writes W t s \<Longrightarrow> {w ..< w + length vs} \<subseteq> W \<Longrightarrow> writes W t (put_words w vs s)"
proof (induction vs arbitrary: w s)
  case (Cons v vs)
  have "writes W t (put_word w v s)" using Cons.prems by (intro writes_put_word) auto
  moreover have "{w + 1 ..< w + 1 + length vs} \<subseteq> W" using Cons.prems(2) by auto
  ultimately show ?case using Cons.IH by simp
qed simp

lemma writes_put_dword: "writes W t s \<Longrightarrow> w \<in> W \<Longrightarrow> w + 1 \<in> W \<Longrightarrow> writes W t (put_dword w v s)"
  by (simp add: put_dword_def writes_put_word)

lemmas writes_intros = writes_put_word writes_put_words writes_put_dword

lemma writes_header_data: "writes {b ..} t (put_node_data d b (put_header node b t))"
  by (cases d) (auto simp: put_header_def intro!: writes_intros)

lemma writes_smmu_base: "b + 6 \<in> W \<Longrightarrow> b + 7 \<in> W \<Longrightarrow> writes W t s \<Longrightarrow> writes W t (put_smmu_base d b off s)"
  by (auto simp: put_smmu_base_def Let_def BLK_DATA_def add.commute intro!: writes_intros)

lemma writes_node_data: "writes {b + 1 ..} t s \<Longrightarrow> writes {b + 1 ..} t (put_node_data d b s)"
  by (cases d) (auto simp: blk_offsets intro!: writes_intros)

lemma header_type:
  "tbl_words (put_node_data d b (put_header node b t)) b = iort_type (node_data node)"
  using writes_node_data [OF writes_refl, of b "put_header node b t" d]
  by (simp add: writes_def put_header_def blk_offsets)

lemma chain_le: "chain t b k b' \<Longrightarrow> b \<le> b'"
proof (induction k arbitrary: b)
  case (Suc k)
  then have "next_word t b \<le> b'" by (simp add: chain_def funpow_swap1)
  moreover have "b \<le> next_word t b" by (simp add: next_word_def)
  ultimately show ?case by simp
qed (simp add: chain_def)

lemma chain_cong:
  assumes "chain t b k b'" and "\<And>w. b \<le> w \<Longrightarrow> w < b' \<Longrightarrow> tbl_words t' w = tbl_words t w"
  shows "chain t' b k b'" "block_starts t' b k = block_starts t b k"
    "kinds t' (block_starts t b k) = kinds t (block_starts t b k)"
proof -
  have "chain t' b k b' \<and> block_starts t' b k = block_starts t b k \<and> (\<forall>x\<in>set (block_starts t b k). tbl_words t' x = tbl_words t x)"
    using assms
  proof (induction k arbitrary: b)
    case (Suc k)
    have nx: "chain t (next_word t b) k b'" using Suc.prems(1) by (simp add: chain_def funpow_swap1)
    have lt: "b + 67 \<le> b'" using chain_le [OF nx] by (simp add: next_word_def blk_offsets)
    then have w: "tbl_words t' b = tbl_words t b" "next_word t' b = next_word t b"
      using Suc.prems(2) by (simp_all add: next_word_def blk_offsets)
    have "b \<le> next_word t b" by (simp add: next_word_def)
    with Suc.IH [OF nx] Suc.prems(2) w show ?case by (auto simp: chain_def funpow_swap1)
  qed (simp add: chain_def)
  moreover from this have "kinds t' (block_starts t b k) = kinds t (block_starts t b k)"
    unfolding kinds_def fun_eq_iff by (auto cong: filter_cong)
  ultimately show "chain t' b k b'" "block_starts t' b k = block_starts t b k"
    "kinds t' (block_starts t b k) = kinds t (block_starts t b k)" by blast+
qed

lemma chain_append:
  "chain t b k c \<Longrightarrow> block_starts t b (k + l) = block_starts t b k @ block_starts t c l"
  by (induction k arbitrary: b) (simp_all add: chain_def funpow_swap1)

lemma chain_add: "chain t b k c \<Longrightarrow> chain t c l d \<Longrightarrow> chain t b (k + l) d"
  by (simp add: chain_def funpow_add add.commute [of k])

lemma kinds_append: "kinds t (xs @ ys) kind = kinds t xs kind + kinds t ys kind"
  by (simp add: kinds_def)

lemma added_trans:
  assumes "added k V t b s c" and "added l W s c u d" and "\<And>w. b \<le> w \<Longrightarrow> w < c \<Longrightarrow> w \<notin> W"
  shows "added (k + l) (V \<union> W) t b u d"
proof -
  have ch: "chain u b k c" "block_starts u b k = block_starts s b k"
    "kinds u (block_starts u b k) = kinds s (block_starts s b k)"
    using chain_cong [of s b k c u] assms by (simp_all add: added_def)
  moreover have "chain u c l d" using assms(2) by (simp add: added_def)
  moreover have "b \<le> c" using chain_le ch(1) .
  ultimately show ?thesis
    using assms(1,2) chain_add [OF ch(1)] chain_append [OF ch(1), of l] by (auto simp: added_def kinds_append)
qed

lemma writes_added: "writes W t t' \<Longrightarrow> added 0 W t b t' b"
  by (simp add: added_def chain_def writes_def kinds_def)

lemma added_mono: "added k W t b t' b' \<Longrightarrow> (\<And>w. w \<in> W \<Longrightarrow> w < b \<Longrightarrow> w \<in> W') \<Longrightarrow> added k W' t b t' b'"
  by (auto simp: added_def)

lemma block_added:
  assumes inv: "\<not> invalid_type d" and "writes {b ..} t t1" "tbl_words t1 b = iort_type d"
    and "added k ({b + 6, b + 7} \<union> {b + 67 ..< next_word t1 b}) t1 (next_word t1 b) t5 nb"
  shows "added (Suc k) {} t b (count_node d (t5\<lparr>tbl_num_blocks := tbl_num_blocks t5 + 1\<rparr>)) nb"
proof -
  define u where "u = count_node d (t5\<lparr>tbl_num_blocks := tbl_num_blocks t5 + 1\<rparr>)"
  have nb: "b + 67 \<le> next_word t1 b" by (simp add: next_word_def blk_offsets)
  have w: "tbl_words u = tbl_words t5" "tbl_num_blocks u = tbl_num_blocks t5 + 1"
    using count_node_counter(2,3) [OF inv, of 0] by (simp_all add: u_def)
  have nw: "next_word u = next_word t5" by (simp add: next_word_def w fun_eq_iff)
  have st: "block_starts u c n = block_starts t5 c n" "kinds u = kinds t5" for c n
    by (induction n arbitrary: c) (simp_all add: nw kinds_def w fun_eq_iff)
  have b: "tbl_words t5 b = iort_type d" "next_word t5 b = next_word t1 b"
    using assms(3,4) nb by (auto simp: added_def next_word_def blk_offsets)
  have ch: "chain u b (Suc k) nb" using assms(4) b by (simp add: added_def chain_def funpow_swap1 nw)
  have ct: "counter u kind = counter t kind + of_nat (kinds t5 (block_starts t5 b (Suc k)) kind)" if "kind < 5" for kind
  proof -
    have "counter u kind = counter t5 kind + (if kind_of_type (iort_type d) = kind then 1 else 0)"
      using count_node_counter(1) [OF inv that] by (simp add: counter_def u_def)
    then show ?thesis using assms(2,4) b that by (simp add: added_def writes_def kinds_def)
  qed
  have "tbl_words u v = tbl_words t v" if "v < b" for v
    using assms(2,4) that nb w by (simp add: added_def writes_def)
  moreover have "tbl_num_blocks u = tbl_num_blocks t + of_nat (Suc k)"
    using assms(2,4) w by (simp add: added_def writes_def)
  ultimately show ?thesis unfolding u_def [symmetric] added_def using ch ct st nw by simp
qed

lemma header_num:
  assumes "\<not> is_its_group d"
  shows "tbl_words (put_node_data d b (put_header node b t)) (b + BLK_NUM) = of_nat (length (node_mappings node))"
proof -
  have "writes {b + 2 ..} s (put_node_data d b s)" for s
    using assms by (cases d) (auto simp: blk_offsets is_its_group_def intro!: writes_intros)
  from this [of "put_header node b t"] show ?thesis by (simp add: writes_def put_header_def blk_offsets)
qed

lemma add_block_cases:
  assumes "iort_add_block iort (Suc fuel) node b t = Some (off, b', t')" "pmcg_ref (node_data node) = None"
  defines "d \<equiv> node_data node" and "t1 \<equiv> put_node_data (node_data node) b (put_header node b t)"
  defines "t3 \<equiv> put_word (b + BLK_FLAGS) 0 t1"
  defines "t4 \<equiv> put_word (b + BLK_FLAGS) (ctx_int_flag d) t3"
  shows "(invalid_type d \<and> t' = t1 \<and> b' = b) \<or> (t' = t3 \<and> b' = b) \<or>
    (\<exists>nb t5. \<not> invalid_type d \<and> b' = nb \<and> t' = count_node d (t5\<lparr>tbl_num_blocks := tbl_num_blocks t5 + 1\<rparr>) \<and>
       (if is_its_group d then Some (next_word t3 b, t4)
        else add_mappings iort fuel d b (node_mappings node) (b + BLK_MAP) (next_word t3 b) t4) = Some (nb, t5) \<and>
       find_block b t3 = 0)"
proof -
  have "(if invalid_type d then Some (0xFFFFFFFF, b, t1)
      else if find_block b t3 \<noteq> 0 then Some (find_block b t3, b, t3)
      else do { (nb, t5) \<leftarrow> (if is_its_group d then Some (next_word t3 b, t4)
                     else add_mappings iort fuel d b (node_mappings node) (b + BLK_MAP) (next_word t3 b) t4);
                Some (byte_offset b, nb, count_node d (t5\<lparr>tbl_num_blocks := tbl_num_blocks t5 + 1\<rparr>)) }) = Some (off, b', t')"
    using assms(1,2) unfolding iort_add_block.simps(2) Let_def
    by (simp only: d_def t1_def t3_def t4_def option.case bind.bind_lunit)
  note eq = this
  show ?thesis
  proof (cases "invalid_type d \<or> find_block b t3 \<noteq> 0")
    case True
    with eq show ?thesis by (cases "invalid_type d") simp_all
  next
    case False
    let ?m = "if is_its_group d then Some (next_word t3 b, t4)
                     else add_mappings iort fuel d b (node_mappings node) (b + BLK_MAP) (next_word t3 b) t4"
    from eq False obtain nb t5 where "?m = Some (nb, t5)"
      "Some (byte_offset b, nb, count_node d (t5\<lparr>tbl_num_blocks := tbl_num_blocks t5 + 1\<rparr>)) = Some (off, b', t')"
      by (cases ?m) auto
    with False show ?thesis by (intro disjI2 exI [of _ nb] exI [of _ t5]) simp
  qed
qed

lemma add_block_added:
  "iort_add_block iort fuel node b t = Some (off, b', t') \<Longrightarrow> \<forall>n. plain_node (iort n) \<Longrightarrow> plain_node node \<Longrightarrow>
     \<exists>k \<le> tree_size iort fuel node. added k {} t b t' b'"
  "add_mappings iort fuel d b ims m nb t = Some (nb', t') \<Longrightarrow> \<forall>n. plain_node (iort n) \<Longrightarrow> b + 67 \<le> m \<Longrightarrow> m + 4 * length ims \<le> nb \<Longrightarrow>
     \<exists>k \<le> sum_list (map (\<lambda>m. tree_size iort fuel (iort (unat (idm_output_reference m)))) ims).
       added k ({b + 6, b + 7} \<union> {m ..< m + 4 * length ims}) t nb t' nb'"
proof (induction iort fuel node b t and iort fuel d b ims m nb t arbitrary: off b' t' and nb' t'
    rule: iort_add_block_add_mappings.induct)
  case (2 iort fuel node b t)
  let ?d = "node_data node"
  let ?t1 = "put_node_data ?d b (put_header node b t)"
  let ?t3 = "put_word (b + BLK_FLAGS) 0 ?t1"
  let ?t4 = "put_word (b + BLK_FLAGS) (ctx_int_flag ?d) ?t3"
  have w: "writes {b ..} t ?t1" "writes {b ..} t ?t3" "writes {b ..} t ?t4"
    by (auto intro!: writes_header_data writes_put_word)
  have same: "added 0 {} t b s b" if "writes {b ..} t s" for s
    by (rule added_mono [OF writes_added [OF that]]) simp
  have plain: "pmcg_ref ?d = None" "length (node_mappings node) < 2 ^ 32"
    using "2.prems"(3) by (simp_all add: plain_node_def)
  from add_block_cases [OF "2.prems"(1) plain(1)]
  consider (inv) "invalid_type ?d" "t' = ?t1" "b' = b" | (found) "t' = ?t3" "b' = b"
    | (new) nb t5 where "\<not> invalid_type ?d" "b' = nb" "t' = count_node ?d (t5\<lparr>tbl_num_blocks := tbl_num_blocks t5 + 1\<rparr>)"
        "(if is_its_group ?d then Some (next_word ?t3 b, ?t4)
          else add_mappings iort fuel ?d b (node_mappings node) (b + BLK_MAP) (next_word ?t3 b) ?t4) = Some (nb, t5)"
        "find_block b ?t3 = 0" by metis
  then show ?case
  proof cases
    case inv
    then show ?thesis using same [OF w(1)] by auto
  next
    case found
    then show ?thesis using same [OF w(2)] by auto
  next
    case (new nb t5)
    have ty: "tbl_words ?t4 b = iort_type ?d" by (simp add: header_type blk_offsets)
    have nx: "next_word ?t3 b = next_word ?t4 b" by (simp add: next_word_def blk_offsets)
    have "\<exists>k \<le> sum_list (map (\<lambda>m. tree_size iort fuel (iort (unat (idm_output_reference m)))) (node_mappings node)).
        added k ({b + 6, b + 7} \<union> {b + 67 ..< next_word ?t4 b}) ?t4 (next_word ?t4 b) t5 nb"
    proof (cases "is_its_group ?d")
      case True
      then have "t5 = ?t4" "nb = next_word ?t4 b" using new(4) nx by auto
      then show ?thesis using writes_added [OF writes_refl] by blast
    next
      case False
      have len: "b + BLK_MAP + 4 * length (node_mappings node) = next_word ?t4 b"
        using header_num [OF False, of b node t] plain(2)
        by (simp add: next_word_def blk_offsets word_le_of_nat_less)
      have am: "add_mappings iort fuel ?d b (node_mappings node) (b + BLK_MAP) (next_word ?t3 b) ?t4 = Some (nb, t5)"
        using new(4) False by simp
      have "\<exists>k \<le> sum_list (map (\<lambda>m. tree_size iort fuel (iort (unat (idm_output_reference m)))) (node_mappings node)).
          added k ({b + 6, b + 7} \<union> {b + BLK_MAP ..< b + BLK_MAP + 4 * length (node_mappings node)}) ?t4 (next_word ?t3 b) t5 nb"
        by (rule "2.IH"(2) [OF refl refl _ new(1) refl refl _ refl False am "2.prems"(2)])
          (use plain(1) new(5) len nx in \<open>simp_all add: BLK_MAP_def\<close>)
      then show ?thesis unfolding len nx by (simp add: BLK_MAP_def)
    qed
    then show ?thesis using block_added [OF new(1) w(3) ty] new(2,3) by fastforce
  qed
next
  case (4 iort fuel d b im ims m nb t)
  let ?W = "{b + 6, b + 7} \<union> {m ..< m + 4 * length (im # ims)}"
  let ?t1 = "put_words m [idm_input_base im, idm_id_count im, idm_output_base im] t"
  obtain off nb1 t2 where a: "iort_add_block iort fuel (iort (unat (idm_output_reference im))) nb ?t1 = Some (off, nb1, t2)"
    and l: "add_mappings iort fuel d b ims (m + 4) nb1 (put_smmu_base d b off (put_word (m + 3) off t2)) = Some (nb', t')"
    using "4.prems"(1) by (auto simp: Let_def bind_eq_Some_conv)
  let ?t3 = "put_smmu_base d b off (put_word (m + 3) off t2)"
  have w: "added 0 ?W t nb ?t1 nb" "added 0 ?W t2 nb1 ?t3 nb1"
    by (rule writes_added; auto intro!: writes_intros writes_smmu_base)+
  obtain k1 where k1: "k1 \<le> tree_size iort fuel (iort (unat (idm_output_reference im)))" "added k1 {} ?t1 nb t2 nb1"
    using "4.IH"(1) [OF refl a "4.prems"(2)] "4.prems"(2) by blast
  have le: "nb \<le> nb1" using k1(2) chain_le unfolding added_def by blast
  obtain k2 where k2: "k2 \<le> sum_list (map (\<lambda>m. tree_size iort fuel (iort (unat (idm_output_reference m)))) ims)"
    "added k2 ({b + 6, b + 7} \<union> {m + 4 ..< m + 4 + 4 * length ims}) ?t3 nb1 t' nb'"
    using "4.IH"(2) [OF refl a refl refl refl l "4.prems"(2)] "4.prems"(3,4) le by fastforce
  have "added (0 + k1 + 0 + k2) (?W \<union> {} \<union> ?W \<union> ({b + 6, b + 7} \<union> {m + 4 ..< m + 4 + 4 * length ims})) t nb t' nb'"
    using "4.prems"(3,4) by (intro added_trans [OF added_trans [OF added_trans [OF w(1) k1(2)] w(2)] k2(2)]) auto
  then have "added (k1 + k2) ?W t nb t' nb'" by (auto elim: added_mono)
  with k1(1) k2(1) show ?case by (intro exI [of _ "k1 + k2"]) simp
qed (auto intro: writes_added)

lemma iort_loop_added:
  assumes plain: "\<forall>n. plain_node (iort_node_at iort n)" and size: "\<forall>n. tree_size (iort_node_at iort) fuel (iort_node_at iort n) \<le> s"
  shows "iort_loop fuel iort pos b n t = Some (c, t') \<Longrightarrow> \<exists>k b'. k \<le> n * s \<and> added k {} t b t' b'"
proof (induction n arbitrary: pos b t)
  case 0
  then show ?case using writes_added [OF writes_refl] by auto
next
  case (Suc n)
  show ?case
  proof (cases "pos \<ge> unat (iort_length iort)")
    case True
    then have "t' = t" using Suc.prems by simp
    then show ?thesis using writes_added [OF writes_refl, of "{}" t b] by (intro exI [of _ 0] exI [of _ b]) simp
  next
    case False
    let ?node = "iort_node_at iort pos"
    obtain off b1 t1 where a: "iort_add_block (iort_node_at iort) fuel ?node b t = Some (off, b1, t1)"
      and l: "iort_loop fuel iort (pos + unat (node_length ?node)) b1 n t1 = Some (c, t')"
      using Suc.prems False by (auto simp: Let_def bind_eq_Some_conv)
    obtain k where k: "k \<le> s" "added k {} t b t1 b1"
      using add_block_added(1) [OF a] plain size le_trans by metis
    obtain l b' where "l \<le> n * s" "added l {} t1 b1 t' b'" using Suc.IH [OF l] by blast
    with added_trans [OF k(2) this(2)] k(1) show ?thesis by (intro exI [of _ "k + l"] exI [of _ b']) simp
  qed
qed

lemma iort_loop_total:
  assumes "ranked (iort_node_at iort) r" and "\<forall>n. r n < fuel"
  shows "\<exists>c t'. iort_loop fuel iort pos b n t = Some (c, t')"
proof (induction n arbitrary: pos b t)
  case (Suc n)
  obtain f where f: "fuel = Suc f" using assms(2) by (metis less_nat_zero_code not0_implies_Suc)
  have "\<forall>m\<in>set (node_refs (iort_node_at iort pos)). r m < f"
  proof
    fix m assume "m \<in> set (node_refs (iort_node_at iort pos))"
    then have "r m < r pos" using assms(1) by (simp add: ranked_def)
    moreover have "r pos < Suc f" using assms(2) f by blast
    ultimately show "r m < f" by simp
  qed
  from add_block_total [OF assms(1) this, of b t] obtain off b1 t1
    where "iort_add_block (iort_node_at iort) fuel (iort_node_at iort pos) b t = Some (off, b1, t1)" unfolding f by auto
  then show ?case using Suc.IH by (auto simp: Let_def)
qed auto

lemma kinds_read: "kinds t bs kind = length (filter (\<lambda>b. kind_of_type (blk_type b) = kind) (map (read_block t) bs))"
  by (induction bs) (simp_all add: kinds_def read_block_def)

lemma kinds_overlap: "kinds (check_mapping_overlap t) (starts t) = kinds t (starts t)"
proof -
  have "tbl_words (check_mapping_overlap t) b = tbl_words t b" if "b \<in> set (starts t)" for b
    using flags_growD(1) [OF check_mapping_overlap_grow] starts_layout [of t] that by (auto simp: layout_def)
  then show ?thesis by (auto simp: kinds_def fun_eq_iff cong: filter_cong)
qed

subsection \<open>Properties\<close>

text \<open>
  Property C30. A block for which \<open>pal_iovirt_unique_rid_strid_map\<close> answers 1 after \<open>check_mapping_overlap\<close> has no mapping
  whose output identifiers (\<open>id_count\<close> of them from the output base) overlap those of another mapping of the
  table to the same SMMU.
\<close>

theorem unique_strid_no_overlap:
  assumes fits: "4 * table_end t < 2 ^ 32"
    and blk: "block_at (read_table addr t) o1 = Some b1" "block_at (read_table addr t) o2 = Some b2"
      "block_at (read_table addr t) (ucast (map_output_ref m1)) = Some target"
    and ty: "blk_type b1 \<noteq> IOVIRT_NODE_ITS_GROUP" "blk_type b2 \<noteq> IOVIRT_NODE_ITS_GROUP" "blk_type target \<noteq> IOVIRT_NODE_ITS_GROUP"
    and maps: "p < length (data_map b1)" "m1 = data_map b1 ! p" "q < length (data_map b2)" "m2 = data_map b2 ! q"
      "(o1, p) \<noteq> (o2, q)" "map_output_ref m1 = map_output_ref m2" "proper_map m1" "proper_map m2"
    and passed: "pal_iovirt_unique_rid_strid_map (read_table addr (check_mapping_overlap t)) (addr + o1) = Some 1"
  shows "id_range m1 \<inter> id_range m2 = {}"
proof (rule ccontr)
  assume ne: "id_range m1 \<inter> id_range m2 \<noteq> {}"
  obtain x1 x2 x where x: "x1 \<in> set (starts t)" "o1 = of_nat (4 * x1)" "b1 = read_block t x1"
      "x2 \<in> set (starts t)" "o2 = of_nat (4 * x2)" "b2 = read_block t x2"
      "x \<in> set (starts t)" "ucast (map_output_ref m1) = (of_nat (4 * x) :: u64)" "target = read_block t x"
    using blk unfolding block_at_starts [OF fits] by blast
  have fx: "4 * y < 2 ^ 32" if "y \<in> set (starts t)" for y
    using block_starts_end [OF that [unfolded starts_def]] fits by (simp add: table_end_def next_word_def)
  have ref: "map_output_ref m1 = of_nat (4 * x)"
  proof -
    have "unat (of_nat (4 * x) :: u64) = 4 * x" using fx [OF x(7)] by (intro word_le_of_nat_less) simp
    then have "unat (map_output_ref m1) = 4 * x" using x(8) by (metis unat_ucast_u32)
    then have "of_nat (unat (map_output_ref m1)) = (of_nat (4 * x) :: u32)" by simp
    then show ?thesis by simp
  qed
  note n1 = nth_read_map [OF maps(1) [unfolded x(3)]] and n2 = nth_read_map [OF maps(3) [unfolded x(6)]]
  have m: "m1 = read_map t (x1 + BLK_MAP + 4 * p)" "m2 = read_map t (x2 + BLK_MAP + 4 * q)"
    using maps(2,4) n1 n2 x by simp_all
  have w: "tbl_words t x1 \<noteq> IOVIRT_NODE_ITS_GROUP" "tbl_words t x2 \<noteq> IOVIRT_NODE_ITS_GROUP" "tbl_words t x \<noteq> IOVIRT_NODE_ITS_GROUP"
    using ty x by (simp_all add: read_block_def)
  have r: "tbl_words t (x1 + BLK_MAP + 4 * p + 3) = of_nat (4 * x)" "tbl_words t (x2 + BLK_MAP + 4 * q + 3) = of_nat (4 * x)"
    using ref maps(6) m by (simp_all add: read_map_def)
  have ov: "ranges_overlap (tbl_words t (x1 + BLK_MAP + 4 * p + 2)) (map_range_end t (x1 + BLK_MAP + 4 * p))
      (tbl_words t (x2 + BLK_MAP + 4 * q + 2)) (map_range_end t (x2 + BLK_MAP + 4 * q))"
    using overlap_of_ranges [OF maps(7,8) ne] m by (simp add: read_map_def map_range_end_def)
  have vo: "ranges_overlap (tbl_words t (x2 + BLK_MAP + 4 * q + 2)) (map_range_end t (x2 + BLK_MAP + 4 * q))
      (tbl_words t (x1 + BLK_MAP + 4 * p + 2)) (map_range_end t (x1 + BLK_MAP + 4 * p))"
    using overlap_of_ranges [OF maps(8,7)] ne m by (simp add: read_map_def map_range_end_def Int_commute)
  have "(x1, p) \<noteq> (x2, q)" using maps(5) x by auto
  then have "both_flagged x1 x2 (check_mapping_overlap t) \<or> both_flagged x2 x1 (check_mapping_overlap t)"
    using clash_flagged [OF x(1,4,7) fx [OF x(7)] n1(2) n2(2) _ w r ov]
      clash_flagged [OF x(4,1,7) fx [OF x(7)] n2(2) n1(2) _ w(2,1,3) r(2,1) vo] by fastforce
  then have "bit (tbl_words (check_mapping_overlap t) (x1 + BLK_FLAGS)) 1" by (auto simp: both_flagged_def)
  moreover have "block_at (read_table addr (check_mapping_overlap t)) o1 = Some (read_block (check_mapping_overlap t) x1)"
  proof -
    have "table_end (check_mapping_overlap t) = table_end t"
      using block_ends_grow [OF check_mapping_overlap_grow] starts_layout [of t] check_mapping_overlap_grow [of t]
      by (simp add: table_end_def starts_def flags_grow_def)
    then show ?thesis using block_at_starts [of "check_mapping_overlap t"] fits x(1,2) check_mapping_overlap_starts by metis
  qed
  ultimately show False
    using passed by (simp add: pal_iovirt_unique_rid_strid_map_def flag_test_clear [simplified] read_table_addr read_block_def)
qed

theorem unique_strid_no_overlap_witness:
  "id_range (read_map example_table 140) \<inter> id_range (read_map example_table 144) = {}"
proof (rule unique_strid_no_overlap [where t = example_table and addr = 0 and ?o1.0 = 292 and ?o2.0 = 292 and p = 0 and q = 1
    and ?b1.0 = "read_block example_table 73" and ?b2.0 = "read_block example_table 73" and target = "read_block example_table 6"])
  have "table_end example_table = 148" by code_simp
  then show "4 * table_end example_table < 2 ^ 32" by simp
  show "block_at (read_table 0 example_table) 292 = Some (read_block example_table 73)" by code_simp
  show "block_at (read_table 0 example_table) (ucast (map_output_ref (read_map example_table 140))) = Some (read_block example_table 6)"
    by code_simp
  show "proper_map (read_map example_table 140)" "proper_map (read_map example_table 144)"
    by (simp_all add: proper_map_def read_map_def example_table_def)
  show "pal_iovirt_unique_rid_strid_map (read_table 0 (check_mapping_overlap example_table)) (0 + 292) = Some 1" by code_simp
qed code_simp+

text \<open>
  Property C31. For an IORT whose references have no cycle (each node has a rank above those it refers to) and that has no
  PMCG nodes, \<open>pal_iovirt_create_info_table\<close> returns, and every counter of the header of the table equals the
  number of blocks of its kind that the validation layer reads from the table.
\<close>

theorem create_info_table_counts:
  assumes ranked: "ranked (iort_node_at iort) r" "\<forall>n. r n < fuel"
    and plain: "\<forall>n. plain_node (iort_node_at iort n)"
    and size: "\<forall>n. tree_size (iort_node_at iort) fuel (iort_node_at iort n) \<le> s" "unat (iort_node_count iort) * s < 2 ^ 32"
  shows "\<exists>t'. pal_iovirt_create_info_table fuel (Some iort) (Some t) = Some (Some t') \<and>
    (let bs = blocks (read_table addr t') in
       unat (tbl_num_blocks t') = length bs \<and>
       (\<forall>kind<5. unat (counter t' kind) = length (filter (\<lambda>b. kind_of_type (blk_type b) = kind) bs)))"
proof -
  let ?t0 = "t\<lparr>tbl_num_blocks := 0, tbl_num_smmus := 0, tbl_num_pci_rcs := 0, tbl_num_named_components := 0,
                 tbl_num_its_groups := 0, tbl_num_pmcgs := 0\<rparr>"
  obtain c t1 where l: "iort_loop fuel iort (unat (iort_node_offset iort)) FIRST_BLOCK (unat (iort_node_count iort)) ?t0 = Some (c, t1)"
    using iort_loop_total [OF ranked] by blast
  obtain k b where k: "k < 2 ^ 32" "added k {} ?t0 FIRST_BLOCK t1 b"
    using iort_loop_added [OF plain size(1) l] size(2) by (meson le_less_trans)
  have n: "unat (of_nat j :: u32) = j" if "j \<le> k" for j using that k(1) by (intro word_le_of_nat_less) simp
  have st: "starts t1 = block_starts t1 FIRST_BLOCK k" "unat (tbl_num_blocks t1) = k"
    using k(2) n by (simp_all add: starts_def added_def)
  have cnt: "unat (counter t1 kind) = kinds t1 (starts t1) kind" if "kind < 5" for kind
  proof -
    have "kinds t1 (starts t1) kind \<le> k" using length_filter_le [of _ "starts t1"] st by (simp add: kinds_def)
    moreover have "counter ?t0 kind = 0" by (simp add: counter_def)
    ultimately show ?thesis using k(2) n that by (simp add: added_def st)
  qed
  define u where "u = (if c then check_mapping_overlap t1 else t1)"
  have u: "starts u = starts t1" "kinds u (starts t1) = kinds t1 (starts t1)" "counter u = counter t1"
      "tbl_num_blocks u = tbl_num_blocks t1"
    using check_mapping_overlap_starts kinds_overlap check_mapping_overlap_grow [of t1] by (simp_all add: flags_grow_def u_def)
  have "pal_iovirt_create_info_table fuel (Some iort) (Some t) = Some (Some u)"
    using l by (simp add: pal_iovirt_create_info_table_def PLATFORM_OVERRIDE_SMMU_BASE_def u_def)
  moreover have "unat (tbl_num_blocks u) = length (starts u)" using st u by simp
  moreover have "\<forall>kind<5. unat (counter u kind) = kinds u (starts u) kind" using cnt u by simp
  ultimately show ?thesis unfolding Let_def read_table_blocks kinds_read [symmetric] length_map by blast
qed

theorem create_info_table_counts_witness:
  "\<exists>t'. pal_iovirt_create_info_table 3 (Some example_iort) (Some example_table) = Some (Some t') \<and>
     unat (counter t' 3) = length (filter (\<lambda>b. kind_of_type (blk_type b) = 3) (blocks (read_table 0 t')))"
proof -
  let ?r = "\<lambda>n :: nat. if n = 180 then 0 else if n = 92 then 1 else 2 :: nat"
  have "\<exists>t'. pal_iovirt_create_info_table 3 (Some example_iort) (Some example_table) = Some (Some t') \<and>
    (let bs = blocks (read_table 0 t') in unat (tbl_num_blocks t') = length bs \<and>
       (\<forall>kind<5. unat (counter t' kind) = length (filter (\<lambda>b. kind_of_type (blk_type b) = kind) bs)))"
  proof (rule create_info_table_counts [where r = ?r and s = 3])
    show "ranked (iort_node_at example_iort) ?r"
      by (simp add: ranked_def node_refs_def example_iort_def pmcg_ref_def)
    show "\<forall>n. plain_node (iort_node_at example_iort n)"
      by (simp add: plain_node_def example_iort_def pmcg_ref_def)
    show "\<forall>n. tree_size (iort_node_at example_iort) 3 (iort_node_at example_iort n) \<le> 3"
      by (simp add: example_iort_def numeral_3_eq_3)
  qed (simp_all add: example_iort_def)
  then show ?thesis unfolding Let_def by fastforce
qed

end
