(* ===== verification/Acs_Pal_Acpi.thy ===== *)
theory Acs_Pal_Acpi
  imports Acs_Gic Acs_Devices Acs_Loops
begin

text \<open>
  The tables that the ACPI platform layer builds: \<^verbatim>\<open>platform/pal_uefi/src/pal_acpi.c\<close>, \<open>pal_pe.c\<close>, the creation of
  the GIC table in \<open>pal_gic.c\<close>, \<open>pal_timer_wd.c\<close> and the ECAM table of \<open>pal_pcie.c\<close>.

  An ACPI table is given by its header and the structure (with its \<open>Length\<close>) at every byte offset; the
  layouts come from headers that are not part of the repository, so the sizes are fields of the records and
  the structures are read by their fields.  A table that is filled is memory: an array keeps in every entry
  the fields that are not written.  \<open>read_\<dots>\<close> gives the table as the validation layer sees it.  A loop
  that does not end is \<open>None\<close>; console messages are left out, cache maintenance has no effect on the values.
\<close>

subsection \<open>Finding a table (pal_acpi.c)\<close>

text \<open>
  \<open>config_tables\<close> has, for each configuration table of UEFI, whether its identifier is one of the two of ACPI, and its address.
\<close>

record acpi_env =
  config_tables :: "(bool \<times> u64) list"
  XsdtAddress :: "u64 \<Rightarrow> u64"
  desc_Length :: "u64 \<Rightarrow> u32"
  sizeof_desc :: u64
  read_u64 :: "u64 \<Rightarrow> u64"
  read_u32 :: "u64 \<Rightarrow> u32"
  MADT_SIGNATURE :: u32
  GTDT_SIGNATURE :: u32
  MCFG_SIGNATURE :: u32
  SPCR_SIGNATURE :: u32
  IORT_SIGNATURE :: u32

fun rsdp_loop :: "(bool \<times> u64) list \<Rightarrow> u64" where
  "rsdp_loop [] = 0"
| "rsdp_loop ((acpi, a) # ts) = (if acpi then a else rsdp_loop ts)"

definition pal_get_xsdt_ptr :: "acpi_env \<Rightarrow> u64" where
  "pal_get_xsdt_ptr E = (let Rsdp = rsdp_loop (config_tables E) in if Rsdp = 0 then 0 else XsdtAddress E Rsdp)"

fun xsdt_loop :: "acpi_env \<Rightarrow> u32 \<Rightarrow> u64 \<Rightarrow> nat \<Rightarrow> u64" where
  "xsdt_loop E sig entry 0 = 0"
| "xsdt_loop E sig entry (Suc n) =
     (if read_u32 E (read_u64 E entry) = sig then read_u64 E entry else xsdt_loop E sig (entry + 8) n)"

definition get_table_ptr :: "acpi_env \<Rightarrow> u32 \<Rightarrow> u64" where
  "get_table_ptr E sig =
     (let Xsdt = pal_get_xsdt_ptr E
      in if Xsdt = 0 then 0
         else xsdt_loop E sig (Xsdt + sizeof_desc E)
                (unat (ucast (shr (ucast (desc_Length E Xsdt) - sizeof_desc E) 3 :: u64) :: u32)))"

definition pal_get_madt_ptr :: "acpi_env \<Rightarrow> u64" where "pal_get_madt_ptr E = get_table_ptr E (MADT_SIGNATURE E)"
definition pal_get_gtdt_ptr :: "acpi_env \<Rightarrow> u64" where "pal_get_gtdt_ptr E = get_table_ptr E (GTDT_SIGNATURE E)"
definition pal_get_mcfg_ptr :: "acpi_env \<Rightarrow> u64" where "pal_get_mcfg_ptr E = get_table_ptr E (MCFG_SIGNATURE E)"
definition pal_get_spcr_ptr :: "acpi_env \<Rightarrow> u64" where "pal_get_spcr_ptr E = get_table_ptr E (SPCR_SIGNATURE E)"
definition pal_get_iort_ptr :: "acpi_env \<Rightarrow> u64" where "pal_get_iort_ptr E = get_table_ptr E (IORT_SIGNATURE E)"

subsection \<open>The MADT\<close>

record GIC_STRUCTURE =
  gicc_PhysicalBaseAddress :: u64
  gicc_GICRBaseAddress :: u64
  gicc_GICH :: u64
  gicc_MPIDR :: u64
  gicc_PerformanceInterruptGsiv :: u32
  gicc_VGICMaintenanceInterrupt :: u32

record GIC_MSI_FRAME_STRUCTURE =
  msif_PhysicalBaseAddress :: u64
  msif_GicMsiFrameId :: u32
  msif_Flags :: u32
  msif_SPICount :: u16
  msif_SPIBase :: u16

datatype madt_entry =
    MADT_GIC GIC_STRUCTURE
  | MADT_GICD (PhysicalBaseAddress: u64) (GicVersion: u8)
  | MADT_GICR (DiscoveryRangeBaseAddress: u64) (DiscoveryRangeLength: u32)
  | MADT_GIC_ITS (ItsPhysicalBaseAddress: u64) (GicItsId: u32)
  | MADT_GIC_MSI_FRAME GIC_MSI_FRAME_STRUCTURE
  | MADT_OTHER

record MADT =
  madt_Length :: u32
  sizeof_madt :: u32
  madt_at :: "nat \<Rightarrow> madt_entry \<times> u8"

text \<open>
  \<open>do { \<dots> Length += Entry->Length; Entry += Entry->Length; } while (Length < TableLength)\<close>: \<open>Length\<close> has 32 bits, the
  pointer \<open>Entry\<close> is an offset into the table.
\<close>

definition madt_step :: "MADT \<Rightarrow> (madt_entry \<Rightarrow> 'a \<Rightarrow> 'a) \<Rightarrow> u32 \<times> nat \<times> 'a \<Rightarrow> 'a + u32 \<times> nat \<times> 'a" where
  "madt_step M f = (\<lambda>(len, pos, a).
     let (e, l) = madt_at M pos; a' = f e a; len' = len + ucast l
     in if len' < madt_Length M then Inr (len', pos + unat l, a') else Inl a')"

definition madt_walk :: "MADT \<Rightarrow> (madt_entry \<Rightarrow> 'a \<Rightarrow> 'a) \<Rightarrow> 'a \<Rightarrow> 'a option" where
  "madt_walk M f a = tail_iter (madt_step M f) (sizeof_madt M, unat (sizeof_madt M), a)"

subsection \<open>The PE table (pal_pe.c)\<close>

record pe_mem =
  pe_hdr_num :: u32
  pe_arr :: "nat \<Rightarrow> PE_INFO_ENTRY"

record pal_pe =
  gMpidrMax :: u64
  g_num_pe :: u32
  gSecondaryPeStack :: u64

definition SIZE_STACK_SECONDARY_PE :: u32 where "SIZE_STACK_SECONDARY_PE = 0x100"

definition UPDATE_AFF_MAX :: "u64 \<Rightarrow> u64 \<Rightarrow> u64 \<Rightarrow> u64" where
  "UPDATE_AFF_MAX src dest msk = (if (dest AND msk) > (src AND msk) then dest AND msk else src AND msk)"

definition AFF0_MASK :: u64 where "AFF0_MASK = 0x000000ff"
definition AFF1_MASK :: u64 where "AFF1_MASK = 0x0000ff00"
definition AFF2_MASK :: u64 where "AFF2_MASK = 0x00ff0000"
definition AFF3_MASK :: u64 where "AFF3_MASK = 0xff00000000"

lemmas aff_masks = AFF0_MASK_def AFF1_MASK_def AFF2_MASK_def AFF3_MASK_def

definition PalGetSecondaryStackBase :: "pal_pe \<Rightarrow> u64" where "PalGetSecondaryStackBase g = gSecondaryPeStack g"
definition pal_pe_get_num :: "pal_pe \<Rightarrow> u32" where "pal_pe_get_num g = g_num_pe g"
definition PalGetMaxMpidr :: "pal_pe \<Rightarrow> u64" where "PalGetMaxMpidr g = gMpidrMax g"

definition stack_pes :: "u64 \<Rightarrow> u32" where
  "stack_pes mp =
     (let Aff0 = ucast (shr (mp AND AFF0_MASK) 0); Aff1 = ucast (shr (mp AND AFF1_MASK) 8);
          Aff2 = ucast (shr (mp AND AFF2_MASK) 16); Aff3 = ucast (shr (mp AND AFF3_MASK) 32)
      in (Aff3 + 1) * (Aff2 + 1) * (Aff1 + 1) * (Aff0 + 1))"

text \<open>\<open>alloc n\<close> is the address that \<open>AllocatePool\<close> stores for \<open>n\<close> bytes; \<open>None\<close> is an error, which leaves the pointer as it was.\<close>

definition PalAllocateSecondaryStack :: "(u64 \<Rightarrow> u64 option) \<Rightarrow> u64 \<Rightarrow> pal_pe \<Rightarrow> pal_pe" where
  "PalAllocateSecondaryStack alloc mp g =
     (if gSecondaryPeStack g = 0
      then (case alloc (ucast (stack_pes mp * SIZE_STACK_SECONDARY_PE)) of
              None \<Rightarrow> g | Some a \<Rightarrow> g\<lparr>gSecondaryPeStack := a\<rparr>)
      else g)"

text \<open>The body of the loop on the table and the four maxima.\<close>

type_synonym aff_max = "u64 \<times> u64 \<times> u64 \<times> u64"

definition update_aff_max :: "u64 \<Rightarrow> aff_max \<Rightarrow> aff_max" where
  "update_aff_max mp = (\<lambda>(a0, a1, a2, a3). (UPDATE_AFF_MAX a0 mp AFF0_MASK, UPDATE_AFF_MAX a1 mp AFF1_MASK,
     UPDATE_AFF_MAX a2 mp AFF2_MASK, UPDATE_AFF_MAX a3 mp AFF3_MASK))"

fun pe_entry :: "madt_entry \<Rightarrow> nat \<times> pe_mem \<times> aff_max \<Rightarrow> nat \<times> pe_mem \<times> aff_max" where
  "pe_entry (MADT_GIC e) (ptr, t, aff) =
     (Suc ptr,
      t\<lparr>pe_arr := (pe_arr t)(ptr := (pe_arr t ptr)\<lparr>mpidr := gicc_MPIDR e, pe_num := pe_hdr_num t,
          pmu_gsiv := gicc_PerformanceInterruptGsiv e, gmain_gsiv := gicc_VGICMaintenanceInterrupt e\<rparr>),
        pe_hdr_num := pe_hdr_num t + 1\<rparr>,
      update_aff_max (gicc_MPIDR e) aff)"
| "pe_entry e st = st"

definition pal_pe_create_info_table :: "(u64 \<Rightarrow> u64 option) \<Rightarrow> MADT option \<Rightarrow> pe_mem option \<Rightarrow> pal_pe
    \<Rightarrow> (pe_mem option \<times> pal_pe) option" where
  "pal_pe_create_info_table alloc madt PeTable g =
     (case PeTable of
        None \<Rightarrow> Some (None, g)
      | Some t \<Rightarrow>
          (case madt of
             None \<Rightarrow> Some (Some t, g)
           | Some M \<Rightarrow> do {
               (ptr, t', a0, a1, a2, a3) \<leftarrow> madt_walk M pe_entry (0, t\<lparr>pe_hdr_num := 0\<rparr>, 0, 0, 0, 0);
               let mx = a0 OR a1 OR a2 OR a3;
               Some (Some t', PalAllocateSecondaryStack alloc mx (g\<lparr>gMpidrMax := mx, g_num_pe := pe_hdr_num t'\<rparr>)) }))"

definition read_pe_table :: "pe_mem \<Rightarrow> PE_INFO_TABLE" where
  "read_pe_table t = \<lparr>num_of_pe = pe_hdr_num t, pe_info = map (pe_arr t) [0..<unat (pe_hdr_num t)]\<rparr>"

text \<open>
  \<open>ModuleEntryPoint\<close>, the first code of a secondary PE: the stack pointer it computes from the base of the
  stacks, the largest affinities and its own \<open>MPIDR\<close>.
\<close>

definition core_pos :: "u64 \<Rightarrow> u64 \<Rightarrow> u64" where
  "core_pos mx mp =
     (let x1 = mp AND AFF0_MASK; x2 = shr (mp AND AFF1_MASK) 8; x3 = shr (mp AND AFF2_MASK) 16; x4 = shr (mp AND AFF3_MASK) 32;
          x5 = (mx AND AFF0_MASK) + 1; x6 = shr (mx AND AFF1_MASK) 8 + 1; x7 = shr (mx AND AFF2_MASK) 16 + 1
      in x4 * (x5 * x6 * x7) + (x3 * (x5 * x6) + (x2 * x5 + x1)))"

definition ModuleEntryPoint_sp :: "pal_pe \<Rightarrow> u64 \<Rightarrow> u64" where
  "ModuleEntryPoint_sp g mp = PalGetSecondaryStackBase g + 0x100 * core_pos (PalGetMaxMpidr g) mp"

subsection \<open>The GIC table (pal_gic.c)\<close>

definition ENTRY_TYPE_GICITS :: u32 where "ENTRY_TYPE_GICITS = 0x1004"

record gic_mem =
  gm_hdr :: GIC_INFO_TABLE
  gm_arr :: "nat \<Rightarrow> GIC_INFO_ENTRY"
  gm_next :: nat

text \<open>A new entry: \<open>GicEntry\<close> gets some of its fields and is moved on.\<close>

definition gic_new :: "(GIC_INFO_ENTRY \<Rightarrow> GIC_INFO_ENTRY) \<Rightarrow> gic_mem \<Rightarrow> gic_mem" where
  "gic_new f t = t\<lparr>gm_arr := (gm_arr t)(gm_next t := f (gm_arr t (gm_next t))), gm_next := Suc (gm_next t)\<rparr>"

definition gic_hdr :: "(GIC_INFO_TABLE \<Rightarrow> GIC_INFO_TABLE) \<Rightarrow> gic_mem \<Rightarrow> gic_mem" where
  "gic_hdr f t = t\<lparr>gm_hdr := f (gm_hdr t)\<rparr>"

definition count_gicrd :: "gic_mem \<Rightarrow> gic_mem" where
  "count_gicrd = gic_hdr (\<lambda>h. h\<lparr>hdr_num_gicrd := hdr_num_gicrd h + 1\<rparr>)"

fun gic_entry :: "madt_entry \<Rightarrow> gic_mem \<Rightarrow> gic_mem" where
  "gic_entry (MADT_GIC e) t =
     (let t1 = (if gicc_PhysicalBaseAddress e \<noteq> 0
                then gic_new (\<lambda>g. g\<lparr>ge_type := ENTRY_TYPE_CPUIF, ge_base := gicc_PhysicalBaseAddress e\<rparr>) t else t);
          t2 = (if gicc_GICRBaseAddress e \<noteq> 0
                then count_gicrd (gic_new (\<lambda>g. g\<lparr>ge_type := ENTRY_TYPE_GICC_GICRD, ge_base := gicc_GICRBaseAddress e,
                       ge_length := 0\<rparr>) t1) else t1)
      in if gicc_GICH e \<noteq> 0
         then gic_new (\<lambda>g. g\<lparr>ge_type := ENTRY_TYPE_GICH, ge_base := gicc_GICH e, ge_length := 0\<rparr>) t2 else t2)"
| "gic_entry (MADT_GICD base ver) t =
     gic_hdr (\<lambda>h. h\<lparr>hdr_gic_version := ucast ver, hdr_num_gicd := hdr_num_gicd h + 1\<rparr>)
       (gic_new (\<lambda>g. g\<lparr>ge_type := ENTRY_TYPE_GICD, ge_base := base\<rparr>) t)"
| "gic_entry (MADT_GICR base len) t =
     count_gicrd (gic_new (\<lambda>g. g\<lparr>ge_type := ENTRY_TYPE_GICR_GICRD, ge_base := base, ge_length := ucast len\<rparr>) t)"
| "gic_entry (MADT_GIC_ITS base itsid) t =
     gic_hdr (\<lambda>h. h\<lparr>hdr_num_its := hdr_num_its h + 1\<rparr>)
       (gic_new (\<lambda>g. g\<lparr>ge_type := ENTRY_TYPE_GICITS, ge_base := base, ge_entry_id := itsid\<rparr>) t)"
| "gic_entry (MADT_GIC_MSI_FRAME f) t =
     gic_hdr (\<lambda>h. h\<lparr>hdr_num_msi_frame := hdr_num_msi_frame h + 1\<rparr>)
       (gic_new (\<lambda>g. g\<lparr>ge_type := ENTRY_TYPE_GIC_MSI_FRAME, ge_base := msif_PhysicalBaseAddress f,
          ge_entry_id := msif_GicMsiFrameId f, ge_flags := msif_Flags f, ge_spi_count := ucast (msif_SPICount f),
          ge_spi_base := ucast (msif_SPIBase f)\<rparr>) t)"
| "gic_entry MADT_OTHER t = t"

definition gic_last :: "gic_mem \<Rightarrow> gic_mem" where
  "gic_last t = t\<lparr>gm_arr := (gm_arr t)(gm_next t := (gm_arr t (gm_next t))\<lparr>ge_type := 0xFF\<rparr>)\<rparr>"

definition pal_gic_create_info_table :: "MADT option \<Rightarrow> gic_mem option \<Rightarrow> gic_mem option option" where
  "pal_gic_create_info_table madt GicTable =
     (case GicTable of
        None \<Rightarrow> Some None
      | Some t \<Rightarrow>
          (let t0 = gic_hdr (\<lambda>h. h\<lparr>hdr_gic_version := 0, hdr_num_gicrd := 0, hdr_num_gicd := 0, hdr_num_its := 0,
                      hdr_num_msi_frame := 0\<rparr>) (t\<lparr>gm_next := 0\<rparr>)
           in case madt of
                None \<Rightarrow> Some (Some t0)
              | Some M \<Rightarrow> map_option (\<lambda>t'. Some (gic_last t')) (madt_walk M gic_entry t0)))"

definition read_gic_table :: "gic_mem \<Rightarrow> GIC_INFO_TABLE" where
  "read_gic_table t = (gm_hdr t)\<lparr>gic_info := map (gm_arr t) [0..<Suc (gm_next t)]\<rparr>"

subsection \<open>Timers and watchdogs (pal_timer_wd.c)\<close>

record GT_BLOCK_TIMER =
  GTFrameNumber :: u8
  CntBaseX :: u64
  CntEL0BaseX :: u64
  GTxPhysicalTimerGSIV :: u32
  GTxVirtualTimerGSIV :: u32
  GTxPhysicalTimerFlags :: u32
  GTxVirtualTimerFlags :: u32
  GTxCommonFlags :: u32

record SBSA_GENERIC_WATCHDOG =
  RefreshFramePhysicalAddress :: u64
  WatchdogControlFramePhysicalAddress :: u64
  WatchdogTimerGSIV :: u32
  WatchdogTimerFlags :: u32

text \<open>The timers of a block are the list of its \<open>GTBlockTimerCount\<close> structures.\<close>

datatype gtdt_entry =
    GTDT_GT_BLOCK (CntCtlBase: u64) (GtBlockTimers: "GT_BLOCK_TIMER list")
  | GTDT_WATCHDOG SBSA_GENERIC_WATCHDOG
  | GTDT_OTHER

record GTDT =
  SecurePL1TimerFlags :: u32
  NonSecurePL1TimerFlags :: u32
  NonSecurePL2TimerFlags :: u32
  SecurePL1TimerGSIV :: u32
  NonSecurePL1TimerGSIV :: u32
  NonSecurePL2TimerGSIV :: u32
  VirtualTimerFlags :: u32
  VirtualTimerGSIV :: u32
  PlatformTimerCount :: u32
  PlatformTimerOffset :: u32
  gtdt_at :: "nat \<Rightarrow> gtdt_entry \<times> u16"

definition TIMER_TYPE_SYS_TIMER :: u32 where "TIMER_TYPE_SYS_TIMER = 0x2001"

definition PLATFORM_OVERRIDE_PLATFORM_TIMER :: u32 where "PLATFORM_OVERRIDE_PLATFORM_TIMER = 0"
definition PLATFORM_OVERRIDE_CNTCTL_BASE :: u64 where "PLATFORM_OVERRIDE_CNTCTL_BASE = 0x2a810000"
definition PLATFORM_OVERRIDE_CNTBASE_N :: u64 where "PLATFORM_OVERRIDE_CNTBASE_N = 0x2a830000"
definition PLATFORM_OVERRIDE_PLATFORM_TIMER_GSIV :: u32 where "PLATFORM_OVERRIDE_PLATFORM_TIMER_GSIV = 58"
definition PLATFORM_OVERRIDE_EL2_VIR_TIMER_GSIV :: u32 where "PLATFORM_OVERRIDE_EL2_VIR_TIMER_GSIV = 28"
definition PLATFORM_OVERRIDE_WD :: u32 where "PLATFORM_OVERRIDE_WD = 0"
definition PLATFORM_OVERRIDE_WD_REFRESH_BASE :: u64 where "PLATFORM_OVERRIDE_WD_REFRESH_BASE = 0x2A450000"
definition PLATFORM_OVERRIDE_WD_CTRL_BASE :: u64 where "PLATFORM_OVERRIDE_WD_CTRL_BASE = 0x2A440000"
definition PLATFORM_OVERRIDE_WD_GSIV :: u32 where "PLATFORM_OVERRIDE_WD_GSIV = 93"

definition upd_hdr :: "(TIMER_INFO_HDR \<Rightarrow> TIMER_INFO_HDR) \<Rightarrow> TIMER_INFO_TABLE \<Rightarrow> TIMER_INFO_TABLE" where
  "upd_hdr f t = t\<lparr>timer_hdr := f (timer_hdr t)\<rparr>"

definition upd_block :: "u32 \<Rightarrow> (TIMER_INFO_GTBLOCK \<Rightarrow> TIMER_INFO_GTBLOCK) \<Rightarrow> TIMER_INFO_TABLE \<Rightarrow> TIMER_INFO_TABLE" where
  "upd_block b f t = t\<lparr>gt_info := (gt_info t)(b := f (gt_info t b))\<rparr>"

definition pal_timer_platform_override :: "TIMER_INFO_TABLE \<Rightarrow> TIMER_INFO_TABLE" where
  "pal_timer_platform_override t =
     (let t1 = (if PLATFORM_OVERRIDE_PLATFORM_TIMER \<noteq> 0
                then upd_block 0 (\<lambda>b. b\<lparr>block_cntl_base := PLATFORM_OVERRIDE_CNTCTL_BASE, timer_count := 1,
                         GtCntBase := (GtCntBase b)(0 := PLATFORM_OVERRIDE_CNTBASE_N),
                         gt_gsiv := (gt_gsiv b)(0 := PLATFORM_OVERRIDE_PLATFORM_TIMER_GSIV)\<rparr>)
                       (upd_hdr (\<lambda>h. h\<lparr>num_platform_timer := 1\<rparr>) t)
                else t)
      in if PLATFORM_OVERRIDE_EL2_VIR_TIMER_GSIV \<noteq> 0
         then upd_hdr (\<lambda>h. h\<lparr>el2_virt_timer_gsiv := PLATFORM_OVERRIDE_EL2_VIR_TIMER_GSIV\<rparr>) t1
         else t1)"

text \<open>The loop over the timers of a block, \<open>i\<close> the index of the timer and \<open>b\<close> that of the block.\<close>

fun gt_timer_loop :: "u32 \<Rightarrow> u32 \<Rightarrow> GT_BLOCK_TIMER list \<Rightarrow> TIMER_INFO_TABLE \<Rightarrow> TIMER_INFO_TABLE" where
  "gt_timer_loop b i [] t = t"
| "gt_timer_loop b i (g # gs) t =
     gt_timer_loop b (i + 1) gs
       (upd_hdr (\<lambda>h. h\<lparr>num_platform_timer := num_platform_timer h + 1\<rparr>)
         (upd_block b (\<lambda>e. e\<lparr>frame_num := (frame_num e)(i := GTFrameNumber g),
             GtCntBase := (GtCntBase e)(i := CntBaseX g), GtCntEl0Base := (GtCntEl0Base e)(i := CntEL0BaseX g),
             gt_gsiv := (gt_gsiv e)(i := GTxPhysicalTimerGSIV g), virt_gsiv := (virt_gsiv e)(i := GTxVirtualTimerGSIV g),
             gt_flags := (gt_flags e)(i := GTxPhysicalTimerFlags g OR shl (GTxVirtualTimerFlags g) 8
                                           OR shl (GTxCommonFlags g) 16)\<rparr>) t))"

fun timer_entry :: "gtdt_entry \<Rightarrow> u32 \<times> TIMER_INFO_TABLE \<Rightarrow> u32 \<times> TIMER_INFO_TABLE" where
  "timer_entry (GTDT_GT_BLOCK base timers) (b, t) =
     (b + 1, gt_timer_loop b 0 timers
               (upd_block b (\<lambda>e. e\<lparr>gt_type := TIMER_TYPE_SYS_TIMER, block_cntl_base := base,
                  timer_count := of_nat (length timers)\<rparr>) t))"
| "timer_entry e st = st"

fun gtdt_walk :: "GTDT \<Rightarrow> (gtdt_entry \<Rightarrow> 'a \<Rightarrow> 'a) \<Rightarrow> nat \<Rightarrow> nat \<Rightarrow> 'a \<Rightarrow> 'a" where
  "gtdt_walk G f pos 0 a = a"
| "gtdt_walk G f pos (Suc n) a = (let (e, l) = gtdt_at G pos in gtdt_walk G f (pos + unat l) n (f e a))"

definition pal_timer_create_info_table :: "GTDT option \<Rightarrow> TIMER_INFO_TABLE option \<Rightarrow> TIMER_INFO_TABLE option" where
  "pal_timer_create_info_table gtdt TimerTable =
     (case TimerTable of
        None \<Rightarrow> None
      | Some t \<Rightarrow>
          (let t0 = upd_hdr (\<lambda>h. h\<lparr>num_platform_timer := 0\<rparr>) t
           in case gtdt of
                None \<Rightarrow> Some t0
              | Some G \<Rightarrow>
                  (let t1 = upd_hdr (\<lambda>h. h\<lparr>s_el1_timer_flag := SecurePL1TimerFlags G,
                              ns_el1_timer_flag := NonSecurePL1TimerFlags G, el2_timer_flag := NonSecurePL2TimerFlags G,
                              s_el1_timer_gsiv := SecurePL1TimerGSIV G, ns_el1_timer_gsiv := NonSecurePL1TimerGSIV G,
                              el2_timer_gsiv := NonSecurePL2TimerGSIV G, virtual_timer_flag := VirtualTimerFlags G,
                              virtual_timer_gsiv := VirtualTimerGSIV G\<rparr>) t0;
                       (n, t2) = gtdt_walk G timer_entry (unat (PlatformTimerOffset G)) (unat (PlatformTimerCount G)) (0, t1)
                   in Some (pal_timer_platform_override t2))))"

definition pal_wd_platform_override :: "WD_INFO_TABLE \<Rightarrow> WD_INFO_TABLE" where
  "pal_wd_platform_override t =
     (if PLATFORM_OVERRIDE_WD = 1
      then t\<lparr>num_wd := 1, wd_info := (wd_info t)(0 := (wd_info t 0)\<lparr>wd_refresh_base := PLATFORM_OVERRIDE_WD_REFRESH_BASE,
               wd_ctrl_base := PLATFORM_OVERRIDE_WD_CTRL_BASE, wd_gsiv := PLATFORM_OVERRIDE_WD_GSIV, wd_flags := 0\<rparr>)\<rparr>
      else t)"

fun wd_entry :: "gtdt_entry \<Rightarrow> u32 \<times> WD_INFO_TABLE \<Rightarrow> u32 \<times> WD_INFO_TABLE" where
  "wd_entry (GTDT_WATCHDOG w) (i, t) =
     (i + 1, t\<lparr>wd_info := (wd_info t)(i := (wd_info t i)\<lparr>wd_refresh_base := RefreshFramePhysicalAddress w,
                wd_ctrl_base := WatchdogControlFramePhysicalAddress w, wd_gsiv := WatchdogTimerGSIV w,
                wd_flags := WatchdogTimerFlags w\<rparr>), num_wd := num_wd t + 1\<rparr>)"
| "wd_entry e st = st"

definition pal_wd_create_info_table :: "GTDT option \<Rightarrow> WD_INFO_TABLE option \<Rightarrow> WD_INFO_TABLE option" where
  "pal_wd_create_info_table gtdt WdTable =
     (case WdTable of
        None \<Rightarrow> None
      | Some t \<Rightarrow>
          (case gtdt of
             None \<Rightarrow> Some (t\<lparr>num_wd := 0\<rparr>)
           | Some G \<Rightarrow> Some (pal_wd_platform_override
               (snd (gtdt_walk G wd_entry (unat (PlatformTimerOffset G)) (unat (PlatformTimerCount G)) (0, t\<lparr>num_wd := 0\<rparr>))))))"

subsection \<open>ECAM regions (pal_pcie.c)\<close>

record MCFG_ENTRY =
  mcfg_BaseAddress :: u64
  PciSegmentGroupNumber :: u16
  StartBusNumber :: u8
  EndBusNumber :: u8

record MCFG =
  mcfg_Length :: u32
  sizeof_mcfg :: u32
  sizeof_mcfg_entry :: u32
  mcfg_entry :: "u32 \<Rightarrow> MCFG_ENTRY"

definition PLATFORM_OVERRIDE_PCIE_ECAM_BASE :: u64 where "PLATFORM_OVERRIDE_PCIE_ECAM_BASE = 0x0"
definition PLATFORM_OVERRIDE_PCIE_START_BUS_NUM :: u32 where "PLATFORM_OVERRIDE_PCIE_START_BUS_NUM = 0x0"

definition pal_pcie_get_mcfg_ecam :: "MCFG option \<Rightarrow> u64" where
  "pal_pcie_get_mcfg_ecam mcfg = (case mcfg of None \<Rightarrow> 0 | Some M \<Rightarrow> mcfg_BaseAddress (mcfg_entry M 0))"

definition mcfg_step :: "MCFG \<Rightarrow> u32 \<times> u32 \<times> PCIE_INFO_TABLE \<Rightarrow> PCIE_INFO_TABLE + u32 \<times> u32 \<times> PCIE_INFO_TABLE" where
  "mcfg_step M = (\<lambda>(length, i, t).
     let e = mcfg_entry M i;
         t' = t\<lparr>block := (block t)(i := \<lparr>ecam_base = mcfg_BaseAddress e, segment_num = ucast (PciSegmentGroupNumber e),
                start_bus_num = ucast (StartBusNumber e), end_bus_num = ucast (EndBusNumber e)\<rparr>),
              num_entries := num_entries t + 1\<rparr>;
         length' = length + sizeof_mcfg_entry M
     in if length' < mcfg_Length M then Inr (length', i + 1, t') else Inl t')"

definition pal_pcie_create_info_table :: "MCFG option \<Rightarrow> PCIE_INFO_TABLE option \<Rightarrow> PCIE_INFO_TABLE option option" where
  "pal_pcie_create_info_table mcfg PcieTable =
     (case PcieTable of
        None \<Rightarrow> Some None
      | Some t \<Rightarrow>
          (let t0 = t\<lparr>num_entries := 0\<rparr>
           in case mcfg of
                None \<Rightarrow> Some (Some t0)
              | Some M \<Rightarrow>
                  if PLATFORM_OVERRIDE_PCIE_ECAM_BASE \<noteq> 0
                  then Some (Some (t0\<lparr>block := (block t0)(0 := (block t0 0)\<lparr>ecam_base := PLATFORM_OVERRIDE_PCIE_ECAM_BASE,
                         start_bus_num := PLATFORM_OVERRIDE_PCIE_START_BUS_NUM, segment_num := 0\<rparr>), num_entries := 1\<rparr>))
                  else map_option Some (tail_iter (mcfg_step M) (sizeof_mcfg M, 0, t0))))"

end
