(* ===== verification/Acs_Pal_Acpi_Check.thy ===== *)
theory Acs_Pal_Acpi_Check
  imports Acs_Pal_Acpi
begin

text \<open>
  Correctness of the tables built from the MADT.  \<open>madt_is M es\<close> tells that the table consists of the structures \<open>es\<close>;
  then the walk is a fold over them.  The positions of the secondary stacks are numbers in a mixed radix
  system (\<open>pos_of\<close>) whose digits are the affinities of a PE and whose radices come from the largest affinities.
\<close>

subsection \<open>Specification\<close>

text \<open>\<open>madt_holds M pos es\<close>: the structures \<open>es\<close> with their lengths lie at \<open>pos\<close> one behind the other and fill the table.\<close>

fun madt_holds :: "MADT \<Rightarrow> nat \<Rightarrow> (madt_entry \<times> u8) list \<Rightarrow> bool" where
  "madt_holds M pos [] \<longleftrightarrow> pos = unat (madt_Length M)"
| "madt_holds M pos (x # xs) \<longleftrightarrow> madt_at M pos = x \<and> snd x \<noteq> 0 \<and> madt_holds M (pos + unat (snd x)) xs"

definition madt_is :: "MADT \<Rightarrow> (madt_entry \<times> u8) list \<Rightarrow> bool" where
  "madt_is M es \<longleftrightarrow> es \<noteq> [] \<and> madt_holds M (unat (sizeof_madt M)) es"

definition affinity :: "u64 \<Rightarrow> nat \<times> nat \<times> nat \<times> nat" where
  "affinity mp = (unat (mp AND AFF0_MASK), unat (shr (mp AND AFF1_MASK) 8), unat (shr (mp AND AFF2_MASK) 16),
     unat (shr (mp AND AFF3_MASK) 32))"

definition gics_of :: "madt_entry list \<Rightarrow> GIC_STRUCTURE list" where
  "gics_of es = concat (map (\<lambda>e. case e of MADT_GIC g \<Rightarrow> [g] | _ \<Rightarrow> []) es)"

definition max_mpidr :: "madt_entry list \<Rightarrow> u64" where
  "max_mpidr es = (case fold update_aff_max (map gicc_MPIDR (gics_of es)) (0, 0, 0, 0) of (a0, a1, a2, a3) \<Rightarrow> a0 OR a1 OR a2 OR a3)"

definition pe_row :: "GIC_STRUCTURE \<Rightarrow> nat \<Rightarrow> PE_INFO_ENTRY \<Rightarrow> bool" where
  "pe_row g i p \<longleftrightarrow> mpidr p = gicc_MPIDR g \<and> pe_num p = of_nat i \<and> pmu_gsiv p = gicc_PerformanceInterruptGsiv g \<and>
     gmain_gsiv p = gicc_VGICMaintenanceInterrupt g"

definition pos_of :: "nat \<times> nat \<times> nat \<times> nat \<Rightarrow> nat \<times> nat \<times> nat \<times> nat \<Rightarrow> nat" where
  "pos_of m a = (case (m, a) of ((m0, m1, m2, m3), (a0, a1, a2, a3)) \<Rightarrow>
     a0 + (m0 + 1) * (a1 + (m1 + 1) * (a2 + (m2 + 1) * a3)))"

definition below :: "nat \<times> nat \<times> nat \<times> nat \<Rightarrow> nat \<times> nat \<times> nat \<times> nat \<Rightarrow> bool" where
  "below a m = (case (m, a) of ((m0, m1, m2, m3), (a0, a1, a2, a3)) \<Rightarrow> a0 \<le> m0 \<and> a1 \<le> m1 \<and> a2 \<le> m2 \<and> a3 \<le> m3)"

definition all_pes :: "nat \<times> nat \<times> nat \<times> nat \<Rightarrow> nat" where
  "all_pes m = (case m of (m0, m1, m2, m3) \<Rightarrow> (m3 + 1) * (m2 + 1) * (m1 + 1) * (m0 + 1))"

definition example_gicc :: "u64 \<Rightarrow> GIC_STRUCTURE" where
  "example_gicc mp = \<lparr>gicc_PhysicalBaseAddress = 0x2C000000, gicc_GICRBaseAddress = 0, gicc_GICH = 0x2C010000, gicc_MPIDR = mp,
     gicc_PerformanceInterruptGsiv = 23, gicc_VGICMaintenanceInterrupt = 25\<rparr>"

definition example_madt_list :: "(madt_entry \<times> u8) list" where
  "example_madt_list = [(MADT_GIC (example_gicc 0), 80), (MADT_GIC (example_gicc 0x100), 80), (MADT_GICD 0x2F000000 3, 24),
     (MADT_GIC_ITS 0x2F020000 7, 20)]"

definition example_madt :: MADT where
  "example_madt = \<lparr>madt_Length = 248, sizeof_madt = 44, madt_at = (\<lambda>pos.
     if pos = 44 then (MADT_GIC (example_gicc 0), 80) else if pos = 124 then (MADT_GIC (example_gicc 0x100), 80)
     else if pos = 204 then (MADT_GICD 0x2F000000 3, 24) else (MADT_GIC_ITS 0x2F020000 7, 20))\<rparr>"

definition example_pe_mem :: pe_mem where
  "example_pe_mem = \<lparr>pe_hdr_num = 0, pe_arr = (\<lambda>_. \<lparr>pe_num = 0, pe_attr = 0, mpidr = 0, pmu_gsiv = 0, gmain_gsiv = 0\<rparr>)\<rparr>"

definition example_pal_pe :: pal_pe where
  "example_pal_pe = \<lparr>gMpidrMax = 0, g_num_pe = 0, gSecondaryPeStack = 0\<rparr>"

text \<open>The rows (type and base) that a structure of the MADT stands for.\<close>

fun gic_rows :: "madt_entry \<Rightarrow> (u32 \<times> u64) list" where
  "gic_rows (MADT_GIC e) =
     (if gicc_PhysicalBaseAddress e \<noteq> 0 then [(ENTRY_TYPE_CPUIF, gicc_PhysicalBaseAddress e)] else []) @
     (if gicc_GICRBaseAddress e \<noteq> 0 then [(ENTRY_TYPE_GICC_GICRD, gicc_GICRBaseAddress e)] else []) @
     (if gicc_GICH e \<noteq> 0 then [(ENTRY_TYPE_GICH, gicc_GICH e)] else [])"
| "gic_rows (MADT_GICD base ver) = [(ENTRY_TYPE_GICD, base)]"
| "gic_rows (MADT_GICR base len) = [(ENTRY_TYPE_GICR_GICRD, base)]"
| "gic_rows (MADT_GIC_ITS base n) = [(ENTRY_TYPE_GICITS, base)]"
| "gic_rows (MADT_GIC_MSI_FRAME f) = [(ENTRY_TYPE_GIC_MSI_FRAME, msif_PhysicalBaseAddress f)]"
| "gic_rows MADT_OTHER = []"

definition gic_row :: "GIC_INFO_ENTRY \<Rightarrow> u32 \<times> u64" where
  "gic_row e = (ge_type e, ge_base e)"

definition is_gicrd :: "u32 \<Rightarrow> bool" where
  "is_gicrd ty \<longleftrightarrow> ty = ENTRY_TYPE_GICR_GICRD \<or> ty = ENTRY_TYPE_GICC_GICRD"

definition rows_of_type :: "(u32 \<Rightarrow> bool) \<Rightarrow> (u32 \<times> u64) list \<Rightarrow> nat" where
  "rows_of_type P rs = length (filter (\<lambda>r. P (fst r)) rs)"

definition counts_rows :: "GIC_INFO_TABLE \<Rightarrow> (u32 \<times> u64) list \<Rightarrow> bool" where
  "counts_rows h rs \<longleftrightarrow> hdr_num_gicd h = of_nat (rows_of_type (\<lambda>ty. ty = ENTRY_TYPE_GICD) rs) \<and>
     hdr_num_gicrd h = of_nat (rows_of_type is_gicrd rs) \<and>
     hdr_num_its h = of_nat (rows_of_type (\<lambda>ty. ty = ENTRY_TYPE_GICITS) rs) \<and>
     hdr_num_msi_frame h = of_nat (rows_of_type (\<lambda>ty. ty = ENTRY_TYPE_GIC_MSI_FRAME) rs)"

definition gic_view :: "gic_mem \<Rightarrow> (u32 \<times> u64) list" where
  "gic_view t = map (\<lambda>i. gic_row (gm_arr t i)) [0..<gm_next t]"

subsection \<open>Walking the MADT\<close>

lemma madt_holds_le: "madt_holds M pos es \<Longrightarrow> pos \<le> unat (madt_Length M)"
  by (induction es arbitrary: pos) (force simp: )+

lemma madt_iter:
  "es \<noteq> [] \<Longrightarrow> madt_holds M pos es \<Longrightarrow> pos = unat len \<Longrightarrow>
     tail_iter (madt_step M f) (len, pos, a) = Some (fold (\<lambda>x. f (fst x)) es a)"
proof (induction es arbitrary: pos len a)
  case (Cons x es)
  note IH = Cons.IH
  obtain e l where x: "x = (e, l)" by (cases x)
  have at: "madt_at M pos = (e, l)" "l \<noteq> 0" "madt_holds M (pos + unat l) es" using Cons.prems(2) x by auto
  have le: "unat len + unat l \<le> unat (madt_Length M)" using madt_holds_le [OF at(3)] Cons.prems(3) by simp
  moreover have ul: "unat (ucast l :: u32) = unat l" using unat_bound [of l] by (simp add: unsigned_ucast_eq take_bit_nat_eq_self)
  ultimately have len': "unat (len + ucast l) = pos + unat l"
    using unat_bound [of "madt_Length M"] Cons.prems(3) by (simp add: unat_word_ariths)
  show ?case
  proof (cases es)
    case Nil
    then have "\<not> len + ucast l < madt_Length M" using at(3) len' by (simp add: word_less_nat_alt)
    then have "madt_step M f (len, pos, a) = Inl (f e a)" by (simp add: madt_step_def at Let_def)
    then show ?thesis using Nil x by (subst tail_iter.simps) simp
  next
    case (Cons y ys)
    have "0 < unat (snd y)" using at(3) Cons by (simp add: unat_gt_0)
    moreover have "pos + unat l + unat (snd y) \<le> unat (madt_Length M)"
      using at(3) Cons madt_holds_le [of M "pos + unat l + unat (snd y)" ys] by simp
    ultimately have "len + ucast l < madt_Length M" using len' by (simp add: word_less_nat_alt)
    then have "madt_step M f (len, pos, a) = Inr (len + ucast l, pos + unat l, f e a)" by (simp add: madt_step_def at Let_def)
    then have "tail_iter (madt_step M f) (len, pos, a) = tail_iter (madt_step M f) (len + ucast l, pos + unat l, f e a)"
      by (subst tail_iter.simps) simp
    also have "\<dots> = Some (fold (\<lambda>x. f (fst x)) es (f e a))"
      by (rule IH) (use Cons at(3) len' in auto)
    finally show ?thesis by (simp add: x)
  qed
qed simp

lemma madt_walk_fold: "madt_is M es \<Longrightarrow> madt_walk M f a = Some (fold f (map fst es) a)"
  using madt_iter [of es M "unat (sizeof_madt M)" "sizeof_madt M" f a] by (simp add: madt_is_def madt_walk_def fold_map o_def)

text \<open>A structure of length 0 that is reached in front of the end of the table stops the walk for ever.\<close>

lemma madt_zero_length_never_ends:
  assumes "snd (madt_at M pos) = 0" and "len < madt_Length M"
  shows "tail_iter (madt_step M f) (len, pos, a) = None"
proof (rule iter.loop_never_ends [where S = "range (\<lambda>a. (len, pos, a))"])
  show "\<exists>y\<in>range (\<lambda>a. (len, pos, a)). madt_step M f x = Inr y" if "x \<in> range (\<lambda>a. (len, pos, a))" for x
    using that assms by (cases "madt_at M pos") (auto simp: madt_step_def)
qed simp

subsection \<open>Affinities\<close>

lemma mixed_radix_pos:
  fixes x1 :: nat
  assumes "x1 < m0" "y1 < m0" and "x1 + m0 * x2 = y1 + m0 * y2"
  shows "x1 = y1 \<and> x2 = y2"
proof -
  have "(x1 + m0 * x2) mod m0 = x1" "(y1 + m0 * y2) mod m0 = y1" "(x1 + m0 * x2) div m0 = x2" "(y1 + m0 * y2) div m0 = y2"
    using assms(1,2) by simp_all
  with assms(3) show ?thesis by metis
qed

lemma pos_of_inj: "below a m \<Longrightarrow> below b m \<Longrightarrow> pos_of m a = pos_of m b \<Longrightarrow> a = b"
  unfolding below_def pos_of_def
  by (auto split: prod.splits simp del: add_Suc mult_Suc dest!: mixed_radix_pos [rotated 2])

lemma pos_of_less: "below a m \<Longrightarrow> pos_of m a < all_pes m"
proof -
  have step: "x + (k + 1) * y < (n + 1) * (k + 1)" if "x \<le> k" "y \<le> n" for x y k n :: nat
  proof -
    have "(k + 1) * y \<le> (k + 1) * n" using that(2) by (rule mult_le_mono2)
    then show ?thesis using that(1) by (simp add: algebra_simps)
  qed
  have step': "x + (k + 1) * y < n * (k + 1)" if "x \<le> k" "y < n" for x y k n :: nat
    using step [of x k y "n - 1"] that by (cases n) auto
  obtain m0 m1 m2 m3 a0 a1 a2 a3 where m: "m = (m0, m1, m2, m3)" and a: "a = (a0, a1, a2, a3)" by (cases m; cases a)
  assume "below a m"
  then have "a0 \<le> m0" "a1 \<le> m1" "a2 \<le> m2" "a3 < m3 + 1" by (simp_all add: below_def m a)
  then have "a0 + (m0 + 1) * (a1 + (m1 + 1) * (a2 + (m2 + 1) * a3)) < (m3 + 1) * (m2 + 1) * (m1 + 1) * (m0 + 1)"
    by (intro step')
  then show ?thesis by (simp only: pos_of_def all_pes_def m a prod.case)
qed

lemma aff_mask_push:
  "AFF0_MASK = mask 8" "AFF1_MASK = push_bit 8 (mask 8)" "AFF2_MASK = push_bit 16 (mask 8)" "AFF3_MASK = push_bit 32 (mask 8)"
  unfolding aff_masks by code_simp+

lemma aff_masks_disjoint:
  "AFF0_MASK AND AFF1_MASK = 0" "AFF0_MASK AND AFF2_MASK = 0" "AFF0_MASK AND AFF3_MASK = 0"
  "AFF1_MASK AND AFF2_MASK = 0" "AFF1_MASK AND AFF3_MASK = 0" "AFF2_MASK AND AFF3_MASK = 0"
  unfolding aff_masks by code_simp+

lemma shr_and_push: "shr (x AND push_bit n (mask 8)) n = take_bit 8 (shr x n)" if "n + 8 \<le> 64" for x :: u64
  using that by (intro bit_word_eqI) (auto simp: bit_simps)

lemma affinity_take_bit:
  "affinity mp = (unat (take_bit 8 mp), unat (take_bit 8 (shr mp 8)), unat (take_bit 8 (shr mp 16)), unat (take_bit 8 (shr mp 32)))"
proof -
  have "shr (mp AND push_bit 8 (mask 8)) 8 = take_bit 8 (shr mp 8)" "shr (mp AND push_bit 16 (mask 8)) 16 = take_bit 8 (shr mp 16)"
    "shr (mp AND push_bit 32 (mask 8)) 32 = take_bit 8 (shr mp 32)" by (rule shr_and_push; simp)+
  then show ?thesis unfolding affinity_def aff_mask_push take_bit_eq_mask by metis
qed

lemma unat_take8: "unat (take_bit 8 x) < 256" for x :: u64
  using take_bit_word_less [of 8 x] by (simp add: word_less_nat_alt)

lemma affinity_bounds:
  "affinity mp = (a0, a1, a2, a3) \<Longrightarrow> a0 < 256 \<and> a1 < 256 \<and> a2 < 256 \<and> a3 < 256"
  using unat_take8 by (auto simp: affinity_take_bit)

lemma unat_core_pos: "unat (core_pos mx mp) = pos_of (affinity mx) (affinity mp)"
proof -
  obtain m0 m1 m2 m3 a0 a1 a2 a3 where m: "affinity mx = (m0, m1, m2, m3)" and a: "affinity mp = (a0, a1, a2, a3)"
    by (cases "affinity mx"; cases "affinity mp")
  note bm = affinity_bounds [OF m] and ba = affinity_bounds [OF a]
  have x: "mp AND AFF0_MASK = of_nat a0" "shr (mp AND AFF1_MASK) 8 = of_nat a1" "shr (mp AND AFF2_MASK) 16 = of_nat a2"
    "shr (mp AND AFF3_MASK) 32 = of_nat a3" "mx AND AFF0_MASK = of_nat m0" "shr (mx AND AFF1_MASK) 8 = of_nat m1"
    "shr (mx AND AFF2_MASK) 16 = of_nat m2"
    using m a by (auto simp: affinity_def)
  define n where "n = a3 * ((m0 + 1) * (m1 + 1) * (m2 + 1)) + (a2 * ((m0 + 1) * (m1 + 1)) + (a1 * (m0 + 1) + a0))"
  have c: "core_pos mx mp = of_nat n" unfolding core_pos_def Let_def x n_def by (simp only: of_nat_add of_nat_mult of_nat_1)
  have "(m0 + 1) * (m1 + 1) \<le> 256 * 256" using bm by (intro mult_le_mono) simp_all
  moreover from this have "(m0 + 1) * (m1 + 1) * (m2 + 1) \<le> 256 * 256 * 256" using bm by (intro mult_le_mono) simp_all
  ultimately have "a3 * ((m0 + 1) * (m1 + 1) * (m2 + 1)) \<le> 256 * (256 * 256 * 256)" "a2 * ((m0 + 1) * (m1 + 1)) \<le> 256 * (256 * 256)"
    "a1 * (m0 + 1) \<le> 256 * 256" using bm ba by (intro mult_le_mono; simp)+
  then have "n < 2 ^ 64" using ba unfolding n_def by simp
  then have "unat (core_pos mx mp) = n" unfolding c by (intro word_le_of_nat_less) simp
  also have "n = pos_of (affinity mx) (affinity mp)" by (simp add: n_def pos_of_def m a algebra_simps)
  finally show ?thesis .
qed

lemma unat_stack_pes:
  assumes "all_pes (affinity mx) < 2 ^ 32"
  shows "unat (stack_pes mx) = all_pes (affinity mx)"
proof -
  obtain m0 m1 m2 m3 where m: "affinity mx = (m0, m1, m2, m3)" by (cases "affinity mx")
  have uc: "(ucast x :: u32) = of_nat (unat x)" for x :: u64 by simp
  have x: "(ucast (shr (mx AND AFF0_MASK) 0) :: u32) = of_nat m0" "(ucast (shr (mx AND AFF1_MASK) 8) :: u32) = of_nat m1"
    "(ucast (shr (mx AND AFF2_MASK) 16) :: u32) = of_nat m2" "(ucast (shr (mx AND AFF3_MASK) 32) :: u32) = of_nat m3"
    using m unfolding uc affinity_def by simp_all
  have "stack_pes mx = of_nat (all_pes (affinity mx))"
    unfolding stack_pes_def Let_def x all_pes_def m by (simp only: prod.case of_nat_add of_nat_mult of_nat_1)
  moreover have "unat (of_nat (all_pes (affinity mx)) :: u32) = all_pes (affinity mx)"
    using assms by (intro word_le_of_nat_less) simp
  ultimately show ?thesis by simp
qed

lemma fold_aff_max:
  "a AND msk = a \<Longrightarrow> (let r = fold (\<lambda>mp a. UPDATE_AFF_MAX a mp msk) mps a in
     r AND msk = r \<and> a \<le> r \<and> (\<forall>mp\<in>set mps. mp AND msk \<le> r))"
proof (induction mps arbitrary: a)
  case (Cons mp mps)
  let ?a = "UPDATE_AFF_MAX a mp msk"
  have "?a AND msk = ?a" "a \<le> ?a" "mp AND msk \<le> ?a" using Cons.prems by (auto simp: UPDATE_AFF_MAX_def and.assoc)
  with Cons.IH [OF this(1)] show ?case by (auto simp: Let_def)
qed simp

lemma fold_update_aff_max:
  "fold update_aff_max mps (a0, a1, a2, a3) =
     (fold (\<lambda>mp a. UPDATE_AFF_MAX a mp AFF0_MASK) mps a0, fold (\<lambda>mp a. UPDATE_AFF_MAX a mp AFF1_MASK) mps a1,
      fold (\<lambda>mp a. UPDATE_AFF_MAX a mp AFF2_MASK) mps a2, fold (\<lambda>mp a. UPDATE_AFF_MAX a mp AFF3_MASK) mps a3)"
  by (induction mps arbitrary: a0 a1 a2 a3) (simp_all add: update_aff_max_def)

lemma max_covers:
  assumes "fold update_aff_max mps (0, 0, 0, 0) = (a0, a1, a2, a3)" and "mp \<in> set mps"
  shows "below (affinity mp) (affinity (a0 OR a1 OR a2 OR a3))"
proof -
  have r: "a0 AND AFF0_MASK = a0" "a1 AND AFF1_MASK = a1" "a2 AND AFF2_MASK = a2" "a3 AND AFF3_MASK = a3"
    "mp AND AFF0_MASK \<le> a0" "mp AND AFF1_MASK \<le> a1" "mp AND AFF2_MASK \<le> a2" "mp AND AFF3_MASK \<le> a3"
    using assms fold_aff_max [of 0 _ mps] unfolding fold_update_aff_max Let_def by auto
  have z: "x AND k = 0" if "x AND m = x" "m AND k = 0" for x m k :: u64
    using that by (metis and.assoc and_zero_eq)
  have d: "a1 AND AFF0_MASK = 0" "a2 AND AFF0_MASK = 0" "a3 AND AFF0_MASK = 0" "a0 AND AFF1_MASK = 0" "a2 AND AFF1_MASK = 0"
    "a3 AND AFF1_MASK = 0" "a0 AND AFF2_MASK = 0" "a1 AND AFF2_MASK = 0" "a3 AND AFF2_MASK = 0" "a0 AND AFF3_MASK = 0"
    "a1 AND AFF3_MASK = 0" "a2 AND AFF3_MASK = 0"
    using z [OF r(1)] z [OF r(2)] z [OF r(3)] z [OF r(4)] aff_masks_disjoint by (metis and.commute)+
  have "(a0 OR a1 OR a2 OR a3) AND AFF0_MASK = a0" "(a0 OR a1 OR a2 OR a3) AND AFF1_MASK = a1"
    "(a0 OR a1 OR a2 OR a3) AND AFF2_MASK = a2" "(a0 OR a1 OR a2 OR a3) AND AFF3_MASK = a3"
    using r d by (simp_all add: bit.conj_disj_distrib2)
  then show ?thesis using r(5-)
    unfolding below_def affinity_def prod.case unat_shr word_le_nat_alt by (metis div_le_mono)
qed

lemma fold_pe_entry:
  assumes "pe_hdr_num t = of_nat ptr"
  shows "\<exists>t'. fold pe_entry es (ptr, t, aff) = (ptr + length (gics_of es), t', fold update_aff_max (map gicc_MPIDR (gics_of es)) aff) \<and>
    pe_hdr_num t' = of_nat (ptr + length (gics_of es)) \<and> (\<forall>i<ptr. pe_arr t' i = pe_arr t i) \<and>
    (\<forall>i<length (gics_of es). pe_row (gics_of es ! i) (ptr + i) (pe_arr t' (ptr + i)))"
  using assms
proof (induction es arbitrary: ptr t aff)
  case (Cons e es)
  show ?case
  proof (cases "\<exists>g. e = MADT_GIC g")
    case True
    then obtain g where e: "e = MADT_GIC g" by blast
    let ?t = "t\<lparr>pe_arr := (pe_arr t)(ptr := (pe_arr t ptr)\<lparr>mpidr := gicc_MPIDR g, pe_num := pe_hdr_num t,
          pmu_gsiv := gicc_PerformanceInterruptGsiv g, gmain_gsiv := gicc_VGICMaintenanceInterrupt g\<rparr>), pe_hdr_num := pe_hdr_num t + 1\<rparr>"
    have gs: "gics_of (e # es) = g # gics_of es" by (simp add: gics_of_def e)
    have "pe_hdr_num ?t = of_nat (Suc ptr)" using Cons.prems by (simp add: add.commute)
    from Cons.IH [OF this, of "update_aff_max (gicc_MPIDR g) aff"] obtain t' where
      t': "fold pe_entry es (Suc ptr, ?t, update_aff_max (gicc_MPIDR g) aff) =
          (Suc ptr + length (gics_of es), t', fold update_aff_max (map gicc_MPIDR (gics_of es)) (update_aff_max (gicc_MPIDR g) aff))"
        "pe_hdr_num t' = of_nat (Suc ptr + length (gics_of es))" "\<forall>i<Suc ptr. pe_arr t' i = pe_arr ?t i"
        "\<forall>i<length (gics_of es). pe_row (gics_of es ! i) (Suc ptr + i) (pe_arr t' (Suc ptr + i))" by blast
    have "pe_row g ptr (pe_arr t' ptr)" using t'(3) Cons.prems by (simp add: pe_row_def)
    then have "\<forall>i<length (gics_of (e # es)). pe_row (gics_of (e # es) ! i) (ptr + i) (pe_arr t' (ptr + i))"
      using t'(4) unfolding gs by (auto simp: less_Suc_eq_0_disj)
    then show ?thesis using t'(1-3) by (intro exI [of _ t']) (simp add: gs [unfolded e] e)
  next
    case False
    then have "pe_entry e st = st" "gics_of (e # es) = gics_of es" for st
      by (cases e; simp add: gics_of_def)+
    then show ?thesis using Cons by simp
  qed
qed (simp add: gics_of_def)

lemma pe_create:
  assumes "madt_is M es"
  obtains t' where "pal_pe_create_info_table alloc (Some M) (Some t) g =
      Some (Some t', PalAllocateSecondaryStack alloc (max_mpidr (map fst es)) (g\<lparr>gMpidrMax := max_mpidr (map fst es), g_num_pe := pe_hdr_num t'\<rparr>))"
    and "pe_hdr_num t' = of_nat (length (gics_of (map fst es)))"
    and "\<And>i. i < length (gics_of (map fst es)) \<Longrightarrow> pe_row (gics_of (map fst es) ! i) i (pe_arr t' i)"
proof -
  obtain a0 a1 a2 a3 where a: "fold update_aff_max (map gicc_MPIDR (gics_of (map fst es))) (0, 0, 0, 0) = (a0, a1, a2, a3)"
    by (metis prod_cases4)
  from fold_pe_entry [of "t\<lparr>pe_hdr_num := 0\<rparr>" 0 "map fst es" "(0, 0, 0, 0)"] obtain t' where
    t': "fold pe_entry (map fst es) (0, t\<lparr>pe_hdr_num := 0\<rparr>, 0, 0, 0, 0) = (length (gics_of (map fst es)), t', a0, a1, a2, a3)"
      "pe_hdr_num t' = of_nat (length (gics_of (map fst es)))"
      "\<forall>i<length (gics_of (map fst es)). pe_row (gics_of (map fst es) ! i) i (pe_arr t' i)"
    unfolding a by auto
  show thesis
    by (rule that [OF _ t'(2)]) (use t' in \<open>simp_all add: pal_pe_create_info_table_def madt_walk_fold [OF assms] max_mpidr_def a Let_def\<close>)
qed

lemma example_madt_is: "madt_is example_madt example_madt_list"
  by (simp add: madt_is_def example_madt_def example_madt_list_def)

lemma example_gics: "gics_of (map fst example_madt_list) = [example_gicc 0, example_gicc 0x100]"
  by (simp add: gics_of_def example_madt_list_def)

subsection \<open>The GIC table\<close>

lemma gic_view_new: "gic_view (gic_new f t) = gic_view t @ [gic_row (f (gm_arr t (gm_next t)))]"
  by (simp add: gic_view_def gic_new_def)

lemma gic_view_hdr [simp]: "gic_view (gic_hdr f t) = gic_view t" "gic_view (count_gicrd t) = gic_view t"
  by (simp_all add: gic_view_def gic_hdr_def count_gicrd_def)

lemma gic_entry_view: "gic_view (gic_entry e t) = gic_view t @ gic_rows e"
  by (cases e) (simp_all add: Let_def gic_view_new gic_row_def)

lemma rows_of_type_append: "rows_of_type P (xs @ ys) = rows_of_type P xs + rows_of_type P ys"
  by (simp add: rows_of_type_def)

lemma gic_entry_counts: "counts_rows (gm_hdr t) rs \<Longrightarrow> counts_rows (gm_hdr (gic_entry e t)) (rs @ gic_rows e)"
  by (cases e) (simp_all add: Let_def counts_rows_def rows_of_type_append rows_of_type_def is_gicrd_def gic_hdr_def
      count_gicrd_def gic_new_def gic_entry_types ENTRY_TYPE_GICITS_def)

lemma fold_gic_entry:
  "counts_rows (gm_hdr t) (gic_view t) \<Longrightarrow>
     gic_view (fold gic_entry es t) = gic_view t @ concat (map gic_rows es) \<and>
     counts_rows (gm_hdr (fold gic_entry es t)) (gic_view t @ concat (map gic_rows es))"
proof (induction es arbitrary: t)
  case (Cons e es)
  have "counts_rows (gm_hdr (gic_entry e t)) (gic_view (gic_entry e t))"
    using gic_entry_counts [OF Cons.prems] gic_entry_view by metis
  from Cons.IH [OF this] show ?case by (simp add: gic_entry_view)
qed simp

lemma gic_rows_type: "r \<in> set (gic_rows e) \<Longrightarrow> fst r \<noteq> 0xFF"
  by (cases e) (auto simp: gic_entry_types ENTRY_TYPE_GICITS_def split: if_splits)

lemma gic_entry_loop_find:
  assumes "\<forall>x\<in>set xs. ge_type x \<noteq> 0xFF" and "ge_type e = 0xFF"
  shows "gic_entry_loop P (xs @ [e]) = Some (List.find (\<lambda>x. P (ge_type x)) xs)"
  using assms(1) by (induction xs) (use assms(2) in auto)

lemma find_map: "List.find P (map f xs) = map_option f (List.find (\<lambda>x. P (f x)) xs)"
  by (induction xs) auto

lemma gic_create:
  assumes "madt_is M es"
  obtains t' where "pal_gic_create_info_table (Some M) (Some t) = Some (Some t')"
    and "map gic_row (butlast (gic_info (read_gic_table t'))) = concat (map gic_rows (map fst es))"
    and "ge_type (last (gic_info (read_gic_table t'))) = 0xFF" and "gic_info (read_gic_table t') \<noteq> []"
    and "counts_rows (read_gic_table t') (concat (map gic_rows (map fst es)))"
proof -
  let ?t0 = "gic_hdr (\<lambda>h. h\<lparr>hdr_gic_version := 0, hdr_num_gicrd := 0, hdr_num_gicd := 0, hdr_num_its := 0,
                      hdr_num_msi_frame := 0\<rparr>) (t\<lparr>gm_next := 0\<rparr>)"
  have v0: "gic_view ?t0 = []" "counts_rows (gm_hdr ?t0) []"
    by (simp add: gic_view_def gic_hdr_def) (simp add: counts_rows_def gic_hdr_def rows_of_type_def)
  let ?t1 = "fold gic_entry (map fst es) ?t0"
  have f: "gic_view ?t1 = concat (map gic_rows (map fst es))" "counts_rows (gm_hdr ?t1) (concat (map gic_rows (map fst es)))"
    using fold_gic_entry [of ?t0 "map fst es"] v0 by simp_all
  have c: "pal_gic_create_info_table (Some M) (Some t) = Some (Some (gic_last ?t1))"
    by (simp add: pal_gic_create_info_table_def madt_walk_fold [OF assms] Let_def)
  have i: "gic_info (read_gic_table (gic_last ?t1)) = map (gm_arr ?t1) [0..<gm_next ?t1] @ [(gm_arr ?t1 (gm_next ?t1))\<lparr>ge_type := 0xFF\<rparr>]"
    by (simp add: read_gic_table_def gic_last_def)
  show thesis
  proof (rule that [OF c])
    show "map gic_row (butlast (gic_info (read_gic_table (gic_last ?t1)))) = concat (map gic_rows (map fst es))"
      unfolding i f(1) [symmetric] by (simp add: gic_view_def)
    show "counts_rows (read_gic_table (gic_last ?t1)) (concat (map gic_rows (map fst es)))"
      using f(2) by (simp add: counts_rows_def read_gic_table_def gic_last_def)
  qed (simp_all add: i)
qed

subsection \<open>Properties\<close>

text \<open>
  Property C32. With the stack base and largest affinities that \<open>pal_pe_create_info_table\<close> sets up, two PEs of the MADT with
  different affinities start on disjoint stacks of 256 bytes, and the stack of a PE with an affinity other
  than 0.0.0.0 lies inside the allocated memory (the product of the affinity ranges is below \<open>2 ^ 24\<close>).
\<close>

theorem secondary_stacks_disjoint:
  assumes madt: "madt_is M es" and pes: "p1 \<in> set (gics_of (map fst es))" "p2 \<in> set (gics_of (map fst es))"
    and differ: "affinity (gicc_MPIDR p1) \<noteq> affinity (gicc_MPIDR p2)"
    and new: "gSecondaryPeStack g = 0"
    and n: "n = all_pes (affinity (max_mpidr (map fst es)))" "n < 2 ^ 24"
    and mem: "alloc (of_nat (256 * n)) = Some base" "unat base + 256 * n < 2 ^ 64"
  shows "\<exists>t' g'. pal_pe_create_info_table alloc (Some M) (Some t) g = Some (Some t', g') \<and>
    (let sp1 = unat (ModuleEntryPoint_sp g' (gicc_MPIDR p1)); sp2 = unat (ModuleEntryPoint_sp g' (gicc_MPIDR p2)) in
       {sp1 - 256 ..< sp1} \<inter> {sp2 - 256 ..< sp2} = {} \<and>
       (affinity (gicc_MPIDR p1) \<noteq> (0, 0, 0, 0) \<longrightarrow> {sp1 - 256 ..< sp1} \<subseteq> {unat base ..< unat base + 256 * n}))"
proof -
  define mx where "mx = max_mpidr (map fst es)"
  from pe_create [OF madt] obtain t' where t': "pal_pe_create_info_table alloc (Some M) (Some t) g =
      Some (Some t', PalAllocateSecondaryStack alloc mx (g\<lparr>gMpidrMax := mx, g_num_pe := pe_hdr_num t'\<rparr>))"
    unfolding mx_def by metis
  let ?g = "g\<lparr>gMpidrMax := mx, g_num_pe := pe_hdr_num t', gSecondaryPeStack := base\<rparr>"
  have "stack_pes mx = of_nat n"
  proof -
    have "unat (stack_pes mx) = n" using unat_stack_pes [of mx] n by (simp add: mx_def)
    then have "of_nat (unat (stack_pes mx)) = (of_nat n :: u32)" by simp
    then show ?thesis by simp
  qed
  then have "stack_pes mx * SIZE_STACK_SECONDARY_PE = of_nat (256 * n)" by (simp add: SIZE_STACK_SECONDARY_PE_def)
  moreover have "ucast (of_nat (256 * n) :: u32) = (of_nat (256 * n) :: u64)"
  proof -
    have "unat (of_nat (256 * n) :: u32) = 256 * n" "unat (of_nat (256 * n) :: u64) = 256 * n"
      using n(2) by (intro word_le_of_nat_less; simp)+
    then show ?thesis unfolding word_unat_eq_iff unat_ucast_u32 by metis
  qed
  ultimately have g': "PalAllocateSecondaryStack alloc mx (g\<lparr>gMpidrMax := mx, g_num_pe := pe_hdr_num t'\<rparr>) = ?g"
    using mem(1) new by (simp add: PalAllocateSecondaryStack_def)
  have sp: "unat (ModuleEntryPoint_sp ?g (gicc_MPIDR p)) = unat base + 256 * pos_of (affinity mx) (affinity (gicc_MPIDR p))"
      "below (affinity (gicc_MPIDR p)) (affinity mx)"
    if p: "p \<in> set (gics_of (map fst es))" for p
  proof -
    show b: "below (affinity (gicc_MPIDR p)) (affinity mx)"
      using p max_covers [of "map gicc_MPIDR (gics_of (map fst es))" _ _ _ _ "gicc_MPIDR p"]
      unfolding mx_def max_mpidr_def by (auto split: prod.splits)
    have "pos_of (affinity mx) (affinity (gicc_MPIDR p)) < n" using pos_of_less [OF b] n(1) by (simp add: mx_def)
    then show "unat (ModuleEntryPoint_sp ?g (gicc_MPIDR p)) = unat base + 256 * pos_of (affinity mx) (affinity (gicc_MPIDR p))"
      (is "_ = _ + 256 * ?k")
    proof -
      assume k: "?k < n"
      have "of_nat (unat (core_pos mx (gicc_MPIDR p))) = (of_nat ?k :: u64)" using unat_core_pos [of mx] by simp
      then have "core_pos mx (gicc_MPIDR p) = of_nat ?k" by simp
      then have sp: "ModuleEntryPoint_sp ?g (gicc_MPIDR p) = base + of_nat (256 * ?k)"
        by (simp add: ModuleEntryPoint_sp_def PalGetSecondaryStackBase_def PalGetMaxMpidr_def)
      have u: "unat (of_nat (256 * ?k) :: u64) = 256 * ?k" using k mem(2) by (intro word_le_of_nat_less) simp
      then show ?thesis unfolding sp using k mem(2) by (subst unat_add_u64) simp_all
    qed
  qed
  let ?k1 = "pos_of (affinity mx) (affinity (gicc_MPIDR p1))" and ?k2 = "pos_of (affinity mx) (affinity (gicc_MPIDR p2))"
  have ne: "?k1 \<noteq> ?k2" using pos_of_inj [OF sp(2) [OF pes(1)] sp(2) [OF pes(2)]] differ by blast
  have lt: "?k1 < n" using pos_of_less [OF sp(2) [OF pes(1)]] n(1) by (simp add: mx_def)
  have "?k1 \<noteq> 0" if "affinity (gicc_MPIDR p1) \<noteq> (0, 0, 0, 0)"
  proof
    assume "?k1 = 0"
    moreover have "pos_of (affinity mx) (0, 0, 0, 0) = 0" "below (0, 0, 0, 0) (affinity mx)"
      by (simp_all add: pos_of_def below_def split: prod.splits)
    ultimately show False using pos_of_inj [OF sp(2) [OF pes(1)]] that by metis
  qed
  then have "affinity (gicc_MPIDR p1) \<noteq> (0, 0, 0, 0) \<longrightarrow>
      {unat base + 256 * ?k1 - 256 ..< unat base + 256 * ?k1} \<subseteq> {unat base ..< unat base + 256 * n}"
    using lt by fastforce
  moreover have "{unat base + 256 * ?k1 - 256 ..< unat base + 256 * ?k1} \<inter> {unat base + 256 * ?k2 - 256 ..< unat base + 256 * ?k2} = {}"
    using ne by (cases "?k1 < ?k2") auto
  ultimately show ?thesis
    unfolding t'(1) g' using sp(1) [OF pes(1)] sp(1) [OF pes(2)] by (intro exI [of _ t'] exI [of _ ?g]) (simp only: Let_def simp_thms)
qed

theorem secondary_stacks_disjoint_witness:
  "\<exists>t' g'. pal_pe_create_info_table (\<lambda>n. Some 0x90000000) (Some example_madt) (Some example_pe_mem) example_pal_pe = Some (Some t', g') \<and>
     (let sp = unat (ModuleEntryPoint_sp g' 0x100) in {sp - 256 ..< sp} \<subseteq> {0x90000000 ..< 0x90000200})"
proof -
  have mx: "max_mpidr (map fst example_madt_list) = 0x100" unfolding max_mpidr_def example_gics by code_simp
  have aff: "affinity 0x100 = (0, 1, 0, 0)" "affinity 0 = (0, 0, 0, 0)" by code_simp+
  have "\<exists>t' g'. pal_pe_create_info_table (\<lambda>n. Some 0x90000000) (Some example_madt) (Some example_pe_mem) example_pal_pe = Some (Some t', g') \<and>
    (let sp1 = unat (ModuleEntryPoint_sp g' (gicc_MPIDR (example_gicc 0x100))); sp2 = unat (ModuleEntryPoint_sp g' (gicc_MPIDR (example_gicc 0))) in
       {sp1 - 256 ..< sp1} \<inter> {sp2 - 256 ..< sp2} = {} \<and>
       (affinity (gicc_MPIDR (example_gicc 0x100)) \<noteq> (0, 0, 0, 0) \<longrightarrow>
         {sp1 - 256 ..< sp1} \<subseteq> {unat (0x90000000 :: u64) ..< unat (0x90000000 :: u64) + 256 * 2}))"
    by (rule secondary_stacks_disjoint [OF example_madt_is, where n = 2])
      (simp_all add: example_gics mx aff all_pes_def example_gicc_def example_pal_pe_def)
  then show ?thesis by (simp add: example_gicc_def aff Let_def) blast
qed

text \<open>
  Property C33. \<open>pal_pe_create_info_table\<close> returns for a MADT whose structures fill it, and its table lists exactly the GIC CPU
  interface structures in their order, numbered from 0, with MPIDR and interrupt numbers.
\<close>

theorem pe_table_lists_madt:
  assumes "madt_is M es" and "length (gics_of (map fst es)) < 2 ^ 32"
  shows "\<exists>t' g'. pal_pe_create_info_table alloc (Some M) (Some t) g = Some (Some t', g') \<and>
    pal_pe_get_num g' = num_of_pe (read_pe_table t') \<and>
    (let ps = pe_info (read_pe_table t'); gs = gics_of (map fst es) in
       length ps = length gs \<and> unat (num_of_pe (read_pe_table t')) = length gs \<and> (\<forall>i<length gs. pe_row (gs ! i) i (ps ! i)))"
proof -
  from pe_create [OF assms(1)] obtain t' where t': "pal_pe_create_info_table alloc (Some M) (Some t) g =
      Some (Some t', PalAllocateSecondaryStack alloc (max_mpidr (map fst es)) (g\<lparr>gMpidrMax := max_mpidr (map fst es), g_num_pe := pe_hdr_num t'\<rparr>))"
    "pe_hdr_num t' = of_nat (length (gics_of (map fst es)))"
    "\<And>i. i < length (gics_of (map fst es)) \<Longrightarrow> pe_row (gics_of (map fst es) ! i) i (pe_arr t' i)" by metis
  have "unat (pe_hdr_num t') = length (gics_of (map fst es))" unfolding t'(2) using assms(2) by (intro word_le_of_nat_less) simp
  then show ?thesis unfolding t'(1) using t'(3)
    by (simp add: read_pe_table_def pal_pe_get_num_def PalAllocateSecondaryStack_def Let_def split: option.splits)
qed

theorem pe_table_lists_madt_witness:
  "\<exists>t' g'. pal_pe_create_info_table (\<lambda>n. Some 0x90000000) (Some example_madt) (Some example_pe_mem) example_pal_pe = Some (Some t', g') \<and>
     length (pe_info (read_pe_table t')) = 2 \<and> pe_row (example_gicc 0x100) 1 (pe_info (read_pe_table t') ! 1)"
proof -
  have "length (gics_of (map fst example_madt_list)) < 2 ^ 32" by (simp add: example_gics)
  from pe_table_lists_madt [OF example_madt_is this, of "\<lambda>n. Some 0x90000000" example_pe_mem example_pal_pe]
  show ?thesis unfolding example_gics Let_def by fastforce
qed

text \<open>
  Property C34. \<open>pal_gic_create_info_table\<close> returns, its table has one row per non-zero address of the structures in their order,
  the header counts the distributors, redistributors, ITS and MSI frames, and \<open>val_get_gicd_base\<close> and
  \<open>val_get_gicr_base\<close> return the first distributor and redistributor of the MADT, or 0.
\<close>

theorem gic_table_of_madt:
  assumes "madt_is M es"
  shows "\<exists>t'. pal_gic_create_info_table (Some M) (Some t) = Some (Some t') \<and>
    (let T = read_gic_table t'; rs = concat (map gic_rows (map fst es)); s' = s\<lparr>g_gic_info_table := Some T\<rparr> in
       map gic_row (butlast (gic_info T)) = rs \<and> counts_rows T rs \<and>
       map_option fst (val_get_gicd_base s') = Some (case List.find (\<lambda>r. fst r = ENTRY_TYPE_GICD) rs of None \<Rightarrow> 0 | Some r \<Rightarrow> snd r) \<and>
       map_option fst (val_get_gicr_base n s') = Some (case List.find (\<lambda>r. is_gicrd (fst r)) rs of None \<Rightarrow> 0 | Some r \<Rightarrow> snd r))"
proof -
  define rs where "rs = concat (map gic_rows (map fst es))"
  obtain t' where t': "pal_gic_create_info_table (Some M) (Some t) = Some (Some t')"
    "map gic_row (butlast (gic_info (read_gic_table t'))) = rs"
    "ge_type (last (gic_info (read_gic_table t'))) = 0xFF" "gic_info (read_gic_table t') \<noteq> []"
    "counts_rows (read_gic_table t') rs"
    using gic_create [OF assms] unfolding rs_def by metis
  let ?xs = "butlast (gic_info (read_gic_table t'))" and ?s = "s\<lparr>g_gic_info_table := Some (read_gic_table t')\<rparr>"
  have "ge_type x \<noteq> 0xFF" if "x \<in> set ?xs" for x
  proof -
    have "gic_row x \<in> set rs" unfolding t'(2) [symmetric] using that by simp
    then show ?thesis using gic_rows_type by (fastforce simp: gic_row_def rs_def)
  qed
  then have loop: "gic_entry_loop P (gic_info (read_gic_table t')) = Some (List.find (\<lambda>x. P (ge_type x)) ?xs)" for P
    using gic_entry_loop_find [of ?xs "last (gic_info (read_gic_table t'))" P] t'(3,4) by (simp add: append_butlast_last_id)
  have fnd: "List.find (\<lambda>r. P (fst r)) rs = map_option gic_row (List.find (\<lambda>x. P (ge_type x)) ?xs)" for P
    unfolding t'(2) [symmetric] find_map by (simp add: gic_row_def)
  have "map_option fst (val_get_gicd_base ?s) = Some (case List.find (\<lambda>r. fst r = ENTRY_TYPE_GICD) rs of None \<Rightarrow> 0 | Some r \<Rightarrow> snd r)"
    using fnd [of "\<lambda>ty. ty = ENTRY_TYPE_GICD"] by (simp add: val_get_gicd_base_def loop gic_row_def split: option.splits)
  moreover have "map_option fst (val_get_gicr_base n ?s) = Some (case List.find (\<lambda>r. is_gicrd (fst r)) rs of None \<Rightarrow> 0 | Some r \<Rightarrow> snd r)"
    using fnd [of is_gicrd] by (simp add: val_get_gicr_base_def loop gic_row_def is_gicrd_def [abs_def] split: option.splits)
  ultimately show ?thesis unfolding t'(1) rs_def [symmetric] Let_def using t'(2,5) by blast
qed

theorem gic_table_of_madt_witness:
  "\<forall>t (s :: unit gic_state). \<exists>t'. pal_gic_create_info_table (Some example_madt) (Some t) = Some (Some t') \<and>
     map_option fst (val_get_gicd_base (s\<lparr>g_gic_info_table := Some (read_gic_table t')\<rparr>)) = Some 0x2F000000"
proof (intro allI)
  fix t and s :: "unit gic_state"
  have "List.find (\<lambda>r. fst r = ENTRY_TYPE_GICD) (concat (map gic_rows (map fst example_madt_list))) = Some (ENTRY_TYPE_GICD, 0x2F000000)"
    by (simp add: example_madt_list_def example_gicc_def gic_entry_types)
  with gic_table_of_madt [OF example_madt_is, of t s 0]
  show "\<exists>t'. pal_gic_create_info_table (Some example_madt) (Some t) = Some (Some t') \<and>
     map_option fst (val_get_gicd_base (s\<lparr>g_gic_info_table := Some (read_gic_table t')\<rparr>)) = Some 0x2F000000"
    unfolding Let_def by fastforce
qed

end
