(* ===== verification/Acs_Pal_Devices.thy ===== *)
theory Acs_Pal_Devices
  imports Acs_Pal_Acpi
begin

text \<open>
  More of the ACPI platform layer: \<^verbatim>\<open>pal_pcie_enumeration.c\<close> and the configuration accesses of \<open>pal_pcie.c\<close>, the
  peripheral and memory tables of \<open>pal_peripherals.c\<close>, the exerciser (\<open>pal_exerciser.c\<close>) and the console output of
  \<open>pal_misc.c\<close> that works without firmware.

  The PCI functions of UEFI are a list of handles; a handle without a PCI I/O protocol is \<open>None\<close>.  Memory
  mapped accesses go to a device \<open>'d\<close> through the parameter \<open>H\<close>.
\<close>

subsection \<open>PCI functions known to UEFI (pal_pcie_enumeration.c, pal_pcie.c)\<close>

record PCI_HEADER =
  ClassCode1 :: u8
  ClassCode2 :: u8
  Bar :: "u32 \<Rightarrow> u32"

text \<open>\<open>io_header\<close> is what \<open>Pci.Read\<close> gives for the header (\<open>None\<close> is an error), \<open>io_read\<close> and \<open>io_write\<close> access one register.\<close>

record 'd PCI_IO =
  io_Seg :: u64
  io_Bus :: u64
  io_Dev :: u64
  io_Func :: u64
  io_header :: "PCI_HEADER option"
  io_read :: "u32 \<Rightarrow> 'd \<Rightarrow> u32 option"
  io_write :: "u32 \<Rightarrow> u32 \<Rightarrow> 'd \<Rightarrow> 'd"

type_synonym 'd handles = "'d PCI_IO option list option"

definition PCI_MAX_BUS :: nat where "PCI_MAX_BUS = 255"
definition PCI_MAX_DEVICE :: u32 where "PCI_MAX_DEVICE = 31"

definition incrementBusDev :: "u32 \<Rightarrow> u32" where
  "incrementBusDev StartBdf =
     (let Seg = PCIE_EXTRACT_BDF_SEG StartBdf; Bus = PCIE_EXTRACT_BDF_BUS StartBdf; Dev = PCIE_EXTRACT_BDF_DEV StartBdf
      in if Dev \<noteq> PCI_MAX_DEVICE then PCIE_CREATE_BDF Seg Bus (Dev + 1) 0 else PCIE_CREATE_BDF Seg (Bus + 1) 0 0)"

definition io_bdf :: "'d PCI_IO \<Rightarrow> u32" where
  "io_bdf p = ucast (shl (io_Seg p) 24 OR shl (io_Bus p) 16 OR shl (io_Dev p) 8 OR io_Func p)"

definition class_matches :: "u32 \<Rightarrow> PCI_HEADER \<Rightarrow> bool" where
  "class_matches cc h \<longleftrightarrow> ucast (ClassCode2 h) = (shr cc 16 AND 0xFF) \<and> ucast (ClassCode1 h) = (shr cc 8 AND 0xFF)"

text \<open>The innermost loop: the handles at one bus and device.\<close>

fun handle_loop :: "u32 \<Rightarrow> nat \<Rightarrow> nat \<Rightarrow> 'd PCI_IO option list \<Rightarrow> u32 option" where
  "handle_loop cc bus dev [] = None"
| "handle_loop cc bus dev (None # hs) = handle_loop cc bus dev hs"
| "handle_loop cc bus dev (Some p # hs) =
     (if of_nat bus = io_Bus p \<and> of_nat dev = io_Dev p
      then (case io_header p of
              Some h \<Rightarrow> if class_matches cc h then Some (io_bdf p) else handle_loop cc bus dev hs
            | None \<Rightarrow> handle_loop cc bus dev hs)
      else handle_loop cc bus dev hs)"

text \<open>\<open>n\<close> devices from \<open>dev\<close> on, and \<open>n\<close> buses from \<open>bus\<close> on; every bus is searched from \<open>dev\<close> on.\<close>

fun dev_loop :: "u32 \<Rightarrow> nat \<Rightarrow> nat \<Rightarrow> nat \<Rightarrow> 'd PCI_IO option list \<Rightarrow> u32 option" where
  "dev_loop cc bus dev 0 hs = None"
| "dev_loop cc bus dev (Suc n) hs =
     (case handle_loop cc bus dev hs of Some b \<Rightarrow> Some b | None \<Rightarrow> dev_loop cc bus (Suc dev) n hs)"

fun bus_loop :: "u32 \<Rightarrow> nat \<Rightarrow> nat \<Rightarrow> nat \<Rightarrow> 'd PCI_IO option list \<Rightarrow> u32 option" where
  "bus_loop cc dev bus 0 hs = None"
| "bus_loop cc dev bus (Suc n) hs =
     (case dev_loop cc bus dev (unat PCI_MAX_DEVICE + 1 - dev) hs of
        Some b \<Rightarrow> Some b | None \<Rightarrow> bus_loop cc dev (Suc bus) n hs)"

definition palPcieGetBdf :: "'d handles \<Rightarrow> u32 \<Rightarrow> u32 \<Rightarrow> u32" where
  "palPcieGetBdf hb ClassCode StartBdf =
     (case hb of
        None \<Rightarrow> 0
      | Some hs \<Rightarrow>
          (let InputBus = unat (PCIE_EXTRACT_BDF_BUS StartBdf); InputDev = unat (PCIE_EXTRACT_BDF_DEV StartBdf)
           in case bus_loop ClassCode InputDev InputBus (PCI_MAX_BUS + 1 - InputBus) hs of Some b \<Rightarrow> b | None \<Rightarrow> 0))"

definition pal_pcie_get_bdf_wrapper :: "'d handles \<Rightarrow> u32 \<Rightarrow> u32 \<Rightarrow> u32" where
  "pal_pcie_get_bdf_wrapper hb ClassCode StartBdf = palPcieGetBdf hb ClassCode StartBdf"

definition at_location :: "u32 \<Rightarrow> 'd PCI_IO \<Rightarrow> bool" where
  "at_location bdf p \<longleftrightarrow> io_Seg p = ucast (PCIE_EXTRACT_BDF_SEG bdf) \<and> io_Bus p = ucast (PCIE_EXTRACT_BDF_BUS bdf) \<and>
     io_Dev p = ucast (PCIE_EXTRACT_BDF_DEV bdf) \<and> io_Func p = ucast (PCIE_EXTRACT_BDF_FUNC bdf)"

fun base_loop :: "u32 \<Rightarrow> u32 \<Rightarrow> 'd PCI_IO option list \<Rightarrow> u64" where
  "base_loop bdf bar_index [] = 0"
| "base_loop bdf bar_index (None # hs) = base_loop bdf bar_index hs"
| "base_loop bdf bar_index (Some p # hs) =
     (if at_location bdf p
      then (case io_header p of Some h \<Rightarrow> ucast (Bar h bar_index) | None \<Rightarrow> base_loop bdf bar_index hs)
      else base_loop bdf bar_index hs)"

definition palPcieGetBase :: "'d handles \<Rightarrow> u32 \<Rightarrow> u32 \<Rightarrow> u64" where
  "palPcieGetBase hb bdf bar_index = (case hb of None \<Rightarrow> 0 | Some hs \<Rightarrow> base_loop bdf bar_index hs)"

text \<open>\<open>pal_pcie_io_read_cfg\<close> returns its status and \<open>*data\<close>, which an error leaves as it was.\<close>

fun io_read_loop :: "u32 \<Rightarrow> u32 \<Rightarrow> u32 \<Rightarrow> 'd \<Rightarrow> 'd PCI_IO option list \<Rightarrow> u32 \<times> u32" where
  "io_read_loop Bdf offset data d [] = (PCIE_NO_MAPPING, data)"
| "io_read_loop Bdf offset data d (None # hs) = io_read_loop Bdf offset data d hs"
| "io_read_loop Bdf offset data d (Some p # hs) =
     (if at_location Bdf p
      then (case io_read p offset d of Some v \<Rightarrow> (0, v) | None \<Rightarrow> (PCIE_NO_MAPPING, data))
      else io_read_loop Bdf offset data d hs)"

definition pal_pcie_io_read_cfg :: "'d handles \<Rightarrow> u32 \<Rightarrow> u32 \<Rightarrow> u32 \<Rightarrow> 'd \<Rightarrow> u32 \<times> u32" where
  "pal_pcie_io_read_cfg hb Bdf offset data d =
     (case hb of None \<Rightarrow> (PCIE_NO_MAPPING, data) | Some hs \<Rightarrow> io_read_loop Bdf offset data d hs)"

fun io_write_loop :: "u32 \<Rightarrow> u32 \<Rightarrow> u32 \<Rightarrow> 'd PCI_IO option list \<Rightarrow> 'd \<Rightarrow> 'd" where
  "io_write_loop Bdf offset data [] d = d"
| "io_write_loop Bdf offset data (None # hs) d = io_write_loop Bdf offset data hs d"
| "io_write_loop Bdf offset data (Some p # hs) d =
     io_write_loop Bdf offset data hs (if at_location Bdf p then io_write p offset data d else d)"

definition pal_pcie_io_write_cfg :: "'d handles \<Rightarrow> u32 \<Rightarrow> u32 \<Rightarrow> u32 \<Rightarrow> 'd \<Rightarrow> 'd" where
  "pal_pcie_io_write_cfg hb Bdf offset data d = (case hb of None \<Rightarrow> d | Some hs \<Rightarrow> io_write_loop Bdf offset data hs d)"

subsection \<open>Peripherals (pal_peripherals.c)\<close>

definition USB_CLASSCODE :: u32 where "USB_CLASSCODE = 0x0C0300"
definition SATA_CLASSCODE :: u32 where "SATA_CLASSCODE = 0x010600"
definition PLATFORM_GENERIC_UART_BASE :: u64 where "PLATFORM_GENERIC_UART_BASE = 0"
definition PLATFORM_GENERIC_UART_INTID :: u32 where "PLATFORM_GENERIC_UART_INTID = 0"

record per_mem =
  pm_num_usb :: u32
  pm_num_sata :: u32
  pm_num_uart :: u32
  pm_num_all :: u32
  pm_arr :: "nat \<Rightarrow> PERIPHERAL_INFO_BLOCK"
  pm_next :: nat

definition per_new :: "(PERIPHERAL_INFO_BLOCK \<Rightarrow> PERIPHERAL_INFO_BLOCK) \<Rightarrow> per_mem \<Rightarrow> per_mem" where
  "per_new f t = t\<lparr>pm_arr := (pm_arr t)(pm_next t := f (pm_arr t (pm_next t))), pm_next := Suc (pm_next t)\<rparr>"

text \<open>
  \<open>do { DeviceBdf = palPcieGetBdf(\<dots>, StartBdf); \<dots> StartBdf = incrementBusDev(DeviceBdf); } while (DeviceBdf != 0)\<close> for
  one class of controllers: \<open>ty\<close> is its type and \<open>count\<close> moves its counter.
\<close>

definition ctrl_step :: "'d handles \<Rightarrow> u32 \<Rightarrow> u32 \<Rightarrow> (per_mem \<Rightarrow> per_mem) \<Rightarrow> u32 \<times> per_mem \<Rightarrow> per_mem + u32 \<times> per_mem" where
  "ctrl_step hb cc ty count = (\<lambda>(StartBdf, t).
     let DeviceBdf = palPcieGetBdf hb cc StartBdf
     in if DeviceBdf \<noteq> 0
        then Inr (incrementBusDev DeviceBdf,
                  count (per_new (\<lambda>e. e\<lparr>per_type := ty, per_base0 := palPcieGetBase hb DeviceBdf 0, per_bdf := DeviceBdf\<rparr>) t))
        else Inl t)"

definition ctrl_loop :: "'d handles \<Rightarrow> u32 \<Rightarrow> u32 \<Rightarrow> (per_mem \<Rightarrow> per_mem) \<Rightarrow> per_mem \<Rightarrow> per_mem option" where
  "ctrl_loop hb cc ty count t = tail_iter (ctrl_step hb cc ty count) (0, t)"

definition count_uart :: "per_mem \<Rightarrow> per_mem" where
  "count_uart t = t\<lparr>pm_num_uart := pm_num_uart t + 1\<rparr>"

definition put_uart :: "u64 \<Rightarrow> u32 \<Rightarrow> per_mem \<Rightarrow> per_mem" where
  "put_uart base irq t = per_new (\<lambda>e. e\<lparr>per_base0 := base, per_irq := irq, per_type := PERIPHERAL_TYPE_UART\<rparr>) (count_uart t)"

text \<open>\<open>spcr\<close> is the address and the interrupt of the console, if there is an SPCR table.\<close>

definition pal_peripheral_create_info_table :: "'d handles \<Rightarrow> (u64 \<times> u32) option \<Rightarrow> per_mem option \<Rightarrow> per_mem option option" where
  "pal_peripheral_create_info_table hb spcr tbl =
     (case tbl of
        None \<Rightarrow> Some None
      | Some t \<Rightarrow> do {
          t1 \<leftarrow> ctrl_loop hb USB_CLASSCODE PERIPHERAL_TYPE_USB (\<lambda>t. t\<lparr>pm_num_usb := pm_num_usb t + 1\<rparr>)
                  (t\<lparr>pm_next := 0, pm_num_usb := 0, pm_num_sata := 0, pm_num_uart := 0\<rparr>);
          t2 \<leftarrow> ctrl_loop hb SATA_CLASSCODE PERIPHERAL_TYPE_SATA (\<lambda>t. t\<lparr>pm_num_sata := pm_num_sata t + 1\<rparr>) t1;
          let t3 = (case spcr of None \<Rightarrow> t2 | Some (base, irq) \<Rightarrow> put_uart base irq t2);
          let t4 = (if PLATFORM_GENERIC_UART_BASE \<noteq> 0
                    then put_uart PLATFORM_GENERIC_UART_BASE PLATFORM_GENERIC_UART_INTID t3 else t3);
          Some (Some (t4\<lparr>pm_arr := (pm_arr t4)(pm_next t4 := (pm_arr t4 (pm_next t4))\<lparr>per_type := 0xFF\<rparr>)\<rparr>)) })"

definition read_per_table :: "per_mem \<Rightarrow> PERIPHERAL_INFO_TABLE" where
  "read_per_table t = \<lparr>num_usb = pm_num_usb t, num_sata = pm_num_sata t, num_uart = pm_num_uart t, num_all = pm_num_all t,
     per_info = map (pm_arr t) [0..<Suc (pm_next t)]\<rparr>"

subsection \<open>The memory map (pal_peripherals.c)\<close>

datatype EFI_MEMORY_TYPE = EfiReservedMemoryType | EfiLoaderCode | EfiLoaderData | EfiBootServicesCode | EfiBootServicesData
  | EfiRuntimeServicesCode | EfiRuntimeServicesData | EfiConventionalMemory | EfiUnusableMemory | EfiACPIReclaimMemory
  | EfiACPIMemoryNVS | EfiMemoryMappedIO | EfiMemoryMappedIOPortSpace | EfiPalCode | EfiPersistentMemory | EfiOtherMemory

definition IsUefiMemory :: "EFI_MEMORY_TYPE \<Rightarrow> bool" where
  "IsUefiMemory ty \<longleftrightarrow> (case ty of EfiReservedMemoryType \<Rightarrow> True | EfiLoaderCode \<Rightarrow> True | EfiLoaderData \<Rightarrow> True
     | EfiBootServicesCode \<Rightarrow> True | EfiBootServicesData \<Rightarrow> True | EfiRuntimeServicesCode \<Rightarrow> True
     | EfiRuntimeServicesData \<Rightarrow> True | EfiACPIReclaimMemory \<Rightarrow> True | EfiACPIMemoryNVS \<Rightarrow> True | _ \<Rightarrow> False)"

definition IsNormalMemory :: "EFI_MEMORY_TYPE \<Rightarrow> bool" where
  "IsNormalMemory ty \<longleftrightarrow> (case ty of EfiConventionalMemory \<Rightarrow> True | _ \<Rightarrow> False)"

definition IsDeviceMemory :: "EFI_MEMORY_TYPE \<Rightarrow> bool" where
  "IsDeviceMemory ty \<longleftrightarrow> (case ty of EfiMemoryMappedIO \<Rightarrow> True | EfiMemoryMappedIOPortSpace \<Rightarrow> True
     | EfiPersistentMemory \<Rightarrow> True | _ \<Rightarrow> False)"

record EFI_MEMORY_DESCRIPTOR =
  md_Type :: EFI_MEMORY_TYPE
  PhysicalStart :: u64
  VirtualStart :: u64
  NumberOfPages :: u64

definition EFI_PAGE_SIZE :: u64 where "EFI_PAGE_SIZE = 4096"

definition memory_class :: "EFI_MEMORY_TYPE \<Rightarrow> u32" where
  "memory_class ty = (if IsUefiMemory ty then MEMORY_TYPE_RESERVED else if IsNormalMemory ty then MEMORY_TYPE_NORMAL
     else if IsDeviceMemory ty then MEMORY_TYPE_DEVICE else MEMORY_TYPE_NOT_POPULATED)"

fun memory_map_loop :: "nat \<Rightarrow> EFI_MEMORY_DESCRIPTOR list \<Rightarrow> (nat \<Rightarrow> MEM_INFO_BLOCK) \<Rightarrow> nat \<times> (nat \<Rightarrow> MEM_INFO_BLOCK)" where
  "memory_map_loop i [] t = (i, t)"
| "memory_map_loop i (m # ms) t =
     memory_map_loop (Suc i) ms (t(i := (t i)\<lparr>mem_type := memory_class (md_Type m), phy_addr := PhysicalStart m,
       virt_addr := VirtualStart m, mem_size := NumberOfPages m * EFI_PAGE_SIZE\<rparr>))"

text \<open>\<open>map\<close> is the memory map that UEFI returns in the end; \<open>None\<close> is an error, which leaves the table as it was.\<close>

definition pal_memory_create_info_table :: "EFI_MEMORY_DESCRIPTOR list option \<Rightarrow> (nat \<Rightarrow> MEM_INFO_BLOCK) option
    \<Rightarrow> (nat \<times> (nat \<Rightarrow> MEM_INFO_BLOCK)) option" where
  "pal_memory_create_info_table mmap tbl =
     (case tbl of
        None \<Rightarrow> None
      | Some t \<Rightarrow> Some (case mmap of
          None \<Rightarrow> (0, t)
        | Some ms \<Rightarrow> (case memory_map_loop 0 ms t of (i, t') \<Rightarrow>
            (i, t'(i := (t' i)\<lparr>mem_type := MEMORY_TYPE_LAST_ENTRY\<rparr>)))))"

definition read_mem_table :: "nat \<times> (nat \<Rightarrow> MEM_INFO_BLOCK) \<Rightarrow> MEM_INFO_BLOCK list" where
  "read_mem_table t = map (snd t) [0..<Suc (fst t)]"

text \<open>
  The search for an unpopulated region: the descriptors of the memory space map are (non-existent?, base).  A matching
  region at address 0 is left out and not counted.
\<close>

fun unpopulated_loop :: "u32 \<Rightarrow> u32 \<Rightarrow> u64 \<Rightarrow> (bool \<times> u64) list \<Rightarrow> u64 \<times> u64" where
  "unpopulated_loop inst k addr [] = (ucast PCIE_NO_MAPPING, addr)"
| "unpopulated_loop inst k addr ((nonexistent, base) # ms) =
     (if nonexistent
      then if k = inst
           then if base = 0 then unpopulated_loop inst k base ms else (0, base)
           else unpopulated_loop inst (k + 1) addr ms
      else unpopulated_loop inst k addr ms)"

definition pal_memory_get_unpopulated_addr :: "u64 + (bool \<times> u64) list \<Rightarrow> u64 \<Rightarrow> u32 \<Rightarrow> u64 \<times> u64" where
  "pal_memory_get_unpopulated_addr space addr inst =
     (case space of Inl status \<Rightarrow> (status, addr) | Inr ms \<Rightarrow> unpopulated_loop inst 0 addr ms)"

end
