(* ===== verification/Acs_Pal_Exerciser.thy ===== *)
theory Acs_Pal_Exerciser
  imports Acs_Pal_Devices
begin

text \<open>
  The PCIe exerciser of the platform layer (\<^verbatim>\<open>pal_exerciser.c\<close>), its callers in \<open>acs_exerciser.c\<close>, and the memory
  accesses and the console of \<^verbatim>\<open>pal_misc.c\<close> that work without firmware.

  Loads and stores go to a device \<open>'d\<close> through the parameter \<open>M\<close>; the operations thread it in the state monad of the
  library.  A search through a capability list need not end, so the operations that make one return an option.
  Messages on the console are left out.
\<close>

subsection \<open>Memory mapped accesses (pal_misc.c)\<close>

record 'd mmio =
  load8 :: "u64 \<Rightarrow> 'd \<Rightarrow> u8 \<times> 'd"
  load16 :: "u64 \<Rightarrow> 'd \<Rightarrow> u16 \<times> 'd"
  load32 :: "u64 \<Rightarrow> 'd \<Rightarrow> u32 \<times> 'd"
  load64 :: "u64 \<Rightarrow> 'd \<Rightarrow> u64 \<times> 'd"
  store8 :: "u64 \<Rightarrow> u8 \<Rightarrow> 'd \<Rightarrow> 'd"
  store16 :: "u64 \<Rightarrow> u16 \<Rightarrow> 'd \<Rightarrow> 'd"
  store32 :: "u64 \<Rightarrow> u32 \<Rightarrow> 'd \<Rightarrow> 'd"
  store64 :: "u64 \<Rightarrow> u64 \<Rightarrow> 'd \<Rightarrow> 'd"

definition effect :: "('d \<Rightarrow> 'd) \<Rightarrow> ('d, unit) state" where
  "effect f = State (\<lambda>d. ((), f d))"

definition pal_mmio_read8 :: "'d mmio \<Rightarrow> u64 \<Rightarrow> ('d, u8) state" where
  "pal_mmio_read8 M addr = State (load8 M addr)"

definition pal_mmio_read16 :: "'d mmio \<Rightarrow> u64 \<Rightarrow> ('d, u16) state" where
  "pal_mmio_read16 M addr = State (load16 M addr)"

definition pal_mmio_read64 :: "'d mmio \<Rightarrow> u64 \<Rightarrow> ('d, u64) state" where
  "pal_mmio_read64 M addr = State (load64 M addr)"

definition pal_mmio_write8 :: "'d mmio \<Rightarrow> u64 \<Rightarrow> u8 \<Rightarrow> ('d, unit) state" where
  "pal_mmio_write8 M addr data = effect (store8 M addr data)"

definition pal_mmio_write16 :: "'d mmio \<Rightarrow> u64 \<Rightarrow> u16 \<Rightarrow> ('d, unit) state" where
  "pal_mmio_write16 M addr data = effect (store16 M addr data)"

definition pal_mmio_write64 :: "'d mmio \<Rightarrow> u64 \<Rightarrow> u64 \<Rightarrow> ('d, unit) state" where
  "pal_mmio_write64 M addr data = effect (store64 M addr data)"

text \<open>The 32-bit read clears the low bits of the address, the 32-bit write does not.\<close>

definition mmio_read :: "'d mmio \<Rightarrow> u64 \<Rightarrow> ('d, u32) state" where
  "mmio_read M addr = State (load32 M (if addr AND 0x3 \<noteq> 0 then addr AND NOT 0x3 else addr))"

definition mmio_write :: "'d mmio \<Rightarrow> u64 \<Rightarrow> u32 \<Rightarrow> ('d, unit) state" where
  "mmio_write M addr data = effect (store32 M addr data)"

subsection \<open>The console without firmware (pal_misc.c)\<close>

text \<open>
  \<open>buffer\<close> and \<open>i\<close> of \<open>pal_print_raw\<close>: \<open>buffer\<close> is the stack around the array of 16 bytes, indexed by \<open>i\<close>, which is
  a signed byte (it stays between -1 and 20).  The digits are stored from the lowest one on.
\<close>

function dec_loop :: "u64 \<Rightarrow> int \<Rightarrow> (int \<Rightarrow> u8) \<Rightarrow> int \<times> (int \<Rightarrow> u8)" where
  "dec_loop data i buffer =
     (if data \<noteq> 0 then dec_loop (data div 10) (i + 1) (buffer(i := ucast (data mod 10) + 48)) else (i, buffer))"
  by auto
termination
  by (relation "measure (\<lambda>(data, _). unat data)") (auto simp: word_neq_0_conv unat_div word_less_nat_alt)

declare dec_loop.simps [simp del]

function hex_loop :: "u64 \<Rightarrow> int \<Rightarrow> (int \<Rightarrow> u8) \<Rightarrow> int \<times> (int \<Rightarrow> u8)" where
  "hex_loop data i buffer =
     (if data \<noteq> 0
      then let j = (ucast (data AND 0xF) :: u8)
           in hex_loop (shr data 4) (i + 1) (buffer(i := j + (if j > 9 then 55 else 48)))
      else (i, buffer))"
  by auto
termination
  by (relation "measure (\<lambda>(data, _). unat data)") (auto simp: word_neq_0_conv unat_shr word_less_nat_alt)

declare hex_loop.simps [simp del]

text \<open>\<open>while (i >= 0) *addr = buffer[--i];\<close>\<close>

fun out_loop :: "nat \<Rightarrow> (int \<Rightarrow> u8) \<Rightarrow> u8 list" where
  "out_loop 0 buffer = [buffer (- 1)]"
| "out_loop (Suc n) buffer = buffer (int n) # out_loop n buffer"

text \<open>
  The bytes that \<open>pal_print_raw\<close> writes to the port.  A \<open>%\<close> in front of the terminating zero moves the string
  pointer past it: \<open>None\<close>.
\<close>

fun print_raw_loop :: "string \<Rightarrow> u64 \<Rightarrow> int \<Rightarrow> (int \<Rightarrow> u8) \<Rightarrow> u8 list option" where
  "print_raw_loop [] data i buffer = Some []"
| "print_raw_loop (c # cs) data i buffer =
     (if c = CHR ''%''
      then case cs of
             [] \<Rightarrow> None
           | c' # cs' \<Rightarrow>
               (let (data', i', b') =
                      (if c' = CHR ''d'' then (0, dec_loop data i buffer)
                       else if c' = CHR ''x'' \<or> c' = CHR ''X'' then (0, hex_loop data i buffer)
                       else (data, i, buffer))
                in if i' > 0
                   then map_option (\<lambda>r. out_loop (nat i') b' @ r) (print_raw_loop cs' data' (- 1) b')
                   else map_option (\<lambda>r. 48 # r) (print_raw_loop cs' data' i' b'))
      else map_option (\<lambda>r. of_char c # r) (print_raw_loop cs data i buffer))"

definition pal_print_raw :: "string \<Rightarrow> u64 \<Rightarrow> (int \<Rightarrow> u8) \<Rightarrow> u8 list option" where
  "pal_print_raw str data buffer = print_raw_loop str data 0 buffer"

subsection \<open>Constants and requests (pal_exerciser.h)\<close>

datatype EXERCISER_PARAM_TYPE = SNOOP_ATTRIBUTES | LEGACY_IRQ | MSIX_ATTRIBUTES | DMA_ATTRIBUTES | P2P_ATTRIBUTES
  | PASID_ATTRIBUTES | CFG_TXN_ATTRIBUTES | ATS_RES_ATTRIBUTES | TRANSACTION_TYPE | NUM_TRANSACTIONS

datatype EXERCISER_OPS = START_DMA | GENERATE_MSI | GENERATE_L_INTR | MEM_READ | MEM_WRITE | CLEAR_INTR
  | PASID_TLP_START | PASID_TLP_STOP | TXN_NO_SNOOP_ENABLE | TXN_NO_SNOOP_DISABLE | START_TXN_MONITOR
  | STOP_TXN_MONITOR | ATS_TXN_REQ

datatype EXERCISER_STATE = EXERCISER_RESET | EXERCISER_ON | EXERCISER_OFF | EXERCISER_ERROR

datatype EXERCISER_DATA_TYPE = EXERCISER_DATA_CFG_SPACE | EXERCISER_DATA_BAR0_SPACE

datatype BAR_MEM_TYPE = MMIO_PREFETCHABLE | MMIO_NON_PREFETCHABLE

definition EXERCISER_ID :: u32 where "EXERCISER_ID = 0xED0113B5"
definition TEST_REG_COUNT :: nat where "TEST_REG_COUNT = 10"
definition CAP_PTR_OFFSET :: u32 where "CAP_PTR_OFFSET = 0x34"
definition PCIE_CAP_OFFSET :: u64 where "PCIE_CAP_OFFSET = 0x100"
definition PCIE_CAP_CTRL_OFFSET :: u32 where "PCIE_CAP_CTRL_OFFSET = 0x4"
definition INTXCTL :: u64 where "INTXCTL = 0x004"
definition MSICTL :: u64 where "MSICTL = 0x000"
definition DMACTL1 :: u64 where "DMACTL1 = 0x08"
definition DMA_BUS_ADDR :: u64 where "DMA_BUS_ADDR = 0x010"
definition DMA_LEN :: u64 where "DMA_LEN = 0x018"
definition DMASTATUS :: u64 where "DMASTATUS = 0x01C"
definition PASID :: u32 where "PASID = 0x1B"
definition PCIE_NXT_CAP_PTR_MASK :: u32 where "PCIE_NXT_CAP_PTR_MASK = 0x0FFF"
definition PCIE_CAP_ID_MASK :: u32 where "PCIE_CAP_ID_MASK = 0xFFFF"
definition PCI_CAP_ID_MASK :: u32 where "PCI_CAP_ID_MASK = 0x00FF"
definition PCI_NXT_CAP_PTR_MASK :: u32 where "PCI_NXT_CAP_PTR_MASK = 0x00FF"
definition CAP_PTR_MASK :: u32 where "CAP_PTR_MASK = 0x00FF"
definition CLR_INTR_MASK :: u32 where "CLR_INTR_MASK = 0xFFFFFFFE"
definition PASID_TLP_STOP_MASK :: u32 where "PASID_TLP_STOP_MASK = 0xFFFFFFBF"
definition PASID_VAL_MASK :: u64 where "PASID_VAL_MASK = shl 0x1 20 - 1"
definition PASID_VAL_SHIFT :: nat where "PASID_VAL_SHIFT = 12"
definition PASID_LEN_SHIFT :: nat where "PASID_LEN_SHIFT = 7"
definition PASID_LEN_MASK :: u64 where "PASID_LEN_MASK = 0x7"
definition DMA_TO_DEVICE_MASK :: u32 where "DMA_TO_DEVICE_MASK = 0xFFFFFFEF"
definition PCI_CAP_PTR_OFFSET :: nat where "PCI_CAP_PTR_OFFSET = 8"
definition PCIE_CAP_PTR_OFFSET :: nat where "PCIE_CAP_PTR_OFFSET = 20"
definition MSI_GENERATION_MASK :: u32 where "MSI_GENERATION_MASK = shl 1 31"
definition NO_SNOOP_START_MASK :: u32 where "NO_SNOOP_START_MASK = 0x20"
definition NO_SNOOP_STOP_MASK :: u32 where "NO_SNOOP_STOP_MASK = 0xFFFFFFDF"
definition PCIE_CAP_DIS_MASK :: u32 where "PCIE_CAP_DIS_MASK = 0xFFFEFFFF"
definition PCIE_CAP_EN_MASK :: u32 where "PCIE_CAP_EN_MASK = shl 1 16"

subsection \<open>The exerciser (pal_exerciser.c)\<close>

text \<open>The platform: the PCI functions of UEFI, the MCFG table and the bus.\<close>

record 'd exerciser_env =
  ex_handles :: "'d handles"
  ex_mcfg :: "MCFG option"
  ex_bus :: "'d mmio"

definition pal_increment_bus_dev :: "u32 \<Rightarrow> u32" where
  "pal_increment_bus_dev Bdf =
     (let Seg = PCIE_EXTRACT_BDF_SEG Bdf; Bus = PCIE_EXTRACT_BDF_BUS Bdf; Dev = PCIE_EXTRACT_BDF_DEV Bdf;
          (Bus', Dev') = (if Dev \<noteq> PCI_MAX_DEVICE then (Bus, Dev + 1) else (Bus + 1, 0))
      in PCIE_CREATE_BDF Seg Bus' Dev' 0)"

definition pal_exerciser_get_ecsr_base :: "'d exerciser_env \<Rightarrow> u32 \<Rightarrow> u32 \<Rightarrow> u64" where
  "pal_exerciser_get_ecsr_base X Bdf BarIndex = palPcieGetBase (ex_handles X) Bdf BarIndex"

definition pal_exerciser_get_pcie_config_offset :: "u32 \<Rightarrow> u64" where
  "pal_exerciser_get_pcie_config_offset Bdf =
     (let bus = PCIE_EXTRACT_BDF_BUS Bdf; dev = PCIE_EXTRACT_BDF_DEV Bdf; func = PCIE_EXTRACT_BDF_FUNC Bdf
      in ucast (bus * 32 * 8 * 4096 + dev * 8 * 4096 + func * 4096))"

text \<open>\<open>UINT32 Ecam = pal_pcie_get_mcfg_ecam();\<close>\<close>

definition Ecam32 :: "'d exerciser_env \<Rightarrow> u32" where
  "Ecam32 X = ucast (pal_pcie_get_mcfg_ecam (ex_mcfg X))"

definition is_bdf_exerciser :: "'d exerciser_env \<Rightarrow> u32 \<Rightarrow> ('d, u32) state" where
  "is_bdf_exerciser X bdf = do {
     vendor_dev_id \<leftarrow> mmio_read (ex_bus X) (ucast (Ecam32 X) + pal_exerciser_get_pcie_config_offset bdf);
     State_Monad.return (if vendor_dev_id = EXERCISER_ID then 1 else 0) }"

text \<open>\<open>direction\<close> is \<open>EDMA_FROM_DEVICE\<close> (3) or \<open>EDMA_TO_DEVICE\<close> (4).\<close>

definition pal_exerciser_start_dma_direction :: "'d exerciser_env \<Rightarrow> u64 \<Rightarrow> u64 \<Rightarrow> ('d, u32) state" where
  "pal_exerciser_start_dma_direction X Base Direction = do {
     (if Direction = 4
      then do { v \<leftarrow> mmio_read (ex_bus X) (Base + DMACTL1); mmio_write (ex_bus X) (Base + DMACTL1) (v AND DMA_TO_DEVICE_MASK) }
      else State_Monad.return ());
     (if Direction = 3
      then do { v \<leftarrow> mmio_read (ex_bus X) (Base + DMACTL1); mmio_write (ex_bus X) (Base + DMACTL1) (v OR shl 1 4) }
      else State_Monad.return ());
     v \<leftarrow> mmio_read (ex_bus X) (Base + DMACTL1);
     mmio_write (ex_bus X) (Base + DMACTL1) (v OR 1);
     w \<leftarrow> mmio_read (ex_bus X) (Base + DMASTATUS);
     State_Monad.return (w AND (shl 1 1 OR 1)) }"

text \<open>One round of the capability search; the result is the offset, or \<open>None\<close> if the list ends.\<close>

definition capability_step :: "'d mmio \<Rightarrow> u64 \<Rightarrow> u32 \<Rightarrow> u32 \<Rightarrow> u32 \<Rightarrow> nat \<Rightarrow> u64 \<times> 'd
    \<Rightarrow> u32 option \<times> 'd + u64 \<times> 'd" where
  "capability_step M cfg ID IdMask PtrMask PtrOffset = (\<lambda>(NxtPtr, d).
     if NxtPtr \<noteq> 0
     then let (Data, d1) = run_state (mmio_read M (cfg + NxtPtr)) d
          in if Data AND IdMask = ID then Inl (Some (ucast NxtPtr), d1)
             else Inr (ucast (shr Data PtrOffset AND PtrMask), d1)
     else Inl (None, d))"

definition pal_exerciser_find_pcie_capability :: "'d exerciser_env \<Rightarrow> u32 \<Rightarrow> u32 \<Rightarrow> u32 \<Rightarrow> 'd \<Rightarrow> (u32 option \<times> 'd) option" where
  "pal_exerciser_find_pcie_capability X ID Bdf Value d =
     (let cfg = ucast (Ecam32 X) + pal_exerciser_get_pcie_config_offset Bdf
      in if Value = 1
         then tail_iter (capability_step (ex_bus X) cfg ID PCIE_CAP_ID_MASK PCIE_NXT_CAP_PTR_MASK PCIE_CAP_PTR_OFFSET)
                (PCIE_CAP_OFFSET, d)
         else let (v, d1) = run_state (mmio_read (ex_bus X)
                              (ucast (Ecam32 X + CAP_PTR_OFFSET) + pal_exerciser_get_pcie_config_offset Bdf)) d
              in tail_iter (capability_step (ex_bus X) cfg ID PCI_CAP_ID_MASK PCI_NXT_CAP_PTR_MASK PCI_CAP_PTR_OFFSET)
                   (ucast (v AND CAP_PTR_MASK), d1))"

definition pal_exerciser_set_param :: "'d exerciser_env \<Rightarrow> EXERCISER_PARAM_TYPE \<Rightarrow> u64 \<Rightarrow> u64 \<Rightarrow> u32 \<Rightarrow> ('d, u32) state" where
  "pal_exerciser_set_param X ty Value1 Value2 Bdf =
     (let Base = pal_exerciser_get_ecsr_base X Bdf 0; M = ex_bus X
      in case ty of
           SNOOP_ATTRIBUTES \<Rightarrow> State_Monad.return 0
         | LEGACY_IRQ \<Rightarrow> State_Monad.return 0
         | DMA_ATTRIBUTES \<Rightarrow> do {
             mmio_write M (Base + DMA_BUS_ADDR) (ucast Value1);
             mmio_write M (Base + DMA_LEN) (ucast Value2);
             Data \<leftarrow> mmio_read M (Base + DMASTATUS);
             State_Monad.return (Data AND (shl 1 1 OR 1)) }
         | P2P_ATTRIBUTES \<Rightarrow> State_Monad.return 0
         | PASID_ATTRIBUTES \<Rightarrow> do {
             Data \<leftarrow> mmio_read M (Base + DMACTL1);
             let Data1 = (ucast (ucast Data AND NOT (shl PASID_LEN_MASK PASID_LEN_SHIFT)) :: u32);
             let Data2 = ucast (ucast Data1 OR shl ((Value1 - 16) AND PASID_LEN_MASK) PASID_LEN_SHIFT);
             mmio_write M (Base + DMACTL1) Data2;
             State_Monad.return 0 }
         | MSIX_ATTRIBUTES \<Rightarrow> State_Monad.return 0
         | CFG_TXN_ATTRIBUTES \<Rightarrow> State_Monad.return (if Value1 = 0 then 0 else if Value1 = 1 then 0 else 1)
         | _ \<Rightarrow> State_Monad.return 1)"

text \<open>\<open>pal_exerciser_get_param\<close> returns its status, \<open>*Value1\<close> and \<open>*Value2\<close>.\<close>

definition pal_exerciser_get_param :: "'d exerciser_env \<Rightarrow> EXERCISER_PARAM_TYPE \<Rightarrow> u64 \<Rightarrow> u64 \<Rightarrow> u32
    \<Rightarrow> ('d, u32 \<times> u64 \<times> u64) state" where
  "pal_exerciser_get_param X ty Value1 Value2 Bdf =
     (let Base = pal_exerciser_get_ecsr_base X Bdf 0; M = ex_bus X
      in case ty of
           SNOOP_ATTRIBUTES \<Rightarrow> State_Monad.return (0, Value1, Value2)
         | LEGACY_IRQ \<Rightarrow> do {
             v \<leftarrow> mmio_read M (Base + INTXCTL); w \<leftarrow> mmio_read M (Base + INTXCTL);
             State_Monad.return (w OR 1, ucast v, Value2) }
         | DMA_ATTRIBUTES \<Rightarrow> do {
             v \<leftarrow> mmio_read M (Base + DMA_BUS_ADDR); w \<leftarrow> mmio_read M (Base + DMA_LEN); Temp \<leftarrow> mmio_read M (Base + DMASTATUS);
             State_Monad.return (Temp AND 1, ucast v, ucast w) }
         | P2P_ATTRIBUTES \<Rightarrow> State_Monad.return (0, Value1, Value2)
         | PASID_ATTRIBUTES \<Rightarrow> do {
             v \<leftarrow> mmio_read M (Base + DMACTL1);
             State_Monad.return (0, (ucast (shr v PASID_LEN_SHIFT) AND PASID_LEN_MASK) + 16, Value2) }
         | MSIX_ATTRIBUTES \<Rightarrow> do {
             v \<leftarrow> mmio_read M (Base + MSICTL); w \<leftarrow> mmio_read M (Base + MSICTL);
             State_Monad.return (w OR 1, ucast v, Value2) }
         | _ \<Rightarrow> State_Monad.return (1, Value1, Value2))"

definition pal_exerciser_set_state :: "EXERCISER_STATE \<Rightarrow> u32 \<Rightarrow> u32" where
  "pal_exerciser_set_state st inst = 0"

definition pal_exerciser_get_state :: "u32 \<Rightarrow> u32 \<times> EXERCISER_STATE" where
  "pal_exerciser_get_state Bdf = (0, EXERCISER_ON)"

text \<open>
  \<open>PASID_TLP_START\<close> and \<open>PASID_TLP_STOP\<close> end with the search for the PASID capability, whose control register is
  changed by \<open>f\<close>.  The addresses are sums of the 32-bit \<open>Ecam\<close>, the 64-bit offset of the function and the 32-bit
  offset of the capability.
\<close>

definition pasid_control :: "'d exerciser_env \<Rightarrow> u32 \<Rightarrow> (u32 \<Rightarrow> u32) \<Rightarrow> 'd \<Rightarrow> (u32 \<times> 'd) option" where
  "pasid_control X Bdf f d = do {
     (CapabilityOffset, d1) \<leftarrow> pal_exerciser_find_pcie_capability X PASID Bdf 1 d;
     (case CapabilityOffset of
        None \<Rightarrow> Some (1, d1)
      | Some off \<Rightarrow>
          (let a = ucast (Ecam32 X) + pal_exerciser_get_pcie_config_offset Bdf + ucast off + ucast PCIE_CAP_CTRL_OFFSET;
               (v, d2) = run_state (mmio_read (ex_bus X) a) d1;
               (_, d3) = run_state (mmio_write (ex_bus X) a (f v)) d2
           in Some (0, d3))) }"

definition modify_reg :: "'d mmio \<Rightarrow> u64 \<Rightarrow> (u32 \<Rightarrow> u32) \<Rightarrow> ('d, unit) state" where
  "modify_reg M a f = do { v \<leftarrow> mmio_read M a; mmio_write M a (f v) }"

definition pasid_start_value :: "u64 \<Rightarrow> u32 \<Rightarrow> u32" where
  "pasid_start_value Param data =
     (let data1 = (ucast (ucast data AND NOT (shl PASID_VAL_MASK PASID_VAL_SHIFT)) :: u32)
      in ucast (ucast data1 OR (shl 1 6 OR shl (Param AND PASID_VAL_MASK) PASID_VAL_SHIFT)))"

definition returns :: "('d, unit) state \<Rightarrow> u32 \<Rightarrow> 'd \<Rightarrow> (u32 \<times> 'd) option" where
  "returns m r d = Some (r, snd (run_state m d))"

definition pal_exerciser_ops :: "'d exerciser_env \<Rightarrow> EXERCISER_OPS \<Rightarrow> u64 \<Rightarrow> u32 \<Rightarrow> 'd \<Rightarrow> (u32 \<times> 'd) option" where
  "pal_exerciser_ops X Ops Param Bdf d =
     (let Base = pal_exerciser_get_ecsr_base X Bdf 0; M = ex_bus X
      in case Ops of
           START_DMA \<Rightarrow>
             if Param = 0 \<or> Param = 1 \<or> Param = 2 then Some (0, d)
             else if Param = 3 \<or> Param = 4 then Some (run_state (pal_exerciser_start_dma_direction X Base Param) d)
             else Some (1, d)
         | GENERATE_MSI \<Rightarrow>
             returns (modify_reg M (Base + MSICTL) (\<lambda>v. ucast (ucast (v OR MSI_GENERATION_MASK) OR Param))) 0 d
         | GENERATE_L_INTR \<Rightarrow> returns (modify_reg M (Base + INTXCTL) (\<lambda>v. v OR 1)) 0 d
         | MEM_READ \<Rightarrow> Some (0, d)
         | MEM_WRITE \<Rightarrow> Some (0, d)
         | CLEAR_INTR \<Rightarrow> returns (modify_reg M (Base + INTXCTL) (\<lambda>v. v AND CLR_INTR_MASK)) 0 d
         | PASID_TLP_START \<Rightarrow>
             pasid_control X Bdf (\<lambda>v. v OR PCIE_CAP_EN_MASK)
               (snd (run_state (modify_reg M (Base + DMACTL1) (pasid_start_value Param)) d))
         | PASID_TLP_STOP \<Rightarrow>
             pasid_control X Bdf (\<lambda>v. v AND PCIE_CAP_DIS_MASK)
               (snd (run_state (modify_reg M (Base + DMACTL1) (\<lambda>v. v AND PASID_TLP_STOP_MASK)) d))
         | TXN_NO_SNOOP_ENABLE \<Rightarrow> returns (modify_reg M (Base + DMACTL1) (\<lambda>v. v OR NO_SNOOP_START_MASK)) 0 d
         | TXN_NO_SNOOP_DISABLE \<Rightarrow> returns (modify_reg M (Base + DMACTL1) (\<lambda>v. v AND NO_SNOOP_STOP_MASK)) 0 d
         | _ \<Rightarrow> Some (1, d))"

record ecam_reg_data =
  reg_offset :: u32
  reg_attribute :: u32
  reg_value :: u32

datatype exerciser_data_t = cfg_space "ecam_reg_data list" | bar_space u64 BAR_MEM_TYPE

definition offset_table :: "u32 list" where
  "offset_table = [0x00,0x08,0x00,0x08,0x00,0x08,0x00,0x08,0x00,0x08]"

text \<open>The attribute of every register is \<open>ACCESS_TYPE_RD\<close>, 0.\<close>

definition pal_exerciser_get_data :: "'d exerciser_env \<Rightarrow> EXERCISER_DATA_TYPE \<Rightarrow> u32 \<Rightarrow> u64 \<Rightarrow> ('d, u32 \<times> exerciser_data_t) state" where
  "pal_exerciser_get_data X ty Bdf Ecam =
     (let EcamBase = Ecam + pal_exerciser_get_pcie_config_offset Bdf
      in case ty of
           EXERCISER_DATA_CFG_SPACE \<Rightarrow> do {
             rs \<leftarrow> State_Monad.traverse_list (\<lambda>off. do {
                      v \<leftarrow> mmio_read (ex_bus X) (EcamBase + ucast off);
                      State_Monad.return \<lparr>reg_offset = ucast (ucast off + pal_exerciser_get_pcie_config_offset Bdf),
                        reg_attribute = 0, reg_value = v\<rparr> }) offset_table;
             State_Monad.return (0, cfg_space rs) }
         | EXERCISER_DATA_BAR0_SPACE \<Rightarrow>
             (let EcamBAR0 = pal_exerciser_get_ecsr_base X Bdf 0
              in State_Monad.return (0, bar_space EcamBAR0
                   (if shr EcamBAR0 3 AND 1 = 1 then MMIO_PREFETCHABLE else MMIO_NON_PREFETCHABLE))))"

subsection \<open>The callers (acs_exerciser.c)\<close>

definition on_device :: "('d, 'a) state \<Rightarrow> 'd dev_state \<Rightarrow> 'a \<times> 'd dev_state" where
  "on_device m s = (case run_state m (dev_hw_state s) of (a, d) \<Rightarrow> (a, s\<lparr>dev_hw_state := d\<rparr>))"

definition val_exerciser_set_param :: "'d exerciser_env \<Rightarrow> EXERCISER_PARAM_TYPE \<Rightarrow> u64 \<Rightarrow> u64 \<Rightarrow> u32 \<Rightarrow> 'd dev_state
    \<Rightarrow> u32 \<times> 'd dev_state" where
  "val_exerciser_set_param X ty value1 value2 inst s =
     on_device (pal_exerciser_set_param X ty value1 value2 (ex_bdf (e_info (g_exercier_info_table s) inst))) s"

definition val_exerciser_get_param :: "'d exerciser_env \<Rightarrow> EXERCISER_PARAM_TYPE \<Rightarrow> u64 \<Rightarrow> u64 \<Rightarrow> u32 \<Rightarrow> 'd dev_state
    \<Rightarrow> (u32 \<times> u64 \<times> u64) \<times> 'd dev_state" where
  "val_exerciser_get_param X ty value1 value2 inst s =
     on_device (pal_exerciser_get_param X ty value1 value2 (ex_bdf (e_info (g_exercier_info_table s) inst))) s"

definition val_exerciser_set_state :: "EXERCISER_STATE \<Rightarrow> u32 \<Rightarrow> 'd dev_state \<Rightarrow> u32" where
  "val_exerciser_set_state st inst s = pal_exerciser_set_state st (ex_bdf (e_info (g_exercier_info_table s) inst))"

definition val_exerciser_get_state :: "u32 \<Rightarrow> 'd dev_state \<Rightarrow> u32 \<times> EXERCISER_STATE" where
  "val_exerciser_get_state inst s = pal_exerciser_get_state (ex_bdf (e_info (g_exercier_info_table s) inst))"

definition val_exerciser_ops :: "'d exerciser_env \<Rightarrow> EXERCISER_OPS \<Rightarrow> u64 \<Rightarrow> u32 \<Rightarrow> 'd dev_state \<Rightarrow> (u32 \<times> 'd dev_state) option" where
  "val_exerciser_ops X ops param inst s =
     map_option (\<lambda>(r, d). (r, s\<lparr>dev_hw_state := d\<rparr>))
       (pal_exerciser_ops X ops param (ex_bdf (e_info (g_exercier_info_table s) inst)) (dev_hw_state s))"

definition val_exerciser_get_data :: "'d exerciser_env \<Rightarrow> 'd pcie_env \<Rightarrow> EXERCISER_DATA_TYPE \<Rightarrow> u32 \<Rightarrow> 'd dev_state
    \<Rightarrow> ((u32 \<times> exerciser_data_t) \<times> 'd dev_state) option" where
  "val_exerciser_get_data X E ty inst s =
     (let bdf = ex_bdf (e_info (g_exercier_info_table s) inst)
      in do { ecam \<leftarrow> val_pcie_get_ecam_base E (dev_hw_state s) bdf;
              Some (on_device (pal_exerciser_get_data X ty bdf ecam) s) })"

end
