(* ===== verification/Acs_Pal_Services.thy ===== *)
theory Acs_Pal_Services
  imports Acs_Pal_Acpi Acs_Its
begin

text \<open>
  The services of the platform layer on top of UEFI: interrupts and MSIs (\<^verbatim>\<open>pal_gic.c\<close>), exceptions, PE start and
  cache maintenance (\<^verbatim>\<open>pal_pe.c\<close>), memory (\<^verbatim>\<open>pal_misc.c\<close>) and the SMMU place holders (\<^verbatim>\<open>pal_smmu.c\<close>).  The protocols of UEFI
  are parameters on a firmware state \<open>'f\<close>; a protocol that is not installed is \<open>None\<close>.  Messages on the console are left out.
\<close>

subsection \<open>Interrupts (pal_gic.c)\<close>

text \<open>
  The hardware interrupt protocols.  \<open>register\<close> and \<open>set_trigger\<close> tell whether the call succeeded; the handler is
  \<open>None\<close> for a null pointer.
\<close>

record ('f, 'h) HARDWARE_INTERRUPT =
  hi_disable :: "u32 \<Rightarrow> 'f \<Rightarrow> 'f"
  hi_register :: "u32 \<Rightarrow> 'h option \<Rightarrow> 'f \<Rightarrow> bool \<times> 'f"
  hi_end :: "u32 \<Rightarrow> 'f \<Rightarrow> 'f"

definition pal_gic_install_isr :: "('f, 'h) HARDWARE_INTERRUPT option \<Rightarrow> u32 \<Rightarrow> 'h \<Rightarrow> 'f \<Rightarrow> u32 \<times> 'f" where
  "pal_gic_install_isr gInterrupt int_id isr f =
     (case gInterrupt of
        None \<Rightarrow> (0xFFFFFFFF, f)
      | Some P \<Rightarrow>
          (let (ok, f1) = hi_register P int_id (Some isr) (hi_disable P int_id f)
           in if ok then (0, f1)
              else (0, snd (hi_register P int_id (Some isr) (snd (hi_register P int_id None f1))))))"

definition pal_gic_end_of_interrupt :: "('f, 'h) HARDWARE_INTERRUPT option \<Rightarrow> u32 \<Rightarrow> 'f \<Rightarrow> u32 \<times> 'f" where
  "pal_gic_end_of_interrupt gInterrupt int_id f =
     (case gInterrupt of None \<Rightarrow> (0xFFFFFFFF, f) | Some P \<Rightarrow> (0, hi_end P int_id f))"

definition pal_gic_set_intr_trigger :: "(u32 \<Rightarrow> INTR_TRIGGER_INFO_TYPE_e \<Rightarrow> 'f \<Rightarrow> bool \<times> 'f) option \<Rightarrow> u32
    \<Rightarrow> INTR_TRIGGER_INFO_TYPE_e \<Rightarrow> 'f \<Rightarrow> u32 \<times> 'f" where
  "pal_gic_set_intr_trigger gInterrupt2 int_id trigger_type f =
     (case gInterrupt2 of
        None \<Rightarrow> (0xFFFFFFFF, f)
      | Some set_trigger \<Rightarrow> (case set_trigger int_id trigger_type f of (ok, f1) \<Rightarrow> (if ok then 0 else 0xFFFFFFFF, f1)))"

definition pal_gic_request_irq :: "u32 \<Rightarrow> u32 \<Rightarrow> u32" where
  "pal_gic_request_irq IrqNum MappedIrqNum = 0"

subsection \<open>Interrupt translation services (pal_gic.c)\<close>

text \<open>\<open>info\<close> tells whether \<open>g_gic_its_info\<close> is not null; its contents are part of \<open>its_state\<close>.\<close>

record 'd pal_its =
  info :: bool
  its :: "'d its_state"

text \<open>
  The loop over the GIC table: one row, and the rows up to the last entry.  \<open>None\<close> is a search for a
  redistributor that does not end, or a table without a last entry.
\<close>

definition its_row :: "'d its_bus \<Rightarrow> u64 \<Rightarrow> GIC_INFO_ENTRY \<Rightarrow> 'd its_state \<Rightarrow> 'd its_state option" where
  "its_row H Mpidr g s =
     (if ge_type g = ENTRY_TYPE_GICD then Some (s\<lparr>GicDBase := ge_base g\<rparr>)
      else if ge_type g = ENTRY_TYPE_GICR_GICRD \<or> ge_type g = ENTRY_TYPE_GICC_GICRD
      then if GicRdBase s = 0
           then do { (b, s1) \<leftarrow> GetCurrentCpuRDBase H Mpidr (ge_base g)
                                  (if ge_type g = ENTRY_TYPE_GICR_GICRD then ucast (ge_length g) else 0) s;
                     Some (s1\<lparr>GicRdBase := b\<rparr>) }
           else Some s
      else if ge_type g = ENTRY_TYPE_GICITS
      then let n = GicNumIts s
           in Some (s\<lparr>GicIts := (GicIts s)(n := (GicIts s n)\<lparr>its_Base := ge_base g, its_ID := ge_entry_id g\<rparr>), GicNumIts := n + 1\<rparr>)
      else Some s)"

fun its_rows :: "'d its_bus \<Rightarrow> u64 \<Rightarrow> GIC_INFO_ENTRY list \<Rightarrow> 'd its_state \<Rightarrow> 'd its_state option" where
  "its_rows H Mpidr [] s = None"
| "its_rows H Mpidr (g # gs) s =
     (if ge_type g = 0xFF then Some s else do { s1 \<leftarrow> its_row H Mpidr g s; its_rows H Mpidr gs s1 })"

text \<open>
  \<open>alloc\<close> tells whether the memory for \<open>g_gic_its_info\<close> is there, \<open>alloc2\<close> is the parameter of
  \<open>ArmGicItsConfiguration\<close>.
\<close>

definition pal_gic_its_configure :: "'d its_bus \<Rightarrow> u64 \<Rightarrow> bool \<Rightarrow> bool \<Rightarrow> GIC_INFO_ENTRY list \<Rightarrow> 'd pal_its
    \<Rightarrow> (u32 \<times> 'd pal_its) option" where
  "pal_gic_its_configure H Mpidr alloc alloc2 g_gic_entry p =
     (if \<not> alloc then Some (0xFFFFFFFF, p\<lparr>info := False\<rparr>)
      else do {
        s \<leftarrow> its_rows H Mpidr g_gic_entry ((its p)\<lparr>GicNumIts := 0, GicRdBase := 0, GicDBase := 0\<rparr>);
        Some (if GicNumIts s = 0 then (0xFFFFFFFF, p\<lparr>info := True, its := s\<rparr>)
              else if GicRdBase s = 0 \<or> GicDBase s = 0 then (0xFFFFFFFF, p\<lparr>info := True, its := s\<rparr>)
              else let (d, s1) = ArmGICDSupportsLPIs H (GicDBase s) s;
                       (r, s2) = (if d \<noteq> 0 then ArmGICRSupportsLPIs H (GicRdBase s1) s1 else (0, s1))
                   in if d \<noteq> 0 \<and> r \<noteq> 0
                      then let (st, s3) = ArmGicItsConfiguration H alloc2 s2
                           in (if st \<noteq> EFI_SUCCESS then 0xFFFFFFFF else 0, p\<lparr>info := True, its := s3\<rparr>)
                      else (0xFFFFFFFF, p\<lparr>info := True, its := s2\<rparr>)) })"

definition pal_gic_get_max_lpi_id :: "'d pal_its \<Rightarrow> u32" where
  "pal_gic_get_max_lpi_id p = ArmGicItsGetMaxLpiID (its p)"

fun its_index_loop :: "'d its_state \<Rightarrow> u32 \<Rightarrow> nat list \<Rightarrow> u32" where
  "its_index_loop s ItsID [] = 0xFFFFFFFF"
| "its_index_loop s ItsID (j # js) = (if ItsID = its_ID (GicIts s (of_nat j)) then of_nat j else its_index_loop s ItsID js)"

definition getItsIndex :: "'d its_state \<Rightarrow> u32 \<Rightarrow> u32" where
  "getItsIndex s ItsID = its_index_loop s ItsID [0..<unat (GicNumIts s)]"

definition LPI_PRIORITY1 :: u32 where "LPI_PRIORITY1 = 0x50"

text \<open>The guards that \<open>pal_gic_request_msi\<close> and \<open>pal_gic_free_msi\<close> share.\<close>

definition its_for_msi :: "'d pal_its \<Rightarrow> u32 \<Rightarrow> u32 option" where
  "its_for_msi p ItsID =
     (if \<not> info p \<or> GicNumIts (its p) = 0 then None
      else let ItsIndex = getItsIndex (its p) ItsID
           in if ItsIndex > GicNumIts (its p) then None
              else if GicRdBase (its p) = 0 \<or> GicDBase (its p) = 0 then None else Some ItsIndex)"

text \<open>The result is the status, \<open>*msi_addr\<close> and \<open>*msi_data\<close>; the address is stored in 32 bits.\<close>

definition pal_gic_request_msi :: "'d its_bus \<Rightarrow> u32 \<Rightarrow> u32 \<Rightarrow> u32 \<Rightarrow> u32 \<Rightarrow> u32 \<Rightarrow> u32 \<Rightarrow> 'd pal_its
    \<Rightarrow> (u32 \<times> u32 \<times> u32) \<times> 'd pal_its" where
  "pal_gic_request_msi H ItsID DevID IntID msi_index msi_addr msi_data p =
     (case its_for_msi p ItsID of
        None \<Rightarrow> ((0xFFFFFFFF, msi_addr, msi_data), p)
      | Some ItsIndex \<Rightarrow>
          (let s1 = ArmGicItsCreateLpiMap H ItsIndex DevID IntID LPI_PRIORITY1 (its p)
           in ((0, ucast (ArmGicItsGetGITSTranslatorAddress ItsIndex s1), IntID), p\<lparr>its := s1\<rparr>)))"

definition pal_gic_free_msi :: "'d its_bus \<Rightarrow> u32 \<Rightarrow> u32 \<Rightarrow> u32 \<Rightarrow> u32 \<Rightarrow> 'd pal_its \<Rightarrow> 'd pal_its" where
  "pal_gic_free_msi H ItsID DevID IntID msi_index p =
     (case its_for_msi p ItsID of
        None \<Rightarrow> p
      | Some ItsIndex \<Rightarrow> p\<lparr>its := ArmGicItsClearLpiMappings H ItsIndex DevID IntID (its p)\<rparr>)"

subsection \<open>Processing elements (pal_pe.c)\<close>

text \<open>\<open>register\<close> of the CPU protocol returns an EFI status, 0 for success; the status is returned in 32 bits.\<close>

definition EFI_ERROR :: "u64 \<Rightarrow> bool" where
  "EFI_ERROR st \<longleftrightarrow> bit st 63"

definition pal_pe_install_esr :: "u64 + (u32 \<Rightarrow> 'h option \<Rightarrow> 'f \<Rightarrow> u64 \<times> 'f) \<Rightarrow> u32 \<Rightarrow> 'h \<Rightarrow> 'f \<Rightarrow> u32 \<times> 'f" where
  "pal_pe_install_esr Cpu ExceptionType esr f =
     (case Cpu of
        Inl st \<Rightarrow> (ucast st, f)
      | Inr register \<Rightarrow>
          (let (st1, f1) = register ExceptionType None f
           in if EFI_ERROR st1 then (ucast st1, f1)
              else let (st2, f2) = register ExceptionType (Some esr) f1
                   in if EFI_ERROR st2 then (ucast st2, f2) else (0, f2)))"

record ARM_SMC_ARGS =
  Arg0 :: u64
  Arg1 :: u64
  Arg2 :: u64
  Arg3 :: u64
  Arg4 :: u64
  Arg5 :: u64
  Arg6 :: u64
  Arg7 :: u64

definition pal_pe_call_smc :: "(ARM_SMC_ARGS \<Rightarrow> 'f \<Rightarrow> ARM_SMC_ARGS \<times> 'f) \<Rightarrow> ARM_SMC_ARGS \<Rightarrow> 'f \<Rightarrow> ARM_SMC_ARGS \<times> 'f" where
  "pal_pe_call_smc ArmCallSmc args f = ArmCallSmc args f"

definition pal_pe_execute_payload :: "(ARM_SMC_ARGS \<Rightarrow> 'f \<Rightarrow> ARM_SMC_ARGS \<times> 'f) \<Rightarrow> u64 \<Rightarrow> ARM_SMC_ARGS \<Rightarrow> 'f \<Rightarrow> ARM_SMC_ARGS \<times> 'f" where
  "pal_pe_execute_payload ArmCallSmc ModuleEntryPoint args f = pal_pe_call_smc ArmCallSmc (args\<lparr>Arg2 := ModuleEntryPoint\<rparr>) f"

record EFI_SYSTEM_CONTEXT_AARCH64 =
  ELR :: u64
  ESR :: u64
  FAR :: u64

definition pal_pe_update_elr :: "EFI_SYSTEM_CONTEXT_AARCH64 \<Rightarrow> u64 \<Rightarrow> EFI_SYSTEM_CONTEXT_AARCH64" where
  "pal_pe_update_elr context offset = context\<lparr>ELR := offset\<rparr>"

definition pal_pe_get_esr :: "EFI_SYSTEM_CONTEXT_AARCH64 \<Rightarrow> u64" where
  "pal_pe_get_esr context = ESR context"

definition pal_pe_get_far :: "EFI_SYSTEM_CONTEXT_AARCH64 \<Rightarrow> u64" where
  "pal_pe_get_far context = FAR context"

datatype cache_op = DataCacheCleanInvalidateVA | DataCacheCleanVA | DataCacheInvalidateVA

text \<open>\<open>CLEAN_AND_INVALIDATE\<close> is 1, \<open>CLEAN\<close> 2 and \<open>INVALIDATE\<close> 3.\<close>

definition pal_pe_data_cache_ops_by_va :: "(cache_op \<Rightarrow> u64 \<Rightarrow> 'f \<Rightarrow> 'f) \<Rightarrow> u64 \<Rightarrow> u32 \<Rightarrow> 'f \<Rightarrow> 'f" where
  "pal_pe_data_cache_ops_by_va cache addr ty f =
     (if ty = 1 then cache DataCacheCleanInvalidateVA addr f
      else if ty = 2 then cache DataCacheCleanVA addr f
      else if ty = 3 then cache DataCacheInvalidateVA addr f
      else cache DataCacheCleanInvalidateVA addr f)"

subsection \<open>Memory (pal_misc.c)\<close>

text \<open>
  The boot services of UEFI; an allocation that fails is \<open>None\<close>.  \<open>cpu_protocol\<close> tells whether the CPU protocol is
  installed, \<open>SetMemoryAttributes\<close> whether the call succeeded.
\<close>

record 'f boot_services =
  AllocatePool :: "u64 \<Rightarrow> 'f \<Rightarrow> u64 option \<times> 'f"
  FreePool :: "u64 \<Rightarrow> 'f \<Rightarrow> 'f"
  AllocatePages :: "u64 \<Rightarrow> 'f \<Rightarrow> u64 option \<times> 'f"
  FreePages :: "u64 \<Rightarrow> u64 \<Rightarrow> 'f \<Rightarrow> 'f"
  cpu_protocol :: bool
  SetMemoryAttributes :: "u64 \<Rightarrow> u64 \<Rightarrow> 'f \<Rightarrow> bool \<times> 'f"

definition pal_mem_alloc :: "'f boot_services \<Rightarrow> u32 \<Rightarrow> 'f \<Rightarrow> u64 \<times> 'f" where
  "pal_mem_alloc gBS Size f =
     (case AllocatePool gBS (ucast Size) f of (b, f1) \<Rightarrow> (case b of None \<Rightarrow> 0 | Some a \<Rightarrow> a, f1))"

definition pal_mem_free :: "'f boot_services \<Rightarrow> u64 \<Rightarrow> 'f \<Rightarrow> 'f" where
  "pal_mem_free gBS Buffer f = FreePool gBS Buffer f"

text \<open>The shared memory; the result is \<open>gSharedMemory\<close>, whose size is a product in 32 bits.  The cache maintenance is left out.\<close>

definition pal_mem_allocate_shared :: "'f boot_services \<Rightarrow> u32 \<Rightarrow> u32 \<Rightarrow> 'f \<Rightarrow> u64 \<times> 'f" where
  "pal_mem_allocate_shared gBS num_pe sizeofentry f =
     (case AllocatePool gBS (ucast (num_pe * sizeofentry)) f of (b, f1) \<Rightarrow> (case b of None \<Rightarrow> 0 | Some a \<Rightarrow> a, f1))"

definition pal_mem_free_shared :: "'f boot_services \<Rightarrow> u64 \<Rightarrow> 'f \<Rightarrow> 'f" where
  "pal_mem_free_shared gBS gSharedMemory f = FreePool gBS gSharedMemory f"

text \<open>The result is the address, 0 for \<open>NULL\<close>, and \<open>*Pa\<close>.\<close>

definition pal_mem_alloc_cacheable :: "'f boot_services \<Rightarrow> u32 \<Rightarrow> u32 \<Rightarrow> u64 \<Rightarrow> 'f \<Rightarrow> (u64 \<times> u64) \<times> 'f" where
  "pal_mem_alloc_cacheable gBS Bdf Size Pa f =
     (case AllocatePages gBS (ucast (EFI_SIZE_TO_PAGES Size)) f of
        (None, f1) \<Rightarrow> ((0, Pa), f1)
      | (Some Address, f1) \<Rightarrow>
          if \<not> cpu_protocol gBS then ((0, Pa), f1)
          else (case SetMemoryAttributes gBS Address (ucast Size) f1 of
                  (ok, f2) \<Rightarrow> if \<not> ok then ((0, Pa), f2) else ((Address, Address), f2)))"

definition pal_mem_free_cacheable :: "'f boot_services \<Rightarrow> u32 \<Rightarrow> u32 \<Rightarrow> u64 \<Rightarrow> u64 \<Rightarrow> 'f \<Rightarrow> 'f" where
  "pal_mem_free_cacheable gBS Bdf Size Va Pa f = FreePages gBS Va (ucast (EFI_SIZE_TO_PAGES Size)) f"

definition pal_mem_virt_to_phys :: "u64 \<Rightarrow> u64" where "pal_mem_virt_to_phys Va = Va"
definition pal_mem_phys_to_virt :: "u64 \<Rightarrow> u64" where "pal_mem_phys_to_virt Pa = Pa"

definition pal_mem_alloc_pages :: "'f boot_services \<Rightarrow> u32 \<Rightarrow> 'f \<Rightarrow> u64 \<times> 'f" where
  "pal_mem_alloc_pages gBS NumPages f =
     (case AllocatePages gBS (ucast NumPages) f of (b, f1) \<Rightarrow> (case b of None \<Rightarrow> 0 | Some a \<Rightarrow> a, f1))"

definition pal_mem_free_pages :: "'f boot_services \<Rightarrow> u64 \<Rightarrow> u32 \<Rightarrow> 'f \<Rightarrow> 'f" where
  "pal_mem_free_pages gBS PageBase NumPages f = FreePages gBS PageBase (ucast NumPages) f"

end
