(* ===== verification/Acs_Pal_Devices_Check.thy ===== *)
theory Acs_Pal_Devices_Check
  imports Acs_Pal_Exerciser Acs_Pal_Services
begin

text \<open>
  Lemmas on the device and service functions of the platform layer: the memory map of UEFI as the validation layer
  sees it, the search for PCI controllers, the parameters of the exerciser, console output, MSIs and memory.
\<close>

subsection \<open>Specification\<close>

text \<open>The descriptor of the memory map that holds an address; its end is computed as in the code.\<close>

definition holds_addr :: "u64 \<Rightarrow> EFI_MEMORY_DESCRIPTOR \<Rightarrow> bool" where
  "holds_addr addr m \<longleftrightarrow> PhysicalStart m \<le> addr \<and> addr < PhysicalStart m + NumberOfPages m * EFI_PAGE_SIZE"

definition memory_type_at :: "EFI_MEMORY_DESCRIPTOR list \<Rightarrow> u64 \<Rightarrow> u64" where
  "memory_type_at ms addr = (case find (holds_addr addr) ms of None \<Rightarrow> mem_type_num MEM_TYPE_NOT_POPULATED
     | Some m \<Rightarrow> ucast (memory_class (md_Type m)))"

definition mem_row :: "EFI_MEMORY_DESCRIPTOR \<Rightarrow> MEM_INFO_BLOCK \<Rightarrow> bool" where
  "mem_row m e \<longleftrightarrow> mem_type e = memory_class (md_Type m) \<and> phy_addr e = PhysicalStart m \<and>
     mem_size e = NumberOfPages m * EFI_PAGE_SIZE"

text \<open>The decimal digits of a number as characters, the most significant one first.\<close>

function dec_digits :: "nat \<Rightarrow> u8 list" where
  "dec_digits n = (if n = 0 then [] else dec_digits (n div 10) @ [of_nat (n mod 10) + 48])"
  by auto
termination by (relation "measure id") auto

declare dec_digits.simps [simp del]

subsection \<open>The memory map\<close>

lemma memory_map_rows:
  "\<exists>t'. memory_map_loop i ms t = (i + length ms, t') \<and> (\<forall>j<i. t' j = t j) \<and>
     (\<forall>k<length ms. mem_row (ms ! k) (t' (i + k)))"
proof (induction ms arbitrary: i t)
  case (Cons m ms)
  let ?t = "t(i := (t i)\<lparr>mem_type := memory_class (md_Type m), phy_addr := PhysicalStart m,
       virt_addr := VirtualStart m, mem_size := NumberOfPages m * EFI_PAGE_SIZE\<rparr>)"
  from Cons [of "Suc i" ?t] obtain t' where t': "memory_map_loop (Suc i) ms ?t = (Suc i + length ms, t')"
    "\<forall>j<Suc i. t' j = ?t j" "\<forall>k<length ms. mem_row (ms ! k) (t' (Suc i + k))" by blast
  have "mem_row m (t' i)" using t'(2) by (simp add: mem_row_def)
  then have "\<forall>k<length (m # ms). mem_row ((m # ms) ! k) (t' (i + k))"
    using t'(3) by (auto simp: nth_Cons split: nat.splits)
  moreover have "\<forall>j<i. t' j = t j" using t'(2) by auto
  ultimately show ?case using t'(1) by (intro exI [of _ t']) simp
qed auto

lemma memory_class_not_last: "memory_class ty \<noteq> MEMORY_TYPE_LAST_ENTRY"
  by (simp add: memory_class_def memory_type_defs)

lemma get_info_of_rows:
  assumes "list_all2 mem_row ms es" and "mem_type l = MEMORY_TYPE_LAST_ENTRY"
  shows "\<exists>a. val_memory_get_info (es @ [l]) addr attr = Some (memory_type_at ms addr, a)"
  using assms(1)
proof (induction rule: list_all2_induct)
  case Nil
  show ?case using assms(2) by (simp add: memory_type_at_def)
next
  case (Cons m ms e es)
  then show ?case
    using memory_class_not_last [of "md_Type m"]
    by (auto simp: mem_row_def memory_type_at_def holds_addr_def)
qed

subsection \<open>PCI controllers\<close>

lemma handle_loop_dev:
  "handle_loop cc bus dev hs = Some b \<Longrightarrow>
   \<exists>p h. Some p \<in> set hs \<and> io_header p = Some h \<and> class_matches cc h \<and> io_Dev p = of_nat dev"
  by (induction cc bus dev hs rule: handle_loop.induct) (auto split: if_splits option.splits)

lemma dev_loop_dev:
  "dev_loop cc bus dev n hs = Some b \<Longrightarrow>
   \<exists>p h d. Some p \<in> set hs \<and> io_header p = Some h \<and> class_matches cc h \<and> io_Dev p = of_nat d \<and> dev \<le> d \<and> d < dev + n"
proof (induction n arbitrary: dev)
  case (Suc n)
  show ?case
  proof (cases "handle_loop cc bus dev hs")
    case None
    with Suc obtain p h d where "Some p \<in> set hs" "io_header p = Some h" "class_matches cc h" "io_Dev p = of_nat d"
      "Suc dev \<le> d" "d < Suc dev + n" by fastforce
    then show ?thesis by (intro exI [of _ p] exI [of _ h] exI [of _ d]) simp
  next
    case (Some b')
    from handle_loop_dev [OF this] show ?thesis by fastforce
  qed
qed simp

lemma bus_loop_dev:
  "bus_loop cc dev bus n hs = Some b \<Longrightarrow>
   \<exists>p h d. Some p \<in> set hs \<and> io_header p = Some h \<and> class_matches cc h \<and> io_Dev p = of_nat d \<and> dev \<le> d \<and> d < 32"
proof (induction n arbitrary: bus)
  case (Suc n)
  show ?case
  proof (cases "dev_loop cc bus dev (unat PCI_MAX_DEVICE + 1 - dev) hs")
    case None
    with Suc show ?thesis by simp
  next
    case (Some b')
    from dev_loop_dev [OF this] show ?thesis by (fastforce simp: PCI_MAX_DEVICE_def)
  qed
qed simp

text \<open>
  The search on every bus starts at the device number of \<open>StartBdf\<close>: controllers with a smaller device number are
  not found on any bus.
\<close>

lemma get_bdf_misses_small_devices:
  assumes "\<And>p h. Some p \<in> set hs \<Longrightarrow> io_header p = Some h \<Longrightarrow> class_matches cc h \<Longrightarrow>
    unat (io_Dev p) < unat (PCIE_EXTRACT_BDF_DEV StartBdf)"
  shows "palPcieGetBdf (Some hs) cc StartBdf = 0"
proof (cases "bus_loop cc (unat (PCIE_EXTRACT_BDF_DEV StartBdf)) (unat (PCIE_EXTRACT_BDF_BUS StartBdf))
    (PCI_MAX_BUS + 1 - unat (PCIE_EXTRACT_BDF_BUS StartBdf)) hs")
  case (Some b)
  from bus_loop_dev [OF this] obtain p h d where p: "Some p \<in> set hs" "io_header p = Some h" "class_matches cc h"
    "io_Dev p = of_nat d" "unat (PCIE_EXTRACT_BDF_DEV StartBdf) \<le> d" "d < 32" by blast
  then have "unat (io_Dev p) = d" by (simp add: word_le_of_nat_less)
  with assms [OF p(1-3)] p(5) show ?thesis by simp
qed (simp add: palPcieGetBdf_def)

subsection \<open>The exerciser\<close>

lemma run_effect [simp]: "run_state (effect f) d = ((), f d)"
  by (simp add: effect_def)

lemma mmio_write_run [simp]: "run_state (mmio_write M a v) d = ((), store32 M a v d)"
  by (simp add: mmio_write_def)

text \<open>The PASID length field of the control register, as \<open>pal_exerciser_set_param\<close> writes it.\<close>

lemma pasid_len_value:
  fixes Data :: u32 and v :: u64
  defines "Data1 \<equiv> (ucast (ucast Data AND NOT (shl PASID_LEN_MASK PASID_LEN_SHIFT)) :: u32)"
  shows "ucast (shr (ucast (ucast Data1 OR shl ((v - 16) AND PASID_LEN_MASK) PASID_LEN_SHIFT) :: u32) PASID_LEN_SHIFT)
           AND PASID_LEN_MASK = (v - 16) AND PASID_LEN_MASK"
proof (rule bit_word_eqI)
  have m: "PASID_LEN_MASK = mask 3" by (simp add: PASID_LEN_MASK_def mask_eq_exp_minus_1)
  fix n assume "n < LENGTH(64)"
  then show "bit (ucast (shr (ucast (ucast Data1 OR shl ((v - 16) AND PASID_LEN_MASK) PASID_LEN_SHIFT) :: u32) PASID_LEN_SHIFT)
           AND PASID_LEN_MASK) n = bit ((v - 16) AND PASID_LEN_MASK) n"
    unfolding Data1_def m PASID_LEN_SHIFT_def by (auto simp: bit_simps)
qed

text \<open>
  The PASID length read back from an exerciser whose control register keeps what is written to it: the field has
  three bits, so lengths from 16 to 23 are read back and others are not.
\<close>

lemma pasid_length_roundtrip:
  assumes "\<And>v d. load32 (ex_bus X) a (store32 (ex_bus X) a v d) = (v, store32 (ex_bus X) a v d)"
    and "a = pal_exerciser_get_ecsr_base X Bdf 0 + DMACTL1" and "a AND 0x3 = 0"
  shows "fst (run_state (pal_exerciser_get_param X PASID_ATTRIBUTES x y Bdf)
           (snd (run_state (pal_exerciser_set_param X PASID_ATTRIBUTES v w Bdf) d)))
         = (0, ((v - 16) AND 0x7) + 16, y)"
proof -
  have rd: "run_state (mmio_read (ex_bus X) a) s = load32 (ex_bus X) a s" for s
    using assms(3) by (simp add: mmio_read_def)
  obtain Data d1 where ld: "load32 (ex_bus X) a d = (Data, d1)" by (cases "load32 (ex_bus X) a d")
  show ?thesis
    using pasid_len_value [of Data v]
    unfolding pal_exerciser_get_param_def pal_exerciser_set_param_def Let_def assms(2) [symmetric]
    by (simp add: rd ld assms(1) PASID_LEN_MASK_def)
qed

subsection \<open>Console output\<close>

lemma dec_loop_digits:
  "dec_loop data i b = (i + int (length (dec_digits (unat data))),
     \<lambda>j. if i \<le> j \<and> j < i + int (length (dec_digits (unat data)))
         then rev (dec_digits (unat data)) ! nat (j - i) else b j)"
proof (induction data i b rule: dec_loop.induct)
  case (1 data i b)
  show ?case
  proof (cases "data = 0")
    case True
    then show ?thesis by (subst dec_loop.simps) (auto simp: dec_digits.simps [of 0] fun_eq_iff)
  next
    case False
    define ds where "ds = dec_digits (unat (data div 10))"
    have d: "dec_digits (unat data) = ds @ [of_nat (unat data mod 10) + 48]"
      using False by (subst dec_digits.simps) (simp add: ds_def unat_div unat_eq_0)
    have ten: "unat (10 :: u64) = 10" by simp
    have c: "ucast (data mod 10) = (of_nat (unat data mod 10) :: u8)"
      by (metis of_nat_unat unat_mod ten)
    define C where "C = (of_nat (unat data mod 10) + 48 :: u8)"
    have "dec_loop data i b = dec_loop (data div 10) (i + 1) (b(i := C))"
      using False by (subst dec_loop.simps) (simp add: c C_def)
    also have "\<dots> = (i + 1 + int (length ds),
        \<lambda>j. if i + 1 \<le> j \<and> j < i + 1 + int (length ds) then rev ds ! nat (j - (i + 1)) else (b(i := C)) j)"
      using "1.IH" [OF False] by (simp only: c C_def ds_def)
    also have "\<dots> = (i + int (length (ds @ [C])),
        \<lambda>j. if i \<le> j \<and> j < i + int (length (ds @ [C])) then rev (ds @ [C]) ! nat (j - i) else b j)" (is "(_, ?f) = (_, ?g)")
    proof -
      have "?f j = ?g j" for j
      proof (cases "i < j")
        case True
        then have "nat (j - i) = Suc (nat (j - (i + 1)))" by simp
        with True show ?thesis by simp
      qed simp
      then show ?thesis by auto
    qed
    finally show ?thesis by (simp only: d C_def)
  qed
qed

lemma out_loop_take:
  "out_loop n b = rev (map (\<lambda>j. b (int j)) [0..<n]) @ [b (- 1)]"
  by (induction n) auto

text \<open>
  \<open>%d\<close> writes the decimal digits of a number other than 0, followed by the byte in front of the buffer, which is
  not part of the number.
\<close>

lemma print_raw_decimal:
  assumes "data \<noteq> 0"
  shows "pal_print_raw ''%d'' data b = Some (dec_digits (unat data) @ [b (- 1)])"
proof -
  define ds where "ds = dec_digits (unat data)"
  have ne: "ds \<noteq> []" using assms by (subst (asm) unat_eq_0 [symmetric]) (simp add: ds_def dec_digits.simps [of "unat data"])
  have "rev (map (\<lambda>j. rev ds ! j) [0..<length ds]) = ds"
    by (metis length_rev map_nth rev_rev_ident)
  moreover have eq: "map (\<lambda>j. if j < length ds then rev ds ! j else b (int j)) [0..<length ds]
      = map (\<lambda>j. rev ds ! j) [0..<length ds]" by simp
  ultimately show ?thesis
    using ne by (simp add: eq pal_print_raw_def dec_loop_digits ds_def [symmetric] out_loop_take cong: if_cong)
qed

subsection \<open>Message signalled interrupts\<close>

lemma its_index_loop_spec:
  "its_index_loop s ItsID js =
     (case find (\<lambda>j. its_ID (GicIts s (of_nat j)) = ItsID) js of None \<Rightarrow> 0xFFFFFFFF | Some j \<Rightarrow> of_nat j)"
  by (induction js) auto

text \<open>
  A request for an MSI succeeds exactly if the ITS is one of those that were found, and then uses the first one with
  that identifier; the address is cut to 32 bits.
\<close>

lemma request_msi_spec:
  assumes "info p" and "GicNumIts (its p) \<noteq> 0" and "GicNumIts (its p) \<noteq> 0xFFFFFFFF"
    and "GicRdBase (its p) \<noteq> 0" and "GicDBase (its p) \<noteq> 0"
  shows "pal_gic_request_msi H ItsID DevID IntID k addr data p =
     (case find (\<lambda>j. its_ID (GicIts (its p) (of_nat j)) = ItsID) [0..<unat (GicNumIts (its p))] of
        None \<Rightarrow> ((0xFFFFFFFF, addr, data), p)
      | Some j \<Rightarrow> (let s1 = ArmGicItsCreateLpiMap H (of_nat j) DevID IntID LPI_PRIORITY1 (its p)
                   in ((0, ucast (its_Base (GicIts s1 (of_nat j)) + 0x10040), IntID), p\<lparr>its := s1\<rparr>)))"
proof (cases "find (\<lambda>j. its_ID (GicIts (its p) (of_nat j)) = ItsID) [0..<unat (GicNumIts (its p))]")
  case None
  have "(0xFFFFFFFF :: u32) = - 1" by simp
  then have "GicNumIts (its p) < 0xFFFFFFFF"
    using assms(3) word_order.not_eq_extremum [of "GicNumIts (its p)"] by metis
  with None assms show ?thesis
    by (simp add: pal_gic_request_msi_def its_for_msi_def getItsIndex_def its_index_loop_spec)
next
  case (Some j)
  then have "j < unat (GicNumIts (its p))" by (auto simp: find_Some_iff)
  then have "\<not> of_nat j > GicNumIts (its p)"
    by (simp add: word_less_nat_alt unat_of_nat)
  with Some assms show ?thesis
    by (simp add: pal_gic_request_msi_def its_for_msi_def getItsIndex_def its_index_loop_spec
        ArmGicItsGetGITSTranslatorAddress_def Let_def)
qed

subsection \<open>Memory\<close>

text \<open>Without the CPU protocol the pages stay allocated, but the caller gets a null pointer.\<close>

lemma alloc_cacheable_leaks:
  assumes "AllocatePages gBS (ucast (EFI_SIZE_TO_PAGES Size)) f = (Some Address, f1)" and "\<not> cpu_protocol gBS"
  shows "pal_mem_alloc_cacheable gBS Bdf Size Pa f = ((0, Pa), f1)"
  using assms by (simp add: pal_mem_alloc_cacheable_def)

subsection \<open>Properties\<close>


end
