(* ===== verification/Acs_Pal_Dt.thy ===== *)
theory Acs_Pal_Dt
  imports Acs_Pal_Acpi
begin

text \<open>
  The device tree platform layer (\<^verbatim>\<open>platform/pal_uefi_dt\<close>): the tables that the platform layer fills from a flattened
  device tree when there are no ACPI tables.  \<^verbatim>\<open>pal_dt.c\<close> and the functions \<open>pal_*_create_info_table_dt\<close> of \<open>pal_pe.c\<close>,
  \<open>pal_pcie.c\<close>, \<open>pal_timer_wd.c\<close> and \<open>pal_gic.c\<close>.

  libfdt is the parameter \<open>F\<close>: its functions on node offsets, as in its documentation.  A property is its
  length and the bytes behind the pointer that \<open>fdt_getprop\<close> returns (the code may read past its end); it is \<open>None\<close>
  if libfdt returns a null pointer, which it does exactly if it stores a negative length.  Errors are negative offsets,
  \<open>-FDT_ERR_NOTFOUND\<close> is -1.  The tables without bound on the index are functions of the index, and a
  loop that does not end is \<open>None\<close>.  Messages and the dump functions are left out.
\<close>

subsection \<open>libfdt\<close>

record fdt_prop =
  plen :: nat
  pbyte :: "nat \<Rightarrow> u8"

record fdt =
  fdt_node_offset_by_compatible :: "int \<Rightarrow> string \<Rightarrow> int"
  fdt_node_offset_by_prop_value :: "int \<Rightarrow> string \<Rightarrow> string \<Rightarrow> int"
  fdt_node_offset_by_phandle :: "u32 \<Rightarrow> int"
  fdt_parent_offset :: "int \<Rightarrow> int"
  fdt_subnode_offset :: "int \<Rightarrow> string \<Rightarrow> int"
  fdt_next_subnode :: "int \<Rightarrow> int"
  fdt_next_node :: "int \<Rightarrow> int"
  fdt_size_cells :: "int \<Rightarrow> int"
  fdt_address_cells :: "int \<Rightarrow> int"
  fdt_getprop :: "int \<Rightarrow> string \<Rightarrow> fdt_prop option"

text \<open>\<open>fdt32_to_cpu(p[k])\<close>: cells are stored with the most significant byte first.\<close>

definition cell :: "fdt_prop \<Rightarrow> nat \<Rightarrow> u32" where
  "cell p k = shl (ucast (pbyte p (4 * k))) 24 OR shl (ucast (pbyte p (4 * k + 1))) 16
     OR shl (ucast (pbyte p (4 * k + 2))) 8 OR ucast (pbyte p (4 * k + 3))"

text \<open>An address or a size of one or two cells from the cell \<open>k\<close> on, and the index behind it.\<close>

definition dt_num :: "int \<Rightarrow> fdt_prop \<Rightarrow> nat \<Rightarrow> u64 \<times> nat" where
  "dt_num nc p k =
     (if nc = 2 then (shl (ucast (cell p k)) 32 OR ucast (cell p (k + 1)), k + 2) else (ucast (cell p k), k + 1))"

definition PPI_OFFSET :: u32 where "PPI_OFFSET = 16"
definition SPI_OFFSET :: u32 where "SPI_OFFSET = 32"
definition GIC_SPI :: u32 where "GIC_SPI = 0"
definition GIC_PPI :: u32 where "GIC_PPI = 1"

subsection \<open>Loops over nodes\<close>

text \<open>
  \<open>while (offset != -FDT_ERR_NOTFOUND) { \<dots>; offset = nxt(offset); }\<close>.  The body returns \<open>Inl s\<close> to leave the
  function and \<open>Inr s\<close> to go on; so does the loop.
\<close>

definition node_step :: "('s \<Rightarrow> int \<Rightarrow> int) \<Rightarrow> (int \<Rightarrow> 's \<Rightarrow> ('s + 's) option) \<Rightarrow> int \<times> 's \<Rightarrow> ('s + 's) option + int \<times> 's" where
  "node_step nxt body = (\<lambda>(offset, s).
     if offset \<noteq> - 1
     then (case body offset s of
             None \<Rightarrow> Inl None
           | Some (Inl s') \<Rightarrow> Inl (Some (Inl s'))
           | Some (Inr s') \<Rightarrow> Inr (nxt s' offset, s'))
     else Inl (Some (Inr s)))"

definition for_nodes :: "('s \<Rightarrow> int \<Rightarrow> int) \<Rightarrow> (int \<Rightarrow> 's \<Rightarrow> ('s + 's) option) \<Rightarrow> int \<Rightarrow> 's \<Rightarrow> ('s + 's) option" where
  "for_nodes nxt body offset s = do { r \<leftarrow> tail_iter (node_step nxt body) (offset, s); r }"

text \<open>The loop over an array of compatible strings around it: strings without a node are skipped.\<close>

fun for_compatible :: "fdt \<Rightarrow> string list \<Rightarrow> (string \<Rightarrow> int \<Rightarrow> 's \<Rightarrow> ('s + 's) option) \<Rightarrow> 's \<Rightarrow> ('s + 's) option" where
  "for_compatible F [] body s = Some (Inr s)"
| "for_compatible F (c # cs) body s =
     (let offset = fdt_node_offset_by_compatible F (- 1) c
      in if offset < 0 then for_compatible F cs body s
         else do { r \<leftarrow> body c offset s;
                   case r of Inl s' \<Rightarrow> Some (Inl s') | Inr s' \<Rightarrow> for_compatible F cs body s' })"

text \<open>The first compatible string with a node; \<open>offset\<close> is the result of the last search.\<close>

fun find_compatible :: "fdt \<Rightarrow> string list \<Rightarrow> int \<Rightarrow> int" where
  "find_compatible F [] offset = offset"
| "find_compatible F (c # cs) offset =
     (let o' = fdt_node_offset_by_compatible F (- 1) c in if o' < 0 then find_compatible F cs o' else o')"

subsection \<open>pal_dt.c\<close>

text \<open>The configuration tables of UEFI: whether the identifier is that of the device tree, and the address.\<close>

fun dt_ptr_loop :: "(bool \<times> u64) list \<Rightarrow> u64" where
  "dt_ptr_loop [] = 0"
| "dt_ptr_loop ((is_fdt, table) # ts) = (if is_fdt then table else dt_ptr_loop ts)"

definition pal_get_dt_ptr :: "(bool \<times> u64) list \<Rightarrow> (u64 \<Rightarrow> int) \<Rightarrow> u64" where
  "pal_get_dt_ptr tables fdt_check_header =
     (let DTB = dt_ptr_loop tables
      in if DTB = 0 then 0 else if fdt_check_header DTB \<noteq> 0 then 0 else DTB)"

definition fdt_frame_number :: "fdt \<Rightarrow> int \<Rightarrow> int" where
  "fdt_frame_number F nodeoffset =
     (case fdt_getprop F nodeoffset ''frame-number'' of
        None \<Rightarrow> 2
      | Some ic \<Rightarrow> if plen ic \<noteq> 4 then - 14
                   else let val = sint (cell ic 0) in if val < 0 then - 14 else val)"

definition interrupt_cells_step :: "fdt \<Rightarrow> int \<Rightarrow> int + int" where
  "interrupt_cells_step F nodeoffset =
     (case fdt_getprop F nodeoffset ''#interrupt-cells'' of
        Some ic \<Rightarrow> Inl (if nodeoffset < 0 then 3 else sint (cell ic 0))
      | None \<Rightarrow>
          (let n = (case fdt_getprop F nodeoffset ''interrupt-parent'' of
                      Some ic \<Rightarrow> fdt_node_offset_by_phandle F (cell ic 0)
                    | None \<Rightarrow> fdt_parent_offset F nodeoffset)
           in if n \<ge> 0 then Inr n else Inl 3))"

definition fdt_interrupt_cells :: "fdt \<Rightarrow> int \<Rightarrow> int option" where
  "fdt_interrupt_cells F nodeoffset = tail_iter (interrupt_cells_step F) nodeoffset"

definition prop_name_step :: "fdt \<Rightarrow> string \<Rightarrow> int \<Rightarrow> int + int" where
  "prop_name_step F propname offset =
     (if offset \<ge> 0
      then if fdt_getprop F offset propname \<noteq> None then Inl offset else Inr (fdt_next_node F offset)
      else Inl offset)"

definition fdt_node_offset_by_prop_name :: "fdt \<Rightarrow> int \<Rightarrow> string \<Rightarrow> int option" where
  "fdt_node_offset_by_prop_name F startoffset propname = tail_iter (prop_name_step F propname) (fdt_next_node F startoffset)"

subsection \<open>Processing elements (pal_pe.c)\<close>

definition pmu_dt_arr :: "string list" where
  "pmu_dt_arr = [''arm,armv8-pmuv3'', ''arm,cortex-a17-pmu'', ''arm,cortex-a15-pmu'', ''arm,cortex-a12-pmu'',
     ''arm,cortex-a9-pmu'', ''arm,cortex-a8-pmu'', ''arm,cortex-a7-pmu'', ''arm,cortex-a5-pmu'', ''arm,arm11mpcore-pmu'',
     ''arm,arm1176-pmu'', ''arm,arm1136-pmu'']"

definition set_pe :: "nat \<Rightarrow> (PE_INFO_ENTRY \<Rightarrow> PE_INFO_ENTRY) \<Rightarrow> pe_mem \<Rightarrow> pe_mem" where
  "set_pe ptr f t = t\<lparr>pe_arr := (pe_arr t)(ptr := f (pe_arr t ptr))\<rparr>"

text \<open>Single interrupt: \<open>n\<close> entries from \<open>ptr\<close> on get the same number.\<close>

fun pmu_fill :: "u32 \<Rightarrow> nat \<Rightarrow> nat \<Rightarrow> pe_mem \<Rightarrow> pe_mem" where
  "pmu_fill g 0 ptr t = t"
| "pmu_fill g (Suc n) ptr t = pmu_fill g n (Suc ptr) (set_pe ptr (\<lambda>e. e\<lparr>pmu_gsiv := g\<rparr>) t)"

text \<open>One interrupt of a list: the index behind it and its number.\<close>

definition pmu_intr :: "int \<Rightarrow> fdt_prop \<Rightarrow> nat \<Rightarrow> nat \<times> u32" where
  "pmu_intr interrupt_cell p index =
     (if interrupt_cell = 3
      then (index + 3, cell p (index + 1) + (if cell p index \<noteq> 0 then PPI_OFFSET else SPI_OFFSET))
      else if interrupt_cell = 2 then (index + 2, cell p index) else (index + 1, cell p index))"

fun pmu_frames :: "int \<Rightarrow> fdt_prop \<Rightarrow> nat \<Rightarrow> nat \<Rightarrow> nat \<Rightarrow> pe_mem \<Rightarrow> nat \<times> nat \<times> pe_mem" where
  "pmu_frames c p 0 index ptr t = (index, ptr, t)"
| "pmu_frames c p (Suc n) index ptr t =
     (let (index', g) = pmu_intr c p index
      in pmu_frames c p n index' (Suc ptr) (set_pe ptr (\<lambda>e. e\<lparr>pmu_gsiv := g\<rparr>) t))"

text \<open>
  The state is \<open>(i, index, Ptr, table)\<close>: the inner loops use the same \<open>i\<close> as the loop over the compatible
  strings, and \<open>index\<close> and \<open>Ptr\<close> go on from node to node.
\<close>

type_synonym pmu_state = "nat \<times> nat \<times> nat \<times> pe_mem"

definition pmu_node :: "fdt \<Rightarrow> int \<Rightarrow> pmu_state \<Rightarrow> (pmu_state + pmu_state) option" where
  "pmu_node F offset = (\<lambda>(i, index, ptr, t).
     case fdt_getprop F offset ''interrupts'' of
       None \<Rightarrow> Some (Inl (i, index, ptr, t))
     | Some p \<Rightarrow> do {
         interrupt_cell \<leftarrow> fdt_interrupt_cells F offset;
         if interrupt_cell < 1 \<or> interrupt_cell > 3 then Some (Inl (i, index, ptr, t))
         else let n = plen p div 4 div nat interrupt_cell
              in if n = 0 then Some (Inl (i, index, ptr, t))
                 else if n = 1
                 then Some (Inl (i, index, ptr, pmu_fill (snd (pmu_intr interrupt_cell p 0)) (unat (pe_hdr_num t)) ptr t))
                 else let (index', ptr', t') = pmu_frames interrupt_cell p n index ptr t
                      in Some (Inr (n, index', ptr', t')) })"

text \<open>\<open>beyond\<close> is what the code reads as a compatible string behind the array.\<close>

definition pmu_compatible :: "(nat \<Rightarrow> string) \<Rightarrow> nat \<Rightarrow> string" where
  "pmu_compatible beyond i = (if i < length pmu_dt_arr then pmu_dt_arr ! i else beyond i)"

definition pmu_step :: "fdt \<Rightarrow> (nat \<Rightarrow> string) \<Rightarrow> pmu_state \<Rightarrow> pe_mem option + pmu_state" where
  "pmu_step F beyond = (\<lambda>(i, index, ptr, t).
     if i < length pmu_dt_arr
     then let offset = fdt_node_offset_by_compatible F (- 1) (pmu_compatible beyond i)
          in if offset < 0 then Inr (i + 1, index, ptr, t)
             else (case for_nodes (\<lambda>(i, _) o'. fdt_node_offset_by_compatible F o' (pmu_compatible beyond i)) (pmu_node F) offset
                          (i, index, ptr, t) of
                     None \<Rightarrow> Inl None
                   | Some (Inl (_, _, _, t')) \<Rightarrow> Inl (Some t')
                   | Some (Inr (i', index', ptr', t')) \<Rightarrow> Inr (i' + 1, index', ptr', t'))
     else Inl (Some t))"

definition pal_pe_info_table_pmu_gsiv_dt :: "fdt option \<Rightarrow> (nat \<Rightarrow> string) \<Rightarrow> pe_mem \<Rightarrow> pe_mem option" where
  "pal_pe_info_table_pmu_gsiv_dt dt beyond t =
     (case dt of None \<Rightarrow> Some t
      | Some F \<Rightarrow> do { r \<leftarrow> tail_iter (pmu_step F beyond) (0, 0, 0, t); r })"

definition gicv3_dt_arr :: "string list" where "gicv3_dt_arr = [''arm,gic-v3'']"

definition gicv2_dt_arr :: "string list" where
  "gicv2_dt_arr = [''arm,cortex-a15-gic'', ''arm,cortex-a9-gic'', ''arm,cortex-a7-gic'', ''arm,cortex-a5-gic'',
     ''arm,eb11mp-gic'', ''arm,arm11mp-gic'', ''arm,gic-400'', ''arm,pl390'', ''qcom,msm-8660-qgic'', ''qcom,msm-qgic2'']"

fun gmain_fill :: "u32 \<Rightarrow> nat \<Rightarrow> nat \<Rightarrow> pe_mem \<Rightarrow> pe_mem" where
  "gmain_fill g 0 ptr t = t"
| "gmain_fill g (Suc n) ptr t = gmain_fill g n (Suc ptr) (set_pe ptr (\<lambda>e. e\<lparr>gmain_gsiv := g\<rparr>) t)"

definition pal_pe_info_table_gmaint_gsiv_dt :: "fdt option \<Rightarrow> pe_mem \<Rightarrow> pe_mem option" where
  "pal_pe_info_table_gmaint_gsiv_dt dt t =
     (case dt of
        None \<Rightarrow> Some t
      | Some F \<Rightarrow>
          (let o3 = find_compatible F gicv3_dt_arr 0;
               offset = (if o3 < 0 then find_compatible F gicv2_dt_arr o3 else o3)
           in if offset < 0 then Some t
              else case fdt_getprop F offset ''interrupts'' of
                     None \<Rightarrow> Some t
                   | Some p \<Rightarrow> do {
                       interrupt_cell \<leftarrow> fdt_interrupt_cells F offset;
                       Some (if interrupt_cell < 1 \<or> interrupt_cell > 3 then t
                             else if interrupt_cell = 3
                             then if cell p 0 \<noteq> 0 then gmain_fill (cell p 1 + PPI_OFFSET) (unat (pe_hdr_num t)) 0 t else t
                             else gmain_fill (cell p 0 + PPI_OFFSET) (unat (pe_hdr_num t)) 0 t) }))"

definition PROPERTY_MASK_PE_AFF3 :: u32 where "PROPERTY_MASK_PE_AFF3 = 0xFF"
definition PROPERTY_MASK_PE_AFF0_AFF2 :: u32 where "PROPERTY_MASK_PE_AFF0_AFF2 = 0xFFFFFF"

definition dt_mpidr :: "int \<Rightarrow> fdt_prop \<Rightarrow> u64" where
  "dt_mpidr addr_cell p =
     (if addr_cell = 2
      then shl (ucast (cell p 0 AND PROPERTY_MASK_PE_AFF3)) 32 OR ucast (cell p 1 AND PROPERTY_MASK_PE_AFF0_AFF2)
      else ucast (cell p 0 AND PROPERTY_MASK_PE_AFF0_AFF2))"

type_synonym pe_state = "nat \<times> pe_mem \<times> aff_max"

definition cpu_node :: "fdt \<Rightarrow> int \<Rightarrow> int \<Rightarrow> pe_state \<Rightarrow> (pe_state + pe_state) option" where
  "cpu_node F addr_cell offset = (\<lambda>(ptr, t, aff).
     case fdt_getprop F offset ''reg'' of
       None \<Rightarrow> Some (Inl (ptr, t, aff))
     | Some p \<Rightarrow>
         (let mp = dt_mpidr addr_cell p
          in Some (Inr (Suc ptr, (set_pe ptr (\<lambda>e. e\<lparr>mpidr := mp, pe_num := pe_hdr_num t\<rparr>) t)\<lparr>pe_hdr_num := pe_hdr_num t + 1\<rparr>,
                        update_aff_max mp aff))))"

definition next_cpu :: "fdt \<Rightarrow> int \<Rightarrow> int" where
  "next_cpu F offset = fdt_node_offset_by_prop_value F offset ''device_type'' ''cpu''"

definition pal_pe_create_info_table_dt :: "(u64 \<Rightarrow> u64 option) \<Rightarrow> fdt option \<Rightarrow> (nat \<Rightarrow> string) \<Rightarrow> pe_mem \<Rightarrow> pal_pe
    \<Rightarrow> (pe_mem \<times> pal_pe) option" where
  "pal_pe_create_info_table_dt alloc dt beyond t g =
     (case dt of
        None \<Rightarrow> Some (t, g)
      | Some F \<Rightarrow>
          (let t0 = t\<lparr>pe_hdr_num := 0\<rparr>; offset = next_cpu F (- 1); parent = fdt_parent_offset F offset;
               addr_cell = fdt_address_cells F parent
           in if offset = - 1 then Some (t0, g)
              else if fdt_size_cells F parent \<noteq> 0 then Some (t0, g)
              else if addr_cell \<le> 0 \<or> addr_cell > 2 then Some (t0, g)
              else do {
                r \<leftarrow> for_nodes (\<lambda>_. next_cpu F) (cpu_node F addr_cell) offset (0, t0, 0, 0, 0, 0);
                case r of
                  Inl (_, t1, _) \<Rightarrow> Some (t1, g)
                | Inr (_, t1, a0, a1, a2, a3) \<Rightarrow> do {
                    t2 \<leftarrow> pal_pe_info_table_pmu_gsiv_dt dt beyond t1;
                    t3 \<leftarrow> pal_pe_info_table_gmaint_gsiv_dt dt t2;
                    let mx = a0 OR a1 OR a2 OR a3;
                    Some (t3, PalAllocateSecondaryStack alloc mx (g\<lparr>gMpidrMax := mx, g_num_pe := pe_hdr_num t1\<rparr>)) } }))"

subsection \<open>ECAM regions (pal_pcie.c)\<close>

definition pci_dt_arr :: "string list" where "pci_dt_arr = [''pci-host-ecam-generic'']"

definition upd_ecam :: "(PCIE_INFO_BLOCK \<Rightarrow> PCIE_INFO_BLOCK) \<Rightarrow> PCIE_INFO_TABLE \<Rightarrow> PCIE_INFO_TABLE" where
  "upd_ecam f t = t\<lparr>block := (block t)(num_entries t := f (block t (num_entries t)))\<rparr>"

definition pcie_node :: "fdt \<Rightarrow> int \<Rightarrow> int \<Rightarrow> PCIE_INFO_TABLE \<Rightarrow> (PCIE_INFO_TABLE + PCIE_INFO_TABLE) option" where
  "pcie_node F addr_cell offset t =
     (case fdt_getprop F offset ''reg'' of
        None \<Rightarrow> Some (Inl t)
      | Some p \<Rightarrow>
          (let t1 = upd_ecam (\<lambda>b. b\<lparr>ecam_base := fst (dt_num addr_cell p 0)\<rparr>) t
           in case fdt_getprop F offset ''bus-range'' of
                None \<Rightarrow> Some (Inl t1)
              | Some q \<Rightarrow>
                  (let t2 = upd_ecam (\<lambda>b. b\<lparr>segment_num := 0, start_bus_num := cell q 0, end_bus_num := cell q 1\<rparr>) t1
                   in Some (Inr (t2\<lparr>num_entries := num_entries t2 + 1\<rparr>)))))"

definition pal_pcie_create_info_table_dt :: "fdt option \<Rightarrow> PCIE_INFO_TABLE option \<Rightarrow> PCIE_INFO_TABLE option option" where
  "pal_pcie_create_info_table_dt dt PcieTable =
     (case PcieTable of
        None \<Rightarrow> Some None
      | Some t \<Rightarrow>
          (case dt of
             None \<Rightarrow> Some (Some t)
           | Some F \<Rightarrow> do {
               r \<leftarrow> for_compatible F pci_dt_arr (\<lambda>c offset t.
                 let parent = fdt_parent_offset F offset; addr_cell = fdt_address_cells F parent
                 in if fdt_size_cells F parent < 0 then Some (Inl t)
                    else if addr_cell \<le> 0 \<or> addr_cell > 2 then Some (Inl t)
                    else for_nodes (\<lambda>_ o'. fdt_node_offset_by_compatible F o' c) (pcie_node F addr_cell) offset t)
                 (t\<lparr>num_entries := 0\<rparr>);
               Some (Some (case r of Inl t' \<Rightarrow> t' | Inr t' \<Rightarrow> t')) }))"

definition pal_pcie_get_mcfg_ecam_dt :: "PCIE_INFO_TABLE option \<Rightarrow> u64" where
  "pal_pcie_get_mcfg_ecam_dt g_pal_pcie_info_table =
     (case g_pal_pcie_info_table of None \<Rightarrow> 0 | Some t \<Rightarrow> ecam_base (block t 0))"

subsection \<open>Watchdogs (pal_timer_wd.c)\<close>

definition wd_dt_arr :: "string list" where "wd_dt_arr = [''arm,sbsa-gwdt'']"

text \<open>The mode (bit 0) and the polarity (bit 1) for the interrupt flags, \<open>None\<close> for flags that are not known.\<close>

definition wd_intr_flags :: "u32 \<Rightarrow> u32 option" where
  "wd_intr_flags intr_flg =
     (if intr_flg = 0 then Some 0 else if intr_flg = 1 then Some 1 else if intr_flg = 2 then Some (shl 1 1 OR 1)
      else if intr_flg = 4 then Some 0 else if intr_flg = 8 then Some (shl 1 1) else None)"

text \<open>The two bases: the control frame at the cell \<open>index\<close> and the refresh frame behind its size.\<close>

definition wd_bases :: "int \<Rightarrow> int \<Rightarrow> fdt_prop \<Rightarrow> nat \<Rightarrow> u64 \<times> u64" where
  "wd_bases addr_cell size_cell p index =
     (if addr_cell = 1 then (ucast (cell p index), ucast (cell p (index + 1 + nat size_cell)))
      else (fst (dt_num 2 p index), fst (dt_num 2 p (index + 2 + nat size_cell))))"

text \<open>The interrupt number, the flags and the final value of \<open>index\<close>, which the next node starts with.\<close>

definition wd_intr :: "int \<Rightarrow> fdt_prop \<Rightarrow> u32 \<times> u32 \<times> nat" where
  "wd_intr interrupt_cell q =
     (if interrupt_cell = 3
      then (cell q 1 + (if cell q 0 \<noteq> 0 then PPI_OFFSET else SPI_OFFSET), cell q 2, 2)
      else if interrupt_cell = 2 then (cell q 0, cell q 1, 1) else (cell q 0, 0, 0))"

type_synonym wd_state = "nat \<times> u32 \<times> WD_INFO_TABLE"

definition upd_wd :: "u32 \<Rightarrow> (WD_INFO_BLOCK \<Rightarrow> WD_INFO_BLOCK) \<Rightarrow> WD_INFO_TABLE \<Rightarrow> WD_INFO_TABLE" where
  "upd_wd i f t = t\<lparr>wd_info := (wd_info t)(i := f (wd_info t i))\<rparr>"

definition wd_node :: "fdt \<Rightarrow> int \<Rightarrow> int \<Rightarrow> int \<Rightarrow> wd_state \<Rightarrow> (wd_state + wd_state) option" where
  "wd_node F addr_cell size_cell offset = (\<lambda>(index, e, t).
     case fdt_getprop F offset ''reg'' of
       None \<Rightarrow> Some (Inl (index, e, t))
     | Some p \<Rightarrow>
         (case fdt_getprop F offset ''interrupts'' of
            None \<Rightarrow> Some (Inl (index, e, t))
          | Some q \<Rightarrow> do {
              interrupt_cell \<leftarrow> fdt_interrupt_cells F offset;
              if interrupt_cell < 1 \<or> interrupt_cell > 3 then Some (Inl (index, e, t))
              else let (ctrl, refresh) = wd_bases addr_cell size_cell p index;
                       (gsiv, flg, index') = wd_intr interrupt_cell q;
                       t1 = upd_wd e (\<lambda>b. b\<lparr>wd_ctrl_base := ctrl, wd_refresh_base := refresh, wd_gsiv := gsiv\<rparr>)
                              (t\<lparr>num_wd := num_wd t + 1\<rparr>)
                   in case wd_intr_flags flg of
                        None \<Rightarrow> Some (Inl (index', e, t1))
                      | Some v \<Rightarrow> Some (Inr (index', e + 1, upd_wd e (\<lambda>b. b\<lparr>wd_flags := v\<rparr>) t1)) }))"

definition pal_wd_create_info_table_dt :: "fdt option \<Rightarrow> WD_INFO_TABLE option \<Rightarrow> WD_INFO_TABLE option option" where
  "pal_wd_create_info_table_dt dt WdTable =
     (case WdTable of
        None \<Rightarrow> Some None
      | Some t \<Rightarrow>
          (let t0 = t\<lparr>num_wd := 0\<rparr>
           in case dt of
             None \<Rightarrow> Some (Some t0)
           | Some F \<Rightarrow> do {
               r \<leftarrow> for_compatible F wd_dt_arr (\<lambda>c offset s.
                 let parent = fdt_parent_offset F offset; size_cell = fdt_size_cells F parent;
                     addr_cell = fdt_address_cells F parent
                 in if size_cell < 1 \<or> size_cell > 2 then Some (Inl s)
                    else if addr_cell < 1 \<or> addr_cell > 2 then Some (Inl s)
                    else for_nodes (\<lambda>_ o'. fdt_node_offset_by_compatible F o' c) (wd_node F addr_cell size_cell) offset s)
                 (0, 0, t0);
               Some (Some (case r of Inl (_, _, t') \<Rightarrow> t' | Inr (_, _, t') \<Rightarrow> pal_wd_platform_override t')) }))"

subsection \<open>Timers (pal_timer_wd.c)\<close>

definition systimer_dt_arr :: "string list" where "systimer_dt_arr = [''arm,armv8-timer'', ''arm,armv7-timer'']"
definition memtimer_dt_arr :: "string list" where "memtimer_dt_arr = [''arm,armv7-timer-mem'']"
definition TIMER_FLAG_ALWAYS_ON :: u32 where "TIMER_FLAG_ALWAYS_ON = 0x4"

text \<open>
  One interrupt of the timer node with three cells: its number if it is a PPI, otherwise the old one, and the
  next index.  Behind a cell that is not \<open>GIC_PPI\<close> the index is moved by two cells only.
\<close>

definition timer_ppi :: "fdt_prop \<Rightarrow> nat \<Rightarrow> u32 \<Rightarrow> u32 \<times> nat" where
  "timer_ppi p index old = (if cell p index = GIC_PPI then (cell p (index + 1) + PPI_OFFSET, index + 3) else (old, index + 2))"

definition timer_intrs :: "int \<Rightarrow> fdt_prop \<Rightarrow> TIMER_INFO_HDR \<Rightarrow> TIMER_INFO_HDR" where
  "timer_intrs interrupt_cell p h =
     (if interrupt_cell = 3
      then let (s, i1) = timer_ppi p 0 (s_el1_timer_gsiv h); (ns, i2) = timer_ppi p i1 (ns_el1_timer_gsiv h);
               (v, i3) = timer_ppi p i2 (virtual_timer_gsiv h); (e, i4) = timer_ppi p i3 (el2_timer_gsiv h)
           in h\<lparr>s_el1_timer_gsiv := s, ns_el1_timer_gsiv := ns, virtual_timer_gsiv := v, el2_timer_gsiv := e\<rparr>
      else let n = nat interrupt_cell
           in h\<lparr>s_el1_timer_gsiv := cell p 0, ns_el1_timer_gsiv := cell p n, virtual_timer_gsiv := cell p (2 * n),
                el2_timer_gsiv := cell p (3 * n)\<rparr>)"

text \<open>The interrupts of a frame: the physical and the virtual one, which is optional.\<close>

definition frame_intrs :: "int \<Rightarrow> fdt_prop \<Rightarrow> u32 \<times> u32" where
  "frame_intrs interrupt_cell q =
     (if interrupt_cell = 3
      then let (g, index) = (if cell q 0 = GIC_SPI then (cell q 1 + SPI_OFFSET, 3) else (0, 2))
           in (g, if plen q div 4 > 3
                  then if cell q index = GIC_SPI then cell q (index + 1) + SPI_OFFSET else 0
                  else 0)
      else let n = nat interrupt_cell in (cell q 0, if plen q div 4 > n then cell q n else 0))"

definition frame_node :: "fdt \<Rightarrow> int \<Rightarrow> int \<Rightarrow> TIMER_INFO_TABLE \<Rightarrow> (TIMER_INFO_TABLE + TIMER_INFO_TABLE) option" where
  "frame_node F addr_cell subnode t =
     (case fdt_getprop F subnode ''reg'' of
        None \<Rightarrow> Some (Inl t)
      | Some p \<Rightarrow>
          (case fdt_getprop F subnode ''interrupts'' of
             None \<Rightarrow> Some (Inl t)
           | Some q \<Rightarrow> do {
               interrupt_cell \<leftarrow> fdt_interrupt_cells F subnode;
               if interrupt_cell < 1 \<or> interrupt_cell > 3 then Some (Inl t)
               else let (g, v) = frame_intrs interrupt_cell q; k = timer_count (gt_info t 0)
                    in Some (Inr (upd_block 0 (\<lambda>b. b\<lparr>GtCntBase := (GtCntBase b)(k := fst (dt_num addr_cell p 0)),
                          frame_num := (frame_num b)(k := word_of_int (fdt_frame_number F subnode)),
                          gt_gsiv := (gt_gsiv b)(k := g), virt_gsiv := (virt_gsiv b)(k := v), gt_flags := (gt_flags b)(k := 0),
                          GtCntEl0Base := (GtCntEl0Base b)(k := 0), timer_count := k + 1\<rparr>) t)) }))"

definition mem_timer_dt :: "fdt \<Rightarrow> TIMER_INFO_TABLE \<Rightarrow> TIMER_INFO_TABLE option" where
  "mem_timer_dt F t =
     (let offset = find_compatible F memtimer_dt_arr 0; parent = fdt_parent_offset F offset
      in if offset < 0 then Some t
         else if fdt_size_cells F parent < 0 then Some t
         else if fdt_address_cells F parent < 1 \<or> fdt_address_cells F parent > 2 then Some t
         else case fdt_getprop F offset ''reg'' of
                None \<Rightarrow> Some t
              | Some p \<Rightarrow>
                  (let t1 = upd_block 0 (\<lambda>b. b\<lparr>gt_type := TIMER_TYPE_SYS_TIMER,
                              block_cntl_base := fst (dt_num (fdt_address_cells F parent) p 0)\<rparr>) t;
                       addr_cell = fdt_address_cells F offset; subnode = fdt_subnode_offset F offset ''frame''
                   in if fdt_size_cells F offset < 0 then Some t1
                      else if addr_cell < 1 \<or> addr_cell > 2 then Some t1
                      else if subnode < 0 then Some t1
                      else do {
                        r \<leftarrow> for_nodes (\<lambda>_. fdt_next_subnode F) (frame_node F addr_cell) subnode t1;
                        Some (case r of Inl t2 \<Rightarrow> t2
                              | Inr t2 \<Rightarrow> upd_hdr (\<lambda>h. h\<lparr>num_platform_timer := timer_count (gt_info t2 0)\<rparr>) t2) }))"

definition pal_timer_create_info_table_dt :: "fdt option \<Rightarrow> TIMER_INFO_TABLE option \<Rightarrow> TIMER_INFO_TABLE option option" where
  "pal_timer_create_info_table_dt dt TimerTable =
     (case TimerTable of
        None \<Rightarrow> Some None
      | Some t \<Rightarrow>
          (case dt of
             None \<Rightarrow> Some (Some t)
           | Some F \<Rightarrow>
               (let t0 = upd_hdr (\<lambda>h. h\<lparr>num_platform_timer := 0, s_el1_timer_gsiv := 0, ns_el1_timer_gsiv := 0,
                           virtual_timer_gsiv := 0, el2_timer_gsiv := 0, el2_virt_timer_gsiv := 0, s_el1_timer_flag := 0,
                           ns_el1_timer_flag := 0, el2_timer_flag := 0, el2_virt_timer_flag := 0, virtual_timer_flag := 0\<rparr>)
                           (upd_block 0 (\<lambda>b. b\<lparr>timer_count := 0\<rparr>) t);
                    offset = find_compatible F systimer_dt_arr 0
                in if offset < 0 then Some (Some t0)
                   else do {
                     interrupt_cell \<leftarrow> fdt_interrupt_cells F offset;
                     if interrupt_cell < 1 \<or> interrupt_cell > 3 then Some (Some t0)
                     else case fdt_getprop F offset ''interrupts'' of
                            None \<Rightarrow> Some (Some t0)
                          | Some p \<Rightarrow>
                              (let t1 = upd_hdr (timer_intrs interrupt_cell p) t0;
                                   t2 = (if fdt_getprop F offset ''always-on'' \<noteq> None
                                         then upd_hdr (\<lambda>h. h\<lparr>s_el1_timer_flag := TIMER_FLAG_ALWAYS_ON,
                                                ns_el1_timer_flag := TIMER_FLAG_ALWAYS_ON, el2_timer_flag := TIMER_FLAG_ALWAYS_ON,
                                                virtual_timer_flag := TIMER_FLAG_ALWAYS_ON\<rparr>) t1
                                         else t1)
                               in map_option Some (mem_timer_dt F t2)) })))"

subsection \<open>The GIC table (pal_gic.c)\<close>

definition gicv2m_frame_dt_arr :: "string list" where "gicv2m_frame_dt_arr = [''arm,gic-v2m-frame'']"
definition its_dt_arr :: "string list" where "its_dt_arr = [''arm,gic-v3-its'']"

text \<open>A row with type, base and length from the cell \<open>Index\<close> on.\<close>

definition gic_reg :: "int \<Rightarrow> int \<Rightarrow> fdt_prop \<Rightarrow> nat \<Rightarrow> (u64 \<times> u64) \<times> nat" where
  "gic_reg addr_cell size_cell p Index =
     (let (base, i1) = dt_num addr_cell p Index; (len, i2) = dt_num size_cell p i1 in ((base, len), i2))"

definition gic_reg_row :: "u32 \<Rightarrow> u64 \<times> u64 \<Rightarrow> gic_mem \<Rightarrow> gic_mem" where
  "gic_reg_row ty = (\<lambda>(base, len). gic_new (\<lambda>g. g\<lparr>ge_type := ty, ge_base := base, ge_length := len\<rparr>))"

fun rd_rows :: "int \<Rightarrow> int \<Rightarrow> fdt_prop \<Rightarrow> nat \<Rightarrow> nat \<times> gic_mem \<Rightarrow> nat \<times> gic_mem" where
  "rd_rows a s p 0 st = st"
| "rd_rows a s p (Suc n) (Index, t) =
     (let (r, i1) = gic_reg a s p Index in rd_rows a s p n (i1, count_gicrd (gic_reg_row ENTRY_TYPE_GICR_GICRD r t)))"

fun cpuif_rows :: "u64 \<times> u64 \<Rightarrow> nat \<Rightarrow> gic_mem \<Rightarrow> gic_mem" where
  "cpuif_rows r 0 t = t"
| "cpuif_rows r (Suc n) t = cpuif_rows r n (gic_reg_row ENTRY_TYPE_CPUIF r t)"

definition dt_u32 :: "fdt \<Rightarrow> int \<Rightarrow> string \<Rightarrow> u32 \<Rightarrow> u32" where
  "dt_u32 F offset name dflt = (case fdt_getprop F offset name of None \<Rightarrow> dflt | Some p \<Rightarrow> cell p 0)"

definition v2m_node :: "fdt \<Rightarrow> int \<Rightarrow> int \<Rightarrow> int \<Rightarrow> gic_mem \<Rightarrow> (gic_mem + gic_mem) option" where
  "v2m_node F addr_cell size_cell offset t =
     (case fdt_getprop F offset ''reg'' of
        None \<Rightarrow> Some (Inl t)
      | Some p \<Rightarrow>
          (let ((base, len), _) = gic_reg addr_cell size_cell p 0
           in Some (Inr (gic_hdr (\<lambda>h. h\<lparr>hdr_num_msi_frame := hdr_num_msi_frame h + 1\<rparr>)
                (gic_new (\<lambda>g. g\<lparr>ge_type := ENTRY_TYPE_GIC_MSI_FRAME, ge_base := base, ge_length := len,
                   ge_spi_base := dt_u32 F offset ''arm,msi-base-spi'' 0,
                   ge_spi_count := dt_u32 F offset ''arm,msi-num-spis'' 0\<rparr>) t)))))"

definition its_node :: "int \<Rightarrow> gic_mem \<Rightarrow> (gic_mem + gic_mem) option" where
  "its_node offset t = Some (Inr (gic_hdr (\<lambda>h. h\<lparr>hdr_num_its := hdr_num_its h + 1\<rparr>) t))"

text \<open>The part for a GIC of version 2: the virtual interface if there are more interfaces, and the v2m frames.\<close>

definition gic_v2_dt :: "fdt \<Rightarrow> int \<Rightarrow> int \<Rightarrow> fdt_prop \<Rightarrow> nat \<Rightarrow> int \<Rightarrow> gic_mem \<Rightarrow> (gic_mem + gic_mem) option" where
  "gic_v2_dt F addr_cell size_cell p Index num_gic_interfaces t =
     (let t1 = (if num_gic_interfaces > 1 then gic_reg_row ENTRY_TYPE_GICH (fst (gic_reg addr_cell size_cell p Index)) t else t);
          offset = fdt_node_offset_by_compatible F (- 1) (hd gicv2m_frame_dt_arr);
          parent = fdt_parent_offset F offset
      in if offset < 0 then Some (Inl (gic_last t1))
         else if fdt_size_cells F parent < 0 then Some (Inl t1)
         else if fdt_address_cells F parent < 0 then Some (Inl t1)
         else for_nodes (\<lambda>_ o'. fdt_node_offset_by_compatible F o' (hd gicv2m_frame_dt_arr))
                (v2m_node F (fdt_address_cells F parent) (fdt_size_cells F parent)) offset t1)"

definition gic_v3_dt :: "fdt \<Rightarrow> gic_mem \<Rightarrow> (gic_mem + gic_mem) option" where
  "gic_v3_dt F t =
     (let offset = fdt_node_offset_by_compatible F (- 1) (hd its_dt_arr)
      in if offset < 0 then Some (Inl (gic_last t))
         else for_nodes (\<lambda>_ o'. fdt_node_offset_by_compatible F o' (hd its_dt_arr)) its_node offset t)"

text \<open>
  \<open>num_of_rd0\<close> is the contents of the local \<open>num_of_rd\<close>, which is not assigned for version 2.  The differences with \<open>num_of_rd\<close> are
  computed in 32 bits without sign; a quotient by 0 cells is 0.  \<open>while (i--)\<close> with the signed \<open>i\<close> is modelled
  for fewer than \<open>2^31\<close> regions.
\<close>

definition pal_gic_create_info_table_dt :: "fdt option \<Rightarrow> u32 \<Rightarrow> u32 \<Rightarrow> gic_mem \<Rightarrow> gic_mem option" where
  "pal_gic_create_info_table_dt dt num_pe num_of_rd0 t =
     (case dt of
        None \<Rightarrow> Some t
      | Some F \<Rightarrow>
          (let t0 = gic_last (t\<lparr>gm_next := 0\<rparr>);
               o3 = find_compatible F gicv3_dt_arr 0;
               offset = (if o3 < 0 then find_compatible F gicv2_dt_arr o3 else o3);
               t1 = (if offset < 0 then t0 else gic_hdr (\<lambda>h. h\<lparr>hdr_gic_version := (if o3 < 0 then 2 else 3)\<rparr>) t0);
               version = hdr_gic_version (gm_hdr t1);
               parent = fdt_parent_offset F offset; size_cell = fdt_size_cells F parent; addr_cell = fdt_address_cells F parent
           in if offset < 0 then Some t1
              else if size_cell < 0 then Some t1
              else if addr_cell < 0 then Some t1
              else case fdt_getprop F offset ''reg'' of
                None \<Rightarrow> Some t1
              | Some p \<Rightarrow>
                  (let num_gic_interfaces = (of_nat (plen p div 4 div nat (addr_cell + size_cell)) :: u32);
                       (r, i1) = gic_reg addr_cell size_cell p 0;
                       t2 = gic_hdr (\<lambda>h. h\<lparr>hdr_num_gicd := hdr_num_gicd h + 1\<rparr>) (gic_reg_row ENTRY_TYPE_GICD r t1);
                       num_of_rd = (if version = 3 then dt_u32 F offset ''redistributor-regions'' 1 else num_of_rd0);
                       (i2, t3) = (if version = 3 then rd_rows addr_cell size_cell p (unat num_of_rd) (i1, t2) else (i1, t2));
                       (cpuif, i3) = gic_reg addr_cell size_cell p i2;
                       (i4, t4) = (if num_gic_interfaces - num_of_rd > 1 then (i3, cpuif_rows cpuif (unat num_pe) t3) else (i2, t3));
                       left = sint (num_gic_interfaces - (num_of_rd + 1))
                   in do {
                        s5 \<leftarrow> (if version = 2 then gic_v2_dt F addr_cell size_cell p i4 left t4 else Some (Inr t4));
                        s6 \<leftarrow> (case s5 of Inl t5 \<Rightarrow> Some (Inl t5)
                               | Inr t5 \<Rightarrow> if version = 3 then gic_v3_dt F t5 else Some (Inr t5));
                        Some (case s6 of Inl t6 \<Rightarrow> t6 | Inr t6 \<Rightarrow> gic_last t6) })))"

end
