(* ===== verification/Acs_Pal_Dt_Check.thy ===== *)
theory Acs_Pal_Dt_Check
  imports Acs_Pal_Dt
begin

text \<open>
  Correctness of the tables built from a device tree.  \<open>next_in ns\<close> is how libfdt enumerates the nodes \<open>ns\<close> of a kind: the
  first one behind an offset, or \<open>-FDT_ERR_NOTFOUND\<close>.  With it the loops over nodes are folds over \<open>ns\<close> (\<open>body_fold\<close>).
\<close>

subsection \<open>Specification\<close>

fun next_in :: "int list \<Rightarrow> int \<Rightarrow> int" where
  "next_in [] offset = - 1"
| "next_in (n # ns) offset = (if n > offset then n else next_in ns offset)"

definition node_list :: "int list \<Rightarrow> bool" where
  "node_list ns \<longleftrightarrow> sorted_wrt (<) ns \<and> (\<forall>n\<in>set ns. n \<ge> 0)"

fun body_fold :: "(int \<Rightarrow> 's \<Rightarrow> ('s + 's) option) \<Rightarrow> int list \<Rightarrow> 's \<Rightarrow> ('s + 's) option" where
  "body_fold body [] s = Some (Inr s)"
| "body_fold body (n # ns) s =
     (case body n s of None \<Rightarrow> None | Some (Inl s') \<Rightarrow> Some (Inl s') | Some (Inr s') \<Rightarrow> body_fold body ns s')"

definition head_of :: "int list \<Rightarrow> int" where
  "head_of ns = (case ns of [] \<Rightarrow> - 1 | n # _ \<Rightarrow> n)"

text \<open>The row of the PE table for a CPU node.\<close>

definition cpu_row :: "fdt \<Rightarrow> int \<Rightarrow> int \<Rightarrow> nat \<Rightarrow> PE_INFO_ENTRY \<Rightarrow> bool" where
  "cpu_row F addr_cell n i e \<longleftrightarrow>
     (\<exists>p. fdt_getprop F n ''reg'' = Some p \<and> mpidr e = dt_mpidr addr_cell p \<and> pe_num e = of_nat i)"

text \<open>A property with the given cells, and a tree with two CPUs, a PMU and a GIC.\<close>

definition prop_of :: "u32 list \<Rightarrow> fdt_prop" where
  "prop_of cs = \<lparr>plen = 4 * length cs,
     pbyte = (\<lambda>k. if k < 4 * length cs then ucast (shr (cs ! (k div 4)) (24 - 8 * (k mod 4))) else 0)\<rparr>"

definition example_fdt :: fdt where
  "example_fdt = \<lparr>
     fdt_node_offset_by_compatible = (\<lambda>o' c. if c = ''arm,armv8-pmuv3'' then next_in [100] o'
        else if c = ''arm,gic-v3'' then next_in [200] o' else - 1),
     fdt_node_offset_by_prop_value = (\<lambda>o' name v. if name = ''device_type'' \<and> v = ''cpu'' then next_in [8, 16] o' else - 1),
     fdt_node_offset_by_phandle = (\<lambda>_. - 1),
     fdt_parent_offset = (\<lambda>o'. if o' = 8 \<or> o' = 16 then 4 else 0),
     fdt_subnode_offset = (\<lambda>_ _. - 1), fdt_next_subnode = (\<lambda>_. - 1), fdt_next_node = (\<lambda>_. - 1),
     fdt_size_cells = (\<lambda>o'. if o' = 4 then 0 else 2), fdt_address_cells = (\<lambda>_. 2),
     fdt_getprop = (\<lambda>o' name.
        if o' = 8 \<and> name = ''reg'' then Some (prop_of [0, 0x100]) else if o' = 16 \<and> name = ''reg'' then Some (prop_of [1, 0x80000101])
        else if o' = 100 \<and> name = ''interrupts'' then Some (prop_of [1, 7, 4])
        else if o' = 200 \<and> name = ''interrupts'' then Some (prop_of [1, 9, 4])
        else if (o' = 100 \<or> o' = 200) \<and> name = ''#interrupt-cells'' then Some (prop_of [3]) else None)\<rparr>"

subsection \<open>Loops over nodes\<close>

lemma for_nodes_unfold:
  "for_nodes nxt body offset s =
     (if offset = - 1 then Some (Inr s)
      else case body offset s of None \<Rightarrow> None | Some (Inl s') \<Rightarrow> Some (Inl s')
           | Some (Inr s') \<Rightarrow> for_nodes nxt body (nxt s' offset) s')"
  unfolding for_nodes_def
  by (subst tail_iter.simps) (auto simp: node_step_def split: option.splits sum.splits)

lemma next_in_behind:
  "sorted_wrt (<) (pre @ n # ns) \<Longrightarrow> next_in (pre @ n # ns) n = head_of ns"
proof (induction pre)
  case Nil
  then show ?case by (cases ns) (auto simp: head_of_def)
qed auto

lemma next_in_first: "node_list ns \<Longrightarrow> next_in ns (- 1) = head_of ns"
  by (cases ns) (auto simp: node_list_def head_of_def)

lemma for_nodes_fold_aux:
  "node_list (pre @ ns) \<Longrightarrow>
   for_nodes (\<lambda>_. next_in (pre @ ns)) body (head_of ns) s = body_fold body ns s"
proof (induction ns arbitrary: pre s)
  case Nil
  show ?case by (subst for_nodes_unfold) (simp add: head_of_def)
next
  case (Cons n ns)
  have n: "n \<noteq> - 1" using Cons.prems by (auto simp: node_list_def)
  have nx: "next_in (pre @ n # ns) n = head_of ns"
    using Cons.prems by (simp add: node_list_def next_in_behind)
  have IH: "for_nodes (\<lambda>_. next_in (pre @ n # ns)) body (head_of ns) s' = body_fold body ns s'" for s'
    using Cons.IH [of "pre @ [n]" s'] Cons.prems by simp
  show ?case
    by (subst for_nodes_unfold) (simp add: head_of_def [of "n # ns"] n nx IH split: option.splits sum.splits)
qed

lemma for_nodes_fold:
  assumes "node_list ns" and "\<And>offset. nxt offset = next_in ns offset"
  shows "for_nodes (\<lambda>_. nxt) body (nxt (- 1)) s = body_fold body ns s"
proof -
  have "nxt = next_in ns" using assms(2) by blast
  then show ?thesis using for_nodes_fold_aux [of "[]" ns body s] assms(1) by (simp add: next_in_first)
qed

subsection \<open>The PE table\<close>

lemma set_pe_simps [simp]:
  "pe_hdr_num (set_pe ptr f t) = pe_hdr_num t"
  "pe_arr (set_pe ptr f t) j = (if j = ptr then f (pe_arr t ptr) else pe_arr t j)"
  by (simp_all add: set_pe_def)

lemma pmu_fill_simps [simp]:
  "pe_hdr_num (pmu_fill g n ptr t) = pe_hdr_num t"
  "pe_arr (pmu_fill g n ptr t) j = (if ptr \<le> j \<and> j < ptr + n then (pe_arr t j)\<lparr>pmu_gsiv := g\<rparr> else pe_arr t j)"
  by (induction n arbitrary: ptr t) auto

lemma gmain_fill_simps [simp]:
  "pe_hdr_num (gmain_fill g n ptr t) = pe_hdr_num t"
  "pe_arr (gmain_fill g n ptr t) j = (if ptr \<le> j \<and> j < ptr + n then (pe_arr t j)\<lparr>gmain_gsiv := g\<rparr> else pe_arr t j)"
  by (induction n arbitrary: ptr t) auto

lemma cpu_nodes_fold:
  assumes "\<forall>n\<in>set ns. fdt_getprop F n ''reg'' \<noteq> None" and "pe_hdr_num t = of_nat k"
  shows "\<exists>t' aff'. body_fold (cpu_node F a) ns (k, t, aff) = Some (Inr (k + length ns, t', aff')) \<and>
     pe_hdr_num t' = of_nat (k + length ns) \<and> (\<forall>j<k. pe_arr t' j = pe_arr t j) \<and>
     (\<forall>i<length ns. cpu_row F a (ns ! i) (k + i) (pe_arr t' (k + i)))"
  using assms
proof (induction ns arbitrary: k t aff)
  case (Cons n ns)
  then obtain p where p: "fdt_getprop F n ''reg'' = Some p" by auto
  define t1 where "t1 = (set_pe k (\<lambda>e. e\<lparr>mpidr := dt_mpidr a p, pe_num := pe_hdr_num t\<rparr>) t)\<lparr>pe_hdr_num := pe_hdr_num t + 1\<rparr>"
  have "pe_hdr_num t1 = of_nat (Suc k)" by (simp add: t1_def Cons.prems)
  with Cons.IH [of t1 "Suc k" "update_aff_max (dt_mpidr a p) aff"] Cons.prems
  obtain t' aff' where IH: "body_fold (cpu_node F a) ns (Suc k, t1, update_aff_max (dt_mpidr a p) aff)
      = Some (Inr (Suc k + length ns, t', aff'))" "pe_hdr_num t' = of_nat (Suc k + length ns)"
      "\<forall>j<Suc k. pe_arr t' j = pe_arr t1 j" "\<forall>i<length ns. cpu_row F a (ns ! i) (Suc k + i) (pe_arr t' (Suc k + i))"
    by auto
  have row: "cpu_row F a n k (pe_arr t' k)"
    using IH(3) Cons.prems(2) p by (auto simp: cpu_row_def t1_def)
  have "\<forall>i<length (n # ns). cpu_row F a ((n # ns) ! i) (k + i) (pe_arr t' (k + i))"
    using row IH(4) by (auto simp: nth_Cons split: nat.splits)
  moreover have "body_fold (cpu_node F a) (n # ns) (k, t, aff) = Some (Inr (k + length (n # ns), t', aff'))"
    using IH(1) by (simp add: cpu_node_def p Let_def t1_def)
  moreover have "\<forall>j<k. pe_arr t' j = pe_arr t j"
    using IH(3) by (auto simp: t1_def)
  ultimately show ?case using IH(2) by (intro exI [of _ t'] exI [of _ aff']) simp
qed auto

text \<open>A node with one interrupt: all PEs get its number.\<close>

lemma pmu_single:
  assumes "fdt_node_offset_by_compatible F (- 1) ''arm,armv8-pmuv3'' = pm" and "pm \<ge> 0"
    and "fdt_getprop F pm ''interrupts'' = Some q" and "fdt_interrupt_cells F pm = Some 3" and "plen q = 12"
  shows "pal_pe_info_table_pmu_gsiv_dt (Some F) beyond t =
     Some (pmu_fill (cell q 1 + (if cell q 0 \<noteq> 0 then PPI_OFFSET else SPI_OFFSET)) (unat (pe_hdr_num t)) 0 t)"
proof -
  define nxt where "nxt = (\<lambda>(i :: nat, _ :: nat \<times> nat \<times> pe_mem) o'. fdt_node_offset_by_compatible F o' (pmu_compatible beyond i))"
  have "pmu_node F pm (0, 0, 0, t) = Some (Inl (0, 0, 0,
     pmu_fill (cell q 1 + (if cell q 0 \<noteq> 0 then PPI_OFFSET else SPI_OFFSET)) (unat (pe_hdr_num t)) 0 t))"
    using assms by (simp add: pmu_node_def pmu_intr_def Let_def)
  then have "for_nodes nxt (pmu_node F) pm (0, 0, 0, t) = Some (Inl (0, 0, 0,
     pmu_fill (cell q 1 + (if cell q 0 \<noteq> 0 then PPI_OFFSET else SPI_OFFSET)) (unat (pe_hdr_num t)) 0 t))"
    using assms(2) by (subst for_nodes_unfold) simp
  then have "pmu_step F beyond (0, 0, 0, t) = Inl (Some
     (pmu_fill (cell q 1 + (if cell q 0 \<noteq> 0 then PPI_OFFSET else SPI_OFFSET)) (unat (pe_hdr_num t)) 0 t))"
    using assms(1,2) by (simp add: pmu_step_def pmu_compatible_def pmu_dt_arr_def nxt_def)
  then show ?thesis
    unfolding pal_pe_info_table_pmu_gsiv_dt_def by (subst tail_iter.simps) simp
qed

lemma gmaint_ppi:
  assumes "fdt_node_offset_by_compatible F (- 1) ''arm,gic-v3'' = gi" and "gi \<ge> 0"
    and "fdt_getprop F gi ''interrupts'' = Some r" and "fdt_interrupt_cells F gi = Some 3" and "cell r 0 \<noteq> 0"
  shows "pal_pe_info_table_gmaint_gsiv_dt (Some F) t = Some (gmain_fill (cell r 1 + PPI_OFFSET) (unat (pe_hdr_num t)) 0 t)"
  using assms by (simp add: pal_pe_info_table_gmaint_gsiv_dt_def gicv3_dt_arr_def Let_def)

text \<open>
  A PMU node with as many interrupts as the index of a compatible string in front of its own: the loop comes back
  to the node for ever.
\<close>

lemma pmu_never_ends:
  assumes node: "fdt_node_offset_by_compatible F (- 1) (pmu_dt_arr ! i0) = pm" "pm \<ge> 0" "i0 < length pmu_dt_arr"
    and only: "\<forall>j<i0. fdt_node_offset_by_compatible F (- 1) (pmu_dt_arr ! j) < 0"
    and intr: "fdt_getprop F pm ''interrupts'' = Some q" "fdt_interrupt_cells F pm = Some c" "1 \<le> c" "c \<le> 3"
    and n: "plen q div 4 div nat c = n" "2 \<le> n" "n < i0"
    and last: "fdt_node_offset_by_compatible F pm (pmu_dt_arr ! n) = - 1"
  shows "pal_pe_info_table_pmu_gsiv_dt (Some F) beyond t = None"
proof -
  define nxt where "nxt = (\<lambda>(i :: nat, _ :: nat \<times> nat \<times> pe_mem) o'. fdt_node_offset_by_compatible F o' (pmu_compatible beyond i))"
  define S :: "pmu_state set" where "S = {s. fst s \<le> i0}"
  have "\<exists>y\<in>S. pmu_step F beyond x = Inr y" if "x \<in> S" for x
  proof -
    obtain i index ptr tt where x: "x = (i, index, ptr, tt)" by (cases x) auto
    show ?thesis
    proof (cases "i < i0")
      case True
      then have "pmu_step F beyond x = Inr (i + 1, index, ptr, tt)"
        using only node(3) by (simp add: x pmu_step_def pmu_compatible_def)
      with True show ?thesis by (auto simp: S_def)
    next
      case False
      with that have i: "i = i0" by (simp add: S_def x)
      obtain index' ptr' tt' where fr: "pmu_frames c q n index ptr tt = (index', ptr', tt')"
        by (cases "pmu_frames c q n index ptr tt") auto
      have "pmu_node F pm (i0, index, ptr, tt) = Some (Inr (n, index', ptr', tt'))"
        using intr n fr by (simp add: pmu_node_def Let_def)
      moreover have "nxt (n, index', ptr', tt') pm = - 1"
        using last n(3) node(3) by (simp add: nxt_def pmu_compatible_def)
      ultimately have "for_nodes nxt (pmu_node F) pm (i0, index, ptr, tt) = Some (Inr (n, index', ptr', tt'))"
        using node(2) by (subst for_nodes_unfold) (simp add: for_nodes_unfold [of nxt "pmu_node F" "- 1"])
      then have "pmu_step F beyond x = Inr (n + 1, index', ptr', tt')"
        using node by (simp add: x i pmu_step_def pmu_compatible_def nxt_def Let_def)
      with n(3) show ?thesis by (auto simp: S_def)
    qed
  qed
  then have "tail_iter (pmu_step F beyond) (0, 0, 0, t) = None"
    by (intro iter.loop_never_ends [where S = S]) (auto simp: S_def)
  then show ?thesis by (simp add: pal_pe_info_table_pmu_gsiv_dt_def)
qed

subsection \<open>Watchdogs\<close>

text \<open>The second of two watchdogs: its control frame is read from the third cell of \<open>reg\<close> on.\<close>

lemma wd_second_base:
  assumes "fdt_getprop F n1 ''reg'' = Some p1" "fdt_getprop F n1 ''interrupts'' = Some q1" "fdt_interrupt_cells F n1 = Some 3"
    "cell q1 2 = 4"
    and "fdt_getprop F n2 ''reg'' = Some p2" "fdt_getprop F n2 ''interrupts'' = Some q2" "fdt_interrupt_cells F n2 = Some 3"
    "cell q2 2 = 4"
  shows "\<exists>t'. body_fold (wd_node F 2 2) [n1, n2] (0, 0, t) = Some (Inr (2, 2, t')) \<and>
     wd_ctrl_base (wd_info t' 0) = fst (dt_num 2 p1 0) \<and> wd_refresh_base (wd_info t' 0) = fst (dt_num 2 p1 4) \<and>
     wd_ctrl_base (wd_info t' 1) = fst (dt_num 2 p2 2) \<and> wd_refresh_base (wd_info t' 1) = fst (dt_num 2 p2 6)"
  using assms by (simp add: wd_node_def wd_bases_def wd_intr_def wd_intr_flags_def upd_wd_def Let_def eval_nat_numeral)

subsection \<open>An example tree\<close>

lemma cell_prop_of:
  assumes "k < length cs"
  shows "cell (prop_of cs) k = cs ! k"
proof -
  have "(4 * k + j) div 4 = k" "(4 * k + j) mod 4 = j" if "j < 4" for j
    using that by auto
  from this [of 0] this [of 1] this [of 2] this [of 3]
  have "cell (prop_of cs) k = shl (ucast (ucast (shr (cs ! k) 24) :: u8)) 24 OR shl (ucast (ucast (shr (cs ! k) 16) :: u8)) 16
      OR shl (ucast (ucast (shr (cs ! k) 8) :: u8)) 8 OR ucast (ucast (cs ! k) :: u8)"
    using assms by (simp add: cell_def prop_of_def)
  also have "\<dots> = cs ! k"
  proof (rule bit_word_eqI)
    fix m assume "m < LENGTH(32)"
    then show "bit (shl (ucast (ucast (shr (cs ! k) 24) :: u8)) 24 OR shl (ucast (ucast (shr (cs ! k) 16) :: u8)) 16
      OR shl (ucast (ucast (shr (cs ! k) 8) :: u8)) 8 OR ucast (ucast (cs ! k) :: u8) :: u32) m = bit (cs ! k) m"
      by (cases "m < 8"; cases "m < 16"; cases "m < 24") (auto simp: bit_simps not_less)
  qed
  finally show ?thesis .
qed

lemma example_fdt_cells:
  "fdt_interrupt_cells example_fdt 100 = Some 3" "fdt_interrupt_cells example_fdt 200 = Some 3"
  unfolding fdt_interrupt_cells_def
  by (subst tail_iter.simps, simp add: interrupt_cells_step_def example_fdt_def cell_prop_of)+

subsection \<open>Properties\<close>



end
