(* ===== verification/Acs_Pal_Dt_Dev.thy ===== *)
theory Acs_Pal_Dt_Dev
  imports Acs_Pal_Dt Acs_Pal_Devices Acs_Pal_Iovirt
begin

text \<open>
  More of the device tree platform layer: the USB, SATA and UART controllers of \<^verbatim>\<open>pal_uefi_dt/src/pal_peripherals.c\<close>
  and the I/O virtualisation table of \<^verbatim>\<open>pal_uefi_dt/src/pal_iovirt.c\<close>.  Modelled as in \<^verbatim>\<open>Acs_Pal_Dt\<close>; the table of
  \<open>pal_iovirt.c\<close> is the memory of words of \<^verbatim>\<open>Acs_Pal_Iovirt\<close>, a read through a null pointer is \<open>None\<close>.
\<close>

subsection \<open>USB and SATA controllers\<close>

definition usb_dt_compatible :: "string list" where "usb_dt_compatible = [''generic-ohci'', ''generic-ehci'']"
definition sata_dt_compatible :: "string list" where "sata_dt_compatible = [''generic-ahci'']"
definition uart_dt_compatible :: "string list" where "uart_dt_compatible = [''arm,sbsa-uart'', ''arm,pl011'']"

text \<open>The state is \<open>per_info\<close>, as an index, and the table.\<close>

type_synonym per_state = "nat \<times> per_mem"

definition upd_per :: "nat \<Rightarrow> (PERIPHERAL_INFO_BLOCK \<Rightarrow> PERIPHERAL_INFO_BLOCK) \<Rightarrow> per_mem \<Rightarrow> per_mem" where
  "upd_per i f t = t\<lparr>pm_arr := (pm_arr t)(i := f (pm_arr t i))\<rparr>"

text \<open>The interrupt number without the offset of SPIs; another kind of interrupt is 0.\<close>

definition dt_irq :: "int \<Rightarrow> fdt_prop \<Rightarrow> u32" where
  "dt_irq interrupt_cell q =
     (if interrupt_cell = 3 then if cell q 0 = GIC_SPI then cell q 1 else 0 else cell q 0)"

text \<open>The body of the loops of USB (type \<open>ty\<close>, base in \<open>base0\<close>) and SATA (base in \<open>base1\<close>); \<open>count\<close> moves the counter.\<close>

definition ctrl_node :: "fdt \<Rightarrow> u32 \<Rightarrow> (u64 \<Rightarrow> PERIPHERAL_INFO_BLOCK \<Rightarrow> PERIPHERAL_INFO_BLOCK) \<Rightarrow> (per_mem \<Rightarrow> per_mem) \<Rightarrow> int
    \<Rightarrow> int \<Rightarrow> per_state \<Rightarrow> (per_state + per_state) option" where
  "ctrl_node F ty set_base count addr_cell offset = (\<lambda>(i, t).
     let t1 = upd_per i (\<lambda>e. e\<lparr>per_type := ty\<rparr>) t
     in case fdt_getprop F offset ''reg'' of
          None \<Rightarrow> Some (Inl (i, t1))
        | Some p \<Rightarrow>
            (case fdt_getprop F offset ''interrupts'' of
               None \<Rightarrow> Some (Inl (i, t1))
             | Some q \<Rightarrow> do {
                 interrupt_cell \<leftarrow> fdt_interrupt_cells F offset;
                 Some (if interrupt_cell < 1 \<or> interrupt_cell > 3 then Inl (i, t1)
                       else Inr (Suc i, count (upd_per i (\<lambda>e. (set_base (fst (dt_num addr_cell p 0)) e)\<lparr>
                              per_irq := dt_irq interrupt_cell q, per_bdf := 0, per_flags := 0\<rparr>) t1))) }))"

text \<open>The check of the cells and the loop for one compatible string.\<close>

definition ctrl_nodes :: "fdt \<Rightarrow> (int \<Rightarrow> int \<Rightarrow> per_state \<Rightarrow> (per_state + per_state) option) \<Rightarrow> string \<Rightarrow> int \<Rightarrow> per_state
    \<Rightarrow> (per_state + per_state) option" where
  "ctrl_nodes F body c offset s =
     (let parent = fdt_parent_offset F offset; addr_cell = fdt_address_cells F parent
      in if fdt_size_cells F parent < 0 then Some (Inl s)
         else if addr_cell < 1 \<or> addr_cell > 2 then Some (Inl s)
         else for_nodes (\<lambda>_ o'. fdt_node_offset_by_compatible F o' c) (body addr_cell) offset s)"

definition drop_exit :: "per_state + per_state \<Rightarrow> per_mem" where
  "drop_exit r = (case r of Inl s \<Rightarrow> snd s | Inr s \<Rightarrow> snd s)"

definition pal_peripheral_usb_create_info_table_dt :: "fdt option \<Rightarrow> per_mem \<Rightarrow> per_mem option" where
  "pal_peripheral_usb_create_info_table_dt dt t =
     (case dt of
        None \<Rightarrow> Some t
      | Some F \<Rightarrow> map_option drop_exit (for_compatible F usb_dt_compatible
          (ctrl_nodes F (ctrl_node F PERIPHERAL_TYPE_USB (\<lambda>b e. e\<lparr>per_base0 := b\<rparr>) (\<lambda>t. t\<lparr>pm_num_usb := pm_num_usb t + 1\<rparr>)))
          (0, t\<lparr>pm_num_usb := 0\<rparr>)))"

definition pal_peripheral_sata_create_info_table_dt :: "fdt option \<Rightarrow> per_mem \<Rightarrow> per_mem option" where
  "pal_peripheral_sata_create_info_table_dt dt t =
     (case dt of
        None \<Rightarrow> Some t
      | Some F \<Rightarrow> map_option drop_exit (for_compatible F sata_dt_compatible
          (ctrl_nodes F (ctrl_node F PERIPHERAL_TYPE_SATA (\<lambda>b e. e\<lparr>per_base1 := b\<rparr>) (\<lambda>t. t\<lparr>pm_num_sata := pm_num_sata t + 1\<rparr>)))
          (unat (pm_num_usb t), t\<lparr>pm_num_sata := 0\<rparr>)))"

subsection \<open>UARTs\<close>

text \<open>\<open>pal_strncmp(Pstatus, "disabled", 9) == 0\<close>.\<close>

definition status_disabled :: "fdt_prop \<Rightarrow> bool" where
  "status_disabled p \<longleftrightarrow> plen p > 0 \<and> map (pbyte p) [0..<9] = map of_char ''disabled'' @ [0]"

text \<open>
  The search for \<open>addr\<close> among the tuples of a \<open>ranges\<close> property of \<open>ncells\<close> cells: the address in the parent, 0 if no
  tuple starts with \<open>addr\<close>.
\<close>

function range_search :: "int \<Rightarrow> int \<Rightarrow> int \<Rightarrow> fdt_prop \<Rightarrow> nat \<Rightarrow> u64 \<Rightarrow> nat \<Rightarrow> u64" where
  "range_search child_addr_cell parent_addr_cell child_size_cell p ncells addr range_index =
     (if range_index < ncells
      then let (temp_child_addr, i1) = dt_num child_addr_cell p range_index
           in if temp_child_addr = addr then fst (dt_num parent_addr_cell p i1)
              else range_search child_addr_cell parent_addr_cell child_size_cell p ncells addr
                     (i1 + nat (parent_addr_cell + child_size_cell))
      else 0)"
  by auto
termination
  by (relation "measure (\<lambda>(_, _, _, _, ncells, _, i). ncells - i)") (auto simp: dt_num_def split: if_splits)

declare range_search.simps [simp del]

text \<open>
  The loop over at most three parents; the result is \<open>parent_offset_addr\<close>, \<open>None\<close> if the function returns because of the
  cells.
\<close>

fun range_loop :: "fdt \<Rightarrow> nat \<Rightarrow> int \<Rightarrow> u64 \<Rightarrow> u64 option" where
  "range_loop F 0 range_parent_offset range_node_addr = Some 0"
| "range_loop F (Suc left) range_parent_offset range_node_addr =
     (case fdt_getprop F range_parent_offset ''ranges'' of
        None \<Rightarrow> Some 0
      | Some p \<Rightarrow>
          if plen p = 0 then range_loop F left (fdt_parent_offset F range_parent_offset) range_node_addr
          else let node = range_parent_offset; parent = fdt_parent_offset F node;
                   ca = fdt_address_cells F node; pa = fdt_address_cells F parent; cs = fdt_size_cells F node
               in if ca < 1 \<or> ca > 2 \<or> pa < 1 \<or> pa > 2 \<or> cs < 0 then None
                  else if int (plen p) = 4 * (ca + pa + cs)
                  then range_loop F left parent (fst (dt_num pa p (nat ca)))
                  else Some (range_search ca pa cs p (plen p div 4) range_node_addr 0))"

definition uart_node :: "fdt \<Rightarrow> int \<Rightarrow> int \<Rightarrow> per_state \<Rightarrow> (per_state + per_state) option" where
  "uart_node F addr_cell offset = (\<lambda>(i, t).
     if (case fdt_getprop F offset ''status'' of None \<Rightarrow> False | Some st \<Rightarrow> status_disabled st) then Some (Inr (i, t))
     else case fdt_getprop F offset ''reg'' of
            None \<Rightarrow> Some (Inl (i, t))
          | Some p \<Rightarrow>
              (let base = fst (dt_num addr_cell p 0); t1 = upd_per i (\<lambda>e. e\<lparr>per_base0 := base\<rparr>) t
               in case range_loop F 3 (fdt_parent_offset F offset) base of
                    None \<Rightarrow> Some (Inl (i, t1))
                  | Some parent_offset_addr \<Rightarrow>
                      (let t2 = upd_per i (\<lambda>e. e\<lparr>per_base0 := per_base0 e + parent_offset_addr\<rparr>) t1
                       in case fdt_getprop F offset ''interrupts'' of
                            None \<Rightarrow> Some (Inl (i, t2))
                          | Some q \<Rightarrow> do {
                              interrupt_cell \<leftarrow> fdt_interrupt_cells F offset;
                              Some (if interrupt_cell < 1 \<or> interrupt_cell > 3 then Inl (i, t2)
                                    else let irq = (if interrupt_cell = 3
                                                    then if cell q 0 = GIC_SPI then cell q 1 + SPI_OFFSET else 0
                                                    else cell q 0 + SPI_OFFSET);
                                             t3 = upd_per i (\<lambda>e. e\<lparr>per_type := PERIPHERAL_TYPE_UART, per_irq := irq,
                                                    per_bdf := 0, per_flags := 0\<rparr>) t2
                                         in Inr (Suc i, t3\<lparr>pm_num_uart := pm_num_uart t3 + 1\<rparr>)) })))"

definition pal_peripheral_uart_create_info_table_dt :: "fdt option \<Rightarrow> per_mem \<Rightarrow> per_mem option" where
  "pal_peripheral_uart_create_info_table_dt dt t =
     (case dt of
        None \<Rightarrow> Some t
      | Some F \<Rightarrow> map_option drop_exit (for_compatible F uart_dt_compatible (ctrl_nodes F (uart_node F))
          (unat (pm_num_usb t + pm_num_sata t), t\<lparr>pm_num_uart := 0\<rparr>)))"

subsection \<open>The peripheral table\<close>

text \<open>\<open>pal_peripheral_create_info_table\<close> of this layer: controllers that are not found otherwise are taken from the device tree.\<close>

definition peripheral_create_info_table_dt :: "'d handles \<Rightarrow> (u64 \<times> u32) option \<Rightarrow> fdt option \<Rightarrow> per_mem option
    \<Rightarrow> per_mem option option" where
  "peripheral_create_info_table_dt hb spcr dt tbl =
     (case tbl of
        None \<Rightarrow> Some None
      | Some t \<Rightarrow> do {
          t1 \<leftarrow> ctrl_loop hb USB_CLASSCODE PERIPHERAL_TYPE_USB (\<lambda>t. t\<lparr>pm_num_usb := pm_num_usb t + 1\<rparr>)
                  (t\<lparr>pm_next := 0, pm_num_usb := 0, pm_num_sata := 0, pm_num_uart := 0\<rparr>);
          t2 \<leftarrow> (if pm_num_usb t1 = 0
                  then map_option (\<lambda>t'. t'\<lparr>pm_next := pm_next t' + unat (pm_num_usb t')\<rparr>)
                         (pal_peripheral_usb_create_info_table_dt dt t1)
                  else Some t1);
          t3 \<leftarrow> ctrl_loop hb SATA_CLASSCODE PERIPHERAL_TYPE_SATA (\<lambda>t. t\<lparr>pm_num_sata := pm_num_sata t + 1\<rparr>) t2;
          t4 \<leftarrow> (if pm_num_sata t3 = 0
                  then map_option (\<lambda>t'. t'\<lparr>pm_next := pm_next t' + unat (pm_num_sata t')\<rparr>)
                         (pal_peripheral_sata_create_info_table_dt dt t3)
                  else Some t3);
          let t5 = (case spcr of None \<Rightarrow> t4 | Some (base, irq) \<Rightarrow> put_uart base irq t4);
          t6 \<leftarrow> (if pm_num_uart t5 = 0
                  then map_option (\<lambda>t'. t'\<lparr>pm_next := pm_next t' + unat (pm_num_uart t')\<rparr>)
                         (pal_peripheral_uart_create_info_table_dt dt t5)
                  else Some t5);
          let t7 = (if PLATFORM_GENERIC_UART_BASE \<noteq> 0
                    then put_uart PLATFORM_GENERIC_UART_BASE PLATFORM_GENERIC_UART_INTID t6 else t6);
          Some (Some (upd_per (pm_next t7) (\<lambda>e. e\<lparr>per_type := 0xFF\<rparr>) t7)) })"

subsection \<open>The I/O virtualisation table (pal_iovirt.c)\<close>

definition smmu_dt_arr :: "string list" where "smmu_dt_arr = [''arm,smmu-v1'']"
definition smmu3_dt_arr :: "string list" where "smmu3_dt_arr = [''arm,smmu-v3'']"

text \<open>The state is \<open>next_block\<close> and the table.  A new block has type \<open>ty\<close>, no flags, no mappings and empty data.\<close>

type_synonym iov_state = "nat \<times> iovirt_mem"

definition dt_block :: "u32 \<Rightarrow> nat \<Rightarrow> iovirt_mem \<Rightarrow> iovirt_mem" where
  "dt_block ty b t =
     put_words (b + BLK_DATA) (replicate 64 0)
       (put_word (b + BLK_NUM) 0 (put_word (b + BLK_FLAGS) 0 (put_word b ty (t\<lparr>tbl_num_blocks := tbl_num_blocks t + 1\<rparr>))))"

definition smmu_node :: "fdt \<Rightarrow> u32 \<Rightarrow> u32 \<Rightarrow> int \<Rightarrow> int \<Rightarrow> iov_state \<Rightarrow> (iov_state + iov_state) option" where
  "smmu_node F ty arch_rev addr_cell offset = (\<lambda>(b, t).
     case fdt_getprop F offset ''reg'' of
       None \<Rightarrow> Some (Inl (b, t))
     | Some p \<Rightarrow>
         (let t1 = dt_block ty b (t\<lparr>tbl_num_smmus := tbl_num_smmus t + 1\<rparr>);
              base = fst (dt_num (if addr_cell = 1 then 1 else 2) p 0)
          in Some (Inr (b + BLK_MAP, put_dword (b + BLK_DATA + 2) base (put_word (b + BLK_DATA) arch_rev t1)))))"

definition smmu_nodes :: "fdt \<Rightarrow> u32 \<Rightarrow> u32 \<Rightarrow> string \<Rightarrow> int \<Rightarrow> iov_state \<Rightarrow> (iov_state + iov_state) option" where
  "smmu_nodes F ty arch_rev c offset s =
     (let parent = fdt_parent_offset F offset; addr_cell = fdt_address_cells F parent
      in if fdt_size_cells F parent < 1 then Some (Inl s)
         else if addr_cell < 1 then Some (Inl s)
         else for_nodes (\<lambda>_ o'. fdt_node_offset_by_compatible F o' c) (smmu_node F ty arch_rev addr_cell) offset s)"

text \<open>\<open>iommu_node\<close> is the second cell of \<open>iommu-map\<close>, which the code takes as the offset of a node.\<close>

definition rc_node :: "fdt \<Rightarrow> int \<Rightarrow> iov_state \<Rightarrow> (iov_state + iov_state) option" where
  "rc_node F offset = (\<lambda>(b, t).
     case fdt_getprop F offset ''iommu-map'' of
       None \<Rightarrow> Some (Inr (b, t))
     | Some p \<Rightarrow> do {
         q \<leftarrow> fdt_getprop F (sint (cell p 1)) ''reg'';
         let t1 = dt_block IOVIRT_NODE_PCI_ROOT_COMPLEX b (t\<lparr>tbl_num_pci_rcs := tbl_num_pci_rcs t + 1\<rparr>);
         let t2 = put_dword (b + BLK_DATA + 4) (fst (dt_num 2 q 0)) (put_word (b + BLK_DATA) 0 t1);
         let t3 = put_word (b + BLK_DATA + 2) (if fdt_getprop F offset ''dma-coherent'' = None then 1 else 0) t2;
         let t4 = put_word (b + BLK_DATA + 1) (if fdt_getprop F offset ''ats-supported'' = None then 1 else 0) t3;
         Some (Inr (b + BLK_MAP, t4)) })"

definition next_pci :: "fdt \<Rightarrow> int \<Rightarrow> int" where
  "next_pci F offset = fdt_node_offset_by_prop_value F offset ''device_type'' ''pci''"

definition rc_nodes :: "fdt \<Rightarrow> iov_state \<Rightarrow> iovirt_mem option" where
  "rc_nodes F s =
     (let offset = next_pci F (- 1); parent = fdt_parent_offset F offset; addr_cell = fdt_address_cells F parent
      in if offset < 0 then Some (snd s)
         else if fdt_size_cells F parent < 0 then Some (snd s)
         else if addr_cell \<le> 0 \<or> addr_cell > 2 then Some (snd s)
         else do { r \<leftarrow> for_nodes (\<lambda>_. next_pci F) (rc_node F) offset s;
                   Some (case r of Inl s' \<Rightarrow> snd s' | Inr s' \<Rightarrow> check_mapping_overlap (snd s')) })"

definition pal_iovirt_create_info_table_dt :: "fdt option \<Rightarrow> iovirt_mem option \<Rightarrow> iovirt_mem option option" where
  "pal_iovirt_create_info_table_dt dt IoVirtTable =
     (case IoVirtTable of
        None \<Rightarrow> Some None
      | Some t \<Rightarrow>
          (case dt of
             None \<Rightarrow> Some (Some t)
           | Some F \<Rightarrow> do {
               r3 \<leftarrow> for_compatible F smmu3_dt_arr (smmu_nodes F IOVIRT_NODE_SMMU_V3 3)
                 (FIRST_BLOCK, t\<lparr>tbl_num_blocks := 0, tbl_num_smmus := 0, tbl_num_pci_rcs := 0, tbl_num_named_components := 0,
                    tbl_num_its_groups := 0, tbl_num_pmcgs := 0\<rparr>);
               case r3 of
                 Inl s3 \<Rightarrow> Some (Some (snd s3))
               | Inr s3 \<Rightarrow> do {
                   r2 \<leftarrow> for_compatible F smmu_dt_arr (smmu_nodes F IOVIRT_NODE_SMMU 2) s3;
                   case r2 of
                     Inl s2 \<Rightarrow> Some (Some (snd s2))
                   | Inr s2 \<Rightarrow> map_option Some (rc_nodes F s2) } }))"

end
