(* ===== verification/Acs_App.thy ===== *)
theory Acs_App
  imports Acs_Modules_Check Acs_Pal_Services
begin

text \<open>
  The UEFI application, \<^verbatim>\<open>uefi_app/BsaAcsMain.c\<close>: the functions that allocate and create the tables, and \<open>ShellAppMain\<close> with the order of the
  modules.

  The record \<open>app_env\<close> has what lies outside of the file: the command line as the shell has parsed it, the boot services, the
  functions of the suite that create and free the tables, and the two modules whose state is larger than the globals of the
  suite (GIC and exerciser).  The other modules are called as they are defined, with the tests as the parameter \<open>T\<close>.
  \<open>Print\<close> of UEFI writes to the shell; what it prints is a list of texts beside the state.  An exception during the
  tests goes on at the label \<open>print_test_status\<close>, which \<open>val_pe_default_esr\<close> models by the exception link register.
\<close>

subsection \<open>The environment of the application\<close>

record 's app_env =
  parse_status :: u64
  cmd_flag :: "string \<Rightarrow> bool"
  cmd_value :: "string \<Rightarrow> string option"
  str_decimal :: "string \<Rightarrow> u32"
  open_file :: "string \<Rightarrow> u64 \<times> u64 option"
  alloc_pool :: "u32 \<Rightarrow> 's \<Rightarrow> u64 \<times> 's"
  create_pe :: "'s \<Rightarrow> u32 \<times> 's"
  create_gic :: "'s \<Rightarrow> u32 \<times> 's"
  create_table :: "string \<Rightarrow> 's \<Rightarrow> 's"
  install_handler :: "u32 \<Rightarrow> string \<Rightarrow> 's \<Rightarrow> 's"
  its_configure :: "'s \<Rightarrow> 's"
  shared_alloc :: "'s \<Rightarrow> 's"
  flush_image :: "'s \<Rightarrow> 's"
  free_table :: "string \<Rightarrow> 's \<Rightarrow> 's"
  close_file :: "u64 \<Rightarrow> 's \<Rightarrow> 's"
  gic_module :: "u32 \<Rightarrow> (u32 \<Rightarrow> u32) \<Rightarrow> 's \<Rightarrow> u32 \<times> 's"
  exerciser_module :: "(u32 \<Rightarrow> u32) \<Rightarrow> 's \<Rightarrow> u32 \<times> 's"
  num_smmu :: "'s \<Rightarrow> u32"
  num_ecam :: "'s \<Rightarrow> u32"
  bdf_entries :: "'s \<Rightarrow> u32"
  wd_count :: "'s \<Rightarrow> u64"
  stack_pointer :: u64
  label_address :: u64

datatype app_exit = SHELL_INVALID_PARAMETER | EXIT u32

subsection \<open>Creation of the tables\<close>

definition pool_failed :: string where
  "pool_failed = ''Allocate Pool failed %x '' @ nl"

text \<open>Memory from the pool, and what is done with it; the status is that of the allocation or that of the last call.\<close>

definition with_pool :: "'s app_env \<Rightarrow> u32 \<Rightarrow> (u64 \<Rightarrow> 's \<Rightarrow> u64 \<times> 's) \<Rightarrow> string list \<times> 's \<Rightarrow> u64 \<times> string list \<times> 's" where
  "with_pool A sz f = (\<lambda>(log, s).
     case alloc_pool A sz s of (st, s1) \<Rightarrow>
       if EFI_ERROR st then (st, log @ [pool_failed], s1)
       else case f st s1 of (st2, s2) \<Rightarrow> (st2, log, s2))"

definition createPeInfoTable :: "'s app_env \<Rightarrow> string list \<times> 's \<Rightarrow> u64 \<times> string list \<times> 's" where
  "createPeInfoTable A = with_pool A 8192 (\<lambda>st0 s. case create_pe A s of (st, s1) \<Rightarrow> (ucast st, s1))"

definition createGicInfoTable :: "'s app_env \<Rightarrow> string list \<times> 's \<Rightarrow> u64 \<times> string list \<times> 's" where
  "createGicInfoTable A = with_pool A 8192 (\<lambda>st0 s. case create_gic A s of (st, s1) \<Rightarrow> (ucast st, s1))"

text \<open>The other tables: the status stays that of the allocation, which has not failed.\<close>

definition pool_table :: "'s app_env \<Rightarrow> u32 \<Rightarrow> string \<Rightarrow> string list \<times> 's \<Rightarrow> u64 \<times> string list \<times> 's" where
  "pool_table A sz name = with_pool A sz (\<lambda>st s. (st, create_table A name s))"

definition createTimerInfoTable :: "'s app_env \<Rightarrow> string list \<times> 's \<Rightarrow> u64 \<times> string list \<times> 's" where
  "createTimerInfoTable A = pool_table A 1024 ''timer''"

definition createWatchdogInfoTable :: "'s app_env \<Rightarrow> string list \<times> 's \<Rightarrow> u64 \<times> string list \<times> 's" where
  "createWatchdogInfoTable A = pool_table A 512 ''watchdog''"

text \<open>Two tables one after the other; the second is not created when there is no memory for the first.\<close>

definition createPcieVirtInfoTable :: "'s app_env \<Rightarrow> string list \<times> 's \<Rightarrow> u64 \<times> string list \<times> 's" where
  "createPcieVirtInfoTable A x =
     (case pool_table A 512 ''pcie'' x of (st, x1) \<Rightarrow> if EFI_ERROR st then (st, x1) else pool_table A 32768 ''iovirt'' x1)"

definition createPeripheralInfoTable :: "'s app_env \<Rightarrow> string list \<times> 's \<Rightarrow> u64 \<times> string list \<times> 's" where
  "createPeripheralInfoTable A x =
     (case pool_table A 1024 ''peripheral'' x of (st, x1) \<Rightarrow> if EFI_ERROR st then (st, x1) else pool_table A 4096 ''memory'' x1)"

definition freeBsaAcsMem :: "'s app_env \<Rightarrow> 's \<Rightarrow> 's" where
  "freeBsaAcsMem A s =
     fold (free_table A) [''pe'', ''gic'', ''timer'', ''watchdog'', ''pcie'', ''iovirt'', ''peripheral'', ''shared''] s"

subsection \<open>The main function\<close>

text \<open>
  The options.  \<open>g_skip_test_num\<close> has 9 entries; what \<open>parse_skip\<close> stores behind them goes to other
  memory and is dropped here.
\<close>

definition app_options :: "'x acs_scheme app_env \<Rightarrow> 'x acs_scheme \<Rightarrow> 'x acs_scheme" where
  "app_options A s =
     (let skip = (\<lambda>i. if i < length (g_skip_test_num s) then g_skip_test_num s ! i else 0);
          s1 = (if cmd_flag A ''-skip''
                then (case cmd_value A ''-skip'' of
                        None \<Rightarrow> s
                      | Some v \<Rightarrow> s\<lparr>g_skip_test_num :=
                          map (snd (parse_skip (str_decimal A) v skip)) [0..<length (g_skip_test_num s)]\<rparr>)
                else s)
      in s1\<lparr>g_print_level := parse_print_level (str_decimal A) (cmd_value A ''-v'')\<rparr>)"

definition app_view :: "'s app_env \<Rightarrow> u32 \<Rightarrow> u32" where
  "app_view A = parse_sw_view (cmd_flag A ''-os'') (cmd_flag A ''-hyp'') (cmd_flag A ''-ps'')"

text \<open>The log file: \<open>Status\<close> has 32 bits, in which the status of \<open>ShellOpenFileByName\<close> is kept.\<close>

definition app_log :: "'s app_env \<Rightarrow> u64 option \<times> string list" where
  "app_log A =
     (case cmd_value A ''-f'' of
        None \<Rightarrow> (None, [])
      | Some v \<Rightarrow>
          (case open_file A v of (st, h) \<Rightarrow>
             if EFI_ERROR (ucast (ucast st :: u32)) then (None, [''Failed to open log file %s'' @ nl]) else (h, [])))"

text \<open>One module: a heading of the shell, then the module on the number of PEs.\<close>

definition app_module :: "string \<Rightarrow> ('s \<Rightarrow> u32 \<times> 's) \<Rightarrow> u32 \<times> string list \<times> 's \<Rightarrow> u32 \<times> string list \<times> 's" where
  "app_module heading f = (\<lambda>(status, log, s). case f s of (st, s1) \<Rightarrow> (status OR st, log @ [nl @ heading], s1))"

definition app_tests :: "'x acs_scheme app_env \<Rightarrow> 'x acs_scheme tests \<Rightarrow> string list \<times> 'x acs_scheme
    \<Rightarrow> u32 \<times> string list \<times> 'x acs_scheme" where
  "app_tests A T = (\<lambda>(log, s).
     let sw = app_view A; n = val_pe_get_num;
         r1 = app_module ''      ***  Starting PE tests ***  '' (\<lambda>s. val_pe_execute_tests T (n s) sw s) (0, log, s);
         r2 = (fst r1, snd (app_module ''      ***  Starting Memory Map tests ***  '' (\<lambda>s. val_memory_execute_tests T (n s) sw s) r1));
         r3 = (case r2 of (status, log2, s2) \<Rightarrow> (status, log2, its_configure A s2));
         r4 = app_module ''      ***  Starting GIC tests ***  '' (\<lambda>s. gic_module A (n s) sw s) r3;
         r5 = app_module ''      *** Starting System MMU tests ***  '' (\<lambda>s. val_smmu_execute_tests T (num_smmu A s) (n s) sw s) r4;
         r6 = app_module ''      *** Starting Timer tests ***  '' (\<lambda>s. val_timer_execute_tests T (n s) sw s) r5;
         r7 = app_module ''      *** Starting Power and Wakeup semantic tests ***  '' (\<lambda>s. val_wakeup_execute_tests T (n s) sw s) r6;
         r8 = app_module ''      *** Starting Peripheral tests ***  '' (\<lambda>s. val_peripheral_execute_tests T (n s) sw s) r7;
         r9 = (if wd_count A (snd (snd r8)) \<noteq> 0
               then app_module ''      *** Starting Watchdog tests ***  '' (\<lambda>s. val_wd_execute_tests T (n s) sw s) r8 else r8);
         r10 = app_module ''      *** Starting PCIe tests ***  ''
                 (\<lambda>s. val_pcie_execute_tests T (num_ecam A s) (bdf_entries A) (n s) sw s) r9
     in app_module ''      *** Starting PCIe Exerciser tests ***  '' (exerciser_module A sw) r10)"

text \<open>From the label \<open>print_test_status\<close> on.\<close>

definition app_report :: "'x acs_scheme app_env \<Rightarrow> u64 option \<Rightarrow> string list \<times> 'x acs_scheme \<Rightarrow> string list \<times> 'x acs_scheme" where
  "app_report A handle = (\<lambda>(log, s).
     let s1 = val_print ACS_PRINT_TEST (nl @ ''     ------------------------------------------------------- '' @ nl) 0 s;
         s2 = val_print ACS_PRINT_TEST ''     Total Tests run  = %4d;'' (ucast (g_bsa_tests_total s1)) s1;
         s3 = val_print ACS_PRINT_TEST ''  Tests Passed  = %4d'' (ucast (g_bsa_tests_pass s2)) s2;
         s4 = val_print ACS_PRINT_TEST (''  Tests Failed = %4d'' @ nl) (ucast (g_bsa_tests_fail s3)) s3;
         s5 = val_print ACS_PRINT_TEST (''     --------------------------------------------------------- '' @ nl) 0 s4;
         s6 = freeBsaAcsMem A s5;
         s7 = (case handle of None \<Rightarrow> s6 | Some h \<Rightarrow> close_file A h s6)
     in (log @ [nl @ ''      *** BSA tests complete. Reset the system. *** '' @ nl @ nl], val_pe_context_restore (g_stack_pointer s7) s7))"

definition HelpMsg :: string where
  "HelpMsg = nl @ concat (map (\<lambda>x. x @ nl)
     [''Usage: Bsa.efi [-v <n>] | [-f <filename>] | [-skip <n>]'',
      ''Options:'',
      ''-v      Verbosity of the Prints'',
      ''        1 shows all prints, 5 shows Errors'',
      ''-f      Name of the log file to record the test results in'',
      ''-skip   Test(s) to be skipped'',
      ''        Refer to section 4 of BSA_ACS_User_Guide'',
      ''        To skip a module, use Model_ID as mentioned in user guide'',
      ''        To skip a particular test within a module, use the exact testcase number'',
      ''-os     Enable the execution of operating system tests'',
      ''-hyp    Enable the execution of hypervisor tests'',
      ''-ps     Enable the execution of platform security tests''])"

definition ShellAppMain :: "'x acs_scheme app_env \<Rightarrow> 'x acs_scheme tests \<Rightarrow> 'x acs_scheme \<Rightarrow> app_exit \<times> string list \<times> 'x acs_scheme" where
  "ShellAppMain A T s =
     (if (ucast (parse_status A) :: u32) \<noteq> 0
      then (SHELL_INVALID_PARAMETER, [''Shell command line parse error %x'' @ nl, ''Unrecognized option %s passed'' @ nl, HelpMsg], s)
      else
        let s1 = app_options A s; (handle, log1) = app_log A
        in if cmd_flag A ''-help'' \<or> cmd_flag A ''-h'' then (EXIT 0, log1 @ [HelpMsg], s1)
           else
             let s2 = s1\<lparr>g_bsa_tests_total := 0, g_bsa_tests_pass := 0, g_bsa_tests_fail := 0\<rparr>;
                 log2 = log1 @ [nl @ nl @ '' BSA Architecture Compliance Suite '' @ nl, ''    Version %d.%d  '' @ nl,
                   nl @ '' Starting tests with Print level is %2d'' @ nl @ nl, '' Creating Platform Information Tables '' @ nl];
                 (st3, log3, s3) = createPeInfoTable A (log2, s2)
             in if (ucast st3 :: u32) \<noteq> 0 then (EXIT (ucast st3), log3, s3)
                else
                  let (st4, log4, s4) = createGicInfoTable A (log3, s3)
                  in if (ucast st4 :: u32) \<noteq> 0 then (EXIT (ucast st4), log4, s4)
                     else
                       let s5 = val_pe_context_save (stack_pointer A) (label_address A) s4;
                           s6 = val_pe_initialize_default_exception_handler (install_handler A) ''val_pe_default_esr'' s5;
                           x7 = snd (createTimerInfoTable A (log4, s6));
                           x8 = snd (createWatchdogInfoTable A x7);
                           x9 = snd (createPcieVirtInfoTable A x8);
                           (log10, s10) = snd (createPeripheralInfoTable A x9);
                           x11 = (log10, flush_image A (shared_alloc A s10));
                           x12 = snd (app_tests A T x11)
                       in (EXIT 0, app_report A handle x12))"

subsection \<open>Lemmas\<close>

lemma log_error_lost: "\<not> EFI_ERROR (ucast (st :: u32))"
  by (simp add: EFI_ERROR_def bit_ucast_iff) (use bit_imp_le_length [of st 63] in auto)

lemma u32_of_u64 [simp]: "ucast (ucast (x :: u32) :: u64) = x"
  by (rule bit_word_eqI) (simp add: bit_simps)

text \<open>What a failed allocation and a failed creation leave, in the 32 bits of \<open>Status\<close>.\<close>

lemma pe_table_status:
  "(ucast (fst (createPeInfoTable A (l, u))) :: u32) =
     (if EFI_ERROR (fst (alloc_pool A 8192 u)) then ucast (fst (alloc_pool A 8192 u))
      else fst (create_pe A (snd (alloc_pool A 8192 u))))"
  by (simp add: createPeInfoTable_def with_pool_def split_beta)

lemma pe_table_state:
  "snd (snd (createPeInfoTable A (l, u))) =
     (if EFI_ERROR (fst (alloc_pool A 8192 u)) then snd (alloc_pool A 8192 u)
      else snd (create_pe A (snd (alloc_pool A 8192 u))))"
  by (simp add: createPeInfoTable_def with_pool_def split_beta)

lemma gic_table_status:
  "(ucast (fst (createGicInfoTable A x)) :: u32) =
     (if EFI_ERROR (fst (alloc_pool A 8192 (snd x))) then ucast (fst (alloc_pool A 8192 (snd x)))
      else fst (create_gic A (snd (alloc_pool A 8192 (snd x)))))"
  by (cases x) (simp add: createGicInfoTable_def with_pool_def split_beta)

subsection \<open>Properties\<close>


end
