(* ===== verification/Acs_Tests_Data.thy ===== *)
theory Acs_Tests_Data
  imports Acs_Pcie_Table
begin

text \<open>
  The tables of bit-fields that the tests \<open>os_p020\<close> to \<open>os_p029\<close> check: \<^verbatim>\<open>test_pool/pcie/operating_system/test_os_p0*_data.h\<close>,
  entry by entry in the order of the files.
\<close>

definition PCIe_ALL :: u32 where
  "PCIe_ALL = iEP_RP OR iEP_EP OR RP OR EP OR RCEC OR RCiEP"

text \<open>An initialiser of an entry, in the order of its fields.\<close>

definition bf_entry :: "BITFIELD_REGISTER_TYPE \<Rightarrow> u16 \<Rightarrow> u16 \<Rightarrow> u16 \<Rightarrow> u32 \<Rightarrow> u8 \<Rightarrow> u8 \<Rightarrow> u32
    \<Rightarrow> BITFIELD_ATTR_TYPE \<Rightarrow> string \<Rightarrow> string \<Rightarrow> pcie_cfgreg_bitfield_entry" where
  "bf_entry ty cid ecid off ports st en value attr e1 e2 =
     \<lparr>reg_type = ty, cap_id = cid, ecap_id = ecid, reg_offset = off, dev_port_bitmask = ucast ports,
      bf_start = st, bf_end = en, cfg_value = value, bf_attr = attr, err_str1 = e1, err_str2 = e2\<rparr>"

definition bf_info_table20 :: "pcie_cfgreg_bitfield_entry list" where
  "bf_info_table20 =
     [bf_entry HEADER 0 0 0x04 PCIe_ALL 3 3 0 READ_ONLY
        ''CR SCE value mismatch'' ''CR SCE attribute mismatch'',
      bf_entry HEADER 0 0 0x04 PCIe_ALL 4 4 0 READ_ONLY
        ''CR MWI value mismatch'' ''CR MWI attribute mismatch'',
      bf_entry HEADER 0 0 0x04 PCIe_ALL 5 5 0 READ_ONLY
        ''CR VPS cfg value mismatch'' ''CR VPS attribute mismatch'',
      bf_entry HEADER 0 0 0x04 PCIe_ALL 7 7 0 READ_ONLY
        ''CR IDSEL value mismatch'' ''CR IDSEL attribute mismatch'',
      bf_entry HEADER 0 0 0x04 PCIe_ALL 9 9 0 READ_ONLY
        ''CR FBBTE value mismatch'' ''CR FBBTE attribute mismatch'',
      bf_entry HEADER 0 0 0x04 (iEP_RP OR iEP_EP) 10 10 0 READ_ONLY
        ''CR ID value mismatch'' ''CR ID attribute mismatch'',
      bf_entry HEADER 0 0 0x06 (iEP_RP OR iEP_EP) 3 3 0 READ_ONLY
        ''SR IS value mismatch'' ''SR IS attribute mismatch'',
      bf_entry HEADER 0 0 0x06 PCIe_ALL 4 4 1 READ_ONLY
        ''SR CL value mismatch'' ''SR CL attribute mismatch'',
      bf_entry HEADER 0 0 0x06 PCIe_ALL 5 5 0 READ_ONLY
        ''SR 66MHz capable value mismatch'' ''SR 66MHz capable attribute mismatch'',
      bf_entry HEADER 0 0 0x06 PCIe_ALL 7 7 0 READ_ONLY
        ''SR FBBTC value mismatch'' ''SR FBBTC attribute mismatch'',
      bf_entry HEADER 0 0 0x06 PCIe_ALL 9 10 0 READ_ONLY
        ''SR DT value mismatch'' ''SR DT attribute mismatch'',
      bf_entry HEADER 0 0 0x0D PCIe_ALL 0 7 0 READ_ONLY
        ''LTR value mismatch'' ''LTR attribute mismatch'']"

definition bf_info_table21 :: "pcie_cfgreg_bitfield_entry list" where
  "bf_info_table21 =
     [bf_entry HEADER 0 0 0x28 (RCiEP OR RCEC OR iEP_EP) 0 31 0 READ_ONLY
        ''CCP value mismatch'' ''CCP attribute mismatch'',
      bf_entry HEADER 0 0 0x3E (RCiEP OR RCEC OR EP OR iEP_EP) 0 7 0 READ_ONLY
        ''MinGnt value mismatch'' ''MinGnt attribute mismatch'',
      bf_entry HEADER 0 0 0x3F (RCiEP OR RCEC OR EP OR iEP_EP) 0 7 0 RSVDP_RO
        ''Max latency value mismatch'' ''Max latency attribute mismatch'']"

definition bf_info_table22 :: "pcie_cfgreg_bitfield_entry list" where
  "bf_info_table22 =
     [bf_entry HEADER 0 0 0x1B (RP OR iEP_RP) 0 7 0 READ_ONLY
        ''SLT value mismatch'' ''SLT attribute mismatch'',
      bf_entry HEADER 0 0 0x1E (RP OR iEP_RP) 5 5 0 READ_ONLY
        ''SSR 66Mhz value mismatch'' ''SSR 66Mhz attribute mismatch'',
      bf_entry HEADER 0 0 0x1E (RP OR iEP_RP) 7 7 0 READ_ONLY
        ''SSR FBBTC value mismatch'' ''SSR FBBTC attribute mismatch'',
      bf_entry HEADER 0 0 0x1E (RP OR iEP_RP) 9 10 0 READ_ONLY
        ''SSR DEVSEL value mismatch'' ''SSR DEVSEL attribute mismatch'',
      bf_entry HEADER 0 0 0x3E (RP OR iEP_RP) 5 5 0 READ_ONLY
        ''BCR MAM value mismatch'' ''BCR MAM attribute mismatch'',
      bf_entry HEADER 0 0 0x3E (RP OR iEP_RP) 7 7 0 READ_ONLY
        ''BCR FBBTE value mismatch'' ''BCR FBBTE attribute mismatch'',
      bf_entry HEADER 0 0 0x3E (RP OR iEP_RP) 8 8 0 READ_ONLY
        ''BCR PDT value mismatch'' ''BCR PDT attribute mismatch'',
      bf_entry HEADER 0 0 0x3E (RP OR iEP_RP) 9 9 0 READ_ONLY
        ''BCR SDT value mismatch'' ''BCR SDT attribute mismatch'',
      bf_entry HEADER 0 0 0x3E (RP OR iEP_RP) 10 10 0 READ_ONLY
        ''BCR DTS value mismatch'' ''BCR DTS attribute mismatch'',
      bf_entry HEADER 0 0 0x3E (RP OR iEP_RP) 11 11 0 READ_ONLY
        ''BCR DTSE value mismatch'' ''BCR DTSE attribute mismatch'']"

definition bf_info_table23 :: "pcie_cfgreg_bitfield_entry list" where
  "bf_info_table23 =
     [bf_entry PCIE_CAP 0x10 0 0x02 iEP_RP 8 8 0 HW_INIT
        ''SI value mismatch'' ''SI attribute mismatch'']"

definition bf_info_table24 :: "pcie_cfgreg_bitfield_entry list" where
  "bf_info_table24 =
     [bf_entry PCIE_CAP 0x10 0 0x04 (RCEC OR RCiEP OR iEP_EP OR iEP_RP) 3 4 0 READ_ONLY
        ''WARNING : PFS value mismatch'' ''WARNING : PFS attribute mismatch'',
      bf_entry PCIE_CAP 0x10 0 0x04 (RCEC OR RCiEP OR iEP_EP OR iEP_RP) 5 5 1 READ_ONLY
        ''ETFS value mismatch'' ''ETFS attribute mismatch'',
      bf_entry PCIE_CAP 0x10 0 0x04 (RCEC OR RCiEP OR iEP_EP OR iEP_RP OR RP) 6 8 0 READ_ONLY
        ''ELAL value mismatch'' ''ELAL attribute mismatch'',
      bf_entry PCIE_CAP 0x10 0 0x04 (RCEC OR RCiEP OR iEP_EP OR iEP_RP OR RP) 9 11 0 READ_ONLY
        ''ELAL value mismatch'' ''ELAL attribute mismatch'',
      bf_entry PCIE_CAP 0x10 0 0x04 (RCEC OR RCiEP OR iEP_EP OR iEP_RP) 15 15 1 READ_ONLY
        ''RBER value mismatch'' ''RBER attribute mismatch'',
      bf_entry PCIE_CAP 0x10 0 0x04 (RCEC OR RCiEP OR iEP_EP OR iEP_RP) 18 25 0 READ_ONLY
        ''CSPLV value mismatch'' ''CSPLV attribute mismatch'',
      bf_entry PCIE_CAP 0x10 0 0x04 (RCEC OR RCiEP OR iEP_EP OR iEP_RP) 26 27 0 READ_ONLY
        ''CSPLS value mismatch'' ''CSPLS attribute mismatch'',
      bf_entry PCIE_CAP 0x10 0 0x04 (iEP_RP OR RP) 28 28 0 READ_ONLY
        ''FLRC value mismatch'' ''FLRC attribute mismatch'']"

definition bf_info_table25 :: "pcie_cfgreg_bitfield_entry list" where
  "bf_info_table25 =
     [bf_entry PCIE_CAP 0x10 0 0x08 (RCEC OR RCiEP OR iEP_EP OR iEP_RP) 9 9 0 READ_WRITE
        ''WARNING PFE value mismatch'' ''WARNING PFE attribute mismatch'',
      bf_entry PCIE_CAP 0x10 0 0x08 (RCEC OR RCiEP OR iEP_EP OR iEP_RP) 10 10 0 STICKY_RW
        ''WARNING APPE value mismatch'' ''WARNING APPE attribute mismatch'',
      bf_entry PCIE_CAP 0x10 0 0x08 RCEC 11 11 0 READ_ONLY
        ''ENS value mismatch'' ''ENS attribute mismatch'',
      bf_entry PCIE_CAP 0x10 0 0x08 (iEP_RP OR RP) 15 15 0 RSVDP_RO
        ''IFLR value mismatch'' ''IFLR attribute mismatch'']"

definition bf_info_table26 :: "pcie_cfgreg_bitfield_entry list" where
  "bf_info_table26 =
     [bf_entry PCIE_CAP 0x10 0 0x24 (RCEC OR RCiEP OR iEP_EP OR EP) 5 5 0 READ_ONLY
        ''AFS value mismatch'' ''AFS attribute mismatch'',
      bf_entry PCIE_CAP 0x10 0 0x24 iEP_RP 5 5 0 READ_ONLY
        ''WARNING AFS value mismatch'' ''WARNING AFS attribute mismatch'',
      bf_entry PCIE_CAP 0x10 0 0x24 (RCEC OR RCiEP OR iEP_EP) 6 6 0 READ_ONLY
        ''ARS value mismatch'' ''ARS attribute mismatch'',
      bf_entry PCIE_CAP 0x10 0 0x24 iEP_RP 6 6 0 READ_ONLY
        ''WARNING ARS value mismatch'' ''WARNING ARS attribute mismatch'',
      bf_entry PCIE_CAP 0x10 0 0x24 (RCEC OR RCiEP OR iEP_EP OR EP) 10 10 0 HW_INIT
        ''NREPP value mismatch'' ''NREPP attribute mismatch'',
      bf_entry PCIE_CAP 0x10 0 0x24 (RCiEP OR iEP_EP OR EP) 14 15 0 HW_INIT
        ''LSC value mismatch'' ''LSC attribute mismatch'',
      bf_entry PCIE_CAP 0x10 0 0x24 iEP_RP 16 16 1 HW_INIT
        ''TCS value mismatch'' ''TCS attribute mismatch'',
      bf_entry PCIE_CAP 0x10 0 0x24 (iEP_RP OR iEP_EP) 17 17 1 HW_INIT
        ''TRS value mismatch'' ''TRS attribute mismatch'',
      bf_entry PCIE_CAP 0x10 0 0x24 (iEP_RP OR iEP_EP) 20 20 1 READ_ONLY
        ''EFFS value mismatch'' ''EFFS attribute mismatch'',
      bf_entry PCIE_CAP 0x10 0 0x24 (RCiEP OR RCEC) 20 20 1 READ_ONLY
        ''WARNING EFFS value mismatch'' ''WARNING EFFS attribute mismatch'',
      bf_entry PCIE_CAP 0x10 0 0x24 RCEC 21 21 0 HW_INIT
        ''WARNING ETPS value mismatch'' ''WARNING ETPS attribute mismatch'',
      bf_entry PCIE_CAP 0x10 0 0x24 RCEC 22 23 0 RSVDP_RO
        ''WARNING METP value mismatch'' ''WARNING METP attribute mismatch'',
      bf_entry PCIE_CAP 0x10 0 0x24 iEP_RP 24 25 0 RSVDP_RO
        ''EPRS value mismatch'' ''EPRS attribute mismatch'',
      bf_entry PCIE_CAP 0x10 0 0x24 iEP_EP 24 25 0 RSVDP_RO
        ''WARNING EPRS value mismatch'' ''WARNING EPRS attribute mismatch'',
      bf_entry PCIE_CAP 0x10 0 0x24 iEP_RP 26 26 0 RSVDP_RO
        ''EPRIR value mismatch'' ''EPRIR attribute mismatch'',
      bf_entry PCIE_CAP 0x10 0 0x24 iEP_EP 26 26 0 RSVDP_RO
        ''WARNING EPRIR value mismatch'' ''WARNING EPRIR attribute mismatch'']"

definition bf_info_table27 :: "pcie_cfgreg_bitfield_entry list" where
  "bf_info_table27 =
     [bf_entry PCIE_CAP 0x10 0 0x28 (RCEC OR RCiEP OR iEP_EP) 5 5 0 READ_ONLY
        ''AFI value mismatch'' ''AFI attribute mismatch'',
      bf_entry PCIE_CAP 0x10 0 0x28 (RCEC OR RCiEP OR iEP_EP) 7 7 0 READ_ONLY
        ''AEB value mismatch'' ''AEB attribute mismatch'',
      bf_entry PCIE_CAP 0x10 0 0x28 RCEC 8 8 0 READ_ONLY
        ''IRE value mismatch'' ''IRE attribute mismatch'',
      bf_entry PCIE_CAP 0x10 0 0x28 RCEC 9 9 0 READ_ONLY
        ''ICE value mismatch'' ''ICE attribute mismatch'',
      bf_entry PCIE_CAP 0x10 0 0x28 (RCEC OR RCiEP OR iEP_RP OR iEP_EP) 11 11 0 RSVDP_RO
        ''EPPR value mismatch'' ''EPPR attribute mismatch'']"

definition bf_info_table28 :: "pcie_cfgreg_bitfield_entry list" where
  "bf_info_table28 =
     [bf_entry PCIE_CAP 0x01 0 0 PCIe_ALL 19 19 0 READ_ONLY
        ''PME Clock value mismatch'' ''PME Clock attribute mismatch'',
      bf_entry PCIE_CAP 0x01 0 0 (RCiEP OR RCEC OR iEP_EP OR iEP_RP) 22 24 0 READ_ONLY
        ''Aux Current value mismatch'' ''Aux Current attribute mismatch'']"

definition bf_info_table29 :: "pcie_cfgreg_bitfield_entry list" where
  "bf_info_table29 =
     [bf_entry PCIE_CAP 0x01 0 0x04 (RCiEP OR RCEC OR iEP_EP OR iEP_RP) 9 12 0 READ_ONLY
        ''WARNING Data Select value mismatch'' ''WARNING Data Select attribute mismatch'',
      bf_entry PCIE_CAP 0x01 0 0x04 (RCiEP OR RCEC OR iEP_EP OR iEP_RP) 13 14 0 READ_ONLY
        ''WARNING Data Scale value mismatch'' ''WARNING Data Scale attribute mismatch'']"

text \<open>The table of each of the ten tests.\<close>

definition bf_tables :: "pcie_cfgreg_bitfield_entry list list" where
  "bf_tables =
     [bf_info_table20, bf_info_table21, bf_info_table22, bf_info_table23, bf_info_table24, bf_info_table25,
      bf_info_table26, bf_info_table27, bf_info_table28, bf_info_table29]"

lemmas bf_table_defs =
  bf_info_table20_def bf_info_table21_def bf_info_table22_def bf_info_table23_def bf_info_table24_def
  bf_info_table25_def bf_info_table26_def bf_info_table27_def bf_info_table28_def bf_info_table29_def

end
