(* ===== verification/Acs_Tests_Pcie.thy ===== *)
theory Acs_Tests_Pcie
  imports Acs_Tests_Data Acs_Infra
begin

text \<open>
  The tests of the PCIe module, \<^verbatim>\<open>test_pool/pcie/operating_system\<close>.  Modelled are the payloads of all tests that
  \<open>val_pcie_execute_tests\<close> runs, save \<open>os_p030\<close>, \<open>os_p048\<close> and \<open>os_p050\<close>, and the entry function that
  the tests share.

  A payload is a function of the configuration space \<open>d\<close>.  Its result is the list of the words it
  hands to \<open>val_set_status\<close> for the running PE, in order, and the configuration space it leaves; \<open>None\<close> is a payload
  that never returns.  The record \<open>locals\<close> has the local variables of the payloads that
  keep their contents from one function of the table to the next: an output parameter of \<open>val_pcie_read_cfg\<close> or
  \<open>val_pcie_find_capability\<close> is not written when the call fails.  Console messages are left out.
\<close>

subsection \<open>Questions to the platform, \<^verbatim>\<open>val/src/acs_pcie.c\<close>\<close>

text \<open>
  The record has the functions of the platform layer that the tests call through \<open>val_pcie_*\<close>; \<open>alloc_ok\<close> says whether
  \<open>val_memory_alloc\<close> succeeds and \<open>delay\<close> is what happens in the configuration space during \<open>val_time_delay_ms\<close>.
\<close>

record 'd pcie_pal =
  p2p_hook :: u32
  dev_p2p_hook :: "u32 \<Rightarrow> u32 \<Rightarrow> u32 \<Rightarrow> u32 \<Rightarrow> u32"
  cache_hook :: "u32 \<Rightarrow> u32 \<Rightarrow> u32 \<Rightarrow> u32 \<Rightarrow> u32"
  frwd_hook :: "u32 \<Rightarrow> u32 \<Rightarrow> u32 \<Rightarrow> u32 \<Rightarrow> u32"
  alloc_ok :: "'d \<Rightarrow> bool"
  delay :: "u32 \<Rightarrow> 'd \<Rightarrow> 'd"

text \<open>A function of the platform layer at the segment, bus, device and function of a name.\<close>

definition at_bdf :: "(u32 \<Rightarrow> u32 \<Rightarrow> u32 \<Rightarrow> u32 \<Rightarrow> 'r) \<Rightarrow> u32 \<Rightarrow> 'r" where
  "at_bdf f bdf =
     f (PCIE_EXTRACT_BDF_SEG bdf) (PCIE_EXTRACT_BDF_BUS bdf) (PCIE_EXTRACT_BDF_DEV bdf) (PCIE_EXTRACT_BDF_FUNC bdf)"

definition val_pcie_p2p_support :: "'d pcie_pal \<Rightarrow> u32" where
  "val_pcie_p2p_support H = p2p_hook H"

definition val_pcie_dev_p2p_support :: "'d pcie_pal \<Rightarrow> u32 \<Rightarrow> u32" where
  "val_pcie_dev_p2p_support H bdf = at_bdf (dev_p2p_hook H) bdf"

definition val_pcie_is_cache_present :: "'d pcie_pal \<Rightarrow> u32 \<Rightarrow> u32" where
  "val_pcie_is_cache_present H bdf = at_bdf (cache_hook H) bdf"

definition val_pcie_get_rp_transaction_frwd_support :: "'d pcie_pal \<Rightarrow> u32 \<Rightarrow> u32" where
  "val_pcie_get_rp_transaction_frwd_support H bdf = at_bdf (frwd_hook H) bdf"

definition val_pcie_get_atomicop_requester_capable :: "u32 \<Rightarrow> u32" where
  "val_pcie_get_atomicop_requester_capable bdf = 0"

text \<open>The answers of \<^verbatim>\<open>platform/pal_uefi/src/pal_pcie.c\<close>.\<close>

definition pal_pcie_p2p_support :: u32 where
  "pal_pcie_p2p_support = 1"

definition pal_pcie_dev_p2p_support :: "u32 \<Rightarrow> u32 \<Rightarrow> u32 \<Rightarrow> u32 \<Rightarrow> u32" where
  "pal_pcie_dev_p2p_support seg bus dev fn = 1"

definition pal_pcie_is_cache_present :: "u32 \<Rightarrow> u32 \<Rightarrow> u32 \<Rightarrow> u32 \<Rightarrow> u32" where
  "pal_pcie_is_cache_present seg bus dev fn = 0"

definition pal_pcie_get_rp_transaction_frwd_support :: "u32 \<Rightarrow> u32 \<Rightarrow> u32 \<Rightarrow> u32 \<Rightarrow> u32" where
  "pal_pcie_get_rp_transaction_frwd_support seg bus dev fn = 1"

text \<open>The UEFI platform: the four answers above, memory and time as given.\<close>

definition uefi_pcie_pal :: "('d \<Rightarrow> bool) \<Rightarrow> (u32 \<Rightarrow> 'd \<Rightarrow> 'd) \<Rightarrow> 'd pcie_pal" where
  "uefi_pcie_pal alloc dly =
     \<lparr>p2p_hook = pal_pcie_p2p_support, dev_p2p_hook = pal_pcie_dev_p2p_support, cache_hook = pal_pcie_is_cache_present,
      frwd_hook = pal_pcie_get_rp_transaction_frwd_support, alloc_ok = alloc, delay = dly\<rparr>"

subsection \<open>Local variables and the loop over the table\<close>

record locals =
  lv_reg :: u32
  lv_cap :: u32
  lv_fails :: u32
  lv_skip :: u32
  lv_found :: u32

definition start_locals :: "'d pcie_env \<Rightarrow> locals" where
  "start_locals E = \<lparr>lv_reg = uninit E, lv_cap = uninit E, lv_fails = 0, lv_skip = 1, lv_found = 0\<rparr>"

text \<open>\<open>val_pcie_read_cfg(bdf, offset, &reg_value)\<close> and \<open>val_pcie_find_capability(bdf, type, cid, &cap_base)\<close>.\<close>

definition read_reg :: "'d pcie_env \<Rightarrow> 'd \<Rightarrow> u32 \<Rightarrow> u32 \<Rightarrow> locals \<Rightarrow> locals" where
  "read_reg E d bdf offset s = s\<lparr>lv_reg := snd (val_pcie_read_cfg E d bdf offset (lv_reg s))\<rparr>"

definition find_cap :: "'d pcie_env \<Rightarrow> 'd \<Rightarrow> u32 \<Rightarrow> BITFIELD_REGISTER_TYPE \<Rightarrow> u32 \<Rightarrow> locals \<Rightarrow> (u32 \<times> locals) option" where
  "find_cap E d bdf ty cid s = do {
     (ret, c) \<leftarrow> val_pcie_find_capability E d bdf ty cid (lv_cap s);
     Some (ret, s\<lparr>lv_cap := c\<rparr>) }"

text \<open>\<open>test_skip = 0\<close>, and \<open>test_fails++\<close> under a condition.\<close>

definition not_skipped :: "locals \<Rightarrow> locals" where
  "not_skipped s = s\<lparr>lv_skip := 0\<rparr>"

definition fail_if :: "bool \<Rightarrow> locals \<Rightarrow> locals" where
  "fail_if c s = (if c then s\<lparr>lv_fails := lv_fails s + 1\<rparr> else s)"

text \<open>The register at \<open>cap_base + offset\<close> of the PCI Express capability of a function.\<close>

definition read_express :: "'d pcie_env \<Rightarrow> 'd \<Rightarrow> u32 \<Rightarrow> u32 \<Rightarrow> locals \<Rightarrow> locals option" where
  "read_express E d bdf offset s = do {
     (ret, s1) \<leftarrow> find_cap E d bdf PCIE_CAP 0x10 s;
     Some (read_reg E d bdf (lv_cap s1 + offset) s1) }"

definition table_devices :: "pcie_device_bdf_table \<Rightarrow> pcie_device_attr list" where
  "table_devices t = map (device t) (table_indices t)"

fun scan_devices :: "(pcie_device_attr \<Rightarrow> 's \<Rightarrow> 's option) \<Rightarrow> pcie_device_attr list \<Rightarrow> 's \<Rightarrow> 's option" where
  "scan_devices step [] s = Some s"
| "scan_devices step (a # as) s = do { s1 \<leftarrow> step a s; scan_devices step as s1 }"

text \<open>The end of the payloads; \<open>k\<close> is the code that goes with SKIP.\<close>

definition scan_word :: "u32 \<Rightarrow> u32 \<Rightarrow> locals \<Rightarrow> u32" where
  "scan_word test_num k s =
     (if lv_skip s = 1 then RESULT_SKIP test_num k
      else if lv_fails s \<noteq> 0 then RESULT_FAIL test_num (lv_fails s)
      else RESULT_PASS test_num 1)"

definition scan_payload :: "'d pcie_env \<Rightarrow> (pcie_device_attr \<Rightarrow> locals \<Rightarrow> locals option) \<Rightarrow> pcie_device_bdf_table
    \<Rightarrow> u32 \<Rightarrow> u32 \<Rightarrow> 'd \<Rightarrow> (u32 list \<times> 'd) option" where
  "scan_payload E step t test_num k d = do {
     s \<leftarrow> scan_devices step (table_devices t) (start_locals E);
     Some ([scan_word test_num k s], d) }"

subsection \<open>ECAM, \<open>os_p001\<close> and \<open>os_p002\<close>\<close>

definition p001_payload :: "'d pcie_env \<Rightarrow> 'd \<Rightarrow> (u32 list \<times> 'd) option" where
  "p001_payload E d =
     Some ([if val_pcie_get_info E PCIE_INFO_NUM_ECAM 0 = 0 then RESULT_SKIP 801 1 else RESULT_PASS 801 1], d)"

text \<open>A loop with early return: \<open>Inl\<close> is the result word of the return, \<open>Inr\<close> the state at the end of the loop.\<close>

fun until_return :: "('i \<Rightarrow> 's \<Rightarrow> 'r + 's) \<Rightarrow> 'i list \<Rightarrow> 's \<Rightarrow> 'r + 's" where
  "until_return step [] s = Inr s"
| "until_return step (i # is) s = (case step i s of Inl r \<Rightarrow> Inl r | Inr s1 \<Rightarrow> until_return step is s1)"

text \<open>The four reads of one function; the state is the local variable \<open>data\<close>.\<close>

definition p002_function :: "'d pcie_env \<Rightarrow> 'd \<Rightarrow> u32 \<Rightarrow> u32 \<Rightarrow> u32 \<times> u32 \<Rightarrow> u32 \<Rightarrow> u32 + u32" where
  "p002_function E d segment bus = (\<lambda>(dev, func) data0.
     let bdf = PCIE_CREATE_BDF segment bus dev func;
         bad = Inl (RESULT_FAIL 802 (shl bus 8 OR dev));
         (ret1, data1) = val_pcie_read_cfg E d bdf 0x0 data0;
         (ret2, data2) = val_pcie_read_cfg E d bdf 0xC data1;
         (ret3, data3) = val_pcie_read_cfg E d bdf (0x100 + 0x100) data2;
         (ret4, data4) = val_pcie_read_cfg E d bdf (0xFFC - 0x100) data3
     in if ret1 = PCIE_NO_MAPPING \<or> data1 = 0 then bad
        else if ret2 = PCIE_NO_MAPPING then bad
        else if ret3 = PCIE_NO_MAPPING then bad
        else if ret4 = PCIE_NO_MAPPING then bad
        else Inr data4)"

definition dev_func_pairs :: "(u32 \<times> u32) list" where
  "dev_func_pairs = List.product (map of_nat [0..<32]) (map of_nat [0..<8])"

definition p002_ecam :: "'d pcie_env \<Rightarrow> 'd \<Rightarrow> u32 \<Rightarrow> u32 \<Rightarrow> u32 + u32" where
  "p002_ecam E d i data =
     (if val_pcie_get_info E PCIE_INFO_ECAM i = 0 then Inl (RESULT_SKIP 802 1)
      else
        let segment = ucast (val_pcie_get_info E PCIE_INFO_SEGMENT i);
            bus = ucast (val_pcie_get_info E PCIE_INFO_START_BUS i);
            data1 = snd (val_pcie_read_cfg E d (PCIE_CREATE_BDF segment bus 0 0) 0x0 data)
        in if data1 = PCIE_UNKNOWN_RESPONSE then Inl (RESULT_FAIL 802 (shl bus 8))
           else until_return (\<lambda>b. until_return (p002_function E d segment b) dev_func_pairs) (ecam_buses E i) data1)"

text \<open>\<open>while (num_ecam--)\<close> goes from the last ECAM region to the first.\<close>

definition p002_payload :: "'d pcie_env \<Rightarrow> 'd \<Rightarrow> (u32 list \<times> 'd) option" where
  "p002_payload E d =
     (if (ucast (val_pcie_get_info E PCIE_INFO_NUM_ECAM 0) :: u32) = 0 then Some ([RESULT_SKIP 802 1], d)
      else case until_return (p002_ecam E d) (rev (ecam_indices E)) (uninit E) of
             Inl w \<Rightarrow> Some ([w], d)
           | Inr data \<Rightarrow> Some ([RESULT_PASS 802 1], d))"

subsection \<open>Bit-fields, \<open>os_p020\<close> to \<open>os_p029\<close>\<close>

definition bitfield_payload :: "'d pcie_env \<Rightarrow> pcie_device_bdf_table \<Rightarrow> u32 \<Rightarrow> pcie_cfgreg_bitfield_entry list
    \<Rightarrow> 'd \<Rightarrow> (u32 list \<times> 'd) option" where
  "bitfield_payload E t test_num bfs d = do {
     (ret, d1) \<leftarrow> val_pcie_register_bitfields_check E t bfs d;
     Some ([if ret = ACS_STATUS_SKIP then RESULT_SKIP test_num 1
            else if ret \<noteq> 0 then RESULT_FAIL test_num ret else RESULT_PASS test_num 1], d1) }"

subsection \<open>Rules on one register, \<open>os_p031\<close> to \<open>os_p034\<close>\<close>

text \<open>Start of a built-in self test: without the capable bit, the completion code and the start bit are 0.\<close>

definition p031_step :: "'d pcie_env \<Rightarrow> 'd \<Rightarrow> pcie_device_attr \<Rightarrow> locals \<Rightarrow> locals option" where
  "p031_step E d a s =
     (let s1 = read_reg E d (attr_bdf a) TYPE01_CLSR s;
          v = VAL_EXTRACT_BITS (lv_reg s1) 24 31
      in Some (fail_if (v AND 0x80 = 0 \<and> (v AND 0x07 \<noteq> 0 \<or> v AND 0x40 \<noteq> 0)) (not_skipped (s1\<lparr>lv_reg := v\<rparr>))))"

definition p032_step :: "'d pcie_env \<Rightarrow> 'd \<Rightarrow> pcie_device_attr \<Rightarrow> locals \<Rightarrow> locals option" where
  "p032_step E d a s =
     (let s1 = read_reg E d (attr_bdf a) TYPE01_CPR s;
          cap_ptr = shr (lv_reg s1) 0 AND 0xff
      in Some (fail_if (\<not> (cap_ptr \<noteq> 0 \<and> cap_ptr \<ge> 0x40 \<and> cap_ptr \<le> 0xFC)) (not_skipped s1)))"

definition p033_step :: "'d pcie_env \<Rightarrow> 'd \<Rightarrow> pcie_device_attr \<Rightarrow> locals \<Rightarrow> locals option" where
  "p033_step E d a s = do {
     s1 \<leftarrow> read_express E d (attr_bdf a) 4 s;
     let max_payload = shr (lv_reg s1) 0 AND 0x07;
     Some (fail_if (\<not> (max_payload \<ge> 0 \<and> max_payload \<le> 5)) (not_skipped s1)) }"

text \<open>The loop over the base address registers; a 64-bit register takes two of them.\<close>

function p034_bars :: "'d pcie_env \<Rightarrow> 'd \<Rightarrow> u32 \<Rightarrow> nat \<Rightarrow> nat \<Rightarrow> locals \<Rightarrow> locals" where
  "p034_bars E d bdf max_bar i s =
     (if i < max_bar
      then let s1 = read_reg E d bdf (TYPE01_BAR + of_nat i * 4) s;
               v = lv_reg s1;
               addr_type = shr v 1 AND 0x3
           in if v = 0 then p034_bars E d bdf max_bar (i + 1) s1
              else if addr_type \<noteq> 0 \<and> addr_type \<noteq> 2 then p034_bars E d bdf max_bar (i + 1) (fail_if True (not_skipped s1))
              else p034_bars E d bdf max_bar (if addr_type = 2 then i + 2 else i + 1) (fail_if (v AND 0x1 \<noteq> 0) (not_skipped s1))
      else s)"
  by pat_completeness auto
termination
  by (relation "measure (\<lambda>(E, d, bdf, max_bar, i, s). max_bar - i)") auto

declare p034_bars.simps [simp del]

definition p034_step :: "'d pcie_env \<Rightarrow> 'd \<Rightarrow> pcie_device_attr \<Rightarrow> locals \<Rightarrow> locals option" where
  "p034_step E d a s = do {
     dp_type \<leftarrow> val_pcie_device_port_type E d (attr_bdf a);
     if dp_type = RCiEP \<or> dp_type = iEP_EP
     then let hdr_type = val_pcie_function_header_type E d (attr_bdf a);
              max_bar = (if hdr_type = 0 then 6 else if hdr_type = 1 then 2 else 0)
          in Some (p034_bars E d (attr_bdf a) max_bar 0 s)
     else Some s }"

subsection \<open>Rules on an integrated endpoint and its root port, \<open>os_p036\<close> to \<open>os_p039\<close>\<close>

text \<open>\<open>DCAP2R_OFFSET\<close> is written in decimal in the header.\<close>

definition DCAP2R_OFFSET :: u32 where
  "DCAP2R_OFFSET = 24"

definition p036_step :: "'d pcie_env \<Rightarrow> 'd \<Rightarrow> pcie_device_attr \<Rightarrow> locals \<Rightarrow> locals option" where
  "p036_step E d a s = do {
     dp_type \<leftarrow> val_pcie_device_port_type E d (attr_bdf a);
     if dp_type = iEP_EP
     then do {
       (ret, s1) \<leftarrow> find_cap E d (attr_bdf a) PCIE_ECAP 0x000E s;
       if ret = PCIE_CAP_NOT_FOUND then Some s1
       else do {
         s2 \<leftarrow> read_express E d (attr_rp_bdf a) DCAP2R_OFFSET s1;
         Some (fail_if (shr (lv_reg s2) 5 AND 0x1 = 0) (not_skipped s2)) } }
     else Some s }"

definition p037_step :: "'d pcie_env \<Rightarrow> 'd \<Rightarrow> pcie_device_attr \<Rightarrow> locals \<Rightarrow> locals option" where
  "p037_step E d a s = do {
     dp_type \<leftarrow> val_pcie_device_port_type E d (attr_bdf a);
     if dp_type = iEP_EP
     then do {
       s1 \<leftarrow> read_express E d (attr_bdf a) DCAP2R_OFFSET s;
       s2 \<leftarrow> read_express E d (attr_rp_bdf a) DCAP2R_OFFSET s1;
       Some (fail_if (shr (lv_reg s1) 18 AND 0x3 \<noteq> shr (lv_reg s2) 18 AND 0x3) (not_skipped s2)) }
     else Some s }"

definition p038_step :: "'d pcie_pal \<Rightarrow> 'd pcie_env \<Rightarrow> 'd \<Rightarrow> pcie_device_attr \<Rightarrow> locals \<Rightarrow> locals option" where
  "p038_step H E d a s = do {
     dp_type \<leftarrow> val_pcie_device_port_type E d (attr_bdf a);
     if dp_type = iEP_RP
     then let s0 = s\<lparr>lv_found := 1\<rparr>
          in if val_pcie_get_rp_transaction_frwd_support H (attr_bdf a) \<noteq> 0 then Some s0
             else do {
               s1 \<leftarrow> read_express E d (attr_bdf a) DCAP2R_OFFSET s0;
               Some (fail_if (shr (lv_reg s1) 0 AND 0xf \<noteq> 0 \<or> shr (lv_reg s1) 4 AND 0x1 \<noteq> 0) (not_skipped s1)) }
     else Some s }"

definition p038_payload :: "'d pcie_pal \<Rightarrow> 'd pcie_env \<Rightarrow> pcie_device_bdf_table \<Rightarrow> 'd \<Rightarrow> (u32 list \<times> 'd) option" where
  "p038_payload H E t d = do {
     s \<leftarrow> scan_devices (p038_step H E d) (table_devices t) (start_locals E);
     Some ([if lv_found s = 0 then RESULT_SKIP 838 1 else scan_word 838 1 s], d) }"

definition p039_step :: "'d pcie_env \<Rightarrow> 'd \<Rightarrow> pcie_device_attr \<Rightarrow> locals \<Rightarrow> locals option" where
  "p039_step E d a s = do {
     dp_type \<leftarrow> val_pcie_device_port_type E d (attr_bdf a);
     if dp_type = iEP_EP
     then do {
       s1 \<leftarrow> read_express E d (attr_bdf a) DCAP2R_OFFSET s;
       let completer = shr (lv_reg s1) 7 AND 0x1 \<noteq> 0 \<or> shr (lv_reg s1) 8 AND 0x1 \<noteq> 0 \<or> shr (lv_reg s1) 9 AND 0x1 \<noteq> 0;
       s2 \<leftarrow> read_express E d (attr_rp_bdf a) DCAP2R_OFFSET s1;
       let rp_unable = shr (lv_reg s2) 6 AND 0x01 = 0 \<and> val_pcie_get_atomicop_requester_capable (attr_rp_bdf a) = 0;
       let s3 = fail_if (completer \<and> rp_unable) (not_skipped s2);
       Some (fail_if (val_pcie_get_atomicop_requester_capable (attr_bdf a) \<noteq> 0 \<and> rp_unable) s3) }
     else Some s }"

subsection \<open>Rules on capabilities, \<open>os_p041\<close>, \<open>os_p042\<close>, \<open>os_p052\<close> to \<open>os_p055\<close>\<close>

definition p041_step :: "'d pcie_env \<Rightarrow> 'd \<Rightarrow> pcie_device_attr \<Rightarrow> locals \<Rightarrow> locals option" where
  "p041_step E d a s = do {
     dp_type \<leftarrow> val_pcie_device_port_type E d (attr_bdf a);
     if val_pcie_is_host_bridge E d (attr_bdf a) then Some s
     else if dp_type = iEP_EP \<or> dp_type = RCiEP
     then do {
       (msi, s1) \<leftarrow> find_cap E d (attr_bdf a) PCIE_CAP 0x05 (not_skipped s);
       if msi \<noteq> PCIE_CAP_NOT_FOUND then Some s1
       else do {
         (msix, s2) \<leftarrow> find_cap E d (attr_bdf a) PCIE_CAP 0x11 s1;
         Some (fail_if (msix = PCIE_CAP_NOT_FOUND) s2) } }
     else Some s }"

definition p042_step :: "'d pcie_env \<Rightarrow> 'd \<Rightarrow> pcie_device_attr \<Rightarrow> locals \<Rightarrow> locals option" where
  "p042_step E d a s = do {
     dp_type \<leftarrow> val_pcie_device_port_type E d (attr_bdf a);
     if dp_type = iEP_EP \<or> dp_type = RCiEP \<or> dp_type = iEP_RP
     then do {
       (ret, s1) \<leftarrow> find_cap E d (attr_bdf a) PCIE_CAP 0x01 (not_skipped s);
       Some (fail_if (ret = PCIE_CAP_NOT_FOUND) s1) }
     else Some s }"

definition p052_step :: "'d pcie_pal \<Rightarrow> 'd pcie_env \<Rightarrow> 'd \<Rightarrow> pcie_device_attr \<Rightarrow> locals \<Rightarrow> locals option" where
  "p052_step H E d a s = do {
     dp_type \<leftarrow> val_pcie_device_port_type E d (attr_bdf a);
     if val_pcie_is_host_bridge E d (attr_bdf a) then Some s
     else if dp_type = iEP_EP \<or> dp_type = RCiEP
     then if val_pcie_is_cache_present H (attr_bdf a) = 0 then Some s
          else do {
            (ret, s1) \<leftarrow> find_cap E d (attr_bdf a) PCIE_ECAP 0x000F (not_skipped s);
            Some (fail_if (ret \<noteq> PCIE_SUCCESS) s1) }
     else Some s }"

text \<open>The number of the given bits that are 0: \<open>curr_bdf_failed\<close> and \<open>p2p_support_flag\<close>, which are 0 again after each function.\<close>

definition clear_bits :: "nat list \<Rightarrow> u32 \<Rightarrow> u32" where
  "clear_bits is v = of_nat (length (filter (\<lambda>i. VAL_EXTRACT_BITS v i i = 0) is))"

definition p053_step :: "'d pcie_env \<Rightarrow> 'd \<Rightarrow> pcie_device_attr \<Rightarrow> locals \<Rightarrow> locals option" where
  "p053_step E d a s = do {
     dp_type \<leftarrow> val_pcie_device_port_type E d (attr_bdf a);
     if dp_type = RP
     then do {
       (ret, s1) \<leftarrow> find_cap E d (attr_bdf a) PCIE_ECAP 0x000D (not_skipped s);
       if ret \<noteq> PCIE_SUCCESS then Some (fail_if True s1)
       else let s2 = read_reg E d (attr_bdf a) (lv_cap s1 + 4) s1
            in Some (fail_if (clear_bits [0, 1, 2, 3, 4] (lv_reg s2) > 0) s2) }
     else Some s }"

definition p054_step :: "'d pcie_env \<Rightarrow> 'd \<Rightarrow> pcie_device_attr \<Rightarrow> locals \<Rightarrow> locals option" where
  "p054_step E d a s = do {
     dp_type \<leftarrow> val_pcie_device_port_type E d (attr_bdf a);
     if dp_type = RP
     then do {
       (acs, s1) \<leftarrow> find_cap E d (attr_bdf a) PCIE_ECAP 0x000D (not_skipped s);
       if acs \<noteq> PCIE_SUCCESS then Some (fail_if True s1)
       else do {
         (aer, s2) \<leftarrow> find_cap E d (attr_bdf a) PCIE_ECAP 0x0001 s1;
         Some (fail_if (aer \<noteq> PCIE_SUCCESS) s2) } }
     else Some s }"

text \<open>The tests that end at once when the hierarchy has no peer-to-peer traffic; \<open>cap_base\<close> starts at 0 there.\<close>

definition p2p_payload :: "'d pcie_pal \<Rightarrow> 'd pcie_env \<Rightarrow> (pcie_device_attr \<Rightarrow> locals \<Rightarrow> locals option)
    \<Rightarrow> pcie_device_bdf_table \<Rightarrow> u32 \<Rightarrow> 'd \<Rightarrow> (u32 list \<times> 'd) option" where
  "p2p_payload H E step t test_num d =
     (if val_pcie_p2p_support H \<noteq> 0 then Some ([RESULT_SKIP test_num 1], d)
      else do {
        s \<leftarrow> scan_devices step (table_devices t) ((start_locals E)\<lparr>lv_cap := 0\<rparr>);
        Some ([scan_word test_num 2 s], d) })"

definition p055_step :: "'d pcie_pal \<Rightarrow> 'd pcie_env \<Rightarrow> 'd \<Rightarrow> pcie_device_attr \<Rightarrow> locals \<Rightarrow> locals option" where
  "p055_step H E d a s = do {
     dp_type \<leftarrow> val_pcie_device_port_type E d (attr_bdf a);
     if dp_type = RP
     then if val_pcie_dev_p2p_support H (attr_bdf a) \<noteq> 0 then Some s
          else do {
            (ats, s1) \<leftarrow> find_cap E d (attr_bdf a) PCIE_ECAP 0x000F s;
            if ats \<noteq> PCIE_SUCCESS then Some s1
            else do {
              (acs, s2) \<leftarrow> find_cap E d (attr_bdf a) PCIE_ECAP 0x000D (not_skipped s1);
              if acs \<noteq> PCIE_SUCCESS then Some (fail_if True s2)
              else let s3 = read_reg E d (attr_bdf a) (lv_cap s2 + 4) s2
                   in Some (fail_if (VAL_EXTRACT_BITS (lv_reg s3) 6 6 = 0) s3) } }
     else Some s }"

definition cap0_payload :: "'d pcie_env \<Rightarrow> (pcie_device_attr \<Rightarrow> locals \<Rightarrow> locals option) \<Rightarrow> pcie_device_bdf_table
    \<Rightarrow> u32 \<Rightarrow> 'd \<Rightarrow> (u32 list \<times> 'd) option" where
  "cap0_payload E step t test_num d = do {
     s \<leftarrow> scan_devices step (table_devices t) ((start_locals E)\<lparr>lv_cap := 0\<rparr>);
     Some ([scan_word test_num 1 s], d) }"

subsection \<open>Peer-to-peer rules, \<open>os_p056\<close> and \<open>os_p057\<close>\<close>

definition p056_step :: "'d pcie_pal \<Rightarrow> 'd pcie_env \<Rightarrow> pcie_device_bdf_table \<Rightarrow> 'd \<Rightarrow> pcie_device_attr \<Rightarrow> locals
    \<Rightarrow> locals option" where
  "p056_step H E t d a s = do {
     dp_type \<leftarrow> val_pcie_device_port_type E d (attr_bdf a);
     if dp_type = iEP_EP
     then if val_pcie_dev_p2p_support H (attr_bdf a) \<noteq> 0 then Some s
          else do {
            (none, rp) \<leftarrow> val_pcie_get_rootport E d t (attr_bdf a);
            if none \<noteq> 0 then Some (fail_if True (not_skipped s))
            else do {
              (acs, s1) \<leftarrow> find_cap E d rp PCIE_ECAP 0x000D (not_skipped s);
              if acs \<noteq> PCIE_SUCCESS then Some (fail_if True s1)
              else do {
                let s2 = read_reg E d rp (lv_cap s1 + 4) s1;
                (aer, s3) \<leftarrow> find_cap E d rp PCIE_ECAP 0x0001 s2;
                let n = clear_bits [0, 1, 2, 3, 4] (lv_reg s2) + (if aer \<noteq> PCIE_SUCCESS then 1 else 0);
                Some (fail_if (n > 0) s3) } } }
     else Some s }"

text \<open>In \<open>os_p057\<close> the search for the AER capability overwrites the offset of the ACS capability before the ACS register is read.\<close>

definition p057_step :: "'d pcie_pal \<Rightarrow> 'd pcie_env \<Rightarrow> 'd \<Rightarrow> pcie_device_attr \<Rightarrow> locals \<Rightarrow> locals option" where
  "p057_step H E d a s = do {
     dp_type \<leftarrow> val_pcie_device_port_type E d (attr_bdf a);
     if dp_type = RCiEP \<or> dp_type = iEP_EP
     then if val_pcie_multifunction_support E d (attr_bdf a) \<noteq> 0 then Some s
          else if val_pcie_dev_p2p_support H (attr_bdf a) \<noteq> 0 then Some s
          else do {
            (acs, s1) \<leftarrow> find_cap E d (attr_bdf a) PCIE_ECAP 0x000D (not_skipped s);
            if acs \<noteq> PCIE_SUCCESS then Some (fail_if True s1)
            else do {
              (aer, s2) \<leftarrow> find_cap E d (attr_bdf a) PCIE_ECAP 0x0001 s1;
              let s3 = read_reg E d (attr_bdf a) (lv_cap s2 + 4) s2;
              let n = (if aer \<noteq> PCIE_SUCCESS then 1 else 0) + (if clear_bits [2, 3, 6] (lv_reg s3) > 0 then 1 else 0);
              Some (fail_if (n > (0 :: u32)) s3) } }
     else Some s }"

subsection \<open>Rules on the place of a function, \<open>os_p044\<close>, \<open>os_p058\<close> and \<open>os_p059\<close>\<close>

fun func_ecam_loop :: "'d pcie_env \<Rightarrow> 'd \<Rightarrow> u32 \<Rightarrow> u32 list \<Rightarrow> u32 \<Rightarrow> u8 option" where
  "func_ecam_loop E d dsf_bdf [] reg_value = Some 1"
| "func_ecam_loop E d dsf_bdf (bdf # bdfs) reg_value = do {
     dp_type \<leftarrow> val_pcie_device_port_type E d bdf;
     if dp_type = RP \<or> dp_type = iEP_RP
     then if PCIE_EXTRACT_BDF_SEG bdf \<noteq> PCIE_EXTRACT_BDF_SEG dsf_bdf then func_ecam_loop E d dsf_bdf bdfs reg_value
          else let v = snd (val_pcie_read_cfg E d bdf TYPE1_PBN reg_value);
                   dsf_bus = ucast (PCIE_EXTRACT_BDF_BUS dsf_bdf) :: u8
               in if ucast dsf_bus \<ge> sec_bus_of v \<and> ucast dsf_bus \<le> sub_bus_of v
                  then do {
                    ecam \<leftarrow> val_pcie_get_ecam_base E d bdf;
                    dev_ecam \<leftarrow> val_pcie_get_ecam_base E d dsf_bdf;
                    Some (if ecam = dev_ecam then 0 else 1) }
                  else func_ecam_loop E d dsf_bdf bdfs v
     else func_ecam_loop E d dsf_bdf bdfs reg_value }"

definition func_ecam_is_rp_ecam :: "'d pcie_env \<Rightarrow> pcie_device_bdf_table \<Rightarrow> 'd \<Rightarrow> u32 \<Rightarrow> u8 option" where
  "func_ecam_is_rp_ecam E t d dsf_bdf = func_ecam_loop E d dsf_bdf (table_bdfs t) (uninit E)"

definition p044_step :: "'d pcie_env \<Rightarrow> pcie_device_bdf_table \<Rightarrow> 'd \<Rightarrow> pcie_device_attr \<Rightarrow> locals \<Rightarrow> locals option" where
  "p044_step E t d a s = do {
     dp_type \<leftarrow> val_pcie_device_port_type E d (attr_bdf a);
     if dp_type = EP \<or> dp_type = iEP_EP \<or> dp_type = shl 1 5 \<or> dp_type = shl 1 6
     then do {
       other \<leftarrow> func_ecam_is_rp_ecam E t d (attr_bdf a);
       Some (fail_if (other \<noteq> 0) (not_skipped s)) }
     else Some s }"

definition p058_step :: "'d pcie_env \<Rightarrow> 'd \<Rightarrow> pcie_device_attr \<Rightarrow> locals \<Rightarrow> locals option" where
  "p058_step E d a s = do {
     dp_type \<leftarrow> val_pcie_device_port_type E d (attr_bdf a);
     if dp_type = RCiEP \<or> dp_type = RCEC
     then if val_pcie_function_header_type E d (attr_bdf a) \<noteq> 0 then Some (fail_if True (not_skipped s))
          else do {
            link_cap_sup \<leftarrow> val_pcie_link_cap_support E d (attr_bdf a);
            Some (fail_if (link_cap_sup \<noteq> 0) (not_skipped s)) }
     else Some s }"

definition p059_step :: "'d pcie_env \<Rightarrow> 'd \<Rightarrow> pcie_device_attr \<Rightarrow> locals \<Rightarrow> locals option" where
  "p059_step E d a s = do {
     dp_type \<leftarrow> val_pcie_device_port_type E d (attr_bdf a);
     if dp_type = RCEC
     then do {
       let s1 = read_reg E d (attr_bdf a) TYPE01_RIDR (not_skipped s);
       let v = lv_reg s1;
       let s2 = fail_if (0x08 \<noteq> shr v 24 AND 0xFF \<or> 0x07 \<noteq> shr v 16 AND 0xFF \<or> 0x00 \<noteq> shr v 8 AND 0xFF) s1;
       (ret, s3) \<leftarrow> find_cap E d (attr_bdf a) PCIE_ECAP 0x0007 s2;
       Some (fail_if (ret \<noteq> PCIE_SUCCESS) s3) }
     else Some s }"

subsection \<open>Out of range, \<open>os_p060\<close>\<close>

text \<open>\<open>get_max_bdf\<close>: the last function of the segment in the table.\<close>

definition get_max_bdf :: "pcie_device_bdf_table \<Rightarrow> u32 \<Rightarrow> u32" where
  "get_max_bdf t segment =
     fold (\<lambda>bdf m. if segment = PCIE_EXTRACT_BDF_SEG bdf then bdf else m) (table_bdfs t) 0"

text \<open>The words that have been set so far are the state; \<open>Inl\<close> is an early return with them.\<close>

definition p060_function :: "'d pcie_env \<Rightarrow> 'd \<Rightarrow> u32 \<Rightarrow> u32 \<Rightarrow> u32 \<times> u32 \<Rightarrow> u32 list \<Rightarrow> u32 list + u32 list" where
  "p060_function E d i bus = (\<lambda>(dev, func) ws.
     let base = val_pcie_get_info E PCIE_INFO_ECAM i
     in if base = 0 then Inl (ws @ [RESULT_FAIL 860 1])
        else if pal_mmio_read E (base + ucast (cfg_addr bus dev func) + 0x0) d \<noteq> PCIE_UNKNOWN_RESPONSE
        then Inl (ws @ [RESULT_FAIL 860 2])
        else Inr (ws @ [RESULT_PASS 860 1]))"

definition p060_ecam :: "'d pcie_env \<Rightarrow> pcie_device_bdf_table \<Rightarrow> 'd \<Rightarrow> u32 \<Rightarrow> u32 list \<Rightarrow> u32 list + u32 list" where
  "p060_ecam E t d i ws =
     (let end_bus = ucast (val_pcie_get_info E PCIE_INFO_END_BUS i);
          last_bus = PCIE_EXTRACT_BDF_BUS (get_max_bdf t (ucast (val_pcie_get_info E PCIE_INFO_SEGMENT i)));
          bus_index = (if last_bus < end_bus then last_bus else end_bus) + 1;
          ws1 = ws @ [RESULT_SKIP 860 1]
      in if bus_index > 255 then Inl ws1
         else until_return (p060_function E d i bus_index) dev_func_pairs ws1)"

definition p060_payload :: "'d pcie_env \<Rightarrow> pcie_device_bdf_table \<Rightarrow> 'd \<Rightarrow> (u32 list \<times> 'd) option" where
  "p060_payload E t d =
     (case until_return (p060_ecam E t d) (ecam_indices E) [] of Inl ws \<Rightarrow> Some (ws, d) | Inr ws \<Rightarrow> Some (ws, d))"

subsection \<open>Vendor specific capabilities, \<open>os_p061\<close>\<close>

text \<open>
  One round of the two loops; the state is \<open>(next_cap, reg_value, err)\<close>, \<open>first\<close> and \<open>final\<close> the bits that the code takes for
  the next pointer, \<open>width\<close> the last bit of the identifier and \<open>limit\<close> the last valid one.
\<close>

definition cfg_space_step :: "'d pcie_env \<Rightarrow> 'd \<Rightarrow> u32 \<Rightarrow> nat \<Rightarrow> nat \<Rightarrow> nat \<Rightarrow> u32 \<Rightarrow> u32 \<times> u32 \<times> u32
    \<Rightarrow> (u32 \<times> u32) + (u32 \<times> u32 \<times> u32)" where
  "cfg_space_step E d bdf first final width limit = (\<lambda>(next_cap, reg_value, err).
     if next_cap \<noteq> 0
     then let v = snd (val_pcie_read_cfg E d bdf next_cap reg_value)
          in Inr (VAL_EXTRACT_BITS v first final, v, if VAL_EXTRACT_BITS v 0 width > limit then 1 else err)
     else Inl (reg_value, err))"

definition check_pcie_cfg_space :: "'d pcie_env \<Rightarrow> 'd \<Rightarrow> u32 \<Rightarrow> u32 option" where
  "check_pcie_cfg_space E d bdf = do {
     let v = snd (val_pcie_read_cfg E d bdf TYPE01_CPR (uninit E));
     (v1, err1) \<leftarrow> tail_iter (cfg_space_step E d bdf 7 15 7 0x15) (shl (VAL_EXTRACT_BITS v 2 7) 2, v, 0);
     (v2, err2) \<leftarrow> tail_iter (cfg_space_step E d bdf 20 31 15 0x29) (0x100, v1, err1);
     Some err2 }"

fun p061_loop :: "'d pcie_env \<Rightarrow> 'd \<Rightarrow> u32 list \<Rightarrow> u32 option" where
  "p061_loop E d [] = Some (RESULT_PASS 861 1)"
| "p061_loop E d (bdf # bdfs) = do {
     dp_type \<leftarrow> val_pcie_device_port_type E d bdf;
     if dp_type = RP
     then do {
       err \<leftarrow> check_pcie_cfg_space E d bdf;
       if err \<noteq> 0 then Some (RESULT_FAIL 861 2) else p061_loop E d bdfs }
     else p061_loop E d bdfs }"

definition p061_payload :: "'d pcie_env \<Rightarrow> pcie_device_bdf_table \<Rightarrow> 'd \<Rightarrow> (u32 list \<times> 'd) option" where
  "p061_payload E t d = do { w \<leftarrow> p061_loop E d (table_bdfs t); Some ([w], d) }"

subsection \<open>Base address registers of integrated endpoints, \<open>os_p062\<close>\<close>

text \<open>
  One register, 32 or 64 bits wide: test data is written, read back and the old contents restored.  The state is
  \<open>(offset, d, bar_value, bar_reg_value, fail_cnt)\<close>.
\<close>

definition p062_bar :: "'d pcie_env \<Rightarrow> u32 \<Rightarrow> u32 \<times> 'd \<times> u32 \<times> u32 \<times> u32
    \<Rightarrow> ('d \<times> u32 \<times> u32 \<times> u32) + (u32 \<times> 'd \<times> u32 \<times> u32 \<times> u32)" where
  "p062_bar E bdf = (\<lambda>(offset, d, bar_value, bar_reg, n).
     let rd = (\<lambda>d off old. snd (val_pcie_read_cfg E d bdf off old)); wr = val_pcie_write_cfg E bdf
     in if offset \<le> 0x14
        then let v = rd d offset bar_value
             in if v = 0 then Inr (offset + 4, d, v, bar_reg, n)
                else if shr v 2 AND 0x1 = 1
                then let lower = rd d offset bar_reg;
                         upper = rd d (offset + 4) lower;
                         bar_orig = shl (ucast upper) 32 OR ucast lower :: u64;
                         d1 = wr (offset + 4) 0xABABABAB (wr offset 0xDEADDAED d);
                         lower1 = rd d1 offset upper;
                         upper1 = rd d1 (offset + 4) lower1;
                         bar_new = shl (ucast upper1) 32 OR ucast lower1 :: u64;
                         d2 = wr offset lower (wr (offset + 4) upper d1)
                     in Inr (offset + 8, d2, lower1, upper1, if bar_orig = bar_new then n + 1 else n)
                else let lower = rd d offset bar_reg;
                         d1 = wr offset 0xDEADDAED d;
                         lower1 = rd d1 offset lower;
                         d2 = wr offset lower d1
                     in Inr (offset + 4, d2, v, lower1, if lower = lower1 then n + 1 else n)
        else Inl (d, bar_value, bar_reg, n))"

text \<open>
  The status is set inside of the loop over the table: once for every function, with the counts so far.
\<close>

fun p062_loop :: "'d pcie_env \<Rightarrow> u32 list \<Rightarrow> 'd \<times> u32 \<times> u32 \<times> u32 \<times> u32 \<Rightarrow> (u32 list \<times> 'd) option" where
  "p062_loop E [] (d, bar_value, bar_reg, n, skip) = Some ([], d)"
| "p062_loop E (bdf # bdfs) (d, bar_value, bar_reg, n, skip) = do {
     dp_type \<leftarrow> val_pcie_device_port_type E d bdf;
     (d1, v1, r1, n1, skip1) \<leftarrow>
       (if dp_type = RCiEP
        then do {
          (d1, v1, r1, n1) \<leftarrow> tail_iter (p062_bar E bdf) (0x10, d, bar_value, bar_reg, n);
          Some (d1, v1, r1, n1, 0) }
        else Some (d, bar_value, bar_reg, n, skip));
     (ws, d2) \<leftarrow> p062_loop E bdfs (d1, v1, r1, n1, skip1);
     Some ((if skip1 = 1 then RESULT_SKIP 862 1 else if n1 \<noteq> 0 then RESULT_FAIL 862 n1 else RESULT_PASS 862 1) # ws, d2) }"

definition p062_payload :: "'d pcie_env \<Rightarrow> pcie_device_bdf_table \<Rightarrow> 'd \<Rightarrow> (u32 list \<times> 'd) option" where
  "p062_payload E t d = p062_loop E (table_bdfs t) (d, uninit E, uninit E, 0, 1)"

subsection \<open>Resets, \<open>os_p035\<close> and \<open>os_p051\<close>\<close>

text \<open>A sequence of reads into one local variable.\<close>

fun reads :: "'d pcie_env \<Rightarrow> 'd \<Rightarrow> u32 \<Rightarrow> u32 list \<Rightarrow> u32 \<Rightarrow> u32 list" where
  "reads E d bdf [] v = []"
| "reads E d bdf (off # offs) v =
     (let v1 = snd (val_pcie_read_cfg E d bdf off v) in v1 # reads E d bdf offs v1)"

definition bar_offsets :: "u32 list" where
  "bar_offsets = map (\<lambda>i. TYPE01_BAR + of_nat i * 4) [0..<6]"

definition is_flr_failed :: "'d pcie_env \<Rightarrow> 'd \<Rightarrow> u32 \<Rightarrow> u32" where
  "is_flr_failed E d bdf =
     (let vs = reads E d bdf (bar_offsets @ [TYPE01_CR, TYPE01_CR]) (uninit E)
      in of_nat (length (filter (\<lambda>v. shr v 4 \<noteq> 0) (take 6 vs)))
         + (if shr (vs ! 6) 2 AND 0x1 \<noteq> 0 then 1 else 0) + (if shr (vs ! 7) 1 AND 0x1 \<noteq> 0 then 1 else 0))"

definition is_sbr_failed :: "'d pcie_env \<Rightarrow> 'd \<Rightarrow> u32 \<Rightarrow> u32" where
  "is_sbr_failed E d bdf =
     (let vs = reads E d bdf (bar_offsets @ [TYPE01_CR]) (uninit E)
      in of_nat (length (filter (\<lambda>v. shr v 4 \<noteq> 0) (take 6 vs)))
         + (if shr (vs ! 6) 2 AND 0x1 \<noteq> 0 \<or> shr (vs ! 6) 1 AND 0x1 \<noteq> 0 then 1 else 0))"

text \<open>The 4 KB of configuration space, read and written through a pointer.\<close>

definition cfg_words :: "u64 \<Rightarrow> u64 list" where
  "cfg_words addr = map (\<lambda>i. addr + 4 * of_nat i) [0..<1024]"

definition save_space :: "'d pcie_env \<Rightarrow> u64 \<Rightarrow> 'd \<Rightarrow> u32 list" where
  "save_space E addr d = map (\<lambda>a. cfg_ld E a d) (cfg_words addr)"

definition restore_space :: "'d pcie_env \<Rightarrow> u64 \<Rightarrow> u32 list \<Rightarrow> 'd \<Rightarrow> 'd" where
  "restore_space E addr vs d = fold (\<lambda>(a, v). cfg_st E a v) (zip (cfg_words addr) vs) d"

fun scan_until :: "(pcie_device_attr \<Rightarrow> 's \<Rightarrow> ('r + 's) option) \<Rightarrow> pcie_device_attr list \<Rightarrow> 's \<Rightarrow> ('r + 's) option" where
  "scan_until step [] s = Some (Inr s)"
| "scan_until step (a # as) s = do {
     r \<leftarrow> step a s;
     (case r of Inl x \<Rightarrow> Some (Inl x) | Inr s1 \<Rightarrow> scan_until step as s1) }"

definition p035_step :: "'d pcie_pal \<Rightarrow> 'd pcie_env \<Rightarrow> pcie_device_attr \<Rightarrow> locals \<times> 'd \<Rightarrow> ((u32 \<times> 'd) + (locals \<times> 'd)) option" where
  "p035_step H E a = (\<lambda>(s, d). do {
     let bdf = attr_bdf a;
     dp_type \<leftarrow> val_pcie_device_port_type E d bdf;
     if dp_type = RCiEP \<or> dp_type = iEP_EP \<or> dp_type = EP
     then do {
       s1 \<leftarrow> read_express E d bdf 4 s;
       if shr (lv_reg s1) 28 AND 0x1 = 0 then Some (Inr (s1, d))
       else if \<not> alloc_ok H d then Some (Inl (RESULT_FAIL 835 (lv_fails s1), d))
       else
         let addr = val_pcie_get_bdf_config_addr E bdf;
             saved = save_space E addr d;
             s2 = read_reg E d bdf (lv_cap s1 + DCTLR_OFFSET) s1;
             v = lv_reg s2 OR 0x8000;
             d1 = delay H (100 * 1000) (val_pcie_write_cfg E bdf (lv_cap s2 + DCTLR_OFFSET) v d);
             s3 = read_reg E d1 bdf 0 (not_skipped (s2\<lparr>lv_reg := v\<rparr>))
         in Some (Inr (if lv_reg s3 AND 0xffff = 0xffff then (fail_if True s3, d1)
                       else (fail_if (is_flr_failed E d1 bdf \<noteq> 0) s3, restore_space E addr saved d1))) }
     else Some (Inr (s, d)) })"

definition p035_payload :: "'d pcie_pal \<Rightarrow> 'd pcie_env \<Rightarrow> pcie_device_bdf_table \<Rightarrow> 'd \<Rightarrow> (u32 list \<times> 'd) option" where
  "p035_payload H E t d = do {
     r \<leftarrow> scan_until (p035_step H E) (table_devices t) (start_locals E, d);
     Some (case r of Inl (w, d1) \<Rightarrow> ([w], d1) | Inr (s, d1) \<Rightarrow> ([scan_word 835 1 s], d1)) }"

fun iep_loop :: "'d pcie_env \<Rightarrow> 'd \<Rightarrow> u32 \<Rightarrow> u32 \<Rightarrow> u32 list \<Rightarrow> u32 \<Rightarrow> u32 option" where
  "iep_loop E d seg sec_bus [] v = Some 0"
| "iep_loop E d seg sec_bus (dev # devs) v =
     (let dev_bdf = PCIE_CREATE_BDF seg sec_bus dev 0;
          v1 = snd (val_pcie_read_cfg E d dev_bdf TYPE01_VIDR v)
      in if v1 = PCIE_UNKNOWN_RESPONSE then iep_loop E d seg sec_bus devs v1
         else do {
           dp_type \<leftarrow> val_pcie_device_port_type E d dev_bdf;
           if dp_type = iEP_EP then Some dev_bdf else iep_loop E d seg sec_bus devs v1 })"

definition get_iep_bdf_under_rp :: "'d pcie_env \<Rightarrow> 'd \<Rightarrow> u32 \<Rightarrow> u32 option" where
  "get_iep_bdf_under_rp E d rp_bdf =
     (let v = snd (val_pcie_read_cfg E d rp_bdf TYPE1_PBN (uninit E))
      in iep_loop E d (PCIE_EXTRACT_BDF_SEG rp_bdf) (sec_bus_of v) (map of_nat [0..<32]) v)"

definition p051_step :: "'d pcie_pal \<Rightarrow> 'd pcie_env \<Rightarrow> pcie_device_attr \<Rightarrow> locals \<times> 'd \<Rightarrow> ((u32 \<times> 'd) + (locals \<times> 'd)) option" where
  "p051_step H E a = (\<lambda>(s, d). do {
     let bdf = attr_bdf a;
     dp_type \<leftarrow> val_pcie_device_port_type E d bdf;
     if dp_type = iEP_RP
     then do {
       iep_bdf \<leftarrow> get_iep_bdf_under_rp E d bdf;
       if iep_bdf = 0 then Some (Inl (RESULT_SKIP 851 1, d))
       else if \<not> alloc_ok H d then Some (Inl (RESULT_FAIL 851 2, d))
       else
         let addr = val_pcie_get_bdf_config_addr E iep_bdf;
             saved = save_space E addr d;
             s1 = read_reg E d bdf 0x3c (s\<lparr>lv_found := 1\<rparr>);
             v = lv_reg s1 OR 0x400000;
             d1 = delay H (100 * 1000) (val_pcie_write_cfg E bdf 0x3c v d);
             s2 = fail_if (is_sbr_failed E d1 iep_bdf \<noteq> 0) (s1\<lparr>lv_reg := v\<rparr>)
         in Some (Inr (s2, restore_space E addr saved d1)) }
     else Some (Inr (s, d)) })"

definition p051_payload :: "'d pcie_pal \<Rightarrow> 'd pcie_env \<Rightarrow> pcie_device_bdf_table \<Rightarrow> 'd \<Rightarrow> (u32 list \<times> 'd) option" where
  "p051_payload H E t d = do {
     r \<leftarrow> scan_until (p051_step H E) (table_devices t) (start_locals E, d);
     Some (case r of
             Inl (w, d1) \<Rightarrow> ([w], d1)
           | Inr (s, d1) \<Rightarrow> ([if lv_found s = 0 then RESULT_SKIP 851 2
                              else if lv_fails s \<noteq> 0 then RESULT_FAIL 851 (lv_fails s) else RESULT_PASS 851 1], d1)) }"

subsection \<open>The tests by name, and their entry function\<close>

definition pcie_payload :: "'d pcie_pal \<Rightarrow> 'd pcie_env \<Rightarrow> pcie_device_bdf_table \<Rightarrow> nat \<Rightarrow> 'd \<Rightarrow> (u32 list \<times> 'd) option" where
  "pcie_payload H E t n d =
     (let scan = (\<lambda>step. scan_payload E (step E d) t (800 + of_nat n) 1 d)
      in if n = 1 then p001_payload E d
         else if n = 2 then p002_payload E d
         else if 20 \<le> n \<and> n < 30 then bitfield_payload E t (800 + of_nat n) (bf_tables ! (n - 20)) d
         else if n = 31 then scan p031_step
         else if n = 32 then scan p032_step
         else if n = 33 then scan p033_step
         else if n = 34 then scan p034_step
         else if n = 35 then p035_payload H E t d
         else if n = 36 then scan p036_step
         else if n = 37 then scan p037_step
         else if n = 38 then p038_payload H E t d
         else if n = 39 then scan p039_step
         else if n = 41 then scan p041_step
         else if n = 42 then scan p042_step
         else if n = 44 then scan (\<lambda>E. p044_step E t)
         else if n = 51 then p051_payload H E t d
         else if n = 52 then scan (p052_step H)
         else if n = 53 then p2p_payload H E (p053_step E d) t 853 d
         else if n = 54 then p2p_payload H E (p054_step E d) t 854 d
         else if n = 55 then cap0_payload E (p055_step H E d) t 855 d
         else if n = 56 then p2p_payload H E (p056_step H E t d) t 856 d
         else if n = 57 then cap0_payload E (p057_step H E d) t 857 d
         else if n = 58 then scan p058_step
         else if n = 59 then scan p059_step
         else if n = 60 then p060_payload E t d
         else if n = 61 then p061_payload E t d
         else if n = 62 then p062_payload E t d
         else None)"

text \<open>The state of the suite with the configuration space.\<close>

record 'd pcie_acs = acs +
  cfg_space :: 'd

text \<open>
  \<open>os_p*_entry\<close>: every test of the module has this function.  \<open>P\<close> is its payload; the words it sets go to the entry of the
  running PE in the shared memory.
\<close>

definition run_payload :: "('d pcie_acs \<Rightarrow> 'd pcie_acs) \<Rightarrow> ('d pcie_acs \<Rightarrow> 'd pcie_acs) \<Rightarrow> u32
    \<Rightarrow> ('d \<Rightarrow> (u32 list \<times> 'd) option) \<Rightarrow> u64 \<Rightarrow> 'd pcie_acs \<Rightarrow> 'd pcie_acs option" where
  "run_payload smc env test_num P paddr s = do {
     index \<leftarrow> my_index s;
     (ws, d) \<leftarrow> P (cfg_space s);
     val_run_test_payload smc env test_num 1 (\<lambda>u. (fold (val_set_status index) ws u)\<lparr>cfg_space := d\<rparr>) paddr 0 s }"

definition os_entry :: "(u32 \<Rightarrow> string \<Rightarrow> 'd pcie_acs \<Rightarrow> 'd pcie_acs) \<Rightarrow> ('d pcie_acs \<Rightarrow> 'd pcie_acs)
    \<Rightarrow> ('d pcie_acs \<Rightarrow> 'd pcie_acs) \<Rightarrow> u32 \<Rightarrow> string \<Rightarrow> ('d \<Rightarrow> (u32 list \<times> 'd) option) \<Rightarrow> u64
    \<Rightarrow> 'd pcie_acs \<Rightarrow> (u32 \<times> 'd pcie_acs) option" where
  "os_entry pal_install smc env test_num desc P paddr s = do {
     (st, s1) \<leftarrow> val_initialize_test pal_install test_num desc 1 s;
     s2 \<leftarrow> (if st \<noteq> ACS_STATUS_SKIP then run_payload smc env test_num P paddr s1 else Some s1);
     (status, s3) \<leftarrow> val_check_for_error test_num 1 s2;
     Some (status, val_report_status 0 (BSA_ACS_END test_num) s3) }"

end
