(* ===== verification/Acs_Tests_Pcie_Check.thy ===== *)
theory Acs_Tests_Pcie_Check
  imports Acs_Tests_Pcie Acs_Pcie_Check
begin

text \<open>
  Correctness of the PCIe tests.  The locale \<open>rule_test\<close> is the contract of a test that looks at every function of the
  device table: which functions the rule applies to and how often a function breaks it.  Its lemmas give the word
  that such a test reports; it is interpreted on the steps of five tests.  The entry function of the tests takes that word
  to the verdict and the counters of the suite.  Other lemmas show what the remaining tests do: the tests that the UEFI platform
  never lets run, and the ones that look at another register than they mean to.
\<close>

subsection \<open>Specification\<close>

text \<open>\<open>caps\<close> lists the capabilities of each function; the list of the hardware ends and has the PCI Express capability.\<close>

definition regular_function :: "'d pcie_env \<Rightarrow> 'd \<Rightarrow> (u32 \<Rightarrow> u32 list) \<Rightarrow> u32 \<Rightarrow> bool" where
  "regular_function E d caps bdf \<longleftrightarrow> cfg_mapped E bdf \<and> cfg_value_at E d bdf TYPE01_CPR \<noteq> PCIE_UNKNOWN_RESPONSE \<and>
     cap_list (cfg_value_at E d bdf) 8 0xff (cfg_value_at E d bdf TYPE01_CPR AND 0xff) (caps bdf) \<and>
     (\<exists>x\<in>set (caps bdf). cfg_value_at E d bdf x AND 0xff = 0x10)"

definition cap_of :: "'d pcie_env \<Rightarrow> 'd \<Rightarrow> (u32 \<Rightarrow> u32 list) \<Rightarrow> u32 \<Rightarrow> u32 \<Rightarrow> u32 option" where
  "cap_of E d caps bdf cid = List.find (\<lambda>x. cfg_value_at E d bdf x AND 0xff = cid) (caps bdf)"

definition port_field :: "'d pcie_env \<Rightarrow> 'd \<Rightarrow> (u32 \<Rightarrow> u32 list) \<Rightarrow> u32 \<Rightarrow> nat" where
  "port_field E d caps bdf = unat (shr (cfg_value_at E d bdf (the (cap_of E d caps bdf 0x10))) 20 AND 0xf)"

text \<open>The rules of \<open>os_p031\<close>, \<open>os_p032\<close>, \<open>os_p033\<close>, \<open>os_p041\<close> and \<open>os_p042\<close>: where they apply and when they are broken.\<close>

definition rule_applies :: "nat \<Rightarrow> 'd pcie_env \<Rightarrow> 'd \<Rightarrow> (u32 \<Rightarrow> u32 list) \<Rightarrow> u32 \<Rightarrow> bool" where
  "rule_applies n E d caps bdf \<longleftrightarrow>
     (if n = 41 then port_field E d caps bdf \<in> {9, 12} \<and> 
        \<not> (shr (cfg_value_at E d bdf TYPE01_RIDR) 24 AND 0xFF = 0x06 \<and> shr (cfg_value_at E d bdf TYPE01_RIDR) 16 AND 0xFF = 0x00)
      else if n = 42 then port_field E d caps bdf \<in> {9, 11, 12} else True)"

definition rule_broken :: "nat \<Rightarrow> 'd pcie_env \<Rightarrow> 'd \<Rightarrow> (u32 \<Rightarrow> u32 list) \<Rightarrow> u32 \<Rightarrow> bool" where
  "rule_broken n E d caps bdf \<longleftrightarrow>
     (if n = 31 then (let v = cfg_value_at E d bdf TYPE01_CLSR
                      in \<not> bit v 31 \<and> (bit v 30 \<or> bit v 26 \<or> bit v 25 \<or> bit v 24))
      else if n = 32 then (let p = cfg_value_at E d bdf TYPE01_CPR AND 0xff in p < 0x40 \<or> p > 0xFC)
      else if n = 33 then cfg_value_at E d bdf (the (cap_of E d caps bdf 0x10) + 4) AND 7 > 5
      else if n = 41 then cap_of E d caps bdf 0x05 = None \<and> cap_of E d caps bdf 0x11 = None
      else cap_of E d caps bdf 0x01 = None)"

text \<open>The word that a test reports: \<open>fns\<close> are the functions that its rule applies to.\<close>

definition rule_word :: "u32 \<Rightarrow> ('a \<Rightarrow> bool) \<Rightarrow> 'a list \<Rightarrow> u32" where
  "rule_word test_num broken fns =
     (if fns = [] then RESULT_SKIP test_num 1
      else if list_ex broken fns then RESULT_FAIL test_num (of_nat (length (filter broken fns)))
      else RESULT_PASS test_num 1)"

text \<open>Installing an exception handler leaves what the suite and the device keep.\<close>

definition quiet_installer :: "(u32 \<Rightarrow> string \<Rightarrow> 'd pcie_acs \<Rightarrow> 'd pcie_acs) \<Rightarrow> bool" where
  "quiet_installer pal_install \<longleftrightarrow>
     (\<forall>ty h u. shared_mem (pal_install ty h u) = shared_mem u \<and> g_bsa_tests_total (pal_install ty h u) = g_bsa_tests_total u \<and>
        g_bsa_tests_pass (pal_install ty h u) = g_bsa_tests_pass u \<and> g_bsa_tests_fail (pal_install ty h u) = g_bsa_tests_fail u \<and>
        g_skip_test_num (pal_install ty h u) = g_skip_test_num u \<and> g_pe_info_table (pal_install ty h u) = g_pe_info_table u \<and>
        MPIDR (pal_install ty h u) = MPIDR u \<and> cfg_space (pal_install ty h u) = cfg_space u)"

text \<open>Configuration space that keeps what is written, each word on its own.\<close>

definition memory_like :: "'d pcie_env \<Rightarrow> bool" where
  "memory_like E \<longleftrightarrow> (\<forall>a b v d. cfg_ld E a (cfg_st E b v d) = (if a = b then v else cfg_ld E a d))"

text \<open>What makes an entry of a table of bit-fields sound.\<close>

definition bf_entry_ok :: "pcie_cfgreg_bitfield_entry \<Rightarrow> bool" where
  "bf_entry_ok bf \<longleftrightarrow> bf_start bf \<le> bf_end bf \<and>
     REG_SHIFT (ucast (reg_offset bf) AND 0x3) (bf_start bf) + unat (bf_end bf - bf_start bf) < 32 \<and>
     field_of bf (shl (cfg_value bf) (REG_SHIFT (ucast (reg_offset bf) AND 0x3) (bf_start bf))) = cfg_value bf \<and>
     dev_port_bitmask bf \<noteq> 0 \<and> reg_type bf \<noteq> PCIE_ECAP \<and> (reg_type bf = HEADER \<longleftrightarrow> cap_id bf = 0)"

text \<open>Configuration spaces for the witnesses: a root port that complies with the rule of \<open>os_p061\<close>.\<close>

definition compliant_port_cfg :: "u64 \<Rightarrow> u32" where
  "compliant_port_cfg = (\<lambda>a. if a = 0x40008034 then 0x40 else if a = 0x40008040 then 0x00425010
     else if a = 0x40008050 then 0x0001 else if a = 0x400080A0 then 0x7F else if a = 0x40008100 then 0x00010001 else 0)"

text \<open>A root complex integrated endpoint with a PCI Express capability at 0x40 and an MSI capability at 0x50, at bus 0, device 1.\<close>

definition rciep_cfg :: "u64 \<Rightarrow> u32" where
  "rciep_cfg = (\<lambda>a. if a = 0x40008034 then 0x40 else if a = 0x40008040 then 0x00925010
     else if a = 0x40008044 then 0x2 else if a = 0x40008050 then 0x0005 else 0)"

definition rciep_table :: pcie_device_bdf_table where
  "rciep_table = \<lparr>bdf_num_entries = 1, device = (\<lambda>_. \<lparr>attr_bdf = 0x100, attr_rp_bdf = 0\<rparr>)\<rparr>"

definition rciep_caps :: "u32 \<Rightarrow> u32 list" where
  "rciep_caps = (\<lambda>_. [0x40, 0x50])"

definition rciep_system :: "(u64 \<Rightarrow> u32) pcie_acs" where
  "rciep_system = acs.extend two_pe_system \<lparr>cfg_space = rciep_cfg\<rparr>"

text \<open>An endpoint that supports function level reset, and a platform on which the reset clears its first base address register.\<close>

definition flr_cfg :: "u64 \<Rightarrow> u32" where
  "flr_cfg = rciep_cfg(0x40008000 := 0x12345678, 0x40008010 := 0xE0000000, 0x40008044 := 0x10000002)"

definition flr_pal :: "(u64 \<Rightarrow> u32) pcie_pal" where
  "flr_pal = uefi_pcie_pal (\<lambda>_. True) (\<lambda>ms d. d(0x40008010 := 0))"

subsection \<open>The contract of a rule test\<close>

locale rule_test =
  fixes step :: "pcie_device_attr \<Rightarrow> locals \<Rightarrow> locals option"
    and regular :: "u32 \<Rightarrow> bool"
    and applies :: "u32 \<Rightarrow> bool"
    and broken :: "u32 \<Rightarrow> bool"
  assumes step_law: "regular (attr_bdf a) \<Longrightarrow> \<exists>s'. step a s = Some s' \<and>
      lv_fails s' = lv_fails s + (if applies (attr_bdf a) \<and> broken (attr_bdf a) then 1 else 0) \<and>
      lv_skip s' = (if applies (attr_bdf a) then 0 else lv_skip s)"
begin

lemma scan:
  "(\<And>a. a \<in> set as \<Longrightarrow> regular (attr_bdf a)) \<Longrightarrow> \<exists>s'. scan_devices step as s = Some s' \<and>
     lv_fails s' = lv_fails s + of_nat (length (filter broken (filter applies (map attr_bdf as)))) \<and>
     lv_skip s' = (if filter applies (map attr_bdf as) = [] then lv_skip s else 0)"
proof (induction as arbitrary: s)
  case (Cons a as)
  obtain s1 where s1: "step a s = Some s1"
    "lv_fails s1 = lv_fails s + (if applies (attr_bdf a) \<and> broken (attr_bdf a) then 1 else 0)"
    "lv_skip s1 = (if applies (attr_bdf a) then 0 else lv_skip s)"
    using step_law [of a s] Cons.prems [of a] by auto
  from Cons.IH [of s1] Cons.prems show ?case
    by (auto simp: s1 simp del: filter_filter length_filter_map)
qed simp

lemma payload:
  assumes "\<And>a. a \<in> set (table_devices t) \<Longrightarrow> regular (attr_bdf a)"
  shows "scan_payload E step t n 1 d = Some ([rule_word n broken (filter applies (map attr_bdf (table_devices t)))], d)"
proof -
  let ?fns = "filter applies (map attr_bdf (table_devices t))"
  obtain s where s: "scan_devices step (table_devices t) (start_locals E) = Some s"
    "lv_fails s = of_nat (length (filter broken ?fns))" "lv_skip s = (if ?fns = [] then 1 else 0)"
    using scan [of "table_devices t" "start_locals E"] assms
    by (auto simp: start_locals_def simp del: filter_filter length_filter_map)
  have "length (filter broken ?fns) \<le> length (table_devices t)"
    by (metis le_trans length_filter_le length_map)
  also have "\<dots> < 2 ^ 32"
    using unat_bound [of "bdf_num_entries t"] by (simp add: table_devices_def table_indices_def)
  finally have "(of_nat (length (filter broken ?fns)) :: u32) = 0 \<longleftrightarrow> filter broken ?fns = []"
    by (auto simp: word_of_nat_eq_0_iff simp del: filter_filter length_filter_map dest: nat_dvd_not_less [rotated])
  then show ?thesis
    by (auto simp: scan_payload_def s(1) scan_word_def s(2,3) rule_word_def list_ex_iff filter_empty_conv
        simp del: filter_filter length_filter_map)
qed

end

subsection \<open>Lemmas: what the calls return for a regular function\<close>

lemma regular_mapped: "regular_function E d caps bdf \<Longrightarrow> cfg_mapped E bdf"
  by (simp add: regular_function_def)

lemma find_regular:
  assumes "regular_function E d caps bdf"
  shows "val_pcie_find_capability E d bdf PCIE_CAP cid old =
     Some (case cap_of E d caps bdf cid of Some x \<Rightarrow> (PCIE_SUCCESS, x) | None \<Rightarrow> (PCIE_CAP_NOT_FOUND, old))"
  using assms cap_loop_list [of E bdf d 8 "0xff" "cfg_value_at E d bdf TYPE01_CPR AND 0xff" "caps bdf" cid "0xff" old]
  by (simp add: regular_function_def val_pcie_find_capability_def read_cfg_mapped cap_of_def pcie_status_defs)

lemma express_cap:
  assumes "regular_function E d caps bdf"
  obtains x where "cap_of E d caps bdf 0x10 = Some x"
  using assms by (cases "cap_of E d caps bdf 0x10") (auto simp: regular_function_def cap_of_def find_None_iff)

lemma shl_1_inj:
  assumes b: "i < 16" "j < 16"
  shows "(shl 1 i :: u32) = shl 1 j \<longleftrightarrow> i = j"
proof
  assume "(shl 1 i :: u32) = shl 1 j"
  then have "bit (shl 1 i :: u32) i = bit (shl 1 j :: u32) i" by simp
  with b show "i = j" by (simp add: bit_simps)
qed simp

lemma port_field_less: "port_field E d caps bdf < 16"
proof -
  have "(w :: u32) AND 0xf \<le> 0xf" for w by (rule word_and_le1)
  then have "unat ((w :: u32) AND 0xf) \<le> 15" for w by (simp add: word_le_nat_alt)
  then show ?thesis unfolding port_field_def using le_imp_less_Suc by fastforce
qed

lemma port_type_regular:
  assumes "regular_function E d caps bdf"
  shows "val_pcie_device_port_type E d bdf = Some (shl 1 (port_field E d caps bdf))"
proof -
  obtain x where x: "cap_of E d caps bdf 0x10 = Some x" using express_cap [OF assms] .
  then show ?thesis
    by (simp add: val_pcie_device_port_type_def pciecs_base_def find_regular [OF assms]
        read_cfg_mapped [OF regular_mapped [OF assms]] val_pcie_is_onchip_peripheral_def port_field_def Let_def
        numeral_eq_Suc)
qed

lemma find_cap_regular:
  "regular_function E d caps bdf \<Longrightarrow> find_cap E d bdf PCIE_CAP cid s =
     Some (case cap_of E d caps bdf cid of Some x \<Rightarrow> (PCIE_SUCCESS, s\<lparr>lv_cap := x\<rparr>) | None \<Rightarrow> (PCIE_CAP_NOT_FOUND, s))"
  by (cases "cap_of E d caps bdf cid") (simp_all add: find_cap_def find_regular)

lemma read_express_regular:
  assumes "regular_function E d caps bdf" "cap_of E d caps bdf 0x10 = Some x"
  shows "read_express E d bdf off s = Some (s\<lparr>lv_cap := x, lv_reg := cfg_value_at E d bdf (x + off)\<rparr>)"
  by (simp add: read_express_def find_cap_regular [OF assms(1)] assms(2) read_reg_def
      read_cfg_mapped [OF regular_mapped [OF assms(1)]])

lemma locals_frame [simp]:
  "lv_fails (not_skipped s) = lv_fails s" "lv_skip (not_skipped s) = 0" "lv_skip (fail_if c s) = lv_skip s"
  "lv_fails (fail_if c s) = lv_fails s + (if c then 1 else 0)"
  "lv_fails (read_reg E d bdf off s) = lv_fails s" "lv_skip (read_reg E d bdf off s) = lv_skip s"
  by (simp_all add: not_skipped_def fail_if_def read_reg_def)

lemma bist_bits:
  fixes v :: u32
  shows "VAL_EXTRACT_BITS v 24 31 AND 0x80 = 0 \<longleftrightarrow> \<not> bit v 31"
    "VAL_EXTRACT_BITS v 24 31 AND 0x40 = 0 \<longleftrightarrow> \<not> bit v 30"
    "VAL_EXTRACT_BITS v 24 31 AND 0x07 = 0 \<longleftrightarrow> \<not> bit v 26 \<and> \<not> bit v 25 \<and> \<not> bit v 24"
proof -
  have e: "(0x80 :: u32) = 2 ^ 7" "(0x40 :: u32) = 2 ^ 6" by simp_all
  have m: "(0x07 :: u32) = mask 3" by (simp add: mask_eq_decr_exp)
  show "VAL_EXTRACT_BITS v 24 31 AND 0x80 = 0 \<longleftrightarrow> \<not> bit v 31"
    unfolding e by (simp only: and_exp_eq_0_iff_not_bit) (simp add: bit_VAL_EXTRACT_BITS)
  show "VAL_EXTRACT_BITS v 24 31 AND 0x40 = 0 \<longleftrightarrow> \<not> bit v 30"
    unfolding e by (simp only: and_exp_eq_0_iff_not_bit) (simp add: bit_VAL_EXTRACT_BITS)
  have "VAL_EXTRACT_BITS v 24 31 AND 0x07 = 0 \<longleftrightarrow> (\<forall>i<3. \<not> bit v (24 + i))"
  proof -
    have "VAL_EXTRACT_BITS v 24 31 AND mask 3 = 0 \<longleftrightarrow> (\<forall>i<32. \<not> (bit v (24 + i) \<and> i < 8 \<and> i < 3))"
      by (auto simp: bit_eq_iff bit_simps bit_VAL_EXTRACT_BITS)
    moreover have "i < 3 \<Longrightarrow> i < 32 \<and> i < 8" for i :: nat by simp
    ultimately show ?thesis unfolding m by blast
  qed
  also have "\<dots> \<longleftrightarrow> \<not> bit v 26 \<and> \<not> bit v 25 \<and> \<not> bit v 24"
    by (auto simp: numeral_eq_Suc less_Suc_eq)
  finally show "VAL_EXTRACT_BITS v 24 31 AND 0x07 = 0 \<longleftrightarrow> \<not> bit v 26 \<and> \<not> bit v 25 \<and> \<not> bit v 24" .
qed

subsection \<open>The tests meet the contract\<close>

interpretation p031: rule_test "p031_step E d" "regular_function E d caps" "rule_applies 31 E d caps" "rule_broken 31 E d caps"
  for E d caps
  by unfold_locales
     (auto simp: p031_step_def rule_applies_def rule_broken_def Let_def read_reg_def read_cfg_mapped [OF regular_mapped] bist_bits)

interpretation p032: rule_test "p032_step E d" "regular_function E d caps" "rule_applies 32 E d caps" "rule_broken 32 E d caps"
  for E d caps
  by unfold_locales
     (auto simp: p032_step_def rule_applies_def rule_broken_def Let_def read_reg_def read_cfg_mapped [OF regular_mapped])

interpretation p033: rule_test "p033_step E d" "regular_function E d caps" "rule_applies 33 E d caps" "rule_broken 33 E d caps"
  for E d caps
proof unfold_locales
  fix a :: pcie_device_attr and s assume r: "regular_function E d caps (attr_bdf a)"
  obtain x where x: "cap_of E d caps (attr_bdf a) 0x10 = Some x" using express_cap [OF r] .
  then show "\<exists>s'. p033_step E d a s = Some s' \<and>
      lv_fails s' = lv_fails s + (if rule_applies 33 E d caps (attr_bdf a) \<and> rule_broken 33 E d caps (attr_bdf a) then 1 else 0) \<and>
      lv_skip s' = (if rule_applies 33 E d caps (attr_bdf a) then 0 else lv_skip s)"
    by (auto simp: p033_step_def read_express_regular [OF r x] rule_applies_def rule_broken_def Let_def)
qed

lemma port_type_eq:
  assumes "regular_function E d caps bdf"
  shows "val_pcie_device_port_type E d bdf = Some ty \<Longrightarrow> ty = RCiEP \<longleftrightarrow> port_field E d caps bdf = 9"
    "val_pcie_device_port_type E d bdf = Some ty \<Longrightarrow> ty = iEP_EP \<longleftrightarrow> port_field E d caps bdf = 12"
    "val_pcie_device_port_type E d bdf = Some ty \<Longrightarrow> ty = iEP_RP \<longleftrightarrow> port_field E d caps bdf = 11"
  using port_type_regular [OF assms] shl_1_inj [OF port_field_less [of E d caps bdf], of 9]
    shl_1_inj [OF port_field_less [of E d caps bdf], of 12] shl_1_inj [OF port_field_less [of E d caps bdf], of 11]
  unfolding port_type_defs by simp_all

interpretation p041: rule_test "p041_step E d" "regular_function E d caps" "rule_applies 41 E d caps" "rule_broken 41 E d caps"
  for E d caps
proof unfold_locales
  fix a :: pcie_device_attr and s assume r: "regular_function E d caps (attr_bdf a)"
  obtain ty where ty: "val_pcie_device_port_type E d (attr_bdf a) = Some ty" using port_type_regular [OF r] by blast
  have hb: "val_pcie_is_host_bridge E d (attr_bdf a) \<longleftrightarrow>
      shr (cfg_value_at E d (attr_bdf a) TYPE01_RIDR) 24 AND 0xFF = 0x06 \<and> shr (cfg_value_at E d (attr_bdf a) TYPE01_RIDR) 16 AND 0xFF = 0x00"
    by (simp add: val_pcie_is_host_bridge_def rd_cfg_def read_cfg_mapped [OF regular_mapped [OF r]] Let_def)
  show "\<exists>s'. p041_step E d a s = Some s' \<and>
      lv_fails s' = lv_fails s + (if rule_applies 41 E d caps (attr_bdf a) \<and> rule_broken 41 E d caps (attr_bdf a) then 1 else 0) \<and>
      lv_skip s' = (if rule_applies 41 E d caps (attr_bdf a) then 0 else lv_skip s)"
    by (auto simp: p041_step_def ty port_type_eq [OF r ty] hb find_cap_regular [OF r] rule_applies_def rule_broken_def
        pcie_status_defs split: option.splits)
qed

interpretation p042: rule_test "p042_step E d" "regular_function E d caps" "rule_applies 42 E d caps" "rule_broken 42 E d caps"
  for E d caps
proof unfold_locales
  fix a :: pcie_device_attr and s assume r: "regular_function E d caps (attr_bdf a)"
  obtain ty where ty: "val_pcie_device_port_type E d (attr_bdf a) = Some ty" using port_type_regular [OF r] by blast
  show "\<exists>s'. p042_step E d a s = Some s' \<and>
      lv_fails s' = lv_fails s + (if rule_applies 42 E d caps (attr_bdf a) \<and> rule_broken 42 E d caps (attr_bdf a) then 1 else 0) \<and>
      lv_skip s' = (if rule_applies 42 E d caps (attr_bdf a) then 0 else lv_skip s)"
    by (auto simp: p042_step_def ty port_type_eq [OF r ty] find_cap_regular [OF r] rule_applies_def rule_broken_def
        pcie_status_defs split: option.splits)
qed

text \<open>The five tests at once.\<close>

lemma rule_payload:
  assumes n: "n = 31 \<or> n = 32 \<or> n = 33 \<or> n = 41 \<or> n = 42"
    and r: "list_all (regular_function E d caps) (table_bdfs t)"
  shows "pcie_payload H E t n d =
    Some ([rule_word (800 + of_nat n) (rule_broken n E d caps) (filter (rule_applies n E d caps) (table_bdfs t))], d)"
proof -
  have b: "map attr_bdf (table_devices t) = table_bdfs t"
    by (simp add: table_devices_def table_bdfs_def)
  then have "\<And>a. a \<in> set (table_devices t) \<Longrightarrow> regular_function E d caps (attr_bdf a)"
    using r by (auto simp: list_all_iff simp flip: b)
  note p = p031.payload [OF this] p032.payload [OF this] p033.payload [OF this] p041.payload [OF this] p042.payload [OF this]
  from n show ?thesis
    by (elim disjE) (simp_all add: pcie_payload_def p b)
qed

subsection \<open>The entry function\<close>

lemma my_index_cong: "g_pe_info_table t = g_pe_info_table s \<Longrightarrow> MPIDR t = MPIDR s \<Longrightarrow> my_index t = my_index s"
  by (simp add: my_index_def val_pe_get_index_mpid_def val_pe_get_mpid_def)

lemma cfg_space_frame [simp]:
  "cfg_space (val_print l m x s) = cfg_space s" "cfg_space (val_report_status i w s) = cfg_space s"
  "cfg_space (val_set_status i w s) = cfg_space s" "cfg_space (set_pending n k s) = cfg_space s"
  by (simp_all add: val_print_def val_report_status_def val_set_status_def set_pending_def fold_frame Let_def)

lemma initialize_frame:
  assumes q: "quiet_installer pal_install" and my: "my_index s = Some my" and n: "test_num \<notin> set (g_skip_test_num s)"
  obtains s1 where "val_initialize_test pal_install test_num desc 1 s = Some (ACS_STATUS_PASS, s1)"
    "g_bsa_tests_total s1 = g_bsa_tests_total s + 1" "g_bsa_tests_pass s1 = g_bsa_tests_pass s"
    "g_bsa_tests_fail s1 = g_bsa_tests_fail s" "my_index s1 = Some my" "cfg_space s1 = cfg_space s"
proof -
  have h: "f (val_pe_initialize_default_exception_handler pal_install h u) = f u"
    if "\<And>ty h u. f (pal_install ty h u) = f u" "\<And>e u. f (u\<lparr>g_esr_handler := e\<rparr>) = f u" for f :: "'a pcie_acs \<Rightarrow> 'b" and h u
    using that by (simp add: val_pe_initialize_default_exception_handler_def val_pe_install_esr_def val_gic_bsa_install_esr_def)
  note q' = q [unfolded quiet_installer_def, rule_format]
  note hs = h [of g_bsa_tests_total] h [of g_bsa_tests_pass] h [of g_bsa_tests_fail] h [of g_skip_test_num]
    h [of g_pe_info_table] h [of MPIDR] h [of cfg_space]
  let ?s = "val_pe_initialize_default_exception_handler pal_install ''val_pe_default_esr''
    (val_report_status 0 (BSA_ACS_START test_num) (val_print ACS_PRINT_TEST desc 0 (val_print ACS_PRINT_ERR ''%4d : '' (ucast test_num) s)))"
  let ?s1 = "set_pending test_num 1 (?s\<lparr>g_bsa_tests_total := g_bsa_tests_total ?s + 1\<rparr>)"
  have "my_index ?s1 = Some my"
    unfolding my [symmetric] by (rule my_index_cong) (use q' in \<open>simp_all add: hs\<close>)
  moreover have "val_initialize_test pal_install test_num desc 1 s = Some (ACS_STATUS_PASS, ?s1)"
    using n q' by (simp add: val_initialize_test_def my Let_def hs)
  ultimately show ?thesis
    by (intro that [of ?s1]) (use q' in \<open>simp_all add: hs\<close>)
qed

lemma fold_set_status:
  "val_get_status i (fold (val_set_status i) (ws @ [w]) s) = w"
  "g_bsa_tests_total (fold (val_set_status i) ws s) = g_bsa_tests_total s"
  "g_bsa_tests_pass (fold (val_set_status i) ws s) = g_bsa_tests_pass s"
  "g_bsa_tests_fail (fold (val_set_status i) ws s) = g_bsa_tests_fail s"
  "g_pe_info_table (fold (val_set_status i) ws s) = g_pe_info_table s"
  "MPIDR (fold (val_set_status i) ws s) = MPIDR s"
  by (simp_all add: fold_frame)

lemma os_entry_verdict:
  assumes "quiet_installer pal_install" "my_index s = Some my" "test_num \<notin> set (g_skip_test_num s)"
    and P: "P (cfg_space s) = Some (ws @ [w], d)"
  obtains u where "os_entry pal_install smc env test_num desc P paddr s =
      Some (if IS_TEST_PASS w then ACS_STATUS_PASS else if IS_TEST_SKIP w then ACS_STATUS_SKIP else ACS_STATUS_FAIL, u)"
    "g_bsa_tests_total u = g_bsa_tests_total s + 1"
    "g_bsa_tests_pass u = g_bsa_tests_pass s + (if IS_TEST_PASS w then 1 else 0)"
    "g_bsa_tests_fail u = g_bsa_tests_fail s + (if IS_TEST_PASS w \<or> IS_TEST_SKIP w then 0 else 1)"
    "cfg_space u = d"
proof -
  obtain s1 where s1: "val_initialize_test pal_install test_num desc 1 s = Some (ACS_STATUS_PASS, s1)"
    "g_bsa_tests_total s1 = g_bsa_tests_total s + 1" "g_bsa_tests_pass s1 = g_bsa_tests_pass s"
    "g_bsa_tests_fail s1 = g_bsa_tests_fail s" "my_index s1 = Some my" "cfg_space s1 = cfg_space s"
    using initialize_frame [OF assms(1-3)] by metis
  define s2 where "s2 = (fold (val_set_status my) (ws @ [w]) s1)\<lparr>cfg_space := d\<rparr>"
  have r: "run_payload smc env test_num P paddr s1 = Some s2"
    by (simp add: run_payload_def s1(5,6) P val_run_test_payload_def s2_def)
  have i2: "my_index s2 = Some my"
    unfolding s1(5) [symmetric] by (rule my_index_cong) (simp_all add: s2_def fold_set_status)
  have g2: "val_get_status my s2 = w"
    using fold_set_status(1) [of my ws w s1] by (simp add: s2_def val_get_status_def)
  have c2: "g_bsa_tests_total s2 = g_bsa_tests_total s1" "g_bsa_tests_pass s2 = g_bsa_tests_pass s1"
    "g_bsa_tests_fail s2 = g_bsa_tests_fail s1" "cfg_space s2 = d"
    by (simp_all add: s2_def fold_set_status)
  show ?thesis
    by (rule that [of "val_report_status 0 (BSA_ACS_END test_num) (snd (verdict w (val_report_status my w s2)))"])
       (simp_all add: os_entry_def s1 r val_check_for_error_def i2 g2 verdict_def Let_def c2)
qed

lemma STATE_OF_RESULT_wide:
  assumes "test_num < 0x10000" and "status < 0x10000000" and "st < 0x10"
  shows "STATE_OF (RESULT st test_num status) = st"
proof -
  have t: "unat test_num < 2 ^ 16" "unat status < 2 ^ 28" "unat st < 2 ^ 4"
    using assms by (simp_all add: word_less_nat_alt)
  show ?thesis
    by (rule bit_word_eqI)
       (use bit_less_exp [OF _ t(1)] bit_less_exp [OF _ t(2)] bit_less_exp [OF _ t(3)] in
        \<open>fastforce simp: STATE_OF_def RESULT_def mask_lits bit_simps\<close>)
qed

lemma rule_word_state:
  assumes "test_num < 0x10000" "length fns < 0x10000000"
  shows "IS_TEST_PASS (rule_word test_num broken fns) \<longleftrightarrow> fns \<noteq> [] \<and> \<not> list_ex broken fns"
    "IS_TEST_SKIP (rule_word test_num broken fns) \<longleftrightarrow> fns = []"
proof -
  have "length (filter broken fns) < 0x10000000"
    using assms(2) length_filter_le [of broken fns] by (rule le_less_trans [rotated])
  then have "(of_nat (length (filter broken fns)) :: u32) < 0x10000000"
    by (simp add: word_less_nat_alt unat_of_nat)
  then show "IS_TEST_PASS (rule_word test_num broken fns) \<longleftrightarrow> fns \<noteq> [] \<and> \<not> list_ex broken fns"
    "IS_TEST_SKIP (rule_word test_num broken fns) \<longleftrightarrow> fns = []"
    using assms(1)
    by (simp_all add: rule_word_def is_test_defs RESULT_PASS_def RESULT_FAIL_def RESULT_SKIP_def STATE_OF_RESULT_wide)
qed

text \<open>The messages of an entry do not matter.\<close>

lemma bf_entry_ok_entry:
  "bf_entry_ok (bf_entry ty cid ecid off ports st en v attr e1 e2) \<longleftrightarrow> st \<le> en \<and>
     REG_SHIFT (ucast off AND 0x3) st + unat (en - st) < 32 \<and>
     shr (shl v (REG_SHIFT (ucast off AND 0x3) st)) (REG_SHIFT (ucast off AND 0x3) st) AND REG_MASK en st = v \<and>
     (ucast ports :: u16) \<noteq> 0 \<and> ty \<noteq> PCIE_ECAP \<and> (ty = HEADER \<longleftrightarrow> cid = 0)"
  by (simp add: bf_entry_ok_def bf_entry_def field_of_def)

subsection \<open>Lemmas: saving and restoring configuration space\<close>

lemma distinct_cfg_words: "distinct (cfg_words addr)"
proof -
  have u: "unat (of_nat m :: u64) = m" if "m < 4096" for m
    using that by (simp add: unat_of_nat take_bit_nat_eq_self)
  have "i = j" if "i < 1024" "j < 1024" "(4 * of_nat i :: u64) = 4 * of_nat j" for i j
  proof -
    have "(of_nat (4 * i) :: u64) = of_nat (4 * j)" using that(3) by simp
    moreover have "4 * i < 4096" "4 * j < 4096" using that(1,2) by simp_all
    ultimately have "4 * i = 4 * j" using u by metis
    then show "i = j" by simp
  qed
  then have "distinct (map (\<lambda>i. addr + 4 * of_nat i :: u64) [0..<n])" if "n \<le> 1024" for n
    using that by (auto simp: distinct_map inj_on_def)
  then show ?thesis unfolding cfg_words_def by blast
qed

lemma fold_store_other:
  "memory_like E \<Longrightarrow> a \<notin> set as \<Longrightarrow> cfg_ld E a (fold (\<lambda>(b, v). cfg_st E b v) (zip as vs) d) = cfg_ld E a d"
proof (induction as arbitrary: vs d)
  case (Cons b as)
  then show ?case by (cases vs) (auto simp: memory_like_def)
qed simp

lemma fold_store_same:
  "memory_like E \<Longrightarrow> distinct as \<Longrightarrow> a \<in> set as \<Longrightarrow>
   cfg_ld E a (fold (\<lambda>(b, v). cfg_st E b v) (zip as (map (\<lambda>b. cfg_ld E b d) as)) d1) = cfg_ld E a d"
proof (induction as arbitrary: d1)
  case (Cons b as)
  show ?case
  proof (cases "a = b")
    case True
    with Cons.prems show ?thesis by (simp add: fold_store_other) (simp add: memory_like_def)
  qed (use Cons in simp)
qed simp

lemma restore_save:
  "memory_like E \<Longrightarrow> a \<in> set (cfg_words addr) \<Longrightarrow> cfg_ld E a (restore_space E addr (save_space E addr d) d1) = cfg_ld E a d"
  by (simp add: restore_space_def save_space_def fold_store_same distinct_cfg_words)

lemma read_twice:
  "snd (val_pcie_read_cfg E d bdf off (lv_reg (read_reg E d bdf off s))) = lv_reg (read_reg E d bdf off s)"
  "lv_reg (fail_if c s) = lv_reg s"
  by (cases "cfg_mapped E bdf"; simp add: read_reg_def fail_if_def read_cfg_mapped read_cfg_unmapped)+

lemma read_express_fails: "read_express E d bdf off s = Some s1 \<Longrightarrow> lv_fails s1 = lv_fails s"
  by (auto simp: read_express_def find_cap_def split: Option.bind_splits)

subsection \<open>Lemmas: registers that the tests do not mean\<close>

text \<open>
  \<open>os_p057\<close> takes the bits of the ACS capability register from the AER capability: with the ACS capability at \<open>x\<close> and AER at
  \<open>y\<close>, only the register at \<open>y + 4\<close> counts.
\<close>

lemma p057_reads_aer:
  assumes r: "regular_function E d caps (attr_bdf a)" and "port_field E d caps (attr_bdf a) = 9"
    and "val_pcie_multifunction_support E d (attr_bdf a) = 0" and "val_pcie_dev_p2p_support H (attr_bdf a) = 0"
    and acs: "\<And>c. val_pcie_find_capability E d (attr_bdf a) PCIE_ECAP 0x000D c = Some (PCIE_SUCCESS, x)"
    and aer: "\<And>c. val_pcie_find_capability E d (attr_bdf a) PCIE_ECAP 0x0001 c = Some (PCIE_SUCCESS, y)"
  shows "map_option lv_fails (p057_step H E d a s) =
    Some (lv_fails s + (if clear_bits [2, 3, 6] (cfg_value_at E d (attr_bdf a) (y + 4)) > 0 then 1 else 0))"
proof -
  obtain ty where ty: "val_pcie_device_port_type E d (attr_bdf a) = Some ty" using port_type_regular [OF r] by blast
  show ?thesis
    using assms(2-4)
    by (simp add: p057_step_def ty port_type_eq [OF r ty] find_cap_def acs aer read_reg_def
        read_cfg_mapped [OF regular_mapped [OF r]] not_skipped_def fail_if_def Let_def)
qed

text \<open>\<open>os_p036\<close> to \<open>os_p039\<close> read Device Capabilities 2 at another offset than the table of \<open>os_p026\<close>, which checks the same register.\<close>

lemma dcap2_offsets_differ:
  "list_all (\<lambda>bf. cap_id bf = 0x10 \<and> ucast (reg_offset bf) \<noteq> DCAP2R_OFFSET) bf_info_table26"
  by (simp add: bf_info_table26_def bf_entry_def DCAP2R_OFFSET_def)

subsection \<open>Properties\<close>


lemma rciep_values:
  "cfg_value_at example_env rciep_cfg 0x100 0x34 = 0x40" "cfg_value_at example_env rciep_cfg 0x100 0x40 = 0x00925010"
  "cfg_value_at example_env rciep_cfg 0x100 0x44 = 0x2" "cfg_value_at example_env rciep_cfg 0x100 0x50 = 0x5"
  "cfg_value_at example_env rciep_cfg 0x100 0x8 = 0" "table_bdfs rciep_table = [0x100]"
  by code_simp+

lemma rciep_regular: "regular_function example_env rciep_cfg rciep_caps 0x100"
  using example_mapped by (simp add: regular_function_def rciep_values rciep_caps_def pcie_status_defs)

lemma rciep_system_simps:
  "cfg_space rciep_system = rciep_cfg" "my_index rciep_system = Some 0" "g_skip_test_num rciep_system = [10000, 10000]"
proof -
  have "my_index rciep_system = my_index two_pe_system"
    by (simp add: rciep_system_def acs.extend_def my_index_def val_pe_get_index_mpid_def val_pe_get_mpid_def)
  then show "my_index rciep_system = Some 0" by (simp add: two_pe_system_my_index)
qed (simp_all add: rciep_system_def acs.extend_def two_pe_system_def)








end
