(* ===== verification/Spec2Isabelle.thy ===== *)
theory Spec2Isabelle
  imports Acs_Infra Acs_Pgt_Walk Acs_Pcie_Check Acs_Smmu_Check Acs_Its_Check Acs_Gic_Check Acs_Devices_Check Acs_Modules_Check
    Acs_Pal_Iovirt_Check Acs_Pal_Acpi_Check Acs_Pal_Devices_Check Acs_Pal_Dt_Check Acs_Pal_Dt_Dev Acs_App Acs_Tests_Pcie_Check
begin

text \<open>
  A verification development for the Arm Base System Architecture Compliance Suite (BSA-ACS).

  \<^bold>\<open>The program.\<close>  The suite is a UEFI application (\<^verbatim>\<open>uefi_app\<close>) that runs compliance tests (\<^verbatim>\<open>test_pool\<close>) on a board.  Below the
  tests are two layers: VAL (\<^verbatim>\<open>val\<close>), which holds the infrastructure of the tests and the drivers of the page
  tables, PCIe, SMMU, GIC, timers and watchdogs, and PAL (\<^verbatim>\<open>platform\<close>), which reads the firmware tables and makes
  the calls of the platform.  The application fills the information tables through PAL and then calls the module
  functions \<open>val_*_execute_tests\<close>; a test sets its result in memory shared with the other PEs and VAL collects it.

  \<^bold>\<open>Theories and sources.\<close>
  \<^item> \<open>Acs_Prelude\<close>: machine words, bit-field macros, lemmas on words and lists; \<open>Acs_Loops\<close>: loops that may not
    end, with the locale \<open>tail_loop\<close>; \<open>Acs_Tables\<close>: the locale \<open>instance_search\<close> of searches in tables with a last entry;
    \<open>Acs_Rings\<close>: the locale \<open>slot_array\<close> of command queues in memory.
  \<^item> \<open>Acs_Status\<close> and \<open>Acs_Infra\<close>: result words and globals (\<open>bsa_acs_common.h\<close>, \<open>acs_status.c\<close>), life cycle of a test
    (\<open>acs_test_infra.c\<close>), PE table and start of PEs (\<open>acs_pe_infra.c\<close>).
  \<^item> \<open>Acs_Memory\<close>: \<open>acs_memory.c\<close>; \<open>Acs_Pgt\<close> and \<open>Acs_Pgt_Walk\<close>: \<open>acs_pgt.c\<close> with the architectural table walk as its
    specification.
  \<^item> \<open>Acs_Pcie\<close>, \<open>Acs_Pcie_Table\<close>, \<open>Acs_Pcie_Check\<close>: \<open>acs_pcie.c\<close>, \<open>sys_arch_src/pcie/pcie.c\<close>.
  \<^item> \<open>Acs_Iovirt\<close>: \<open>acs_iovirt.c\<close>; \<open>Acs_Smmu\<close> and \<open>Acs_Smmu_Check\<close>: \<open>sys_arch_src/smmu_v3/smmu_v3.c\<close>, \<open>acs_smmu.c\<close>.
  \<^item> \<open>Acs_Gic\<close> and \<open>Acs_Gic_Check\<close>: \<open>acs_gic.c\<close>, \<open>acs_gic_support.c\<close>, \<open>acs_gic_v2m.c\<close> and \<open>sys_arch_src/gic\<close>;
    \<open>Acs_Its\<close> and \<open>Acs_Its_Check\<close>: \<open>platform/pal_uefi/src_gic_its\<close>.
  \<^item> \<open>Acs_Devices\<close> and \<open>Acs_Devices_Check\<close>: \<open>acs_peripherals.c\<close>, \<open>acs_timer.c\<close>, \<open>acs_timer_support.c\<close>, \<open>acs_wd.c\<close>,
    \<open>acs_dma.c\<close>, \<open>acs_exerciser.c\<close>, \<open>acs_wakeup.c\<close>.
  \<^item> \<open>Acs_Pal_Acpi\<close> and \<open>Acs_Pal_Acpi_Check\<close>: the ACPI tables of \<open>platform/pal_uefi/src\<close> (\<open>pal_acpi.c\<close>, the tables of \<open>pal_pe.c\<close>,
    \<open>pal_gic.c\<close>, \<open>pal_timer_wd.c\<close>, \<open>pal_pcie.c\<close>); \<open>Acs_Pal_Iovirt\<close> and \<open>Acs_Pal_Iovirt_Check\<close>: the IORT parser of \<open>pal_iovirt.c\<close>, on
    the words of the table.
  \<^item> \<open>Acs_Pal_Devices\<close>: \<open>pal_pcie_enumeration.c\<close>, \<open>pal_peripherals.c\<close>; \<open>Acs_Pal_Exerciser\<close>: \<open>pal_exerciser.c\<close>, accesses
    and console of \<open>pal_misc.c\<close>, in the state monad of the library; \<open>Acs_Pal_Services\<close>: services of \<open>pal_gic.c\<close>, \<open>pal_pe.c\<close>
    and \<open>pal_misc.c\<close>; \<open>Acs_Pal_Devices_Check\<close>: their lemmas.
  \<^item> \<open>Acs_Pal_Dt\<close>, \<open>Acs_Pal_Dt_Dev\<close>, \<open>Acs_Pal_Dt_Check\<close>: the tables from a device tree (\<open>platform/pal_uefi_dt/src\<close>), with libfdt as
    a parameter.
  \<^item> \<open>Acs_Modules\<close> and \<open>Acs_Modules_Check\<close>: the module functions and the options of \<open>BsaAcsMain.c\<close>; \<open>Acs_App\<close>: the rest
    of \<open>BsaAcsMain.c\<close>, the tables and the order of the modules.
  \<^item> \<open>Acs_Tests_Data\<close>, \<open>Acs_Tests_Pcie\<close>, \<open>Acs_Tests_Pcie_Check\<close>: the tests of the PCIe module (\<open>test_pool/pcie/operating_system\<close>)
    with their tables of bit-fields.

  \<^bold>\<open>How the code is modelled.\<close>  C integers are words of their width.  A function that changes state takes and returns
  a record of the globals it uses; the components that print extend the record \<open>acs\<close> and log what reaches
  \<open>pal_print\<close>, the others leave messages out and say so.  Hardware, firmware and the assembly routines are parameters: records
  of functions on a device state of arbitrary type, so that reads may have effects.  An output parameter is
  passed in and returned; a local that the code may read before it is assigned has a parameter for its contents.  An array behind a
  pointer is a total function of the index when the code does not bound the index, a list when it has a last
  entry; running past the last entry, a loop that does not end and a call through a null pointer are \<open>None\<close>.
  Loops that may not end are \<open>partial_function\<close>s over \<open>option\<close> (\<open>tail_iter\<close>, \<open>fill_loop\<close>), the others have
  termination proofs, and statements that such a loop returns are proved as \<open>\<exists>r. loop x = Some r\<close>.  The one
  function with fuel is \<open>iort_add_block\<close>, which calls itself along the references of the IORT: its fuel is the number of nested
  calls, and for a table without reference cycles the rank of a node is enough, as the theorem on it shows.

  \<^bold>\<open>What is shown.\<close>
  \<^item> Results: result words keep their parts apart; a multi-PE test that is reported as passed has finished on all
    PEs and none failed; a module passes exactly if all enabled tests passed.
  \<^item> Page tables: creation refines the walk of the architecture (every address of a region that fits is
    translated as requested, or the memory ran out), destruction returns every page once, attributes read back;
    the limits of the code (first region only, 32-bit masks, crossing of a block boundary) are stated as theorems.
  \<^item> PCIe: the device table is complete, the bit-field verdict, the first capability is found, configuration addresses do
    not overlap; cyclic capability lists do not terminate.
  \<^item> IO virtualisation and SMMU: device identifiers follow the mappings, commands are appended to the
    queue, a new stream table aborts, mapping one stream leaves the others alone; overrun of the queue, ignored
    reset failures and the unmapping of two-level tables are stated as the code has them.
  \<^item> GIC and ITS: an installed handler runs between acknowledge and end of interrupt; the search for the frame of a PE
    equals its reference definition (and sees only affinity level 0); LPI commands are appended in order and never wrap.
  \<^item> Devices: table queries return the requested instance; the index of platform timers is off by one at block ends.
  \<^item> Platform layer: the tables of PEs and of the GIC list the MADT (and the CPU nodes of a device tree) in order,
    secondary stacks are disjoint, the counters of the I/O virtualisation table agree with its blocks and the
    overlap check is sound, the memory map of UEFI answers the queries of VAL.  Lemmas show what the code does wrong: structures of length 0
    and a PMU node in the wrong place keep loops running for ever, devices with small numbers are missed, and others.
  \<^item> Tests and application: the verdict of a test of a PCIe rule, through its entry function, is that of the rule; the reset
    test restores what it resets; the tables of bit-fields are sound; the application returns 0 whatever the tests say.  Seven tests
    are always skipped on UEFI and one walks the wrong list; both are theorems.
  \<^bold>\<open>Interfaces.\<close>  \<open>tail_loop\<close> is interpreted on \<open>tail_iter\<close>, \<open>instance_search\<close> on the memory and the peripheral search,
  \<open>block_search\<close> (in \<open>Acs_Iovirt\<close>) on the SMMU and root complex searches, \<open>slot_array\<close> on the queues of the SMMU and the
  ITS, \<open>test_module\<close> on six of the module functions, \<open>rule_test\<close> (in \<open>Acs_Tests_Pcie_Check\<close>) on the steps of five PCIe tests.

  \<^bold>\<open>Not modelled.\<close>  The tests of \<^verbatim>\<open>test_pool\<close> other than those of PCIe (a parameter of the modules), the Linux application and
  driver glue (\<^verbatim>\<open>linux_app\<close>), libfdt and the protocols of UEFI (parameters), the functions of PAL that only pass on a call
  or return a constant, the dump functions, the copies in \<^verbatim>\<open>pal_uefi_dt\<close> of files and functions that are modelled from \<^verbatim>\<open>pal_uefi\<close>,
  the assembly files (but for the stack pointer of a secondary PE), documents and prebuilt binaries.  Shifts of a
  32-bit constant by 32 or more, which C leaves undefined, are shifts of words here; the theorems that
  depend on them assume smaller shifts.
\<close>

end
